(* ===== verification/VH_Prelude.thy ===== *)
theory VH_Prelude
  imports Main "HOL-Library.Word" "HOL-Library.Multiset"
begin

text \<open>
  Shared vocabulary of the development: the Python values the programs handle
  (\<open>bytes\<close>, \<open>str\<close>, results of calls that can raise), the few \<open>bytes\<close>, \<open>int\<close> and
  \<open>str\<close> methods they use, and the generic lemmas on lists and words that the component
  theories share.
\<close>

unbundle bit_operations_syntax

named_theorems pystr_simps \<open>evaluation of string helpers on literals\<close>
named_theorems len_simps \<open>lengths of byte strings built by the code\<close>

section \<open>Python values\<close>

text \<open>
  \<open>bytes\<close> is a list of octets.  A Python \<open>str\<close> is the list of its code points, so that
  \<open>len\<close>, slicing and the UTF-8 encoding mean what they mean in Python; \<open>ascii\<close> turns a
  HOL literal into one.
\<close>

type_synonym bytes = "8 word list"
type_synonym pystr = "nat list"

definition ascii :: "string \<Rightarrow> pystr" where
  "ascii s = map of_char s"

definition asciib :: "string \<Rightarrow> bytes" where
  "asciib s = map (\<lambda>c. word_of_nat (of_char c)) s"

lemma length_ascii [simp, len_simps]: "length (ascii s) = length s"
  by (simp add: ascii_def)

lemma length_asciib [simp, len_simps]: "length (asciib s) = length s"
  by (simp add: asciib_def)

section \<open>Exceptions\<close>

text \<open>
  A call that can raise returns \<open>Inl\<close> of the exception class, or \<open>Inr\<close> of its value.
  \<open>bindE\<close> is sequencing, \<open>mapE\<close> is a comprehension whose first exception wins.
\<close>

datatype py_exc = ValueError | TypeError | KeyError | AttributeError | UnicodeEncodeError
  | OverflowError | RecoveryError

definition bindE :: "'e + 'a \<Rightarrow> ('a \<Rightarrow> 'e + 'b) \<Rightarrow> 'e + 'b" where
  "bindE r f = (case r of Inl e \<Rightarrow> Inl e | Inr v \<Rightarrow> f v)"

lemma bindE_simps [simp]: "bindE (Inl e) f = Inl e" "bindE (Inr v) f = f v"
  by (simp_all add: bindE_def)

lemma bindE_eq_Inr: "bindE r f = Inr y \<longleftrightarrow> (\<exists>v. r = Inr v \<and> f v = Inr y)"
  by (cases r) auto

lemma bindE_eq_Inl: "bindE r f = Inl e \<longleftrightarrow> r = Inl e \<or> (\<exists>v. r = Inr v \<and> f v = Inl e)"
  by (cases r) auto

fun mapE :: "('a \<Rightarrow> 'e + 'b) \<Rightarrow> 'a list \<Rightarrow> 'e + 'b list" where
  "mapE f [] = Inr []"
| "mapE f (x # xs) = bindE (f x) (\<lambda>y. bindE (mapE f xs) (\<lambda>ys. Inr (y # ys)))"

lemma mapE_Inr_iff: "mapE f xs = Inr ys \<longleftrightarrow> map f xs = map Inr ys"
  by (induction xs arbitrary: ys) (auto simp: bindE_eq_Inr Cons_eq_map_conv)

lemma mapE_InrD: "mapE f xs = Inr ys \<Longrightarrow> length ys = length xs \<and> (\<forall>i<length xs. f (xs ! i) = Inr (ys ! i))"
  by (metis length_map mapE_Inr_iff nth_map)

section \<open>Integers and bytes\<close>

text \<open>\<open>int.from_bytes(b, "big")\<close> and \<open>int.from_bytes(b, "little")\<close>.\<close>

fun from_bytes_le :: "bytes \<Rightarrow> int" where
  "from_bytes_le [] = 0"
| "from_bytes_le (b # bs) = uint b + 256 * from_bytes_le bs"

definition from_bytes_be :: "bytes \<Rightarrow> int" where
  "from_bytes_be bs = from_bytes_le (rev bs)"

text \<open>\<open>v.to_bytes(n, "little")\<close> for a \<open>v\<close> that fits \<open>n\<close> octets.\<close>

fun to_bytes_le :: "nat \<Rightarrow> int \<Rightarrow> bytes" where
  "to_bytes_le 0 v = []"
| "to_bytes_le (Suc n) v = word_of_int v # to_bytes_le n (v div 256)"

definition to_bytes_be :: "nat \<Rightarrow> int \<Rightarrow> bytes" where
  "to_bytes_be n v = rev (to_bytes_le n v)"

lemma length_to_bytes_le [simp, len_simps]: "length (to_bytes_le n v) = n"
  by (induction n arbitrary: v) auto

lemma length_to_bytes_be [simp, len_simps]: "length (to_bytes_be n v) = n"
  by (simp add: to_bytes_be_def)

lemma uint_octet_bounds: "0 \<le> uint (b :: 8 word) \<and> uint b < 256"
  using uint_lt2p [of b] by simp

lemma from_bytes_le_bounds:
  "0 \<le> from_bytes_le bs \<and> from_bytes_le bs < 256 ^ length bs"
proof (induction bs)
  case Nil
  then show ?case by simp
next
  case (Cons b bs)
  have "0 \<le> uint b" and "uint b < 256"
    using uint_octet_bounds [of b] by auto
  moreover have "from_bytes_le bs \<le> 256 ^ length bs - 1"
    using Cons by simp
  ultimately show ?case using Cons by simp
qed

lemma from_bytes_be_bounds:
  "0 \<le> from_bytes_be bs \<and> from_bytes_be bs < 256 ^ length bs"
  using from_bytes_le_bounds [of "rev bs"] by (simp add: from_bytes_be_def)

lemma word8_of_from_bytes: "word_of_int (uint b + 256 * v) = (b :: 8 word)"
proof -
  have "(uint b + 256 * v) mod 256 = uint b"
    using uint_octet_bounds [of b] by simp
  then show ?thesis by (simp only: word_uint_eq_iff uint_word_of_int) simp
qed

lemma to_bytes_from_bytes_le: "to_bytes_le (length bs) (from_bytes_le bs) = bs"
proof (induction bs)
  case Nil
  then show ?case by simp
next
  case (Cons b bs)
  have "(uint b + 256 * from_bytes_le bs) div 256 = from_bytes_le bs"
    using uint_octet_bounds [of b] by (simp add: div_pos_pos_trivial)
  then show ?case using Cons
    by (simp only: list.size from_bytes_le.simps to_bytes_le.simps add_0_right add_Suc_right
        word8_of_from_bytes)
qed

lemma to_bytes_from_bytes_be: "to_bytes_be (length bs) (from_bytes_be bs) = bs"
  using to_bytes_from_bytes_le [of "rev bs"]
  by (simp add: to_bytes_be_def from_bytes_be_def)

lemma from_bytes_be_inject:
  "length a = length b \<Longrightarrow> from_bytes_be a = from_bytes_be b \<longleftrightarrow> a = b"
  by (metis to_bytes_from_bytes_be)

lemma int_div_less_self_bound: "0 \<le> v \<Longrightarrow> v < 256 * k \<Longrightarrow> v div 256 < (k :: int)"
  by linarith

lemma from_to_bytes_le:
  "0 \<le> v \<Longrightarrow> v < 256 ^ n \<Longrightarrow> from_bytes_le (to_bytes_le n v) = v"
proof (induction n arbitrary: v)
  case 0
  then show ?case by simp
next
  case (Suc n)
  have "v div 256 < 256 ^ n"
    using Suc.prems by (intro int_div_less_self_bound) simp_all
  moreover have "0 \<le> v div 256" using Suc.prems by simp
  ultimately have "from_bytes_le (to_bytes_le n (v div 256)) = v div 256"
    by (rule Suc.IH [rotated])
  then show ?case by (simp add: uint_word_of_int)
qed

lemma from_to_bytes_be:
  "0 \<le> v \<Longrightarrow> v < 256 ^ n \<Longrightarrow> from_bytes_be (to_bytes_be n v) = v"
  by (simp add: from_bytes_be_def to_bytes_be_def from_to_bytes_le)

end
