(* ===== verification/VH_Keccak.thy ===== *)
theory VH_Keccak
  imports VH_Prelude
begin

text \<open>
  The pure-Python Keccak-f[1600] and \<open>keccak256\<close> of \<open>verifier-py/verify_vh.py\<close>.

  The state is the code's list of five lists of five Python integers; every lane is an
  unbounded \<open>int\<close> as in Python, and \<open>lanes_ok\<close> is the invariant that makes the masked
  integer arithmetic meaningful.  The second half relates it to a specification over
  \<open>64 word\<close> lanes written independently of the code's tables: the step mappings of the
  Keccak reference, with rotation offsets and round constants derived from their
  generating rules instead of being tabulated.
\<close>

section \<open>The program\<close>

definition keccak_round_constants :: "int list" where
  "keccak_round_constants = [
    0x0000000000000001, 0x0000000000008082, 0x800000000000808A, 0x8000000080008000,
    0x000000000000808B, 0x0000000080000001, 0x8000000080008081, 0x8000000000008009,
    0x000000000000008A, 0x0000000000000088, 0x0000000080008009, 0x000000008000000A,
    0x000000008000808B, 0x800000000000008B, 0x8000000000008089, 0x8000000000008003,
    0x8000000000008002, 0x8000000000000080, 0x000000000000800A, 0x800000008000000A,
    0x8000000080008081, 0x8000000000008080, 0x0000000080000001, 0x8000000080008008]"

definition keccak_rotation_offsets :: "nat list list" where
  "keccak_rotation_offsets = [
    [0, 36, 3, 41, 18],
    [1, 44, 10, 45, 2],
    [62, 6, 43, 15, 61],
    [28, 55, 25, 21, 56],
    [27, 20, 39, 8, 14]]"

definition mask64 :: int where
  "mask64 = push_bit 64 1 - 1"

definition rotl64 :: "int \<Rightarrow> nat \<Rightarrow> int" where
  "rotl64 v s = (push_bit s v OR drop_bit (64 - s) v) AND mask64"

type_synonym kstate = "int list list"

text \<open>\<open>state[x][y]\<close> and \<open>state[x][y] = v\<close>.\<close>

definition lane :: "kstate \<Rightarrow> nat \<Rightarrow> nat \<Rightarrow> int" where
  "lane st x y = st ! x ! y"

definition set_lane :: "kstate \<Rightarrow> nat \<Rightarrow> nat \<Rightarrow> int \<Rightarrow> kstate" where
  "set_lane st x y v = st[x := (st ! x)[y := v]]"

definition xor_lane :: "kstate \<Rightarrow> nat \<Rightarrow> nat \<Rightarrow> int \<Rightarrow> kstate" where
  "xor_lane st x y v = set_lane st x y (lane st x y XOR v)"

definition zero_state :: kstate where
  "zero_state = map (\<lambda>_. map (\<lambda>_. 0) [0..<5]) [0..<5]"

text \<open>The index pairs of \<open>for x in range(5): for y in range(5)\<close>, in order.\<close>

definition lane_pairs :: "(nat \<times> nat) list" where
  "lane_pairs = concat (map (\<lambda>x. map (\<lambda>y. (x, y)) [0..<5]) [0..<5])"

definition theta_c :: "kstate \<Rightarrow> int list" where
  "theta_c st = map (\<lambda>x. lane st x 0 XOR lane st x 1 XOR lane st x 2 XOR lane st x 3 XOR lane st x 4) [0..<5]"

text \<open>Python's \<open>(x - 1) % 5\<close> is \<open>(x + 4) % 5\<close> on the indices used.\<close>

definition theta_d :: "int list \<Rightarrow> int list" where
  "theta_d c = map (\<lambda>x. c ! ((x + 4) mod 5) XOR rotl64 (c ! ((x + 1) mod 5)) 1) [0..<5]"

definition theta :: "kstate \<Rightarrow> kstate" where
  "theta st = (let d = theta_d (theta_c st)
    in foldl (\<lambda>s (x, y). xor_lane s x y (d ! x)) st lane_pairs)"

definition rho_pi :: "kstate \<Rightarrow> kstate" where
  "rho_pi st = foldl (\<lambda>b (x, y).
      set_lane b y ((2 * x + 3 * y) mod 5) (rotl64 (lane st x y) (keccak_rotation_offsets ! x ! y)))
    zero_state lane_pairs"

definition chi :: "kstate \<Rightarrow> kstate \<Rightarrow> kstate" where
  "chi st b = foldl (\<lambda>s (x, y).
      set_lane s x y (lane b x y XOR (NOT (lane b ((x + 1) mod 5) y) AND lane b ((x + 2) mod 5) y)))
    st lane_pairs"

definition iota :: "int \<Rightarrow> kstate \<Rightarrow> kstate" where
  "iota rc st = xor_lane st 0 0 rc"

definition keccak_round :: "kstate \<Rightarrow> int \<Rightarrow> kstate" where
  "keccak_round st rc = (let st1 = theta st; b = rho_pi st1 in iota rc (chi st1 b))"

definition keccak_f1600 :: "kstate \<Rightarrow> kstate" where
  "keccak_f1600 st = foldl keccak_round st keccak_round_constants"

definition rate :: nat where
  "rate = 136"

text \<open>\<open>while len(padded) % rate != 0: padded.append(0x00)\<close>\<close>

function pad_zeros :: "bytes \<Rightarrow> bytes" where
  "pad_zeros p = (if length p mod rate \<noteq> 0 then pad_zeros (p @ [0]) else p)"
  by pat_completeness auto
termination
proof (relation "measure (\<lambda>p. (rate - length p mod rate) mod rate)")
  fix p :: bytes
  assume "length p mod rate \<noteq> 0"
  then show "(p @ [0], p) \<in> measure (\<lambda>p. (rate - length p mod rate) mod rate)"
    by (auto simp: rate_def mod_Suc)
qed simp

declare pad_zeros.simps [simp del]

definition keccak_pad :: "bytes \<Rightarrow> bytes" where
  "keccak_pad data = (let padded = pad_zeros (data @ [0x01]);
      n = length padded
    in padded[n - 1 := (padded ! (n - 1)) XOR 0x80])"

text \<open>One iteration of the absorbing loop: the block at \<open>offset\<close>, then the permutation.\<close>

definition absorb_block :: "kstate \<Rightarrow> bytes \<Rightarrow> kstate" where
  "absorb_block st block = keccak_f1600
    (foldl (\<lambda>s i. xor_lane s (i mod 5) (i div 5) (from_bytes_le (take 8 (drop (i * 8) block))))
      st [0..<rate div 8])"

function absorb :: "kstate \<Rightarrow> bytes \<Rightarrow> kstate" where
  "absorb st padded =
    (if padded = [] then st else absorb (absorb_block st (take rate padded)) (drop rate padded))"
  by pat_completeness auto
termination
  by (relation "measure (\<lambda>(st, p). length p)") (auto simp: rate_def)

declare absorb.simps [simp del]

text \<open>One pass of the squeezing \<open>while\<close>, with the inner \<open>break\<close> as a guard.\<close>

definition squeeze_pass :: "kstate \<Rightarrow> bytes \<Rightarrow> bytes" where
  "squeeze_pass st out = foldl (\<lambda>out i.
      if 32 \<le> length out then out else out @ to_bytes_le 8 (lane st (i mod 5) (i div 5)))
    out [0..<rate div 8]"

lemma squeeze_pass_grows_aux:
  "length out \<le> length (foldl (\<lambda>out i. if 32 \<le> length out then out else out @ to_bytes_le 8 (f i)) out xs)"
proof (induction xs arbitrary: out)
  case Nil
  then show ?case by simp
next
  case (Cons x xs)
  show ?case
    using Cons [of "if 32 \<le> length out then out else out @ to_bytes_le 8 (f x)"]
    by (auto split: if_splits)
qed

lemma squeeze_pass_grows: "length out < 32 \<Longrightarrow> length out < length (squeeze_pass st out)"
proof -
  assume small: "length out < 32"
  have "[0..<rate div 8] = 0 # [1..<rate div 8]"
    by (simp add: rate_def upt_rec)
  then show ?thesis
    using small squeeze_pass_grows_aux [of "out @ to_bytes_le 8 (lane st 0 0)"
        "\<lambda>i. lane st (i mod 5) (i div 5)" "[1..<rate div 8]"]
    by (simp add: squeeze_pass_def)
qed

function squeeze :: "kstate \<Rightarrow> bytes \<Rightarrow> bytes" where
  "squeeze st out = (if length out < 32 then squeeze st (squeeze_pass st out) else out)"
  by pat_completeness auto
termination
proof (relation "measure (\<lambda>(st, out). 32 - length out)")
  fix st out
  assume "length (out :: bytes) < 32"
  then show "((st, squeeze_pass st out), (st, out)) \<in> measure (\<lambda>(st, out). 32 - length out)"
    using squeeze_pass_grows [of out st] by simp
qed simp

declare squeeze.simps [simp del]

definition keccak256 :: "bytes \<Rightarrow> bytes" where
  "keccak256 data = take 32 (squeeze (absorb zero_state (keccak_pad data)) [])"

section \<open>Lanes stay in range\<close>

definition lanes_ok :: "kstate \<Rightarrow> bool" where
  "lanes_ok st \<longleftrightarrow> length st = 5 \<and> (\<forall>x<5. length (st ! x) = 5 \<and> (\<forall>y<5. 0 \<le> lane st x y \<and> lane st x y < 2 ^ 64))"

definition shape_ok :: "kstate \<Rightarrow> bool" where
  "shape_ok st \<longleftrightarrow> length st = 5 \<and> (\<forall>x<5. length (st ! x) = 5)"

lemma lane_set_lane:
  "shape_ok st \<Longrightarrow> i < 5 \<Longrightarrow> j < 5 \<Longrightarrow>
    lane (set_lane st i j v) x y = (if x = i \<and> y = j then v else lane st x y)"
  by (auto simp: lane_def set_lane_def shape_ok_def nth_list_update)

lemma shape_set_lane: "shape_ok st \<Longrightarrow> i < 5 \<Longrightarrow> j < 5 \<Longrightarrow> shape_ok (set_lane st i j v)"
  by (auto simp: set_lane_def shape_ok_def nth_list_update)

text \<open>
  Every loop over the lanes writes each position \<open>g p\<close> once; its effect is read off
  position by position.
\<close>

lemma foldl_set_lane:
  assumes "shape_ok st" and "distinct ps" and "inj_on g (set ps)"
    and "\<And>p. p \<in> set ps \<Longrightarrow> fst (g p) < 5 \<and> snd (g p) < 5"
  shows "shape_ok (foldl (\<lambda>s p. set_lane s (fst (g p)) (snd (g p)) (u p (lane s (fst (g p)) (snd (g p))))) st ps)
    \<and> (\<forall>p \<in> set ps. lane (foldl (\<lambda>s p. set_lane s (fst (g p)) (snd (g p)) (u p (lane s (fst (g p)) (snd (g p))))) st ps)
          (fst (g p)) (snd (g p)) = u p (lane st (fst (g p)) (snd (g p))))
    \<and> (\<forall>x y. (x, y) \<notin> g ` set ps \<longrightarrow>
          lane (foldl (\<lambda>s p. set_lane s (fst (g p)) (snd (g p)) (u p (lane s (fst (g p)) (snd (g p))))) st ps) x y = lane st x y)"
  using assms(2-4)
proof (induction ps rule: rev_induct)
  case Nil
  then show ?case using assms(1) by simp
next
  case (snoc q ps)
  let ?F = "foldl (\<lambda>s p. set_lane s (fst (g p)) (snd (g p)) (u p (lane s (fst (g p)) (snd (g p))))) st"
  have IH: "shape_ok (?F ps)"
      "\<And>p. p \<in> set ps \<Longrightarrow> lane (?F ps) (fst (g p)) (snd (g p)) = u p (lane st (fst (g p)) (snd (g p)))"
      "\<And>x y. (x, y) \<notin> g ` set ps \<Longrightarrow> lane (?F ps) x y = lane st x y"
    using snoc by (auto intro: inj_on_subset)
  have q: "fst (g q) < 5" "snd (g q) < 5" using snoc.prems(3) by auto
  have fresh: "g q \<notin> g ` set ps"
    using snoc.prems(1,2) by (auto simp: inj_on_def)
  have neq: "\<not> (fst (g p) = fst (g q) \<and> snd (g p) = snd (g q))" if "p \<in> set ps" for p
    using that fresh by (metis image_eqI prod_eqI)
  have at_q: "lane (?F ps) (fst (g q)) (snd (g q)) = lane st (fst (g q)) (snd (g q))"
    using IH(3) [of "fst (g q)" "snd (g q)"] fresh by simp
  show ?case
  proof (intro conjI ballI allI impI)
    show "shape_ok (?F (ps @ [q]))" using IH(1) q by (simp add: shape_set_lane)
  next
    fix p assume p: "p \<in> set (ps @ [q])"
    show "lane (?F (ps @ [q])) (fst (g p)) (snd (g p)) = u p (lane st (fst (g p)) (snd (g p)))"
      using p IH(1) IH(2) [of p] neq [of p] at_q q by (auto simp: lane_set_lane)
  next
    fix x y assume "(x, y) \<notin> g ` set (ps @ [q])"
    then have "(x, y) \<notin> g ` set ps" and "\<not> (x = fst (g q) \<and> y = snd (g q))" by auto
    then show "lane (?F (ps @ [q])) x y = lane st x y"
      using IH(1) IH(3) [of x y] q by (auto simp: lane_set_lane)
  qed
qed

lemma set_lane_pairs: "set lane_pairs = {0..<5} \<times> {0..<5}"
  by (auto simp: lane_pairs_def)

lemma distinct_lane_pairs: "distinct lane_pairs"
  by (simp add: lane_pairs_def upt_rec)

lemma lt5: "(x :: nat) < 5 \<longleftrightarrow> x = 0 \<or> x = 1 \<or> x = 2 \<or> x = 3 \<or> x = 4"
  by auto

lemma inj_pi: "inj_on (\<lambda>(x, y). (y, (2 * x + 3 * y) mod 5)) ({0..<5} \<times> {0..<5 :: nat})"
  by (auto simp: inj_on_def lt5)

lemma mask64_mask: "mask64 = mask 64"
  by (simp add: mask64_def mask_eq_exp_minus_1 push_bit_eq_mult)

lemma rotl64_bit:
  assumes "0 \<le> v" "v < 2 ^ 64" "s < 64"
  shows "bit (rotl64 v s) n \<longleftrightarrow> n < 64 \<and> bit v ((n + (64 - s)) mod 64)"
proof -
  have hi: "\<not> bit v k" if "64 \<le> k" for k
  proof -
    have "v = take_bit 64 v" using assms by (simp add: take_bit_int_eq_self)
    then show ?thesis using that by (metis bit_take_bit_iff leD)
  qed
  show ?thesis
  proof (cases "n < s")
    case True
    with assms have "n + (64 - s) < 64" by arith
    with True assms hi show ?thesis
      by (auto simp: rotl64_def mask64_mask bit_simps add.commute)
  next
    case False
    with assms have "(n + (64 - s)) mod 64 = n - s" if "n < 64" using that
      by (simp add: mod_if)
    with False assms hi [of "64 - s + n"] show ?thesis
      by (auto simp: rotl64_def mask64_mask bit_simps)
  qed
qed

lemma rotl64_bounds: "0 \<le> rotl64 v s \<and> rotl64 v s < 2 ^ 64"
proof -
  have "rotl64 v s = take_bit 64 (push_bit s v OR drop_bit (64 - s) v)"
    by (simp add: rotl64_def mask64_mask take_bit_eq_mask)
  then show ?thesis by (simp only: take_bit_int_less_exp take_bit_nonnegative simp_thms)
qed

lemma rotl64_word:
  assumes "0 \<le> v" "v < 2 ^ 64" "s < 64"
  shows "word_of_int (rotl64 v s) = word_rotl s (word_of_int v :: 64 word)"
  by (rule bit_word_eqI) (use assms in \<open>auto simp: rotl64_bit bit_word_rotl_iff bit_word_of_int_iff\<close>)

section \<open>Specification over words\<close>

type_synonym wstate = "nat \<Rightarrow> nat \<Rightarrow> 64 word"

definition spec_theta :: "wstate \<Rightarrow> wstate" where
  "spec_theta A = (let C = (\<lambda>x. A x 0 XOR A x 1 XOR A x 2 XOR A x 3 XOR A x 4)
    in (\<lambda>x y. A x y XOR (C ((x + 4) mod 5) XOR word_rotl 1 (C ((x + 1) mod 5)))))"

text \<open>The walk \<open>(x, y) \<leadsto> (y, 2x + 3y)\<close> from \<open>(1, 0)\<close> that generates the offsets.\<close>

fun rho_walk :: "nat list \<Rightarrow> nat \<Rightarrow> nat \<Rightarrow> (nat \<times> nat \<Rightarrow> nat)" where
  "rho_walk [] x y = (\<lambda>_. 0)"
| "rho_walk (t # ts) x y = (rho_walk ts y ((2 * x + 3 * y) mod 5))
     ((x, y) := ((t + 1) * (t + 2) div 2) mod 64)"

definition spec_offset :: "nat \<Rightarrow> nat \<Rightarrow> nat" where
  "spec_offset x y = rho_walk [0..<24] 1 0 (x, y)"

definition spec_rho :: "wstate \<Rightarrow> wstate" where
  "spec_rho A = (\<lambda>x y. word_rotl (spec_offset x y) (A x y))"

definition spec_pi :: "wstate \<Rightarrow> wstate" where
  "spec_pi A = (\<lambda>x y. A ((x + 3 * y) mod 5) x)"

definition spec_chi :: "wstate \<Rightarrow> wstate" where
  "spec_chi A = (\<lambda>x y. A x y XOR (NOT (A ((x + 1) mod 5) y) AND A ((x + 2) mod 5) y))"

definition spec_iota :: "64 word \<Rightarrow> wstate \<Rightarrow> wstate" where
  "spec_iota rc A = (\<lambda>x y. if x = 0 \<and> y = 0 then A 0 0 XOR rc else A x y)"

text \<open>The round constants' bits: \<open>t\<close> steps of the LFSR of \<open>x^8 + x^6 + x^5 + x^4 + 1\<close>.\<close>

definition lfsr_step :: "int \<Rightarrow> int" where
  "lfsr_step r = (if 2 * r \<ge> 256 then (2 * r) XOR 0x171 else 2 * r)"

text \<open>Seven steps give the bits \<open>2^j - 1\<close>, \<open>j < 7\<close>, of one constant and the next register.\<close>

fun lfsr_bits :: "nat list \<Rightarrow> int \<Rightarrow> int" where
  "lfsr_bits [] r = 0"
| "lfsr_bits (j # js) r = (if odd r then 2 ^ (2 ^ j - 1) else 0) + lfsr_bits js (lfsr_step r)"

fun lfsr_run :: "nat list \<Rightarrow> int \<Rightarrow> int" where
  "lfsr_run [] r = r"
| "lfsr_run (j # js) r = lfsr_run js (lfsr_step r)"

fun spec_constants :: "nat list \<Rightarrow> int \<Rightarrow> int list" where
  "spec_constants [] r = []"
| "spec_constants (ir # irs) r = lfsr_bits [0..<7] r # spec_constants irs (lfsr_run [0..<7] r)"

definition spec_round :: "wstate \<Rightarrow> int \<Rightarrow> wstate" where
  "spec_round A rc = spec_iota (word_of_int rc)
     (spec_chi (spec_pi (spec_rho (spec_theta A))))"

definition spec_f1600 :: "wstate \<Rightarrow> wstate" where
  "spec_f1600 A = foldl spec_round A (spec_constants [0..<24] 1)"

lemma offsets_table: "keccak_rotation_offsets = map (\<lambda>x. map (spec_offset x) [0..<5]) [0..<5]"
  by (simp add: keccak_rotation_offsets_def spec_offset_def upt_rec)

lemma round_constants_table: "keccak_round_constants = spec_constants [0..<24] 1"
  by (simp add: keccak_round_constants_def lfsr_step_def upt_rec)

definition abs_state :: "kstate \<Rightarrow> wstate" where
  "abs_state st = (\<lambda>x y. if x < 5 \<and> y < 5 then word_of_int (lane st x y) else 0)"

lemma lanes_ok_shape: "lanes_ok st \<Longrightarrow> shape_ok st"
  by (simp add: lanes_ok_def shape_ok_def)

lemma lanes_ok_iff:
  "lanes_ok st \<longleftrightarrow> shape_ok st \<and> (\<forall>x<5. \<forall>y<5. 0 \<le> lane st x y \<and> lane st x y < 2 ^ 64)"
  by (auto simp: lanes_ok_def shape_ok_def)

lemma lanes_okD: "lanes_ok st \<Longrightarrow> x < 5 \<Longrightarrow> y < 5 \<Longrightarrow> 0 \<le> lane st x y \<and> lane st x y < 2 ^ 64"
  by (simp add: lanes_ok_iff)

text \<open>Bitwise operations keep 64-bit lanes 64-bit.\<close>

definition u64 :: "int \<Rightarrow> bool" where
  "u64 v \<longleftrightarrow> 0 \<le> v \<and> v < 2 ^ 64"

lemma u64_take_bit: "u64 v \<longleftrightarrow> take_bit 64 v = v"
  by (auto simp: u64_def take_bit_int_eq_self_iff)

lemma u64_xor [intro]: "u64 a \<Longrightarrow> u64 b \<Longrightarrow> u64 (a XOR b)"
  by (simp only: u64_take_bit take_bit_xor)

lemma u64_and [intro]: "u64 b \<Longrightarrow> u64 (a AND b)"
  unfolding u64_take_bit by (rule bit_eqI) (metis bit_and_iff bit_take_bit_iff)

lemma u64_rotl [intro]: "u64 (rotl64 v s)"
  using rotl64_bounds [of v s] by (simp add: u64_def)

lemma lanes_ok_u64: "lanes_ok st \<longleftrightarrow> shape_ok st \<and> (\<forall>x<5. \<forall>y<5. u64 (lane st x y))"
  by (simp add: lanes_ok_iff u64_def)

lemmas lane_loop = foldl_set_lane [OF _ distinct_lane_pairs, unfolded set_lane_pairs]

lemma theta_c_nth: "x < 5 \<Longrightarrow> theta_c st ! x =
    lane st x 0 XOR lane st x 1 XOR lane st x 2 XOR lane st x 3 XOR lane st x 4"
  by (simp add: theta_c_def)

lemma theta_d_nth: "x < 5 \<Longrightarrow> theta_d c ! x = c ! ((x + 4) mod 5) XOR rotl64 (c ! ((x + 1) mod 5)) 1"
  by (simp add: theta_d_def)

lemma theta_lane:
  assumes "shape_ok st"
  shows "shape_ok (theta st) \<and> (\<forall>x<5. \<forall>y<5.
    lane (theta st) x y = lane st x y XOR theta_d (theta_c st) ! x)"
proof -
  have f: "(\<lambda>s (x, y). xor_lane s x y (d ! x)) =
      (\<lambda>s p. set_lane s (fst (id p)) (snd (id p)) (lane s (fst (id p)) (snd (id p)) XOR d ! fst p))" for d
    by (auto simp: fun_eq_iff xor_lane_def)
  have "shape_ok (theta st) \<and> (\<forall>p \<in> {0..<5} \<times> {0..<5}.
    lane (theta st) (fst (id p)) (snd (id p)) = lane st (fst (id p)) (snd (id p)) XOR theta_d (theta_c st) ! fst p)"
    unfolding theta_def Let_def f
    using lane_loop [where st = st and g = id and
        u = "\<lambda>p v. v XOR theta_d (theta_c st) ! fst p"] assms by auto
  then show ?thesis by auto
qed

lemma shape_zero: "shape_ok zero_state"
  by (simp add: shape_ok_def zero_state_def)

lemma rho_pi_lane:
  "shape_ok (rho_pi st) \<and> (\<forall>x<5. \<forall>y<5.
    lane (rho_pi st) y ((2 * x + 3 * y) mod 5) = rotl64 (lane st x y) (keccak_rotation_offsets ! x ! y))"
proof -
  let ?g = "\<lambda>(x, y). (y, (2 * x + 3 * y) mod 5 :: nat)"
  have f: "(\<lambda>b (x, y). set_lane b y ((2 * x + 3 * y) mod 5) (rotl64 (lane st x y) (keccak_rotation_offsets ! x ! y))) =
      (\<lambda>s p. set_lane s (fst (?g p)) (snd (?g p)) ((\<lambda>p v. rotl64 (lane st (fst p) (snd p)) (keccak_rotation_offsets ! fst p ! snd p)) p
          (lane s (fst (?g p)) (snd (?g p)))))"
    by (auto simp: fun_eq_iff)
  have *: "shape_ok (rho_pi st) \<and> (\<forall>p \<in> {0..<5} \<times> {0..<5}.
    lane (rho_pi st) (fst (?g p)) (snd (?g p)) = rotl64 (lane st (fst p) (snd p)) (keccak_rotation_offsets ! fst p ! snd p))"
    unfolding rho_pi_def f
    using lane_loop [where st = zero_state and g = ?g and
        u = "\<lambda>p v. rotl64 (lane st (fst p) (snd p)) (keccak_rotation_offsets ! fst p ! snd p)"]
      shape_zero inj_pi by auto
  show ?thesis
  proof (intro conjI allI impI)
    show "shape_ok (rho_pi st)" using * by simp
    fix x y :: nat assume "x < 5" "y < 5"
    then have "(x, y) \<in> {0..<5} \<times> {0..<5}" by simp
    with * show "lane (rho_pi st) y ((2 * x + 3 * y) mod 5) = rotl64 (lane st x y) (keccak_rotation_offsets ! x ! y)"
      by fastforce
  qed
qed

lemma chi_lane:
  assumes "shape_ok st"
  shows "shape_ok (chi st b) \<and> (\<forall>x<5. \<forall>y<5.
    lane (chi st b) x y = lane b x y XOR (NOT (lane b ((x + 1) mod 5) y) AND lane b ((x + 2) mod 5) y))"
proof -
  let ?v = "\<lambda>p. lane b (fst p) (snd p) XOR (NOT (lane b ((fst p + 1) mod 5) (snd p)) AND lane b ((fst p + 2) mod 5) (snd p))"
  have f: "(\<lambda>s (x, y). set_lane s x y (lane b x y XOR (NOT (lane b ((x + 1) mod 5) y) AND lane b ((x + 2) mod 5) y))) =
      (\<lambda>s p. set_lane s (fst (id p)) (snd (id p)) ((\<lambda>p v. ?v p) p (lane s (fst (id p)) (snd (id p)))))"
    by (auto simp: fun_eq_iff)
  have "shape_ok (chi st b) \<and> (\<forall>p \<in> {0..<5} \<times> {0..<5}. lane (chi st b) (fst (id p)) (snd (id p)) = ?v p)"
    unfolding chi_def f
    using lane_loop [where st = st and g = id and u = "\<lambda>p v. ?v p"] assms by auto
  then show ?thesis by auto
qed

lemma iota_lane:
  "shape_ok st \<Longrightarrow> shape_ok (iota rc st) \<and> (\<forall>x y. lane (iota rc st) x y =
     (if x = 0 \<and> y = 0 then lane st 0 0 XOR rc else lane st x y))"
  by (simp add: iota_def xor_lane_def lane_set_lane shape_set_lane)

lemmas word_of_bits = of_int_xor_eq of_int_and_eq of_int_not_eq

lemma mod5: "(x :: nat) mod 5 < 5"
  by simp

lemma theta_ok:
  assumes "lanes_ok st"
  shows "lanes_ok (theta st)" and "abs_state (theta st) x y = (if x < 5 \<and> y < 5 then spec_theta (abs_state st) x y else 0)"
proof -
  have sh: "shape_ok st" using assms by (rule lanes_ok_shape)
  have c: "u64 (theta_c st ! x)" if "x < 5" for x
    using that assms by (auto simp: theta_c_nth lanes_ok_u64 intro!: u64_xor)
  have cw: "word_of_int (theta_c st ! x) = abs_state st x 0 XOR abs_state st x 1 XOR abs_state st x 2
      XOR abs_state st x 3 XOR abs_state st x 4" if "x < 5" for x
    using that by (simp add: theta_c_nth abs_state_def word_of_bits)
  show "lanes_ok (theta st)"
    using theta_lane [OF sh] assms c [OF mod5] by (auto simp: lanes_ok_u64 theta_d_nth intro!: u64_xor u64_rotl)
  show "abs_state (theta st) x y = (if x < 5 \<and> y < 5 then spec_theta (abs_state st) x y else 0)"
  proof (cases "x < 5 \<and> y < 5")
    case True
    have b: "0 \<le> theta_c st ! ((x + 1) mod 5)" "theta_c st ! ((x + 1) mod 5) < 2 ^ 64"
      using c [OF mod5] by (auto simp: u64_def)
    have "word_of_int (theta_d (theta_c st) ! x) =
        word_of_int (theta_c st ! ((x + 4) mod 5)) XOR word_rotl 1 (word_of_int (theta_c st ! ((x + 1) mod 5)) :: 64 word)"
      using True rotl64_word [OF b, of 1] by (simp add: theta_d_nth word_of_bits)
    then have d: "word_of_int (theta_d (theta_c st) ! x) =
        (abs_state st ((x + 4) mod 5) 0 XOR abs_state st ((x + 4) mod 5) 1 XOR abs_state st ((x + 4) mod 5) 2
          XOR abs_state st ((x + 4) mod 5) 3 XOR abs_state st ((x + 4) mod 5) 4) XOR
        word_rotl 1 (abs_state st ((x + 1) mod 5) 0 XOR abs_state st ((x + 1) mod 5) 1 XOR abs_state st ((x + 1) mod 5) 2
          XOR abs_state st ((x + 1) mod 5) 3 XOR abs_state st ((x + 1) mod 5) 4)"
      by (simp only: cw [OF mod5])
    have "abs_state (theta st) x y = abs_state st x y XOR word_of_int (theta_d (theta_c st) ! x)"
      using True theta_lane [OF sh] by (simp add: abs_state_def word_of_bits)
    with True d show ?thesis by (simp only: spec_theta_def Let_def simp_thms if_True)
  qed (auto simp: abs_state_def)
qed

lemma offset_nth: "x < 5 \<Longrightarrow> y < 5 \<Longrightarrow> keccak_rotation_offsets ! x ! y = spec_offset x y"
  by (subst offsets_table) simp

lemma offset_less: "x < 5 \<Longrightarrow> y < 5 \<Longrightarrow> keccak_rotation_offsets ! x ! y < 64"
  by (auto simp: lt5 keccak_rotation_offsets_def)

lemma pi_inverse:
  "X < 5 \<Longrightarrow> Y < 5 \<Longrightarrow> (2 * ((X + 3 * Y) mod 5) + 3 * X) mod 5 = (Y :: nat)"
  by (auto simp: lt5)

lemma rho_pi_ok:
  assumes "lanes_ok st"
  shows "lanes_ok (rho_pi st)" and "abs_state (rho_pi st) x y =
    (if x < 5 \<and> y < 5 then spec_pi (spec_rho (abs_state st)) x y else 0)"
proof -
  have lane: "lane (rho_pi st) X Y = rotl64 (lane st ((X + 3 * Y) mod 5) X) (keccak_rotation_offsets ! ((X + 3 * Y) mod 5) ! X)"
    if "X < 5" "Y < 5" for X Y
    using rho_pi_lane [of st] pi_inverse [OF that] that(1) mod5 [of "X + 3 * Y"] by metis
  show "lanes_ok (rho_pi st)"
    using rho_pi_lane [of st] by (auto simp: lanes_ok_u64 lane)
  show "abs_state (rho_pi st) x y = (if x < 5 \<and> y < 5 then spec_pi (spec_rho (abs_state st)) x y else 0)"
    using lanes_okD [OF assms mod5, of x "x + 3 * y"]
    by (auto simp: abs_state_def lane spec_pi_def spec_rho_def rotl64_word offset_less offset_nth [symmetric])
qed

lemma chi_ok:
  assumes "shape_ok st" and "lanes_ok b"
  shows "lanes_ok (chi st b)" and "abs_state (chi st b) x y = (if x < 5 \<and> y < 5 then spec_chi (abs_state b) x y else 0)"
  using chi_lane [OF assms(1), of b] assms(2)
  by (auto simp: lanes_ok_u64 abs_state_def spec_chi_def word_of_bits intro!: u64_xor u64_and)

lemma iota_ok:
  assumes "lanes_ok st" and "u64 rc"
  shows "lanes_ok (iota rc st)" and "abs_state (iota rc st) x y =
    (if x < 5 \<and> y < 5 then spec_iota (word_of_int rc) (abs_state st) x y else 0)"
  using iota_lane [OF lanes_ok_shape [OF assms(1)], of rc] assms
  by (auto simp: lanes_ok_u64 abs_state_def spec_iota_def word_of_bits)

text \<open>The specification never looks outside the 5 by 5 square.\<close>

definition square :: "wstate \<Rightarrow> wstate" where
  "square A = (\<lambda>x y. if x < 5 \<and> y < 5 then A x y else 0)"

lemma square_abs [simp]: "square (abs_state st) = abs_state st"
  by (auto simp: square_def abs_state_def fun_eq_iff)

lemma round_refines:
  assumes "lanes_ok st" and "u64 rc"
  shows "lanes_ok (keccak_round st rc) \<and> abs_state (keccak_round st rc) = square (spec_round (abs_state st) rc)"
proof -
  have t: "lanes_ok (theta st)" using theta_ok(1) [OF assms(1)] .
  have r: "lanes_ok (rho_pi (theta st))" using rho_pi_ok(1) [OF t] .
  have c: "lanes_ok (chi (theta st) (rho_pi (theta st)))" using chi_ok(1) [OF lanes_ok_shape [OF t] r] .
  have at: "abs_state (theta st) = square (spec_theta (abs_state st))"
    using theta_ok(2) [OF assms(1)] by (auto simp: fun_eq_iff square_def)
  have ar: "abs_state (rho_pi (theta st)) = square (spec_pi (spec_rho (spec_theta (abs_state st))))"
    using rho_pi_ok(2) [OF t] by (auto simp: fun_eq_iff square_def at spec_pi_def spec_rho_def)
  have ac: "abs_state (chi (theta st) (rho_pi (theta st))) = square (spec_chi (spec_pi (spec_rho (spec_theta (abs_state st)))))"
    using chi_ok(2) [OF lanes_ok_shape [OF t] r] by (auto simp: fun_eq_iff square_def ar spec_chi_def)
  have "abs_state (iota rc (chi (theta st) (rho_pi (theta st)))) = square (spec_round (abs_state st) rc)"
    using iota_ok(2) [OF c assms(2)] by (auto simp: fun_eq_iff square_def ac spec_iota_def spec_round_def)
  then show ?thesis using iota_ok(1) [OF c assms(2)] by (simp add: keccak_round_def Let_def)
qed

lemma u64_round_constants: "rc \<in> set keccak_round_constants \<Longrightarrow> u64 rc"
  by (auto simp: keccak_round_constants_def u64_def)

lemma square_spec_round: "square (spec_round (square A) rc) = square (spec_round A rc)"
  by (auto simp: fun_eq_iff square_def spec_round_def spec_iota_def spec_chi_def spec_pi_def
      spec_rho_def spec_theta_def)

lemma rounds_refine:
  assumes "lanes_ok st" and "\<And>rc. rc \<in> set rcs \<Longrightarrow> u64 rc"
  shows "lanes_ok (foldl keccak_round st rcs) \<and>
    abs_state (foldl keccak_round st rcs) = square (foldl spec_round (abs_state st) rcs)"
  using assms(2)
proof (induction rcs rule: rev_induct)
  case Nil
  then show ?case using assms(1) by simp
next
  case (snoc rc rcs)
  then have "lanes_ok (foldl keccak_round st rcs)"
      "abs_state (foldl keccak_round st rcs) = square (foldl spec_round (abs_state st) rcs)"
    by auto
  then show ?case
    using round_refines [of "foldl keccak_round st rcs" rc] snoc.prems by (simp add: square_spec_round)
qed

lemma f1600_refines:
  assumes "lanes_ok st"
  shows "lanes_ok (keccak_f1600 st) \<and> abs_state (keccak_f1600 st) = square (spec_f1600 (abs_state st))"
  unfolding keccak_f1600_def spec_f1600_def round_constants_table [symmetric]
  using rounds_refine [OF assms u64_round_constants] .

section \<open>Padding, absorbing, squeezing\<close>

lemma pad_zeros_append: "\<exists>k. pad_zeros p = p @ replicate k 0"
proof (induction p rule: pad_zeros.induct)
  case (1 p)
  show ?case
  proof (cases "length p mod rate = 0")
    case True
    then have "pad_zeros p = p @ replicate 0 0" by (simp add: pad_zeros.simps [of p])
    then show ?thesis ..
  next
    case False
    then obtain k where "pad_zeros (p @ [0]) = (p @ [0]) @ replicate k 0" using 1 by blast
    then have "pad_zeros p = p @ replicate (Suc k) 0"
      using False by (simp add: pad_zeros.simps [of p] replicate_append_same)
    then show ?thesis ..
  qed
qed

lemma length_pad_zeros_mod: "length (pad_zeros p) mod rate = 0"
  by (induction p rule: pad_zeros.induct) (subst pad_zeros.simps, simp)

lemma length_keccak_pad: "length (keccak_pad data) mod rate = 0"
  using length_pad_zeros_mod by (simp add: keccak_pad_def Let_def)

text \<open>Reading the message back: drop the last octet's marker bit, the zeros, and the 1.\<close>

definition unpad :: "bytes \<Rightarrow> bytes" where
  "unpad p = (let q = butlast p @ [last p XOR 0x80] in rev (tl (dropWhile (\<lambda>b. b = 0) (rev q))))"

lemma dropWhile_replicate_zero: "dropWhile (\<lambda>b. b = 0) (replicate k (0 :: 8 word) @ 1 # xs) = 1 # xs"
  by (induction k) auto

lemma list_update_last: "xs \<noteq> [] \<Longrightarrow> xs[length xs - 1 := v] = butlast xs @ [v]"
  by (induction xs rule: rev_induct) (auto simp: list_update_append)

lemma keccak_pad_form: "\<exists>k. keccak_pad data = butlast (data @ [1] @ replicate k 0)
    @ [last (data @ [1] @ replicate k 0) XOR 0x80]"
proof -
  obtain k where k: "pad_zeros (data @ [0x01]) = data @ [1] @ replicate k 0"
    using pad_zeros_append [of "data @ [1]"] by auto
  have ne: "data @ [1 :: 8 word] @ replicate k 0 \<noteq> []" by simp
  show ?thesis
    unfolding keccak_pad_def Let_def k
    by (rule exI [of _ k]) (simp only: list_update_last [OF ne] last_conv_nth [OF ne])
qed

lemma unpad_keccak_pad: "unpad (keccak_pad data) = data"
proof -
  obtain k where k: "keccak_pad data = butlast (data @ [1] @ replicate k 0)
      @ [last (data @ [1] @ replicate k 0) XOR 0x80]"
    using keccak_pad_form by blast
  have "butlast (keccak_pad data) @ [last (keccak_pad data) XOR 0x80] = data @ [1] @ replicate k 0"
    unfolding k butlast_snoc last_snoc xor.assoc xor_self_eq xor.right_neutral
    by (rule append_butlast_last_id) simp
  then show ?thesis
    by (simp only: unpad_def Let_def rev_append rev_replicate rev.simps append_Nil append_Cons
        append.assoc dropWhile_replicate_zero list.sel rev_rev_ident)
qed

lemma lanes_ok_zero: "lanes_ok zero_state"
proof -
  have "lane zero_state x y = 0" if "x < 5" "y < 5" for x y
    using that by (simp add: lane_def zero_state_def)
  then show ?thesis by (simp add: lanes_ok_iff shape_zero)
qed

lemma lanes_ok_xor_lane:
  assumes "lanes_ok st" "i < 5" "j < 5" "u64 v"
  shows "lanes_ok (xor_lane st i j v)"
  using assms by (auto simp: lanes_ok_u64 xor_lane_def shape_set_lane lane_set_lane)

lemma u64_from_bytes: "u64 (from_bytes_le (take 8 bs))"
proof -
  have "from_bytes_le (take 8 bs) < 256 ^ length (take 8 bs)"
    using from_bytes_le_bounds by blast
  also have "(256 :: int) ^ length (take 8 bs) \<le> 256 ^ 8"
    by (rule power_increasing) auto
  finally show ?thesis using from_bytes_le_bounds [of "take 8 bs"] by (simp add: u64_def)
qed

lemma lanes_ok_absorb_block: "lanes_ok st \<Longrightarrow> lanes_ok (absorb_block st block)"
proof -
  assume st: "lanes_ok st"
  have "lanes_ok (foldl (\<lambda>s i. xor_lane s (i mod 5) (i div 5) (from_bytes_le (take 8 (drop (i * 8) block)))) st is)"
    if "\<forall>i \<in> set is. i < 25" for "is"
    using that
  proof (induction "is" rule: rev_induct)
    case Nil
    then show ?case using st by simp
  next
    case (snoc i "is")
    then have "i mod 5 < 5" "i div 5 < 5" by auto
    with snoc show ?case by (simp add: lanes_ok_xor_lane u64_from_bytes)
  qed
  then show ?thesis
    using f1600_refines by (simp add: absorb_block_def rate_def)
qed

lemma lanes_ok_absorb: "lanes_ok st \<Longrightarrow> lanes_ok (absorb st p)"
  by (induction st p rule: absorb.induct) (subst absorb.simps, simp add: lanes_ok_absorb_block)

lemma length_squeeze: "32 \<le> length (squeeze st out)"
proof (induction st out rule: squeeze.induct)
  case (1 st out)
  then show ?case by (cases "length out < 32") (simp_all add: squeeze.simps [of st out])
qed

lemma length_keccak256 [simp, len_simps]: "length (keccak256 data) = 32"
  using length_squeeze [of "absorb zero_state (keccak_pad data)" "[]"] by (simp add: keccak256_def)

section \<open>Claims\<close>

text \<open>C3: The permutation over Python integers is Keccak-f[1600].  On a state of 25 lanes below
  \<open>2^64\<close>, \<open>keccak_f1600\<close> keeps every lane below \<open>2^64\<close> and computes, lane by lane, the 24 rounds
  of the word-level step mappings, whose rotation offsets and round constants are generated by
  their defining rules and not by the code's tables.\<close>
theorem keccak_f1600_refines_spec:
  assumes "lanes_ok st" and "x < 5" and "y < 5"
  shows "lanes_ok (keccak_f1600 st) \<and> (word_of_int (lane (keccak_f1600 st) x y) :: 64 word) = spec_f1600 (abs_state st) x y"
proof -
  have "abs_state (keccak_f1600 st) x y = square (spec_f1600 (abs_state st)) x y"
    using f1600_refines [OF assms(1)] by simp
  then show ?thesis using f1600_refines [OF assms(1)] assms(2,3) by (simp add: abs_state_def square_def)
qed

theorem keccak_f1600_refines_spec_witness:
  "lanes_ok (keccak_f1600 zero_state) \<and>
   (word_of_int (lane (keccak_f1600 zero_state) 0 0) :: 64 word) = spec_f1600 (abs_state zero_state) 0 0"
  by (rule keccak_f1600_refines_spec [OF lanes_ok_zero]) simp_all

text \<open>The padding is a whole number of rate blocks and loses nothing: the message can be read
  back from it, so two messages are never padded to the same string.\<close>
theorem keccak_pad_invertible:
  "length (keccak_pad data) mod rate = 0 \<and> unpad (keccak_pad data) = data"
  by (simp add: length_keccak_pad unpad_keccak_pad)

end
