(* ===== verification/VH_Text.thy ===== *)
theory VH_Text
  imports VH_Prelude
begin

text \<open>
  The text operations of \<open>verifier-py/verify_vh.py\<close>: \<open>bytes.hex\<close> and \<open>bytes.fromhex\<close>,
  \<open>str.encode("utf-8")\<close>, \<open>str.lower\<close>, and the three anchored regular expressions the
  verifier checks hex fields with.  Python's \<open>$\<close> matches at the end of the string and also
  just before one trailing newline; the model keeps that.
\<close>

section \<open>Octets\<close>

text \<open>The octet of a number below 256.\<close>

definition octet :: "nat \<Rightarrow> 8 word" where
  "octet n = word_of_nat n"

lemma unat_octet_less: "unat (b :: 8 word) < 256"
  using unsigned_less [of b, where ?'a = nat] by simp

lemma octet_unat [simp]: "octet (unat b) = b"
  by (simp add: octet_def)

lemma unat_octet: "n < 256 \<Longrightarrow> unat (octet n) = n"
  by (simp add: octet_def unat_of_nat)

lemma octet_eq:
  assumes "a < 256" and "b < 256"
  shows "octet a = octet b \<longleftrightarrow> a = b"
  by (metis assms unat_octet)

section \<open>Hexadecimal\<close>

definition hexdigit :: "nat \<Rightarrow> nat" where
  "hexdigit n = (if n < 10 then 48 + n else 87 + n)"

definition hexval :: "nat \<Rightarrow> nat option" where
  "hexval c = (if 48 \<le> c \<and> c \<le> 57 then Some (c - 48)
     else if 97 \<le> c \<and> c \<le> 102 then Some (c - 87)
     else if 65 \<le> c \<and> c \<le> 70 then Some (c - 55)
     else None)"

fun bytes_hex :: "bytes \<Rightarrow> pystr" where
  "bytes_hex [] = []"
| "bytes_hex (b # bs) = hexdigit (unat b div 16) # hexdigit (unat b mod 16) # bytes_hex bs"

definition is_space :: "nat \<Rightarrow> bool" where
  "is_space c \<longleftrightarrow> c = 32 \<or> (9 \<le> c \<and> c \<le> 13)"

text \<open>\<open>bytes.fromhex\<close>: white space may stand before an octet, never inside one.\<close>

fun fromhex :: "pystr \<Rightarrow> bytes option" where
  "fromhex [] = Some []"
| "fromhex (c # cs) =
     (if is_space c then fromhex cs
      else case cs of
          [] \<Rightarrow> None
        | d # ds \<Rightarrow> (case (hexval c, hexval d) of
              (Some hi, Some lo) \<Rightarrow> map_option (\<lambda>bs. octet (16 * hi + lo) # bs) (fromhex ds)
            | _ \<Rightarrow> None))"

lemma length_bytes_hex [simp, len_simps]: "length (bytes_hex bs) = 2 * length bs"
  by (induction bs) auto

lemma hexval_hexdigit: "n < 16 \<Longrightarrow> hexval (hexdigit n) = Some n"
  by (simp add: hexval_def hexdigit_def)

lemma hexdigit_not_space: "n < 16 \<Longrightarrow> \<not> is_space (hexdigit n)"
  by (auto simp: is_space_def hexdigit_def)

lemma fromhex_bytes_hex: "fromhex (bytes_hex bs) = Some bs"
proof (induction bs)
  case Nil
  then show ?case by simp
next
  case (Cons b bs)
  have hi: "unat b div 16 < 16" and lo: "unat b mod 16 < 16"
    using unat_octet_less [of b] by auto
  have "16 * (unat b div 16) + unat b mod 16 = unat b" by simp
  then have "octet (16 * (unat b div 16) + unat b mod 16) = b"
    by (simp only: octet_unat)
  then show ?case
    using Cons hi lo by (simp add: hexval_hexdigit hexdigit_not_space)
qed

lemma bytes_hex_inject: "bytes_hex a = bytes_hex b \<longleftrightarrow> a = b"
  by (metis fromhex_bytes_hex option.inject)

section \<open>Lower case\<close>

text \<open>
  \<open>str.lower\<close> on ASCII; other code points are left alone.  Every comparison the verifier
  makes after \<open>lower\<close> is with a string of lower-case hex digits, and no character outside
  ASCII lowers to one of those, so the comparisons come out as in Python.
\<close>

definition lower_char :: "nat \<Rightarrow> nat" where
  "lower_char c = (if 65 \<le> c \<and> c \<le> 90 then c + 32 else c)"

definition lower :: "pystr \<Rightarrow> pystr" where
  "lower s = map lower_char s"

lemma length_lower [simp, len_simps]: "length (lower s) = length s"
  by (simp add: lower_def)

lemma lower_idem [simp]: "lower (lower s) = lower s"
  by (simp add: lower_def lower_char_def)

lemma lower_append: "lower (a @ b) = lower a @ lower b"
  by (simp add: lower_def)

lemma lower_bytes_hex [simp]: "lower (bytes_hex bs) = bytes_hex bs"
proof -
  have "lower_char (hexdigit n) = hexdigit n" if "n < 16" for n
    using that by (simp add: lower_char_def hexdigit_def)
  moreover have "unat b div 16 < 16" for b :: "8 word"
    using unat_octet_less [of b] by auto
  ultimately show ?thesis by (induction bs) (auto simp: lower_def)
qed

section \<open>Anchored patterns\<close>

definition is_hex :: "nat \<Rightarrow> bool" where
  "is_hex c \<longleftrightarrow> hexval c \<noteq> None"

text \<open>\<open>re.compile(r"^0x[0-9a-fA-F]{n}$").match(s)\<close>\<close>

definition hex_re :: "nat \<Rightarrow> pystr \<Rightarrow> bool" where
  "hex_re n s \<longleftrightarrow> take 2 s = ascii ''0x'' \<and> 2 + n \<le> length s \<and> list_all is_hex (take n (drop 2 s))
     \<and> (length s = 2 + n \<or> (length s = 3 + n \<and> s ! (2 + n) = 10))"

definition HEX32_RE :: "pystr \<Rightarrow> bool" where
  "HEX32_RE s = hex_re 64 s"

definition ADDRESS_RE :: "pystr \<Rightarrow> bool" where
  "ADDRESS_RE s = hex_re 40 s"

definition SIG_RE :: "pystr \<Rightarrow> bool" where
  "SIG_RE s = hex_re 130 s"

lemma list_all_is_hex_bytes_hex: "list_all is_hex (bytes_hex bs)"
proof -
  have "unat b div 16 < 16" for b :: "8 word"
    using unat_octet_less [of b] by auto
  then show ?thesis by (induction bs) (auto simp: is_hex_def hexval_hexdigit)
qed

lemma hex_re_bytes_hex: "length bs * 2 = n \<Longrightarrow> hex_re n (ascii ''0x'' @ bytes_hex bs)"
  by (auto simp: hex_re_def list_all_is_hex_bytes_hex mult.commute)

section \<open>UTF-8\<close>

text \<open>\<open>str.encode("utf-8")\<close>; \<open>None\<close> is the \<open>UnicodeEncodeError\<close> of a lone surrogate.\<close>

definition utf8_char :: "nat \<Rightarrow> bytes option" where
  "utf8_char c =
     (if c < 0x80 then Some [octet c]
      else if c < 0x800 then Some [octet (192 + c div 64), octet (128 + c mod 64)]
      else if 0xD800 \<le> c \<and> c \<le> 0xDFFF then None
      else if c < 0x10000 then Some [octet (224 + c div 4096),
          octet (128 + (c div 64) mod 64), octet (128 + c mod 64)]
      else if c < 0x110000 then Some [octet (240 + c div 262144),
          octet (128 + (c div 4096) mod 64), octet (128 + (c div 64) mod 64),
          octet (128 + c mod 64)]
      else None)"

fun utf8_encode :: "pystr \<Rightarrow> bytes option" where
  "utf8_encode [] = Some []"
| "utf8_encode (c # cs) = (case (utf8_char c, utf8_encode cs) of
     (Some u, Some us) \<Rightarrow> Some (u @ us) | _ \<Rightarrow> None)"

lemma div64_parts: "(c :: nat) div 64 = d div 64 \<Longrightarrow> c mod 64 = d mod 64 \<Longrightarrow> c = d"
  by (metis div_mult_mod_eq)

lemma div4096_parts:
  assumes "(c :: nat) div 4096 = d div 4096" and "(c div 64) mod 64 = (d div 64) mod 64"
    and "c mod 64 = d mod 64"
  shows "c = d"
proof -
  have "(c div 64) div 64 = (d div 64) div 64" using assms(1) by (simp add: div_mult2_eq [symmetric])
  then have "c div 64 = d div 64" using assms(2) by (rule div64_parts)
  then show ?thesis using assms(3) by (rule div64_parts)
qed

lemma div262144_parts:
  assumes "(c :: nat) div 262144 = d div 262144" and "(c div 4096) mod 64 = (d div 4096) mod 64"
    and "(c div 64) mod 64 = (d div 64) mod 64" and "c mod 64 = d mod 64"
  shows "c = d"
proof -
  have "(c div 4096) div 64 = (d div 4096) div 64" using assms(1) by (simp add: div_mult2_eq [symmetric])
  then have "c div 4096 = d div 4096" using assms(2) by (rule div64_parts)
  then show ?thesis using assms(3,4) by (rule div4096_parts)
qed

text \<open>An encoded character is recognised by its first octet, so the encoding is prefix free.\<close>

lemma octet_mod [simp]: "octet (128 + a mod 64) = octet (128 + b mod 64) \<longleftrightarrow> a mod 64 = b mod 64"
proof -
  have "a mod 64 < 64" "b mod 64 < 64" by simp_all
  then have "128 + a mod 64 < 256" "128 + b mod 64 < 256" by linarith+
  then show ?thesis by (simp add: octet_eq)
qed

text \<open>The number of octets and the lead octet of an encoded character.\<close>

definition utf8_lead :: "nat \<Rightarrow> nat" where
  "utf8_lead c = (if c < 0x80 then c else if c < 0x800 then 192 + c div 64
     else if c < 0x10000 then 224 + c div 4096 else 240 + c div 262144)"

lemma utf8_lead_less: "c < 0x110000 \<Longrightarrow> utf8_lead c < 256"
  by (auto simp: utf8_lead_def)

lemma utf8_char_hd:
  "utf8_char c = Some u \<Longrightarrow> c < 0x110000 \<and> u \<noteq> [] \<and> hd u = octet (utf8_lead c)"
  by (auto simp: utf8_char_def utf8_lead_def split: if_splits)

lemma utf8_char_prefix_free:
  assumes u: "utf8_char c = Some u" and v: "utf8_char d = Some v" and eq: "u @ r = v @ s"
  shows "c = d \<and> r = s"
proof -
  have "octet (utf8_lead c) = octet (utf8_lead d)"
    using utf8_char_hd [OF u] utf8_char_hd [OF v] eq by (metis hd_append2)
  then have lead: "utf8_lead c = utf8_lead d"
    using utf8_char_hd [OF u] utf8_char_hd [OF v] by (simp add: octet_eq utf8_lead_less)
  consider (c1) "c < 0x80" "d < 0x80" | (c2) "0x80 \<le> c" "c < 0x800" "0x80 \<le> d" "d < 0x800"
    | (c3) "0x800 \<le> c" "c < 0x10000" "0x800 \<le> d" "d < 0x10000"
    | (c4) "0x10000 \<le> c" "c < 0x110000" "0x10000 \<le> d" "d < 0x110000"
    using lead utf8_char_hd [OF u] utf8_char_hd [OF v]
    by (simp add: utf8_lead_def split: if_splits)
  then show ?thesis
  proof cases
    case c1
    with u v eq lead show ?thesis by (simp add: utf8_char_def utf8_lead_def)
  next
    case c2
    with u v eq lead show ?thesis
      by (auto simp: utf8_char_def utf8_lead_def split: if_splits intro: div64_parts)
  next
    case c3
    with u v eq lead show ?thesis
      by (auto simp: utf8_char_def utf8_lead_def split: if_splits intro: div4096_parts)
  next
    case c4
    with u v eq lead show ?thesis
      by (auto simp: utf8_char_def utf8_lead_def split: if_splits intro: div262144_parts)
  qed
qed

lemma utf8_char_nonempty: "utf8_char c = Some u \<Longrightarrow> u \<noteq> []"
  by (auto simp: utf8_char_def split: if_splits)

theorem utf8_encode_inject:
  "utf8_encode s = Some b \<Longrightarrow> utf8_encode t = Some b \<Longrightarrow> s = t"
proof (induction s arbitrary: t b)
  case Nil
  then show ?case
    by (cases t) (auto split: option.splits dest: utf8_char_nonempty)
next
  case (Cons c cs)
  then obtain u us where u: "utf8_char c = Some u" "utf8_encode cs = Some us" "b = u @ us"
    by (auto split: option.splits)
  with Cons.prems obtain d ds where t: "t = d # ds"
    by (cases t) (auto dest: utf8_char_nonempty)
  with Cons.prems obtain v vs where v: "utf8_char d = Some v" "utf8_encode ds = Some vs" "b = v @ vs"
    by (auto split: option.splits)
  have "u @ us = v @ vs" using u(3) v(3) by simp
  from utf8_char_prefix_free [OF u(1) v(1) this] have "c = d" "us = vs" by auto
  with Cons.IH [OF u(2)] v(2) t show ?case by simp
qed

end
