(* ===== verification/VH_Merkle.thy ===== *)
theory VH_Merkle
  imports VH_Keccak VH_Text
begin

text \<open>
  The Merkle commitment of \<open>verifier-py/verify_vh.py\<close>: path-bound leaves, tagged leaf and
  node hashes, and \<open>root_from_flat\<close>.  The locale \<open>digest32\<close> is the interface of the hash
  the tree relies on (a function with 32-octet digests); what the tree commits to is proved
  inside it and read off for \<open>keccak256\<close> through the interpretation \<open>kc\<close>.
\<close>

section \<open>The program\<close>

definition keccak_hex :: "bytes \<Rightarrow> pystr" where
  "keccak_hex data = ascii ''0x'' @ bytes_hex (keccak256 data)"

definition DIR_LEAF_DOMAIN :: bytes where
  "DIR_LEAF_DOMAIN = keccak256 (asciib ''verifyhash/dir-leaf/v1'')"

definition to_posix_rel :: "pystr \<Rightarrow> pystr" where
  "to_posix_rel rel_path = (if take 2 rel_path = ascii ''./'' then drop 2 rel_path else rel_path)"

definition hex_to_bytes32 :: "pystr \<Rightarrow> py_exc + bytes" where
  "hex_to_bytes32 v = (case fromhex (drop 2 v) of None \<Rightarrow> Inl ValueError | Some b \<Rightarrow> Inr b)"

text \<open>The string handed to the hash by \<open>path_leaf\<close>, apart so that it can be reasoned about.\<close>

definition path_preimage :: "pystr \<Rightarrow> pystr \<Rightarrow> py_exc + bytes" where
  "path_preimage rel_path content_digest_hex =
    (case utf8_encode (to_posix_rel rel_path) of
       None \<Rightarrow> Inl UnicodeEncodeError
     | Some rel_bytes \<Rightarrow> bindE (hex_to_bytes32 content_digest_hex)
         (\<lambda>d. Inr (DIR_LEAF_DOMAIN @ rel_bytes @ [0x00] @ d)))"

definition path_leaf :: "pystr \<Rightarrow> pystr \<Rightarrow> py_exc + bytes" where
  "path_leaf rel_path content_digest_hex =
    bindE (path_preimage rel_path content_digest_hex) (\<lambda>preimage. Inr (keccak256 preimage))"

definition leaf_hash :: "bytes \<Rightarrow> bytes" where
  "leaf_hash leaf = keccak256 (0x00 # leaf)"

definition node_hash :: "bytes \<Rightarrow> bytes \<Rightarrow> bytes" where
  "node_hash a b = (let (lo, hi) = (if from_bytes_be a \<le> from_bytes_be b then (a, b) else (b, a))
    in keccak256 (0x01 # lo @ hi))"

text \<open>One pass of the inner \<open>for\<close>: a lone last node is paired with itself.\<close>

fun next_layer :: "bytes list \<Rightarrow> bytes list" where
  "next_layer [] = []"
| "next_layer [x] = [node_hash x x]"
| "next_layer (x # y # rest) = node_hash x y # next_layer rest"

lemma length_next_layer: "length (next_layer xs) = (length xs + 1) div 2"
  by (induction xs rule: next_layer.induct) auto

function fold_layers :: "bytes list \<Rightarrow> bytes list" where
  "fold_layers layer = (if 1 < length layer then fold_layers (next_layer layer) else layer)"
  by pat_completeness auto
termination
  by (relation "measure length") (auto simp: length_next_layer)

declare fold_layers.simps [simp del]

record flat_entry =
  fe_relPath :: pystr
  fe_contentHash :: pystr

definition entry_leaf :: "flat_entry \<Rightarrow> py_exc + bytes" where
  "entry_leaf e = path_leaf (fe_relPath e) (fe_contentHash e)"

definition root_of_leaves :: "bytes list \<Rightarrow> bytes" where
  "root_of_leaves leaves = hd (fold_layers (map leaf_hash (sort_key from_bytes_be leaves)))"

definition root_from_flat :: "flat_entry list \<Rightarrow> py_exc + pystr" where
  "root_from_flat flat =
    (if flat = [] then Inl ValueError
     else bindE (mapE entry_leaf flat)
       (\<lambda>leaves. Inr (ascii ''0x'' @ bytes_hex (root_of_leaves leaves))))"

section \<open>What a tree of tagged hashes commits to\<close>

datatype mtree = MLeaf bytes | MNode mtree mtree

primrec mleaves :: "mtree \<Rightarrow> bytes set" where
  "mleaves (MLeaf l) = {l}"
| "mleaves (MNode s t) = mleaves s \<union> mleaves t"

definition ordered_pair :: "bytes \<Rightarrow> bytes \<Rightarrow> bytes" where
  "ordered_pair a b = (if from_bytes_be a \<le> from_bytes_be b then a @ b else b @ a)"

primrec mhash :: "(bytes \<Rightarrow> bytes) \<Rightarrow> mtree \<Rightarrow> bytes" where
  "mhash H (MLeaf l) = H (0 # l)"
| "mhash H (MNode s t) = H (1 # ordered_pair (mhash H s) (mhash H t))"

text \<open>Every string hashed while the tree is computed.\<close>

primrec minputs :: "(bytes \<Rightarrow> bytes) \<Rightarrow> mtree \<Rightarrow> bytes set" where
  "minputs H (MLeaf l) = {0 # l}"
| "minputs H (MNode s t) =
     insert (1 # ordered_pair (mhash H s) (mhash H t)) (minputs H s \<union> minputs H t)"

text \<open>Two different strings, one from each computation, with the same digest.\<close>

definition collides :: "(bytes \<Rightarrow> bytes) \<Rightarrow> bytes set \<Rightarrow> bytes set \<Rightarrow> bool" where
  "collides H A B \<longleftrightarrow> (\<exists>a \<in> A. \<exists>b \<in> B. a \<noteq> b \<and> H a = H b)"

lemma collides_mono: "collides H A B \<Longrightarrow> A \<subseteq> A' \<Longrightarrow> B \<subseteq> B' \<Longrightarrow> collides H A' B'"
  by (auto simp: collides_def)

locale digest32 =
  fixes H :: "bytes \<Rightarrow> bytes"
  assumes digest_length: "length (H x) = 32"
begin

lemma length_mhash: "length (mhash H t) = 32"
  by (cases t) (simp_all add: digest_length)

lemma ordered_pair_inject:
  assumes "length a = 32" "length b = 32" "length c = 32" "length d = 32"
    and "ordered_pair a b = ordered_pair c d"
  shows "(a = c \<and> b = d) \<or> (a = d \<and> b = c)"
  using assms by (auto simp: ordered_pair_def split: if_splits)

lemma binding:
  "mhash H s = mhash H t \<Longrightarrow> mleaves s = mleaves t \<or> collides H (minputs H s) (minputs H t)"
proof (induction s arbitrary: t)
  case (MLeaf l)
  then show ?case by (cases t) (auto simp: collides_def)
next
  case (MNode s1 s2)
  show ?case
  proof (cases t)
    case (MLeaf l)
    then show ?thesis using MNode.prems by (auto simp: collides_def)
  next
    case (MNode t1 t2)
    show ?thesis
    proof (cases "ordered_pair (mhash H s1) (mhash H s2) = ordered_pair (mhash H t1) (mhash H t2)")
      case False
      then show ?thesis using MNode.prems MNode by (auto simp: collides_def)
    next
      case True
      then consider "mhash H s1 = mhash H t1" "mhash H s2 = mhash H t2"
        | "mhash H s1 = mhash H t2" "mhash H s2 = mhash H t1"
        using ordered_pair_inject [OF length_mhash length_mhash length_mhash length_mhash] by blast
      then show ?thesis
      proof cases
        case 1
        from MNode.IH(1) [OF 1(1)] MNode.IH(2) [OF 1(2)] show ?thesis
          unfolding MNode by (auto intro: collides_mono)
      next
        case 2
        from MNode.IH(1) [OF 2(1)] MNode.IH(2) [OF 2(2)] show ?thesis
          unfolding MNode by (auto intro: collides_mono)
      qed
    qed
  qed
qed

end

interpretation kc: digest32 keccak256
  by unfold_locales (rule length_keccak256)

section \<open>The layered fold computes the hash of a tree\<close>

fun pair_up :: "mtree list \<Rightarrow> mtree list" where
  "pair_up [] = []"
| "pair_up [x] = [MNode x x]"
| "pair_up (x # y # rest) = MNode x y # pair_up rest"

lemma length_pair_up: "length (pair_up ts) = (length ts + 1) div 2"
  by (induction ts rule: pair_up.induct) auto

function build_tree :: "mtree list \<Rightarrow> mtree list" where
  "build_tree ts = (if 1 < length ts then build_tree (pair_up ts) else ts)"
  by pat_completeness auto
termination
  by (relation "measure length") (auto simp: length_pair_up)

declare build_tree.simps [simp del]

lemma sort_key_eq_Nil [simp]: "sort_key f xs = [] \<longleftrightarrow> xs = []"
  by (metis length_0_conv length_sort)

definition merkle_tree :: "bytes list \<Rightarrow> mtree" where
  "merkle_tree leaves = hd (build_tree (map MLeaf (sort_key from_bytes_be leaves)))"

lemma node_hash_mhash:
  "node_hash (mhash keccak256 s) (mhash keccak256 t) = mhash keccak256 (MNode s t)"
  by (simp add: node_hash_def ordered_pair_def)

lemma next_layer_pair_up:
  "next_layer (map (mhash keccak256) ts) = map (mhash keccak256) (pair_up ts)"
  by (induction ts rule: pair_up.induct) (simp_all add: node_hash_mhash del: mhash.simps)

lemma fold_layers_build:
  "fold_layers (map (mhash keccak256) ts) = map (mhash keccak256) (build_tree ts)"
proof (induction ts rule: build_tree.induct)
  case (1 ts)
  show ?case
  proof (cases "1 < length ts")
    case True
    with 1 show ?thesis
      by (simp add: fold_layers.simps [of "map (mhash keccak256) ts"] build_tree.simps [of ts] next_layer_pair_up)
  next
    case False
    then show ?thesis
      by (simp add: fold_layers.simps [of "map (mhash keccak256) ts"] build_tree.simps [of ts])
  qed
qed

lemma pair_up_leaves: "(\<Union>t \<in> set (pair_up ts). mleaves t) = (\<Union>t \<in> set ts. mleaves t)"
  by (induction ts rule: pair_up.induct) auto

lemma build_tree_single: "ts \<noteq> [] \<Longrightarrow> \<exists>t. build_tree ts = [t] \<and> mleaves t = (\<Union>u \<in> set ts. mleaves u)"
proof (induction ts rule: build_tree.induct)
  case (1 ts)
  show ?case
  proof (cases "1 < length ts")
    case True
    then have "pair_up ts \<noteq> []" using length_pair_up [of ts] by auto
    with 1 True show ?thesis by (simp add: build_tree.simps [of ts] pair_up_leaves)
  next
    case False
    with 1 obtain t where "ts = [t]" by (cases ts) auto
    then show ?thesis by (simp add: build_tree.simps)
  qed
qed

lemma merkle_tree_build:
  assumes "leaves \<noteq> []"
  shows "build_tree (map MLeaf (sort_key from_bytes_be leaves)) = [merkle_tree leaves]
    \<and> mleaves (merkle_tree leaves) = set leaves"
proof -
  have "map MLeaf (sort_key from_bytes_be leaves) \<noteq> []" using assms by simp
  from build_tree_single [OF this] obtain t where
    t: "build_tree (map MLeaf (sort_key from_bytes_be leaves)) = [t]"
      "mleaves t = (\<Union>u \<in> set (map MLeaf (sort_key from_bytes_be leaves)). mleaves u)"
    by blast
  then have "merkle_tree leaves = t" by (simp add: merkle_tree_def)
  with t show ?thesis by simp
qed

lemma merkle_tree_leaves: "leaves \<noteq> [] \<Longrightarrow> mleaves (merkle_tree leaves) = set leaves"
  by (rule merkle_tree_build [THEN conjunct2])

lemma map_leaf_hash: "map leaf_hash xs = map (mhash keccak256) (map MLeaf xs)"
  by (simp add: leaf_hash_def)

lemma root_of_leaves_tree:
  "leaves \<noteq> [] \<Longrightarrow> root_of_leaves leaves = mhash keccak256 (merkle_tree leaves)"
  by (simp add: root_of_leaves_def map_leaf_hash fold_layers_build merkle_tree_build
      del: map_map mhash.simps)

lemma length_root_of_leaves: "leaves \<noteq> [] \<Longrightarrow> length (root_of_leaves leaves) = 32"
  by (simp add: root_of_leaves_tree kc.length_mhash)

theorem leaves_bound_by_root:
  assumes "xs \<noteq> []" "ys \<noteq> []" "root_of_leaves xs = root_of_leaves ys"
  shows "set xs = set ys \<or>
    collides keccak256 (minputs keccak256 (merkle_tree xs)) (minputs keccak256 (merkle_tree ys))"
  using kc.binding [of "merkle_tree xs" "merkle_tree ys"] assms
  by (simp add: root_of_leaves_tree merkle_tree_leaves)

section \<open>Order independence\<close>

lemma sort_key_be_perm:
  assumes "mset xs = mset ys" and "\<forall>b \<in> set xs. length b = 32"
  shows "sort_key from_bytes_be xs = sort_key from_bytes_be ys"
proof -
  have "set ys = set xs" using assms(1) by (metis set_mset_mset)
  then have "inj_on from_bytes_be (set xs)"
    using assms(2) by (auto simp: inj_on_def from_bytes_be_inject)
  then show ?thesis
    using assms(1) by (intro sort_key_inj_key_eq) (simp_all add: sorted_sort_key)
qed

lemma entry_leaf_length: "entry_leaf e = Inr l \<Longrightarrow> length l = 32"
  by (auto simp: entry_leaf_def path_leaf_def bindE_eq_Inr)

lemma mapE_leaves: "mapE entry_leaf flat = Inr ls \<Longrightarrow> (\<forall>b \<in> set ls. length b = 32) \<and> length ls = length flat"
  by (metis entry_leaf_length in_set_conv_nth mapE_InrD)

lemma mapE_perm:
  "mset xs = mset ys \<Longrightarrow> mapE f xs = Inr us \<Longrightarrow> \<exists>vs. mapE f ys = Inr vs \<and> mset us = mset vs"
proof -
  assume m: "mset xs = mset ys" and "mapE f xs = Inr us"
  then have us: "map f xs = map Inr us" by (simp add: mapE_Inr_iff)
  have "\<forall>y \<in> set ys. \<exists>v. f y = Inr v"
  proof
    fix y assume "y \<in> set ys"
    then have "y \<in> set xs" using m by (metis set_mset_mset)
    then have "f y \<in> set (map Inr us)" using us by (metis image_eqI set_map)
    then show "\<exists>v. f y = Inr v" by auto
  qed
  then have vs: "map f ys = map Inr (map (\<lambda>y. projr (f y)) ys)" by auto
  have "us = map (\<lambda>x. projr (f x)) xs"
    using arg_cong [OF us, of "map projr"] by (simp add: comp_def)
  then have "mset us = mset (map (\<lambda>y. projr (f y)) ys)"
    using m by simp
  moreover have "mapE f ys = Inr (map (\<lambda>y. projr (f y)) ys)"
    unfolding mapE_Inr_iff by (rule vs)
  ultimately show ?thesis by blast
qed

text \<open>The recomputed root does not depend on the order in which a seal lists its files:
  for two lists with the same entries, \<open>root_from_flat\<close> gives the same root.\<close>
theorem root_from_flat_perm:
  assumes "mset flat = mset flat'" and "root_from_flat flat = Inr r"
  shows "root_from_flat flat' = Inr r"
proof -
  from assms(2) obtain ls where ls: "mapE entry_leaf flat = Inr ls"
    and r: "r = ascii ''0x'' @ bytes_hex (root_of_leaves ls)" and ne: "flat \<noteq> []"
    by (auto simp: root_from_flat_def bindE_eq_Inr split: if_splits)
  from mapE_perm [OF assms(1) ls] obtain ls' where ls': "mapE entry_leaf flat' = Inr ls'" "mset ls = mset ls'"
    by blast
  have "root_of_leaves ls = root_of_leaves ls'"
    using sort_key_be_perm [OF ls'(2)] mapE_leaves [OF ls] by (simp add: root_of_leaves_def)
  moreover have "flat' \<noteq> []" using assms(1) ne by auto
  ultimately show ?thesis using ls' r by (simp add: root_from_flat_def)
qed

section \<open>The leaf binds the path and the content digest\<close>

lemma path_preimage_InrD:
  "path_preimage p h = Inr x \<Longrightarrow> \<exists>rb d. utf8_encode (to_posix_rel p) = Some rb \<and> fromhex (drop 2 h) = Some d
     \<and> x = DIR_LEAF_DOMAIN @ rb @ [0] @ d"
  by (auto simp: path_preimage_def hex_to_bytes32_def bindE_eq_Inr split: option.splits)

text \<open>The string hashed into a leaf determines the normalised path and the content digest:
  two entries with 32-octet digests and the same leaf preimage name the same path (up to one
  leading \<open>./\<close>) and the same digest, so the path cannot be shifted into the digest.\<close>
theorem path_preimage_inject:
  assumes "path_preimage p h = Inr x" and "path_preimage q k = Inr x"
    and "fromhex (drop 2 h) = Some d" and "fromhex (drop 2 k) = Some e"
    and "length d = 32" and "length e = 32"
  shows "to_posix_rel p = to_posix_rel q \<and> d = e"
proof -
  from path_preimage_InrD [OF assms(1)] assms(3) obtain rb where
    p: "utf8_encode (to_posix_rel p) = Some rb" "x = DIR_LEAF_DOMAIN @ rb @ [0] @ d" by auto
  from path_preimage_InrD [OF assms(2)] assms(4) obtain sb where
    q: "utf8_encode (to_posix_rel q) = Some sb" "x = DIR_LEAF_DOMAIN @ sb @ [0] @ e" by auto
  have "rb = sb \<and> d = e"
    using p(2) q(2) assms(5,6) by (simp add: append_eq_append_conv)
  with p(1) q(1) show ?thesis by (auto intro: utf8_encode_inject)
qed

section \<open>The root binds the files\<close>

type_synonym sfile = "pystr \<times> bytes"

text \<open>The present files as \<open>_classify_files\<close> lists them: each with the digest of its octets.\<close>

definition flat_of :: "sfile list \<Rightarrow> flat_entry list" where
  "flat_of fs = map (\<lambda>(p, c). \<lparr>fe_relPath = p, fe_contentHash = keccak_hex c\<rparr>) fs"

lemma fromhex_keccak_hex: "fromhex (drop 2 (keccak_hex c)) = Some (keccak256 c)"
  by (simp add: keccak_hex_def ascii_def fromhex_bytes_hex)

definition file_preimage :: "sfile \<Rightarrow> bytes" where
  "file_preimage f = projr (path_preimage (fst f) (keccak_hex (snd f)))"

definition file_leaves :: "sfile list \<Rightarrow> bytes list" where
  "file_leaves fs = map (\<lambda>f. keccak256 (file_preimage f)) fs"

text \<open>Everything hashed while the root of \<open>fs\<close> is computed.\<close>

definition root_inputs :: "sfile list \<Rightarrow> bytes set" where
  "root_inputs fs = snd ` set fs \<union> file_preimage ` set fs \<union> minputs keccak256 (merkle_tree (file_leaves fs))"

lemma root_of_files:
  assumes "root_from_flat (flat_of fs) = Inr r"
  shows "fs \<noteq> [] \<and> r = ascii ''0x'' @ bytes_hex (root_of_leaves (file_leaves fs)) \<and>
    (\<forall>f \<in> set fs. path_preimage (fst f) (keccak_hex (snd f)) = Inr (file_preimage f))"
proof -
  from assms obtain ls where ls: "mapE entry_leaf (flat_of fs) = Inr ls" and ne: "fs \<noteq> []"
    and r: "r = ascii ''0x'' @ bytes_hex (root_of_leaves ls)"
    by (auto simp: root_from_flat_def flat_of_def bindE_eq_Inr split: if_splits)
  have m: "map (\<lambda>f. path_leaf (fst f) (keccak_hex (snd f))) fs = map Inr ls"
    using ls by (simp add: mapE_Inr_iff flat_of_def entry_leaf_def comp_def case_prod_beta)
  have pre: "path_preimage (fst f) (keccak_hex (snd f)) = Inr (file_preimage f)" if "f \<in> set fs" for f
  proof -
    have "path_leaf (fst f) (keccak_hex (snd f)) \<in> set (map Inr ls)"
      unfolding m [symmetric] using that by simp
    then show ?thesis by (auto simp: path_leaf_def file_preimage_def bindE_eq_Inr)
  qed
  then have "map (\<lambda>f. path_leaf (fst f) (keccak_hex (snd f))) fs = map Inr (file_leaves fs)"
    by (simp add: file_leaves_def path_leaf_def)
  then have "map Inr ls = map Inr (file_leaves fs)" using m by simp
  then have "ls = file_leaves fs" by (simp add: inj_def inj_map_eq_map)
  with ne r pre show ?thesis by simp
qed

lemma root_binds_files_lemma:
  assumes "root_from_flat (flat_of fs) = Inr r" and "root_from_flat (flat_of gs) = Inr r"
  shows "(\<forall>f \<in> set fs. \<exists>g \<in> set gs. to_posix_rel (fst f) = to_posix_rel (fst g) \<and> snd f = snd g)
    \<or> collides keccak256 (root_inputs fs) (root_inputs gs)"
proof (rule disjCI)
  assume no: "\<not> collides keccak256 (root_inputs fs) (root_inputs gs)"
  note F = root_of_files [OF assms(1)] and G = root_of_files [OF assms(2)]
  have ne: "file_leaves fs \<noteq> []" "file_leaves gs \<noteq> []" using F G by (auto simp: file_leaves_def)
  have "root_of_leaves (file_leaves fs) = root_of_leaves (file_leaves gs)"
    using F G by (metis bytes_hex_inject same_append_eq)
  from leaves_bound_by_root [OF ne this] no
  have leaves: "set (file_leaves fs) = set (file_leaves gs)"
    unfolding root_inputs_def by (blast intro: collides_mono)
  show "\<forall>f \<in> set fs. \<exists>g \<in> set gs. to_posix_rel (fst f) = to_posix_rel (fst g) \<and> snd f = snd g"
  proof
    fix f assume f: "f \<in> set fs"
    then have "keccak256 (file_preimage f) \<in> set (file_leaves gs)"
      using leaves by (auto simp: file_leaves_def)
    then obtain g where g: "g \<in> set gs" "keccak256 (file_preimage f) = keccak256 (file_preimage g)"
      by (auto simp: file_leaves_def)
    then have "file_preimage f = file_preimage g"
      using no f by (auto simp: collides_def root_inputs_def)
    then have *: "to_posix_rel (fst f) = to_posix_rel (fst g) \<and> keccak256 (snd f) = keccak256 (snd g)"
      using F G f g(1) by (intro path_preimage_inject [OF _ _ fromhex_keccak_hex fromhex_keccak_hex]) auto
    then have "snd f = snd g"
      using no f g(1) by (auto simp: collides_def root_inputs_def)
    with * g(1) show "\<exists>g \<in> set gs. to_posix_rel (fst f) = to_posix_rel (fst g) \<and> snd f = snd g" by blast
  qed
qed

text \<open>C2: Tamper evidence.  If two file sets have the same root, every file of the one is in the
  other, with the same path up to a leading \<open>./\<close> and the same octets, unless the two
  computations themselves exhibit a keccak256 collision between strings they hash.\<close>
theorem root_binds_files:
  assumes "root_from_flat (flat_of fs) = Inr r" and "root_from_flat (flat_of gs) = Inr r"
  shows "(\<forall>f \<in> set fs. \<exists>g \<in> set gs. to_posix_rel (fst f) = to_posix_rel (fst g) \<and> snd f = snd g)
    \<or> collides keccak256 (root_inputs fs) (root_inputs gs)"
  using assms by (rule root_binds_files_lemma)

text \<open>The root binds the set of leaves but not their multiplicity: with three leaves the
  lone last one is paired with itself, so listing the greatest leaf twice gives the same root.\<close>
theorem lone_leaf_duplication:
  assumes "from_bytes_be a \<le> from_bytes_be b" and "from_bytes_be b \<le> from_bytes_be c"
  shows "root_of_leaves [a, b, c] = root_of_leaves [a, b, c, c]"
proof -
  have "sort_key from_bytes_be [a, b, c] = [a, b, c]" "sort_key from_bytes_be [a, b, c, c] = [a, b, c, c]"
    using assms by (auto simp: sort_key_def)
  then show ?thesis by (simp add: root_of_leaves_def fold_layers.simps)
qed

end
