(* ===== verification/VH_Secp.thy ===== *)
theory VH_Secp
  imports VH_Keccak VH_Text
begin

text \<open>
  secp256k1 public-key recovery of \<open>verifier-py/verify_vh.py\<close> over Python integers: the
  affine point arithmetic, \<open>_lift_x\<close>, \<open>_recover_public_key\<close> and the EIP-191 wrapper.
  \<open>pow(a, -1, m)\<close> raises where \<open>a\<close> has no inverse; the model keeps that branch, so no
  fact about the primality of the modulus is needed.
\<close>

section \<open>The program\<close>

definition P :: int where
  "P = 0xFFFFFFFFFFFFFFFFFFFFFFFFFFFFFFFFFFFFFFFFFFFFFFFFFFFFFFFEFFFFFC2F"

definition N :: int where
  "N = 0xFFFFFFFFFFFFFFFFFFFFFFFFFFFFFFFEBAAEDCE6AF48A03BBFD25E8CD0364141"

definition GX :: int where
  "GX = 0x79BE667EF9DCBBAC55A06295CE870B07029BFCDB2DCE28D959F2815B16F81798"

definition GY :: int where
  "GY = 0x483ADA7726A3C4655DA4FBFC0E1108A8FD17B448A68554199C47D08FFB10D4B8"

text \<open>Python's three-argument \<open>pow\<close>: by squaring for exponents \<open>\<ge> 0\<close>, by Euclid for \<open>-1\<close>.\<close>

fun pow_mod :: "int \<Rightarrow> nat \<Rightarrow> int \<Rightarrow> int" where
  "pow_mod b e m =
     (if e = 0 then 1 mod m
      else let h = pow_mod (b * b mod m) (e div 2) m in if odd e then b * h mod m else h)"

declare pow_mod.simps [simp del]

function xgcd :: "int \<Rightarrow> int \<Rightarrow> int \<times> int \<times> int" where
  "xgcd a b = (if b \<le> 0 then (a, 1, 0)
     else let (g, s, t) = xgcd b (a mod b) in (g, t, s - (a div b) * t))"
  by pat_completeness auto
termination
  by (relation "measure (\<lambda>(a, b). nat b)") auto

declare xgcd.simps [simp del]

definition inv_mod :: "int \<Rightarrow> int \<Rightarrow> py_exc + int" where
  "inv_mod a m = (let (g, s, t) = xgcd (a mod m) m in if g = 1 then Inr (s mod m) else Inl ValueError)"

type_synonym point = "(int \<times> int) option"

definition point_add :: "point \<Rightarrow> point \<Rightarrow> py_exc + point" where
  "point_add p1 p2 = (case p1 of None \<Rightarrow> Inr p2
    | Some (x1, y1) \<Rightarrow> (case p2 of None \<Rightarrow> Inr p1
        | Some (x2, y2) \<Rightarrow>
            if x1 = x2 \<and> (y1 + y2) mod P = 0 then Inr None
            else bindE
              (if x1 = x2 \<and> y1 = y2
               then bindE (inv_mod (2 * y1) P) (\<lambda>i. Inr ((3 * x1 * x1) * i mod P))
               else bindE (inv_mod (x2 - x1) P) (\<lambda>i. Inr ((y2 - y1) * i mod P)))
              (\<lambda>m. let x3 = (m * m - x1 - x2) mod P;
                       y3 = (m * (x1 - x3) - y1) mod P
                   in Inr (Some (x3, y3)))))"

function scalar_loop :: "int \<Rightarrow> point \<Rightarrow> point \<Rightarrow> py_exc + point" where
  "scalar_loop k result addend =
     (if k > 0 then
        bindE (if odd k then point_add result addend else Inr result)
          (\<lambda>result'. bindE (point_add addend addend)
            (\<lambda>addend'. scalar_loop (k div 2) result' addend'))
      else Inr result)"
  by pat_completeness auto
termination
  by (relation "measure (\<lambda>(k, r, a). nat k)") auto

declare scalar_loop.simps [simp del]

definition scalar_mul :: "int \<Rightarrow> point \<Rightarrow> py_exc + point" where
  "scalar_mul k pt = scalar_loop (k mod N) None pt"

definition lift_x :: "int \<Rightarrow> int \<Rightarrow> py_exc + (int \<times> int)" where
  "lift_x x y_parity = (let alpha = (x * x * x + 7) mod P;
      y = pow_mod alpha (nat ((P + 1) div 4)) P
    in if (y * y) mod P \<noteq> alpha then Inl RecoveryError
       else Inr (x, if y AND 1 \<noteq> y_parity then P - y else y))"

definition recover_public_key :: "bytes \<Rightarrow> int \<Rightarrow> int \<Rightarrow> int \<Rightarrow> py_exc + (int \<times> int)" where
  "recover_public_key msg_hash r s rec_id =
    (if \<not> (0 < r \<and> r < N) then Inl RecoveryError
     else if \<not> (0 < s \<and> s < N) then Inl RecoveryError
     else if rec_id < 0 \<or> rec_id > 3 then Inl RecoveryError
     else let x = r + (if drop_bit 1 rec_id \<noteq> 0 then N else 0)
       in if x \<ge> P then Inl RecoveryError
       else bindE (lift_x x (rec_id AND 1)) (\<lambda>point_r.
         let e = from_bytes_be msg_hash mod N
         in bindE (inv_mod r N) (\<lambda>r_inv.
            bindE (scalar_mul s (Some point_r)) (\<lambda>s_r.
            bindE (scalar_mul e (Some (GX, GY))) (\<lambda>e_g.
            let neg_e_g = map_option (\<lambda>(gx, gy). (gx, P - gy)) e_g
            in bindE (point_add s_r neg_e_g) (\<lambda>t.
               bindE (scalar_mul r_inv t) (\<lambda>q.
               case q of None \<Rightarrow> Inl RecoveryError | Some pub \<Rightarrow> Inr pub)))))))"

text \<open>\<open>v.to_bytes(32, "big")\<close>\<close>

definition to_bytes32 :: "int \<Rightarrow> py_exc + bytes" where
  "to_bytes32 v = (if 0 \<le> v \<and> v < 256 ^ 32 then Inr (to_bytes_be 32 v) else Inl OverflowError)"

definition pubkey_to_address :: "int \<times> int \<Rightarrow> py_exc + pystr" where
  "pubkey_to_address pub = bindE (to_bytes32 (fst pub)) (\<lambda>bx. bindE (to_bytes32 (snd pub)) (\<lambda>by.
     Inr (ascii ''0x'' @ bytes_hex (drop 12 (keccak256 (bx @ by))))))"

text \<open>\<open>str(n)\<close> of a count, as octets.\<close>

fun decimal_octets :: "nat \<Rightarrow> bytes" where
  "decimal_octets n = (if n < 10 then [octet (48 + n)] else decimal_octets (n div 10) @ [octet (48 + n mod 10)])"

declare decimal_octets.simps [simp del]

definition eip191_hash :: "bytes \<Rightarrow> bytes" where
  "eip191_hash message = (let prefix = 0x19 # asciib ''Ethereum Signed Message:'' @ [0x0A] @ decimal_octets (length message)
    in keccak256 (prefix @ message))"

text \<open>The recovery id read off the last octet of the signature.\<close>

definition normalize_v :: "int \<Rightarrow> int" where
  "normalize_v v0 = (let v = (if v0 \<ge> 27 then v0 - 27 else v0) in if v \<noteq> 0 \<and> v \<noteq> 1 then v AND 1 else v)"

definition recover_personal_sign_address :: "bytes \<Rightarrow> bytes \<Rightarrow> py_exc + pystr" where
  "recover_personal_sign_address message signature =
    (if length signature \<noteq> 65 then Inl RecoveryError
     else let r = from_bytes_be (take 32 signature);
         s = from_bytes_be (take 32 (drop 32 signature));
         v = normalize_v (uint (signature ! 64));
         digest = eip191_hash message
       in bindE (recover_public_key digest r s v) pubkey_to_address)"

definition try_recover :: "bytes \<Rightarrow> pystr \<Rightarrow> pystr option" where
  "try_recover message signature_hex =
    (case fromhex (drop 2 signature_hex) of None \<Rightarrow> None
     | Some sig \<Rightarrow> (case recover_personal_sign_address message sig of Inl _ \<Rightarrow> None | Inr a \<Rightarrow> Some a))"

section \<open>Modular arithmetic\<close>

lemma pow_mod_correct: "pow_mod b e m = b ^ e mod m"
proof (induction b e m rule: pow_mod.induct)
  case (1 b e m)
  show ?case
  proof (cases "e = 0")
    case True
    then show ?thesis by (simp add: pow_mod.simps)
  next
    case False
    then have IH: "pow_mod (b * b mod m) (e div 2) m = (b * b) ^ (e div 2) mod m"
      using 1 by (simp add: power_mod)
    have sq: "(b * b) ^ (e div 2) = b ^ (2 * (e div 2))"
      by (simp add: power_mult power2_eq_square)
    show ?thesis
    proof (cases "odd e")
      case True
      then have "b ^ e = b * b ^ (2 * (e div 2))"
        by (metis odd_two_times_div_two_succ power_Suc semiring_norm(174) Suc_eq_plus1)
      then show ?thesis using False True IH sq
        by (simp add: pow_mod.simps [of b e m] mod_mult_right_eq)
    next
      case even: False
      then have "2 * (e div 2) = e" by simp
      then show ?thesis using False even IH sq by (simp add: pow_mod.simps [of b e m])
    qed
  qed
qed

lemma xgcd_spec:
  "0 \<le> a \<Longrightarrow> 0 \<le> b \<Longrightarrow> xgcd a b = (g, s, t) \<Longrightarrow> g = gcd a b \<and> s * a + t * b = g"
proof (induction a b arbitrary: g s t rule: xgcd.induct)
  case (1 a b)
  show ?case
  proof (cases "b \<le> 0")
    case True
    with 1 have "b = 0" by simp
    with 1 show ?thesis using xgcd.simps [of a 0] by simp
  next
    case False
    obtain g' s' t' where r: "xgcd b (a mod b) = (g', s', t')" by (cases "xgcd b (a mod b)") auto
    have IH: "g' = gcd b (a mod b)" "s' * b + t' * (a mod b) = g'"
      using "1.IH" [OF False _ _ r] False by auto
    have res: "g = g'" "s = t'" "t = s' - (a div b) * t'"
      using "1.prems"(3) False r by (auto simp: xgcd.simps [of a b])
    have "s * a + t * b = s' * b + t' * (a - (a div b) * b)"
      unfolding res by (simp add: algebra_simps)
    also have "a - (a div b) * b = a mod b" by (simp add: minus_div_mult_eq_mod)
    finally show ?thesis using IH res by (simp add: gcd.commute gcd_red_int [symmetric])
  qed
qed

lemma gcd_mod_left: "gcd (a mod m) m = gcd a (m :: int)"
  by (metis gcd.commute gcd_red_int)

lemma inv_mod_Inr:
  assumes "1 < m" and "inv_mod a m = Inr v"
  shows "0 \<le> v \<and> v < m \<and> a * v mod m = 1 \<and> coprime a m"
proof -
  obtain g s t where x: "xgcd (a mod m) m = (g, s, t)" by (cases "xgcd (a mod m) m") auto
  with assms have g: "g = 1" and v: "v = s mod m" by (auto simp: inv_mod_def split: if_splits)
  have spec: "g = gcd (a mod m) m" "s * (a mod m) + t * m = g"
    using xgcd_spec [OF _ _ x] assms(1) by auto
  have "a * v mod m = s * (a mod m) mod m" by (simp add: v mod_mult_right_eq mod_mult_left_eq mult.commute)
  also have "\<dots> = (s * (a mod m) + t * m) mod m" by simp
  also have "\<dots> = 1" using spec g assms(1) by simp
  finally have "a * v mod m = 1" .
  moreover have "coprime a m" using spec(1) g by (simp add: coprime_iff_gcd_eq_1 gcd_mod_left)
  ultimately show ?thesis using assms(1) v by simp
qed

text \<open>The inverse is computed exactly where it exists.\<close>

lemma inv_mod_total: "1 < m \<Longrightarrow> coprime a m \<longleftrightarrow> (\<exists>v. inv_mod a m = Inr v)"
proof
  assume m: "1 < m" and "coprime a m"
  moreover obtain g s t where x: "xgcd (a mod m) m = (g, s, t)" by (cases "xgcd (a mod m) m") auto
  ultimately have "g = 1" using xgcd_spec [OF _ _ x] by (simp add: coprime_iff_gcd_eq_1 gcd_mod_left)
  with x show "\<exists>v. inv_mod a m = Inr v" by (simp add: inv_mod_def)
next
  assume "1 < m" "\<exists>v. inv_mod a m = Inr v"
  then show "coprime a m" using inv_mod_Inr by blast
qed

section \<open>The curve\<close>

definition on_curve :: "int \<times> int \<Rightarrow> bool" where
  "on_curve q \<longleftrightarrow> (snd q * snd q - (fst q * fst q * fst q + 7)) mod P = 0"

definition curve_err :: "int \<Rightarrow> int \<Rightarrow> int" where
  "curve_err x y = x * x * x + 7 - y * y"

lemma on_curve_dvd: "on_curve (x, y) \<longleftrightarrow> P dvd curve_err x y"
proof -
  have "y * y - (x * x * x + 7) = - curve_err x y" by (simp add: curve_err_def)
  then show ?thesis by (simp add: on_curve_def mod_eq_0_iff_dvd)
qed

text \<open>A point is on the curve or not whatever representatives its coordinates have.\<close>

lemma on_curve_mod: "on_curve (x mod P, y mod P) \<longleftrightarrow> on_curve (x, y)"
proof -
  have "(x mod P * (x mod P) * (x mod P) + 7 - y mod P * (y mod P)) mod P = (x * x * x + 7 - y * y) mod P"
    by (intro mod_diff_cong mod_add_cong mod_mult_cong) simp_all
  then show ?thesis by (simp add: on_curve_dvd curve_err_def dvd_eq_mod_eq_0)
qed

lemma curve_err_cong_y:
  assumes "y mod P = y' mod P"
  shows "P dvd curve_err x y \<longleftrightarrow> P dvd curve_err x y'"
proof -
  have "(x * x * x + 7 - y * y) mod P = (x * x * x + 7 - y' * y') mod P"
    using assms by (intro mod_diff_cong mod_mult_cong) simp_all
  then show ?thesis by (simp add: curve_err_def dvd_eq_mod_eq_0)
qed

text \<open>The line through two points meets the cubic in a third: identities over the integers.\<close>

lemma chord_identity:
  fixes x1 y1 x2 y2 m :: int
  defines "x3 \<equiv> m * m - x1 - x2"
  shows "curve_err x3 (m * (x3 - x1) + y1) * (x2 - x1) =
    curve_err x1 y1 * (x2 - x3) + curve_err x2 (m * (x2 - x1) + y1) * (x3 - x1)"
  unfolding x3_def curve_err_def by algebra

lemma tangent_identity:
  fixes x1 y1 m :: int
  defines "x3 \<equiv> m * m - x1 - x1"
  shows "curve_err x3 (m * (x3 - x1) + y1) =
    curve_err x1 y1 + (3 * x1 * x1 - 2 * m * y1) * (x3 - x1)"
  unfolding x3_def curve_err_def by algebra

lemma P_gt_1: "1 < P"
  by (simp add: P_def)

lemma slope_mod:
  assumes "inv_mod d P = Inr i" and "m = n * i mod P"
  shows "P dvd m * d - n"
proof -
  have "d * i mod P = 1" using inv_mod_Inr [OF P_gt_1 assms(1)] by simp
  then have "(n * (d * i)) mod P = n mod P" by (metis mod_mult_right_eq mult.right_neutral)
  moreover have "(m * d) mod P = (n * (d * i)) mod P"
    unfolding assms(2) mod_mult_left_eq by (simp add: mult_ac)
  ultimately have "(m * d) mod P = n mod P" by simp
  then show ?thesis by (simp only: mod_eq_dvd_iff)
qed

lemma third_point:
  assumes "P dvd curve_err (m * m - x1 - x2) (m * ((m * m - x1 - x2) - x1) + y1)"
    and "x3 = (m * m - x1 - x2) mod P" and "y3 = (m * (x1 - x3) - y1) mod P"
  shows "on_curve (x3, y3)"
proof -
  let ?X = "m * m - x1 - x2"
  have "curve_err ?X (m * (x1 - ?X) - y1) = curve_err ?X (m * (?X - x1) + y1)"
    unfolding curve_err_def by algebra
  then have "P dvd curve_err ?X (m * (x1 - ?X) - y1)" using assms(1) by simp
  then have "on_curve (?X, m * (x1 - ?X) - y1)" by (simp add: on_curve_dvd)
  then have "on_curve (?X mod P, (m * (x1 - ?X) - y1) mod P)" by (simp only: on_curve_mod)
  moreover have "y3 = (m * (x1 - ?X) - y1) mod P"
    unfolding assms(2,3) by (intro mod_diff_cong mod_mult_cong) simp_all
  ultimately show ?thesis by (simp only: assms(2))
qed

lemma chord_on_curve:
  assumes "on_curve (x1, y1)" "on_curve (x2, y2)" and i: "inv_mod (x2 - x1) P = Inr i"
    and m: "m = (y2 - y1) * i mod P"
  shows "P dvd curve_err (m * m - x1 - x2) (m * ((m * m - x1 - x2) - x1) + y1)"
proof -
  have "P dvd m * (x2 - x1) - (y2 - y1)" using slope_mod [OF i m] .
  moreover have "m * (x2 - x1) + y1 - y2 = m * (x2 - x1) - (y2 - y1)" by simp
  ultimately have "(m * (x2 - x1) + y1) mod P = y2 mod P"
    by (simp only: mod_eq_dvd_iff)
  from curve_err_cong_y [OF this] have "P dvd curve_err x2 (m * (x2 - x1) + y1)"
    using assms(2) by (simp add: on_curve_dvd)
  then have "P dvd curve_err (m * m - x1 - x2) (m * ((m * m - x1 - x2) - x1) + y1) * (x2 - x1)"
    unfolding chord_identity using assms(1) by (intro dvd_add dvd_mult2) (simp_all only: on_curve_dvd)
  moreover have "coprime P (x2 - x1)"
    using inv_mod_Inr [OF P_gt_1 i] by (simp add: coprime_commute)
  ultimately show ?thesis by (simp only: coprime_dvd_mult_left_iff)
qed

lemma tangent_on_curve:
  assumes "on_curve (x1, y1)" and i: "inv_mod (2 * y1) P = Inr i" and m: "m = (3 * x1 * x1) * i mod P"
  shows "P dvd curve_err (m * m - x1 - x1) (m * ((m * m - x1 - x1) - x1) + y1)"
proof -
  have "P dvd m * (2 * y1) - 3 * x1 * x1" using slope_mod [OF i m] .
  then have "P dvd 3 * x1 * x1 - 2 * m * y1"
    by (metis dvd_diff_commute mult.assoc mult.commute mult.left_commute)
  then show ?thesis
    unfolding tangent_identity using assms(1) by (intro dvd_add dvd_mult2) (simp_all only: on_curve_dvd)
qed

definition point_ok :: "point \<Rightarrow> bool" where
  "point_ok p \<longleftrightarrow> (case p of None \<Rightarrow> True | Some q \<Rightarrow> on_curve q)"

lemma point_add_on_curve:
  assumes "point_ok p" "point_ok q" "point_add p q = Inr r"
  shows "point_ok r"
proof (cases p)
  case None
  with assms show ?thesis by (simp add: point_add_def)
next
  case p: (Some a)
  show ?thesis
  proof (cases q)
    case None
    with assms p show ?thesis by (auto simp: point_add_def split: prod.splits)
  next
    case q: (Some b)
    obtain x1 y1 x2 y2 where ab: "a = (x1, y1)" "b = (x2, y2)" by (cases a, cases b) auto
    have on: "on_curve (x1, y1)" "on_curve (x2, y2)" using assms p q ab by (auto simp: point_ok_def)
    show ?thesis
    proof (cases "x1 = x2 \<and> (y1 + y2) mod P = 0")
      case True
      with assms p q ab show ?thesis by (simp add: point_add_def point_ok_def)
    next
      case False
      show ?thesis
      proof (cases "x1 = x2 \<and> y1 = y2")
        case True
        then obtain i m where "inv_mod (2 * y1) P = Inr i" "m = (3 * x1 * x1) * i mod P"
            "r = Some ((m * m - x1 - x2) mod P, (m * (x1 - (m * m - x1 - x2) mod P) - y1) mod P)"
          using assms(3) False p q ab by (auto simp: point_add_def bindE_eq_Inr Let_def)
        then show ?thesis
          using third_point [OF tangent_on_curve [OF on(1)], of i m] True by (simp add: point_ok_def)
      next
        case distinct: False
        then obtain i m where "inv_mod (x2 - x1) P = Inr i" "m = (y2 - y1) * i mod P"
            "r = Some ((m * m - x1 - x2) mod P, (m * (x1 - (m * m - x1 - x2) mod P) - y1) mod P)"
          using assms(3) False p q ab by (auto simp: point_add_def bindE_eq_Inr Let_def split: if_splits)
        then show ?thesis
          using third_point [OF chord_on_curve [OF on], of i m] by (simp add: point_ok_def)
      qed
    qed
  qed
qed

lemma scalar_loop_on_curve:
  "point_ok res \<Longrightarrow> point_ok add \<Longrightarrow> scalar_loop k res add = Inr r \<Longrightarrow> point_ok r"
proof (induction k res add rule: scalar_loop.induct)
  case (1 k res add)
  show ?case
  proof (cases "0 < k")
    case True
    obtain res' add' where s: "(if odd k then point_add res add else Inr res) = Inr res'"
        "point_add add add = Inr add'" "scalar_loop (k div 2) res' add' = Inr r"
      using "1.prems"(3) True by (subst (asm) scalar_loop.simps) (auto simp: bindE_eq_Inr)
    have "point_ok res'"
    proof (cases "odd k")
      case True
      with s(1) have "point_add res add = Inr res'" by simp
      with "1.prems"(1,2) show ?thesis by (rule point_add_on_curve)
    next
      case False
      with s(1) "1.prems"(1) show ?thesis by simp
    qed
    moreover have "point_ok add'" using "1.prems"(2,2) s(2) by (rule point_add_on_curve)
    ultimately show ?thesis using s(3) by (rule "1.IH" [OF True])
  next
    case False
    then show ?thesis using "1.prems" by (subst (asm) scalar_loop.simps) simp
  qed
qed

lemma scalar_mul_on_curve: "point_ok p \<Longrightarrow> scalar_mul k p = Inr r \<Longrightarrow> point_ok r"
  unfolding scalar_mul_def by (rule scalar_loop_on_curve) (simp_all add: point_ok_def)

lemma G_on_curve: "on_curve (GX, GY)"
proof -
  have "curve_err GX GY = P * 0x1B888E01A06E974017A28A5B4DA436169761C9730B7AEEDF75FC60F6A33CFC7792FE74711F025D590B10E57F1B3A7CE38FFC4C885C515894B45C19C9F413E5E9"
    by (simp only: curve_err_def GX_def GY_def P_def)
  then show ?thesis by (simp only: on_curve_dvd dvd_triv_left)
qed

lemma negate_on_curve: "on_curve (x, y) \<Longrightarrow> on_curve (x, P - y)"
proof -
  have "curve_err x (P - y) = curve_err x y + P * (2 * y - P)"
    unfolding curve_err_def by (simp add: algebra_simps)
  then have "P dvd curve_err x (P - y) \<longleftrightarrow> P dvd curve_err x y"
    by (simp only: dvd_add_left_iff dvd_triv_left)
  then show "on_curve (x, y) \<Longrightarrow> on_curve (x, P - y)" by (simp only: on_curve_dvd)
qed

lemma lift_x_on_curve:
  assumes "lift_x x p = Inr q"
  shows "on_curve q \<and> fst q = x"
proof -
  define alpha where "alpha = (x * x * x + 7) mod P"
  define y where "y = pow_mod alpha (nat ((P + 1) div 4)) P"
  have sq: "(y * y) mod P = alpha" and q: "q = (x, if y AND 1 \<noteq> p then P - y else y)"
    using assms unfolding lift_x_def alpha_def [symmetric] Let_def y_def [symmetric]
    by (auto split: if_splits)
  have "on_curve (x, y)"
    using sq unfolding alpha_def on_curve_def fst_conv snd_conv by (simp only: mod_eq_dvd_iff mod_0_imp_dvd) (simp add: mod_eq_dvd_iff [symmetric] mod_eq_0_iff_dvd)
  then show ?thesis using q negate_on_curve by simp
qed

lemma recover_public_key_on_curve:
  assumes "recover_public_key h r s rec_id = Inr q"
  shows "on_curve q"
proof -
  obtain x pr r_inv s_r e_g t where
    "lift_x x (rec_id AND 1) = Inr pr" and sr: "scalar_mul s (Some pr) = Inr s_r"
    and eg: "scalar_mul (from_bytes_be h mod N) (Some (GX, GY)) = Inr e_g"
    and t: "point_add s_r (map_option (\<lambda>(gx, gy). (gx, P - gy)) e_g) = Inr t"
    and q: "scalar_mul r_inv t = Inr (Some q)"
    using assms by (auto simp: recover_public_key_def Let_def bindE_eq_Inr split: if_splits option.splits)
  then have "point_ok s_r" using lift_x_on_curve scalar_mul_on_curve [OF _ sr] by (simp add: point_ok_def)
  moreover have "point_ok e_g" using scalar_mul_on_curve [OF _ eg] G_on_curve by (simp add: point_ok_def)
  then have "point_ok (map_option (\<lambda>(gx, gy). (gx, P - gy)) e_g)"
    by (cases e_g) (auto simp: point_ok_def negate_on_curve)
  ultimately have "point_ok t" using point_add_on_curve t by blast
  then show ?thesis using scalar_mul_on_curve [OF _ q] by (simp add: point_ok_def)
qed

text \<open>C39: The point addition of the recovery is the curve's: from two points of \<open>y^2 = x^3 + 7\<close>
  modulo \<open>P\<close> (or infinity) it gives such a point, by the chord or the tangent, whenever the slope's
  denominator has an inverse; otherwise it raises.\<close>
theorem point_add_closed:
  assumes "point_ok p" and "point_ok q" and "point_add p q = Inr r"
  shows "point_ok r"
  using assms by (rule point_add_on_curve)

lemma inv_mod_1: "inv_mod 1 P = Inr 1"
  by (simp add: inv_mod_def P_def xgcd.simps)

text \<open>The points with abscissa 1 and 2; their chord has denominator 1.\<close>
theorem point_add_closed_witness:
  "\<exists>r. point_ok (Some (1, 0x4218F20AE6C646B363DB68605822FB14264CA8D2587FDD6FBC750D587E76A7EE)) \<and> point_ok (Some (2, 0x990418D84D45F61F60A56728F5A10317BDB3A05BDA4425E3AEE079F8A847A8D1))
    \<and> point_add (Some (1, 0x4218F20AE6C646B363DB68605822FB14264CA8D2587FDD6FBC750D587E76A7EE)) (Some (2, 0x990418D84D45F61F60A56728F5A10317BDB3A05BDA4425E3AEE079F8A847A8D1)) = Inr r \<and> point_ok r"
proof -
  have "curve_err 1 0x4218F20AE6C646B363DB68605822FB14264CA8D2587FDD6FBC750D587E76A7EE = P * (- 0x1110DF3BE5E21E6776516A5FA6702D71D937B2614804CCE0315F9575458FF784)" by (simp only: curve_err_def P_def)
  then have a: "point_ok (Some (1, 0x4218F20AE6C646B363DB68605822FB14264CA8D2587FDD6FBC750D587E76A7EE))" by (simp only: point_ok_def option.case on_curve_dvd dvd_triv_left)
  have "curve_err 2 0x990418D84D45F61F60A56728F5A10317BDB3A05BDA4425E3AEE079F8A847A8D1 = P * (- 0x5B75E5C355894FA0CE091AB9C305D0B5D86DBFCE59662D0E561F58259195D00E)" by (simp only: curve_err_def P_def)
  then have b: "point_ok (Some (2, 0x990418D84D45F61F60A56728F5A10317BDB3A05BDA4425E3AEE079F8A847A8D1))" by (simp only: point_ok_def option.case on_curve_dvd dvd_triv_left)
  have "\<exists>r. point_add (Some (1, 0x4218F20AE6C646B363DB68605822FB14264CA8D2587FDD6FBC750D587E76A7EE)) (Some (2, 0x990418D84D45F61F60A56728F5A10317BDB3A05BDA4425E3AEE079F8A847A8D1)) = Inr r"
    by (simp add: point_add_def inv_mod_1 Let_def)
  then show ?thesis using a b point_add_closed [OF a b] by blast
qed

text \<open>C40: Whatever digest and signature integers it is given, a key that
  \<open>_recover_public_key\<close> returns is a point of the curve \<open>y^2 = x^3 + 7\<close> modulo \<open>P\<close>: every
  addition, doubling and square root on the way is exact or raises.\<close>
theorem recovered_key_on_curve:
  "case recover_public_key h r s rec_id of Inl e \<Rightarrow> True | Inr q \<Rightarrow> on_curve q"
  by (cases "recover_public_key h r s rec_id") (simp_all add: recover_public_key_on_curve)

section \<open>Addresses\<close>

definition is_address :: "pystr \<Rightarrow> bool" where
  "is_address a \<longleftrightarrow> (\<exists>b. length b = 20 \<and> a = ascii ''0x'' @ bytes_hex b)"

lemma pubkey_to_address_shape: "pubkey_to_address pub = Inr a \<Longrightarrow> is_address a"
  unfolding pubkey_to_address_def bindE_eq_Inr is_address_def
proof (elim exE conjE)
  fix bx bz :: bytes
  assume "Inr (ascii ''0x'' @ bytes_hex (drop 12 (keccak256 (bx @ bz)))) = Inr a"
  then show "\<exists>b. length b = 20 \<and> a = ascii ''0x'' @ bytes_hex b"
    by (intro exI [of _ "drop 12 (keccak256 (bx @ bz))"]) simp
qed

lemma is_address_lower: "is_address a \<Longrightarrow> lower a = a \<and> ADDRESS_RE a \<and> length a = 42"
  unfolding is_address_def
proof (elim exE conjE)
  fix b :: bytes assume b: "length b = 20" "a = ascii ''0x'' @ bytes_hex b"
  have "lower (ascii ''0x'') = ascii ''0x''" by (simp add: lower_def ascii_def lower_char_def)
  then show "lower a = a \<and> ADDRESS_RE a \<and> length a = 42"
    using b by (simp add: lower_append ADDRESS_RE_def hex_re_bytes_hex)
qed

text \<open>\<open>try_recover\<close> never raises: it gives nothing, or an address of 20 octets in
  lower-case hex, which is what the verdict compares signers with.\<close>
theorem try_recover_address:
  "case try_recover message sig_hex of None \<Rightarrow> True
   | Some a \<Rightarrow> length a = 42 \<and> lower a = a \<and> ADDRESS_RE a"
proof (cases "try_recover message sig_hex")
  case (Some a)
  then have "is_address a"
    by (auto simp: try_recover_def recover_personal_sign_address_def Let_def bindE_eq_Inr
        split: option.splits sum.splits if_splits intro: pubkey_to_address_shape)
  then show ?thesis using Some is_address_lower by simp
qed simp

lemma octet_and_1: "0 \<le> (v :: int) \<Longrightarrow> v AND 1 = 0 \<or> v AND 1 = 1"
  by (simp add: and_one_eq) presburger

text \<open>The recovery id handed to ECDSA recovery is always 0 or 1, and a v of 0, 1, 27 or 28
  gives the parity it stands for; the ids 2 and 3 of the recovery routine are never used.\<close>
theorem normalize_v_parity:
  "0 \<le> v \<and> v < 256 \<Longrightarrow> normalize_v v \<in> {0, 1} \<and> (v \<in> {0, 1} \<longrightarrow> normalize_v v = v)
    \<and> (v \<in> {27, 28} \<longrightarrow> normalize_v v = v - 27)"
  using octet_and_1 [of v] octet_and_1 [of "v - 27"] by (auto simp: normalize_v_def Let_def)

end
