(* ===== verification/VH_Paths.thy ===== *)
theory VH_Paths
  imports VH_Text "HOL-Library.Sublist"
begin

text \<open>
  The path handling of \<open>verifier-py/verify_vh.py\<close>: the functions of \<open>posixpath\<close> it calls
  (\<open>isabs\<close>, \<open>join\<close>, \<open>normpath\<close>, \<open>abspath\<close>, \<open>relpath\<close>, \<open>dirname\<close>) and the confined reader
  \<open>_make_disk_read_entry\<close>.  The operating system is the record \<open>os_env\<close>: the working
  directory, \<open>realpath\<close> and reading a file are its fields and can raise.
\<close>

section \<open>JSON values\<close>

text \<open>What \<open>json.loads\<close> returns; an object is its list of items with distinct keys.\<close>

datatype json = JNull | JBool bool | JInt int | JFloat pystr | JStr pystr | JArr "json list"
  | JObj "(pystr \<times> json) list"

text \<open>\<open>obj.get(key)\<close> on a dict.\<close>

definition obj_get :: "(pystr \<times> json) list \<Rightarrow> string \<Rightarrow> json" where
  "obj_get items key = (case map_of items (ascii key) of None \<Rightarrow> JNull | Some v \<Rightarrow> v)"

text \<open>\<open>entry[key]\<close> on any value: only dicts have string keys.\<close>

definition subscript :: "json \<Rightarrow> string \<Rightarrow> py_exc + json" where
  "subscript j key = (case j of
     JObj items \<Rightarrow> (case map_of items (ascii key) of None \<Rightarrow> Inl KeyError | Some v \<Rightarrow> Inr v)
   | _ \<Rightarrow> Inl TypeError)"

section \<open>posixpath\<close>

definition sep :: nat where
  "sep = 47"

definition startswith :: "pystr \<Rightarrow> pystr \<Rightarrow> bool" where
  "startswith s p \<longleftrightarrow> take (length p) s = p"

definition endswith_sep :: "pystr \<Rightarrow> bool" where
  "endswith_sep s \<longleftrightarrow> s \<noteq> [] \<and> last s = sep"

text \<open>\<open>s.split(c)\<close> for one character, and \<open>re.split\<close> on a character class.\<close>

fun split_by :: "(nat \<Rightarrow> bool) \<Rightarrow> pystr \<Rightarrow> pystr list" where
  "split_by q [] = [[]]"
| "split_by q (c # cs) =
     (if q c then [] # split_by q cs
      else case split_by q cs of w # ws \<Rightarrow> (c # w) # ws | [] \<Rightarrow> [[c]])"

definition isabs :: "pystr \<Rightarrow> bool" where
  "isabs s \<longleftrightarrow> startswith s [sep]"

definition path_join :: "pystr \<Rightarrow> pystr \<Rightarrow> pystr" where
  "path_join a b = (if isabs b then b else if a = [] \<or> endswith_sep a then a @ b else a @ [sep] @ b)"

definition dot :: pystr where
  "dot = ascii ''.''"

definition dotdot :: pystr where
  "dotdot = ascii ''..''"

fun join_sep :: "pystr list \<Rightarrow> pystr" where
  "join_sep [] = []"
| "join_sep [w] = w"
| "join_sep (w # ws) = w @ [sep] @ join_sep ws"

text \<open>The loop of \<open>normpath\<close> over the components.\<close>

fun norm_comps :: "bool \<Rightarrow> pystr list \<Rightarrow> pystr list \<Rightarrow> pystr list" where
  "norm_comps absolute new_comps [] = new_comps"
| "norm_comps absolute new_comps (w # ws) =
     (if w = [] \<or> w = dot then norm_comps absolute new_comps ws
      else if w \<noteq> dotdot \<or> (\<not> absolute \<and> new_comps = []) \<or> (new_comps \<noteq> [] \<and> last new_comps = dotdot)
        then norm_comps absolute (new_comps @ [w]) ws
      else if new_comps \<noteq> [] then norm_comps absolute (butlast new_comps) ws
      else norm_comps absolute new_comps ws)"

definition initial_slashes :: "pystr \<Rightarrow> nat" where
  "initial_slashes path = (if \<not> isabs path then 0
     else if startswith path [sep, sep] \<and> \<not> startswith path [sep, sep, sep] then 2 else 1)"

definition normpath :: "pystr \<Rightarrow> pystr" where
  "normpath path = (if path = [] then dot
     else let n = initial_slashes path;
              p = replicate n sep @ join_sep (norm_comps (n \<noteq> 0) [] (split_by (\<lambda>c. c = sep) path))
          in if p = [] then dot else p)"

datatype 'a os_result = OsOk 'a | OsError | OsRaise py_exc

text \<open>
  The tree of a directory as \<open>os.scandir\<close> shows it: a subdirectory that cannot be scanned, and
  entries that are a directory (not following links) or anything else.
\<close>

datatype dir_tree = Unreadable | Listing "(pystr \<times> dir_node) list"
  and dir_node = NonDir | SubDir dir_tree

text \<open>
  What the verifier reads from outside itself: the working directory, \<open>os.path.realpath\<close>,
  reading a file as octets and as UTF-8 text, scanning a directory; and, of CPython,
  \<open>json.loads\<close> (\<open>None\<close> is \<open>JSONDecodeError\<close>) and \<open>str\<close> of a list or dict.
\<close>

record os_env =
  cwd :: pystr
  os_realpath :: "pystr \<Rightarrow> pystr os_result"
  os_read :: "pystr \<Rightarrow> bytes os_result"
  os_read_text :: "pystr \<Rightarrow> pystr os_result"
  os_tree :: "pystr \<Rightarrow> dir_tree"
  json_loads :: "pystr \<Rightarrow> json option"
  compound_str :: "json \<Rightarrow> pystr"

definition abspath :: "os_env \<Rightarrow> pystr \<Rightarrow> pystr" where
  "abspath env p = normpath (if isabs p then p else path_join (cwd env) p)"

text \<open>\<open>[x for x in abspath(p).split(sep) if x]\<close>\<close>

definition path_list :: "os_env \<Rightarrow> pystr \<Rightarrow> pystr list" where
  "path_list env p = filter (\<lambda>w. w \<noteq> []) (split_by (\<lambda>c. c = sep) (abspath env p))"

fun common_prefix_len :: "pystr list \<Rightarrow> pystr list \<Rightarrow> nat" where
  "common_prefix_len (a # as) (b # bs) = (if a = b then Suc (common_prefix_len as bs) else 0)"
| "common_prefix_len _ _ = 0"

definition relpath :: "os_env \<Rightarrow> pystr \<Rightarrow> pystr \<Rightarrow> pystr" where
  "relpath env p start = (let start_list = path_list env start; pl = path_list env p;
      i = common_prefix_len start_list pl;
      rel_list = replicate (length start_list - i) dotdot @ drop i pl
    in if rel_list = [] then dot else foldl path_join (hd rel_list) (tl rel_list))"

text \<open>\<open>os.path.dirname\<close>\<close>

definition dirname :: "pystr \<Rightarrow> pystr" where
  "dirname p = (let head = rev (dropWhile (\<lambda>c. c \<noteq> sep) (rev p))
    in if head \<noteq> [] \<and> (\<exists>c \<in> set head. c \<noteq> sep) then rev (dropWhile (\<lambda>c. c = sep) (rev head)) else head)"

section \<open>The confined reader\<close>

definition escapes :: "os_env \<Rightarrow> pystr \<Rightarrow> pystr \<Rightarrow> bool" where
  "escapes env base_real abs_path = (let rel = relpath env abs_path base_real
    in rel = dotdot \<or> startswith rel (dotdot @ [sep]) \<or> isabs rel)"

datatype entry_status = EntryOk bytes | EntryMissing | EntryEscaped

text \<open>String-level confinement, before any file system access.\<close>

definition hostile_rel :: "pystr \<Rightarrow> bool" where
  "hostile_rel p \<longleftrightarrow> p = [] \<or> isabs p \<or> List.member (split_by (\<lambda>c. c = 92 \<or> c = sep) p) dotdot"

definition base_realpath :: "os_env \<Rightarrow> pystr \<Rightarrow> py_exc + pystr" where
  "base_realpath env base_dir = (case os_realpath env base_dir of
     OsOk r \<Rightarrow> Inr r | OsError \<Rightarrow> Inr (abspath env base_dir) | OsRaise e \<Rightarrow> Inl e)"

definition read_entry :: "os_env \<Rightarrow> pystr \<Rightarrow> pystr \<Rightarrow> json \<Rightarrow> py_exc + entry_status" where
  "read_entry env base_dir base_real rel_path = (case rel_path of
     JStr p \<Rightarrow>
       if hostile_rel p then Inr EntryEscaped
       else let abs_path = abspath env (path_join base_dir p)
         in if escapes env base_real abs_path then Inr EntryEscaped
         else (case os_read env abs_path of
             OsError \<Rightarrow> Inr EntryMissing
           | OsRaise e \<Rightarrow> Inl e
           | OsOk content \<Rightarrow> (case os_realpath env abs_path of
               OsRaise e \<Rightarrow> Inl e
             | OsError \<Rightarrow> if escapes env base_real abs_path then Inr EntryEscaped else Inr (EntryOk content)
             | OsOk real \<Rightarrow> if escapes env base_real real then Inr EntryEscaped else Inr (EntryOk content)))
   | _ \<Rightarrow> Inr EntryEscaped)"

section \<open>Components of an absolute path\<close>

lemma split_by_nonempty [simp]: "split_by q s \<noteq> []"
  by (induction s) (auto split: list.splits)

lemma split_by_no_sep: "w \<in> set (split_by q s) \<Longrightarrow> c \<in> set w \<Longrightarrow> \<not> q c"
proof (induction s arbitrary: w)
  case Nil
  then show ?case by simp
next
  case (Cons a s)
  obtain v vs where v: "split_by q s = v # vs" by (cases "split_by q s") auto
  show ?case using Cons.prems Cons.IH [of v] Cons.IH [of w] v by (auto split: if_splits)
qed

lemma split_by_append: "split_by q (a @ [c] @ b) = split_by q a @ split_by q b" if "q c"
  using that by (induction a) (auto split: list.splits)

lemma norm_comps_clean:
  "dotdot \<notin> set acc \<Longrightarrow> [] \<notin> set acc \<Longrightarrow>
    dotdot \<notin> set (norm_comps True acc cs) \<and> [] \<notin> set (norm_comps True acc cs) \<and>
    set (norm_comps True acc cs) \<subseteq> set acc \<union> set cs"
proof (induction "True" acc cs rule: norm_comps.induct)
  case (1 acc)
  then show ?case by simp
next
  case (2 acc c cs)
  have "set (butlast acc) \<subseteq> set acc" by (auto dest: in_set_butlastD)
  moreover from this have "dotdot \<notin> set (butlast acc)" "[] \<notin> set (butlast acc)" using 2 by auto
  moreover have "\<not> (acc \<noteq> [] \<and> last acc = dotdot)" using 2 by (metis last_in_set)
  ultimately show ?case using 2 by (auto simp: subset_iff) blast
qed

lemma split_join_sep:
  assumes "\<forall>w \<in> set ws. w \<noteq> [] \<and> sep \<notin> set w"
  shows "filter (\<lambda>w. w \<noteq> []) (split_by (\<lambda>c. c = sep) (join_sep ws)) = ws"
  using assms
proof (induction ws rule: join_sep.induct)
  case 1
  then show ?case by simp
next
  case (2 w)
  have "sep \<notin> set w \<Longrightarrow> split_by (\<lambda>c. c = sep) w = [w]" for w
    by (induction w) auto
  then show ?case using 2 by simp
next
  case (3 w v vs)
  have "sep \<notin> set w \<Longrightarrow> split_by (\<lambda>c. c = sep) w = [w]" for w
    by (induction w) auto
  then show ?case using 3 split_by_append [of "\<lambda>c. c = sep" sep w "join_sep (v # vs)"] by simp
qed

lemma filter_split_slashes:
  "filter (\<lambda>w. w \<noteq> []) (split_by (\<lambda>c. c = sep) (replicate n sep @ s)) = filter (\<lambda>w. w \<noteq> []) (split_by (\<lambda>c. c = sep) s)"
  by (induction n) auto

lemma isabs_iff: "isabs s \<longleftrightarrow> s \<noteq> [] \<and> hd s = sep"
  by (cases s) (auto simp: isabs_def startswith_def)

lemma isabs_initial: "isabs p \<Longrightarrow> initial_slashes p \<noteq> 0 \<and> p \<noteq> []"
  by (auto simp: initial_slashes_def isabs_def startswith_def)

lemma path_list_abs:
  assumes "isabs (cwd env)"
  shows "\<exists>q. isabs q \<and> path_list env p = norm_comps True [] (split_by (\<lambda>c. c = sep) q)"
proof -
  define q where "q = (if isabs p then p else path_join (cwd env) p)"
  have q: "isabs q" using assms by (auto simp: q_def path_join_def isabs_iff)
  let ?ws = "norm_comps True [] (split_by (\<lambda>c. c = sep) q)"
  have "\<forall>w \<in> set ?ws. w \<noteq> [] \<and> sep \<notin> set w"
    using norm_comps_clean [of "[]" "split_by (\<lambda>c. c = sep) q"] split_by_no_sep [of _ "\<lambda>c. c = sep" q sep]
    by auto
  then have "path_list env p = ?ws"
    using isabs_initial [OF q]
    by (simp add: path_list_def abspath_def q_def [symmetric] normpath_def Let_def filter_split_slashes split_join_sep)
  with q show ?thesis by blast
qed

lemma path_list_clean:
  assumes "isabs (cwd env)" and "w \<in> set (path_list env p)"
  shows "w \<noteq> [] \<and> w \<noteq> dotdot \<and> sep \<notin> set w"
proof -
  obtain q where q: "path_list env p = norm_comps True [] (split_by (\<lambda>c. c = sep) q)"
    using path_list_abs [OF assms(1)] by blast
  then show ?thesis
    using norm_comps_clean [of "[]" "split_by (\<lambda>c. c = sep) q"] assms(2)
      split_by_no_sep [of w "\<lambda>c. c = sep" q sep] by auto
qed

section \<open>What the containment test means\<close>

lemma common_prefix_len_le: "common_prefix_len as bs \<le> length as"
  by (induction as bs rule: common_prefix_len.induct) auto

lemma common_prefix_len_full: "common_prefix_len as bs = length as \<longleftrightarrow> prefix as bs"
  by (induction as bs rule: common_prefix_len.induct) auto

lemma foldl_join_first:
  assumes "\<forall>w \<in> set ws. \<not> isabs w" and "a \<noteq> []" and "\<not> endswith_sep a"
    and "\<forall>w \<in> set ws. w \<noteq> [] \<and> sep \<notin> set w"
  shows "ws \<noteq> [] \<Longrightarrow> \<exists>r. foldl path_join a ws = a @ [sep] @ r"
  using assms
proof (induction ws arbitrary: a)
  case Nil
  then show ?case by simp
next
  case (Cons w ws)
  have j: "path_join a w = a @ [sep] @ w" using Cons.prems by (simp add: path_join_def)
  have "last w \<in> set w" using Cons.prems by simp
  then have "last w \<noteq> sep" using Cons.prems(5) by (metis list.set_intros(1))
  then have e: "\<not> endswith_sep (a @ [sep] @ w)" using Cons.prems by (auto simp: endswith_sep_def)
  show ?case
  proof (cases "ws = []")
    case True
    with j show ?thesis by simp
  next
    case False
    then obtain r where "foldl path_join (a @ [sep] @ w) ws = (a @ [sep] @ w) @ [sep] @ r"
      using Cons.IH [of "a @ [sep] @ w"] Cons.prems e by auto
    with j show ?thesis by simp
  qed
qed

lemma escapes_iff:
  assumes "isabs (cwd env)"
  shows "escapes env base p \<longleftrightarrow> \<not> prefix (path_list env base) (path_list env p)"
proof -
  let ?s = "path_list env base" and ?p = "path_list env p"
  let ?i = "common_prefix_len ?s ?p"
  let ?rl = "replicate (length ?s - ?i) dotdot @ drop ?i ?p"
  have clean: "\<forall>w \<in> set ?rl. w \<noteq> [] \<and> sep \<notin> set w \<and> \<not> isabs w"
    using path_list_clean [OF assms] by (auto simp: dotdot_def ascii_def sep_def isabs_def startswith_def
        dest!: in_set_dropD) (metis list.set_intros(1) neq_Nil_conv take_Suc_Cons list.sel(1))+
  have ends: "\<not> endswith_sep w" if "w \<in> set ?rl" for w
    using clean that by (metis endswith_sep_def last_in_set)
  have form: "relpath env p base = hd ?rl \<or> (\<exists>r. relpath env p base = hd ?rl @ [sep] @ r)" if "?rl \<noteq> []"
  proof (cases "tl ?rl = []")
    case True
    then show ?thesis using that by (simp only: relpath_def Let_def if_False foldl.simps simp_thms)
  next
    case False
    have "hd ?rl \<in> set ?rl" using that by (rule hd_in_set)
    moreover have "set (tl ?rl) \<subseteq> set ?rl" using that by (metis list.set_sel(2) subsetI)
    ultimately have "\<exists>r. foldl path_join (hd ?rl) (tl ?rl) = hd ?rl @ [sep] @ r"
      using clean ends by (intro foldl_join_first [OF _ _ _ _ False]) blast+
    then show ?thesis using that by (simp only: relpath_def Let_def if_False simp_thms)
  qed
  show ?thesis
  proof (cases "prefix ?s ?p")
    case True
    then have i: "?i = length ?s" by (simp add: common_prefix_len_full)
    show ?thesis
    proof (cases "?rl = []")
      case True
      then have "relpath env p base = dot" by (simp only: relpath_def Let_def if_True simp_thms)
      then show ?thesis using \<open>prefix ?s ?p\<close>
        by (simp add: escapes_def Let_def dot_def dotdot_def ascii_def startswith_def isabs_def sep_def)
    next
      case False
      then have h: "hd ?rl \<in> set ?p" using i by (metis append_Nil diff_self_eq_0 hd_in_set in_set_dropD replicate_0)
      then have w: "hd ?rl \<noteq> []" "hd ?rl \<noteq> dotdot" "sep \<notin> set (hd ?rl)"
        using path_list_clean [OF assms] by auto
      define w where "w = hd ?rl"
      have "\<not> (v = dotdot \<or> startswith v (dotdot @ [sep]) \<or> isabs v)" if "v = w \<or> (\<exists>r. v = w @ [sep] @ r)" for v
        using that w unfolding w_def [symmetric]
        by (cases w; cases "tl w"; cases "tl (tl w)")
          (auto simp: startswith_def dotdot_def ascii_def isabs_def sep_def)
      then show ?thesis using form [OF False] \<open>prefix ?s ?p\<close> unfolding w_def escapes_def Let_def by blast
    qed
  next
    case False
    then have "?i < length ?s" using common_prefix_len_le [of ?s ?p] common_prefix_len_full [of ?s ?p] by linarith
    then have ne: "?rl \<noteq> []" and h: "hd ?rl = dotdot" by (simp_all add: hd_append)
    have "v = dotdot \<or> startswith v (dotdot @ [sep])" if "v = dotdot \<or> (\<exists>r. v = dotdot @ [sep] @ r)" for v
      using that by (auto simp: startswith_def)
    then show ?thesis using form [OF ne] False unfolding h escapes_def Let_def by blast
  qed
qed

text \<open>C13: Path confinement.  When \<open>read_entry\<close> hands out a file's octets, the sealed path is a
  non-empty relative string with no \<open>..\<close> component, and both the path that was opened and the
  path it really resolves to lie, component by component, under the real base directory.\<close>
theorem read_entry_confined:
  assumes "isabs (cwd env)" and "read_entry env base_dir base_real rel = Inr (EntryOk content)"
  shows "\<exists>p. rel = JStr p \<and> \<not> hostile_rel p
    \<and> os_read env (abspath env (path_join base_dir p)) = OsOk content
    \<and> prefix (path_list env base_real) (path_list env (abspath env (path_join base_dir p)))
    \<and> (case os_realpath env (abspath env (path_join base_dir p)) of
         OsOk real \<Rightarrow> prefix (path_list env base_real) (path_list env real)
       | OsError \<Rightarrow> True | OsRaise e \<Rightarrow> False)"
proof -
  obtain p where p: "rel = JStr p" using assms(2) by (cases rel) (auto simp: read_entry_def)
  let ?a = "abspath env (path_join base_dir p)"
  from assms(2) p have h: "\<not> hostile_rel p" and e: "\<not> escapes env base_real ?a"
    and r: "os_read env ?a = OsOk content"
    by (auto simp: read_entry_def Let_def split: if_splits os_result.splits)
  have "case os_realpath env ?a of OsOk real \<Rightarrow> \<not> escapes env base_real real | OsError \<Rightarrow> True | OsRaise e \<Rightarrow> False"
    using assms(2) p h e r by (auto simp: read_entry_def Let_def split: if_splits os_result.splits)
  then show ?thesis using p h e r escapes_iff [OF assms(1)] by (auto split: os_result.splits)
qed

end
