(* ===== verification/VH_Engine.thy ===== *)
theory VH_Engine
  imports VH_Merkle VH_Secp VH_Paths "HOL-Library.List_Lexorder"
begin

text \<open>
  The verify engine of \<open>verifier-py/verify_vh.py\<close>: classification of the sealed files,
  \<open>_verify_evidence_seal\<close>, the signed container, the verdict of \<open>verify_parsed_artifact\<close>,
  \<open>--exact-dir\<close> and \<open>verify_artifact\<close>.  \<open>UsageError\<close> and \<open>IOError_\<close> are values;
  \<open>Raised\<close> is any exception the code does not catch.
\<close>

section \<open>Results\<close>

datatype vh_err = UsageErr | IOErr | Raised py_exc

definition liftE :: "py_exc + 'a \<Rightarrow> vh_err + 'a" where
  "liftE r = (case r of Inl e \<Rightarrow> Inl (Raised e) | Inr v \<Rightarrow> Inr v)"

lemma liftE_simps [simp]: "liftE (Inl e) = Inl (Raised e)" "liftE (Inr v) = Inr v"
  by (simp_all add: liftE_def)

lemma liftE_eq_Inr: "liftE r = Inr v \<longleftrightarrow> r = Inr v"
  by (cases r) auto

datatype reason = OK | path_escape | CHANGED | MISSING | UNEXPECTED | root_mismatch
  | bad_signature | wrong_issuer | unsigned_cannot_pin_vendor

record changed_entry =
  ce_relPath :: pystr
  ce_expected :: json
  ce_actual :: pystr

record classified =
  cl_matched :: "flat_entry list"
  cl_changed :: "changed_entry list"
  cl_missing :: "pystr list"
  cl_escaped :: "pystr list"
  cl_flat :: "flat_entry list"

record file_result =
  fr_classified :: classified
  fr_sealedRoot :: pystr
  fr_recomputedRoot :: "pystr option"
  fr_rootMatches :: bool
  fr_filesOk :: bool

section \<open>Classifying the sealed files\<close>

text \<open>\<open>str(v)\<close> of a JSON value.\<close>

fun decimal_chars :: "nat \<Rightarrow> pystr" where
  "decimal_chars n = (if n < 10 then [48 + n] else decimal_chars (n div 10) @ [48 + n mod 10])"

declare decimal_chars.simps [simp del]

definition py_str :: "os_env \<Rightarrow> json \<Rightarrow> pystr" where
  "py_str env j = (case j of JNull \<Rightarrow> ascii ''None''
     | JBool b \<Rightarrow> ascii (if b then ''True'' else ''False'')
     | JInt i \<Rightarrow> (if i < 0 then 45 # decimal_chars (nat (- i)) else decimal_chars (nat i))
     | JFloat r \<Rightarrow> r | JStr s \<Rightarrow> s | _ \<Rightarrow> compound_str env j)"

definition empty_classified :: classified where
  "empty_classified = \<lparr>cl_matched = [], cl_changed = [], cl_missing = [], cl_escaped = [], cl_flat = []\<rparr>"

text \<open>One iteration of the loop of \<open>_classify_files\<close>.\<close>

definition classify_entry :: "os_env \<Rightarrow> pystr \<Rightarrow> pystr \<Rightarrow> classified \<Rightarrow> json \<Rightarrow> py_exc + classified" where
  "classify_entry env base_dir base_real c entry =
    bindE (subscript entry ''relPath'') (\<lambda>rel_path.
    bindE (read_entry env base_dir base_real rel_path) (\<lambda>st. case st of
        EntryEscaped \<Rightarrow> Inr (c\<lparr>cl_escaped := cl_escaped c @ [py_str env rel_path]\<rparr>)
      | EntryMissing \<Rightarrow> Inr (c\<lparr>cl_missing := cl_missing c @ [py_str env rel_path]\<rparr>)
      | EntryOk content \<Rightarrow>
          let actual = keccak_hex content;
              fe = \<lparr>fe_relPath = py_str env rel_path, fe_contentHash = actual\<rparr>;
              c' = c\<lparr>cl_flat := cl_flat c @ [fe]\<rparr>
          in bindE (subscript entry ''contentHash'') (\<lambda>expected.
             if lower actual = lower (py_str env expected)
             then Inr (c'\<lparr>cl_matched := cl_matched c @ [fe]\<rparr>)
             else Inr (c'\<lparr>cl_changed := cl_changed c @
               [\<lparr>ce_relPath = py_str env rel_path, ce_expected = expected, ce_actual = actual\<rparr>]\<rparr>))))"

fun classify_loop :: "os_env \<Rightarrow> pystr \<Rightarrow> pystr \<Rightarrow> classified \<Rightarrow> json list \<Rightarrow> py_exc + classified" where
  "classify_loop env base_dir base_real c [] = Inr c"
| "classify_loop env base_dir base_real c (e # es) =
     bindE (classify_entry env base_dir base_real c e) (\<lambda>c'. classify_loop env base_dir base_real c' es)"

definition classify_files :: "os_env \<Rightarrow> pystr \<Rightarrow> pystr \<Rightarrow> json list \<Rightarrow> py_exc + classified" where
  "classify_files env base_dir base_real entries = classify_loop env base_dir base_real empty_classified entries"

section \<open>The seal\<close>

definition recompute_root :: "flat_entry list \<Rightarrow> pystr option" where
  "recompute_root flat = (if flat = [] then None
     else case root_from_flat flat of Inl _ \<Rightarrow> None | Inr r \<Rightarrow> Some r)"

definition root_matches :: "classified \<Rightarrow> pystr option \<Rightarrow> pystr \<Rightarrow> bool" where
  "root_matches c recomputed root \<longleftrightarrow> cl_missing c = [] \<and> cl_changed c = [] \<and> cl_escaped c = []
     \<and> (case recomputed of None \<Rightarrow> False | Some r \<Rightarrow> lower r = lower root)"

definition verify_evidence_seal ::
  "os_env \<Rightarrow> pystr \<Rightarrow> pystr \<Rightarrow> (pystr \<times> json) list \<Rightarrow> vh_err + file_result" where
  "verify_evidence_seal env base_dir base_real seal =
    (case obj_get seal ''files'' of
       JArr files \<Rightarrow>
         if files = [] then Inl IOErr
         else (case obj_get seal ''root'' of
             JStr root \<Rightarrow>
               if \<not> HEX32_RE root then Inl IOErr
               else bindE (liftE (classify_files env base_dir base_real files)) (\<lambda>c.
                 let recomputed = recompute_root (cl_flat c);
                     rm = root_matches c recomputed root;
                     ok = (cl_changed c = [] \<and> cl_missing c = [] \<and> cl_escaped c = [] \<and> rm)
                 in Inr \<lparr>fr_classified = c, fr_sealedRoot = root, fr_recomputedRoot = recomputed,
                      fr_rootMatches = rm, fr_filesOk = ok\<rparr>)
           | _ \<Rightarrow> Inl IOErr)
     | _ \<Rightarrow> Inl IOErr)"

section \<open>The signed container\<close>

definition normalize_address :: "pystr \<Rightarrow> vh_err + pystr" where
  "normalize_address addr = (if \<not> ADDRESS_RE addr then Inl UsageErr else Inr (lower addr))"

record decoded =
  de_embedded :: json
  de_message :: bytes
  de_claimedSigner :: pystr
  de_signature :: pystr

definition decode_signed :: "os_env \<Rightarrow> (pystr \<times> json) list \<Rightarrow> vh_err + decoded" where
  "decode_signed env container =
    (case obj_get container ''signature'' of
       JObj sig \<Rightarrow>
         if obj_get sig ''scheme'' \<noteq> JStr (ascii ''eip191-personal-sign'') then Inl IOErr
         else (case obj_get container ''attestation'' of
             JStr attestation \<Rightarrow> (case obj_get sig ''signature'' of
                 JStr signature \<Rightarrow>
                   if \<not> SIG_RE signature then Inl IOErr
                   else (case obj_get sig ''signer'' of
                       JStr signer \<Rightarrow>
                         if \<not> ADDRESS_RE signer then Inl IOErr
                         else (case json_loads env attestation of
                             None \<Rightarrow> Inl IOErr
                           | Some embedded \<Rightarrow> (case utf8_encode attestation of
                               None \<Rightarrow> Inl (Raised UnicodeEncodeError)
                             | Some message \<Rightarrow> Inr \<lparr>de_embedded = embedded, de_message = message,
                                 de_claimedSigner = lower signer, de_signature = signature\<rparr>))
                     | _ \<Rightarrow> Inl IOErr)
               | _ \<Rightarrow> Inl IOErr)
           | _ \<Rightarrow> Inl IOErr)
     | _ \<Rightarrow> Inl IOErr)"

section \<open>The verdict\<close>

definition EVIDENCE_SEAL :: pystr where
  "EVIDENCE_SEAL = ascii ''vh.evidence-seal''"

definition EVIDENCE_SEAL_SIGNED :: pystr where
  "EVIDENCE_SEAL_SIGNED = ascii ''vh.evidence-seal-signed''"

definition EXIT_OK :: int where "EXIT_OK = 0"
definition EXIT_IO :: int where "EXIT_IO = 1"
definition EXIT_USAGE :: int where "EXIT_USAGE = 2"
definition EXIT_REJECTED :: int where "EXIT_REJECTED = 3"

record result =
  r_kind :: json
  r_payloadKind :: json
  r_signed :: bool
  r_reason :: reason
  r_accepted :: bool
  r_recoveredSigner :: "pystr option"
  r_claimedSigner :: "pystr option"
  r_pinnedVendor :: "pystr option"
  r_signatureOk :: "bool option"
  r_signerMatchesVendor :: "bool option"
  r_files :: file_result
  r_unexpected :: "pystr list"

text \<open>The signer facts of one artifact: \<open>None\<close> for an unsigned one.\<close>

record signature_facts =
  sf_recovered :: "pystr option"
  sf_claimed :: pystr
  sf_ok :: bool

definition signature_facts_of :: "decoded \<Rightarrow> signature_facts" where
  "signature_facts_of d = (let rec = try_recover (de_message d) (de_signature d)
    in \<lparr>sf_recovered = rec, sf_claimed = de_claimedSigner d, sf_ok = (rec \<noteq> None \<and> rec = Some (de_claimedSigner d))\<rparr>)"

definition file_reason :: "file_result \<Rightarrow> reason" where
  "file_reason fr = (let c = fr_classified fr in
     if fr_filesOk fr then OK
     else if cl_escaped c \<noteq> [] then path_escape
     else if cl_changed c \<noteq> [] then CHANGED
     else if cl_missing c \<noteq> [] then MISSING
     else root_mismatch)"

text \<open>
  The branch on \<open>unexpected\<close> of the source is dead here: \<open>_verify_evidence_seal\<close> always returns
  an empty list of unexpected files.
\<close>

text \<open>The rest of the decision tree: (accepted, reason, signerMatchesVendor).\<close>

definition verdict :: "file_result \<Rightarrow> signature_facts option \<Rightarrow> pystr option \<Rightarrow> bool \<times> reason \<times> bool option" where
  "verdict fr sf pinned =
    (let accepted = fr_filesOk fr; reason = file_reason fr in
     case sf of
       Some s \<Rightarrow>
         if \<not> sf_ok s then (False, bad_signature, None)
         else (case pinned of None \<Rightarrow> (accepted, reason, None)
           | Some v \<Rightarrow>
               if sf_recovered s = Some v then (accepted, reason, Some True)
               else (False, if fr_filesOk fr \<or> reason = OK then wrong_issuer else reason, Some False))
     | None \<Rightarrow> (case pinned of None \<Rightarrow> (accepted, reason, None)
         | Some v \<Rightarrow> (False, unsigned_cannot_pin_vendor, None)))"

definition obj_kind :: "json \<Rightarrow> json" where
  "obj_kind j = (case j of JObj items \<Rightarrow> obj_get items ''kind'' | _ \<Rightarrow> JNull)"

definition verify_parsed_artifact ::
  "os_env \<Rightarrow> pystr \<Rightarrow> (pystr \<times> json) list \<Rightarrow> pystr option \<Rightarrow> vh_err + result \<times> int" where
  "verify_parsed_artifact env base_dir obj vendor =
    (let kind = obj_get obj ''kind'' in
     bindE (case vendor of None \<Rightarrow> Inr None
         | Some v \<Rightarrow> bindE (normalize_address v) (\<lambda>a. Inr (Some a))) (\<lambda>pinned.
     bindE (if kind = JStr EVIDENCE_SEAL_SIGNED
            then bindE (decode_signed env obj) (\<lambda>d. Inr (Some (signature_facts_of d), de_embedded d))
            else if kind \<noteq> JStr EVIDENCE_SEAL then Inl UsageErr
            else Inr (None, JObj obj)) (\<lambda>(sf, payload).
     (case payload of
        JObj seal \<Rightarrow>
          if obj_kind payload \<noteq> JStr EVIDENCE_SEAL then Inl UsageErr
          else bindE (liftE (base_realpath env base_dir)) (\<lambda>base_real.
            bindE (verify_evidence_seal env base_dir base_real seal) (\<lambda>fr.
            case verdict fr sf pinned of (accepted, reason, smv) \<Rightarrow>
              Inr (\<lparr>r_kind = kind, r_payloadKind = obj_kind payload, r_signed = (sf \<noteq> None),
                 r_reason = reason, r_accepted = accepted,
                 r_recoveredSigner = Option.bind sf sf_recovered,
                 r_claimedSigner = map_option sf_claimed sf,
                 r_pinnedVendor = pinned, r_signatureOk = map_option sf_ok sf,
                 r_signerMatchesVendor = smv, r_files = fr, r_unexpected = []\<rparr>,
               if accepted then EXIT_OK else EXIT_REJECTED)))
      | _ \<Rightarrow> Inl UsageErr))))"

section \<open>Exact directory\<close>

definition rel_name :: "pystr \<Rightarrow> pystr \<Rightarrow> pystr" where
  "rel_name rel_prefix name = (if rel_prefix = [] then name else rel_prefix @ [sep] @ name)"

fun walk_tree :: "pystr \<Rightarrow> dir_tree \<Rightarrow> vh_err + pystr list"
  and walk_entries :: "pystr \<Rightarrow> (pystr \<times> dir_node) list \<Rightarrow> vh_err + pystr list" where
  "walk_tree rel_prefix Unreadable = Inl IOErr"
| "walk_tree rel_prefix (Listing es) = walk_entries rel_prefix es"
| "walk_entries rel_prefix [] = Inr []"
| "walk_entries rel_prefix ((name, n) # es) =
     (let rel = rel_name rel_prefix name in
      bindE (case n of NonDir \<Rightarrow> Inr [rel] | SubDir t \<Rightarrow> walk_tree rel t) (\<lambda>here.
      bindE (walk_entries rel_prefix es) (\<lambda>rest. Inr (here @ rest))))"

definition list_dir_entries_recursive :: "os_env \<Rightarrow> pystr \<Rightarrow> vh_err + pystr list" where
  "list_dir_entries_recursive env base_dir =
    bindE (walk_tree [] (os_tree env base_dir)) (\<lambda>out. Inr (sort out))"

definition named_paths :: "classified \<Rightarrow> pystr set" where
  "named_paths c = set (map fe_relPath (cl_matched c) @ map ce_relPath (cl_changed c) @ cl_missing c @ cl_escaped c)"

definition unexpected_files :: "os_env \<Rightarrow> pystr \<Rightarrow> pystr \<Rightarrow> classified \<Rightarrow> pystr list \<Rightarrow> pystr list" where
  "unexpected_files env base_dir artifact_path c rels =
    filter (\<lambda>rel. rel \<notin> named_paths c \<and> abspath env (path_join base_dir rel) \<noteq> artifact_path) rels"

definition apply_exact_dir ::
  "os_env \<Rightarrow> result \<Rightarrow> int \<Rightarrow> pystr \<Rightarrow> pystr \<Rightarrow> vh_err + result \<times> int" where
  "apply_exact_dir env res code base_dir artifact_path =
    bindE (list_dir_entries_recursive env base_dir) (\<lambda>rels.
      let un = unexpected_files env base_dir artifact_path (fr_classified (r_files res)) rels;
          res' = res\<lparr>r_unexpected := un\<rparr>
      in if un \<noteq> [] \<and> r_accepted res
         then Inr (res'\<lparr>r_accepted := False, r_reason := UNEXPECTED\<rparr>, EXIT_REJECTED)
         else Inr (res', code))"

section \<open>Whole artifacts and the command line\<close>

record opts =
  o_artifact :: "pystr option"
  o_vendor :: "pystr option"
  o_dir :: "pystr option"
  o_exactDir :: bool
  o_json :: bool

definition truthy :: "pystr option \<Rightarrow> bool" where
  "truthy s \<longleftrightarrow> (case s of None \<Rightarrow> False | Some t \<Rightarrow> t \<noteq> [])"

definition verify_artifact :: "os_env \<Rightarrow> opts \<Rightarrow> vh_err + result \<times> int" where
  "verify_artifact env op =
    (if \<not> truthy (o_artifact op) then Inl UsageErr
     else let artifact_path = abspath env (the (o_artifact op)) in
       (case os_read_text env artifact_path of
          OsError \<Rightarrow> Inl IOErr
        | OsRaise e \<Rightarrow> Inl (Raised e)
        | OsOk text \<Rightarrow> (case json_loads env text of
            None \<Rightarrow> Inl IOErr
          | Some (JObj obj) \<Rightarrow>
              let base_dir = (if truthy (o_dir op) then abspath env (the (o_dir op)) else dirname artifact_path)
              in bindE (verify_parsed_artifact env base_dir obj (o_vendor op)) (\<lambda>(res, code).
                 if o_exactDir op then apply_exact_dir env res code base_dir artifact_path
                 else Inr (res, code))
          | Some _ \<Rightarrow> Inl IOErr)))"

datatype parsed_args = Args opts | HelpRequested | ArgsUsageError

text \<open>The \<open>while\<close> of \<open>parse_args\<close> over the arguments that remain.\<close>

fun parse_loop :: "opts \<Rightarrow> pystr list \<Rightarrow> parsed_args" where
  "parse_loop op [] = Args op"
| "parse_loop op (arg # rest) =
     (if arg = ascii ''--vendor'' then
        (case rest of [] \<Rightarrow> ArgsUsageError | v # rest' \<Rightarrow> parse_loop (op\<lparr>o_vendor := Some v\<rparr>) rest')
      else if arg = ascii ''--dir'' then
        (case rest of [] \<Rightarrow> ArgsUsageError | v # rest' \<Rightarrow> parse_loop (op\<lparr>o_dir := Some v\<rparr>) rest')
      else if arg = ascii ''--exact-dir'' then parse_loop (op\<lparr>o_exactDir := True\<rparr>) rest
      else if arg = ascii ''--json'' then parse_loop (op\<lparr>o_json := True\<rparr>) rest
      else if arg = ascii ''-h'' \<or> arg = ascii ''--help'' then HelpRequested
      else if startswith arg (ascii ''--'') then ArgsUsageError
      else if o_artifact op \<noteq> None then ArgsUsageError
      else parse_loop (op\<lparr>o_artifact := Some arg\<rparr>) rest)"

definition parse_args :: "pystr list \<Rightarrow> parsed_args" where
  "parse_args argv = parse_loop
    \<lparr>o_artifact = None, o_vendor = None, o_dir = None, o_exactDir = False, o_json = False\<rparr> argv"

text \<open>
  The process's exit status: \<open>main\<close>'s return value, 0 for the \<open>sys.exit\<close> of \<open>--help\<close>, and the
  interpreter's 1 where an exception reaches the top.
\<close>

definition main_exit :: "os_env \<Rightarrow> pystr list \<Rightarrow> int" where
  "main_exit env argv = (case parse_args argv of
     HelpRequested \<Rightarrow> EXIT_OK
   | ArgsUsageError \<Rightarrow> EXIT_USAGE
   | Args op \<Rightarrow> (case verify_artifact env op of
       Inl UsageErr \<Rightarrow> EXIT_USAGE
     | Inl IOErr \<Rightarrow> EXIT_IO
     | Inl (Raised e) \<Rightarrow> 1
     | Inr (res, code) \<Rightarrow> code))"

section \<open>What classification establishes\<close>

text \<open>The reader's answer for an entry that counts as matched.\<close>

definition entry_matches :: "os_env \<Rightarrow> pystr \<Rightarrow> pystr \<Rightarrow> json \<Rightarrow> flat_entry \<Rightarrow> bool" where
  "entry_matches env base_dir base_real entry fe \<longleftrightarrow> (\<exists>p content h.
     subscript entry ''relPath'' = Inr (JStr p) \<and> fe_relPath fe = p
     \<and> read_entry env base_dir base_real (JStr p) = Inr (EntryOk content)
     \<and> fe_contentHash fe = keccak_hex content
     \<and> subscript entry ''contentHash'' = Inr h \<and> lower (keccak_hex content) = lower (py_str env h))"

definition clean :: "classified \<Rightarrow> bool" where
  "clean c \<longleftrightarrow> cl_changed c = [] \<and> cl_missing c = [] \<and> cl_escaped c = []"

lemma read_entry_ok_str: "read_entry env b br j = Inr (EntryOk content) \<Longrightarrow> \<exists>p. j = JStr p"
  by (cases j) (auto simp: read_entry_def)

lemma classify_entry_cases:
  assumes "classify_entry env b br c e = Inr c'"
  obtains (escaped) j where "subscript e ''relPath'' = Inr j"
      "read_entry env b br j = Inr EntryEscaped" "c' = c\<lparr>cl_escaped := cl_escaped c @ [py_str env j]\<rparr>"
  | (missing) j where "subscript e ''relPath'' = Inr j"
      "read_entry env b br j = Inr EntryMissing" "c' = c\<lparr>cl_missing := cl_missing c @ [py_str env j]\<rparr>"
  | (matched) p content h where "subscript e ''relPath'' = Inr (JStr p)"
      "read_entry env b br (JStr p) = Inr (EntryOk content)" "subscript e ''contentHash'' = Inr h"
      "lower (keccak_hex content) = lower (py_str env h)"
      "c' = c\<lparr>cl_flat := cl_flat c @ [\<lparr>fe_relPath = p, fe_contentHash = keccak_hex content\<rparr>],
        cl_matched := cl_matched c @ [\<lparr>fe_relPath = p, fe_contentHash = keccak_hex content\<rparr>]\<rparr>"
  | (changed) p content h where "subscript e ''relPath'' = Inr (JStr p)"
      "read_entry env b br (JStr p) = Inr (EntryOk content)" "subscript e ''contentHash'' = Inr h"
      "lower (keccak_hex content) \<noteq> lower (py_str env h)"
      "c' = c\<lparr>cl_flat := cl_flat c @ [\<lparr>fe_relPath = p, fe_contentHash = keccak_hex content\<rparr>],
        cl_changed := cl_changed c @ [\<lparr>ce_relPath = p, ce_expected = h, ce_actual = keccak_hex content\<rparr>]\<rparr>"
proof -
  from assms obtain j st where j: "subscript e ''relPath'' = Inr j" and st: "read_entry env b br j = Inr st"
    by (auto simp: classify_entry_def bindE_eq_Inr)
  show thesis
  proof (cases st)
    case (EntryOk content)
    with st obtain p where p: "j = JStr p" using read_entry_ok_str by blast
    have s: "py_str env (JStr p) = p" by (simp add: py_str_def)
    from assms j st p s EntryOk obtain h where h: "subscript e ''contentHash'' = Inr h"
      by (auto simp: classify_entry_def bindE_eq_Inr Let_def)
    show thesis
    proof (cases "lower (keccak_hex content) = lower (py_str env h)")
      case True
      with assms j st p s EntryOk h show thesis
        by (intro matched [of p content h]) (simp_all add: classify_entry_def Let_def)
    next
      case False
      with assms j st p s EntryOk h show thesis
        by (intro changed [of p content h]) (simp_all add: classify_entry_def Let_def)
    qed
  next
    case EntryMissing
    with assms j st missing show thesis by (auto simp: classify_entry_def)
  next
    case EntryEscaped
    with assms j st escaped show thesis by (auto simp: classify_entry_def)
  qed
qed

lemma classify_entry_clean:
  assumes "classify_entry env b br c e = Inr c'" and "clean c'"
  shows "clean c \<and> (\<exists>fe. entry_matches env b br e fe \<and> cl_matched c' = cl_matched c @ [fe] \<and> cl_flat c' = cl_flat c @ [fe])"
  using assms(1)
proof (cases rule: classify_entry_cases)
  case (matched p content h)
  then have "entry_matches env b br e \<lparr>fe_relPath = p, fe_contentHash = keccak_hex content\<rparr>"
    by (simp add: entry_matches_def)
  with matched assms(2) show ?thesis by (auto simp: clean_def)
qed (use assms(2) in \<open>simp_all add: clean_def\<close>)

lemma classify_loop_clean:
  "classify_loop env b br c es = Inr c' \<Longrightarrow> clean c' \<Longrightarrow>
    clean c \<and> (\<exists>fes. list_all2 (entry_matches env b br) es fes \<and> cl_matched c' = cl_matched c @ fes \<and> cl_flat c' = cl_flat c @ fes)"
proof (induction es arbitrary: c)
  case Nil
  then show ?case by simp
next
  case (Cons e es)
  then obtain c1 where c1: "classify_entry env b br c e = Inr c1" "classify_loop env b br c1 es = Inr c'"
    by (auto simp: bindE_eq_Inr)
  from Cons.IH [OF c1(2) Cons.prems(2)] obtain fes where
    "clean c1" "list_all2 (entry_matches env b br) es fes" "cl_matched c' = cl_matched c1 @ fes" "cl_flat c' = cl_flat c1 @ fes"
    by blast
  with classify_entry_clean [OF c1(1)] show ?case
    by (metis append.assoc append_Cons append_Nil list.rel_intros(2))
qed

text \<open>Every sealed entry ends in exactly one of the four lists.\<close>

definition n_classified :: "classified \<Rightarrow> nat" where
  "n_classified c = length (cl_matched c) + length (cl_changed c) + length (cl_missing c) + length (cl_escaped c)"

lemma classify_entry_counts:
  "classify_entry env b br c e = Inr c' \<Longrightarrow> n_classified c' = Suc (n_classified c)
    \<and> length (cl_flat c') + length (cl_matched c) + length (cl_changed c) = length (cl_flat c) + length (cl_matched c') + length (cl_changed c')"
  by (erule classify_entry_cases) (simp_all add: n_classified_def)

lemma classify_loop_counts:
  "classify_loop env b br c es = Inr c' \<Longrightarrow> n_classified c' = n_classified c + length es
    \<and> length (cl_flat c') + length (cl_matched c) + length (cl_changed c) = length (cl_flat c) + length (cl_matched c') + length (cl_changed c')"
proof (induction es arbitrary: c)
  case Nil
  then show ?case by simp
next
  case (Cons e es)
  then obtain c1 where "classify_entry env b br c e = Inr c1" "classify_loop env b br c1 es = Inr c'"
    by (auto simp: bindE_eq_Inr)
  with Cons.IH classify_entry_counts show ?case by fastforce
qed

text \<open>Classification loses nothing: when it returns, the matched, changed, missing and escaped
  lists together have one element per sealed entry, and exactly the matched and the changed
  entries (those whose octets were read) enter the recomputed root.\<close>
theorem classify_files_partition:
  assumes "classify_files env base_dir base_real entries = Inr c"
  shows "length (cl_matched c) + length (cl_changed c) + length (cl_missing c) + length (cl_escaped c) = length entries
    \<and> length (cl_flat c) = length (cl_matched c) + length (cl_changed c)"
  using classify_loop_counts [OF assms [unfolded classify_files_def]]
  by (simp add: n_classified_def empty_classified_def)

section \<open>What acceptance means\<close>

text \<open>The seal's file list and root, as an accepting run read them.\<close>

definition seal_verified :: "os_env \<Rightarrow> pystr \<Rightarrow> pystr \<Rightarrow> (pystr \<times> json) list \<Rightarrow> file_result \<Rightarrow> bool" where
  "seal_verified env base_dir base_real seal fr \<longleftrightarrow> (\<exists>files root fes.
     obj_get seal ''files'' = JArr files \<and> files \<noteq> [] \<and> obj_get seal ''root'' = JStr root \<and> HEX32_RE root
     \<and> list_all2 (entry_matches env base_dir base_real) files fes
     \<and> (\<exists>r. root_from_flat fes = Inr r \<and> lower r = lower root)
     \<and> fr_sealedRoot fr = root \<and> cl_matched (fr_classified fr) = fes)"

lemma verify_evidence_seal_ok:
  assumes "verify_evidence_seal env b br seal = Inr fr" and "fr_filesOk fr"
  shows "seal_verified env b br seal fr"
proof -
  obtain files root where f: "obj_get seal ''files'' = JArr files" "files \<noteq> []"
      "obj_get seal ''root'' = JStr root" "HEX32_RE root"
    using assms(1) by (auto simp: verify_evidence_seal_def split: json.splits if_splits)
  from assms(1) f obtain c where c: "classify_files env b br files = Inr c"
      and fr: "fr = \<lparr>fr_classified = c, fr_sealedRoot = root, fr_recomputedRoot = recompute_root (cl_flat c),
        fr_rootMatches = root_matches c (recompute_root (cl_flat c)) root,
        fr_filesOk = (cl_changed c = [] \<and> cl_missing c = [] \<and> cl_escaped c = []
          \<and> root_matches c (recompute_root (cl_flat c)) root)\<rparr>"
    by (auto simp: verify_evidence_seal_def bindE_eq_Inr liftE_eq_Inr Let_def)
  from assms(2) fr have cl: "clean c" and rm: "root_matches c (recompute_root (cl_flat c)) root"
    by (auto simp: clean_def)
  from classify_loop_clean [OF c [unfolded classify_files_def] cl] obtain fes where
    fes: "list_all2 (entry_matches env b br) files fes" "cl_matched c = fes" "cl_flat c = fes"
    by (auto simp: empty_classified_def)
  from rm fes(3) have "\<exists>r. root_from_flat fes = Inr r \<and> lower r = lower root"
    by (auto simp: root_matches_def recompute_root_def split: option.splits if_splits sum.splits)
  with f fes fr show ?thesis by (auto simp: seal_verified_def)
qed

lemma verdict_accepted:
  "verdict fr sf pinned = (True, reason, smv) \<Longrightarrow> fr_filesOk fr \<and> reason = OK
    \<and> (case sf of None \<Rightarrow> pinned = None
        | Some s \<Rightarrow> sf_ok s \<and> (case pinned of None \<Rightarrow> True | Some v \<Rightarrow> sf_recovered s = Some v))"
  by (auto simp: verdict_def file_reason_def Let_def split: option.splits if_splits)

lemma verdict_reason_OK:
  "verdict fr sf pinned = (acc, reason, smv) \<Longrightarrow> acc \<longleftrightarrow> reason = OK"
  by (auto simp: verdict_def file_reason_def Let_def split: option.splits if_splits)

lemma verify_parsed_artifact_cases:
  assumes "verify_parsed_artifact env b obj vendor = Inr (res, code)"
  obtains sf seal base_real fr pinned acc reason smv where
    "case vendor of None \<Rightarrow> pinned = None | Some v \<Rightarrow> ADDRESS_RE v \<and> pinned = Some (lower v)"
    "(obj_get obj ''kind'' = JStr EVIDENCE_SEAL_SIGNED \<and>
        (\<exists>d. decode_signed env obj = Inr d \<and> sf = Some (signature_facts_of d) \<and> de_embedded d = JObj seal))
      \<or> (obj_get obj ''kind'' = JStr EVIDENCE_SEAL \<and> sf = None \<and> seal = obj)"
    "base_realpath env b = Inr base_real" "verify_evidence_seal env b base_real seal = Inr fr"
    "verdict fr sf pinned = (acc, reason, smv)"
    "r_accepted res = acc" "r_reason res = reason" "r_files res = fr" "r_pinnedVendor res = pinned"
    "r_signed res = (sf \<noteq> None)" "r_unexpected res = []" "code = (if acc then EXIT_OK else EXIT_REJECTED)"
    "r_recoveredSigner res = Option.bind sf sf_recovered" "r_claimedSigner res = map_option sf_claimed sf"
proof -
  from assms obtain pinned where p: "(case vendor of None \<Rightarrow> Inr None
         | Some v \<Rightarrow> bindE (normalize_address v) (\<lambda>a. Inr (Some a))) = Inr pinned"
    by (auto simp: verify_parsed_artifact_def Let_def bindE_eq_Inr)
  then have pin: "case vendor of None \<Rightarrow> pinned = None | Some v \<Rightarrow> ADDRESS_RE v \<and> pinned = Some (lower v)"
    by (auto simp: bindE_eq_Inr normalize_address_def split: option.splits if_splits)
  from assms p obtain sf payload where
    sp: "(if obj_get obj ''kind'' = JStr EVIDENCE_SEAL_SIGNED
            then bindE (decode_signed env obj) (\<lambda>d. Inr (Some (signature_facts_of d), de_embedded d))
            else if obj_get obj ''kind'' \<noteq> JStr EVIDENCE_SEAL then Inl UsageErr
            else Inr (None, JObj obj)) = Inr (sf, payload)"
    by (auto simp: verify_parsed_artifact_def Let_def bindE_eq_Inr)
  with assms p obtain seal where seal: "payload = JObj seal"
    by (cases payload) (auto simp: verify_parsed_artifact_def Let_def)
  from assms p sp seal have kind: "obj_kind payload = JStr EVIDENCE_SEAL"
    by (auto simp: verify_parsed_artifact_def Let_def split: if_splits)
  from kind assms p sp seal obtain br fr where
    br: "base_realpath env b = Inr br" and fr: "verify_evidence_seal env b br seal = Inr fr"
    by (auto simp: verify_parsed_artifact_def Let_def bindE_eq_Inr liftE_eq_Inr)
  obtain acc reason smv where v: "verdict fr sf pinned = (acc, reason, smv)"
    by (cases "verdict fr sf pinned") auto
  from assms p sp seal kind br fr v have
    "res = \<lparr>r_kind = obj_get obj ''kind'', r_payloadKind = obj_kind payload, r_signed = (sf \<noteq> None),
                 r_reason = reason, r_accepted = acc,
                 r_recoveredSigner = Option.bind sf sf_recovered,
                 r_claimedSigner = map_option sf_claimed sf,
                 r_pinnedVendor = pinned, r_signatureOk = map_option sf_ok sf,
                 r_signerMatchesVendor = smv, r_files = fr, r_unexpected = []\<rparr>
      \<and> code = (if acc then EXIT_OK else EXIT_REJECTED)"
    by (simp add: verify_parsed_artifact_def Let_def)
  moreover have "(obj_get obj ''kind'' = JStr EVIDENCE_SEAL_SIGNED \<and>
        (\<exists>d. decode_signed env obj = Inr d \<and> sf = Some (signature_facts_of d) \<and> de_embedded d = JObj seal))
      \<or> (obj_get obj ''kind'' = JStr EVIDENCE_SEAL \<and> sf = None \<and> seal = obj)"
    using sp seal by (auto simp: bindE_eq_Inr split: if_splits)
  ultimately show thesis using that pin br fr v by simp
qed

text \<open>C1: What an ACCEPT proves.  If \<open>verify_parsed_artifact\<close> accepts, the exit code is 0 and the
  reason OK; every sealed entry was read inside the base directory and its keccak256 is the sealed
  digest; the root recomputed from the octets on disk is the sealed root; a signed artifact's
  signature recovers to its claimed signer; and a pinned vendor is the recovered signer, which
  an unsigned artifact never satisfies.\<close>
theorem accept_sound:
  assumes "verify_parsed_artifact env base_dir obj vendor = Inr (res, code)" and "r_accepted res"
  shows "code = EXIT_OK \<and> r_reason res = OK
    \<and> (\<exists>seal base_real. base_realpath env base_dir = Inr base_real \<and> seal_verified env base_dir base_real seal (r_files res)
        \<and> (if r_signed res
            then \<exists>d. decode_signed env obj = Inr d \<and> de_embedded d = JObj seal
              \<and> try_recover (de_message d) (de_signature d) = Some (de_claimedSigner d)
              \<and> r_recoveredSigner res = Some (de_claimedSigner d)
            else seal = obj))
    \<and> (case vendor of None \<Rightarrow> True | Some v \<Rightarrow> r_signed res \<and> r_recoveredSigner res = Some (lower v))"
  using assms(1)
proof (cases rule: verify_parsed_artifact_cases)
  case (1 sf seal br fr pinned acc reason smv)
  with assms(2) have v: "verdict fr sf pinned = (True, reason, smv)" by simp
  note ok = verdict_accepted [OF v]
  have sv: "seal_verified env base_dir br seal fr" using verify_evidence_seal_ok [OF 1(4)] ok by blast
  show ?thesis
  proof (cases sf)
    case None
    with 1 ok sv assms(2) show ?thesis by (auto split: option.splits)
  next
    case (Some s)
    with 1(2) obtain d where d: "decode_signed env obj = Inr d" "s = signature_facts_of d" "de_embedded d = JObj seal"
      by auto
    have "try_recover (de_message d) (de_signature d) = Some (de_claimedSigner d)"
      using ok Some d(2) by (auto simp: signature_facts_of_def Let_def)
    moreover have "sf_recovered s = try_recover (de_message d) (de_signature d)"
      by (simp add: d(2) signature_facts_of_def Let_def)
    ultimately show ?thesis using 1 ok sv d assms(2) Some by (auto split: option.splits)
  qed
qed

end
