(* ===== verification/VH_Verdict.thy ===== *)
theory VH_Verdict
  imports VH_Engine
begin

text \<open>
  The contract of the verifier as a whole: the exit codes, the precedence of reasons,
  \<open>--exact-dir\<close>, tamper evidence across two accepting runs, and the two places where the
  Python port departs from its specification (patterns that let a trailing newline
  through, and entries whose shape is not checked).
\<close>

section \<open>Exit codes and precedence\<close>

text \<open>One verdict, three faces: the exit code is 0 or 3, it is 0 exactly when the result is
  accepted, and the reason is OK exactly when the result is accepted.\<close>
theorem verdict_consistent:
  assumes "verify_parsed_artifact env base_dir obj vendor = Inr (res, code)"
  shows "code = (if r_accepted res then EXIT_OK else EXIT_REJECTED) \<and> (r_accepted res \<longleftrightarrow> r_reason res = OK)"
  using assms by (cases rule: verify_parsed_artifact_cases) (auto simp: verdict_reason_OK)

section \<open>Exact directory\<close>

text \<open>\<open>in_tree pre t p\<close>: \<open>p\<close> is the path, below \<open>pre\<close>, of something in \<open>t\<close> that is no directory.\<close>

inductive in_tree :: "pystr \<Rightarrow> dir_tree \<Rightarrow> pystr \<Rightarrow> bool" where
  in_tree_leaf: "(name, NonDir) \<in> set es \<Longrightarrow> in_tree pre (Listing es) (rel_name pre name)"
| in_tree_sub: "(name, SubDir t) \<in> set es \<Longrightarrow> in_tree (rel_name pre name) t p \<Longrightarrow> in_tree pre (Listing es) p"

inductive_simps in_tree_Listing: "in_tree pre (Listing es) p"
inductive_simps in_tree_Unreadable: "in_tree pre Unreadable p"

lemma walk_complete:
  "walk_tree pre t = Inr out \<Longrightarrow> set out = {p. in_tree pre t p}"
  "walk_entries pre es = Inr out' \<Longrightarrow> set out' = {p. in_tree pre (Listing es) p}"
proof (induction pre t and pre es arbitrary: out and out' rule: walk_tree_walk_entries.induct)
  case (1 pre)
  then show ?case by simp
next
  case (2 pre es)
  then show ?case by simp
next
  case (3 pre)
  then show ?case by (simp add: in_tree_Listing)
next
  case (4 pre name n es)
  then obtain here rest where w: "(case n of NonDir \<Rightarrow> Inr [rel_name pre name] | SubDir t \<Rightarrow> walk_tree (rel_name pre name) t) = Inr here"
      "walk_entries pre es = Inr rest" "out' = here @ rest"
    by (auto simp: Let_def bindE_eq_Inr)
  have rest: "set rest = {p. in_tree pre (Listing es) p}" using "4.IH"(2) w(1,2) by simp
  have here: "set here = (case n of NonDir \<Rightarrow> {rel_name pre name} | SubDir t \<Rightarrow> {p. in_tree (rel_name pre name) t p})"
    using "4.IH"(1) w(1) by (cases n) auto
  show ?case
    using w(3) rest here by (cases n) (auto simp: in_tree_Listing [of _ "_ # _"] in_tree_Listing [of _ es])
qed

text \<open>C36: \<open>--exact-dir\<close> closes the directory boundary.  If the result is still accepted, it was
  accepted before, and every path anywhere below the base directory that is not a directory is
  named by the seal or is the artifact itself; a result already rejected keeps its reason and
  its exit code.\<close>
theorem exact_dir_sound:
  assumes "apply_exact_dir env res code base_dir artifact_path = Inr (res', code')"
  shows "(r_accepted res' \<longrightarrow> r_accepted res \<and> code' = code \<and>
      (\<forall>p. in_tree [] (os_tree env base_dir) p \<longrightarrow> p \<in> named_paths (fr_classified (r_files res))
        \<or> abspath env (path_join base_dir p) = artifact_path))
    \<and> (\<not> r_accepted res \<longrightarrow> \<not> r_accepted res' \<and> r_reason res' = r_reason res \<and> code' = code)
    \<and> (r_accepted res \<and> \<not> r_accepted res' \<longrightarrow> r_reason res' = UNEXPECTED \<and> code' = EXIT_REJECTED)"
proof -
  from assms obtain out where out: "walk_tree [] (os_tree env base_dir) = Inr out"
    by (auto simp: apply_exact_dir_def list_dir_entries_recursive_def bindE_eq_Inr)
  let ?un = "unexpected_files env base_dir artifact_path (fr_classified (r_files res)) (sort out)"
  have un: "?un = [] \<Longrightarrow> in_tree [] (os_tree env base_dir) p \<Longrightarrow> p \<in> named_paths (fr_classified (r_files res))
        \<or> abspath env (path_join base_dir p) = artifact_path" for p
    using walk_complete(1) [OF out] by (auto simp: unexpected_files_def filter_empty_conv)
  show ?thesis
    using assms out un by (auto simp: apply_exact_dir_def list_dir_entries_recursive_def Let_def split: if_splits)
qed

section \<open>Tamper evidence end to end\<close>

lemma entry_matches_files:
  assumes "list_all2 (entry_matches env b br) entries fes"
  shows "\<exists>fs. fes = flat_of fs \<and> list_all2 (\<lambda>e f. subscript e ''relPath'' = Inr (JStr (fst f))
    \<and> read_entry env b br (JStr (fst f)) = Inr (EntryOk (snd f))) entries fs"
  using assms
proof (induction rule: list_all2_induct)
  case Nil
  then show ?case by (intro exI [of _ "[]"]) (simp add: flat_of_def)
next
  case (Cons e es fe fes)
  then obtain p content h where m: "subscript e ''relPath'' = Inr (JStr p)" "fe_relPath fe = p"
      "read_entry env b br (JStr p) = Inr (EntryOk content)" "fe_contentHash fe = keccak_hex content"
    unfolding entry_matches_def by blast
  from Cons obtain fs where "fes = flat_of fs" "list_all2 (\<lambda>e f. subscript e ''relPath'' = Inr (JStr (fst f))
    \<and> read_entry env b br (JStr (fst f)) = Inr (EntryOk (snd f))) es fs" by blast
  with m show ?case by (intro exI [of _ "(p, content) # fs"]) (simp add: flat_of_def)
qed

text \<open>The files an accepting run read for the entries of its seal.\<close>

definition files_read :: "os_env \<Rightarrow> pystr \<Rightarrow> pystr \<Rightarrow> (pystr \<times> json) list \<Rightarrow> sfile list \<Rightarrow> bool" where
  "files_read env b br seal fs \<longleftrightarrow> (\<exists>entries. obj_get seal ''files'' = JArr entries \<and>
     list_all2 (\<lambda>e f. subscript e ''relPath'' = Inr (JStr (fst f))
       \<and> read_entry env b br (JStr (fst f)) = Inr (EntryOk (snd f))) entries fs)"

lemma root_from_flat_lower: "root_from_flat flat = Inr r \<Longrightarrow> lower r = r"
proof -
  assume "root_from_flat flat = Inr r"
  then obtain ls where "r = ascii ''0x'' @ bytes_hex (root_of_leaves ls)"
    by (auto simp: root_from_flat_def bindE_eq_Inr split: if_splits)
  moreover have "lower (ascii ''0x'') = ascii ''0x''" by (simp add: lower_def ascii_def lower_char_def)
  ultimately show ?thesis by (simp add: lower_append)
qed

text \<open>The seal that an artifact carries: the attested payload of a signed container, or the
  artifact itself.\<close>

definition payload_of :: "os_env \<Rightarrow> (pystr \<times> json) list \<Rightarrow> (pystr \<times> json) list option" where
  "payload_of env obj =
     (if obj_get obj ''kind'' = JStr EVIDENCE_SEAL_SIGNED
      then (case decode_signed env obj of
          Inr d \<Rightarrow> (case de_embedded d of JObj seal \<Rightarrow> Some seal | _ \<Rightarrow> None) | Inl e \<Rightarrow> None)
      else Some obj)"

text \<open>The files that a run of the verifier reads for an artifact, as pairs of path and octets, and
  the set of files they are, a leading \<open>./\<close> of a path left out.\<close>

definition run_reads :: "os_env \<Rightarrow> pystr \<Rightarrow> (pystr \<times> json) list \<Rightarrow> sfile list \<Rightarrow> bool" where
  "run_reads env base_dir obj fs \<longleftrightarrow> (\<exists>seal base_real. payload_of env obj = Some seal \<and>
     base_realpath env base_dir = Inr base_real \<and> files_read env base_dir base_real seal fs)"

definition posix_files :: "sfile list \<Rightarrow> (pystr \<times> bytes) set" where
  "posix_files fs = (\<lambda>f. (to_posix_rel (fst f), snd f)) ` set fs"

lemma payload_of_run:
  assumes "(obj_get obj ''kind'' = JStr EVIDENCE_SEAL_SIGNED \<and>
        (\<exists>d. decode_signed env obj = Inr d \<and> sf = Some (signature_facts_of d) \<and> de_embedded d = JObj seal))
      \<or> (obj_get obj ''kind'' = JStr EVIDENCE_SEAL \<and> sf = None \<and> seal = obj)"
  shows "payload_of env obj = Some seal"
  using assms by (auto simp: payload_of_def EVIDENCE_SEAL_def EVIDENCE_SEAL_SIGNED_def ascii_def)

lemma seal_verified_files:
  assumes "seal_verified env b br seal fr"
  shows "\<exists>fs r. files_read env b br seal fs \<and> root_from_flat (flat_of fs) = Inr r \<and> r = lower (fr_sealedRoot fr)"
proof -
  from assms obtain entries fes r where 1: "obj_get seal ''files'' = JArr entries"
      "list_all2 (entry_matches env b br) entries fes" "root_from_flat fes = Inr r" "lower r = lower (fr_sealedRoot fr)"
    by (auto simp: seal_verified_def)
  obtain fs where "fes = flat_of fs" "files_read env b br seal fs"
    using entry_matches_files [OF 1(2)] 1(1) by (auto simp: files_read_def)
  with 1(3,4) root_from_flat_lower [OF 1(3)] show ?thesis by metis
qed

lemma accepted_reads:
  assumes "verify_parsed_artifact env b obj vendor = Inr (res, code)" and "r_accepted res"
  shows "\<exists>fs. run_reads env b obj fs \<and> root_from_flat (flat_of fs) = Inr (lower (fr_sealedRoot (r_files res)))"
  using assms(1)
proof (cases rule: verify_parsed_artifact_cases)
  case (1 sf seal br fr pinned acc reason smv)
  then have "fr_filesOk fr" using assms(2) verdict_accepted [of fr sf pinned reason smv] by simp
  from seal_verified_files [OF verify_evidence_seal_ok [OF 1(4) this]] payload_of_run [OF 1(2)] 1(3) 1(8)
  show ?thesis by (auto simp: run_reads_def)
qed

text \<open>C16: Tamper evidence of the verdict.  When the verifier accepts two artifacts with the same
  sealed root, in any letter case, signed or not, on different machines and in different
  directories, the two runs read the same set of files, with the same paths and the same octets,
  unless they exhibit a keccak256 collision.\<close>
theorem accepted_runs_agree:
  assumes "verify_parsed_artifact env base_dir obj vendor = Inr (res, code)" and "r_accepted res"
    and "verify_parsed_artifact env' base_dir' obj' vendor' = Inr (res', code')" and "r_accepted res'"
    and "lower (fr_sealedRoot (r_files res)) = lower (fr_sealedRoot (r_files res'))"
  shows "\<exists>fs gs. run_reads env base_dir obj fs \<and> run_reads env' base_dir' obj' gs \<and>
    (posix_files fs = posix_files gs \<or> collides keccak256 (root_inputs fs) (root_inputs gs))"
proof -
  obtain fs where fs: "run_reads env base_dir obj fs"
      "root_from_flat (flat_of fs) = Inr (lower (fr_sealedRoot (r_files res)))"
    using accepted_reads [OF assms(1,2)] by blast
  obtain gs where gs: "run_reads env' base_dir' obj' gs"
      "root_from_flat (flat_of gs) = Inr (lower (fr_sealedRoot (r_files res)))"
    using accepted_reads [OF assms(3,4)] assms(5) by auto
  have sub: "posix_files xs \<subseteq> posix_files ys" if "\<forall>f\<in>set xs. \<exists>g\<in>set ys. to_posix_rel (fst f) = to_posix_rel (fst g) \<and> snd f = snd g" for xs ys
    using that unfolding posix_files_def image_subset_iff image_iff by metis
  have sym: "collides keccak256 B A \<Longrightarrow> collides keccak256 A B" for A B
    unfolding collides_def by metis
  have "posix_files fs = posix_files gs \<or> collides keccak256 (root_inputs fs) (root_inputs gs)"
    using root_binds_files_lemma [OF fs(2) gs(2)] root_binds_files_lemma [OF gs(2) fs(2)]
      sub [of fs gs] sub [of gs fs] sym by blast
  with fs(1) gs(1) show ?thesis by blast
qed

text \<open>What is wrong with one entry of a seal, by what the file system answers for it.\<close>

definition entry_escapes :: "os_env \<Rightarrow> pystr \<Rightarrow> pystr \<Rightarrow> json \<Rightarrow> bool" where
  "entry_escapes env b br e \<longleftrightarrow> (\<exists>j. subscript e ''relPath'' = Inr j \<and> read_entry env b br j = Inr EntryEscaped)"

definition entry_missing :: "os_env \<Rightarrow> pystr \<Rightarrow> pystr \<Rightarrow> json \<Rightarrow> bool" where
  "entry_missing env b br e \<longleftrightarrow> (\<exists>j. subscript e ''relPath'' = Inr j \<and> read_entry env b br j = Inr EntryMissing)"

definition entry_changed :: "os_env \<Rightarrow> pystr \<Rightarrow> pystr \<Rightarrow> json \<Rightarrow> bool" where
  "entry_changed env b br e \<longleftrightarrow> (\<exists>j content h. subscript e ''relPath'' = Inr j \<and>
     read_entry env b br j = Inr (EntryOk content) \<and> subscript e ''contentHash'' = Inr h \<and>
     lower (keccak_hex content) \<noteq> lower (py_str env h))"

text \<open>The root over the octets of the entries is the sealed one.\<close>

definition root_holds :: "os_env \<Rightarrow> pystr \<Rightarrow> pystr \<Rightarrow> json list \<Rightarrow> pystr \<Rightarrow> bool" where
  "root_holds env b br entries root \<longleftrightarrow> (\<exists>fes r. list_all2 (entry_matches env b br) entries fes \<and>
     root_from_flat fes = Inr r \<and> lower r = lower root)"

text \<open>The fault that is reported for the files, whatever the order of the entries.\<close>

definition file_fault :: "os_env \<Rightarrow> pystr \<Rightarrow> pystr \<Rightarrow> json list \<Rightarrow> pystr \<Rightarrow> reason" where
  "file_fault env b br entries root =
     (if list_ex (entry_escapes env b br) entries then path_escape
      else if list_ex (entry_changed env b br) entries then CHANGED
      else if list_ex (entry_missing env b br) entries then MISSING
      else if root_holds env b br entries root then OK else root_mismatch)"

text \<open>The reason the whole result has: the signature first, then the files, then the vendor.\<close>

definition expected_reason :: "os_env \<Rightarrow> (pystr \<times> json) list \<Rightarrow> pystr option \<Rightarrow> reason \<Rightarrow> reason" where
  "expected_reason env obj vendor fault =
     (if obj_get obj ''kind'' = JStr EVIDENCE_SEAL_SIGNED
      then (case decode_signed env obj of Inl e \<Rightarrow> fault
        | Inr d \<Rightarrow> if try_recover (de_message d) (de_signature d) \<noteq> Some (de_claimedSigner d) then bad_signature
            else if fault \<noteq> OK then fault
            else (case vendor of None \<Rightarrow> OK
              | Some v \<Rightarrow> if de_claimedSigner d = lower v then OK else wrong_issuer))
      else if vendor \<noteq> None then unsigned_cannot_pin_vendor else fault)"

lemma classify_entry_lists:
  assumes "classify_entry env b br c e = Inr c'"
  shows "cl_escaped c' \<noteq> [] \<longleftrightarrow> cl_escaped c \<noteq> [] \<or> entry_escapes env b br e"
    "cl_missing c' \<noteq> [] \<longleftrightarrow> cl_missing c \<noteq> [] \<or> entry_missing env b br e"
    "cl_changed c' \<noteq> [] \<longleftrightarrow> cl_changed c \<noteq> [] \<or> entry_changed env b br e"
  using assms
  by (cases rule: classify_entry_cases;
      auto simp: entry_escapes_def entry_missing_def entry_changed_def)+

lemma classify_loop_lists:
  "classify_loop env b br c es = Inr c' \<Longrightarrow>
    (cl_escaped c' \<noteq> [] \<longleftrightarrow> cl_escaped c \<noteq> [] \<or> list_ex (entry_escapes env b br) es) \<and>
    (cl_missing c' \<noteq> [] \<longleftrightarrow> cl_missing c \<noteq> [] \<or> list_ex (entry_missing env b br) es) \<and>
    (cl_changed c' \<noteq> [] \<longleftrightarrow> cl_changed c \<noteq> [] \<or> list_ex (entry_changed env b br) es)"
proof (induction es arbitrary: c)
  case (Cons e es)
  then obtain c1 where c1: "classify_entry env b br c e = Inr c1" "classify_loop env b br c1 es = Inr c'"
    by (auto simp: bindE_eq_Inr)
  show ?case using Cons.IH [OF c1(2)] unfolding classify_entry_lists [OF c1(1)] by auto
qed simp

lemma entry_matches_unique: "entry_matches env b br e x \<Longrightarrow> entry_matches env b br e y \<Longrightarrow> x = y"
  unfolding entry_matches_def by (intro flat_entry.equality) auto

lemma matches_unique:
  "list_all2 (entry_matches env b br) es xs \<Longrightarrow> list_all2 (entry_matches env b br) es ys \<Longrightarrow> xs = ys"
  proof (induction arbitrary: ys rule: list_all2_induct)
  case (Cons e es x xs)
  then obtain y ys' where y: "ys = y # ys'" "entry_matches env b br e y" "list_all2 (entry_matches env b br) es ys'"
    by (auto simp: list_all2_Cons1)
  then show ?case using Cons.IH [OF y(3)] entry_matches_unique [OF Cons.hyps(1) y(2)] by simp
qed simp

lemma verify_evidence_seal_fault:
  assumes "verify_evidence_seal env b br seal = Inr fr"
  shows "\<exists>entries root. obj_get seal ''files'' = JArr entries \<and> obj_get seal ''root'' = JStr root \<and>
    file_reason fr = file_fault env b br entries root \<and> (fr_filesOk fr \<longleftrightarrow> file_reason fr = OK)"
proof -
  obtain files root where f: "obj_get seal ''files'' = JArr files" "files \<noteq> []"
      "obj_get seal ''root'' = JStr root" "HEX32_RE root"
    using assms by (auto simp: verify_evidence_seal_def split: json.splits if_splits)
  from assms f obtain c where c: "classify_files env b br files = Inr c"
      and fr: "fr = \<lparr>fr_classified = c, fr_sealedRoot = root, fr_recomputedRoot = recompute_root (cl_flat c),
        fr_rootMatches = root_matches c (recompute_root (cl_flat c)) root,
        fr_filesOk = (cl_changed c = [] \<and> cl_missing c = [] \<and> cl_escaped c = []
          \<and> root_matches c (recompute_root (cl_flat c)) root)\<rparr>"
    by (auto simp: verify_evidence_seal_def bindE_eq_Inr liftE_eq_Inr Let_def)
  note loop = c [unfolded classify_files_def]
  note lists = classify_loop_lists [OF loop, simplified empty_classified_def, simplified]
  have rm: "root_matches c (recompute_root (cl_flat c)) root \<longleftrightarrow> root_holds env b br files root" if "clean c"
  proof -
    from classify_loop_clean [OF loop that] obtain fes where
      fes: "list_all2 (entry_matches env b br) files fes" "cl_flat c = fes" by (auto simp: empty_classified_def)
    then have "fes \<noteq> []" using f(2) by auto
    have "root_holds env b br files root \<longleftrightarrow> (\<exists>r. root_from_flat fes = Inr r \<and> lower r = lower root)"
      unfolding root_holds_def using fes(1) matches_unique [OF fes(1)] by metis
    with fes(2) \<open>fes \<noteq> []\<close> that show ?thesis
      by (auto simp: root_matches_def recompute_root_def clean_def split: sum.splits)
  qed
  have "file_reason fr = file_fault env b br files root" "fr_filesOk fr \<longleftrightarrow> file_reason fr = OK"
    using lists rm by (auto simp: fr file_reason_def file_fault_def clean_def Let_def)
  with f show ?thesis by blast
qed

text \<open>C37: The reason of every result, from the entries of the seal.  A signature that does not
  recover to the claimed signer comes first, and an unsigned artifact with a pinned vendor; then,
  in whatever order the entries stand, an escaping path before a changed file, a changed file before
  a missing one, a missing one before a wrong root; a wrong issuer is reported only when all of
  these are in order.\<close>
theorem reason_from_entries:
  assumes "verify_parsed_artifact env base_dir obj vendor = Inr (res, code)"
  shows "\<exists>seal base_real entries root. payload_of env obj = Some seal \<and>
    base_realpath env base_dir = Inr base_real \<and> obj_get seal ''files'' = JArr entries \<and>
    obj_get seal ''root'' = JStr root \<and>
    r_reason res = expected_reason env obj vendor (file_fault env base_dir base_real entries root)"
  using assms
proof (cases rule: verify_parsed_artifact_cases)
  case (1 sf seal br fr pinned acc reason smv)
  obtain entries root where seal: "obj_get seal ''files'' = JArr entries" "obj_get seal ''root'' = JStr root"
      "file_reason fr = file_fault env base_dir br entries root" "fr_filesOk fr \<longleftrightarrow> file_reason fr = OK"
    using verify_evidence_seal_fault [OF 1(4)] by blast
  have pinned: "pinned = map_option lower vendor" using 1(1) by (cases vendor) auto
  have "reason = expected_reason env obj vendor (file_reason fr)"
  proof (cases sf)
    case None
    then have "obj_get obj ''kind'' \<noteq> JStr EVIDENCE_SEAL_SIGNED"
      using 1(2) by (auto simp: EVIDENCE_SEAL_def EVIDENCE_SEAL_SIGNED_def ascii_def)
    with None 1(5) pinned show ?thesis
      by (cases vendor) (auto simp: verdict_def expected_reason_def Let_def)
  next
    case (Some s)
    then obtain d where d: "obj_get obj ''kind'' = JStr EVIDENCE_SEAL_SIGNED" "decode_signed env obj = Inr d"
        "s = signature_facts_of d" using 1(2) by auto
    then have "sf_ok s \<longleftrightarrow> try_recover (de_message d) (de_signature d) = Some (de_claimedSigner d)"
        "sf_recovered s = try_recover (de_message d) (de_signature d)"
      by (auto simp: signature_facts_of_def Let_def)
    with d Some 1(5) pinned seal(4) show ?thesis
      by (cases vendor) (auto simp: verdict_def expected_reason_def Let_def split: if_splits)
  qed
  with payload_of_run [OF 1(2)] 1(3,7) seal show ?thesis by metis
qed

section \<open>Departures from the specification\<close>

lemma fromhex_newline: "fromhex (s @ [10]) = fromhex s"
  by (induction s rule: fromhex.induct) (auto simp: is_space_def hexval_def split: list.splits option.splits)

text \<open>A signature that ends in a newline passes the 65-octet pattern and recovers to the same
  signer as without it: \<open>$\<close> matches before a final newline and \<open>bytes.fromhex\<close> skips it.\<close>
theorem signature_trailing_newline:
  "length s = 132 \<and> SIG_RE s \<Longrightarrow> SIG_RE (s @ [10]) \<and> try_recover message (s @ [10]) = try_recover message s"
  by (auto simp: SIG_RE_def hex_re_def try_recover_def fromhex_newline nth_append)

text \<open>The entries of \<open>files\<close> are not checked: an entry without a \<open>relPath\<close> ends the run in an
  uncaught \<open>KeyError\<close>, and an entry that is no object in a \<open>TypeError\<close>, instead of the
  structural error the specification asks for.\<close>
theorem malformed_entry_raises:
  assumes "obj_get seal ''files'' = JArr (e # es)" and "obj_get seal ''root'' = JStr root" and "HEX32_RE root"
    and "subscript e ''relPath'' = Inl x"
  shows "verify_evidence_seal env base_dir base_real seal = Inl (Raised x)"
  using assms by (simp add: verify_evidence_seal_def classify_files_def classify_entry_def)

section \<open>The process\<close>

text \<open>C38: The exit status of the command is always one of 0, 1, 2 and 3, and it is 0 exactly when
  help was asked for or the artifact was accepted (after \<open>--exact-dir\<close>, if given).\<close>
theorem main_exit_contract:
  "main_exit env argv \<in> {EXIT_OK, EXIT_IO, EXIT_USAGE, EXIT_REJECTED} \<and>
   (main_exit env argv = EXIT_OK \<longleftrightarrow> parse_args argv = HelpRequested \<or>
     (\<exists>op res code. parse_args argv = Args op \<and> verify_artifact env op = Inr (res, code) \<and> r_accepted res))"
proof -
  have code: "code = (if r_accepted res then EXIT_OK else EXIT_REJECTED)"
    if "verify_artifact env op = Inr (res, code)" for op res code
  proof -
    from that obtain doc obj where
      t: "truthy (o_artifact op)" "os_read_text env (abspath env (the (o_artifact op))) = OsOk doc"
        "json_loads env doc = Some (JObj obj)"
      by (auto simp: verify_artifact_def Let_def split: if_splits os_result.splits option.splits json.splits)
    define a where "a = abspath env (the (o_artifact op))"
    define b where "b = (if truthy (o_dir op) then abspath env (the (o_dir op)) else dirname a)"
    have "bindE (verify_parsed_artifact env b obj (o_vendor op)) (\<lambda>(res, code).
                 if o_exactDir op then apply_exact_dir env res code b a else Inr (res, code)) = Inr (res, code)"
      using that t unfolding verify_artifact_def Let_def a_def [symmetric] b_def [symmetric] by simp
    then obtain res0 code0 where
      v: "verify_parsed_artifact env b obj (o_vendor op) = Inr (res0, code0)"
      and r: "(if o_exactDir op then apply_exact_dir env res0 code0 b a else Inr (res0, code0)) = Inr (res, code)"
      by (auto simp: bindE_eq_Inr)
    have c0: "code0 = (if r_accepted res0 then EXIT_OK else EXIT_REJECTED)"
      using v by (cases rule: verify_parsed_artifact_cases) auto
    show ?thesis using r c0
      by (auto simp: apply_exact_dir_def Let_def bindE_eq_Inr split: if_splits)
  qed
  note exits = main_exit_def EXIT_OK_def EXIT_IO_def EXIT_USAGE_def EXIT_REJECTED_def
  show ?thesis
  proof (cases "parse_args argv")
    case (Args op)
    show ?thesis
    proof (cases "verify_artifact env op")
      case (Inl e)
      with Args show ?thesis by (cases e) (simp_all add: exits)
    next
      case (Inr rc)
      obtain res cd where rc: "rc = (res, cd)" by (cases rc)
      with code [of op res cd] Inr Args show ?thesis by (simp add: exits)
    qed
  qed (simp_all add: exits)
qed

end
