(* ===== verification/VH_Witness.thy ===== *)
theory VH_Witness
  imports VH_Verdict
begin

text \<open>
  Concrete inputs for the verifier's theorems: a directory with one file, the seal over it,
  and small file lists.  Digests stay symbolic: the examples never need their value, only
  that the same octets are hashed.
\<close>

section \<open>A file and its seal\<close>

definition demo_path :: pystr where
  "demo_path = [97]"

definition demo_files :: "sfile list" where
  "demo_files = [(demo_path, [1])]"

definition demo_root :: pystr where
  "demo_root = ascii ''0x'' @ bytes_hex (root_of_leaves (file_leaves demo_files))"

definition demo_seal :: "(pystr \<times> json) list" where
  "demo_seal = [(ascii ''kind'', JStr EVIDENCE_SEAL),
     (ascii ''files'', JArr [JObj [(ascii ''relPath'', JStr demo_path), (ascii ''contentHash'', JStr (keccak_hex [1]))]]),
     (ascii ''root'', JStr demo_root)]"

definition demo_env :: os_env where
  "demo_env = \<lparr>cwd = [47], os_realpath = OsOk, os_read = (\<lambda>p. OsOk [1]), os_read_text = (\<lambda>p. OsOk []),
     os_tree = (\<lambda>p. Listing [(demo_path, NonDir)]), json_loads = (\<lambda>t. Some (JObj demo_seal)),
     compound_str = (\<lambda>j. [])\<rparr>"

definition demo_base :: pystr where
  "demo_base = [47, 100]"

lemma demo_obj_get:
  "obj_get demo_seal ''kind'' = JStr EVIDENCE_SEAL"
  "obj_get demo_seal ''files'' = JArr [JObj [(ascii ''relPath'', JStr demo_path), (ascii ''contentHash'', JStr (keccak_hex [1]))]]"
  "obj_get demo_seal ''root'' = JStr demo_root"
  by (simp_all add: obj_get_def demo_seal_def ascii_def)

lemma demo_env_simps:
  "cwd demo_env = [47]" "os_realpath demo_env p = OsOk p" "os_read demo_env p = OsOk [1]"
  "os_tree demo_env p = Listing [(demo_path, NonDir)]"
  by (simp_all add: demo_env_def)

lemmas path_eval = abspath_def path_join_def normpath_def isabs_def startswith_def sep_def initial_slashes_def
  endswith_sep_def dot_def dotdot_def ascii_def relpath_def path_list_def Let_def

lemma demo_abspath: "abspath demo_env (path_join demo_base demo_path) = [47, 100, 47, 97]"
  by (simp add: path_eval demo_base_def demo_path_def)

lemma demo_escapes: "escapes demo_env demo_base [47, 100, 47, 97] = False"
  by (simp add: escapes_def path_eval demo_base_def)

lemma demo_hostile: "hostile_rel demo_path = False"
  by code_simp

lemma demo_read:
  "read_entry demo_env demo_base demo_base (JStr demo_path) = Inr (EntryOk [1])"
  by (simp add: read_entry_def demo_hostile demo_abspath demo_escapes demo_env_simps)

lemma demo_flat: "flat_of demo_files = [\<lparr>fe_relPath = demo_path, fe_contentHash = keccak_hex [1]\<rparr>]"
  by (simp add: flat_of_def demo_files_def)

lemma utf8_ascii_letters: "utf8_encode [97] = Some [octet 97]" "utf8_encode [98] = Some [octet 98]"
  "utf8_encode [46, 47, 97] = Some [octet 46, octet 47, octet 97]"
  by (simp_all add: utf8_char_def)

lemma posix_letters: "to_posix_rel [97] = [97]" "to_posix_rel [98] = [98]" "to_posix_rel [46, 47, 97] = [97]"
  by (simp_all add: to_posix_rel_def ascii_def)

lemma preimage_letters: "\<exists>x. path_preimage [97] (keccak_hex c) = Inr x \<and> path_preimage [46, 47, 97] (keccak_hex c) = Inr x"
  "\<exists>x. path_preimage [98] (keccak_hex c) = Inr x"
  by (simp_all add: path_preimage_def posix_letters utf8_ascii_letters hex_to_bytes32_def fromhex_keccak_hex
      del: utf8_encode.simps)

lemma demo_root_ok: "root_from_flat (flat_of demo_files) = Inr demo_root"
proof -
  obtain x where x: "path_preimage demo_path (keccak_hex [1]) = Inr x"
    using preimage_letters(1) [of "[1]"] by (auto simp: demo_path_def)
  then show ?thesis
    by (simp add: flat_of_def root_from_flat_def entry_leaf_def path_leaf_def demo_root_def file_leaves_def
        file_preimage_def demo_files_def)
qed

lemma hex_re_digest: "length d = 32 \<Longrightarrow> HEX32_RE (ascii ''0x'' @ bytes_hex d)"
  by (simp add: HEX32_RE_def hex_re_bytes_hex)

lemma demo_root_re: "HEX32_RE demo_root"
  unfolding demo_root_def by (rule hex_re_digest) (simp add: length_root_of_leaves file_leaves_def demo_files_def)

lemma demo_subscript:
  "subscript (JObj [(ascii ''relPath'', JStr p), (ascii ''contentHash'', JStr h)]) ''relPath'' = Inr (JStr p)"
  "subscript (JObj [(ascii ''relPath'', JStr p), (ascii ''contentHash'', JStr h)]) ''contentHash'' = Inr (JStr h)"
  by (simp_all add: subscript_def ascii_def)

definition demo_classified :: classified where
  "demo_classified = \<lparr>cl_matched = flat_of demo_files, cl_changed = [], cl_missing = [], cl_escaped = [],
     cl_flat = flat_of demo_files\<rparr>"

lemma demo_classify:
  "classify_files demo_env demo_base demo_base
     [JObj [(ascii ''relPath'', JStr demo_path), (ascii ''contentHash'', JStr (keccak_hex [1]))]] = Inr demo_classified"
  by (simp add: classify_files_def classify_entry_def demo_subscript demo_read py_str_def empty_classified_def
      demo_classified_def demo_flat Let_def)

definition demo_file_result :: file_result where
  "demo_file_result = \<lparr>fr_classified = demo_classified, fr_sealedRoot = demo_root,
     fr_recomputedRoot = Some demo_root, fr_rootMatches = True, fr_filesOk = True\<rparr>"

lemma demo_verify_seal: "verify_evidence_seal demo_env demo_base demo_base demo_seal = Inr demo_file_result"
proof -
  have "recompute_root (cl_flat demo_classified) = Some demo_root"
    using demo_root_ok by (simp add: recompute_root_def demo_classified_def demo_flat)
  then show ?thesis
    by (simp add: verify_evidence_seal_def demo_obj_get demo_root_re demo_classify root_matches_def
        demo_file_result_def demo_classified_def Let_def)
qed

lemma demo_base_real: "base_realpath demo_env demo_base = Inr demo_base"
  by (simp add: base_realpath_def demo_env_simps)

lemma kinds_differ: "EVIDENCE_SEAL \<noteq> EVIDENCE_SEAL_SIGNED"
  by (simp add: EVIDENCE_SEAL_def EVIDENCE_SEAL_SIGNED_def ascii_def)

lemma demo_artifact:
  "\<exists>res. verify_parsed_artifact demo_env demo_base demo_seal None = Inr (res, EXIT_OK) \<and> r_accepted res
     \<and> r_files res = demo_file_result"
  by (simp add: verify_parsed_artifact_def demo_obj_get kinds_differ obj_kind_def demo_base_real demo_verify_seal
      verdict_def file_reason_def demo_file_result_def Let_def)

section \<open>Witnesses\<close>

theorem root_from_flat_perm_witness:
  "\<exists>r. root_from_flat (flat_of [([97], [1]), ([98], [2])]) = Inr r
     \<and> root_from_flat (flat_of [([98], [2]), ([97], [1])]) = Inr r"
proof -
  obtain x where x: "path_preimage [97] (keccak_hex [1]) = Inr x" using preimage_letters(1) by blast
  obtain y where y: "path_preimage [98] (keccak_hex [2]) = Inr y" using preimage_letters(2) by blast
  have "\<exists>r. root_from_flat (flat_of [([97], [1]), ([98], [2])]) = Inr r"
    using x y by (simp add: root_from_flat_def flat_of_def entry_leaf_def path_leaf_def)
  then obtain r where r: "root_from_flat (flat_of [([97], [1]), ([98], [2])]) = Inr r" ..
  have "mset (flat_of [([97], [1]), ([98], [2])]) = mset (flat_of [([98], [2]), ([97], [1])])"
    by (simp add: flat_of_def)
  from root_from_flat_perm [OF this r] r show ?thesis by blast
qed

theorem path_preimage_inject_witness:
  "\<exists>x. path_preimage [97] (keccak_hex [1]) = Inr x \<and> path_preimage [46, 47, 97] (keccak_hex [1]) = Inr x
     \<and> to_posix_rel [97] = to_posix_rel [46, 47, 97] \<and> keccak256 [1] = keccak256 [1]"
proof -
  obtain x where x: "path_preimage [97] (keccak_hex [1]) = Inr x" "path_preimage [46, 47, 97] (keccak_hex [1]) = Inr x"
    using preimage_letters(1) by blast
  from path_preimage_inject [OF x fromhex_keccak_hex fromhex_keccak_hex] x show ?thesis by auto
qed

theorem root_binds_files_witness:
  "root_from_flat (flat_of demo_files) = Inr demo_root \<and>
   ((\<exists>g \<in> set demo_files. to_posix_rel demo_path = to_posix_rel (fst g) \<and> [1] = snd g)
     \<or> collides keccak256 (root_inputs demo_files) (root_inputs demo_files))"
  using root_binds_files [OF demo_root_ok demo_root_ok] demo_root_ok by (auto simp: demo_files_def)

theorem lone_leaf_duplication_witness:
  "root_of_leaves [[1], [2], [3]] = root_of_leaves [[1], [2], [3], [3]]"
  by (rule lone_leaf_duplication) (simp_all add: from_bytes_be_def)

theorem normalize_v_parity_witness: "normalize_v 28 \<in> {0, 1} \<and> normalize_v 28 = 1"
  using normalize_v_parity [of 28] by simp

theorem read_entry_confined_witness:
  "read_entry demo_env demo_base demo_base (JStr demo_path) = Inr (EntryOk [1]) \<and>
   prefix (path_list demo_env demo_base) (path_list demo_env (abspath demo_env (path_join demo_base demo_path)))"
proof -
  have "isabs (cwd demo_env)" by (simp add: demo_env_simps isabs_def startswith_def sep_def)
  from read_entry_confined [OF this demo_read] demo_read show ?thesis by auto
qed

theorem classify_files_partition_witness:
  "length (cl_matched demo_classified) + length (cl_changed demo_classified) + length (cl_missing demo_classified)
     + length (cl_escaped demo_classified) = 1"
  using classify_files_partition [OF demo_classify] by simp

theorem accept_sound_witness:
  "\<exists>res. verify_parsed_artifact demo_env demo_base demo_seal None = Inr (res, EXIT_OK) \<and> r_accepted res \<and> r_reason res = OK"
proof -
  obtain res where "verify_parsed_artifact demo_env demo_base demo_seal None = Inr (res, EXIT_OK)" "r_accepted res"
    using demo_artifact by blast
  with accept_sound [OF this] show ?thesis by blast
qed

theorem verdict_consistent_witness:
  "\<exists>res. verify_parsed_artifact demo_env demo_base demo_seal None = Inr (res, EXIT_OK) \<and> r_reason res = OK"
proof -
  obtain res where "verify_parsed_artifact demo_env demo_base demo_seal None = Inr (res, EXIT_OK)" "r_accepted res"
    using demo_artifact by blast
  with verdict_consistent [OF this(1)] show ?thesis by blast
qed

theorem exact_dir_sound_witness:
  "\<exists>res res'. r_accepted res \<and> apply_exact_dir demo_env res EXIT_OK demo_base [] = Inr (res', EXIT_OK) \<and> r_accepted res'
     \<and> demo_path \<in> named_paths (fr_classified (r_files res))"
proof -
  obtain res :: result where res: "r_accepted res" "r_files res = demo_file_result"
    using demo_artifact by auto
  have n: "named_paths demo_classified = {demo_path}"
    by (simp add: named_paths_def demo_classified_def demo_flat)
  have "\<exists>res'. apply_exact_dir demo_env res EXIT_OK demo_base [] = Inr (res', EXIT_OK) \<and> r_accepted res'"
    using res n by (simp add: apply_exact_dir_def list_dir_entries_recursive_def demo_env_simps unexpected_files_def
        rel_name_def demo_file_result_def Let_def)
  then obtain res' where r: "apply_exact_dir demo_env res EXIT_OK demo_base [] = Inr (res', EXIT_OK)" "r_accepted res'" by blast
  have "in_tree [] (os_tree demo_env demo_base) demo_path"
    using in_tree_leaf [of demo_path "[(demo_path, NonDir)]" "[]"] by (simp add: demo_env_simps rel_name_def)
  with exact_dir_sound [OF r(1)] r(2) have "demo_path \<in> named_paths (fr_classified (r_files res))
     \<or> abspath demo_env (path_join demo_base demo_path) = []" by blast
  then show ?thesis using res r by (auto simp: demo_abspath)
qed

theorem reason_from_entries_witness:
  "\<exists>res. verify_parsed_artifact demo_env demo_base demo_seal None = Inr (res, EXIT_OK) \<and> r_reason res = OK \<and>
     root_holds demo_env demo_base demo_base
       [JObj [(ascii ''relPath'', JStr demo_path), (ascii ''contentHash'', JStr (keccak_hex [1]))]] demo_root"
proof -
  obtain res where res: "verify_parsed_artifact demo_env demo_base demo_seal None = Inr (res, EXIT_OK)" "r_accepted res"
    using demo_artifact by blast
  have "payload_of demo_env demo_seal = Some demo_seal" by (simp add: payload_of_def demo_obj_get kinds_differ)
  moreover have "r_reason res = OK" using verdict_consistent [OF res(1)] res(2) by simp
  ultimately show ?thesis
    using reason_from_entries [OF res(1)] res
    by (auto simp: demo_base_real demo_obj_get expected_reason_def kinds_differ file_fault_def split: if_splits)
qed

theorem accepted_runs_agree_witness:
  "\<exists>fs gs. run_reads demo_env demo_base demo_seal fs \<and> run_reads demo_env demo_base demo_seal gs \<and>
     (posix_files fs = posix_files gs \<or> collides keccak256 (root_inputs fs) (root_inputs gs))"
proof -
  obtain res where res: "verify_parsed_artifact demo_env demo_base demo_seal None = Inr (res, EXIT_OK)" "r_accepted res"
    using demo_artifact by blast
  show ?thesis by (rule accepted_runs_agree [OF res res refl])
qed

theorem signature_trailing_newline_witness:
  "SIG_RE (ascii ''0x'' @ bytes_hex (replicate 65 1) @ [10])"
proof -
  have "length (ascii ''0x'' @ bytes_hex (replicate 65 1)) = 132 \<and> SIG_RE (ascii ''0x'' @ bytes_hex (replicate 65 1))"
    unfolding SIG_RE_def by (intro conjI hex_re_bytes_hex) simp_all
  from signature_trailing_newline [OF this, of "[]"] show ?thesis by simp
qed

definition bad_seal :: "(pystr \<times> json) list" where
  "bad_seal = [(ascii ''files'', JArr [JObj []]), (ascii ''root'', JStr demo_root)]"

theorem malformed_entry_raises_witness:
  "verify_evidence_seal demo_env demo_base demo_base bad_seal = Inl (Raised KeyError)"
proof (rule malformed_entry_raises)
  show "obj_get bad_seal ''files'' = JArr [JObj []]" "obj_get bad_seal ''root'' = JStr demo_root"
    by (simp_all add: bad_seal_def obj_get_def ascii_def)
  show "HEX32_RE demo_root" by (rule demo_root_re)
  show "subscript (JObj []) ''relPath'' = Inl KeyError" by (simp add: subscript_def)
qed

end
