(* ===== verification/VH_Keccak_Test.thy ===== *)
theory VH_Keccak_Test
  imports VH_Merkle
begin

text \<open>
  A known answer, evaluated in the kernel: the padding, one absorption with all 24 rounds and the
  squeezing run on the empty message.
\<close>

lemma keccak256_empty:
  "keccak256 [] = map word_of_int
    [0xC5, 0xD2, 0x46, 0x01, 0x86, 0xF7, 0x23, 0x3C, 0x92, 0x7E, 0x7D, 0xB2, 0xDC, 0xC7, 0x03, 0xC0,
     0xE5, 0x00, 0xB6, 0x53, 0xCA, 0x82, 0x27, 0x3B, 0x7B, 0xFA, 0xD8, 0x04, 0x5D, 0x85, 0xA4, 0x70]"
  by code_simp

text \<open>Known answer: the digest of the empty file is Ethereum's keccak256 of the empty string
  (not the SHA3-256 one, whose domain octet differs).\<close>
theorem keccak_hex_empty:
  "keccak_hex [] = ascii ''0xc5d2460186f7233c927e7db2dcc703c0e500b653ca82273b7bfad8045d85a470''"
  unfolding keccak_hex_def keccak256_empty by code_simp

end
