(* ===== verification/EI_Prelude.thy ===== *)
theory EI_Prelude
  imports VH_Prelude
begin

text \<open>
  Shared vocabulary of the theories on \<open>einvoice/einvoice/\<close>: the Python \<open>str\<close>
  methods the rules use, the search for the first finding that every rule is built from, and
  the findings themselves (\<open>Violation\<close> of \<open>rules.py\<close>).  A \<open>str\<close> is a
  \<open>pystr\<close>, a text field that may be \<open>None\<close> is a \<open>pystr option\<close>.
\<close>

named_theorems rule_simps \<open>what a rule reports, on the findings of its search\<close>

named_theorems rule_defs \<open>the definitions of the rules\<close>

section \<open>Strings\<close>

text \<open>\<open>str.isspace\<close> of one character, the set \<open>str.strip\<close> and \<open>str.split\<close> use.\<close>

definition py_isspace :: "nat \<Rightarrow> bool" where
  "py_isspace c \<longleftrightarrow> (9 \<le> c \<and> c \<le> 13) \<or> (28 \<le> c \<and> c \<le> 32) \<or> c = 133 \<or> c = 160 \<or> c = 5760
     \<or> (8192 \<le> c \<and> c \<le> 8202) \<or> c = 8232 \<or> c = 8233 \<or> c = 8239 \<or> c = 8287 \<or> c = 12288"

definition py_strip :: "pystr \<Rightarrow> pystr" where
  "py_strip s = rev (dropWhile py_isspace (rev (dropWhile py_isspace s)))"

text \<open>\<open>not x\<close> for a field that may be \<open>None\<close> or empty, and \<open>x or ""\<close>.\<close>

fun falsy :: "pystr option \<Rightarrow> bool" where
  "falsy None = True"
| "falsy (Some s) = (s = [])"

fun or_empty :: "pystr option \<Rightarrow> pystr" where
  "or_empty None = []"
| "or_empty (Some s) = s"

text \<open>\<open>s.split(c, 1)\<close> at a single character: the text before the first \<open>c\<close>, and the text
  after it when there is one.\<close>

fun split1 :: "nat \<Rightarrow> pystr \<Rightarrow> pystr \<times> pystr option" where
  "split1 c [] = ([], None)"
| "split1 c (x # xs) = (if x = c then ([], Some xs)
     else (let r = split1 c xs in (x # fst r, snd r)))"

lemma split1_simps [simp]:
  "snd (split1 c s) = None \<longleftrightarrow> c \<notin> set s"
  "fst (split1 c s) = takeWhile (\<lambda>x. x \<noteq> c) s"
  by (induction s) (auto simp: Let_def)

lemma split1_Some:
  "snd (split1 c s) = Some t \<Longrightarrow> s = takeWhile (\<lambda>x. x \<noteq> c) s @ c # t"
  by (induction s) (auto simp: Let_def split: if_splits)

lemma split1_append:
  "c \<notin> set a \<Longrightarrow> split1 c (a @ c # b) = (a, Some b)"
  by (induction a) (auto simp: Let_def)

text \<open>\<open>t in s\<close> for strings: \<open>t\<close> is a substring of \<open>s\<close>.\<close>

fun starts_with :: "pystr \<Rightarrow> pystr \<Rightarrow> bool" where
  "starts_with [] s = True"
| "starts_with (x # xs) [] = False"
| "starts_with (x # xs) (y # ys) = (x = y \<and> starts_with xs ys)"

fun substring_of :: "pystr \<Rightarrow> pystr \<Rightarrow> bool" where
  "substring_of t [] = (t = [])"
| "substring_of t (y # ys) = (starts_with t (y # ys) \<or> substring_of t ys)"

lemma starts_with_iff: "starts_with t s \<longleftrightarrow> (\<exists>r. s = t @ r)"
  by (induction t s rule: starts_with.induct) auto

lemma substring_of_iff: "substring_of t s \<longleftrightarrow> (\<exists>a b. s = a @ t @ b)"
proof (induction s)
  case Nil
  then show ?case by simp
next
  case (Cons y ys)
  have "(\<exists>a b. y # ys = a @ t @ b) \<longleftrightarrow> (\<exists>b. y # ys = t @ b) \<or> (\<exists>a b. ys = a @ t @ b)" (is "?L \<longleftrightarrow> ?R")
  proof
    assume ?L
    then obtain a b where "y # ys = a @ t @ b" by blast
    then show ?R by (cases a) auto
  next
    assume ?R
    then show ?L by (metis append_Cons append_Nil)
  qed
  then show ?case using Cons starts_with_iff [of t "y # ys"] by (simp del: starts_with.simps)
qed

text \<open>\<open>s.split()\<close>: the maximal runs of non-space characters.\<close>

function py_split :: "pystr \<Rightarrow> pystr list" where
  "py_split s = (let t = dropWhile py_isspace s in
     if t = [] then []
     else takeWhile (\<lambda>c. \<not> py_isspace c) t # py_split (dropWhile (\<lambda>c. \<not> py_isspace c) t))"
  by auto
termination
proof (relation "measure length")
  fix s t :: pystr
  assume t: "t = dropWhile py_isspace s" and ne: "t \<noteq> []"
  have "\<not> py_isspace (hd t)" using ne hd_dropWhile t by blast
  with ne have "length (dropWhile (\<lambda>c. \<not> py_isspace c) t) < length t"
    by (cases t) (auto simp: le_imp_less_Suc length_dropWhile_le)
  also have "length t \<le> length s" unfolding t by (rule length_dropWhile_le)
  finally show "(dropWhile (\<lambda>c. \<not> py_isspace c) t, s) \<in> measure length" by simp
qed simp

declare py_split.simps [simp del]

section \<open>Searching for the first finding\<close>

text \<open>\<open>for x in xs: ... return v\<close>, falling through to \<open>return None\<close>.\<close>

fun first_some :: "('a \<Rightarrow> 'b option) \<Rightarrow> 'a list \<Rightarrow> 'b option" where
  "first_some f [] = None"
| "first_some f (x # xs) = (case f x of None \<Rightarrow> first_some f xs | Some v \<Rightarrow> Some v)"

lemma first_some_None [simp, rule_simps]: "first_some f xs = None \<longleftrightarrow> (\<forall>x\<in>set xs. f x = None)"
  by (induction xs) (auto split: option.splits)

lemma first_some_SomeD: "first_some f xs = Some v \<Longrightarrow> \<exists>x\<in>set xs. f x = Some v"
  by (induction xs) (auto split: option.splits)

lemma first_some_Some_split:
  "first_some f xs = Some v \<longleftrightarrow>
     (\<exists>ys x zs. xs = ys @ x # zs \<and> f x = Some v \<and> (\<forall>y\<in>set ys. f y = None))"
proof (induction xs)
  case Nil
  then show ?case by simp
next
  case (Cons a xs)
  show ?case
  proof (cases "f a")
    case None
    have "(\<exists>ys x zs. a # xs = ys @ x # zs \<and> f x = Some v \<and> (\<forall>y\<in>set ys. f y = None)) \<longleftrightarrow>
      (\<exists>ys x zs. xs = ys @ x # zs \<and> f x = Some v \<and> (\<forall>y\<in>set ys. f y = None))"
      (is "?L \<longleftrightarrow> ?R")
    proof
      assume ?L
      then obtain ys x zs where h: "a # xs = ys @ x # zs" "f x = Some v" "\<forall>y\<in>set ys. f y = None"
        by blast
      with None obtain ys' where "ys = a # ys'" by (cases ys) auto
      with h show ?R by auto
    next
      assume ?R
      then obtain ys x zs where "xs = ys @ x # zs" "f x = Some v" "\<forall>y\<in>set ys. f y = None"
        by blast
      with None have "a # xs = (a # ys) @ x # zs \<and> f x = Some v \<and> (\<forall>y\<in>set (a # ys). f y = None)"
        by simp
      then show ?L by blast
    qed
    with Cons None show ?thesis by simp
  next
    case (Some w)
    have "(\<exists>ys x zs. a # xs = ys @ x # zs \<and> f x = Some v \<and> (\<forall>y\<in>set ys. f y = None)) \<longleftrightarrow> w = v"
    proof
      assume "\<exists>ys x zs. a # xs = ys @ x # zs \<and> f x = Some v \<and> (\<forall>y\<in>set ys. f y = None)"
      then obtain ys x zs where h: "a # xs = ys @ x # zs" "f x = Some v" "\<forall>y\<in>set ys. f y = None"
        by blast
      then show "w = v" using Some by (cases ys) auto
    next
      assume "w = v"
      with Some have "a # xs = [] @ a # xs \<and> f a = Some v \<and> (\<forall>y\<in>set []. f y = None)" by simp
      then show "\<exists>ys x zs. a # xs = ys @ x # zs \<and> f x = Some v \<and> (\<forall>y\<in>set ys. f y = None)"
        by blast
    qed
    with Some show ?thesis by simp
  qed
qed

text \<open>The same loop when its body can raise: the first exception or finding ends it.\<close>

fun first_someE :: "('a \<Rightarrow> 'e + 'b option) \<Rightarrow> 'a list \<Rightarrow> 'e + 'b option" where
  "first_someE f [] = Inr None"
| "first_someE f (x # xs) =
     bindE (f x) (\<lambda>r. case r of None \<Rightarrow> first_someE f xs | Some v \<Rightarrow> Inr (Some v))"

lemma first_someE_pure: "(\<And>x. x \<in> set xs \<Longrightarrow> f x = Inr (g x)) \<Longrightarrow> first_someE f xs = Inr (first_some g xs)"
  by (induction xs) (auto split: option.splits)

lemma first_someE_None:
  "first_someE f xs = Inr None \<longleftrightarrow> (\<forall>x\<in>set xs. f x = Inr None)"
  by (induction xs) (auto simp: bindE_def split: sum.splits option.splits)

section \<open>Findings\<close>

text \<open>
  A message or element path is kept as the format string the code writes and its arguments:
  \<open>L\<close> a literal piece, \<open>U\<close> a literal character outside ASCII, \<open>R\<close> and \<open>S\<close> a string
  argument of \<open>%r\<close> and \<open>%s\<close>, \<open>I\<close> an integer argument of \<open>%d\<close>, \<open>D\<close> a
  decimal argument of \<open>%s\<close> (its coefficient and exponent).
\<close>

datatype frag = L string | U nat | R pystr | S pystr | I nat | D int int

type_synonym fmt = "frag list"

datatype severity = Fatal | Warning | Information

record violation =
  v_rule_id :: string
  v_message :: fmt
  v_element :: fmt
  v_severity :: severity
  v_source_line :: "nat option"
  v_insertion_point_line :: "nat option"

text \<open>\<open>Violation(rule_id, message, element)\<close> with the defaults of \<open>rules.py\<close>.\<close>

definition Violation :: "string \<Rightarrow> fmt \<Rightarrow> fmt \<Rightarrow> violation" where
  "Violation rid msg el = \<lparr> v_rule_id = rid, v_message = msg, v_element = el,
     v_severity = Fatal, v_source_line = None, v_insertion_point_line = None \<rparr>"

definition at_line :: "nat option \<Rightarrow> violation \<Rightarrow> violation" where
  "at_line l v = v\<lparr> v_source_line := l \<rparr>"

definition with_severity :: "severity \<Rightarrow> violation \<Rightarrow> violation" where
  "with_severity s v = v\<lparr> v_severity := s \<rparr>"

lemma Violation_sel [simp]:
  "v_rule_id (Violation r m e) = r" "v_message (Violation r m e) = m"
  "v_element (Violation r m e) = e" "v_severity (Violation r m e) = Fatal"
  "v_source_line (Violation r m e) = None" "v_insertion_point_line (Violation r m e) = None"
  "v_rule_id (at_line l v) = v_rule_id v" "v_severity (at_line l v) = v_severity v"
  "v_source_line (at_line l v) = l" "v_element (at_line l v) = v_element v"
  "v_rule_id (with_severity s v) = v_rule_id v" "v_severity (with_severity s v) = s"
  "v_source_line (with_severity s v) = v_source_line v" "v_element (with_severity s v) = v_element v"
  by (simp_all add: Violation_def at_line_def with_severity_def)

definition fires :: "violation option \<Rightarrow> bool" where
  "fires r \<longleftrightarrow> r \<noteq> None"

lemma fires_simps [simp, rule_simps]:
  "fires None = False" "fires (Some v) = True"
  "fires (if c then Some v else None) = c"
  "fires (if c then None else Some v) = (\<not> c)"
  "fires (first_some f xs) = (\<exists>x\<in>set xs. fires (f x))"
  by (auto simp: fires_def)

lemma first_someE_fires:
  "(\<And>x. x \<in> set xs \<Longrightarrow> \<exists>r. f x = Inr r \<and> (fires r \<longleftrightarrow> P x)) \<Longrightarrow>
   \<exists>r. first_someE f xs = Inr r \<and> (fires r \<longleftrightarrow> (\<exists>x\<in>set xs. P x))"
proof (induction xs)
  case (Cons x xs)
  then obtain r r' where "f x = Inr r" "fires r \<longleftrightarrow> P x" "first_someE f xs = Inr r'"
    "fires r' \<longleftrightarrow> (\<exists>x\<in>set xs. P x)" by fastforce
  then show ?case by (cases r) auto
qed simp

end
