(* ===== verification/EI_Decimal.thy ===== *)
theory EI_Decimal
  imports EI_Prelude Complex_Main
begin

text \<open>
  Python's \<open>decimal.Decimal\<close> as \<open>einvoice/rules.py\<close> uses it, and the helpers
  \<open>_dec\<close>, \<open>_q\<close>, \<open>_fn_round\<close>, \<open>_xr2\<close>, \<open>_dec_places\<close> of that file.  A finite
  decimal is a signed coefficient and a power of ten; arithmetic goes through the default
  context (28 digits, ties to even, exponents up to 999999, traps on overflow and on invalid
  operations), comparison is exact.  The only difference from Python is that zero has no sign,
  which is visible in printed zeros alone.
\<close>

section \<open>Finite decimals and the default context\<close>

datatype decimal = Dec (coeff: int) (expo: int)

text \<open>The exceptions of the decimal context, and the \<open>OverflowError\<close> of binary floats.\<close>

datatype dec_exc = InvalidOperation | Overflow | DivisionByZero | FloatOverflow

definition dval :: "decimal \<Rightarrow> rat" where
  "dval d = of_int (coeff d) * 10 powi expo d"

function ndigits :: "int \<Rightarrow> int" where
  "ndigits n = (if n < 10 then 1 else 1 + ndigits (n div 10))"
  by auto
termination
  by (relation "measure nat") auto

declare ndigits.simps [simp del]

definition prec :: int where "prec = 28"
definition Emax :: int where "Emax = 999999"
definition Etop :: int where "Etop = Emax - prec + 1"
definition Etiny :: int where "Etiny = - 999999 - prec + 1"

text \<open>The quotient of a non-negative coefficient by a power of ten, ties to even.\<close>

definition div_half_even :: "int \<Rightarrow> int \<Rightarrow> int" where
  "div_half_even a m = (let q = a div m; r = a mod m in
     if 2 * r > m \<or> (2 * r = m \<and> odd q) then q + 1 else q)"

text \<open>Rounding a result to the context (\<open>Decimal._fix\<close>).\<close>

definition dec_fix :: "decimal \<Rightarrow> dec_exc + decimal" where
  "dec_fix d = (let c = \<bar>coeff d\<bar>; e = expo d in
     if c = 0 then Inr (Dec 0 (max Etiny (min e Emax)))
     else let e_min = ndigits c + e - prec in
       if e_min > Etop then Inl Overflow
       else let e_min = max e_min Etiny in
         if e < e_min then
           let q = div_half_even c (10 ^ nat (e_min - e));
               r = (if ndigits q > prec then (q div 10, e_min + 1) else (q, e_min))
           in if snd r > Etop then Inl Overflow else Inr (Dec (sgn (coeff d) * fst r) (snd r))
         else Inr d)"

text \<open>Bringing two decimals to the smaller of their exponents.\<close>

definition scaled :: "decimal \<Rightarrow> int \<Rightarrow> int" where
  "scaled d e = coeff d * 10 ^ nat (expo d - e)"

definition dec_add :: "decimal \<Rightarrow> decimal \<Rightarrow> dec_exc + decimal" where
  "dec_add a b = (let e = min (expo a) (expo b) in dec_fix (Dec (scaled a e + scaled b e) e))"

definition dec_sub :: "decimal \<Rightarrow> decimal \<Rightarrow> dec_exc + decimal" where
  "dec_sub a b = dec_add a (Dec (- coeff b) (expo b))"

definition dec_mul :: "decimal \<Rightarrow> decimal \<Rightarrow> dec_exc + decimal" where
  "dec_mul a b = dec_fix (Dec (coeff a * coeff b) (expo a + expo b))"

definition dec_abs :: "decimal \<Rightarrow> dec_exc + decimal" where
  "dec_abs a = dec_fix (Dec \<bar>coeff a\<bar> (expo a))"

text \<open>\<open>x / Decimal(100)\<close>: the quotient is exact before it is rounded.\<close>

definition dec_div100 :: "decimal \<Rightarrow> dec_exc + decimal" where
  "dec_div100 a = dec_fix (Dec (coeff a) (expo a - 2))"

definition dec_cmp :: "decimal \<Rightarrow> decimal \<Rightarrow> int" where
  "dec_cmp a b = (let e = min (expo a) (expo b) in scaled a e - scaled b e)"

definition dec_eq :: "decimal \<Rightarrow> decimal \<Rightarrow> bool" where
  "dec_eq a b \<longleftrightarrow> dec_cmp a b = 0"

definition dec_less :: "decimal \<Rightarrow> decimal \<Rightarrow> bool" where
  "dec_less a b \<longleftrightarrow> dec_cmp a b < 0"

definition dec_of_int :: "int \<Rightarrow> decimal" where
  "dec_of_int n = Dec n 0"

text \<open>\<open>x.to_integral_value(rounding=ROUND_FLOOR)\<close>.\<close>

definition dec_floor :: "decimal \<Rightarrow> decimal" where
  "dec_floor d = (if 0 \<le> expo d then d else Dec (coeff d div 10 ^ nat (- expo d)) 0)"

text \<open>\<open>x.quantize(Decimal("0.01"), rounding=ROUND_HALF_UP)\<close>: halves away from zero; more
  than 28 digits are an invalid operation.\<close>

definition div_half_up :: "int \<Rightarrow> int \<Rightarrow> int" where
  "div_half_up a m = sgn a * ((2 * \<bar>a\<bar> + m) div (2 * m))"

definition dec_quantize_cent :: "decimal \<Rightarrow> dec_exc + decimal" where
  "dec_quantize_cent d = (let c = coeff d; e = expo d;
       q = (if - 2 \<le> e then c * 10 ^ nat (e + 2) else div_half_up c (10 ^ nat (- 2 - e)))
     in if ndigits \<bar>q\<bar> > prec then Inl InvalidOperation else Inr (Dec q (- 2)))"

section \<open>The helpers of rules.py\<close>

definition q_cent :: "decimal \<Rightarrow> dec_exc + decimal" where
  "q_cent v = dec_quantize_cent v"

definition fn_round :: "decimal \<Rightarrow> dec_exc + decimal" where
  "fn_round v = bindE (dec_add v (Dec 5 (- 1))) (\<lambda>s. Inr (dec_floor s))"

definition xr2 :: "decimal \<Rightarrow> dec_exc + decimal" where
  "xr2 v = bindE (dec_mul v (Dec 100 0)) (\<lambda>x. bindE (fn_round x) dec_div100)"

section \<open>Parsing\<close>

text \<open>The zeros of the decimal digits of Unicode; \<open>Decimal\<close> accepts every such digit.\<close>

definition unicode_zeros :: "nat list" where
  "unicode_zeros = [48, 1632, 1776, 1984, 2406, 2534, 2662, 2790, 2918, 3046, 3174, 3302, 3430,
     3558, 3664, 3792, 3872, 4160, 4240, 6112, 6160, 6470, 6608, 6784, 6800, 6992, 7088, 7232,
     7248, 42528, 43216, 43264, 43472, 43504, 43600, 44016, 65296, 66720, 68912, 69734, 69872,
     69942, 70096, 70384, 70736, 70864, 71248, 71360, 71472, 71904, 72016, 72784, 73040, 73120,
     92768, 92864, 93008, 120782, 120792, 120802, 120812, 120822, 123200, 123632, 125264, 130032]"

definition digit_of :: "nat \<Rightarrow> nat option" where
  "digit_of c = (case filter (\<lambda>z. z \<le> c \<and> c < z + 10) unicode_zeros of
     [] \<Rightarrow> None | z # _ \<Rightarrow> Some (c - z))"

definition is_digit :: "nat \<Rightarrow> bool" where
  "is_digit c \<longleftrightarrow> digit_of c \<noteq> None"

definition digits_val :: "pystr \<Rightarrow> int" where
  "digits_val ds = foldl (\<lambda>v c. 10 * v + int (the (digit_of c))) 0 ds"

text \<open>An optional sign: the factor and the rest.\<close>

fun sign_of :: "pystr \<Rightarrow> int \<times> pystr" where
  "sign_of [] = (1, [])"
| "sign_of (c # cs) = (if c = 45 then (- 1, cs) else if c = 43 then (1, cs) else (1, c # cs))"

definition all_digits :: "pystr \<Rightarrow> bool" where
  "all_digits s \<longleftrightarrow> s \<noteq> [] \<and> list_all is_digit s"

text \<open>The exponent part \<open>[eE][+-]digits\<close>, empty for 0.\<close>

fun exponent_of :: "pystr \<Rightarrow> int option" where
  "exponent_of [] = Some 0"
| "exponent_of (c # cs) = (if c = 69 \<or> c = 101 then
     (let (g, ds) = sign_of cs in if all_digits ds then Some (g * digits_val ds) else None)
     else None)"

text \<open>\<open>[sign] (digits [. digits] | . digits) [exponent]\<close>: the signed coefficient and the
  exponent.\<close>

definition number_of :: "pystr \<Rightarrow> (int \<times> int) option" where
  "number_of s =
    (let (g, t) = sign_of s;
         ip = takeWhile is_digit t;
         r1 = dropWhile is_digit t;
         point = (r1 \<noteq> [] \<and> hd r1 = 46);
         fp = (if point then takeWhile is_digit (tl r1) else []);
         r2 = (if point then dropWhile is_digit (tl r1) else r1)
     in if ip = [] \<and> fp = [] then None
        else case exponent_of r2 of None \<Rightarrow> None
          | Some x \<Rightarrow> Some (g * digits_val (ip @ fp), x - int (length fp)))"

text \<open>
  \<open>Decimal(text)\<close> restricted to finite results: surrounding white space is stripped and
  underscores are dropped.  Exponents outside the range of the implementation are an invalid
  operation.  Infinities and NaNs are \<open>None\<close> here, as \<open>_dec\<close> makes them.
\<close>

definition decimal_of_text :: "pystr \<Rightarrow> decimal option" where
  "decimal_of_text s = (case number_of (filter (\<lambda>c. c \<noteq> 95) (py_strip s)) of None \<Rightarrow> None
     | Some (c, e) \<Rightarrow>
       (let lim = (999999999999999999 :: int)
        in if c = 0 then (if - 2 * lim + 1 \<le> e \<and> e \<le> lim then Some (Dec 0 e) else None)
           else if e + ndigits \<bar>c\<bar> - 1 \<le> lim \<and> - 2 * lim + 1 \<le> e then Some (Dec c e) else None))"

fun dec_opt :: "pystr option \<Rightarrow> decimal option" where
  "dec_opt None = None"
| "dec_opt (Some s) = (if s = [] then None else decimal_of_text s)"

text \<open>\<open>_dec_places\<close>: the characters after the first point of the raw text.\<close>

fun dec_places :: "pystr option \<Rightarrow> nat" where
  "dec_places None = 0"
| "dec_places (Some raw) = (case snd (split1 46 raw) of None \<Rightarrow> 0 | Some t \<Rightarrow> length t)"

named_theorems dec_eval \<open>evaluation of decimals on literals\<close>

lemmas [dec_eval] = prec_def Emax_def Etop_def Etiny_def div_half_even_def dec_fix_def scaled_def
  dec_add_def dec_sub_def dec_mul_def dec_abs_def dec_div100_def dec_cmp_def dec_eq_def
  dec_less_def dec_of_int_def dec_floor_def div_half_up_def dec_quantize_cent_def q_cent_def
  fn_round_def xr2_def digits_val_def all_digits_def number_of_def decimal_of_text_def Let_def ascii_def
  py_strip_def py_isspace_def

lemma ndigits_eval [dec_eval]:
  "ndigits (numeral k) = (if numeral k < (10 :: int) then 1 else 1 + ndigits (numeral k div 10))"
  "ndigits 0 = 1" "ndigits 1 = 1"
  by (subst ndigits.simps, simp)+

lemma digit_of_ascii [dec_eval]: "48 \<le> c \<Longrightarrow> c < 58 \<Longrightarrow> digit_of c = Some (c - 48)"
  by (simp add: digit_of_def unicode_zeros_def)

lemma digit_of_small [dec_eval]: "c < 48 \<or> (58 \<le> c \<and> c < 1632) \<Longrightarrow> digit_of c = None"
  by (elim disjE conjE) (simp_all add: digit_of_def unicode_zeros_def)

lemma is_digit_small [dec_eval]: "c < 1632 \<Longrightarrow> is_digit c \<longleftrightarrow> 48 \<le> c \<and> c < 58"
  using digit_of_ascii [of c] digit_of_small [of c] by (force simp: is_digit_def)

section \<open>What the operations compute\<close>

lemma powi_split: "e \<le> x \<Longrightarrow> (10 :: rat) powi x = 10 ^ nat (x - e) * 10 powi e"
  by (metis add.commute diff_add_cancel diff_ge_0_iff_ge nat_0_le power_int_add power_int_of_nat zero_neq_numeral)

lemma scaled_dval: "e \<le> expo d \<Longrightarrow> of_int (scaled d e) * 10 powi e = dval d"
  by (simp add: scaled_def dval_def powi_split [of e "expo d"])

lemma powi_pos [simp]: "0 < (10 :: rat) powi e"
  by simp

lemma dec_cmp_dval: "of_int (dec_cmp a b) * 10 powi (min (expo a) (expo b)) = dval a - dval b"
  by (simp add: dec_cmp_def Let_def scaled_dval left_diff_distrib)

lemma dec_eq_iff [simp]: "dec_eq a b \<longleftrightarrow> dval a = dval b"
  unfolding dec_eq_def using dec_cmp_dval [of a b]
  by (metis eq_iff_diff_eq_0 mult_eq_0_iff of_int_eq_0_iff powi_pos less_irrefl)

lemma dec_less_iff [simp]: "dec_less a b \<longleftrightarrow> dval a < dval b"
proof -
  have "dec_cmp a b < 0 \<longleftrightarrow> of_int (dec_cmp a b) * (10 :: rat) powi (min (expo a) (expo b)) < 0"
    by (simp add: mult_less_0_iff less_not_sym)
  also have "\<dots> \<longleftrightarrow> dval a < dval b" unfolding dec_cmp_dval by simp
  finally show ?thesis by (simp add: dec_less_def)
qed

lemma ndigits_bound: "0 \<le> n \<Longrightarrow> n < 10 ^ k \<Longrightarrow> 0 < k \<Longrightarrow> ndigits n \<le> int k"
proof (induction k arbitrary: n)
  case (Suc k)
  show ?case
  proof (cases "n < 10")
    case True
    then show ?thesis by (subst ndigits.simps) simp
  next
    case False
    with Suc.prems have "n div 10 < 10 ^ k" and "0 < k"
      by (auto simp: div_less_iff_less_mult intro: Suc_lessI gr0I)
    with Suc False show ?thesis by (subst ndigits.simps) (simp add: pos_imp_zdiv_nonneg_iff)
  qed
qed simp

lemma ndigits_pos: "1 \<le> ndigits n"
proof (induction n rule: ndigits.induct)
  case (1 n)
  then show ?case by (subst ndigits.simps) auto
qed

text \<open>A decimal that the context neither rounds nor moves: at most 28 digits, a moderate
  exponent.\<close>

lemma dec_fix_exact:
  assumes "\<bar>c\<bar> < 10 ^ 28" and "- 1000 \<le> e" and "e \<le> 1000"
  shows "dec_fix (Dec c e) = Inr (Dec c e)"
proof (cases "c = 0")
  case True
  then show ?thesis using assms by (simp add: dec_fix_def Let_def Etiny_def Emax_def prec_def)
next
  case False
  have d: "ndigits \<bar>c\<bar> \<le> 28" using ndigits_bound [of "\<bar>c\<bar>" 28] assms by simp
  have "1 \<le> ndigits \<bar>c\<bar>" by (rule ndigits_pos)
  then show ?thesis using assms False d
    by (simp add: dec_fix_def Let_def Etiny_def Etop_def Emax_def prec_def)
qed

text \<open>\<open>fine f d\<close>: at most \<open>f\<close> decimal places, no large positive exponent.\<close>

definition fine :: "nat \<Rightarrow> decimal \<Rightarrow> bool" where
  "fine f d \<longleftrightarrow> - int f \<le> expo d \<and> expo d \<le> 100"

lemma fine_mono: "fine f d \<Longrightarrow> f \<le> g \<Longrightarrow> fine g d"
  by (simp add: fine_def)

lemma coeff_bound:
  assumes "\<bar>dval d\<bar> < 10 ^ p" and "- int f \<le> expo d"
  shows "\<bar>coeff d\<bar> < 10 ^ (p + f)"
proof -
  have one: "(1 :: rat) \<le> 10 ^ nat (expo d + int f)" by (rule one_le_power) simp
  have "(of_int \<bar>coeff d\<bar> :: rat) \<le> of_int \<bar>coeff d\<bar> * 10 ^ nat (expo d + int f)"
    using mult_left_mono [OF one, of "of_int \<bar>coeff d\<bar>"] by simp
  also have "\<dots> = \<bar>dval d\<bar> * 10 ^ f"
    using powi_split [of "- int f" "expo d"] assms(2)
    by (simp add: dval_def abs_mult power_int_minus field_simps)
  also have "\<dots> < 10 ^ p * 10 ^ f" using assms(1) by simp
  finally have "(of_int \<bar>coeff d\<bar> :: rat) < of_int (10 ^ (p + f))" by (simp add: power_add)
  then show ?thesis by (simp only: of_int_less_iff)
qed

lemma dec_fix_fine:
  assumes "\<bar>dval d\<bar> < 10 ^ p" and "p + f \<le> 28" and "fine f d"
  shows "dec_fix d = Inr d"
proof -
  have "\<bar>coeff d\<bar> < 10 ^ (p + f)" using assms coeff_bound [of d p f] by (simp add: fine_def)
  also have "\<dots> \<le> (10 :: int) ^ 28" using assms(2) by (intro power_increasing) auto
  finally have "dec_fix (Dec (coeff d) (expo d)) = Inr (Dec (coeff d) (expo d))"
    using assms by (intro dec_fix_exact) (auto simp: fine_def)
  then show ?thesis by simp
qed

lemma dec_add_fine:
  assumes "fine f a" and "fine f b" and "\<bar>dval a + dval b\<bar> < 10 ^ p" and "p + f \<le> 28"
  shows "\<exists>r. dec_add a b = Inr r \<and> dval r = dval a + dval b \<and> fine f r"
proof -
  let ?e = "min (expo a) (expo b)"
  let ?r = "Dec (scaled a ?e + scaled b ?e) ?e"
  have v: "dval ?r = dval a + dval b"
    using scaled_dval [of ?e a] scaled_dval [of ?e b] by (simp add: dval_def distrib_right)
  have "fine f ?r" using assms by (auto simp: fine_def min_def)
  moreover have "dec_fix ?r = Inr ?r" using assms calculation by (intro dec_fix_fine [of _ p f]) (simp_all only: v)
  ultimately show ?thesis using v by (auto simp: dec_add_def Let_def)
qed

lemma dval_neg [simp]: "dval (Dec (- coeff b) (expo b)) = - dval b"
  by (simp add: dval_def)

lemma dec_sub_fine:
  assumes "fine f a" and "fine f b" and "\<bar>dval a - dval b\<bar> < 10 ^ p" and "p + f \<le> 28"
  shows "\<exists>r. dec_sub a b = Inr r \<and> dval r = dval a - dval b \<and> fine f r"
  using dec_add_fine [of f a "Dec (- coeff b) (expo b)" p] assms
  by (simp add: dec_sub_def fine_def)

section \<open>The two roundings\<close>

text \<open>\<open>fn:round\<close> of XPath 2.0 (ties towards plus infinity), the two-place idiom built on it,
  and two-place rounding with ties away from zero, over the rationals.\<close>

definition xpath_round :: "rat \<Rightarrow> rat" where
  "xpath_round x = of_int \<lfloor>x + 1 / 2\<rfloor>"

definition xpath_round2 :: "rat \<Rightarrow> rat" where
  "xpath_round2 x = xpath_round (x * 100) / 100"

definition half_up2 :: "rat \<Rightarrow> rat" where
  "half_up2 x = sgn x * of_int \<lfloor>100 * \<bar>x\<bar> + 1 / 2\<rfloor> / 100"

lemma dval_floor: "dval (dec_floor d) = of_int \<lfloor>dval d\<rfloor>"
proof (cases "0 \<le> expo d")
  case True
  then have "dval d = of_int (coeff d * 10 ^ nat (expo d))"
    by (simp add: dval_def power_int_def)
  then show ?thesis using True by (simp only: dec_floor_def if_True floor_of_int)
next
  case False
  then have "dval d = of_int (coeff d) / of_int (10 ^ nat (- expo d))"
    by (simp add: dval_def power_int_def field_simps)
  then show ?thesis using False
    by (simp only: floor_divide_of_int_eq) (simp add: dec_floor_def dval_def)
qed

lemma fn_round_fine:
  assumes "fine f v" and "\<bar>dval v\<bar> < 10 ^ p - 1" and "p + f \<le> 28" and "1 \<le> f"
  shows "\<exists>r. fn_round v = Inr r \<and> dval r = xpath_round (dval v) \<and> fine 0 r"
proof -
  have half: "dval (Dec 5 (- 1)) = 1 / 2" by (simp add: dval_def power_int_def)
  have b: "\<bar>dval v + dval (Dec 5 (- 1))\<bar> < 10 ^ p" using assms(2) unfolding half by linarith
  have "fine f (Dec 5 (- 1))" using assms(4) by (simp add: fine_def)
  then obtain s where "dec_add v (Dec 5 (- 1)) = Inr s" "dval s = dval v + 1 / 2" "fine f s"
    using dec_add_fine [OF assms(1) _ b assms(3)] half by auto
  moreover have "fine 0 (dec_floor s)" using calculation by (auto simp: fine_def dec_floor_def)
  ultimately show ?thesis by (simp add: fn_round_def dval_floor xpath_round_def)
qed

lemma xpath_round_bound: "\<bar>xpath_round x\<bar> \<le> \<bar>x\<bar> + 1"
proof -
  have "of_int \<lfloor>x + 1 / 2\<rfloor> \<le> x + 1 / 2" and "x + 1 / 2 < of_int \<lfloor>x + 1 / 2\<rfloor> + 1"
    using floor_correct [of "x + 1 / 2"] by simp_all
  then show ?thesis unfolding xpath_round_def by linarith
qed

lemma xr2_fine:
  assumes "fine f v" and "\<bar>dval v\<bar> < 10 ^ p" and "p + f \<le> 25" and "1 \<le> f"
  shows "\<exists>r. xr2 v = Inr r \<and> dval r = xpath_round2 (dval v) \<and> fine 2 r"
proof -
  let ?x = "Dec (coeff v * 100) (expo v)"
  have x: "dval ?x = dval v * 100" by (simp add: dval_def)
  have pos: "(1 :: rat) \<le> 10 ^ p" by simp
  have bx: "\<bar>dval ?x\<bar> < 10 ^ (p + 2)" unfolding x using assms(2) by (simp add: abs_mult power_add)
  have fx: "fine f ?x" using assms(1) by (simp add: fine_def)
  have "dec_mul v (Dec 100 0) = Inr ?x"
    using dec_fix_fine [OF bx _ fx] assms(3) by (simp add: dec_mul_def)
  note mul = this
  have "\<bar>dval ?x\<bar> < 10 ^ (p + 3) - 1"
  proof -
    have "(10 :: rat) ^ (p + 2) = 100 * 10 ^ p" "(10 :: rat) ^ (p + 3) = 1000 * 10 ^ p"
      by (simp_all add: power_add)
    then show ?thesis using bx pos by linarith
  qed
  then obtain r where r: "fn_round ?x = Inr r" "dval r = xpath_round (dval v * 100)" "fine 0 r"
    using fn_round_fine [OF fx, of "p + 3"] assms x by auto
  have d: "dval (Dec (coeff r) (expo r - 2)) = dval r / 100"
    by (simp add: dval_def power_int_diff)
  have "\<bar>dval r\<bar> \<le> \<bar>dval ?x\<bar> + 1" unfolding r(2) x by (rule xpath_round_bound)
  moreover have "\<bar>dval r / 100\<bar> = \<bar>dval r\<bar> / 100" "(10 :: rat) ^ (p + 2) = 100 * 10 ^ p"
    "(10 :: rat) ^ (p + 1) = 10 * 10 ^ p" by (simp_all add: power_add)
  ultimately have "\<bar>dval r / 100\<bar> < 10 ^ (p + 1)" using bx pos by linarith
  then have "dec_fix (Dec (coeff r) (expo r - 2)) = Inr (Dec (coeff r) (expo r - 2))"
    using r(3) assms by (intro dec_fix_fine [of _ "p + 1" 2]) (simp_all only: d, auto simp: fine_def)
  then show ?thesis
    using r mul d by (auto simp: xr2_def dec_div100_def xpath_round2_def fine_def)
qed

lemma half_up_quotient:
  assumes "0 < m"
  shows "of_int (div_half_up c m) =
    sgn (of_int c :: rat) * of_int \<lfloor>of_int \<bar>c\<bar> / of_int m + 1 / 2 :: rat\<rfloor>"
proof -
  have "of_int \<bar>c\<bar> / of_int m + 1 / 2 = (of_int (2 * \<bar>c\<bar> + m) / of_int (2 * m) :: rat)"
    using assms by (simp add: field_simps)
  then have "\<lfloor>of_int \<bar>c\<bar> / of_int m + 1 / 2 :: rat\<rfloor> = (2 * \<bar>c\<bar> + m) div (2 * m)"
    by (simp only: floor_divide_of_int_eq)
  then show ?thesis by (cases c "0 :: int" rule: linorder_cases) (simp_all add: div_half_up_def)
qed

lemma q_cent_value:
  assumes "\<bar>dval v\<bar> < 10 ^ 25"
  shows "\<exists>r. q_cent v = Inr r \<and> dval r = half_up2 (dval v) \<and> expo r = - 2"
proof -
  let ?q = "if - 2 \<le> expo v then coeff v * 10 ^ nat (expo v + 2)
    else div_half_up (coeff v) (10 ^ nat (- 2 - expo v))"
  have sg: "sgn (dval v) = sgn (of_int (coeff v))" by (simp add: dval_def sgn_mult)
  have q: "of_int ?q = sgn (dval v) * of_int \<lfloor>100 * \<bar>dval v\<bar> + 1 / 2\<rfloor>"
  proof (cases "- 2 \<le> expo v")
    case True
    then have e: "100 * \<bar>dval v\<bar> = of_int (\<bar>coeff v\<bar> * 10 ^ nat (expo v + 2))"
      using powi_split [of "- 2" "expo v"] by (simp add: dval_def abs_mult power_int_def power_divide)
    have "\<lfloor>100 * \<bar>dval v\<bar> + 1 / 2\<rfloor> = \<bar>coeff v\<bar> * 10 ^ nat (expo v + 2)"
      unfolding e by (rule floor_unique) simp_all
    then show ?thesis using True sg
      by (cases "coeff v" "0 :: int" rule: linorder_cases) simp_all
  next
    case False
    then have e: "100 * \<bar>dval v\<bar> = of_int \<bar>coeff v\<bar> / of_int (10 ^ nat (- 2 - expo v))"
      using powi_split [of "expo v" "- 2"] by (simp add: dval_def abs_mult power_int_def field_simps)
    show ?thesis unfolding e sg using False
      by (simp add: half_up_quotient)
  qed
  have "\<bar>of_int \<lfloor>100 * \<bar>dval v\<bar> + 1 / 2\<rfloor>\<bar> \<le> 100 * \<bar>dval v\<bar> + 1"
    using xpath_round_bound [of "100 * \<bar>dval v\<bar>"] by (simp add: xpath_round_def)
  then have "\<bar>of_int ?q :: rat\<bar> \<le> 100 * \<bar>dval v\<bar> + 1"
    unfolding q by (cases "dval v = 0") (simp_all add: abs_mult abs_sgn_eq)
  then have "(of_int \<bar>?q\<bar> :: rat) < of_int (10 ^ 28)" using assms by simp
  then have "\<bar>?q\<bar> < 10 ^ 28" by (simp only: of_int_less_iff)
  then have "ndigits \<bar>?q\<bar> \<le> 28" using ndigits_bound [of "\<bar>?q\<bar>" 28] by simp
  then have "q_cent v = Inr (Dec ?q (- 2))"
    by (simp add: q_cent_def dec_quantize_cent_def Let_def prec_def)
  moreover have "dval (Dec ?q (- 2)) = half_up2 (dval v)"
    unfolding half_up2_def dval_def [of "Dec ?q (- 2)"] decimal.sel q
    by (simp add: power_int_def power_divide)
  ultimately show ?thesis by auto
qed

end
