(* ===== verification/EI_Model.thy ===== *)
theory EI_Model
  imports EI_Decimal
begin

text \<open>
  The normalised invoice the rules read: the classes of \<open>einvoice/parser.py\<close> as records,
  field for field, and the methods of \<open>Invoice\<close>.  Text fields are the strings the parser
  extracted, \<open>None\<close> where the element is absent.
\<close>

type_synonym text_opt = "pystr option"

record item_tax_category =
  cat_id :: text_opt
  cat_scheme_id :: text_opt
  cat_percent :: text_opt
  cat_raw_id :: text_opt

record period =
  period_start :: text_opt
  period_end :: text_opt

record payee_party =
  payee_names :: "pystr list"
  payee_ids :: "pystr list"
  payee_seller_names :: "pystr list"
  payee_seller_ids :: "pystr list"
  payee_legal_ids :: "pystr list"
  payee_seller_legal_ids :: "pystr list"

record tax_representative =
  taxrep_name :: text_opt
  taxrep_has_postal_address :: bool

record payment_means_group =
  pm_has_code :: bool
  pm_code_norm :: pystr
  pm_codes_raw :: "pystr list"
  pm_has_account_id :: bool
  pm_account_first_ids :: "text_opt list"

text \<open>\<open>is_charge\<close> is \<open>None\<close> without a usable \<open>ChargeIndicator\<close>.\<close>

record allowance_charge =
  is_charge :: "bool option"
  amount_raw :: text_opt
  base_amount_raw :: text_opt
  has_amount :: bool
  has_vat_category_id :: bool
  has_reason :: bool
  tax_categories :: "item_tax_category list"

datatype syntax_kind = UBL | CII

text \<open>A line; \<open>line_syntax\<close> tells \<open>CIILine\<close> from \<open>InvoiceLine\<close>, and only the former has
  \<open>has_line_billing_period\<close>.\<close>

record invoice_line =
  line_index :: nat
  line_id :: text_opt
  quantity :: text_opt
  has_quantity_unit_code :: bool
  line_extension_amount :: text_opt
  line_extension_amount_raw :: text_opt
  price_amount :: text_opt
  price_base_amounts :: "pystr list"
  periods :: "period list"
  item_name :: text_opt
  tax_category_ids :: "pystr list"
  item_tax_categories :: "item_tax_category list"
  line_allowance_charges :: "allowance_charge list"
  line_syntax :: syntax_kind
  has_line_billing_period :: bool

record tax_subtotal =
  st_tax_amount :: text_opt
  tax_amount_raw :: text_opt
  taxable_amount :: text_opt
  taxable_amount_raw :: text_opt
  category_id :: text_opt
  category_id_raw :: text_opt
  category_scheme_id :: text_opt
  percent :: text_opt
  has_exemption_reason :: bool
  has_exemption_reason_code :: bool

record tax_total =
  tt_tax_amount :: text_opt
  tax_amount_currency :: text_opt
  subtotals :: "tax_subtotal list"

text \<open>The class \<open>Invoice\<close>, in the groups in which its constructor lists the fields.\<close>

record invoice_header =
  root_is_ubl_invoice :: bool
  is_creditnote :: bool
  invoice_type_code_from_creditnote :: bool
  inv_syntax :: syntax_kind
  customization_id :: text_opt
  inv_id :: text_opt
  issue_date :: text_opt
  invoice_type_code :: text_opt
  document_currency_code :: text_opt
  tax_currency_code :: text_opt
  buyer_reference :: text_opt
  invoice_type_code_line :: "nat option"
  document_currency_code_line :: "nat option"
  tax_currency_code_line :: "nat option"

record invoice_codes = invoice_header +
  amount_currency_ids :: "pystr list"
  item_class_list_ids :: "pystr list"
  country_codes :: "pystr list"
  origin_country_codes :: "pystr list"
  vat_point_date_codes :: "pystr list"
  object_ref_scheme_codes :: "pystr list"
  note_subject_texts :: "pystr list"
  subject_codes :: "pystr list"
  taxcategory_id_codes :: "pystr list"
  classified_tax_category_codes :: "pystr list"
  tax_exemption_reason_codes :: "pystr list"
  tax_category_ids_raw :: "pystr list"
  classified_category_ids_raw :: "pystr list"
  doc_breakdown_category_ids_raw :: "pystr list"
  doc_ac_category_ids_raw :: "pystr list"
  all_country_codes_raw :: "pystr list"
  cii_header_trade_tax_code_rows :: "pystr list list"
  cii_line_trade_tax_code_rows :: "pystr list list"
  unit_codes :: "pystr list"
  payment_means_codes :: "pystr list"
  allowance_reason_codes :: "pystr list"
  charge_reason_codes :: "pystr list"
  item_std_id_scheme_ids :: "pystr list"
  party_id_scheme_ids :: "(pystr \<times> bool) list"
  party_legal_scheme_ids :: "pystr list"
  endpoint_scheme_ids :: "pystr list"
  delivery_location_scheme_ids :: "pystr list"
  mime_codes :: "pystr list"

record invoice_parties = invoice_codes +
  seller_name :: text_opt
  seller_has_postal_address :: bool
  seller_country_code :: text_opt
  seller_has_party_tax_scheme_company_id :: bool
  seller_has_vat_scheme_company_id :: bool
  taxrep_has_vat_company_id :: bool
  buyer_name :: text_opt
  buyer_has_postal_address :: bool
  buyer_country_code :: text_opt
  buyer_has_vat_scheme_company_id :: bool
  buyer_has_legal_entity_company_id :: bool
  seller_endpoints :: "bool list"
  buyer_endpoints :: "bool list"
  payee_parties :: "payee_party list"
  tax_representatives :: "tax_representative list"
  taxrep_postal_addresses :: "text_opt list"
  payment_means :: "payment_means_group list"
  card_pans :: "pystr list"
  billing_references :: "bool list"
  delivery_addresses :: "bool list"
  doc_delivery_actual_date_raw :: text_opt
  doc_delivery_country_code_raw :: text_opt
  doc_invoice_period_has_child :: bool
  cii_delivery_datetime_string_present :: bool
  cii_billing_period_start_present :: bool
  cii_billing_period_end_present :: bool
  cii_shipto_country_id_present :: bool

record invoice_refs = invoice_parties +
  supporting_doc_refs :: "pystr list"
  tax_currency_codes_raw :: "pystr list"
  taxtotal_amount_currencies :: "pystr list"
  cii_summation_taxtotal_currencies :: "pystr list list"
  cii_invoice_currency_codes_raw :: "pystr list"
  taxtotal_amounts_raw :: "(text_opt \<times> pystr) list"
  document_currency_codes_raw :: "pystr list"
  cii_summation_taxtotals :: "(text_opt \<times> pystr) list list"
  item_attributes :: "(bool \<times> bool) list"
  taxrep_vat_ids_ok :: "bool list"
  item_std_ids_scheme_ok :: "bool list"
  item_class_ids_scheme_ok :: "bool list"
  has_tax_point_date :: bool
  has_tax_point_date_code :: bool
  vat_id_prefixes :: "pystr list"
  invoice_period_filled :: "bool list"
  line_period_filled :: "bool list"
  seller_identification_ok :: "bool list"

record invoice = invoice_refs +
  line_extension_total :: text_opt
  tax_exclusive_amount :: text_opt
  tax_inclusive_amount :: text_opt
  payable_amount :: text_opt
  allowance_total :: text_opt
  charge_total :: text_opt
  prepaid_amount :: text_opt
  payable_rounding_amount :: text_opt
  has_legal_monetary_total :: bool
  lmt_raw :: "string \<rightharpoonup> text_opt"
  invoice_periods :: "period list"
  tax_totals :: "tax_total list"
  all_tax_subtotals :: "tax_subtotal list"
  inv_lines :: "invoice_line list"
  doc_allowance_charge_category_ids :: "pystr list"
  doc_allowance_charges :: "allowance_charge list"
  vat_category_codes :: "pystr list"
  cii_doc_currency_tax_total_values :: "text_opt list"

section \<open>Construction\<close>

text \<open>\<open>Invoice()\<close>: nothing present.\<close>

definition new_invoice :: invoice where
  "new_invoice = \<lparr>
     root_is_ubl_invoice = False, is_creditnote = False,
     invoice_type_code_from_creditnote = False, inv_syntax = UBL, customization_id = None,
     inv_id = None, issue_date = None, invoice_type_code = None, document_currency_code = None,
     tax_currency_code = None, buyer_reference = None, invoice_type_code_line = None,
     document_currency_code_line = None, tax_currency_code_line = None,
     amount_currency_ids = [], item_class_list_ids = [], country_codes = [],
     origin_country_codes = [], vat_point_date_codes = [], object_ref_scheme_codes = [],
     note_subject_texts = [], subject_codes = [], taxcategory_id_codes = [],
     classified_tax_category_codes = [], tax_exemption_reason_codes = [],
     tax_category_ids_raw = [], classified_category_ids_raw = [],
     doc_breakdown_category_ids_raw = [], doc_ac_category_ids_raw = [],
     all_country_codes_raw = [], cii_header_trade_tax_code_rows = [],
     cii_line_trade_tax_code_rows = [], unit_codes = [], payment_means_codes = [],
     allowance_reason_codes = [], charge_reason_codes = [], item_std_id_scheme_ids = [],
     party_id_scheme_ids = [], party_legal_scheme_ids = [], endpoint_scheme_ids = [],
     delivery_location_scheme_ids = [], mime_codes = [],
     seller_name = None, seller_has_postal_address = False, seller_country_code = None,
     seller_has_party_tax_scheme_company_id = False, seller_has_vat_scheme_company_id = False,
     taxrep_has_vat_company_id = False, buyer_name = None, buyer_has_postal_address = False,
     buyer_country_code = None, buyer_has_vat_scheme_company_id = False,
     buyer_has_legal_entity_company_id = False, seller_endpoints = [], buyer_endpoints = [],
     payee_parties = [], tax_representatives = [], taxrep_postal_addresses = [],
     payment_means = [], card_pans = [], billing_references = [], delivery_addresses = [],
     doc_delivery_actual_date_raw = None, doc_delivery_country_code_raw = None,
     doc_invoice_period_has_child = False, cii_delivery_datetime_string_present = False,
     cii_billing_period_start_present = False, cii_billing_period_end_present = False,
     cii_shipto_country_id_present = False,
     supporting_doc_refs = [], tax_currency_codes_raw = [], taxtotal_amount_currencies = [],
     cii_summation_taxtotal_currencies = [], cii_invoice_currency_codes_raw = [],
     taxtotal_amounts_raw = [], document_currency_codes_raw = [], cii_summation_taxtotals = [],
     item_attributes = [], taxrep_vat_ids_ok = [], item_std_ids_scheme_ok = [],
     item_class_ids_scheme_ok = [], has_tax_point_date = False, has_tax_point_date_code = False,
     vat_id_prefixes = [], invoice_period_filled = [], line_period_filled = [],
     seller_identification_ok = [],
     line_extension_total = None, tax_exclusive_amount = None, tax_inclusive_amount = None,
     payable_amount = None, allowance_total = None, charge_total = None, prepaid_amount = None,
     payable_rounding_amount = None, has_legal_monetary_total = False, lmt_raw = Map.empty,
     invoice_periods = [], tax_totals = [], all_tax_subtotals = [], inv_lines = [],
     doc_allowance_charge_category_ids = [], doc_allowance_charges = [], vat_category_codes = [],
     cii_doc_currency_tax_total_values = [] \<rparr>"

definition new_line :: "nat \<Rightarrow> invoice_line" where
  "new_line i = \<lparr> line_index = i, line_id = None, quantity = None,
     has_quantity_unit_code = False, line_extension_amount = None,
     line_extension_amount_raw = None, price_amount = None, price_base_amounts = [],
     periods = [], item_name = None, tax_category_ids = [], item_tax_categories = [],
     line_allowance_charges = [], line_syntax = UBL, has_line_billing_period = False \<rparr>"

definition new_subtotal :: tax_subtotal where
  "new_subtotal = \<lparr> st_tax_amount = None, tax_amount_raw = None, taxable_amount = None,
     taxable_amount_raw = None, category_id = None, category_id_raw = None,
     category_scheme_id = None, percent = None, has_exemption_reason = False,
     has_exemption_reason_code = False \<rparr>"

definition new_allowance_charge :: allowance_charge where
  "new_allowance_charge = \<lparr> is_charge = None, amount_raw = None, base_amount_raw = None,
     has_amount = False, has_vat_category_id = False, has_reason = False, tax_categories = [] \<rparr>"

section \<open>Methods\<close>

text \<open>\<open>_norm_space\<close>: trim and collapse runs of white space.\<close>

fun join_sp :: "pystr list \<Rightarrow> pystr" where
  "join_sp [] = []"
| "join_sp [w] = w"
| "join_sp (w # v # ws) = w @ 32 # join_sp (v # ws)"

definition norm_space :: "pystr \<Rightarrow> pystr" where
  "norm_space s = join_sp (py_split s)"

definition label :: "invoice_line \<Rightarrow> fmt" where
  "label il = [L (case line_syntax il of UBL \<Rightarrow> ''cac:InvoiceLine[''
       | CII \<Rightarrow> ''ram:IncludedSupplyChainTradeLineItem[''), I (line_index il), L '']''] @
     (if falsy (line_id il) then [] else [L '' id='', R (or_empty (line_id il))])"

definition VAT :: text_opt where "VAT = Some (ascii ''VAT'')"

definition all_category_ids :: "invoice \<Rightarrow> pystr list" where
  "all_category_ids iv =
     concat (map tax_category_ids (inv_lines iv)) @ doc_allowance_charge_category_ids iv"

definition breakdown_category_ids :: "invoice \<Rightarrow> pystr list" where
  "breakdown_category_ids iv =
     [c. tt \<leftarrow> tax_totals iv, st \<leftarrow> subtotals tt, Some c \<leftarrow> [category_id st]]"

definition breakdown_vat_category_codes :: "invoice \<Rightarrow> pystr list" where
  "breakdown_vat_category_codes iv =
     [norm_space (or_empty (category_id st)). tt \<leftarrow> tax_totals iv, st \<leftarrow> subtotals tt,
        category_scheme_id st = VAT \<and> \<not> falsy (category_id st)]"

definition all_allowance_charges :: "invoice \<Rightarrow> allowance_charge list" where
  "all_allowance_charges iv =
     doc_allowance_charges iv @ concat (map line_allowance_charges (inv_lines iv))"

text \<open>\<open>has_classified_category(code, scheme)\<close>; \<open>scheme=None\<close> takes any tax scheme.\<close>

definition has_classified_category :: "invoice \<Rightarrow> string \<Rightarrow> string option \<Rightarrow> bool" where
  "has_classified_category iv code scheme \<longleftrightarrow>
     (\<exists>il\<in>set (inv_lines iv). \<exists>cat\<in>set (item_tax_categories il).
        cat_id cat = Some (ascii code) \<and>
        (case scheme of None \<Rightarrow> True | Some s \<Rightarrow> cat_scheme_id cat = Some (ascii s)))"

definition seller_has_vat_identifier :: "invoice \<Rightarrow> bool" where
  "seller_has_vat_identifier iv \<longleftrightarrow>
     seller_has_party_tax_scheme_company_id iv \<or> taxrep_has_vat_company_id iv"

end
