(* ===== verification/EI_Rules_Core.thy ===== *)
theory EI_Rules_Core
  imports EI_Model
begin

text \<open>
  The existence, cardinality and period rules of \<open>einvoice/rules.py\<close> (\<open>br_01\<close> to
  \<open>br_30\<close>), with \<open>_date\<close>.  A rule is a function from the invoice to the finding it
  returns, or \<open>None\<close>.  The definitions follow the source line by line; what they mean is in
  the lemmas at the end.
\<close>

section \<open>Dates\<close>

text \<open>
  \<open>datetime.date.fromisoformat\<close>: the proleptic day number of the date.  Python up to 3.10
  takes \<open>YYYY-MM-DD\<close> only; from 3.11 on (\<open>py311\<close>) also the basic form and week dates, and
  trailing characters inside the accepted lengths are not looked at.  The package supports
  Python 3.8 and later, so the rules on dates have the interpreter as an argument.
\<close>

definition dig :: "nat \<Rightarrow> nat option" where
  "dig c = (if 48 \<le> c \<and> c \<le> 57 then Some (c - 48) else None)"

fun digs :: "pystr \<Rightarrow> nat option" where
  "digs [] = Some 0"
| "digs s = (case (digs (butlast s), dig (last s)) of
     (Some a, Some b) \<Rightarrow> Some (10 * a + b) | _ \<Rightarrow> None)"

definition leap :: "nat \<Rightarrow> bool" where
  "leap y \<longleftrightarrow> y mod 4 = 0 \<and> (y mod 100 \<noteq> 0 \<or> y mod 400 = 0)"

definition days_in_month :: "nat \<Rightarrow> nat \<Rightarrow> nat" where
  "days_in_month y m = (if m = 2 then (if leap y then 29 else 28)
     else if m \<in> {4, 6, 9, 11} then 30 else 31)"

definition days_before_year :: "nat \<Rightarrow> nat" where
  "days_before_year y = (let p = y - 1 in 365 * p + p div 4 - p div 100 + p div 400)"

definition ordinal :: "nat \<Rightarrow> nat \<Rightarrow> nat \<Rightarrow> nat" where
  "ordinal y m d = days_before_year y + sum_list (map (days_in_month y) [1..<m]) + d"

definition valid_date :: "nat \<Rightarrow> nat \<Rightarrow> nat \<Rightarrow> bool" where
  "valid_date y m d \<longleftrightarrow> 1 \<le> y \<and> 1 \<le> m \<and> m \<le> 12 \<and> 1 \<le> d \<and> d \<le> days_in_month y m"

definition ymd :: "pystr \<Rightarrow> pystr \<Rightarrow> pystr \<Rightarrow> nat option" where
  "ymd ys ms ds = (case (digs ys, digs ms, digs ds) of
     (Some y, Some m, Some d) \<Rightarrow> if valid_date y m d then Some (ordinal y m d) else None
   | _ \<Rightarrow> None)"

text \<open>Monday of the first ISO week, and the check of the number of weeks of a year.\<close>

definition week1_monday :: "nat \<Rightarrow> nat" where
  "week1_monday y = (let f = days_before_year y + 1; w = (f + 6) mod 7 in
     if 3 < w then f + 7 - w else f - w)"

definition week_ok :: "nat \<Rightarrow> nat \<Rightarrow> bool" where
  "week_ok y w \<longleftrightarrow> 1 \<le> w \<and> (w \<le> 52 \<or> (w = 53 \<and>
     (let f = (days_before_year y + 7) mod 7 in f = 3 \<or> (f = 2 \<and> leap y))))"

definition iso_week :: "pystr \<Rightarrow> pystr \<Rightarrow> nat \<Rightarrow> nat option" where
  "iso_week ys ws d = (case (digs ys, digs ws) of
     (Some y, Some w) \<Rightarrow>
       (let n = week1_monday y + 7 * (w - 1) + (d - 1) in
        if 1 \<le> y \<and> week_ok y w \<and> 1 \<le> d \<and> d \<le> 7 \<and> n \<le> 3652059 then Some n else None)
   | _ \<Rightarrow> None)"

text \<open>The accepted lengths are those of the UTF-8 encoding.\<close>

definition utf8_len :: "pystr \<Rightarrow> nat" where
  "utf8_len t = sum_list (map (\<lambda>c. if c < 128 then 1 else if c < 2048 then 2
     else if c < 65536 then 3 else 4) t)"

definition fromisoformat :: "bool \<Rightarrow> pystr \<Rightarrow> nat option" where
  "fromisoformat py311 t =
    (let sep = (length t > 4 \<and> t ! 4 = 45); r = drop (if sep then 5 else 4) t in
     if \<not> py311 then
       if utf8_len t = 10 \<and> sep \<and> t ! 7 = 45
       then ymd (take 4 t) (take 2 (drop 5 t)) (drop 8 t) else None
     else if utf8_len t \<notin> {7, 8, 10} then None
     else if r \<noteq> [] \<and> hd r = 87 then
       (let ws = take 2 (drop 1 r); rest = drop 3 r in
        if length ws < 2 then None
        else if rest = [] then iso_week (take 4 t) ws 1
        else if sep \<and> hd rest \<noteq> 45 then None
        else case (if sep then tl rest else rest) of [] \<Rightarrow> None
          | c # _ \<Rightarrow> (case dig c of None \<Rightarrow> None | Some d \<Rightarrow> iso_week (take 4 t) ws d))
     else (let ms = take 2 r; rest = drop 2 r;
               ds = (if sep then (if rest \<noteq> [] \<and> hd rest = 45 then take 2 (tl rest) else [])
                     else take 2 rest) in
       if length ms = 2 \<and> length ds = 2 then ymd (take 4 t) ms ds else None))"

text \<open>\<open>_date\<close>: strip, drop a time zone suffix, parse.\<close>

definition date_of_text :: "bool \<Rightarrow> pystr option \<Rightarrow> nat option" where
  "date_of_text py311 txt = (if falsy txt then None else
    (let t = py_strip (or_empty txt);
         t = (if t \<noteq> [] \<and> last t = 90 then butlast t
              else if length t > 10 \<and> (t ! 10 = 43 \<or> t ! 10 = 45) then take 10 t else t)
     in fromisoformat py311 t))"

section \<open>Document header\<close>

definition br_01 :: "invoice \<Rightarrow> violation option" where
  "br_01 iv =
     (if falsy (customization_id iv) then Some (Violation ''BR-01''
          [L ''An Invoice shall have a Specification identifier (BT-24).'']
          [L ''cbc:CustomizationID''])
      else None)"

definition br_02 :: "invoice \<Rightarrow> violation option" where
  "br_02 iv =
     (if falsy (inv_id iv) then Some (Violation ''BR-02''
          [L ''An Invoice shall have an Invoice number (BT-1).'']
          [L ''cbc:ID''])
      else None)"

definition br_03 :: "invoice \<Rightarrow> violation option" where
  "br_03 iv =
     (if falsy (issue_date iv) then Some (Violation ''BR-03''
          [L ''An Invoice shall have an Invoice issue date (BT-2).'']
          [L ''cbc:IssueDate''])
      else None)"

definition br_04 :: "invoice \<Rightarrow> violation option" where
  "br_04 iv =
     (if falsy (invoice_type_code iv) then Some (Violation ''BR-04''
         [L ''An Invoice shall have an Invoice type code (BT-3).'']
         (if is_creditnote iv then [L ''cbc:CreditNoteTypeCode''] else [L ''cbc:InvoiceTypeCode'']))
      else None)"

definition br_05 :: "invoice \<Rightarrow> violation option" where
  "br_05 iv =
     (if falsy (document_currency_code iv) then Some (Violation ''BR-05''
          [L ''An Invoice shall have an Invoice currency code (BT-5).'']
          [L ''cbc:DocumentCurrencyCode''])
      else None)"

definition br_06 :: "invoice \<Rightarrow> violation option" where
  "br_06 iv =
     (if falsy (seller_name iv) then Some (Violation ''BR-06''
          [L ''An Invoice shall contain the Seller name (BT-27).'']
          [L ''cac:AccountingSupplierParty/cac:Party/cac:PartyLegalEntity/'',
           L ''cbc:RegistrationName''])
      else None)"

definition br_07 :: "invoice \<Rightarrow> violation option" where
  "br_07 iv =
     (if falsy (buyer_name iv) then Some (Violation ''BR-07''
          [L ''An Invoice shall contain the Buyer name (BT-44).'']
          [L ''cac:AccountingCustomerParty/cac:Party/cac:PartyLegalEntity/'',
           L ''cbc:RegistrationName''])
      else None)"

definition br_08 :: "invoice \<Rightarrow> violation option" where
  "br_08 iv =
     (if \<not> (seller_has_postal_address iv) then Some (Violation ''BR-08''
          [L ''An Invoice shall contain the Seller postal address (BG-5).'']
          [L ''cac:AccountingSupplierParty/cac:Party/cac:PostalAddress''])
      else None)"

definition br_09 :: "invoice \<Rightarrow> violation option" where
  "br_09 iv =
     (let gate = if inv_syntax iv = CII then True else seller_has_postal_address iv in
      if gate \<and> falsy (seller_country_code iv) then Some (Violation ''BR-09''
          [L ''The Seller postal address (BG-5) shall contain a Seller country code '',
           L ''(BT-40).'']
          [L ''cac:AccountingSupplierParty/cac:Party/cac:PostalAddress/cac:Country/'',
           L ''cbc:IdentificationCode''])
      else None)"

definition br_10 :: "invoice \<Rightarrow> violation option" where
  "br_10 iv =
     (if \<not> (buyer_has_postal_address iv) then Some (Violation ''BR-10''
          [L ''An Invoice shall contain the Buyer postal address (BG-8).'']
          [L ''cac:AccountingCustomerParty/cac:Party/cac:PostalAddress''])
      else None)"

definition br_11 :: "invoice \<Rightarrow> violation option" where
  "br_11 iv =
     (let gate = if inv_syntax iv = CII then True else buyer_has_postal_address iv in
      if gate \<and> falsy (buyer_country_code iv) then Some (Violation ''BR-11''
          [L ''The Buyer postal address shall contain a Buyer country code (BT-55).'']
          [L ''cac:AccountingCustomerParty/cac:Party/cac:PostalAddress/cac:Country/'',
           L ''cbc:IdentificationCode''])
      else None)"

section \<open>Document totals and lines\<close>

definition br_12 :: "invoice \<Rightarrow> violation option" where
  "br_12 iv =
     (if has_legal_monetary_total iv \<and> line_extension_total iv = None
      then Some (Violation ''BR-12''
          [L ''An Invoice shall have the Sum of Invoice line net amount (BT-106).'']
          [L ''cac:LegalMonetaryTotal/cbc:LineExtensionAmount''])
      else None)"

definition br_13 :: "invoice \<Rightarrow> violation option" where
  "br_13 iv =
     (if has_legal_monetary_total iv \<and> tax_exclusive_amount iv = None
      then Some (Violation ''BR-13''
          [L ''An Invoice shall have the Invoice total amount without VAT (BT-109).'']
          [L ''cac:LegalMonetaryTotal/cbc:TaxExclusiveAmount''])
      else None)"

definition br_14 :: "invoice \<Rightarrow> violation option" where
  "br_14 iv =
     (if has_legal_monetary_total iv \<and> tax_inclusive_amount iv = None
      then Some (Violation ''BR-14''
          [L ''An Invoice shall have the Invoice total amount with VAT (BT-112).'']
          [L ''cac:LegalMonetaryTotal/cbc:TaxInclusiveAmount''])
      else None)"

definition br_15 :: "invoice \<Rightarrow> violation option" where
  "br_15 iv =
     (if has_legal_monetary_total iv \<and> payable_amount iv = None
      then Some (Violation ''BR-15''
          [L ''An Invoice shall have the Amount due for payment (BT-115).'']
          [L ''cac:LegalMonetaryTotal/cbc:PayableAmount''])
      else None)"

definition br_16 :: "invoice \<Rightarrow> violation option" where
  "br_16 iv =
     (if inv_lines iv = [] then Some (Violation ''BR-16''
          [L ''An Invoice shall have at least one Invoice line (BG-25).'']
          [L ''cac:InvoiceLine''])
      else None)"

definition br_21 :: "invoice \<Rightarrow> violation option" where
  "br_21 iv =
     first_some (\<lambda>il.
       if falsy (line_id il) then Some (Violation ''BR-21''
           [L ''Each Invoice line shall have an Invoice line identifier (BT-126).'']
           ((label il) @ [L ''/cbc:ID'']))
       else None)
       (inv_lines iv)"

definition br_22 :: "invoice \<Rightarrow> violation option" where
  "br_22 iv =
     first_some (\<lambda>il.
       if quantity il = None then Some (Violation ''BR-22''
           [L ''Each Invoice line shall have an Invoiced quantity (BT-129).'']
           ((label il) @ [L ''/cbc:InvoicedQuantity'']))
       else None)
       (inv_lines iv)"

definition br_24 :: "invoice \<Rightarrow> violation option" where
  "br_24 iv =
     first_some (\<lambda>il.
       if line_extension_amount il = None then Some (Violation ''BR-24''
           [L ''Each Invoice line shall have an Invoice line net amount (BT-131).'']
           ((label il) @ [L ''/cbc:LineExtensionAmount'']))
       else None)
       (inv_lines iv)"

definition br_25 :: "invoice \<Rightarrow> violation option" where
  "br_25 iv =
     first_some (\<lambda>il.
       if falsy (item_name il) then Some (Violation ''BR-25''
           [L ''Each Invoice line (BG-25) shall contain the Item name (BT-153).'']
           ((label il) @ [L ''/cac:Item/cbc:Name'']))
       else None)
       (inv_lines iv)"

definition br_26 :: "invoice \<Rightarrow> violation option" where
  "br_26 iv =
     first_some (\<lambda>il.
       if price_amount il = None then Some (Violation ''BR-26''
           [L ''Each Invoice line shall contain the Item net price (BT-146).'']
           ((label il) @ [L ''/cac:Price/cbc:PriceAmount'']))
       else None)
       (inv_lines iv)"

definition br_27 :: "invoice \<Rightarrow> violation option" where
  "br_27 iv =
     first_some (\<lambda>il.
       let price = dec_opt (price_amount il) in
       if price = None \<or> dec_less (the price) (Dec 0 0) then Some (Violation ''BR-27''
           [L ''The Item net price (BT-146='',
            S (if price_amount il \<noteq> None then or_empty (price_amount il) else ascii ''(absent)''),
            L '') shall NOT be negative.'']
           (label il @ [L ''/cac:Price/cbc:PriceAmount'']))
       else None)
       (inv_lines iv)"

text \<open>\<open>", ".join(xs)\<close>.\<close>

fun join_comma :: "pystr list \<Rightarrow> pystr" where
  "join_comma [] = []"
| "join_comma [s] = s"
| "join_comma (s # t # ss) = s @ ascii '', '' @ join_comma (t # ss)"

definition br_28 :: "invoice \<Rightarrow> violation option" where
  "br_28 iv =
     first_some (\<lambda>il.
       if price_base_amounts il = [] then None
       else let holds = (\<exists>raw\<in>set (price_base_amounts il).
              case dec_opt (Some raw) of None \<Rightarrow> False | Some v \<Rightarrow> \<not> dec_less v (Dec 0 0)) in
       if \<not> holds then Some (Violation ''BR-28''
           [L ''The Item gross price (BT-148='', S (join_comma (price_base_amounts il)),
            L '') shall NOT be negative.'']
           (label il @ [L ''/cac:Price/cac:AllowanceCharge/cbc:BaseAmount'']))
       else None)
       (inv_lines iv)"

definition period_end_before_start :: "bool \<Rightarrow> period \<Rightarrow> bool" where
  "period_end_before_start py311 p \<longleftrightarrow>
     (if period_start p = None \<or> period_end p = None then False
      else case (date_of_text py311 (period_start p), date_of_text py311 (period_end p)) of
        (Some s, Some e) \<Rightarrow> e < s | _ \<Rightarrow> True)"

definition br_29 :: "bool \<Rightarrow> invoice \<Rightarrow> violation option" where
  "br_29 py311 iv =
     first_some (\<lambda>period.
       if period_end_before_start py311 period then Some (Violation ''BR-29''
           [L ''The Invoicing period end date (BT-74='', S (or_empty (period_end period)),
            L '') shall be later or equal to the Invoicing period start date (BT-73='',
            S (or_empty (period_start period)), L '').'']
           [L ''cac:InvoicePeriod/cbc:EndDate''])
       else None)
       (invoice_periods iv)"

definition br_30 :: "bool \<Rightarrow> invoice \<Rightarrow> violation option" where
  "br_30 py311 iv =
     first_some (\<lambda>il.
       first_some (\<lambda>period.
         if period_end_before_start py311 period then Some (Violation ''BR-30''
             [L ''The Invoice line period end date (BT-135='', S (or_empty (period_end period)),
              L '') shall be later or equal to the Invoice line period start date (BT-134='',
              S (or_empty (period_start period)), L '').'']
             ((label il) @ [L ''/cac:InvoicePeriod/cbc:EndDate'']))
         else None)
         (periods il))
       (inv_lines iv)"

lemmas core_rule_defs [rule_defs] =
    br_01_def br_02_def br_03_def br_04_def br_05_def br_06_def br_07_def br_08_def br_09_def
    br_10_def br_11_def br_12_def br_13_def br_14_def br_15_def br_16_def br_21_def br_22_def
    br_24_def br_25_def br_26_def br_27_def br_28_def br_29_def br_30_def

end
