(* ===== verification/EI_Rules_Codes.thy ===== *)
theory EI_Rules_Codes
  imports EI_Model EI_Codelists
begin

text \<open>
  The code-list rules of \<open>einvoice/rules.py\<close> (\<open>br_cl_01\<close> to \<open>br_cl_26\<close>) over the
  pinned lists of \<open>codelists.py\<close>, with the membership test \<open>_bad_code\<close> and the
  \<open>#CODE#\<close> grammar of UBL notes.
\<close>

definition UNTDID_1001_INVOICE :: "pystr set" where
  "UNTDID_1001_INVOICE = set (map ascii [
     ''71'', ''80'', ''81'', ''82'', ''84'', ''102'', ''130'', ''202'', ''203'', ''204'',
     ''211'', ''218'', ''219'', ''295'', ''325'', ''326'', ''331'', ''380'', ''382'',
     ''383'', ''384'', ''385'', ''386'', ''387'', ''388'', ''389'', ''390'', ''393'',
     ''394'', ''395'', ''396'', ''420'', ''456'', ''457'', ''458'', ''527'', ''532'',
     ''553'', ''575'', ''623'', ''633'', ''751'', ''780'', ''817'', ''870'', ''875'',
     ''876'', ''877'', ''935''])"

definition UNTDID_1001_CREDITNOTE :: "pystr set" where
  "UNTDID_1001_CREDITNOTE = set (map ascii [
     ''81'', ''83'', ''261'', ''262'', ''296'', ''308'', ''381'', ''396'', ''420'', ''458'',
     ''502'', ''503'', ''532''])"

definition UNTDID_1001_CII :: "pystr set" where
  "UNTDID_1001_CII = set (map ascii [
     ''71'', ''80'', ''81'', ''82'', ''83'', ''84'', ''102'', ''130'', ''202'', ''203'',
     ''204'', ''211'', ''218'', ''219'', ''261'', ''262'', ''295'', ''296'', ''308'',
     ''325'', ''326'', ''331'', ''380'', ''381'', ''382'', ''383'', ''384'', ''385'',
     ''386'', ''387'', ''388'', ''389'', ''390'', ''393'', ''394'', ''395'', ''396'',
     ''420'', ''456'', ''457'', ''458'', ''471'', ''472'', ''473'', ''500'', ''501'',
     ''502'', ''503'', ''527'', ''532'', ''553'', ''575'', ''623'', ''633'', ''751'',
     ''780'', ''817'', ''870'', ''875'', ''876'', ''877'', ''935''])"

definition br_cl_01 :: "invoice \<Rightarrow> violation option" where
  "br_cl_01 iv =
     (let code = invoice_type_code iv;
          (allowed, element) =
            (if inv_syntax iv = CII then (UNTDID_1001_CII, ''ram:TypeCode'')
             else if invoice_type_code_from_creditnote iv
             then (UNTDID_1001_CREDITNOTE, ''cbc:CreditNoteTypeCode'')
             else (UNTDID_1001_INVOICE, ''cbc:InvoiceTypeCode''))
      in if \<not> falsy code \<and> the code \<notin> allowed
         then Some (at_line (invoice_type_code_line iv) (Violation ''BR-CL-01''
           [L ''The document type code (BT-3) MUST be coded according to UNTDID 1001; '',
            R (or_empty code), L '' is not a listed code.'']
           [L element]))
         else None)"

definition bad_code :: "pystr \<Rightarrow> pystr set \<Rightarrow> bool" where
  "bad_code v allowed \<longleftrightarrow> 32 \<in> set v \<or> v \<notin> allowed"

definition br_cl_03 :: "invoice \<Rightarrow> violation option" where
  "br_cl_03 iv =
     first_some (\<lambda>cur.
       if bad_code cur CURRENCY_CODES then Some (Violation ''BR-CL-03''
           [L ''currencyID MUST be coded using ISO 4217 alpha-3; '', R cur,
            L '' is not a listed currency code.'']
           [L ''@currencyID''])
       else None)
       (amount_currency_ids iv)"

definition br_cl_04 :: "invoice \<Rightarrow> violation option" where
  "br_cl_04 iv =
     (let code = document_currency_code iv in
      if code \<noteq> None \<and> bad_code (the code) CURRENCY_CODES
      then Some (at_line (document_currency_code_line iv) (Violation ''BR-CL-04''
          [L ''Invoice currency code (BT-5) MUST be coded using ISO 4217 alpha-3; '',
           R (or_empty (code)), L '' is not a listed currency code.'']
          [L ''cbc:DocumentCurrencyCode'']))
      else None)"

definition br_cl_05 :: "invoice \<Rightarrow> violation option" where
  "br_cl_05 iv =
     (let code = tax_currency_code iv in
      if code \<noteq> None \<and> bad_code (the code) CURRENCY_CODES
      then Some (at_line (tax_currency_code_line iv) (Violation ''BR-CL-05''
          [L ''Tax currency code (BT-6) MUST be coded using ISO 4217 alpha-3; '',
           R (or_empty (code)), L '' is not a listed currency code.'']
          [L ''cbc:TaxCurrencyCode'']))
      else None)"

definition br_cl_06 :: "invoice \<Rightarrow> violation option" where
  "br_cl_06 iv =
     (let allowed = if inv_syntax iv = CII then CII_VAT_POINT_CODES else UBL_VAT_POINT_CODES in
      let register = if inv_syntax iv = CII then ascii ''2475'' else ascii ''2005'' in
      first_some (\<lambda>code.
        if bad_code code allowed then Some (Violation ''BR-CL-06''
            [L ''Value added tax point date code (BT-8) MUST be coded using a restriction of '',
             L ''UNTDID '', S register, L ''; '', R code, L '' is not a listed code.'']
            [L ''cac:InvoicePeriod/cbc:DescriptionCode''])
        else None)
        (vat_point_date_codes iv))"

definition br_cl_13 :: "invoice \<Rightarrow> violation option" where
  "br_cl_13 iv =
     first_some (\<lambda>list_id.
       if bad_code list_id ITEM_CLASS_LIST_CODES then Some (Violation ''BR-CL-13''
           [L ''Item classification identifier scheme identifier MUST be coded using one of '',
            L ''the UNTDID 7143 list; '', R list_id, L '' is not listed.'']
           [L ''cbc:ItemClassificationCode/@listID''])
       else None)
       (item_class_list_ids iv)"

definition br_cl_14 :: "invoice \<Rightarrow> violation option" where
  "br_cl_14 iv =
     (let allowed = if inv_syntax iv = CII then CII_COUNTRY_CODES else UBL_COUNTRY_CODES in
      first_some (\<lambda>code.
        if bad_code code allowed then Some (Violation ''BR-CL-14''
            [L ''Country codes in an invoice MUST be coded using ISO 3166-1; '', R code,
             L '' is not a listed country code.'']
            [L ''cac:Country/cbc:IdentificationCode''])
        else None)
        (country_codes iv))"

definition br_cl_15 :: "invoice \<Rightarrow> violation option" where
  "br_cl_15 iv =
     (let allowed = if inv_syntax iv = CII then CII_COUNTRY_CODES else UBL_COUNTRY_CODES in
      first_some (\<lambda>code.
        if bad_code code allowed then Some (Violation ''BR-CL-15''
            [L ''Item origin country codes MUST be coded using ISO 3166-1; '', R code,
             L '' is not a listed country code.'']
            [L ''cac:OriginCountry/cbc:IdentificationCode''])
        else None)
        (origin_country_codes iv))"

definition br_cl_07 :: "invoice \<Rightarrow> violation option" where
  "br_cl_07 iv =
     first_some (\<lambda>code.
       if bad_code code UNTDID_1153_CODES then Some (Violation ''BR-CL-07''
           [L ''Object identifier identification scheme identifier MUST be coded using a '',
            L ''restriction of UNTDID 1153; '', R code, L '' is not a listed code.'']
           (if inv_syntax iv = CII then [L ''ram:ReferenceTypeCode'']
            else [L ''cac:AdditionalDocumentReference/cbc:ID/@schemeID'']))
       else None)
       (object_ref_scheme_codes iv)"

text \<open>The text between the first two \<open>#\<close> of a note, when there are two.\<close>

definition note_token :: "pystr \<Rightarrow> pystr option" where
  "note_token note = (case snd (split1 35 note) of None \<Rightarrow> None
     | Some after \<Rightarrow> if 35 \<notin> set after then None else Some (fst (split1 35 after)))"

definition ubl_note_subject_fires :: "pystr \<Rightarrow> bool" where
  "ubl_note_subject_fires note \<longleftrightarrow> (case note_token note of None \<Rightarrow> False
     | Some token \<Rightarrow> if length token \<noteq> 3 then False
         else \<not> substring_of token (ascii UBL_NOTE_SUBJECT_PADDED))"

definition br_cl_08 :: "invoice \<Rightarrow> violation option" where
  "br_cl_08 iv =
     (if inv_syntax iv = CII then
        first_some (\<lambda>code.
          if bad_code code CII_NOTE_SUBJECT_CODES then Some (Violation ''BR-CL-08''
              [L ''Invoice note subject code MUST be coded using a restriction of UNTDID 4451; '',
               R code, L '' is not a listed code.'']
              [L ''ram:SubjectCode''])
          else None)
          (subject_codes iv)
      else
        first_some (\<lambda>note.
          if ubl_note_subject_fires note then Some (Violation ''BR-CL-08''
              [L ''Invoice note subject code MUST be coded using UNCL 4451; the '#'-delimited '',
               L ''subject token '', R (or_empty (note_token note)),
               L '' is not a listed code.'']
              [L ''cbc:Note''])
          else None)
          (note_subject_texts iv))"

definition br_cl_17 :: "invoice \<Rightarrow> violation option" where
  "br_cl_17 iv =
     first_some (\<lambda>code.
       if bad_code code VAT_CATEGORY_CODES then Some (Violation ''BR-CL-17''
           [L ''Invoice tax categories MUST be coded using the UNCL 5305 code list; '', R code,
            L '' is not a listed VAT category code.'']
           [L ''cac:TaxCategory/cbc:ID''])
       else None)
       (taxcategory_id_codes iv)"

definition br_cl_18 :: "invoice \<Rightarrow> violation option" where
  "br_cl_18 iv =
     first_some (\<lambda>code.
       if bad_code code VAT_CATEGORY_CODES then Some (Violation ''BR-CL-18''
           [L ''Invoice tax categories MUST be coded using the UNCL 5305 code list; '', R code,
            L '' is not a listed VAT category code.'']
           [L ''cac:ClassifiedTaxCategory/cbc:ID''])
       else None)
       (classified_tax_category_codes iv)"

definition br_cl_22 :: "invoice \<Rightarrow> violation option" where
  "br_cl_22 iv =
     first_some (\<lambda>code.
       if bad_code code VATEX_CODES then Some (Violation ''BR-CL-22''
           [L ''The VAT exemption reason code MUST belong to the CEF VATEX code list; '', R code,
            L '' is not a listed VATEX code.'']
           [L ''cbc:TaxExemptionReasonCode''])
       else None)
       (tax_exemption_reason_codes iv)"

definition br_cl_23 :: "invoice \<Rightarrow> violation option" where
  "br_cl_23 iv =
     first_some (\<lambda>code.
       if bad_code code UNIT_CODES then Some (Violation ''BR-CL-23''
           [L ''Unit code MUST be coded according to the UN/ECE Recommendation 20 with Rec '',
            L ''21 extension; '', R code, L '' is not a listed unit code.'']
           [L ''cbc:InvoicedQuantity/@unitCode''])
       else None)
       (unit_codes iv)"

definition br_cl_16 :: "invoice \<Rightarrow> violation option" where
  "br_cl_16 iv =
     first_some (\<lambda>code.
       if bad_code code PAYMENT_MEANS_CODES then Some (Violation ''BR-CL-16''
           [L ''Payment means in an invoice MUST be coded using the UNCL 4461 code list; '',
            R code, L '' is not a listed payment-means code.'']
           [L ''cbc:PaymentMeansCode''])
       else None)
       (payment_means_codes iv)"

definition br_cl_19 :: "invoice \<Rightarrow> violation option" where
  "br_cl_19 iv =
     first_some (\<lambda>code.
       if bad_code code ALLOWANCE_REASON_CODES then Some (Violation ''BR-CL-19''
           [L ''Coded allowance reasons MUST belong to the UNCL 5189 code list; '', R code,
            L '' is not a listed allowance reason code.'']
           [L ''cbc:AllowanceChargeReasonCode''])
       else None)
       (allowance_reason_codes iv)"

definition br_cl_20 :: "invoice \<Rightarrow> violation option" where
  "br_cl_20 iv =
     first_some (\<lambda>code.
       if bad_code code CHARGE_REASON_CODES then Some (Violation ''BR-CL-20''
           [L ''Coded charge reasons MUST belong to the UNCL 7161 code list; '', R code,
            L '' is not a listed charge reason code.'']
           [L ''cbc:AllowanceChargeReasonCode''])
       else None)
       (charge_reason_codes iv)"

definition br_cl_10 :: "invoice \<Rightarrow> violation option" where
  "br_cl_10 iv =
     first_some (\<lambda>(scheme, sepa_ok).
       if \<not> (bad_code scheme ITEM_SCHEME_ID_CODES) then None
       else if sepa_ok \<and> scheme = ascii ''SEPA'' then None
       else Some (Violation ''BR-CL-10''
         [L ''Any identifier identification scheme identifier MUST be coded using one of '',
          L ''the ISO 6523 ICD list; '', R scheme,
          L '' is not a listed ICD (and is not 'SEPA' under a supplier/payee party).'']
         [L ''cac:PartyIdentification/cbc:ID/@schemeID'']))
       (party_id_scheme_ids iv)"

definition br_cl_11 :: "invoice \<Rightarrow> violation option" where
  "br_cl_11 iv =
     first_some (\<lambda>scheme.
       if bad_code scheme ITEM_SCHEME_ID_CODES then Some (Violation ''BR-CL-11''
           [L ''Any registration identifier identification scheme identifier MUST be coded '',
            L ''using one of the ISO 6523 ICD list; '', R scheme, L '' is not a listed ICD.'']
           [L ''cac:PartyLegalEntity/cbc:CompanyID/@schemeID''])
       else None)
       (party_legal_scheme_ids iv)"

definition br_cl_25 :: "invoice \<Rightarrow> violation option" where
  "br_cl_25 iv =
     first_some (\<lambda>scheme.
       if bad_code scheme ENDPOINT_EAS_CODES then Some (Violation ''BR-CL-25''
           [L ''Endpoint identifier scheme identifier MUST belong to the CEF EAS code list; '',
            R scheme, L '' is not a listed EAS scheme.'']
           [L ''cbc:EndpointID/@schemeID''])
       else None)
       (endpoint_scheme_ids iv)"

definition br_cl_26 :: "invoice \<Rightarrow> violation option" where
  "br_cl_26 iv =
     first_some (\<lambda>scheme.
       if bad_code scheme ITEM_SCHEME_ID_CODES then Some (Violation ''BR-CL-26''
           [L ''Delivery location identifier scheme identifier MUST belong to the ISO 6523 '',
            L ''ICD code list; '', R scheme, L '' is not a listed ICD.'']
           [L ''cac:DeliveryLocation/cbc:ID/@schemeID''])
       else None)
       (delivery_location_scheme_ids iv)"

definition br_cl_21 :: "invoice \<Rightarrow> violation option" where
  "br_cl_21 iv =
     first_some (\<lambda>scheme.
       if bad_code scheme ITEM_SCHEME_ID_CODES then Some (Violation ''BR-CL-21''
           [L ''Item standard identifier scheme identifier MUST belong to the ISO 6523 ICD '',
            L ''code list; '', R scheme, L '' is not a listed ICD.'']
           [L ''cac:StandardItemIdentification/cbc:ID/@schemeID''])
       else None)
       (item_std_id_scheme_ids iv)"

definition br_cl_24 :: "invoice \<Rightarrow> violation option" where
  "br_cl_24 iv =
     first_some (\<lambda>code.
       if code \<notin> MIME_CODES then Some (Violation ''BR-CL-24''
           [L ''For a MIME code in an attribute use the MIMEMediaType subset; '', R code,
            L '' is not a listed MIME type.'']
           [L ''cbc:EmbeddedDocumentBinaryObject/@mimeCode''])
       else None)
       (mime_codes iv)"

lemmas codes_rule_defs [rule_defs] =
    br_cl_01_def br_cl_03_def br_cl_04_def br_cl_05_def br_cl_06_def br_cl_13_def br_cl_14_def
    br_cl_15_def br_cl_07_def br_cl_08_def br_cl_17_def br_cl_18_def br_cl_22_def br_cl_23_def
    br_cl_16_def br_cl_19_def br_cl_20_def br_cl_10_def br_cl_11_def br_cl_25_def br_cl_26_def
    br_cl_21_def br_cl_24_def

end
