(* ===== verification/EI_Rules_Sums.thy ===== *)
theory EI_Rules_Sums
  imports EI_Model
begin

text \<open>
  The arithmetic rules of \<open>einvoice/rules.py\<close> (\<open>br_co_04\<close> to \<open>br_co_18\<close>) and the
  rules on the VAT breakdown (\<open>br_45\<close> to \<open>br_48\<close>).  A rule that computes with decimals
  returns the exception the decimal context raises, or its finding; nothing in the rules
  catches such an exception.
\<close>

section \<open>Sums\<close>

text \<open>\<open>total = Decimal("0"); for x in xs: v = _dec(x); if v is not None: total += v\<close>.\<close>

fun dec_sum :: "decimal \<Rightarrow> pystr option list \<Rightarrow> dec_exc + decimal" where
  "dec_sum acc [] = Inr acc"
| "dec_sum acc (x # xs) = (case dec_opt x of None \<Rightarrow> dec_sum acc xs
     | Some v \<Rightarrow> bindE (dec_add acc v) (\<lambda>t. dec_sum t xs))"

abbreviation zero :: decimal where "zero \<equiv> Dec 0 0"

text \<open>A decimal argument of a message, \<open>"(absent)"\<close> standing for \<open>None\<close>.\<close>

definition D_arg :: "decimal \<Rightarrow> frag" where
  "D_arg d = D (coeff d) (expo d)"

definition absent :: "pystr option \<Rightarrow> frag" where
  "absent x = (if falsy x then L ''(absent)'' else S (or_empty x))"

section \<open>Calculation rules\<close>

definition br_co_04 :: "invoice \<Rightarrow> violation option" where
  "br_co_04 iv =
     first_some (\<lambda>il.
       let has_vat_code = (\<exists>cat\<in>set (item_tax_categories il). cat_scheme_id cat = VAT \<and> cat_id cat \<noteq> None) in
       if \<not> has_vat_code then Some (Violation ''BR-CO-04''
           [L ''Each Invoice line (BG-25) shall be categorized with an Invoiced item VAT '',
            L ''category code (BT-151).'']
           ((label il) @ [L ''/cac:Item/cac:ClassifiedTaxCategory/cbc:ID'']))
       else None)
       (inv_lines iv)"

definition br_co_10 :: "invoice \<Rightarrow> dec_exc + violation option" where
  "br_co_10 iv =
     (if \<not> has_legal_monetary_total iv then Inr None
      else bindE (dec_sum zero (map line_extension_amount (inv_lines iv))) (\<lambda>total.
        let report = (\<lambda>stated_arg. bindE (q_cent total) (\<lambda>qt. Inr (Some (Violation ''BR-CO-10''
              [L ''Sum of Invoice line net amounts (BT-106='', stated_arg,
               L '') must equal the sum of line net amounts ('', U 931, L '' BT-131='', D_arg qt,
               L '').'']
              [L ''cac:LegalMonetaryTotal/cbc:LineExtensionAmount'']))))
        in case dec_opt (line_extension_total iv) of
          None \<Rightarrow> report (L ''(absent)'')
        | Some stated \<Rightarrow> bindE (q_cent stated) (\<lambda>qs. bindE (q_cent total) (\<lambda>qt.
            if \<not> dec_eq qs qt then report (D_arg qs) else Inr None))))"

definition doc_ac_amount_sum :: "invoice \<Rightarrow> bool \<Rightarrow> dec_exc + decimal" where
  "doc_ac_amount_sum iv charge =
     dec_sum zero (map amount_raw (filter (\<lambda>ac. is_charge ac = Some charge) (doc_allowance_charges iv)))"

definition has_doc_ac :: "invoice \<Rightarrow> bool \<Rightarrow> bool" where
  "has_doc_ac iv charge \<longleftrightarrow> (\<exists>ac\<in>set (doc_allowance_charges iv). is_charge ac = Some charge)"

definition br_co_11 :: "invoice \<Rightarrow> dec_exc + violation option" where
  "br_co_11 iv =
     (if \<not> has_legal_monetary_total iv then Inr None
      else let stated = dec_opt (allowance_total iv) in
        if stated = None \<and> \<not> has_doc_ac iv False then Inr None
        else bindE (bindE (doc_ac_amount_sum iv False) xr2) (\<lambda>expected.
          if stated \<noteq> None \<and> dec_eq (the stated) expected then Inr None
          else Inr (Some (Violation ''BR-CO-11''
            [L ''Sum of allowances on document level (BT-107='',
             (case stated of None \<Rightarrow> L ''(absent)'' | Some s \<Rightarrow> D_arg s),
             L '') must equal the sum of Document level allowance amounts ('', U 931,
             L '' BT-92='', D_arg expected, L '').'']
            [L ''cac:LegalMonetaryTotal/cbc:AllowanceTotalAmount'']))))"

definition br_co_12 :: "invoice \<Rightarrow> dec_exc + violation option" where
  "br_co_12 iv =
     (if \<not> has_legal_monetary_total iv then Inr None
      else let stated = dec_opt (charge_total iv) in
        if stated = None \<and> \<not> has_doc_ac iv True then Inr None
        else bindE (bindE (doc_ac_amount_sum iv True) xr2) (\<lambda>expected.
          if stated \<noteq> None \<and> dec_eq (the stated) expected then Inr None
          else Inr (Some (Violation ''BR-CO-12''
            [L ''Sum of charges on document level (BT-108='',
             (case stated of None \<Rightarrow> L ''(absent)'' | Some s \<Rightarrow> D_arg s),
             L '') must equal the sum of Document level charge amounts ('', U 931,
             L '' BT-99='', D_arg expected, L '').'']
            [L ''cac:LegalMonetaryTotal/cbc:ChargeTotalAmount'']))))"

text \<open>\<open>_dec(x) or Decimal("0")\<close>.\<close>

definition dec_or_zero :: "pystr option \<Rightarrow> decimal" where
  "dec_or_zero x = (case dec_opt x of None \<Rightarrow> zero | Some v \<Rightarrow> if coeff v = 0 then zero else v)"

text \<open>\<open>"(absent)" if x is None else _q(x)\<close>.\<close>

definition q_arg :: "decimal option \<Rightarrow> dec_exc + frag" where
  "q_arg x = (case x of None \<Rightarrow> Inr (L ''(absent)'') | Some v \<Rightarrow> bindE (q_cent v) (\<lambda>r. Inr (D_arg r)))"

definition br_co_13 :: "invoice \<Rightarrow> dec_exc + violation option" where
  "br_co_13 iv =
     (if \<not> has_legal_monetary_total iv then Inr None
      else let allowance = dec_or_zero (allowance_total iv); charge = dec_or_zero (charge_total iv) in
        case (dec_opt (tax_exclusive_amount iv), dec_opt (line_extension_total iv)) of
          (Some tax_excl, Some line_total) \<Rightarrow>
            bindE (dec_sub line_total allowance) (\<lambda>d. bindE (dec_add d charge) (\<lambda>expected.
            bindE (q_cent tax_excl) (\<lambda>qx. bindE (q_cent expected) (\<lambda>qe.
              if dec_eq qx qe then Inr None
              else bindE (q_cent line_total) (\<lambda>ql. bindE (q_cent allowance) (\<lambda>qa.
                bindE (q_cent charge) (\<lambda>qc. Inr (Some (Violation ''BR-CO-13''
                  [L ''Invoice total without VAT (BT-109='', D_arg qx, L '') must equal '', U 931,
                   L '' line net (BT-106='', D_arg ql, L '') '', U 8722,
                   L '' allowances (BT-107='', D_arg qa, L '') + charges (BT-108='', D_arg qc,
                   L '') = '', D_arg qe, L ''.'']
                  [L ''cac:LegalMonetaryTotal/cbc:TaxExclusiveAmount''])))))))))
        | (tax_excl, line_total) \<Rightarrow>
            bindE (q_arg tax_excl) (\<lambda>a1. bindE (q_arg line_total) (\<lambda>a2.
              Inr (Some (Violation ''BR-CO-13''
                [L ''Invoice total without VAT (BT-109='', a1, L '') must equal '', U 931,
                 L '' line net (BT-106='', a2, L '') '', U 8722,
                 L '' allowances + charges; a required operand is absent.'']
                [L ''cac:LegalMonetaryTotal/cbc:TaxExclusiveAmount''])))))"

definition br_co_14_cii :: "invoice \<Rightarrow> dec_exc + violation option" where
  "br_co_14_cii iv =
     (let totals = cii_doc_currency_tax_total_values iv in
      if totals = [] then Inr None
      else bindE (bindE (dec_sum zero (map st_tax_amount (all_tax_subtotals iv))) xr2) (\<lambda>expected.
        first_someE (\<lambda>raw.
          let stated = dec_opt raw in
          if stated \<noteq> None \<and> dec_eq (the stated) expected then Inr None
          else bindE (q_arg stated) (\<lambda>a. Inr (Some (Violation ''BR-CO-14''
            [L ''Invoice total VAT amount (BT-110='', a,
             L '') must equal the sum of VAT category tax amounts ('', U 931, L '' BT-117='',
             D_arg expected, L '').'']
            [L ''ram:SpecifiedTradeSettlementHeaderMonetarySummation/ram:TaxTotalAmount'']))))
          totals))"

definition br_co_14_ubl :: "tax_total \<Rightarrow> dec_exc + violation option" where
  "br_co_14_ubl tt =
     (if subtotals tt = [] then Inr None
      else bindE (dec_sum zero (map st_tax_amount (subtotals tt))) (\<lambda>subtotal_sum.
        let report = (\<lambda>a. bindE (q_cent subtotal_sum) (\<lambda>qs. Inr (Some (Violation ''BR-CO-14''
              [L ''Invoice total VAT amount (BT-110='', a,
               L '') must equal the sum of VAT category tax amounts ('', U 931, L '' BT-117='',
               D_arg qs, L '').'']
              [L ''cac:TaxTotal/cbc:TaxAmount'']))))
        in case dec_opt (tt_tax_amount tt) of
          None \<Rightarrow> report (L ''(absent)'')
        | Some stated \<Rightarrow> bindE (q_cent stated) (\<lambda>qt. bindE (q_cent subtotal_sum) (\<lambda>qs.
            if \<not> dec_eq qt qs then report (D_arg qt) else Inr None))))"

definition br_co_14 :: "invoice \<Rightarrow> dec_exc + violation option" where
  "br_co_14 iv = (if inv_syntax iv = CII then br_co_14_cii iv
     else first_someE br_co_14_ubl (tax_totals iv))"

definition br_co_15_violation :: "fmt \<Rightarrow> fmt \<Rightarrow> dec_exc + violation option" where
  "br_co_15_violation detail element = Inr (Some (Violation ''BR-CO-15''
     ([L ''Invoice total with VAT must reconcile: ''] @ detail) element))"

definition br_co_15_cii :: "pystr \<Rightarrow> invoice \<Rightarrow> dec_exc + violation option" where
  "br_co_15_cii cur iv =
     (let grand = dec_opt (tax_inclusive_amount iv); basis = dec_opt (tax_exclusive_amount iv);
          matching = cii_doc_currency_tax_total_values iv;
          element = [L ''ram:SpecifiedTradeSettlementHeaderMonetarySummation/'',
                     L ''ram:GrandTotalAmount'']
      in if grand \<noteq> None \<and> basis \<noteq> None \<and> dec_eq (the grand) (the basis) then Inr None
         else if length matching = 1 then
           (let tax = dec_opt (hd matching);
                report = br_co_15_violation
                  [L ''Invoice total with VAT (BT-112='', absent (tax_inclusive_amount iv),
                   L '') must equal total without VAT (BT-109='', absent (tax_exclusive_amount iv),
                   L '') + total VAT (BT-110='', absent (hd matching), L '').''] element
            in if grand \<noteq> None \<and> basis \<noteq> None \<and> tax \<noteq> None then
                 bindE (bindE (dec_add (the basis) (the tax)) xr2) (\<lambda>expected.
                   if dec_eq (the grand) expected then Inr None else report)
               else report)
         else br_co_15_violation
           [L ''exactly one VAT total (BT-110) in the document currency '', R cur,
            L '' is required (or BT-112 = BT-109); found '', I (length matching), L ''.''] element)"

definition br_co_15_ubl :: "pystr \<Rightarrow> invoice \<Rightarrow> dec_exc + violation option" where
  "br_co_15_ubl cur iv =
     (let matching = map (\<lambda>tt. dec_opt (tt_tax_amount tt))
            (filter (\<lambda>tt. tax_amount_currency tt = Some cur) (tax_totals iv));
          element = [L ''cac:LegalMonetaryTotal/cbc:TaxInclusiveAmount'']
      in if length matching \<noteq> 1 then br_co_15_violation
           [L ''exactly one VAT total (BT-110) in the document currency '', R cur,
            L '' is required; found '', I (length matching), L ''.''] element
         else case (dec_opt (tax_inclusive_amount iv), dec_opt (tax_exclusive_amount iv), hd matching) of
           (Some tax_incl, Some tax_excl, Some tax_amount) \<Rightarrow>
             bindE (q_cent tax_incl) (\<lambda>qi. bindE (dec_add tax_excl tax_amount) (\<lambda>sum.
             bindE (q_cent sum) (\<lambda>qs.
               if dec_eq qi qs then Inr None
               else bindE (q_cent tax_excl) (\<lambda>qx. bindE (q_cent tax_amount) (\<lambda>qt.
                 br_co_15_violation
                   [L ''Invoice total with VAT (BT-112='', D_arg qi,
                    L '') must equal total without VAT (BT-109='', D_arg qx,
                    L '') + total VAT (BT-110='', D_arg qt, L '') = '', D_arg qs, L ''.'']
                   element)))))
         | _ \<Rightarrow> br_co_15_violation
             [L ''a required monetary operand (BT-112/BT-109/BT-110) is absent.''] element)"

definition br_co_15 :: "invoice \<Rightarrow> dec_exc + violation option" where
  "br_co_15 iv =
     (let cur = document_currency_code iv in
      if falsy cur then Inr None
      else if inv_syntax iv = CII then br_co_15_cii (the cur) iv
      else br_co_15_ubl (the cur) iv)"

definition br_co_16_holds :: "invoice \<Rightarrow> dec_exc + bool" where
  "br_co_16_holds iv =
     (case (dec_opt (payable_amount iv), dec_opt (tax_inclusive_amount iv)) of
        (Some payable, Some tax_incl) \<Rightarrow>
          (let prepaid = dec_opt (prepaid_amount iv);
               rounding = dec_opt (payable_rounding_amount iv);
               left = (\<lambda>r. bindE (dec_sub payable r) xr2);
               right = (\<lambda>p. bindE (dec_sub tax_incl p) xr2)
           in if prepaid_amount iv = None \<and> payable_rounding_amount iv = None
              then Inr (dec_eq payable tax_incl)
              else if prepaid_amount iv \<noteq> None \<and> payable_rounding_amount iv = None
              then (case prepaid of None \<Rightarrow> Inr False
                | Some p \<Rightarrow> bindE (right p) (\<lambda>b. Inr (dec_eq payable b)))
              else if prepaid_amount iv = None
              then (case rounding of None \<Rightarrow> Inr False
                | Some r \<Rightarrow> bindE (left r) (\<lambda>a. Inr (dec_eq a tax_incl)))
              else (case (prepaid, rounding) of
                  (Some p, Some r) \<Rightarrow>
                    bindE (left r) (\<lambda>a. bindE (right p) (\<lambda>b. Inr (dec_eq a b)))
                | _ \<Rightarrow> Inr False))
      | _ \<Rightarrow> Inr False)"

definition br_co_16 :: "invoice \<Rightarrow> dec_exc + violation option" where
  "br_co_16 iv =
     (if \<not> has_legal_monetary_total iv then Inr None
      else bindE (br_co_16_holds iv) (\<lambda>holds.
        if holds then Inr None
        else Inr (Some (Violation ''BR-CO-16''
          [L ''Amount due for payment (BT-115='', absent (payable_amount iv),
           L '') must equal Invoice total with VAT (BT-112='', absent (tax_inclusive_amount iv),
           L '') - paid amount (BT-113='',
           (case prepaid_amount iv of None \<Rightarrow> L ''(absent)'' | Some s \<Rightarrow> S s),
           L '') + rounding amount (BT-114='',
           (case payable_rounding_amount iv of None \<Rightarrow> L ''(absent)'' | Some s \<Rightarrow> S s),
           L '').'']
          [L ''cac:LegalMonetaryTotal/cbc:PayableAmount'']))))"

text \<open>\<open>abs(tax) - 1 < expected and abs(tax) + 1 > expected\<close> for the rounded product of the
  taxable amount and the rate.\<close>

definition tax_in_band :: "decimal \<Rightarrow> decimal \<Rightarrow> decimal \<Rightarrow> dec_exc + bool" where
  "tax_in_band pct tax taxable =
     bindE (dec_abs taxable) (\<lambda>base. bindE (dec_div100 pct) (\<lambda>rate.
     bindE (bindE (dec_mul base rate) xr2) (\<lambda>expected.
     bindE (dec_abs tax) (\<lambda>t. bindE (dec_sub t (dec_of_int 1)) (\<lambda>lo.
       if \<not> dec_less lo expected then Inr False
       else bindE (dec_add t (dec_of_int 1)) (\<lambda>hi. Inr (dec_less expected hi)))))))"

text \<open>\<open>_fn_round(v) == 0\<close>.\<close>

definition rounds_to_zero :: "decimal \<Rightarrow> dec_exc + bool" where
  "rounds_to_zero v = bindE (fn_round v) (\<lambda>r. Inr (dec_eq r zero))"

definition br_co_17_holds :: "tax_subtotal \<Rightarrow> dec_exc + bool" where
  "br_co_17_holds st =
     (let pct = (if category_scheme_id st = VAT then dec_opt (percent st) else None);
          tax = dec_opt (st_tax_amount st); taxable = dec_opt (taxable_amount st);
          tax_zero = (case tax of None \<Rightarrow> Inr False | Some t \<Rightarrow> rounds_to_zero t)
      in case pct of
           None \<Rightarrow> tax_zero
         | Some p \<Rightarrow> bindE (rounds_to_zero p) (\<lambda>pz.
             if pz then tax_zero
             else case (tax, taxable) of
               (Some t, Some x) \<Rightarrow> tax_in_band p t x
             | _ \<Rightarrow> Inr False))"

definition br_co_17 :: "invoice \<Rightarrow> dec_exc + violation option" where
  "br_co_17 iv =
     first_someE (\<lambda>st. bindE (br_co_17_holds st) (\<lambda>holds.
       if holds then Inr None
       else Inr (Some (Violation ''BR-CO-17''
         [L ''VAT category tax amount (BT-117='', absent (st_tax_amount st),
          L '') must equal VAT category taxable amount (BT-116='', absent (taxable_amount st),
          L '') x (VAT rate (BT-119='',
          (if category_scheme_id st = VAT \<and> dec_opt (percent st) \<noteq> None
           then S (or_empty (percent st)) else L ''(absent)''),
          L '') / 100), rounded to two decimals.'']
         [L ''cac:TaxTotal/cac:TaxSubtotal/cbc:TaxAmount'']))))
       (all_tax_subtotals iv)"

definition br_co_18 :: "invoice \<Rightarrow> violation option" where
  "br_co_18 iv =
     (if \<exists>tt\<in>set (tax_totals iv). subtotals tt \<noteq> [] then None
      else Some (Violation ''BR-CO-18''
        [L ''An Invoice shall at least have one VAT breakdown group (BG-23).'']
        [L ''cac:TaxTotal/cac:TaxSubtotal'']))"

section \<open>VAT breakdown\<close>

definition br_45 :: "invoice \<Rightarrow> violation option" where
  "br_45 iv =
     first_some (\<lambda>st.
       if taxable_amount_raw st = None then Some (Violation ''BR-45''
           [L ''Each VAT breakdown (BG-23) shall have a VAT category taxable amount '',
            L ''(BT-116).'']
           [L ''cac:TaxTotal/cac:TaxSubtotal/cbc:TaxableAmount''])
       else None)
       (all_tax_subtotals iv)"

definition br_46 :: "invoice \<Rightarrow> violation option" where
  "br_46 iv =
     first_some (\<lambda>st.
       if tax_amount_raw st = None then Some (Violation ''BR-46''
           [L ''Each VAT breakdown (BG-23) shall have a VAT category tax amount (BT-117).'']
           [L ''cac:TaxTotal/cac:TaxSubtotal/cbc:TaxAmount''])
       else None)
       (all_tax_subtotals iv)"

definition br_47 :: "invoice \<Rightarrow> violation option" where
  "br_47 iv =
     first_some (\<lambda>st.
       if \<not> (category_scheme_id st = VAT \<and> category_id st \<noteq> None)
       then Some (Violation ''BR-47''
           [L ''Each VAT breakdown (BG-23) shall be defined through a VAT category code '',
            L ''(BT-118).'']
           [L ''cac:TaxTotal/cac:TaxSubtotal/cac:TaxCategory/cbc:ID''])
       else None)
       (all_tax_subtotals iv)"

definition br_48 :: "invoice \<Rightarrow> violation option" where
  "br_48 iv =
     first_some (\<lambda>st.
       let vat = category_scheme_id st = VAT in
       let holds = vat \<and> (percent st \<noteq> None \<or> category_id st = Some (ascii ''O'')) in
       if \<not> holds then Some (Violation ''BR-48''
           [L ''Each VAT breakdown (BG-23) shall have a VAT category rate (BT-119), except '',
            L ''if the Invoice is not subject to VAT.'']
           [L ''cac:TaxTotal/cac:TaxSubtotal/cac:TaxCategory/cbc:Percent''])
       else None)
       (all_tax_subtotals iv)"

lemmas sums_rule_defs [rule_defs] =
    br_co_04_def br_co_10_def br_co_11_def br_co_12_def br_co_13_def br_co_14_cii_def
    br_co_14_ubl_def br_co_14_def br_co_15_violation_def br_co_15_cii_def br_co_15_ubl_def
    br_co_15_def br_co_16_def br_co_17_def br_co_18_def br_45_def br_46_def br_47_def br_48_def

end
