(* ===== verification/EI_Rules_Vat.thy ===== *)
theory EI_Rules_Vat
  imports EI_Rules_Sums
begin

text \<open>
  The VAT category rules of \<open>einvoice/rules.py\<close>: standard rated (S), zero rated (Z),
  exempt (E), reverse charge (AE), intra-community supply (K), export (G), not subject to VAT
  (O), IGIC (L), IPSI (M) and split payment (B), with the helpers the families share.
\<close>

section \<open>Shared helpers\<close>

definition percent_gt_zero :: "pystr option \<Rightarrow> bool" where
  "percent_gt_zero p \<longleftrightarrow> (case dec_opt p of None \<Rightarrow> False | Some v \<Rightarrow> dec_less zero v)"

definition percent_eq_zero :: "pystr option \<Rightarrow> bool" where
  "percent_eq_zero p \<longleftrightarrow> (case dec_opt p of None \<Rightarrow> False | Some v \<Rightarrow> dec_eq v zero)"

definition percent_ge_zero :: "pystr option \<Rightarrow> bool" where
  "percent_ge_zero p \<longleftrightarrow> (case dec_opt p of None \<Rightarrow> False | Some v \<Rightarrow> \<not> dec_less v zero)"

text \<open>A VAT category of the given code.\<close>

definition vat_cat :: "string \<Rightarrow> item_tax_category \<Rightarrow> bool" where
  "vat_cat code cat \<longleftrightarrow> cat_id cat = Some (ascii code) \<and> cat_scheme_id cat = VAT"

definition ac_has_vat_category :: "invoice \<Rightarrow> bool \<Rightarrow> string \<Rightarrow> bool" where
  "ac_has_vat_category iv charge code \<longleftrightarrow>
     (\<exists>ac\<in>set (all_allowance_charges iv). is_charge ac = Some charge \<and>
        (\<exists>cat\<in>set (tax_categories ac). vat_cat code cat))"

definition ac_has_standard_rated :: "invoice \<Rightarrow> bool \<Rightarrow> bool" where
  "ac_has_standard_rated iv charge = ac_has_vat_category iv charge ''S''"

definition SELLER_ID_ELEMENT :: fmt where
  "SELLER_ID_ELEMENT =
     [L ''cac:AccountingSupplierParty/cac:Party/cac:PartyTaxScheme/cbc:CompanyID'']"

definition seller_id_message :: "string \<Rightarrow> string \<Rightarrow> fmt" where
  "seller_id_message lab subject =
     [L ''An Invoice with a '', L lab, L '' '', L subject,
      L '' shall contain the Seller VAT Identifier (BT-31), the Seller tax registration '',
      L ''identifier (BT-32) and/or the Seller tax representative VAT identifier (BT-63).'']"

definition line_seller_id_fires :: "invoice \<Rightarrow> string \<Rightarrow> bool" where
  "line_seller_id_fires iv code \<longleftrightarrow>
     has_classified_category iv code (Some ''VAT'') \<and> \<not> seller_has_vat_identifier iv"

definition ac_seller_id_fires :: "invoice \<Rightarrow> string \<Rightarrow> bool \<Rightarrow> bool" where
  "ac_seller_id_fires iv code charge \<longleftrightarrow>
     ac_has_vat_category iv charge code \<and> \<not> seller_has_vat_identifier iv"

definition line_rate_nonzero :: "invoice \<Rightarrow> string \<Rightarrow> invoice_line option" where
  "line_rate_nonzero iv code =
     find (\<lambda>il. \<exists>cat\<in>set (item_tax_categories il).
       vat_cat code cat \<and> \<not> percent_eq_zero (cat_percent cat)) (inv_lines iv)"

definition ac_rate_nonzero :: "invoice \<Rightarrow> string \<Rightarrow> bool \<Rightarrow> bool" where
  "ac_rate_nonzero iv code charge \<longleftrightarrow>
     (\<exists>ac\<in>set (all_allowance_charges iv). is_charge ac = Some charge \<and>
        (\<exists>cat\<in>set (tax_categories ac). vat_cat code cat \<and> \<not> percent_eq_zero (cat_percent cat)))"

text \<open>A VAT breakdown row of the given code, and the sums over the lines, the document level
  charges and the document level allowances whose categories satisfy \<open>P\<close>.\<close>

definition vat_row :: "string \<Rightarrow> tax_subtotal \<Rightarrow> bool" where
  "vat_row code st \<longleftrightarrow> category_id st = Some (ascii code) \<and> category_scheme_id st = VAT"

definition line_sum :: "(item_tax_category list \<Rightarrow> bool) \<Rightarrow> invoice \<Rightarrow> dec_exc + decimal" where
  "line_sum P iv = dec_sum zero (map line_extension_amount
     (filter (\<lambda>il. P (item_tax_categories il)) (inv_lines iv)))"

definition ac_sum :: "(item_tax_category list \<Rightarrow> bool) \<Rightarrow> bool \<Rightarrow> invoice \<Rightarrow> dec_exc + decimal" where
  "ac_sum P charge iv = dec_sum zero (map amount_raw
     (filter (\<lambda>ac. is_charge ac = Some charge \<and> P (tax_categories ac)) (doc_allowance_charges iv)))"

text \<open>\<open>line_sum + charge_sum - allowance_sum\<close>, and the same with each sum rounded.\<close>

definition plus_minus :: "decimal \<Rightarrow> decimal \<Rightarrow> decimal \<Rightarrow> dec_exc + decimal" where
  "plus_minus a b c = bindE (dec_add a b) (\<lambda>s. dec_sub s c)"

definition plus_minus_rounded :: "decimal \<Rightarrow> decimal \<Rightarrow> decimal \<Rightarrow> dec_exc + decimal" where
  "plus_minus_rounded a b c =
     bindE (xr2 a) (\<lambda>x. bindE (xr2 b) (\<lambda>y. bindE (dec_add x y) (\<lambda>s.
     bindE (xr2 c) (\<lambda>z. dec_sub s z))))"

text \<open>\<open>taxable - 1 < expected and taxable + 1 > expected\<close>.\<close>

definition in_band :: "decimal \<Rightarrow> decimal \<Rightarrow> dec_exc + bool" where
  "in_band taxable expected =
     bindE (dec_sub taxable (dec_of_int 1)) (\<lambda>lo.
       if \<not> dec_less lo expected then Inr False
       else bindE (dec_add taxable (dec_of_int 1)) (\<lambda>hi. Inr (dec_less expected hi)))"

definition breakdown_taxable_sum_mismatch ::
    "invoice \<Rightarrow> string \<Rightarrow> bool \<Rightarrow> dec_exc + (tax_subtotal \<times> decimal) option" where
  "breakdown_taxable_sum_mismatch iv code cii_band =
     first_someE (\<lambda>tt. first_someE (\<lambda>st.
       if \<not> vat_row code st then Inr None
       else
         let P = (\<lambda>cats. \<exists>cat\<in>set cats. cat_id cat = Some (ascii code));
             taxable = dec_opt (taxable_amount st)
         in bindE (line_sum P iv) (\<lambda>ls. bindE (ac_sum P True iv) (\<lambda>cs. bindE (ac_sum P False iv) (\<lambda>as.
           if inv_syntax iv = CII then
             bindE (plus_minus_rounded ls cs as) (\<lambda>expected.
               if cii_band then
                 bindE (case taxable of None \<Rightarrow> Inr False | Some t \<Rightarrow> in_band t expected) (\<lambda>ok.
                   Inr (if ok then None else Some (st, expected)))
               else Inr (if taxable = None \<or> \<not> dec_eq (the taxable) expected
                         then Some (st, expected) else None))
           else
             bindE (plus_minus ls cs as) (\<lambda>expected.
               Inr (if inv_lines iv = [] \<or> taxable = None \<or> \<not> dec_eq (the taxable) expected
                    then Some (st, expected) else None))))))
       (subtotals tt)) (tax_totals iv)"

definition taxable_sum_message :: "string \<Rightarrow> tax_subtotal \<Rightarrow> decimal \<Rightarrow> fmt" where
  "taxable_sum_message lab st expected =
     [L ''In a VAT breakdown (BG-23) where the VAT category code (BT-118) is '', U 39, L lab, U 39,
      L '' the VAT category taxable amount (BT-116='', absent (taxable_amount st),
      L '') shall equal the sum of Invoice line net amounts minus allowances plus charges '',
      L ''with a '', U 39, L lab, U 39, L '' VAT category code (= '', D_arg expected, L '').'']"

definition breakdown_tax_nonzero :: "invoice \<Rightarrow> string \<Rightarrow> tax_subtotal option" where
  "breakdown_tax_nonzero iv code =
     first_some (\<lambda>tt. find (\<lambda>st. vat_row code st \<and>
       (case dec_opt (st_tax_amount st) of None \<Rightarrow> True | Some tax \<Rightarrow> \<not> dec_eq tax zero))
       (subtotals tt)) (tax_totals iv)"

definition tax_zero_message :: "string \<Rightarrow> tax_subtotal \<Rightarrow> fmt" where
  "tax_zero_message lab st =
     [L ''The VAT category tax amount (BT-117='', absent (st_tax_amount st),
      L '') in a VAT breakdown (BG-23) where the VAT category code (BT-118) is '', U 39, L lab, U 39,
      L '' shall equal 0 (zero).'']"

definition ae_buyer_id_present :: "invoice \<Rightarrow> bool" where
  "ae_buyer_id_present iv \<longleftrightarrow>
     buyer_has_vat_scheme_company_id iv \<or> buyer_has_legal_entity_company_id iv"

definition ic_seller_id_present :: "invoice \<Rightarrow> bool" where
  "ic_seller_id_present iv \<longleftrightarrow>
     seller_has_vat_scheme_company_id iv \<or> taxrep_has_vat_company_id iv"

definition o_party_vat_id_present :: "invoice \<Rightarrow> bool" where
  "o_party_vat_id_present iv \<longleftrightarrow> seller_has_vat_scheme_company_id iv \<or>
     taxrep_has_vat_company_id iv \<or> buyer_has_vat_scheme_company_id iv"

definition ae_party_id_message :: "string \<Rightarrow> fmt" where
  "ae_party_id_message subject =
     [L ''An Invoice with a Reverse charge (AE) '', L subject,
      L '' shall contain the Seller VAT Identifier (BT-31), the Seller tax registration '',
      L ''identifier (BT-32) and/or the Seller tax representative VAT identifier (BT-63) AND '',
      L ''the Buyer VAT identifier (BT-48) and/or the Buyer legal registration identifier '',
      L ''(BT-47).'']"

definition ic_party_id_message :: "string \<Rightarrow> fmt" where
  "ic_party_id_message subject =
     [L ''An Invoice with an Intra-community supply (K) '', L subject,
      L '' shall contain the Seller VAT Identifier (BT-31) or the Seller tax representative '',
      L ''VAT identifier (BT-63) AND the Buyer VAT identifier (BT-48).'']"

definition g_seller_id_message :: "string \<Rightarrow> fmt" where
  "g_seller_id_message subject =
     [L ''An Invoice with an Export outside the EU (G) '', L subject,
      L '' shall contain the Seller VAT Identifier (BT-31) or the Seller tax representative '',
      L ''VAT identifier (BT-63).'']"

definition o_party_id_message :: "string \<Rightarrow> fmt" where
  "o_party_id_message subject =
     [L ''An Invoice with a 'Not subject to VAT' (O) '', L subject,
      L '' shall not contain the Seller VAT identifier (BT-31), the Seller tax '',
      L ''representative VAT identifier (BT-63) or the Buyer VAT identifier (BT-48).'']"

definition line_rate_present :: "invoice \<Rightarrow> string \<Rightarrow> invoice_line option" where
  "line_rate_present iv code =
     find (\<lambda>il. \<exists>cat\<in>set (item_tax_categories il). vat_cat code cat \<and> cat_percent cat \<noteq> None)
       (inv_lines iv)"

definition ac_rate_present :: "invoice \<Rightarrow> string \<Rightarrow> bool \<Rightarrow> bool" where
  "ac_rate_present iv code charge \<longleftrightarrow>
     (\<exists>ac\<in>set (all_allowance_charges iv). is_charge ac = Some charge \<and>
        (\<exists>cat\<in>set (tax_categories ac). vat_cat code cat \<and> cat_percent cat \<noteq> None))"

definition cii_o_header_vat_row_exists :: "invoice \<Rightarrow> bool" where
  "cii_o_header_vat_row_exists iv \<longleftrightarrow>
     (\<exists>tt\<in>set (tax_totals iv). \<exists>st\<in>set (subtotals tt). vat_row ''O'' st)"

definition line_has_other_vat_category :: "invoice \<Rightarrow> string \<Rightarrow> bool" where
  "line_has_other_vat_category iv exclude \<longleftrightarrow>
     (\<exists>il\<in>set (inv_lines iv). \<exists>cat\<in>set (item_tax_categories il).
        cat_scheme_id cat = VAT \<and> cat_id cat \<noteq> Some (ascii exclude))"

definition ac_has_other_vat_category :: "invoice \<Rightarrow> bool \<Rightarrow> string \<Rightarrow> bool" where
  "ac_has_other_vat_category iv charge exclude \<longleftrightarrow>
     (\<exists>ac\<in>set (all_allowance_charges iv). is_charge ac = Some charge \<and>
        (\<exists>cat\<in>set (tax_categories ac). cat_scheme_id cat = VAT \<and> cat_id cat \<noteq> Some (ascii exclude)))"

definition af_rate_holds :: "invoice \<Rightarrow> pystr option \<Rightarrow> bool" where
  "af_rate_holds iv p = (if inv_syntax iv = CII then percent_gt_zero p else percent_ge_zero p)"

definition split_payment_item_present :: "invoice \<Rightarrow> bool" where
  "split_payment_item_present iv \<longleftrightarrow>
     ascii ''B'' \<in> set (tax_category_ids_raw iv) \<or> ascii ''B'' \<in> set (classified_category_ids_raw iv)"

definition vat_exactly_one_breakdown :: "invoice \<Rightarrow> string \<Rightarrow> bool" where
  "vat_exactly_one_breakdown iv code \<longleftrightarrow>
     (if ascii code \<notin> set (vat_category_codes iv) then True
      else count_list (breakdown_vat_category_codes iv) (ascii code) = 1)"

text \<open>The number of raw CII header rows with the code.\<close>

definition cii_header_rows :: "invoice \<Rightarrow> string \<Rightarrow> nat" where
  "cii_header_rows iv code =
     length (filter (\<lambda>row. ascii code \<in> set row) (cii_header_trade_tax_code_rows iv))"

definition cii_vat_exactly_one_breakdown :: "invoice \<Rightarrow> string \<Rightarrow> bool" where
  "cii_vat_exactly_one_breakdown iv code \<longleftrightarrow>
     (let hdr = cii_header_rows iv code;
          line_any = (\<exists>row\<in>set (cii_line_trade_tax_code_rows iv). ascii code \<in> set row);
          cat_any = (ascii code \<in> set (tax_category_ids_raw iv))
      in hdr = 0 \<and> \<not> line_any \<and> \<not> cat_any \<or> hdr = 1 \<and> (line_any \<or> cat_any))"

definition cii_o_exactly_one_breakdown :: "invoice \<Rightarrow> bool" where
  "cii_o_exactly_one_breakdown iv \<longleftrightarrow>
     (let hdr = cii_header_rows iv ''O'' in
      if hdr = 0 then True
      else let line_any = (\<exists>row\<in>set (cii_line_trade_tax_code_rows iv). ascii ''O'' \<in> set row);
               cat_any = (ascii ''O'' \<in> set (tax_category_ids_raw iv))
           in hdr = 1 \<and> (line_any \<or> cat_any))"

section \<open>Standard rated\<close>

definition br_s_01 :: "invoice \<Rightarrow> violation option" where
  "br_s_01 iv =
     (if inv_syntax iv = CII then
        (let hdr_s = cii_header_rows iv ''S'';
             line_s = length (filter (\<lambda>row. ascii ''S'' \<in> set row) (cii_line_trade_tax_code_rows iv));
             cat_s = count_list (tax_category_ids_raw iv) (ascii ''S'')
         in if (line_s + hdr_s \<ge> 2 \<or> line_s = 0) \<and> (cat_s + hdr_s \<ge> 2 \<or> cat_s = 0) then None
            else Some (Violation ''BR-S-01''
              [L ''A Standard rated (S) item/allowance/charge is present, so the VAT breakdown '',
               L ''(BG-23) must contain a Standard rated VAT category.'']
              [L ''ram:ApplicableHeaderTradeSettlement/ram:ApplicableTradeTax/ram:CategoryCode'']))
      else
        let item_has_s = (ascii ''S'' \<in> set (all_category_ids iv));
            breakdown_has_s = (ascii ''S'' \<in> set (breakdown_category_ids iv))
        in if item_has_s \<noteq> breakdown_has_s then Some (Violation ''BR-S-01''
             (if item_has_s then
                [L ''A Standard rated (S) item/allowance/charge is present, so the VAT breakdown '',
                 L ''(BG-23) must contain a Standard rated VAT category.'']
              else
                [L ''The VAT breakdown (BG-23) contains a Standard rated (S) VAT category, but no '',
                 L ''Standard rated item/allowance/charge is present.''])
             [L ''cac:TaxTotal/cac:TaxSubtotal/cac:TaxCategory/cbc:ID''])
           else None)"

definition br_s_02 :: "invoice \<Rightarrow> violation option" where
  "br_s_02 iv =
     (if \<not> (has_classified_category iv ''S'' None) then None
      else if has_classified_category iv ''S'' (Some ''VAT'') \<and> seller_has_vat_identifier iv
      then None
      else Some (Violation ''BR-S-02''
        [L ''An Invoice with a Standard rated (S) Invoice line (BT-151) shall contain '',
         L ''the Seller VAT Identifier (BT-31), the Seller tax registration identifier '',
         L ''(BT-32) and/or the Seller tax representative VAT identifier (BT-63).'']
        [L ''cac:AccountingSupplierParty/cac:Party/cac:PartyTaxScheme/cbc:CompanyID'']))"

definition br_s_03 :: "invoice \<Rightarrow> violation option" where
  "br_s_03 iv =
     (if ac_has_standard_rated iv False \<and> \<not> (seller_has_vat_identifier iv)
      then Some (Violation ''BR-S-03''
          [L ''An Invoice with a Standard rated (S) Document level allowance (BT-95) shall '',
           L ''contain the Seller VAT Identifier (BT-31), the Seller tax registration '',
           L ''identifier (BT-32) and/or the Seller tax representative VAT identifier '',
           L ''(BT-63).'']
          [L ''cac:AllowanceCharge/cac:TaxCategory/cbc:ID''])
      else None)"

definition br_s_04 :: "invoice \<Rightarrow> violation option" where
  "br_s_04 iv =
     (if ac_has_standard_rated iv True \<and> \<not> (seller_has_vat_identifier iv)
      then Some (Violation ''BR-S-04''
          [L ''An Invoice with a Standard rated (S) Document level charge (BT-102) shall '',
           L ''contain the Seller VAT Identifier (BT-31), the Seller tax registration '',
           L ''identifier (BT-32) and/or the Seller tax representative VAT identifier '',
           L ''(BT-63).'']
          [L ''cac:AllowanceCharge/cac:TaxCategory/cbc:ID''])
      else None)"

definition br_s_05 :: "invoice \<Rightarrow> violation option" where
  "br_s_05 iv =
     first_some (\<lambda>il.
       first_some (\<lambda>cat.
         if cat_id cat = Some (ascii ''S'') \<and> cat_scheme_id cat = VAT \<and> \<not> (percent_gt_zero (cat_percent cat))
         then Some (Violation ''BR-S-05''
             [L ''In an Invoice line (BG-25) where the Invoiced item VAT category code '',
              L ''(BT-151) is 'Standard rated' the Invoiced item VAT rate (BT-152) shall be '',
              L ''greater than zero.'']
             ((label il) @ [L ''/cac:Item/cac:ClassifiedTaxCategory/cbc:Percent'']))
         else None)
         (item_tax_categories il))
       (inv_lines iv)"

definition br_s_06 :: "invoice \<Rightarrow> violation option" where
  "br_s_06 iv =
     first_some (\<lambda>ac.
       if is_charge ac = Some False then first_some (\<lambda>cat.
           if cat_id cat = Some (ascii ''S'') \<and> cat_scheme_id cat = VAT \<and> \<not> (percent_gt_zero (cat_percent cat))
           then Some (Violation ''BR-S-06''
               [L ''In a Document level allowance (BG-20) where the Document level allowance '',
                L ''VAT category code (BT-95) is 'Standard rated' the Document level allowance '',
                L ''VAT rate (BT-96) shall be greater than zero.'']
               [L ''cac:AllowanceCharge/cac:TaxCategory/cbc:Percent''])
           else None)
           (tax_categories ac)
       else None)
       (all_allowance_charges iv)"

definition br_s_07 :: "invoice \<Rightarrow> violation option" where
  "br_s_07 iv =
     first_some (\<lambda>ac.
       if is_charge ac = Some True then first_some (\<lambda>cat.
           if cat_id cat = Some (ascii ''S'') \<and> cat_scheme_id cat = VAT \<and> \<not> (percent_gt_zero (cat_percent cat))
           then Some (Violation ''BR-S-07''
               [L ''In a Document level charge (BG-21) where the Document level charge VAT '',
                L ''category code (BT-102) is 'Standard rated' the Document level charge VAT '',
                L ''rate (BT-103) shall be greater than zero.'']
               [L ''cac:AllowanceCharge/cac:TaxCategory/cbc:Percent''])
           else None)
           (tax_categories ac)
       else None)
       (all_allowance_charges iv)"

text \<open>The body of \<open>br_s_09\<close>, \<open>br_af_09\<close> and \<open>br_ag_09\<close> at a category code.\<close>

definition tax_band_rule :: "string \<Rightarrow> string \<Rightarrow> fmt \<Rightarrow> invoice \<Rightarrow> dec_exc + violation option" where
  "tax_band_rule rid code name iv =
     first_someE (\<lambda>tt. first_someE (\<lambda>st.
       if \<not> vat_row code st then Inr None
       else bindE (case (dec_opt (percent st), dec_opt (st_tax_amount st), dec_opt (taxable_amount st)) of
              (Some pct, Some tax, Some taxable) \<Rightarrow> tax_in_band pct tax taxable
            | _ \<Rightarrow> Inr False) (\<lambda>holds.
         if holds then Inr None
         else Inr (Some (Violation rid
           ([L ''The VAT category tax amount (BT-117='', absent (st_tax_amount st), L '') in ''] @ name @
            [L '' VAT breakdown must equal the VAT category taxable amount (BT-116='',
             absent (taxable_amount st), L '') x (VAT rate (BT-119='',
             (case percent st of None \<Rightarrow> L ''(absent)'' | Some p \<Rightarrow> S p), L '') / 100).''])
           [L ''cac:TaxTotal/cac:TaxSubtotal/cbc:TaxAmount'']))))
       (subtotals tt)) (tax_totals iv)"

definition br_s_09 :: "invoice \<Rightarrow> dec_exc + violation option" where
  "br_s_09 = tax_band_rule ''BR-S-09'' ''S'' [L ''a Standard rated (S)'']"

text \<open>The rows of a rate: some category has the code and some category has the rate.\<close>

definition has_code_and_rate :: "string \<Rightarrow> decimal \<Rightarrow> item_tax_category list \<Rightarrow> bool" where
  "has_code_and_rate code rate cats \<longleftrightarrow>
     (\<exists>cat\<in>set cats. cat_id cat = Some (ascii code)) \<and>
     (\<exists>cat\<in>set cats. case dec_opt (cat_percent cat) of None \<Rightarrow> False | Some p \<Rightarrow> dec_eq p rate)"

definition rate_sum_violation :: "string \<Rightarrow> string \<Rightarrow> string \<Rightarrow> tax_subtotal \<Rightarrow> violation" where
  "rate_sum_violation rid name bucket st = Violation rid
     [L ''For each different value of VAT category rate (BT-119='', S (or_empty (percent st)),
      L '') where the VAT category code (BT-118) is '', U 39, L name, U 39,
      L '', the VAT category taxable amount (BT-116='', absent (taxable_amount st),
      L '') in a VAT breakdown (BG-23) shall equal the sum of Invoice line net amounts plus '',
      L ''document level charges minus document level allowances at that '', L bucket, L '' rate.'']
     [L ''cac:TaxTotal/cac:TaxSubtotal/cbc:TaxableAmount'']"

definition br_s_08_row :: "invoice \<Rightarrow> tax_subtotal \<Rightarrow> dec_exc + violation option" where
  "br_s_08_row iv st =
     (if \<not> (if inv_syntax iv = CII then category_id st = Some (ascii ''S'') else vat_row ''S'' st)
      then Inr None
      else case dec_opt (percent st) of None \<Rightarrow> Inr None
      | Some rate \<Rightarrow>
        let P = has_code_and_rate ''S'' rate; taxable = dec_opt (taxable_amount st);
            fired = Some (rate_sum_violation ''BR-S-08'' ''Standard rated'' ''Standard'' st);
            band = (\<lambda>e. case taxable of None \<Rightarrow> Inr False | Some t \<Rightarrow> in_band t e)
        in bindE (line_sum P iv) (\<lambda>ls. bindE (ac_sum P True iv) (\<lambda>cs. bindE (ac_sum P False iv) (\<lambda>as.
          if inv_syntax iv = CII then
            bindE (plus_minus_rounded ls cs as) (\<lambda>expected.
              Inr (if taxable \<noteq> None \<and> dec_eq (the taxable) expected then None else fired))
          else
            let line_exists = (\<exists>il\<in>set (inv_lines iv). P (item_tax_categories il));
                ac_exists = (\<exists>ac\<in>set (all_allowance_charges iv). P (tax_categories ac))
            in bindE (if line_exists \<or> ac_exists
                      then bindE (plus_minus ls cs as) band else Inr False) (\<lambda>d1.
               if d1 then Inr None
               else if ac_exists then bindE (bindE (dec_sub cs as) band) (\<lambda>d2.
                 Inr (if d2 then None else fired))
               else Inr fired)))))"

definition br_s_08 :: "invoice \<Rightarrow> dec_exc + violation option" where
  "br_s_08 iv = first_someE (\<lambda>tt. first_someE (br_s_08_row iv) (subtotals tt)) (tax_totals iv)"

definition br_s_10 :: "invoice \<Rightarrow> violation option" where
  "br_s_10 iv =
     first_some (\<lambda>tt.
       first_some (\<lambda>st.
         if category_id st = Some (ascii ''S'') \<and> category_scheme_id st = VAT \<and> (has_exemption_reason st \<or> has_exemption_reason_code st)
         then Some (Violation ''BR-S-10''
             [L ''A VAT breakdown (BG-23) with a Standard rated (S) VAT category code '',
              L ''(BT-118) shall not have a VAT exemption reason text (BT-120) or code '',
              L ''(BT-121).'']
             [L ''cac:TaxTotal/cac:TaxSubtotal/cac:TaxCategory/cbc:TaxExemptionReason''])
         else None)
         (subtotals tt))
       (tax_totals iv)"

section \<open>Zero rated and exempt\<close>

definition br_z_01 :: "invoice \<Rightarrow> violation option" where
  "br_z_01 iv =
     (if inv_syntax iv = CII then if cii_vat_exactly_one_breakdown iv ''Z'' then None
        else Some (Violation ''BR-Z-01''
          [L ''An Invoice with a 'Zero rated' (Z) VAT category (BT-151/BT-95/BT-102) must '',
           L ''contain exactly one Z VAT breakdown row (BT-118); found '',
           I (length (filter (\<lambda>row. ascii ''Z'' \<in> set (row)) (cii_header_trade_tax_code_rows iv))),
           L ''.'']
          [L ''ram:ApplicableHeaderTradeSettlement/ram:ApplicableTradeTax/ram:CategoryCode''])
      else if ascii ''Z'' \<in> set (all_category_ids iv)
      then let z_count = count_list (breakdown_category_ids iv) (ascii ''Z'') in
        if z_count \<noteq> 1 then Some (Violation ''BR-Z-01''
            [L ''A Zero rated (Z) item is present, so the VAT breakdown (BG-23) must contain '',
             L ''exactly one Zero rated VAT category (found '', I z_count, L '').'']
            [L ''cac:TaxTotal/cac:TaxSubtotal/cac:TaxCategory/cbc:ID''])
        else None
      else None)"

definition br_z_02 :: "invoice \<Rightarrow> violation option" where
  "br_z_02 iv =
     (if line_seller_id_fires iv ''Z'' then Some (Violation ''BR-Z-02''
          (seller_id_message ''Zero rated (Z)'' ''Invoice line (BT-151)'')
          SELLER_ID_ELEMENT)
      else None)"

definition br_z_03 :: "invoice \<Rightarrow> violation option" where
  "br_z_03 iv =
     (if ac_seller_id_fires iv ''Z'' False then Some (Violation ''BR-Z-03''
          (seller_id_message ''Zero rated (Z)'' ''Document level allowance (BT-95)'')
          [L ''cac:AllowanceCharge/cac:TaxCategory/cbc:ID''])
      else None)"

definition br_z_04 :: "invoice \<Rightarrow> violation option" where
  "br_z_04 iv =
     (if ac_seller_id_fires iv ''Z'' True then Some (Violation ''BR-Z-04''
          (seller_id_message ''Zero rated (Z)'' ''Document level charge (BT-102)'')
          [L ''cac:AllowanceCharge/cac:TaxCategory/cbc:ID''])
      else None)"

definition br_z_05 :: "invoice \<Rightarrow> violation option" where
  "br_z_05 iv =
     (case line_rate_nonzero iv ''Z'' of None \<Rightarrow> None
      | Some il \<Rightarrow> Some (Violation ''BR-Z-05''
          [L ''In an Invoice line (BG-25) where the Invoiced item VAT category code '',
           L ''(BT-151) is 'Zero rated' the Invoiced item VAT rate (BT-152) shall be 0 '',
           L ''(zero).'']
          ((label il) @ [L ''/cac:Item/cac:ClassifiedTaxCategory/cbc:Percent''])))"

definition br_z_06 :: "invoice \<Rightarrow> violation option" where
  "br_z_06 iv =
     (if ac_rate_nonzero iv ''Z'' False then Some (Violation ''BR-Z-06''
          [L ''In a Document level allowance (BG-20) where the Document level allowance '',
           L ''VAT category code (BT-95) is 'Zero rated' the Document level allowance VAT '',
           L ''rate (BT-96) shall be 0 (zero).'']
          [L ''cac:AllowanceCharge/cac:TaxCategory/cbc:Percent''])
      else None)"

definition br_z_07 :: "invoice \<Rightarrow> violation option" where
  "br_z_07 iv =
     (if ac_rate_nonzero iv ''Z'' True then Some (Violation ''BR-Z-07''
          [L ''In a Document level charge (BG-21) where the Document level charge VAT '',
           L ''category code (BT-102) is 'Zero rated' the Document level charge VAT rate '',
           L ''(BT-103) shall be 0 (zero).'']
          [L ''cac:AllowanceCharge/cac:TaxCategory/cbc:Percent''])
      else None)"

definition br_z_08 :: "invoice \<Rightarrow> dec_exc + violation option" where
  "br_z_08 iv =
     bindE (breakdown_taxable_sum_mismatch iv ''Z'' True) (\<lambda>hit.
       case hit of None \<Rightarrow> Inr None
       | Some (st, expected) \<Rightarrow> Inr (Some (Violation ''BR-Z-08''
         (taxable_sum_message ''Zero rated'' st expected)
         [L ''cac:TaxTotal/cac:TaxSubtotal/cbc:TaxableAmount''])))"

definition br_z_09 :: "invoice \<Rightarrow> violation option" where
  "br_z_09 iv =
     (case breakdown_tax_nonzero iv ''Z'' of None \<Rightarrow> None
      | Some st \<Rightarrow> Some (Violation ''BR-Z-09''
          (tax_zero_message ''Zero rated'' st)
          [L ''cac:TaxTotal/cac:TaxSubtotal/cbc:TaxAmount'']))"

definition br_z_10 :: "invoice \<Rightarrow> violation option" where
  "br_z_10 iv =
     first_some (\<lambda>tt.
       first_some (\<lambda>st.
         if category_id st = Some (ascii ''Z'') \<and> category_scheme_id st = VAT \<and> (has_exemption_reason st \<or> has_exemption_reason_code st)
         then Some (Violation ''BR-Z-10''
             [L ''A VAT breakdown (BG-23) with a Zero rated (Z) VAT category code (BT-118) '',
              L ''shall not have a VAT exemption reason code (BT-121) or VAT exemption reason '',
              L ''text (BT-120).'']
             [L ''cac:TaxTotal/cac:TaxSubtotal/cac:TaxCategory/cbc:TaxExemptionReason''])
         else None)
         (subtotals tt))
       (tax_totals iv)"

definition br_e_01 :: "invoice \<Rightarrow> violation option" where
  "br_e_01 iv =
     (if inv_syntax iv = CII then if cii_vat_exactly_one_breakdown iv ''E'' then None
        else Some (Violation ''BR-E-01''
          [L ''An Invoice with an 'Exempt from VAT' (E) VAT category (BT-151/BT-95/BT-102) '',
           L ''must contain exactly one E VAT breakdown row (BT-118); found '',
           I (length (filter (\<lambda>row. ascii ''E'' \<in> set (row)) (cii_header_trade_tax_code_rows iv))),
           L ''.'']
          [L ''ram:ApplicableHeaderTradeSettlement/ram:ApplicableTradeTax/ram:CategoryCode''])
      else if vat_exactly_one_breakdown iv ''E'' then None
      else Some (Violation ''BR-E-01''
        [L ''An Invoice with an 'Exempt from VAT' (E) VAT category (BT-151/BT-95/BT-102) '',
         L ''must contain exactly one E VAT breakdown row (BT-118); found '',
         I (count_list (breakdown_vat_category_codes iv) (ascii ''E'')), L ''.'']
        [L ''cac:TaxTotal/cac:TaxSubtotal/cac:TaxCategory/cbc:ID'']))"

definition br_e_02 :: "invoice \<Rightarrow> violation option" where
  "br_e_02 iv =
     (if line_seller_id_fires iv ''E'' then Some (Violation ''BR-E-02''
          (seller_id_message ''Exempt from VAT (E)'' ''Invoice line (BT-151)'')
          SELLER_ID_ELEMENT)
      else None)"

definition br_e_03 :: "invoice \<Rightarrow> violation option" where
  "br_e_03 iv =
     (if ac_seller_id_fires iv ''E'' False then Some (Violation ''BR-E-03''
          (seller_id_message ''Exempt from VAT (E)'' ''Document level allowance (BT-95)'')
          [L ''cac:AllowanceCharge/cac:TaxCategory/cbc:ID''])
      else None)"

definition br_e_04 :: "invoice \<Rightarrow> violation option" where
  "br_e_04 iv =
     (if ac_seller_id_fires iv ''E'' True then Some (Violation ''BR-E-04''
          (seller_id_message ''Exempt from VAT (E)'' ''Document level charge (BT-102)'')
          [L ''cac:AllowanceCharge/cac:TaxCategory/cbc:ID''])
      else None)"

definition br_e_05 :: "invoice \<Rightarrow> violation option" where
  "br_e_05 iv =
     (case line_rate_nonzero iv ''E'' of None \<Rightarrow> None
      | Some il \<Rightarrow> Some (Violation ''BR-E-05''
          [L ''In an Invoice line (BG-25) where the Invoiced item VAT category code '',
           L ''(BT-151) is 'Exempt from VAT', the Invoiced item VAT rate (BT-152) shall be '',
           L ''0 (zero).'']
          ((label il) @ [L ''/cac:Item/cac:ClassifiedTaxCategory/cbc:Percent''])))"

definition br_e_06 :: "invoice \<Rightarrow> violation option" where
  "br_e_06 iv =
     (if ac_rate_nonzero iv ''E'' False then Some (Violation ''BR-E-06''
          [L ''In a Document level allowance (BG-20) where the Document level allowance '',
           L ''VAT category code (BT-95) is 'Exempt from VAT', the Document level '',
           L ''allowance VAT rate (BT-96) shall be 0 (zero).'']
          [L ''cac:AllowanceCharge/cac:TaxCategory/cbc:Percent''])
      else None)"

definition br_e_07 :: "invoice \<Rightarrow> violation option" where
  "br_e_07 iv =
     (if ac_rate_nonzero iv ''E'' True then Some (Violation ''BR-E-07''
          [L ''In a Document level charge (BG-21) where the Document level charge VAT '',
           L ''category code (BT-102) is 'Exempt from VAT', the Document level charge VAT '',
           L ''rate (BT-103) shall be 0 (zero).'']
          [L ''cac:AllowanceCharge/cac:TaxCategory/cbc:Percent''])
      else None)"

definition br_e_08 :: "invoice \<Rightarrow> dec_exc + violation option" where
  "br_e_08 iv =
     bindE (breakdown_taxable_sum_mismatch iv ''E'' True) (\<lambda>hit.
       case hit of None \<Rightarrow> Inr None
       | Some (st, expected) \<Rightarrow> Inr (Some (Violation ''BR-E-08''
         (taxable_sum_message ''Exempt from VAT'' st expected)
         [L ''cac:TaxTotal/cac:TaxSubtotal/cbc:TaxableAmount''])))"

definition br_e_09 :: "invoice \<Rightarrow> violation option" where
  "br_e_09 iv =
     (case breakdown_tax_nonzero iv ''E'' of None \<Rightarrow> None
      | Some st \<Rightarrow> Some (Violation ''BR-E-09''
          (tax_zero_message ''Exempt from VAT'' st)
          [L ''cac:TaxTotal/cac:TaxSubtotal/cbc:TaxAmount'']))"

definition br_e_10 :: "invoice \<Rightarrow> violation option" where
  "br_e_10 iv =
     first_some (\<lambda>tt.
       first_some (\<lambda>st.
         if category_id st = Some (ascii ''E'') \<and> category_scheme_id st = VAT \<and> (\<not> (has_exemption_reason st \<or> has_exemption_reason_code st))
         then Some (Violation ''BR-E-10''
             [L ''A VAT breakdown (BG-23) with an Exempt from VAT (E) VAT category code '',
              L ''(BT-118) shall have a VAT exemption reason code (BT-121) or a VAT exemption '',
              L ''reason text (BT-120).'']
             [L ''cac:TaxTotal/cac:TaxSubtotal/cac:TaxCategory/cbc:TaxExemptionReason''])
         else None)
         (subtotals tt))
       (tax_totals iv)"

section \<open>Reverse charge and intra-community supply\<close>

definition br_ae_01 :: "invoice \<Rightarrow> violation option" where
  "br_ae_01 iv =
     (if inv_syntax iv = CII then if cii_vat_exactly_one_breakdown iv ''AE'' then None
        else Some (Violation ''BR-AE-01''
          [L ''An Invoice with a 'Reverse charge' (AE) VAT category (BT-151/BT-95/BT-102) '',
           L ''must contain exactly one AE VAT breakdown row (BT-118); found '',
           I (length (filter (\<lambda>row. ascii ''AE'' \<in> set (row)) (cii_header_trade_tax_code_rows iv))),
           L ''.'']
          [L ''ram:ApplicableHeaderTradeSettlement/ram:ApplicableTradeTax/ram:CategoryCode''])
      else if vat_exactly_one_breakdown iv ''AE'' then None
      else Some (Violation ''BR-AE-01''
        [L ''An Invoice with a 'Reverse charge' (AE) VAT category (BT-151/BT-95/BT-102) '',
         L ''must contain exactly one AE VAT breakdown row (BT-118); found '',
         I (count_list (breakdown_vat_category_codes iv) (ascii ''AE'')), L ''.'']
        [L ''cac:TaxTotal/cac:TaxSubtotal/cac:TaxCategory/cbc:ID'']))"

definition br_ae_02 :: "invoice \<Rightarrow> violation option" where
  "br_ae_02 iv =
     (if has_classified_category iv ''AE'' (Some ''VAT'') \<and> (\<not> (seller_has_vat_identifier iv \<and> ae_buyer_id_present iv))
      then Some (Violation ''BR-AE-02''
          (ae_party_id_message ''Invoice line (BT-151)'')
          SELLER_ID_ELEMENT)
      else None)"

definition br_ae_03 :: "invoice \<Rightarrow> violation option" where
  "br_ae_03 iv =
     (if ac_has_vat_category iv False ''AE'' \<and> (\<not> (seller_has_vat_identifier iv \<and> ae_buyer_id_present iv))
      then Some (Violation ''BR-AE-03''
          (ae_party_id_message ''Document level allowance (BT-95)'')
          [L ''cac:AllowanceCharge/cac:TaxCategory/cbc:ID''])
      else None)"

definition br_ae_04 :: "invoice \<Rightarrow> violation option" where
  "br_ae_04 iv =
     (if ac_has_vat_category iv True ''AE'' \<and> (\<not> (seller_has_vat_identifier iv \<and> ae_buyer_id_present iv))
      then Some (Violation ''BR-AE-04''
          (ae_party_id_message ''Document level charge (BT-102)'')
          [L ''cac:AllowanceCharge/cac:TaxCategory/cbc:ID''])
      else None)"

definition br_ae_05 :: "invoice \<Rightarrow> violation option" where
  "br_ae_05 iv =
     (case line_rate_nonzero iv ''AE'' of None \<Rightarrow> None
      | Some il \<Rightarrow> Some (Violation ''BR-AE-05''
          [L ''In an Invoice line (BG-25) where the Invoiced item VAT category code '',
           L ''(BT-151) is 'Reverse charge' the Invoiced item VAT rate (BT-152) shall be 0 '',
           L ''(zero).'']
          ((label il) @ [L ''/cac:Item/cac:ClassifiedTaxCategory/cbc:Percent''])))"

definition br_ae_06 :: "invoice \<Rightarrow> violation option" where
  "br_ae_06 iv =
     (if ac_rate_nonzero iv ''AE'' False then Some (Violation ''BR-AE-06''
          [L ''In a Document level allowance (BG-20) where the Document level allowance '',
           L ''VAT category code (BT-95) is 'Reverse charge' the Document level allowance '',
           L ''VAT rate (BT-96) shall be 0 (zero).'']
          [L ''cac:AllowanceCharge/cac:TaxCategory/cbc:Percent''])
      else None)"

definition br_ae_07 :: "invoice \<Rightarrow> violation option" where
  "br_ae_07 iv =
     (if ac_rate_nonzero iv ''AE'' True then Some (Violation ''BR-AE-07''
          [L ''In a Document level charge (BG-21) where the Document level charge VAT '',
           L ''category code (BT-102) is 'Reverse charge' the Document level charge VAT '',
           L ''rate (BT-103) shall be 0 (zero).'']
          [L ''cac:AllowanceCharge/cac:TaxCategory/cbc:Percent''])
      else None)"

definition br_ae_08 :: "invoice \<Rightarrow> dec_exc + violation option" where
  "br_ae_08 iv =
     bindE (breakdown_taxable_sum_mismatch iv ''AE'' True) (\<lambda>hit.
       case hit of None \<Rightarrow> Inr None
       | Some (st, expected) \<Rightarrow> Inr (Some (Violation ''BR-AE-08''
         (taxable_sum_message ''Reverse charge'' st expected)
         [L ''cac:TaxTotal/cac:TaxSubtotal/cbc:TaxableAmount''])))"

definition br_ae_09 :: "invoice \<Rightarrow> violation option" where
  "br_ae_09 iv =
     (case breakdown_tax_nonzero iv ''AE'' of None \<Rightarrow> None
      | Some st \<Rightarrow> Some (Violation ''BR-AE-09''
          (tax_zero_message ''Reverse charge'' st)
          [L ''cac:TaxTotal/cac:TaxSubtotal/cac:TaxAmount'']))"

definition br_ae_10 :: "invoice \<Rightarrow> violation option" where
  "br_ae_10 iv =
     first_some (\<lambda>tt.
       first_some (\<lambda>st.
         if category_id st = Some (ascii ''AE'') \<and> category_scheme_id st = VAT \<and> (\<not> (has_exemption_reason st \<or> has_exemption_reason_code st))
         then Some (Violation ''BR-AE-10''
             [L ''A VAT breakdown (BG-23) with a Reverse charge (AE) VAT category code '',
              L ''(BT-118) shall have a VAT exemption reason code (BT-121), meaning 'Reverse '',
              L ''charge', or the VAT exemption reason text (BT-120) 'Reverse charge'.'']
             [L ''cac:TaxTotal/cac:TaxSubtotal/cac:TaxCategory/cbc:TaxExemptionReason''])
         else None)
         (subtotals tt))
       (tax_totals iv)"

definition br_ic_01 :: "invoice \<Rightarrow> violation option" where
  "br_ic_01 iv =
     (if inv_syntax iv = CII then if cii_vat_exactly_one_breakdown iv ''K'' then None
        else Some (Violation ''BR-IC-01''
          [L ''An Invoice with an 'Intra-community supply' (K) VAT category '',
           L ''(BT-151/BT-95/BT-102) must contain exactly one K VAT breakdown row '',
           L ''(BT-118); found '',
           I (length (filter (\<lambda>row. ascii ''K'' \<in> set (row)) (cii_header_trade_tax_code_rows iv))),
           L ''.'']
          [L ''ram:ApplicableHeaderTradeSettlement/ram:ApplicableTradeTax/ram:CategoryCode''])
      else if vat_exactly_one_breakdown iv ''K'' then None
      else Some (Violation ''BR-IC-01''
        [L ''An Invoice with an 'Intra-community supply' (K) VAT category '',
         L ''(BT-151/BT-95/BT-102) must contain exactly one K VAT breakdown row '',
         L ''(BT-118); found '', I (count_list (breakdown_vat_category_codes iv) (ascii ''K'')),
         L ''.'']
        [L ''cac:TaxTotal/cac:TaxSubtotal/cac:TaxCategory/cbc:ID'']))"

definition br_ic_02 :: "invoice \<Rightarrow> violation option" where
  "br_ic_02 iv =
     (if has_classified_category iv ''K'' (Some ''VAT'') \<and> (\<not> (ic_seller_id_present iv \<and> buyer_has_vat_scheme_company_id iv))
      then Some (Violation ''BR-IC-02''
          (ic_party_id_message ''Invoice line (BT-151)'')
          SELLER_ID_ELEMENT)
      else None)"

definition br_ic_03 :: "invoice \<Rightarrow> violation option" where
  "br_ic_03 iv =
     (if ac_has_vat_category iv False ''K'' \<and> (\<not> (ic_seller_id_present iv \<and> buyer_has_vat_scheme_company_id iv))
      then Some (Violation ''BR-IC-03''
          (ic_party_id_message ''Document level allowance (BT-95)'')
          [L ''cac:AllowanceCharge/cac:TaxCategory/cbc:ID''])
      else None)"

definition br_ic_04 :: "invoice \<Rightarrow> violation option" where
  "br_ic_04 iv =
     (if ac_has_vat_category iv True ''K'' \<and> (\<not> (ic_seller_id_present iv \<and> buyer_has_vat_scheme_company_id iv))
      then Some (Violation ''BR-IC-04''
          (ic_party_id_message ''Document level charge (BT-102)'')
          [L ''cac:AllowanceCharge/cac:TaxCategory/cbc:ID''])
      else None)"

definition br_ic_05 :: "invoice \<Rightarrow> violation option" where
  "br_ic_05 iv =
     (case line_rate_nonzero iv ''K'' of None \<Rightarrow> None
      | Some il \<Rightarrow> Some (Violation ''BR-IC-05''
          [L ''In an Invoice line (BG-25) where the Invoiced item VAT category code '',
           L ''(BT-151) is 'Intra-community supply' the Invoiced item VAT rate (BT-152) '',
           L ''shall be 0 (zero).'']
          ((label il) @ [L ''/cac:Item/cac:ClassifiedTaxCategory/cbc:Percent''])))"

definition br_ic_06 :: "invoice \<Rightarrow> violation option" where
  "br_ic_06 iv =
     (if ac_rate_nonzero iv ''K'' False then Some (Violation ''BR-IC-06''
          [L ''In a Document level allowance (BG-20) where the Document level allowance '',
           L ''VAT category code (BT-95) is 'Intra-community supply' the Document level '',
           L ''allowance VAT rate (BT-96) shall be 0 (zero).'']
          [L ''cac:AllowanceCharge/cac:TaxCategory/cbc:Percent''])
      else None)"

definition br_ic_07 :: "invoice \<Rightarrow> violation option" where
  "br_ic_07 iv =
     (if ac_rate_nonzero iv ''K'' True then Some (Violation ''BR-IC-07''
          [L ''In a Document level charge (BG-21) where the Document level charge VAT '',
           L ''category code (BT-102) is 'Intra-community supply' the Document level '',
           L ''charge VAT rate (BT-103) shall be 0 (zero).'']
          [L ''cac:AllowanceCharge/cac:TaxCategory/cbc:Percent''])
      else None)"

definition br_ic_08 :: "invoice \<Rightarrow> dec_exc + violation option" where
  "br_ic_08 iv =
     bindE (breakdown_taxable_sum_mismatch iv ''K'' True) (\<lambda>hit.
       case hit of None \<Rightarrow> Inr None
       | Some (st, expected) \<Rightarrow> Inr (Some (Violation ''BR-IC-08''
         (taxable_sum_message ''Intra-community supply'' st expected)
         [L ''cac:TaxTotal/cac:TaxSubtotal/cbc:TaxableAmount''])))"

definition br_ic_09 :: "invoice \<Rightarrow> violation option" where
  "br_ic_09 iv =
     (case breakdown_tax_nonzero iv ''K'' of None \<Rightarrow> None
      | Some st \<Rightarrow> Some (Violation ''BR-IC-09''
          (tax_zero_message ''Intra-community supply'' st)
          [L ''cac:TaxTotal/cac:TaxSubtotal/cac:TaxAmount'']))"

definition br_ic_10 :: "invoice \<Rightarrow> violation option" where
  "br_ic_10 iv =
     first_some (\<lambda>tt.
       first_some (\<lambda>st.
         if category_id st = Some (ascii ''K'') \<and> category_scheme_id st = VAT \<and> (\<not> (has_exemption_reason st \<or> has_exemption_reason_code st))
         then Some (Violation ''BR-IC-10''
             [L ''A VAT breakdown (BG-23) with the VAT Category code (BT-118) '', U 39,
              L ''Intra-community supply' shall have a VAT exemption reason code (BT-121) or '',
              L ''a VAT exemption reason text (BT-120).'']
             [L ''cac:TaxTotal/cac:TaxSubtotal/cac:TaxCategory/cbc:TaxExemptionReason''])
         else None)
         (subtotals tt))
       (tax_totals iv)"

definition br_ic_11 :: "invoice \<Rightarrow> violation option" where
  "br_ic_11 iv =
     (if ascii ''K'' \<notin> set (breakdown_vat_category_codes iv) then None
      else if inv_syntax iv = CII
      then if \<not> (cii_delivery_datetime_string_present iv \<or> cii_billing_period_start_present iv \<or> cii_billing_period_end_present iv)
        then Some (Violation ''BR-IC-11''
            [L ''In an Invoice with a VAT breakdown (BG-23) where the VAT category code '',
             L ''(BT-118) is 'Intra-community supply' the Actual delivery date (BT-72) or '',
             L ''the Invoicing period (BG-14) shall not be blank.'']
            [L ''ram:ApplicableHeaderTradeDelivery/ram:ActualDeliverySupplyChainEvent/'',
             L ''ram:OccurrenceDateTime/udt:DateTimeString''])
        else None
      else let date_ok = length (or_empty (doc_delivery_actual_date_raw iv)) > 1 in
      if \<not> (date_ok \<or> doc_invoice_period_has_child iv)
      then Some (Violation ''BR-IC-11''
          [L ''In an Invoice with a VAT breakdown (BG-23) where the VAT category code '',
           L ''(BT-118) is 'Intra-community supply' the Actual delivery date (BT-72) or '',
           L ''the Invoicing period (BG-14) shall not be blank.'']
          [L ''cac:Delivery/cbc:ActualDeliveryDate''])
      else None)"

definition br_ic_12 :: "invoice \<Rightarrow> violation option" where
  "br_ic_12 iv =
     (if ascii ''K'' \<notin> set (breakdown_vat_category_codes iv) then None
      else if inv_syntax iv = CII
      then if \<not> (cii_shipto_country_id_present iv) then Some (Violation ''BR-IC-12''
            [L ''In an Invoice with a VAT breakdown (BG-23) where the VAT category code '',
             L ''(BT-118) is 'Intra-community supply' the Deliver to country code (BT-80) '',
             L ''shall not be blank.'']
            [L ''ram:ApplicableHeaderTradeDelivery/ram:ShipToTradeParty/'',
             L ''ram:PostalTradeAddress/ram:CountryID''])
        else None
      else if length (or_empty (doc_delivery_country_code_raw iv)) \<le> 1
      then Some (Violation ''BR-IC-12''
          [L ''In an Invoice with a VAT breakdown (BG-23) where the VAT category code '',
           L ''(BT-118) is 'Intra-community supply' the Deliver to country code (BT-80) '',
           L ''shall not be blank.'']
          [L ''cac:Delivery/cac:DeliveryLocation/cac:Address/cac:Country/'',
           L ''cbc:IdentificationCode''])
      else None)"

section \<open>Export and not subject to VAT\<close>

definition br_g_01 :: "invoice \<Rightarrow> violation option" where
  "br_g_01 iv =
     (if inv_syntax iv = CII then if cii_vat_exactly_one_breakdown iv ''G'' then None
        else Some (Violation ''BR-G-01''
          [L ''An Invoice with an 'Export outside the EU' (G) VAT category '',
           L ''(BT-151/BT-95/BT-102) must contain exactly one G VAT breakdown row '',
           L ''(BT-118); found '',
           I (length (filter (\<lambda>row. ascii ''G'' \<in> set (row)) (cii_header_trade_tax_code_rows iv))),
           L ''.'']
          [L ''ram:ApplicableHeaderTradeSettlement/ram:ApplicableTradeTax/ram:CategoryCode''])
      else if vat_exactly_one_breakdown iv ''G'' then None
      else Some (Violation ''BR-G-01''
        [L ''An Invoice with an 'Export outside the EU' (G) VAT category '',
         L ''(BT-151/BT-95/BT-102) must contain exactly one G VAT breakdown row '',
         L ''(BT-118); found '', I (count_list (breakdown_vat_category_codes iv) (ascii ''G'')),
         L ''.'']
        [L ''cac:TaxTotal/cac:TaxSubtotal/cac:TaxCategory/cbc:ID'']))"

definition br_g_02 :: "invoice \<Rightarrow> violation option" where
  "br_g_02 iv =
     (if has_classified_category iv ''G'' (Some ''VAT'') \<and> \<not> (ic_seller_id_present iv)
      then Some (Violation ''BR-G-02''
          (g_seller_id_message ''Invoice line (BT-151)'')
          SELLER_ID_ELEMENT)
      else None)"

definition br_g_03 :: "invoice \<Rightarrow> violation option" where
  "br_g_03 iv =
     (if ac_has_vat_category iv False ''G'' \<and> \<not> (ic_seller_id_present iv)
      then Some (Violation ''BR-G-03''
          (g_seller_id_message ''Document level allowance (BT-95)'')
          [L ''cac:AllowanceCharge/cac:TaxCategory/cbc:ID''])
      else None)"

definition br_g_04 :: "invoice \<Rightarrow> violation option" where
  "br_g_04 iv =
     (if ac_has_vat_category iv True ''G'' \<and> \<not> (ic_seller_id_present iv)
      then Some (Violation ''BR-G-04''
          (g_seller_id_message ''Document level charge (BT-102)'')
          [L ''cac:AllowanceCharge/cac:TaxCategory/cbc:ID''])
      else None)"

definition br_g_05 :: "invoice \<Rightarrow> violation option" where
  "br_g_05 iv =
     (case line_rate_nonzero iv ''G'' of None \<Rightarrow> None
      | Some il \<Rightarrow> Some (Violation ''BR-G-05''
          [L ''In an Invoice line (BG-25) where the Invoiced item VAT category code '',
           L ''(BT-151) is 'Export outside the EU' the Invoiced item VAT rate (BT-152) '',
           L ''shall be 0 (zero).'']
          ((label il) @ [L ''/cac:Item/cac:ClassifiedTaxCategory/cbc:Percent''])))"

definition br_g_06 :: "invoice \<Rightarrow> violation option" where
  "br_g_06 iv =
     (if ac_rate_nonzero iv ''G'' False then Some (Violation ''BR-G-06''
          [L ''In a Document level allowance (BG-20) where the Document level allowance '',
           L ''VAT category code (BT-95) is 'Export outside the EU' the Document level '',
           L ''allowance VAT rate (BT-96) shall be 0 (zero).'']
          [L ''cac:AllowanceCharge/cac:TaxCategory/cbc:Percent''])
      else None)"

definition br_g_07 :: "invoice \<Rightarrow> violation option" where
  "br_g_07 iv =
     (if ac_rate_nonzero iv ''G'' True then Some (Violation ''BR-G-07''
          [L ''In a Document level charge (BG-21) where the Document level charge VAT '',
           L ''category code (BT-102) is 'Export outside the EU' the Document level charge '',
           L ''VAT rate (BT-103) shall be 0 (zero).'']
          [L ''cac:AllowanceCharge/cac:TaxCategory/cbc:Percent''])
      else None)"

definition br_g_08 :: "invoice \<Rightarrow> dec_exc + violation option" where
  "br_g_08 iv =
     bindE (breakdown_taxable_sum_mismatch iv ''G'' True) (\<lambda>hit.
       case hit of None \<Rightarrow> Inr None
       | Some (st, expected) \<Rightarrow> Inr (Some (Violation ''BR-G-08''
         (taxable_sum_message ''Export outside the EU'' st expected)
         [L ''cac:TaxTotal/cac:TaxSubtotal/cbc:TaxableAmount''])))"

definition br_g_09 :: "invoice \<Rightarrow> violation option" where
  "br_g_09 iv =
     (case breakdown_tax_nonzero iv ''G'' of None \<Rightarrow> None
      | Some st \<Rightarrow> Some (Violation ''BR-G-09''
          (tax_zero_message ''Export outside the EU'' st)
          [L ''cac:TaxTotal/cac:TaxSubtotal/cbc:TaxAmount'']))"

definition br_g_10 :: "invoice \<Rightarrow> violation option" where
  "br_g_10 iv =
     first_some (\<lambda>tt.
       first_some (\<lambda>st.
         if category_id st = Some (ascii ''G'') \<and> category_scheme_id st = VAT \<and> (\<not> (has_exemption_reason st \<or> has_exemption_reason_code st))
         then Some (Violation ''BR-G-10''
             [L ''A VAT breakdown (BG-23) with an Export outside the EU (G) VAT category code '',
              L ''(BT-118) shall have a VAT exemption reason code (BT-121), meaning 'Export '',
              L ''outside the EU', or the VAT exemption reason text (BT-120) 'Export outside '',
              L ''the EU'.'']
             [L ''cac:TaxTotal/cac:TaxSubtotal/cac:TaxCategory/cbc:TaxExemptionReason''])
         else None)
         (subtotals tt))
       (tax_totals iv)"

definition br_o_01 :: "invoice \<Rightarrow> violation option" where
  "br_o_01 iv =
     (if inv_syntax iv = CII then if cii_o_exactly_one_breakdown iv then None
        else Some (Violation ''BR-O-01''
          [L ''An Invoice with a 'Not subject to VAT' (O) VAT breakdown row (BT-118) must '',
           L ''contain exactly one such row AND an O Invoice line, Document level '',
           L ''allowance or charge (BT-151/BT-95/BT-102); found '',
           I (length (filter (\<lambda>row. ascii ''O'' \<in> set (row)) (cii_header_trade_tax_code_rows iv))),
           L '' row(s).'']
          [L ''ram:ApplicableHeaderTradeSettlement/ram:ApplicableTradeTax/ram:CategoryCode''])
      else if vat_exactly_one_breakdown iv ''O'' then None
      else Some (Violation ''BR-O-01''
        [L ''An Invoice with a 'Not subject to VAT' (O) VAT category '',
         L ''(BT-151/BT-95/BT-102) must contain exactly one O VAT breakdown row '',
         L ''(BT-118); found '', I (count_list (breakdown_vat_category_codes iv) (ascii ''O'')),
         L ''.'']
        [L ''cac:TaxTotal/cac:TaxSubtotal/cac:TaxCategory/cbc:ID'']))"

definition br_o_02 :: "invoice \<Rightarrow> violation option" where
  "br_o_02 iv =
     (if has_classified_category iv ''O'' (Some ''VAT'') \<and> o_party_vat_id_present iv
      then Some (Violation ''BR-O-02''
          (o_party_id_message ''Invoice line (BT-151)'')
          SELLER_ID_ELEMENT)
      else None)"

definition br_o_03 :: "invoice \<Rightarrow> violation option" where
  "br_o_03 iv =
     (if ac_has_vat_category iv False ''O'' \<and> o_party_vat_id_present iv
      then Some (Violation ''BR-O-03''
          (o_party_id_message ''Document level allowance (BT-95)'')
          [L ''cac:AllowanceCharge/cac:TaxCategory/cbc:ID''])
      else None)"

definition br_o_04 :: "invoice \<Rightarrow> violation option" where
  "br_o_04 iv =
     (if ac_has_vat_category iv True ''O'' \<and> o_party_vat_id_present iv
      then Some (Violation ''BR-O-04''
          (o_party_id_message ''Document level charge (BT-102)'')
          [L ''cac:AllowanceCharge/cac:TaxCategory/cbc:ID''])
      else None)"

definition br_o_05 :: "invoice \<Rightarrow> violation option" where
  "br_o_05 iv =
     (case line_rate_present iv ''O'' of None \<Rightarrow> None
      | Some il \<Rightarrow> Some (Violation ''BR-O-05''
          [L ''An Invoice line (BG-25) where the VAT category code (BT-151) is 'Not '',
           L ''subject to VAT' shall not contain an Invoiced item VAT rate (BT-152).'']
          ((label il) @ [L ''/cac:Item/cac:ClassifiedTaxCategory/cbc:Percent''])))"

definition br_o_06 :: "invoice \<Rightarrow> violation option" where
  "br_o_06 iv =
     (if ac_rate_present iv ''O'' False then Some (Violation ''BR-O-06''
          [L ''A Document level allowance (BG-20) where the Document level allowance VAT '',
           L ''category code (BT-95) is 'Not subject to VAT' shall not contain a Document '',
           L ''level allowance VAT rate (BT-96).'']
          [L ''cac:AllowanceCharge/cac:TaxCategory/cbc:Percent''])
      else None)"

definition br_o_07 :: "invoice \<Rightarrow> violation option" where
  "br_o_07 iv =
     (if ac_rate_present iv ''O'' True then Some (Violation ''BR-O-07''
          [L ''A Document level charge (BG-21) where the Document level charge VAT '',
           L ''category code (BT-102) is 'Not subject to VAT' shall not contain a Document '',
           L ''level charge VAT rate (BT-103).'']
          [L ''cac:AllowanceCharge/cac:TaxCategory/cbc:Percent''])
      else None)"

definition br_o_08 :: "invoice \<Rightarrow> dec_exc + violation option" where
  "br_o_08 iv =
     bindE (breakdown_taxable_sum_mismatch iv ''O'' False) (\<lambda>hit.
       case hit of None \<Rightarrow> Inr None
       | Some (st, expected) \<Rightarrow> Inr (Some (Violation ''BR-O-08''
         (taxable_sum_message ''Not subject to VAT'' st expected)
         [L ''cac:TaxTotal/cac:TaxSubtotal/cbc:TaxableAmount''])))"

definition br_o_09 :: "invoice \<Rightarrow> violation option" where
  "br_o_09 iv =
     (case breakdown_tax_nonzero iv ''O'' of None \<Rightarrow> None
      | Some st \<Rightarrow> Some (Violation ''BR-O-09''
          (tax_zero_message ''Not subject to VAT'' st)
          [L ''cac:TaxTotal/cac:TaxSubtotal/cbc:TaxAmount'']))"

definition br_o_10 :: "invoice \<Rightarrow> violation option" where
  "br_o_10 iv =
     first_some (\<lambda>tt.
       first_some (\<lambda>st.
         if category_id st = Some (ascii ''O'') \<and> category_scheme_id st = VAT \<and> (\<not> (has_exemption_reason st \<or> has_exemption_reason_code st))
         then Some (Violation ''BR-O-10''
             [L ''A VAT breakdown (BG-23) with a 'Not subject to VAT' (O) VAT category code '',
              L ''(BT-118) shall have a VAT exemption reason code (BT-121), meaning 'Not '',
              L ''subject to VAT', or a VAT exemption reason text (BT-120) 'Not subject to '',
              L ''VAT'.'']
             [L ''cac:TaxTotal/cac:TaxSubtotal/cac:TaxCategory/cbc:TaxExemptionReason''])
         else None)
         (subtotals tt))
       (tax_totals iv)"

definition br_o_11 :: "invoice \<Rightarrow> violation option" where
  "br_o_11 iv =
     (if inv_syntax iv = CII
      then if cii_o_header_vat_row_exists iv \<and> (\<exists>c\<in>set (classified_category_ids_raw iv). c \<noteq> ascii ''O'')
        then Some (Violation ''BR-O-11''
            [L ''An Invoice that contains a VAT breakdown group (BG-23) with a VAT category '',
             L ''code (BT-118) 'Not subject to VAT' shall not contain other VAT breakdown '',
             L ''groups (BG-23).'']
            [L ''ram:ApplicableHeaderTradeSettlement/ram:ApplicableTradeTax/ram:CategoryCode''])
        else None
      else let codes = breakdown_vat_category_codes iv in
      if ascii ''O'' \<notin> set (codes) then None
      else if (\<exists>c\<in>set (codes). c \<noteq> ascii ''O'')
      then Some (Violation ''BR-O-11''
          [L ''An Invoice that contains a VAT breakdown group (BG-23) with a VAT category '',
           L ''code (BT-118) 'Not subject to VAT' shall not contain other VAT breakdown '',
           L ''groups (BG-23).'']
          [L ''cac:TaxTotal/cac:TaxSubtotal/cac:TaxCategory/cbc:ID''])
      else None)"

definition br_o_12 :: "invoice \<Rightarrow> violation option" where
  "br_o_12 iv =
     (if inv_syntax iv = CII
      then if cii_o_header_vat_row_exists iv \<and> (\<exists>c\<in>set (classified_category_ids_raw iv). c \<noteq> ascii ''O'')
        then Some (Violation ''BR-O-12''
            [L ''An Invoice that contains a VAT breakdown group (BG-23) with a VAT category '',
             L ''code (BT-118) 'Not subject to VAT' shall not contain an Invoice line '',
             L ''(BG-25) where the Invoiced item VAT category code (BT-151) is not 'Not '',
             L ''subject to VAT'.'']
            [L ''ram:SpecifiedLineTradeSettlement/ram:ApplicableTradeTax/ram:CategoryCode''])
        else None
      else if ascii ''O'' \<notin> set (breakdown_vat_category_codes iv) then None
      else if line_has_other_vat_category iv ''O'' then Some (Violation ''BR-O-12''
          [L ''An Invoice that contains a VAT breakdown group (BG-23) with a VAT category '',
           L ''code (BT-118) 'Not subject to VAT' shall not contain an Invoice line '',
           L ''(BG-25) where the Invoiced item VAT category code (BT-151) is not 'Not '',
           L ''subject to VAT'.'']
          [L ''cac:InvoiceLine/cac:Item/cac:ClassifiedTaxCategory/cbc:ID''])
      else None)"

definition br_o_13 :: "invoice \<Rightarrow> violation option" where
  "br_o_13 iv =
     (if inv_syntax iv = CII
      then if cii_o_header_vat_row_exists iv \<and> (\<exists>c\<in>set (tax_category_ids_raw iv). c \<noteq> ascii ''O'')
        then Some (Violation ''BR-O-13''
            [L ''An Invoice that contains a VAT breakdown group (BG-23) with a VAT category '',
             L ''code (BT-118) 'Not subject to VAT' shall not contain Document level '',
             L ''allowances (BG-20) where the Document level allowance VAT category code '',
             L ''(BT-95) is not 'Not subject to VAT'.'']
            [L ''ram:SpecifiedTradeAllowanceCharge/ram:CategoryTradeTax/ram:CategoryCode''])
        else None
      else if ascii ''O'' \<notin> set (breakdown_vat_category_codes iv) then None
      else if ac_has_other_vat_category iv False ''O'' then Some (Violation ''BR-O-13''
          [L ''An Invoice that contains a VAT breakdown group (BG-23) with a VAT category '',
           L ''code (BT-118) 'Not subject to VAT' shall not contain Document level '',
           L ''allowances (BG-20) where the Document level allowance VAT category code '',
           L ''(BT-95) is not 'Not subject to VAT'.'']
          [L ''cac:AllowanceCharge/cac:TaxCategory/cbc:ID''])
      else None)"

definition br_o_14 :: "invoice \<Rightarrow> violation option" where
  "br_o_14 iv =
     (if inv_syntax iv = CII
      then if cii_o_header_vat_row_exists iv \<and> (\<exists>c\<in>set (tax_category_ids_raw iv). c \<noteq> ascii ''O'')
        then Some (Violation ''BR-O-14''
            [L ''An Invoice that contains a VAT breakdown group (BG-23) with a VAT category '',
             L ''code (BT-118) 'Not subject to VAT' shall not contain Document level charges '',
             L ''(BG-21) where the Document level charge VAT category code (BT-102) is not '',
             U 39, L ''Not subject to VAT'.'']
            [L ''ram:SpecifiedTradeAllowanceCharge/ram:CategoryTradeTax/ram:CategoryCode''])
        else None
      else if ascii ''O'' \<notin> set (breakdown_vat_category_codes iv) then None
      else if ac_has_other_vat_category iv True ''O'' then Some (Violation ''BR-O-14''
          [L ''An Invoice that contains a VAT breakdown group (BG-23) with a VAT category '',
           L ''code (BT-118) 'Not subject to VAT' shall not contain Document level charges '',
           L ''(BG-21) where the Document level charge VAT category code (BT-102) is not '',
           U 39, L ''Not subject to VAT'.'']
          [L ''cac:AllowanceCharge/cac:TaxCategory/cbc:ID''])
      else None)"

section \<open>IGIC, IPSI and split payment\<close>

text \<open>The body of \<open>br_af_08\<close> and \<open>br_ag_08\<close> at a category code.\<close>

definition rate_sum_row :: "string \<Rightarrow> string \<Rightarrow> string \<Rightarrow> invoice \<Rightarrow> tax_subtotal \<Rightarrow> dec_exc + violation option" where
  "rate_sum_row rid code name iv st =
     (if \<not> vat_row code st then Inr None
      else case dec_opt (percent st) of None \<Rightarrow> Inr None
      | Some rate \<Rightarrow>
        let P = has_code_and_rate code rate; taxable = dec_opt (taxable_amount st);
            fired = Some (rate_sum_violation rid name name st)
        in bindE (line_sum P iv) (\<lambda>ls. bindE (ac_sum P True iv) (\<lambda>cs. bindE (ac_sum P False iv) (\<lambda>as.
          if inv_syntax iv = CII then
            bindE (plus_minus_rounded ls cs as) (\<lambda>expected.
              Inr (if taxable \<noteq> None \<and> dec_eq (the taxable) expected then None else fired))
          else
            bindE (plus_minus ls cs as) (\<lambda>expected.
              if inv_lines iv \<noteq> [] \<and> taxable \<noteq> None
              then bindE (in_band (the taxable) expected) (\<lambda>ok. Inr (if ok then None else fired))
              else Inr fired)))))"

definition br_af_01 :: "invoice \<Rightarrow> violation option" where
  "br_af_01 iv =
     (let items_l = has_classified_category iv ''L'' (Some ''VAT'') \<or> (\<exists>ac\<in>set (all_allowance_charges iv). \<exists>cat\<in>set (tax_categories ac). cat_id cat = Some (ascii ''L'') \<and> cat_scheme_id cat = VAT) in
      if items_l then if ascii ''L'' \<notin> set (breakdown_category_ids iv)
        then Some (Violation ''BR-AF-01''
            [L ''An IGIC (L) item/allowance/charge is present, so the VAT breakdown (BG-23) '',
             L ''must contain at least one VAT category code (BT-118) equal with 'IGIC'.'']
            [L ''cac:TaxTotal/cac:TaxSubtotal/cac:TaxCategory/cbc:ID''])
        else None
      else if ascii ''L'' \<in> set (breakdown_vat_category_codes iv)
        then Some (Violation ''BR-AF-01''
            [L ''The VAT breakdown (BG-23) contains an IGIC (L) VAT category, but no IGIC '',
             L ''item/allowance/charge is present.'']
            [L ''cac:TaxTotal/cac:TaxSubtotal/cac:TaxCategory/cbc:ID''])
        else None)"

definition br_af_02 :: "invoice \<Rightarrow> violation option" where
  "br_af_02 iv =
     (if line_seller_id_fires iv ''L'' then Some (Violation ''BR-AF-02''
          (seller_id_message ''IGIC (L)'' ''Invoice line (BT-151)'')
          SELLER_ID_ELEMENT)
      else None)"

definition br_af_03 :: "invoice \<Rightarrow> violation option" where
  "br_af_03 iv =
     (if ac_seller_id_fires iv ''L'' False then Some (Violation ''BR-AF-03''
          (seller_id_message ''IGIC (L)'' ''Document level allowance (BT-95)'')
          SELLER_ID_ELEMENT)
      else None)"

definition br_af_04 :: "invoice \<Rightarrow> violation option" where
  "br_af_04 iv =
     (let raw_l_charge = (\<exists>ac\<in>set (all_allowance_charges iv). is_charge ac = Some True \<and> (\<exists>cat\<in>set (tax_categories ac). cat_raw_id cat = Some (ascii ''L'') \<and> cat_scheme_id cat = VAT)) in
      if raw_l_charge \<and> \<not> (seller_has_vat_identifier iv)
      then Some (Violation ''BR-AF-04''
          (seller_id_message ''IGIC (L)'' ''Document level charge (BT-102)'')
          SELLER_ID_ELEMENT)
      else None)"

definition br_af_05 :: "invoice \<Rightarrow> violation option" where
  "br_af_05 iv =
     first_some (\<lambda>il.
       first_some (\<lambda>cat.
         if cat_id cat = Some (ascii ''L'') \<and> cat_scheme_id cat = VAT \<and> \<not> (af_rate_holds iv (cat_percent cat))
         then Some (Violation ''BR-AF-05''
             [L ''In an Invoice line (BG-25) where the Invoiced item VAT category code '',
              L ''(BT-151) is 'IGIC' the Invoiced item VAT rate (BT-152) shall be 0 (zero) or '',
              L ''greater than zero.'']
             ((label il) @ [L ''/cac:Item/cac:ClassifiedTaxCategory/cbc:Percent'']))
         else None)
         (item_tax_categories il))
       (inv_lines iv)"

definition br_af_06 :: "invoice \<Rightarrow> violation option" where
  "br_af_06 iv =
     first_some (\<lambda>ac.
       if is_charge ac = Some False then first_some (\<lambda>cat.
           if cat_id cat = Some (ascii ''L'') \<and> cat_scheme_id cat = VAT \<and> \<not> (af_rate_holds iv (cat_percent cat))
           then Some (Violation ''BR-AF-06''
               [L ''In a Document level allowance (BG-20) where the Document level allowance '',
                L ''VAT category code (BT-95) is 'IGIC' the Document level allowance VAT rate '',
                L ''(BT-96) shall be 0 (zero) or greater than zero.'']
               [L ''cac:AllowanceCharge/cac:TaxCategory/cbc:Percent''])
           else None)
           (tax_categories ac)
       else None)
       (all_allowance_charges iv)"

definition br_af_07 :: "invoice \<Rightarrow> violation option" where
  "br_af_07 iv =
     first_some (\<lambda>ac.
       if is_charge ac = Some True then first_some (\<lambda>cat.
           if cat_id cat = Some (ascii ''L'') \<and> cat_scheme_id cat = VAT \<and> \<not> (af_rate_holds iv (cat_percent cat))
           then Some (Violation ''BR-AF-07''
               [L ''In a Document level charge (BG-21) where the Document level charge VAT '',
                L ''category code (BT-102) is 'IGIC' the Document level charge VAT rate '',
                L ''(BT-103) shall be 0 (zero) or greater than zero.'']
               [L ''cac:AllowanceCharge/cac:TaxCategory/cbc:Percent''])
           else None)
           (tax_categories ac)
       else None)
       (all_allowance_charges iv)"

definition br_af_08 :: "invoice \<Rightarrow> dec_exc + violation option" where
  "br_af_08 iv = first_someE (\<lambda>tt.
     first_someE (rate_sum_row ''BR-AF-08'' ''L'' ''IGIC'' iv) (subtotals tt)) (tax_totals iv)"

definition br_af_09 :: "invoice \<Rightarrow> dec_exc + violation option" where
  "br_af_09 = tax_band_rule ''BR-AF-09'' ''L'' [L ''an IGIC (L)'']"

definition br_af_10 :: "invoice \<Rightarrow> violation option" where
  "br_af_10 iv =
     first_some (\<lambda>tt.
       first_some (\<lambda>st.
         if category_id st = Some (ascii ''L'') \<and> category_scheme_id st = VAT \<and> (has_exemption_reason st \<or> has_exemption_reason_code st)
         then Some (Violation ''BR-AF-10''
             [L ''A VAT breakdown (BG-23) with VAT category code (BT-118) 'IGIC' shall not '',
              L ''have a VAT exemption reason code (BT-121) or VAT exemption reason text '',
              L ''(BT-120).'']
             [L ''cac:TaxTotal/cac:TaxSubtotal/cac:TaxCategory/cbc:TaxExemptionReason''])
         else None)
         (subtotals tt))
       (tax_totals iv)"

definition br_ag_01 :: "invoice \<Rightarrow> violation option" where
  "br_ag_01 iv =
     (let items_m = has_classified_category iv ''M'' (Some ''VAT'') \<or> (\<exists>ac\<in>set (all_allowance_charges iv). \<exists>cat\<in>set (tax_categories ac). cat_id cat = Some (ascii ''M'') \<and> cat_scheme_id cat = VAT) in
      if items_m
      then let has_raw_m_vat_row = (\<exists>tt\<in>set (tax_totals iv). \<exists>st\<in>set (subtotals tt). category_id_raw st = Some (ascii ''M'') \<and> category_scheme_id st = VAT) in
        if \<not> has_raw_m_vat_row then Some (Violation ''BR-AG-01''
            [L ''An IPSI (M) item/allowance/charge is present, so the VAT breakdown (BG-23) '',
             L ''must contain at least one VAT category code (BT-118) equal with 'IPSI'.'']
            [L ''cac:TaxTotal/cac:TaxSubtotal/cac:TaxCategory/cbc:ID''])
        else None
      else if ascii ''M'' \<in> set (breakdown_vat_category_codes iv)
        then Some (Violation ''BR-AG-01''
            [L ''The VAT breakdown (BG-23) contains an IPSI (M) VAT category, but no IPSI '',
             L ''item/allowance/charge is present.'']
            [L ''cac:TaxTotal/cac:TaxSubtotal/cac:TaxCategory/cbc:ID''])
        else None)"

definition br_ag_02 :: "invoice \<Rightarrow> violation option" where
  "br_ag_02 iv =
     (if line_seller_id_fires iv ''M'' then Some (Violation ''BR-AG-02''
          (seller_id_message ''IPSI (M)'' ''Invoice line (BT-151)'')
          SELLER_ID_ELEMENT)
      else None)"

definition br_ag_03 :: "invoice \<Rightarrow> violation option" where
  "br_ag_03 iv =
     (if ac_seller_id_fires iv ''M'' False then Some (Violation ''BR-AG-03''
          (seller_id_message ''IPSI (M)'' ''Document level allowance (BT-95)'')
          SELLER_ID_ELEMENT)
      else None)"

definition br_ag_04 :: "invoice \<Rightarrow> violation option" where
  "br_ag_04 iv =
     (if ac_seller_id_fires iv ''M'' True then Some (Violation ''BR-AG-04''
          (seller_id_message ''IPSI (M)'' ''Document level charge (BT-102)'')
          SELLER_ID_ELEMENT)
      else None)"

definition br_ag_05 :: "invoice \<Rightarrow> violation option" where
  "br_ag_05 iv =
     first_some (\<lambda>il.
       first_some (\<lambda>cat.
         if cat_id cat = Some (ascii ''M'') \<and> cat_scheme_id cat = VAT \<and> \<not> (percent_ge_zero (cat_percent cat))
         then Some (Violation ''BR-AG-05''
             [L ''In an Invoice line (BG-25) where the Invoiced item VAT category code '',
              L ''(BT-151) is 'IPSI' the Invoiced item VAT rate (BT-152) shall be 0 (zero) or '',
              L ''greater than zero.'']
             ((label il) @ [L ''/cac:Item/cac:ClassifiedTaxCategory/cbc:Percent'']))
         else None)
         (item_tax_categories il))
       (inv_lines iv)"

definition br_ag_06 :: "invoice \<Rightarrow> violation option" where
  "br_ag_06 iv =
     first_some (\<lambda>ac.
       if is_charge ac = Some False then first_some (\<lambda>cat.
           if cat_id cat = Some (ascii ''M'') \<and> cat_scheme_id cat = VAT \<and> \<not> (percent_ge_zero (cat_percent cat))
           then Some (Violation ''BR-AG-06''
               [L ''In a Document level allowance (BG-20) where the Document level allowance '',
                L ''VAT category code (BT-95) is 'IPSI' the Document level allowance VAT rate '',
                L ''(BT-96) shall be 0 (zero) or greater than zero.'']
               [L ''cac:AllowanceCharge/cac:TaxCategory/cbc:Percent''])
           else None)
           (tax_categories ac)
       else None)
       (all_allowance_charges iv)"

definition br_ag_07 :: "invoice \<Rightarrow> violation option" where
  "br_ag_07 iv =
     first_some (\<lambda>ac.
       if is_charge ac = Some True then first_some (\<lambda>cat.
           if cat_id cat = Some (ascii ''M'') \<and> cat_scheme_id cat = VAT \<and> \<not> (percent_ge_zero (cat_percent cat))
           then Some (Violation ''BR-AG-07''
               [L ''In a Document level charge (BG-21) where the Document level charge VAT '',
                L ''category code (BT-102) is 'IPSI' the Document level charge VAT rate '',
                L ''(BT-103) shall be 0 (zero) or greater than zero.'']
               [L ''cac:AllowanceCharge/cac:TaxCategory/cbc:Percent''])
           else None)
           (tax_categories ac)
       else None)
       (all_allowance_charges iv)"

definition br_ag_08 :: "invoice \<Rightarrow> dec_exc + violation option" where
  "br_ag_08 iv = first_someE (\<lambda>tt.
     first_someE (rate_sum_row ''BR-AG-08'' ''M'' ''IPSI'' iv) (subtotals tt)) (tax_totals iv)"

definition br_ag_09 :: "invoice \<Rightarrow> dec_exc + violation option" where
  "br_ag_09 = tax_band_rule ''BR-AG-09'' ''M'' [L ''an IPSI (M)'']"

definition br_ag_10 :: "invoice \<Rightarrow> violation option" where
  "br_ag_10 iv =
     first_some (\<lambda>tt.
       first_some (\<lambda>st.
         if category_id st = Some (ascii ''M'') \<and> category_scheme_id st = VAT \<and> (has_exemption_reason st \<or> has_exemption_reason_code st)
         then Some (Violation ''BR-AG-10''
             [L ''A VAT breakdown (BG-23) with VAT category code (BT-118) 'IPSI' shall not '',
              L ''have a VAT exemption reason code (BT-121) or VAT exemption reason text '',
              L ''(BT-120).'']
             [L ''cac:TaxTotal/cac:TaxSubtotal/cac:TaxCategory/cbc:TaxExemptionReason''])
         else None)
         (subtotals tt))
       (tax_totals iv)"

definition br_b_01 :: "invoice \<Rightarrow> violation option" where
  "br_b_01 iv =
     (if split_payment_item_present iv \<and> (\<exists>c\<in>set (all_country_codes_raw iv). c \<noteq> ascii ''IT'')
      then Some (Violation ''BR-B-01''
          [L ''An Invoice where the VAT category code (BT-151, BT-95 or BT-102) is 'Split '',
           L ''payment' (B) shall be a domestic Italian invoice: every country '',
           L ''identification code in the document must be 'IT'.'']
          [L ''cac:Country/cbc:IdentificationCode''])
      else None)"

definition br_b_02 :: "invoice \<Rightarrow> violation option" where
  "br_b_02 iv =
     (if inv_syntax iv = CII
      then let codes = tax_category_ids_raw iv @ classified_category_ids_raw iv in
        if ascii ''B'' \<in> set (codes) \<and> ascii ''S'' \<in> set (codes)
        then Some (Violation ''BR-B-02''
            [L ''An Invoice that contains a VAT category code (BT-151, BT-95, BT-118 or '',
             L ''BT-102) 'Split payment' (B) shall not also contain the VAT category code '',
             U 39, L ''Standard rated' (S).'']
            [L ''cac:TaxTotal/cac:TaxSubtotal/cac:TaxCategory/cbc:ID''])
        else None
      else let codes = doc_breakdown_category_ids_raw iv @ doc_ac_category_ids_raw iv @ classified_category_ids_raw iv in
        if ascii ''B'' \<in> set (codes) \<and> ascii ''S'' \<in> set (codes)
        then Some (Violation ''BR-B-02''
            [L ''An Invoice that contains a VAT category code (BT-151, BT-95, BT-118 or '',
             L ''BT-102) 'Split payment' (B) shall not also contain the VAT category code '',
             U 39, L ''Standard rated' (S).'']
            [L ''cac:TaxTotal/cac:TaxSubtotal/cac:TaxCategory/cbc:ID''])
        else None)"

lemmas vat_rule_defs [rule_defs] =
    br_s_01_def br_s_02_def br_s_03_def br_s_04_def br_s_05_def br_s_06_def br_s_07_def
    tax_band_rule_def br_s_09_def br_s_08_row_def br_s_08_def br_s_10_def br_z_01_def br_z_02_def
    br_z_03_def br_z_04_def br_z_05_def br_z_06_def br_z_07_def br_z_08_def br_z_09_def
    br_z_10_def br_e_01_def br_e_02_def br_e_03_def br_e_04_def br_e_05_def br_e_06_def
    br_e_07_def br_e_08_def br_e_09_def br_e_10_def br_ae_01_def br_ae_02_def br_ae_03_def
    br_ae_04_def br_ae_05_def br_ae_06_def br_ae_07_def br_ae_08_def br_ae_09_def br_ae_10_def
    br_ic_01_def br_ic_02_def br_ic_03_def br_ic_04_def br_ic_05_def br_ic_06_def br_ic_07_def
    br_ic_08_def br_ic_09_def br_ic_10_def br_ic_11_def br_ic_12_def br_g_01_def br_g_02_def
    br_g_03_def br_g_04_def br_g_05_def br_g_06_def br_g_07_def br_g_08_def br_g_09_def
    br_g_10_def br_o_01_def br_o_02_def br_o_03_def br_o_04_def br_o_05_def br_o_06_def
    br_o_07_def br_o_08_def br_o_09_def br_o_10_def br_o_11_def br_o_12_def br_o_13_def
    br_o_14_def rate_sum_row_def br_af_01_def br_af_02_def br_af_03_def br_af_04_def br_af_05_def
    br_af_06_def br_af_07_def br_af_08_def br_af_09_def br_af_10_def br_ag_01_def br_ag_02_def
    br_ag_03_def br_ag_04_def br_ag_05_def br_ag_06_def br_ag_07_def br_ag_08_def br_ag_09_def
    br_ag_10_def br_b_01_def br_b_02_def

end
