(* ===== verification/EI_Float.thy ===== *)
theory EI_Float
  imports EI_Decimal "HOL-Library.Log_Nat"
begin

text \<open>
  Binary floating point as \<open>_cii_round2_equal\<close> of \<open>einvoice/rules.py\<close> uses it: the
  finite doubles are rationals, every operation rounds its exact result to the nearest double
  with ties to even, and a result of at least \<open>2 ^ 1024\<close> is an infinity (\<open>None\<close>).
\<close>

definition round_half_even :: "rat \<Rightarrow> int" where
  "round_half_even r = (let f = \<lfloor>r\<rfloor>; d = r - of_int f in
     if d > 1 / 2 \<or> (d = 1 / 2 \<and> odd f) then f + 1 else f)"

text \<open>The binary exponent of a positive rational, from the bit lengths of its numerator and
  denominator.\<close>

definition binary_exponent :: "rat \<Rightarrow> int" where
  "binary_exponent a = (let (n, d) = quotient_of a; e = bitlen n - bitlen d in
     if 2 powi e \<le> a then e else e - 1)"

definition to_double :: "rat \<Rightarrow> rat option" where
  "to_double x = (if x = 0 then Some 0
     else let u = max (binary_exponent \<bar>x\<bar> - 52) (- 1074);
              v = of_int (round_half_even (\<bar>x\<bar> / 2 powi u)) * 2 powi u
          in if v \<ge> 2 powi 1024 then None else Some (sgn x * v))"

text \<open>An underscore stands between two digits.\<close>

fun underscores_ok :: "bool \<Rightarrow> pystr \<Rightarrow> bool" where
  "underscores_ok after_digit [] = True"
| "underscores_ok after_digit (c # cs) =
     (if c = 95 then after_digit \<and> cs \<noteq> [] \<and> is_digit (hd cs) \<and> underscores_ok False cs
      else underscores_ok (is_digit c) cs)"

text \<open>\<open>float(text)\<close> when it is finite.\<close>

definition float_of_text :: "pystr \<Rightarrow> rat option" where
  "float_of_text s = (let t = py_strip s in
     if \<not> underscores_ok False t then None
     else case number_of (filter (\<lambda>c. c \<noteq> 95) t) of None \<Rightarrow> None
       | Some (c, e) \<Rightarrow> to_double (of_int c * 10 powi e))"

text \<open>\<open>v == math.floor(v * 100 + 0.5) / 100\<close>; \<open>math.floor\<close> of an infinity raises.\<close>

definition cii_round2_equal :: "pystr \<Rightarrow> dec_exc + bool" where
  "cii_round2_equal raw = (case float_of_text raw of None \<Rightarrow> Inr False
     | Some v \<Rightarrow> (case to_double (v * 100) of None \<Rightarrow> Inl FloatOverflow
       | Some h \<Rightarrow> (case to_double (h + 1 / 2) of None \<Rightarrow> Inl FloatOverflow
         | Some s \<Rightarrow> Inr (to_double (of_int \<lfloor>s\<rfloor> / 100) = Some v))))"

end
