(* ===== verification/EI_Rules_Doc.thy ===== *)
theory EI_Rules_Doc
  imports EI_Rules_Sums EI_Float
begin

text \<open>
  The remaining document rules of \<open>einvoice/rules.py\<close>: the decimal places
  (\<open>br_dec_*\<close>), the allowance and charge groups (\<open>br_31\<close> to \<open>br_44\<close>), the party,
  payment, reference and item groups (\<open>br_17\<close> to \<open>br_65\<close>), and the conditions on dates,
  periods and identifiers (\<open>br_co_03\<close>, \<open>br_co_09\<close>, \<open>br_co_19\<close> to \<open>br_co_26\<close>).
\<close>

section \<open>Decimal places\<close>

definition dec_violation :: "string \<Rightarrow> string \<Rightarrow> string \<Rightarrow> fmt \<Rightarrow> violation" where
  "dec_violation rule_id bt lab element = Violation rule_id
     [L ''The allowed maximum number of decimals for '', L lab, L '' ('', L bt, L '') is 2.'']
     element"

definition dec_lmt :: "invoice \<Rightarrow> string \<Rightarrow> string \<Rightarrow> string \<Rightarrow> string \<Rightarrow> violation option" where
  "dec_lmt iv rule_id bt lab loc =
     (if 2 < dec_places (case lmt_raw iv loc of None \<Rightarrow> None | Some raw \<Rightarrow> raw)
      then Some (dec_violation rule_id bt lab [L ''cac:LegalMonetaryTotal/cbc:'', L loc])
      else None)"

definition br_dec_01 :: "invoice \<Rightarrow> violation option" where
  "br_dec_01 iv =
     first_some (\<lambda>ac.
       if is_charge ac = Some False \<and> dec_places (amount_raw ac) > 2
       then Some (dec_violation ''BR-DEC-01'' ''BT-92''
           ''the Document level allowance amount''
           [L ''cac:AllowanceCharge/cbc:Amount''])
       else None)
       (doc_allowance_charges iv)"

definition br_dec_02 :: "invoice \<Rightarrow> violation option" where
  "br_dec_02 iv =
     first_some (\<lambda>ac.
       if is_charge ac = Some False \<and> dec_places (base_amount_raw ac) > 2
       then Some (dec_violation ''BR-DEC-02'' ''BT-93''
           ''the Document level allowance base amount''
           [L ''cac:AllowanceCharge/cbc:BaseAmount''])
       else None)
       (doc_allowance_charges iv)"

definition br_dec_05 :: "invoice \<Rightarrow> violation option" where
  "br_dec_05 iv =
     first_some (\<lambda>ac.
       if is_charge ac = Some True \<and> dec_places (amount_raw ac) > 2
       then Some (dec_violation ''BR-DEC-05'' ''BT-99''
           ''the Document level charge amount''
           [L ''cac:AllowanceCharge/cbc:Amount''])
       else None)
       (doc_allowance_charges iv)"

definition br_dec_06 :: "invoice \<Rightarrow> violation option" where
  "br_dec_06 iv =
     first_some (\<lambda>ac.
       if is_charge ac = Some True \<and> dec_places (base_amount_raw ac) > 2
       then Some (dec_violation ''BR-DEC-06'' ''BT-100''
           ''the Document level charge base amount''
           [L ''cac:AllowanceCharge/cbc:BaseAmount''])
       else None)
       (doc_allowance_charges iv)"

definition br_dec_09 :: "invoice \<Rightarrow> violation option" where
  "br_dec_09 iv =
     dec_lmt iv ''BR-DEC-09'' ''BT-106''
       ''the Sum of Invoice line net amount'' ''LineExtensionAmount''"

definition br_dec_10 :: "invoice \<Rightarrow> violation option" where
  "br_dec_10 iv =
     dec_lmt iv ''BR-DEC-10'' ''BT-107''
       ''the Sum of allowances on document level'' ''AllowanceTotalAmount''"

definition br_dec_11 :: "invoice \<Rightarrow> violation option" where
  "br_dec_11 iv =
     dec_lmt iv ''BR-DEC-11'' ''BT-108''
       ''the Sum of charges on document level'' ''ChargeTotalAmount''"

definition br_dec_12 :: "invoice \<Rightarrow> violation option" where
  "br_dec_12 iv =
     dec_lmt iv ''BR-DEC-12'' ''BT-109''
       ''the Invoice total amount without VAT'' ''TaxExclusiveAmount''"

definition cii_matches :: "text_opt \<Rightarrow> pystr list \<Rightarrow> bool" where
  "cii_matches cur codes_raw \<longleftrightarrow> (case cur of None \<Rightarrow> False | Some c \<Rightarrow> c \<in> set codes_raw)"

definition ubl_total_vat_dec_violation ::
    "invoice \<Rightarrow> string \<Rightarrow> string \<Rightarrow> string \<Rightarrow> pystr list \<Rightarrow> violation option" where
  "ubl_total_vat_dec_violation iv rule_id bt lab codes_raw =
     first_some (\<lambda>(cur, raw).
       if (case cur of None \<Rightarrow> False | Some c \<Rightarrow> c \<in> set codes_raw) \<and> 2 < dec_places (Some raw)
       then Some (dec_violation rule_id bt lab [L ''cac:TaxTotal/cbc:TaxAmount'']) else None)
       (taxtotal_amounts_raw iv)"

text \<open>\<open>any(...)\<close> when the test can raise.\<close>

fun anyE :: "('a \<Rightarrow> 'e + bool) \<Rightarrow> 'a list \<Rightarrow> 'e + bool" where
  "anyE p [] = Inr False"
| "anyE p (x # xs) = bindE (p x) (\<lambda>b. if b then Inr True else anyE p xs)"

definition br_dec_13 :: "invoice \<Rightarrow> dec_exc + violation option" where
  "br_dec_13 iv =
     (if inv_syntax iv = CII then
        first_someE (\<lambda>ttas.
          if ttas = [] then Inr None
          else bindE (anyE (\<lambda>(cur, raw).
              bindE (if cii_matches cur (cii_invoice_currency_codes_raw iv)
                     then cii_round2_equal raw else Inr False)
                (\<lambda>b. Inr (b \<or> \<not> cii_matches cur (cii_invoice_currency_codes_raw iv)))) ttas)
            (\<lambda>holds. Inr (if \<not> holds then Some (dec_violation ''BR-DEC-13'' ''BT-110''
                ''the Invoice total VAT amount''
                [L ''ram:SpecifiedTradeSettlementHeaderMonetarySummation/'',
                 L ''ram:TaxTotalAmount'']) else None)))
          (cii_summation_taxtotals iv)
      else Inr (ubl_total_vat_dec_violation iv ''BR-DEC-13'' ''BT-110''
        ''the Invoice total VAT amount'' (document_currency_codes_raw iv)))"

definition br_dec_14 :: "invoice \<Rightarrow> violation option" where
  "br_dec_14 iv =
     dec_lmt iv ''BR-DEC-14'' ''BT-112''
       ''the Invoice total amount with VAT'' ''TaxInclusiveAmount''"

definition br_dec_15 :: "invoice \<Rightarrow> dec_exc + violation option" where
  "br_dec_15 iv =
     (if inv_syntax iv = CII then
        if tax_currency_codes_raw iv = [] then Inr None
        else first_someE (\<lambda>ttas.
          if ttas = [] then Inr None
          else bindE (anyE (\<lambda>(cur, raw).
              if cii_matches cur (tax_currency_codes_raw iv)
              then cii_round2_equal raw else Inr False) ttas)
            (\<lambda>holds. Inr (if \<not> holds then Some (dec_violation ''BR-DEC-15'' ''BT-111''
                ''the Invoice total VAT amount in accounting currency''
                [L ''ram:SpecifiedTradeSettlementHeaderMonetarySummation/'',
                 L ''ram:TaxTotalAmount'']) else None)))
          (cii_summation_taxtotals iv)
      else Inr (ubl_total_vat_dec_violation iv ''BR-DEC-15'' ''BT-111''
        ''the Invoice total VAT amount in accounting currency'' (tax_currency_codes_raw iv)))"

definition br_dec_16 :: "invoice \<Rightarrow> violation option" where
  "br_dec_16 iv =
     dec_lmt iv ''BR-DEC-16'' ''BT-113''
       ''the Paid amount'' ''PrepaidAmount''"

definition br_dec_17 :: "invoice \<Rightarrow> violation option" where
  "br_dec_17 iv =
     dec_lmt iv ''BR-DEC-17'' ''BT-114''
       ''the Rounding amount'' ''PayableRoundingAmount''"

definition br_dec_18 :: "invoice \<Rightarrow> violation option" where
  "br_dec_18 iv =
     dec_lmt iv ''BR-DEC-18'' ''BT-115''
       ''the Amount due for payment'' ''PayableAmount''"

definition br_dec_19 :: "invoice \<Rightarrow> violation option" where
  "br_dec_19 iv =
     first_some (\<lambda>st.
       if dec_places (taxable_amount_raw st) > 2
       then Some (dec_violation ''BR-DEC-19'' ''BT-116''
           ''the VAT category taxable amount''
           [L ''cac:TaxTotal/cac:TaxSubtotal/cbc:TaxableAmount''])
       else None)
       (all_tax_subtotals iv)"

definition br_dec_20 :: "invoice \<Rightarrow> violation option" where
  "br_dec_20 iv =
     first_some (\<lambda>st.
       if dec_places (tax_amount_raw st) > 2
       then Some (dec_violation ''BR-DEC-20'' ''BT-117''
           ''the VAT category tax amount''
           [L ''cac:TaxTotal/cac:TaxSubtotal/cbc:TaxAmount''])
       else None)
       (all_tax_subtotals iv)"

definition br_dec_23 :: "invoice \<Rightarrow> violation option" where
  "br_dec_23 iv =
     first_some (\<lambda>il.
       if dec_places (line_extension_amount_raw il) > 2
       then Some (dec_violation ''BR-DEC-23'' ''BT-131''
           ''the Invoice line net amount''
           ((label il) @ [L ''/cbc:LineExtensionAmount'']))
       else None)
       (inv_lines iv)"

definition br_dec_24 :: "invoice \<Rightarrow> violation option" where
  "br_dec_24 iv =
     first_some (\<lambda>il.
       first_some (\<lambda>ac.
         if is_charge ac = Some False \<and> dec_places (amount_raw ac) > 2
         then Some (dec_violation ''BR-DEC-24'' ''BT-136''
             ''the Invoice line allowance amount''
             ((label il) @ [L ''/cac:AllowanceCharge/cbc:Amount'']))
         else None)
         (line_allowance_charges il))
       (inv_lines iv)"

definition br_dec_25 :: "invoice \<Rightarrow> violation option" where
  "br_dec_25 iv =
     first_some (\<lambda>il.
       first_some (\<lambda>ac.
         if is_charge ac = Some False \<and> dec_places (base_amount_raw ac) > 2
         then Some (dec_violation ''BR-DEC-25'' ''BT-137''
             ''the Invoice line allowance base amount''
             ((label il) @ [L ''/cac:AllowanceCharge/cbc:BaseAmount'']))
         else None)
         (line_allowance_charges il))
       (inv_lines iv)"

definition br_dec_27 :: "invoice \<Rightarrow> violation option" where
  "br_dec_27 iv =
     first_some (\<lambda>il.
       first_some (\<lambda>ac.
         if is_charge ac = Some True \<and> dec_places (amount_raw ac) > 2
         then Some (dec_violation ''BR-DEC-27'' ''BT-141''
             ''the Invoice line charge amount''
             ((label il) @ [L ''/cac:AllowanceCharge/cbc:Amount'']))
         else None)
         (line_allowance_charges il))
       (inv_lines iv)"

definition br_dec_28 :: "invoice \<Rightarrow> violation option" where
  "br_dec_28 iv =
     first_some (\<lambda>il.
       first_some (\<lambda>ac.
         if is_charge ac = Some True \<and> dec_places (base_amount_raw ac) > 2
         then Some (dec_violation ''BR-DEC-28'' ''BT-142''
             ''the Invoice line charge base amount''
             ((label il) @ [L ''/cac:AllowanceCharge/cbc:BaseAmount'']))
         else None)
         (line_allowance_charges il))
       (inv_lines iv)"

section \<open>Allowances and charges\<close>

definition br_31 :: "invoice \<Rightarrow> violation option" where
  "br_31 iv =
     first_some (\<lambda>ac.
       if is_charge ac = Some False \<and> \<not> (has_amount ac)
       then Some (Violation ''BR-31''
           [L ''Each Document level allowance (BG-20) shall have a Document level allowance '',
            L ''amount (BT-92).'']
           [L ''cac:AllowanceCharge/cbc:Amount''])
       else None)
       (doc_allowance_charges iv)"

definition br_32 :: "invoice \<Rightarrow> violation option" where
  "br_32 iv =
     first_some (\<lambda>ac.
       if is_charge ac = Some False \<and> \<not> (has_vat_category_id ac)
       then Some (Violation ''BR-32''
           [L ''Each Document level allowance (BG-20) shall have a Document level allowance '',
            L ''VAT category code (BT-95).'']
           [L ''cac:AllowanceCharge/cac:TaxCategory/cbc:ID''])
       else None)
       (doc_allowance_charges iv)"

definition br_33 :: "invoice \<Rightarrow> violation option" where
  "br_33 iv =
     first_some (\<lambda>ac.
       if is_charge ac = Some False \<and> \<not> (has_reason ac)
       then Some (Violation ''BR-33''
           [L ''Each Document level allowance (BG-20) shall have a Document level allowance '',
            L ''reason (BT-97) or a Document level allowance reason code (BT-98).'']
           [L ''cac:AllowanceCharge/cbc:AllowanceChargeReason''])
       else None)
       (doc_allowance_charges iv)"

definition br_36 :: "invoice \<Rightarrow> violation option" where
  "br_36 iv =
     first_some (\<lambda>ac.
       if is_charge ac = Some True \<and> \<not> (has_amount ac)
       then Some (Violation ''BR-36''
           [L ''Each Document level charge (BG-21) shall have a Document level charge '',
            L ''amount (BT-99).'']
           [L ''cac:AllowanceCharge/cbc:Amount''])
       else None)
       (doc_allowance_charges iv)"

definition br_37 :: "invoice \<Rightarrow> violation option" where
  "br_37 iv =
     first_some (\<lambda>ac.
       if is_charge ac = Some True \<and> \<not> (has_vat_category_id ac)
       then Some (Violation ''BR-37''
           [L ''Each Document level charge (BG-21) shall have a Document level charge VAT '',
            L ''category code (BT-102).'']
           [L ''cac:AllowanceCharge/cac:TaxCategory/cbc:ID''])
       else None)
       (doc_allowance_charges iv)"

definition br_38 :: "invoice \<Rightarrow> violation option" where
  "br_38 iv =
     first_some (\<lambda>ac.
       if is_charge ac = Some True \<and> \<not> (has_reason ac)
       then Some (Violation ''BR-38''
           [L ''Each Document level charge (BG-21) shall have a Document level charge '',
            L ''reason (BT-104) or a Document level charge reason code (BT-105).'']
           [L ''cac:AllowanceCharge/cbc:AllowanceChargeReason''])
       else None)
       (doc_allowance_charges iv)"

definition br_41 :: "invoice \<Rightarrow> violation option" where
  "br_41 iv =
     first_some (\<lambda>il.
       first_some (\<lambda>ac.
         if is_charge ac = Some False \<and> \<not> (has_amount ac)
         then Some (Violation ''BR-41''
             [L ''Each Invoice line allowance (BG-27) shall have an Invoice line allowance '',
              L ''amount (BT-136).'']
             ((label il) @ [L ''/cac:AllowanceCharge/cbc:Amount'']))
         else None)
         (line_allowance_charges il))
       (inv_lines iv)"

definition br_42 :: "invoice \<Rightarrow> violation option" where
  "br_42 iv =
     first_some (\<lambda>il.
       first_some (\<lambda>ac.
         if is_charge ac = Some False \<and> \<not> (has_reason ac)
         then Some (Violation ''BR-42''
             [L ''Each Invoice line allowance (BG-27) shall have an Invoice line allowance '',
              L ''reason (BT-139) or an Invoice line allowance reason code (BT-140).'']
             ((label il) @ [L ''/cac:AllowanceCharge/cbc:AllowanceChargeReason'']))
         else None)
         (line_allowance_charges il))
       (inv_lines iv)"

definition br_43 :: "invoice \<Rightarrow> violation option" where
  "br_43 iv =
     first_some (\<lambda>il.
       first_some (\<lambda>ac.
         if is_charge ac = Some True \<and> \<not> (has_amount ac)
         then Some (Violation ''BR-43''
             [L ''Each Invoice line charge (BG-28) shall have an Invoice line charge amount '',
              L ''(BT-141).'']
             ((label il) @ [L ''/cac:AllowanceCharge/cbc:Amount'']))
         else None)
         (line_allowance_charges il))
       (inv_lines iv)"

definition br_44 :: "invoice \<Rightarrow> violation option" where
  "br_44 iv =
     first_some (\<lambda>il.
       first_some (\<lambda>ac.
         if is_charge ac = Some True \<and> \<not> (has_reason ac)
         then Some (Violation ''BR-44''
             [L ''Each Invoice line charge (BG-28) shall have an Invoice line charge reason '',
              L ''(BT-144) or an Invoice line charge reason code (BT-145).'']
             ((label il) @ [L ''/cac:AllowanceCharge/cbc:AllowanceChargeReason'']))
         else None)
         (line_allowance_charges il))
       (inv_lines iv)"

section \<open>Payees, representatives, payment, references\<close>

definition br_17 :: "invoice \<Rightarrow> violation option" where
  "br_17 iv =
     first_some (\<lambda>pp.
       let holds = payee_names pp \<noteq> []
         \<and> \<not> ((\<exists>n\<in>set (payee_names pp). n \<in> set (payee_seller_names pp)))
         \<and> \<not> ((\<exists>i\<in>set (payee_ids pp). i \<in> set (payee_seller_ids pp)))
         \<and> \<not> ((\<exists>i\<in>set (payee_legal_ids pp). i \<in> set (payee_seller_legal_ids pp))) in
       if \<not> holds then Some (Violation ''BR-17''
           [L ''The Payee name (BT-59) shall be provided in the Invoice, if the Payee '',
            L ''(BG-10) is different from the Seller (BG-4).'']
           [L ''cac:PayeeParty/cac:PartyName/cbc:Name''])
       else None)
       (payee_parties iv)"

definition br_18 :: "invoice \<Rightarrow> violation option" where
  "br_18 iv =
     first_some (\<lambda>trp.
       let name = or_empty (taxrep_name trp) in
       if norm_space name = [] then Some (Violation ''BR-18''
           [L ''The Seller tax representative name (BT-62) shall be provided in the '',
            L ''Invoice, if the Seller (BG-4) has a Seller tax representative party (BG-11).'']
           [L ''cac:TaxRepresentativeParty/cac:PartyName/cbc:Name''])
       else None)
       (tax_representatives iv)"

definition br_19 :: "invoice \<Rightarrow> violation option" where
  "br_19 iv =
     first_some (\<lambda>trp.
       if \<not> (taxrep_has_postal_address trp) then Some (Violation ''BR-19''
           [L ''The Seller tax representative postal address (BG-12) shall be provided in '',
            L ''the Invoice, if the Seller (BG-4) has a Seller tax representative party '',
            L ''(BG-11).'']
           [L ''cac:TaxRepresentativeParty/cac:PostalAddress''])
       else None)
       (tax_representatives iv)"

definition br_20 :: "invoice \<Rightarrow> violation option" where
  "br_20 iv =
     first_some (\<lambda>cc.
       if norm_space (or_empty cc) = [] then Some (Violation ''BR-20''
           [L ''The Seller tax representative postal address (BG-12) shall contain a Tax '',
            L ''representative country code (BT-69), if the Seller (BG-4) has a Seller tax '',
            L ''representative party (BG-11).'']
           [L ''cac:TaxRepresentativeParty/cac:PostalAddress/cac:Country/'',
            L ''cbc:IdentificationCode''])
       else None)
       (taxrep_postal_addresses iv)"

definition br_49 :: "invoice \<Rightarrow> violation option" where
  "br_49 iv =
     first_some (\<lambda>pm.
       if \<not> (pm_has_code pm) then Some (Violation ''BR-49''
           [L ''A Payment instruction (BG-16) shall specify the Payment means type code '',
            L ''(BT-81).'']
           [L ''cac:PaymentMeans/cbc:PaymentMeansCode''])
       else None)
       (payment_means iv)"

definition br_50 :: "invoice \<Rightarrow> violation option" where
  "br_50 iv =
     first_some (\<lambda>pm.
       if \<not> ((\<exists>c\<in>set (pm_codes_raw pm). c \<in> {ascii ''30'', ascii ''58''}))
       then None
       else first_some (\<lambda>first_id.
         if norm_space (or_empty first_id) = [] then Some (Violation ''BR-50''
             [L ''A Payment account identifier (BT-84) shall be present if Credit transfer '',
              L ''(BG-17) information is provided in the Invoice.'']
             [L ''cac:PaymentMeans/cac:PayeeFinancialAccount/cbc:ID''])
         else None)
         (pm_account_first_ids pm))
       (payment_means iv)"

definition br_51 :: "invoice \<Rightarrow> violation option" where
  "br_51 iv =
     first_some (\<lambda>pan.
       if length (norm_space pan) > 10 then Some (with_severity Warning (Violation ''BR-51''
           [L ''In accordance with card payments security standards an invoice should never '',
            L ''include a full card primary account number (BT-87); at most the first 6 and '',
            L ''last 4 digits may be shown.'']
           [L ''cac:PaymentMeans/cac:CardAccount/cbc:PrimaryAccountNumberID'']))
       else None)
       (card_pans iv)"

definition br_55 :: "invoice \<Rightarrow> violation option" where
  "br_55 iv =
     first_some (\<lambda>has_id.
       if \<not> has_id then Some (Violation ''BR-55''
           [L ''Each Preceding Invoice reference (BG-3) shall contain a Preceding Invoice '',
            L ''reference (BT-25).'']
           [L ''cac:BillingReference/cac:InvoiceDocumentReference/cbc:ID''])
       else None)
       (billing_references iv)"

definition br_57 :: "invoice \<Rightarrow> violation option" where
  "br_57 iv =
     first_some (\<lambda>has_cc.
       if \<not> has_cc then Some (Violation ''BR-57''
           [L ''Each Deliver to address (BG-15) shall contain a Deliver to country code '',
            L ''(BT-80).'']
           [L ''cac:Delivery/cac:DeliveryLocation/cac:Address/cac:Country/'',
            L ''cbc:IdentificationCode''])
       else None)
       (delivery_addresses iv)"

definition br_61 :: "invoice \<Rightarrow> violation option" where
  "br_61 iv =
     (if inv_syntax iv = CII then first_some (\<lambda>pm.
          if \<not> ((\<exists>c\<in>set (pm_codes_raw pm). c \<in> {ascii ''30'', ascii ''58''}))
          then None
          else first_some (\<lambda>first_id.
            if first_id = None then Some (Violation ''BR-61''
                [L ''If the Payment means type code (BT-81) means credit transfer, the Payment '',
                 L ''account identifier (BT-84) shall be present.'']
                [L ''ram:SpecifiedTradeSettlementPaymentMeans/'',
                 L ''ram:PayeePartyCreditorFinancialAccount/ram:IBANID''])
            else None)
            (pm_account_first_ids pm))
          (payment_means iv)
      else first_some (\<lambda>pm.
        if pm_code_norm pm \<in> {ascii ''30'', ascii ''58''} \<and> \<not> (pm_has_account_id pm)
        then Some (Violation ''BR-61''
            [L ''If the Payment means type code (BT-81='', S (pm_code_norm pm),
             L '') means credit transfer, the Payment account identifier (BT-84) shall be '',
             L ''present.'']
            [L ''cac:PaymentMeans/cac:PayeeFinancialAccount/cbc:ID''])
        else None)
        (payment_means iv))"

definition br_62 :: "invoice \<Rightarrow> violation option" where
  "br_62 iv =
     first_some (\<lambda>has_scheme.
       if \<not> has_scheme then Some (Violation ''BR-62''
           [L ''The Seller electronic address (BT-34) shall have a Scheme identifier.'']
           [L ''cac:AccountingSupplierParty/cac:Party/cbc:EndpointID/@schemeID''])
       else None)
       (seller_endpoints iv)"

definition br_63 :: "invoice \<Rightarrow> violation option" where
  "br_63 iv =
     first_some (\<lambda>has_scheme.
       if \<not> has_scheme then Some (Violation ''BR-63''
           [L ''The Buyer electronic address (BT-49) shall have a Scheme identifier.'']
           [L ''cac:AccountingCustomerParty/cac:Party/cbc:EndpointID/@schemeID''])
       else None)
       (buyer_endpoints iv)"

section \<open>Supporting documents, items, VAT points and identifiers\<close>

text \<open>The prefixes of BR-CO-09, one space-separated string per binding.\<close>

definition BR_CO_09_UBL_LIST :: pystr where
  "BR_CO_09_UBL_LIST =
     ascii '' 1A AD AE AF AG AI AL AM AO AQ AR AS AT AU AW AX AZ BA BB BD BE '' @
     ascii ''BF BG BH BI BJ BL BM BN BO BQ BR BS BT BV BW BY BZ CA CC CD CF '' @
     ascii ''CG CH CI CK CL CM CN CO CR CU CV CW CX CY CZ DE DJ DK DM DO DZ '' @
     ascii ''EC EE EG EH EL ER ES ET FI FJ FK FM FO FR GA GB GD GE GF GG GH '' @
     ascii ''GI GL GM GN GP GQ GR GS GT GU GW GY HK HM HN HR HT HU ID IE IL '' @
     ascii ''IM IN IO IQ IR IS IT JE JM JO JP KE KG KH KI KM KN KP KR KW KY '' @
     ascii ''KZ LA LB LC LI LK LR LS LT LU LV LY MA MC MD ME MF MG MH MK ML '' @
     ascii ''MM MN MO MP MQ MR MS MT MU MV MW MX MY MZ NA NC NE NF NG NI NL '' @
     ascii ''NO NP NR NU NZ OM PA PE PF PG PH PK PL PM PN PR PS PT PW PY QA '' @
     ascii ''RE RO RS RU RW SA SB SC SD SE SG SH SI SJ SK SL SM SN SO SR SS '' @
     ascii ''ST SV SX SY SZ TC TD TF TG TH TJ TK TL TM TN TO TR TT TV TW TZ '' @
     ascii ''UA UG UM US UY UZ VA VC VE VG VI VN VU WF WS XI YE YT ZA ZM ZW ''"

definition BR_CO_09_CII_LIST :: pystr where
  "BR_CO_09_CII_LIST =
     ascii '' 1A AD AE AF AG AI AL AM AN AO AQ AR AS AT AU AW AX AZ BA BB BD '' @
     ascii ''BE BF BG BH BI BL BJ BM BN BO BQ BR BS BT BV BW BY BZ CA CC CD '' @
     ascii ''CF CG CH CI CK CL CM CN CO CR CU CV CW CX CY CZ DE DJ DK DM DO '' @
     ascii ''DZ EC EE EG EH EL ER ES ET FI FJ FK FM FO FR GA GB GD GE GF GG '' @
     ascii ''GH GI GL GM GN GP GQ GR GS GT GU GW GY HK HM HN HR HT HU ID IE '' @
     ascii ''IL IM IN IO IQ IR IS IT JE JM JO JP KE KG KH KI KM KN KP KR KW '' @
     ascii ''KY KZ LA LB LC LI LK LR LS LT LU LV LY MA MC MD ME MF MG MH MK '' @
     ascii ''ML MM MN MO MP MQ MR MS MT MU MV MW MX MY MZ NA NC NE NF NG NI '' @
     ascii ''NL NO NP NR NU NZ OM PA PE PF PG PH PK PL PM PN PR PS PT PW PY '' @
     ascii ''QA RE RO RS RU RW SA SB SC SD SE SG SH SI SJ SK SL SM SN SO SR '' @
     ascii ''ST SV SX SY SZ TC TD TF TG TH TJ TK TL TM TN TO TR TT TV TW TZ '' @
     ascii ''UA UG UM US UY UZ VA VC VE VG VI VN VU WF WS XI YE YT ZA ZM ZW ''"

definition br_23 :: "invoice \<Rightarrow> violation option" where
  "br_23 iv =
     first_some (\<lambda>il.
       if \<not> (has_quantity_unit_code il) then Some (Violation ''BR-23''
           [L ''An Invoice line (BG-25) shall have an Invoiced quantity unit of measure '',
            L ''code (BT-130).'']
           ((label il) @ [L ''/cbc:InvoicedQuantity/@unitCode'']))
       else None)
       (inv_lines iv)"

definition br_52 :: "invoice \<Rightarrow> violation option" where
  "br_52 iv =
     first_some (\<lambda>ref.
       if ref = [] then Some (Violation ''BR-52''
           [L ''Each Additional supporting document (BG-24) shall contain a Supporting '',
            L ''document reference (BT-122).'']
           [L ''cac:AdditionalDocumentReference/cbc:ID''])
       else None)
       (supporting_doc_refs iv)"

definition br_53 :: "invoice \<Rightarrow> violation option" where
  "br_53 iv =
     (if tax_currency_codes_raw iv = [] then None
      else if inv_syntax iv = CII then first_some (\<lambda>currencies.
          let matched = (\<exists>c\<in>set (currencies). c \<in> set (tax_currency_codes_raw iv)) in
          let tcc_is_icc =
            (\<exists>t\<in>set (tax_currency_codes_raw iv). t \<in> set (cii_invoice_currency_codes_raw iv)) in
          if \<not> matched \<or> tcc_is_icc then Some (Violation ''BR-53''
              [L ''If the VAT accounting currency code (BT-6) is present, then the Invoice '',
               L ''total VAT amount in accounting currency (BT-111) shall be provided.'']
              [L ''ram:SpecifiedTradeSettlementHeaderMonetarySummation/ram:TaxTotalAmount/'',
               L ''@currencyID''])
          else None)
          (cii_summation_taxtotal_currencies iv)
      else first_some (\<lambda>tcc.
        if tcc \<notin> set (taxtotal_amount_currencies iv) then Some (Violation ''BR-53''
            [L ''If the VAT accounting currency code (BT-6) is present, then the Invoice '',
             L ''total VAT amount in accounting currency (BT-111) shall be provided.'']
            [L ''cac:TaxTotal/cbc:TaxAmount/@currencyID''])
        else None)
        (tax_currency_codes_raw iv))"

definition br_54 :: "invoice \<Rightarrow> violation option" where
  "br_54 iv =
     first_some (\<lambda>(has_name, has_value).
       if \<not> (has_name \<and> has_value) then Some (Violation ''BR-54''
           [L ''Each Item attribute (BG-32) shall contain an Item attribute name (BT-160) '',
            L ''and an Item attribute value (BT-161).'']
           [L ''cac:AdditionalItemProperty''])
       else None)
       (item_attributes iv)"

definition br_56 :: "invoice \<Rightarrow> violation option" where
  "br_56 iv =
     first_some (\<lambda>ok.
       if \<not> ok then Some (Violation ''BR-56''
           [L ''Each Seller tax representative party (BG-11) shall have a Seller tax '',
            L ''representative VAT identifier (BT-63).'']
           [L ''cac:TaxRepresentativeParty/cac:PartyTaxScheme/cbc:CompanyID''])
       else None)
       (taxrep_vat_ids_ok iv)"

definition br_64 :: "invoice \<Rightarrow> violation option" where
  "br_64 iv =
     first_some (\<lambda>ok.
       if \<not> ok then Some (Violation ''BR-64''
           [L ''The Item standard identifier (BT-157) shall have a Scheme identifier.'']
           [L ''cac:StandardItemIdentification/cbc:ID/@schemeID''])
       else None)
       (item_std_ids_scheme_ok iv)"

definition br_65 :: "invoice \<Rightarrow> violation option" where
  "br_65 iv =
     first_some (\<lambda>ok.
       if \<not> ok then Some (Violation ''BR-65''
           [L ''The Item classification identifier (BT-158) shall have a Scheme identifier.'']
           [L ''cac:CommodityClassification/cbc:ItemClassificationCode/@listID''])
       else None)
       (item_class_ids_scheme_ok iv)"

definition br_co_03 :: "invoice \<Rightarrow> violation option" where
  "br_co_03 iv =
     (if \<not> (has_tax_point_date iv \<and> has_tax_point_date_code iv) then None
      else if inv_syntax iv = CII \<and> all_tax_subtotals iv = [] then None
      else Some (Violation ''BR-CO-03''
        [L ''Value added tax point date (BT-7) and Value added tax point date code '',
         L ''(BT-8) are mutually exclusive.'']
        [L ''cbc:TaxPointDate'']))"

definition br_co_09 :: "invoice \<Rightarrow> violation option" where
  "br_co_09 iv =
     (if inv_syntax iv = CII then first_some (\<lambda>prefix.
          if \<not> substring_of (ascii '' '' @ prefix @ ascii '' '') BR_CO_09_CII_LIST
          then Some (Violation ''BR-CO-09''
              [L ''The Seller VAT identifier (BT-31), the Seller tax representative VAT '',
               L ''identifier (BT-63) and the Buyer VAT identifier (BT-48) shall have a prefix '',
               L ''in accordance with ISO code ISO 3166-1 alpha-2 by which the country of '',
               L ''issue may be identified. Nevertheless, Greece may use the prefix 'EL'.'']
              [L ''ram:SpecifiedTaxRegistration/ram:ID''])
          else None)
          (vat_id_prefixes iv)
      else first_some (\<lambda>prefix.
        if \<not> substring_of prefix BR_CO_09_UBL_LIST then Some (Violation ''BR-CO-09''
            [L ''The Seller VAT identifier (BT-31), the Seller tax representative VAT '',
             L ''identifier (BT-63) and the Buyer VAT identifier (BT-48) shall have a prefix '',
             L ''in accordance with ISO code ISO 3166-1 alpha-2 by which the country of '',
             L ''issue may be identified. Nevertheless, Greece may use the prefix 'EL'.'']
            [L ''cac:PartyTaxScheme/cbc:CompanyID''])
        else None)
        (vat_id_prefixes iv))"

definition br_co_19 :: "invoice \<Rightarrow> violation option" where
  "br_co_19 iv =
     first_some (\<lambda>filled.
       if \<not> filled then Some (Violation ''BR-CO-19''
           [L ''If Invoicing period (BG-14) is used, the Invoicing period start date '',
            L ''(BT-73) or the Invoicing period end date (BT-74) shall be filled, or both.'']
           [L ''cac:InvoicePeriod''])
       else None)
       (invoice_period_filled iv)"

definition br_co_20 :: "invoice \<Rightarrow> violation option" where
  "br_co_20 iv =
     first_some (\<lambda>filled.
       if \<not> filled then Some (Violation ''BR-CO-20''
           [L ''If Invoice line period (BG-26) is used, the Invoice line period start date '',
            L ''(BT-134) or the Invoice line period end date (BT-135) shall be filled, or '',
            L ''both.'']
           [L ''cac:InvoiceLine/cac:InvoicePeriod''])
       else None)
       (line_period_filled iv)"

definition br_co_21 :: "invoice \<Rightarrow> violation option" where
  "br_co_21 iv =
     first_some (\<lambda>ac.
       if is_charge ac = Some False \<and> \<not> (has_reason ac)
       then Some (Violation ''BR-CO-21''
           [L ''Each Document level allowance (BG-20) shall contain a Document level '',
            L ''allowance reason (BT-97) or a Document level allowance reason code (BT-98), '',
            L ''or both.'']
           [L ''cac:AllowanceCharge/cbc:AllowanceChargeReason''])
       else None)
       (doc_allowance_charges iv)"

definition br_co_22 :: "invoice \<Rightarrow> violation option" where
  "br_co_22 iv =
     first_some (\<lambda>ac.
       if is_charge ac = Some True \<and> \<not> (has_reason ac)
       then Some (Violation ''BR-CO-22''
           [L ''Each Document level charge (BG-21) shall contain a Document level charge '',
            L ''reason (BT-104) or a Document level charge reason code (BT-105), or both.'']
           [L ''cac:AllowanceCharge/cbc:AllowanceChargeReason''])
       else None)
       (doc_allowance_charges iv)"

definition br_co_23 :: "invoice \<Rightarrow> violation option" where
  "br_co_23 iv =
     first_some (\<lambda>il.
       first_some (\<lambda>ac.
         if is_charge ac = Some False \<and> \<not> (has_reason ac)
         then Some (Violation ''BR-CO-23''
             [L ''Each Invoice line allowance (BG-27) shall contain an Invoice line allowance '',
              L ''reason (BT-139) or an Invoice line allowance reason code (BT-140), or both.'']
             ((label il) @ [L ''/cac:AllowanceCharge/cbc:AllowanceChargeReason'']))
         else None)
         (line_allowance_charges il))
       (inv_lines iv)"

definition br_co_24 :: "invoice \<Rightarrow> violation option" where
  "br_co_24 iv =
     first_some (\<lambda>il.
       first_some (\<lambda>ac.
         if is_charge ac = Some True \<and> \<not> (has_reason ac)
         then Some (Violation ''BR-CO-24''
             [L ''Each Invoice line charge (BG-28) shall contain an Invoice line charge '',
              L ''reason (BT-144) or an Invoice line charge reason code (BT-145), or both.'']
             ((label il) @ [L ''/cac:AllowanceCharge/cbc:AllowanceChargeReason'']))
         else None)
         (line_allowance_charges il))
       (inv_lines iv)"

definition br_co_26 :: "invoice \<Rightarrow> violation option" where
  "br_co_26 iv =
     first_some (\<lambda>ok.
       if \<not> ok then Some (Violation ''BR-CO-26''
           [L ''In order for the buyer to automatically identify a supplier, the Seller '',
            L ''identifier (BT-29), the Seller legal registration identifier (BT-30) and/or '',
            L ''the Seller VAT identifier (BT-31) shall be present.'']
           [L ''cac:AccountingSupplierParty/cac:Party/cac:PartyIdentification/cbc:ID''])
       else None)
       (seller_identification_ok iv)"

lemmas doc_rule_defs [rule_defs] =
    dec_lmt_def br_dec_01_def br_dec_02_def br_dec_05_def br_dec_06_def br_dec_09_def
    br_dec_10_def br_dec_11_def br_dec_12_def ubl_total_vat_dec_violation_def br_dec_13_def
    br_dec_14_def br_dec_15_def br_dec_16_def br_dec_17_def br_dec_18_def br_dec_19_def
    br_dec_20_def br_dec_23_def br_dec_24_def br_dec_25_def br_dec_27_def br_dec_28_def br_31_def
    br_32_def br_33_def br_36_def br_37_def br_38_def br_41_def br_42_def br_43_def br_44_def
    br_17_def br_18_def br_19_def br_20_def br_49_def br_50_def br_51_def br_55_def br_57_def
    br_61_def br_62_def br_63_def br_23_def br_52_def br_53_def br_54_def br_56_def br_64_def
    br_65_def br_co_03_def br_co_09_def br_co_19_def br_co_20_def br_co_21_def br_co_22_def
    br_co_23_def br_co_24_def br_co_26_def

end
