(* ===== verification/EI_Rules.thy ===== *)
theory EI_Rules
  imports EI_Rules_Core EI_Rules_Codes EI_Rules_Sums EI_Rules_Vat EI_Rules_Doc
begin

text \<open>
  The ruleset of \<open>einvoice/rules.py\<close> as a list in evaluation order (\<open>ALL_RULES\<close>), and
  its evaluation on one invoice: every rule runs, an exception of one ends the run.
\<close>

type_synonym rule = "invoice \<Rightarrow> dec_exc + violation option"

definition pure :: "(invoice \<Rightarrow> violation option) \<Rightarrow> rule" where
  "pure r = (\<lambda>iv. Inr (r iv))"

lemma pure_apply [simp, rule_simps]: "pure r iv = Inr (r iv)"
  by (simp add: pure_def)

definition ALL_RULES :: "bool \<Rightarrow> rule list" where
  "ALL_RULES py311 =
   [pure br_01, pure br_02, pure br_03, pure br_04, pure br_05, pure br_06, pure br_07,
    pure br_08, pure br_09, pure br_10, pure br_11, pure br_12, pure br_13, pure br_14,
    pure br_15, pure br_16, pure br_17, pure br_18, pure br_19, pure br_20, pure br_21,
    pure br_22, pure br_23, pure br_24, pure br_25, pure br_26, pure br_27, pure br_28,
    pure (br_29 py311), pure (br_30 py311), pure br_31, pure br_32, pure br_33, pure br_36,
    pure br_37, pure br_38, pure br_41, pure br_42, pure br_43, pure br_44, pure br_49,
    pure br_50, pure br_51, pure br_52, pure br_53, pure br_54, pure br_55, pure br_56,
    pure br_57, pure br_61, pure br_62, pure br_63, pure br_64, pure br_65, pure br_cl_01,
    pure br_cl_03, pure br_cl_04, pure br_cl_05, pure br_cl_06, pure br_cl_07, pure br_cl_08,
    pure br_cl_10, pure br_cl_11, pure br_cl_13, pure br_cl_14, pure br_cl_15, pure br_cl_16,
    pure br_cl_17, pure br_cl_18, pure br_cl_19, pure br_cl_20, pure br_cl_21, pure br_cl_22,
    pure br_cl_23, pure br_cl_24, pure br_cl_25, pure br_cl_26, pure br_co_03, pure br_co_04,
    pure br_co_09, br_co_10, br_co_11, br_co_12, br_co_13, br_co_14, br_co_15, br_co_16,
    br_co_17, pure br_co_18, pure br_co_19, pure br_co_20, pure br_co_21, pure br_co_22,
    pure br_co_23, pure br_co_24, pure br_co_26, pure br_45, pure br_46, pure br_47,
    pure br_48, pure br_s_01, pure br_z_01, pure br_s_02, pure br_s_03, pure br_s_04,
    pure br_s_05, pure br_s_06, pure br_s_07, br_s_08, br_s_09, pure br_s_10, pure br_z_02,
    pure br_z_03, pure br_z_04, pure br_z_05, pure br_z_06, pure br_z_07, br_z_08,
    pure br_z_09, pure br_z_10, pure br_e_02, pure br_e_03, pure br_e_04, pure br_e_05,
    pure br_e_06, pure br_e_07, br_e_08, pure br_e_09, pure br_e_10, pure br_ae_02,
    pure br_ae_03, pure br_ae_04, pure br_ae_05, pure br_ae_06, pure br_ae_07, br_ae_08,
    pure br_ae_09, pure br_ae_10, pure br_ic_02, pure br_ic_03, pure br_ic_04, pure br_ic_05,
    pure br_ic_06, pure br_ic_07, br_ic_08, pure br_ic_09, pure br_ic_10, pure br_ic_11,
    pure br_ic_12, pure br_g_02, pure br_g_03, pure br_g_04, pure br_g_05, pure br_g_06,
    pure br_g_07, br_g_08, pure br_g_09, pure br_g_10, pure br_o_02, pure br_o_03,
    pure br_o_04, pure br_o_05, pure br_o_06, pure br_o_07, br_o_08, pure br_o_09,
    pure br_o_10, pure br_o_11, pure br_o_12, pure br_o_13, pure br_o_14, pure br_af_01,
    pure br_af_02, pure br_af_03, pure br_af_04, pure br_af_05, pure br_af_06, pure br_af_07,
    br_af_08, br_af_09, pure br_af_10, pure br_ag_01, pure br_ag_02, pure br_ag_03,
    pure br_ag_04, pure br_ag_05, pure br_ag_06, pure br_ag_07, br_ag_08, br_ag_09,
    pure br_ag_10, pure br_b_01, pure br_b_02, pure br_ae_01, pure br_e_01, pure br_g_01,
    pure br_ic_01, pure br_o_01, pure br_dec_01, pure br_dec_02, pure br_dec_05,
    pure br_dec_06, pure br_dec_09, pure br_dec_10, pure br_dec_11, pure br_dec_12, br_dec_13,
    pure br_dec_14, br_dec_15, pure br_dec_16, pure br_dec_17, pure br_dec_18, pure br_dec_19,
    pure br_dec_20, pure br_dec_23, pure br_dec_24, pure br_dec_25, pure br_dec_27,
    pure br_dec_28]"

section \<open>Evaluating the ruleset\<close>

text \<open>The loop of \<open>validate_root\<close> and \<open>cii_violations\<close>: every rule is called on the
  invoice, what is not \<open>None\<close> is kept, an exception propagates.\<close>

fun run_rules :: "rule list \<Rightarrow> invoice \<Rightarrow> dec_exc + violation list" where
  "run_rules [] iv = Inr []"
| "run_rules (r # rs) iv = bindE (r iv) (\<lambda>v. bindE (run_rules rs iv) (\<lambda>vs.
     Inr (case v of None \<Rightarrow> vs | Some x \<Rightarrow> x # vs)))"

text \<open>\<open>Result.ok\<close> (and \<open>valid\<close>), \<open>Result.first\<close>.\<close>

definition result_ok :: "violation list \<Rightarrow> bool" where
  "result_ok vs \<longleftrightarrow> \<not> (\<exists>v\<in>set vs. v_severity v = Fatal)"

definition result_first :: "violation list \<Rightarrow> violation option" where
  "result_first vs = (case vs of [] \<Rightarrow> None | v # _ \<Rightarrow> Some v)"

section \<open>The identifiers of the findings\<close>

text \<open>The identifier each rule of \<open>ALL_RULES\<close> reports under, in order.\<close>

definition RULE_IDS :: "string list" where
  "RULE_IDS =
   [''BR-01'', ''BR-02'', ''BR-03'', ''BR-04'', ''BR-05'', ''BR-06'', ''BR-07'', ''BR-08'',
    ''BR-09'', ''BR-10'', ''BR-11'', ''BR-12'', ''BR-13'', ''BR-14'', ''BR-15'', ''BR-16'',
    ''BR-17'', ''BR-18'', ''BR-19'', ''BR-20'', ''BR-21'', ''BR-22'', ''BR-23'', ''BR-24'',
    ''BR-25'', ''BR-26'', ''BR-27'', ''BR-28'', ''BR-29'', ''BR-30'', ''BR-31'', ''BR-32'',
    ''BR-33'', ''BR-36'', ''BR-37'', ''BR-38'', ''BR-41'', ''BR-42'', ''BR-43'', ''BR-44'',
    ''BR-49'', ''BR-50'', ''BR-51'', ''BR-52'', ''BR-53'', ''BR-54'', ''BR-55'', ''BR-56'',
    ''BR-57'', ''BR-61'', ''BR-62'', ''BR-63'', ''BR-64'', ''BR-65'', ''BR-CL-01'', ''BR-CL-03'',
    ''BR-CL-04'', ''BR-CL-05'', ''BR-CL-06'', ''BR-CL-07'', ''BR-CL-08'', ''BR-CL-10'',
    ''BR-CL-11'', ''BR-CL-13'', ''BR-CL-14'', ''BR-CL-15'', ''BR-CL-16'', ''BR-CL-17'',
    ''BR-CL-18'', ''BR-CL-19'', ''BR-CL-20'', ''BR-CL-21'', ''BR-CL-22'', ''BR-CL-23'',
    ''BR-CL-24'', ''BR-CL-25'', ''BR-CL-26'', ''BR-CO-03'', ''BR-CO-04'', ''BR-CO-09'',
    ''BR-CO-10'', ''BR-CO-11'', ''BR-CO-12'', ''BR-CO-13'', ''BR-CO-14'', ''BR-CO-15'',
    ''BR-CO-16'', ''BR-CO-17'', ''BR-CO-18'', ''BR-CO-19'', ''BR-CO-20'', ''BR-CO-21'',
    ''BR-CO-22'', ''BR-CO-23'', ''BR-CO-24'', ''BR-CO-26'', ''BR-45'', ''BR-46'', ''BR-47'',
    ''BR-48'', ''BR-S-01'', ''BR-Z-01'', ''BR-S-02'', ''BR-S-03'', ''BR-S-04'', ''BR-S-05'',
    ''BR-S-06'', ''BR-S-07'', ''BR-S-08'', ''BR-S-09'', ''BR-S-10'', ''BR-Z-02'', ''BR-Z-03'',
    ''BR-Z-04'', ''BR-Z-05'', ''BR-Z-06'', ''BR-Z-07'', ''BR-Z-08'', ''BR-Z-09'', ''BR-Z-10'',
    ''BR-E-02'', ''BR-E-03'', ''BR-E-04'', ''BR-E-05'', ''BR-E-06'', ''BR-E-07'', ''BR-E-08'',
    ''BR-E-09'', ''BR-E-10'', ''BR-AE-02'', ''BR-AE-03'', ''BR-AE-04'', ''BR-AE-05'',
    ''BR-AE-06'', ''BR-AE-07'', ''BR-AE-08'', ''BR-AE-09'', ''BR-AE-10'', ''BR-IC-02'',
    ''BR-IC-03'', ''BR-IC-04'', ''BR-IC-05'', ''BR-IC-06'', ''BR-IC-07'', ''BR-IC-08'',
    ''BR-IC-09'', ''BR-IC-10'', ''BR-IC-11'', ''BR-IC-12'', ''BR-G-02'', ''BR-G-03'',
    ''BR-G-04'', ''BR-G-05'', ''BR-G-06'', ''BR-G-07'', ''BR-G-08'', ''BR-G-09'', ''BR-G-10'',
    ''BR-O-02'', ''BR-O-03'', ''BR-O-04'', ''BR-O-05'', ''BR-O-06'', ''BR-O-07'', ''BR-O-08'',
    ''BR-O-09'', ''BR-O-10'', ''BR-O-11'', ''BR-O-12'', ''BR-O-13'', ''BR-O-14'', ''BR-AF-01'',
    ''BR-AF-02'', ''BR-AF-03'', ''BR-AF-04'', ''BR-AF-05'', ''BR-AF-06'', ''BR-AF-07'',
    ''BR-AF-08'', ''BR-AF-09'', ''BR-AF-10'', ''BR-AG-01'', ''BR-AG-02'', ''BR-AG-03'',
    ''BR-AG-04'', ''BR-AG-05'', ''BR-AG-06'', ''BR-AG-07'', ''BR-AG-08'', ''BR-AG-09'',
    ''BR-AG-10'', ''BR-B-01'', ''BR-B-02'', ''BR-AE-01'', ''BR-E-01'', ''BR-G-01'', ''BR-IC-01'',
    ''BR-O-01'', ''BR-DEC-01'', ''BR-DEC-02'', ''BR-DEC-05'', ''BR-DEC-06'', ''BR-DEC-09'',
    ''BR-DEC-10'', ''BR-DEC-11'', ''BR-DEC-12'', ''BR-DEC-13'', ''BR-DEC-14'', ''BR-DEC-15'',
    ''BR-DEC-16'', ''BR-DEC-17'', ''BR-DEC-18'', ''BR-DEC-19'', ''BR-DEC-20'', ''BR-DEC-23'',
    ''BR-DEC-24'', ''BR-DEC-25'', ''BR-DEC-27'', ''BR-DEC-28'']"

definition severity_of :: "string \<Rightarrow> severity" where
  "severity_of rid = (if rid = ''BR-51'' then Warning else Fatal)"

text \<open>
  \<open>reports rid sev r\<close>: if the result \<open>r\<close> of a rule is a finding, it has the identifier
  \<open>rid\<close>, the severity \<open>sev\<close> and no insertion point; \<open>reportsE\<close> is the same for a rule that can
  raise.
\<close>

definition reports :: "string \<Rightarrow> severity \<Rightarrow> violation option \<Rightarrow> bool" where
  "reports rid sev r \<longleftrightarrow> (\<forall>v. r = Some v \<longrightarrow>
     v_rule_id v = rid \<and> v_severity v = sev \<and> v_insertion_point_line v = None)"

definition reportsE :: "string \<Rightarrow> severity \<Rightarrow> dec_exc + violation option \<Rightarrow> bool" where
  "reportsE rid sev m \<longleftrightarrow> (\<forall>r. m = Inr r \<longrightarrow> reports rid sev r)"

named_theorems reports_intros \<open>what a rule built from the control structures reports\<close>

lemma reports_basic [reports_intros]:
  "reports rid sev None"
  "rid \<noteq> ''BR-51'' \<Longrightarrow> reports rid (severity_of rid) (Some (Violation rid m e))"
  "rid \<noteq> ''BR-51'' \<Longrightarrow>
     reports rid (severity_of rid) (Some (at_line l (Violation rid m e)))"
  "reports ''BR-51'' (severity_of ''BR-51'')
     (Some (with_severity Warning (Violation ''BR-51'' m e)))"
  by (simp_all add: reports_def severity_of_def Violation_def at_line_def with_severity_def)

lemma reports_helpers [reports_intros]:
  "rid \<noteq> ''BR-51'' \<Longrightarrow>
     reports rid (severity_of rid) (Some (dec_violation rid bt lab el))"
  "rid \<noteq> ''BR-51'' \<Longrightarrow>
     reports rid (severity_of rid) (Some (rate_sum_violation rid name bucket st))"
  by (simp_all add: reports_def severity_of_def dec_violation_def rate_sum_violation_def Violation_def)

lemma reports_if [reports_intros]:
  "reports rid sev a \<Longrightarrow> reports rid sev b \<Longrightarrow> reports rid sev (if c then a else b)"
  by simp

lemma reports_option [reports_intros]:
  "reports rid sev a \<Longrightarrow> (\<And>x. reports rid sev (f x)) \<Longrightarrow> reports rid sev (case_option a f y)"
  by (cases y) simp_all

lemma reports_orelse [reports_intros]:
  "reports rid sev y \<Longrightarrow> reports rid sev a \<Longrightarrow> reports rid sev (case_option a Some y)"
  by (cases y) simp_all

lemma reports_prod [reports_intros]:
  "(\<And>x y. reports rid sev (f x y)) \<Longrightarrow> reports rid sev (case_prod f p)"
  by (cases p) simp

lemma reports_first [reports_intros]:
  "(\<And>x. reports rid sev (f x)) \<Longrightarrow> reports rid sev (first_some f xs)"
  unfolding reports_def by (metis first_some_SomeD)

lemma reportsE_Inr [reports_intros]: "reports rid sev r \<Longrightarrow> reportsE rid sev (Inr r)"
  by (simp add: reportsE_def)

lemma reportsE_Inl [reports_intros]: "reportsE rid sev (Inl e)"
  by (simp add: reportsE_def)

lemma reportsE_bind [reports_intros]:
  "(\<And>x. reportsE rid sev (f x)) \<Longrightarrow> reportsE rid sev (bindE m f)"
  by (cases m) (simp_all add: reportsE_def bindE_def)

lemma reportsE_if [reports_intros]:
  "reportsE rid sev a \<Longrightarrow> reportsE rid sev b \<Longrightarrow> reportsE rid sev (if c then a else b)"
  by simp

lemma reportsE_option [reports_intros]:
  "reportsE rid sev a \<Longrightarrow> (\<And>x. reportsE rid sev (f x)) \<Longrightarrow> reportsE rid sev (case_option a f y)"
  by (cases y) simp_all

lemma reportsE_prod [reports_intros]:
  "(\<And>x y. reportsE rid sev (f x y)) \<Longrightarrow> reportsE rid sev (case_prod f p)"
  by (cases p) simp

lemma first_someE_SomeD: "first_someE f xs = Inr (Some v) \<Longrightarrow> \<exists>x\<in>set xs. f x = Inr (Some v)"
  by (induction xs) (auto simp: bindE_def split: sum.splits option.splits)

lemma reportsE_first [reports_intros]:
  "(\<And>x. reportsE rid sev (f x)) \<Longrightarrow> reportsE rid sev (first_someE f xs)"
  unfolding reportsE_def reports_def by (metis first_someE_SomeD)

abbreviation reports_all :: "string list \<Rightarrow> rule list \<Rightarrow> bool" where
  "reports_all \<equiv> list_all2 (\<lambda>rid r. \<forall>iv. reportsE rid (severity_of rid) (r iv))"

lemma reports_all_Cons:
  "(\<And>iv. reportsE rid (severity_of rid) (r iv)) \<Longrightarrow> reports_all rids rs \<Longrightarrow>
   reports_all (rid # rids) (r # rs)"
  by simp

lemma reports_all_rules: "reports_all RULE_IDS (ALL_RULES py311)"
  unfolding RULE_IDS_def ALL_RULES_def pure_apply
  by (intro reports_all_Cons list_all2_Nil [THEN iffD2] refl conjI;
      unfold pure_apply Let_def rule_defs; intro reports_intros; simp)


end
