(* ===== verification/EI_Tame.thy ===== *)
theory EI_Tame
  imports EI_Float
begin

text \<open>
  When the arithmetic of \<open>EI_Decimal\<close> and \<open>EI_Float\<close> does not raise: total-correctness rules
  for results that can raise, bounds on decimals that every operation keeps, and the rules of
  the operations under these bounds.
\<close>

section \<open>Results that do not raise\<close>

text \<open>\<open>returns m P\<close>: \<open>m\<close> is a value, not an exception, and the value satisfies \<open>P\<close>.\<close>

definition returns :: "'e + 'a \<Rightarrow> ('a \<Rightarrow> bool) \<Rightarrow> bool" where
  "returns m P \<longleftrightarrow> (\<exists>r. m = Inr r \<and> P r)"

lemma returns_Inr [simp]: "returns (Inr r) P \<longleftrightarrow> P r"
  by (simp add: returns_def)

lemma returns_bind: "returns m P \<Longrightarrow> (\<And>x. P x \<Longrightarrow> returns (f x) Q) \<Longrightarrow> returns (bindE m f) Q"
  by (auto simp: returns_def)

lemma returns_mono: "returns m P \<Longrightarrow> (\<And>x. P x \<Longrightarrow> Q x) \<Longrightarrow> returns m Q"
  by (auto simp: returns_def)

section \<open>Bounded decimals\<close>

text \<open>At most \<open>N\<close> in size, an exponent of at most \<open>f\<close> in size.\<close>

definition tame :: "int \<Rightarrow> nat \<Rightarrow> decimal \<Rightarrow> bool" where
  "tame N f d \<longleftrightarrow> \<bar>dval d\<bar> \<le> of_int N \<and> \<bar>expo d\<bar> \<le> int f"

lemma tame_mono: "tame N f d \<Longrightarrow> N \<le> M \<Longrightarrow> f \<le> g \<Longrightarrow> tame M g d"
  by (auto simp: tame_def elim!: order_trans)

lemma ndigits_lower: "0 < n \<Longrightarrow> 10 ^ nat (ndigits n - 1) \<le> n"
proof (induction n rule: ndigits.induct)
  case (1 n)
  show ?case
  proof (cases "n < 10")
    case True
    with 1 show ?thesis by (subst ndigits.simps) simp
  next
    case False
    then have "10 ^ nat (ndigits (n div 10) - 1) \<le> n div 10" using 1 by simp
    moreover have "ndigits n = 1 + ndigits (n div 10)" using False by (subst ndigits.simps) simp
    moreover have "nat (ndigits (n div 10)) = Suc (nat (ndigits (n div 10) - 1))"
      using ndigits_pos [of "n div 10"] by linarith
    ultimately have "10 ^ nat (ndigits n - 1) \<le> 10 * (n div 10)" by simp
    then show ?thesis by linarith
  qed
qed

lemma div_half_even_le:
  assumes "0 < m" and "a \<le> n * m"
  shows "div_half_even a m \<le> n"
proof -
  have "a div m \<le> n" using assms by (metis zdiv_mono1 nonzero_mult_div_cancel_right less_irrefl)
  moreover have "a mod m = 0" if "a div m = n"
    using assms that by (metis add_le_same_cancel1 div_mult_mod_eq dual_order.antisym pos_mod_sign)
  ultimately show ?thesis using assms by (cases "a div m = n") (auto simp: div_half_even_def Let_def)
qed

lemma dval_sgn: "dval (Dec (sgn c * q) e) = sgn (of_int c) * (of_int q * 10 powi e)"
  by (cases c "0 :: int" rule: linorder_cases) (simp_all add: dval_def)

lemma dec_fix_tame:
  assumes "tame N f d" and "N < 10 ^ 27" and "f \<le> 900"
  shows "returns (dec_fix d) (tame N f)"
proof (cases "coeff d = 0")
  case True
  moreover have "- 900 \<le> expo d" "expo d \<le> 900" using assms by (auto simp: tame_def)
  ultimately show ?thesis using assms
    by (simp add: dec_fix_def Let_def Etiny_def Emax_def prec_def tame_def dval_def max_def min_def)
next
  case False
  let ?c = "\<bar>coeff d\<bar>" and ?e = "expo d"
  let ?m = "ndigits ?c + ?e - prec"
  let ?q = "div_half_even ?c (10 ^ nat (?m - ?e))"
  have e: "\<bar>?e\<bar> \<le> 900" and v: "of_int ?c * 10 powi ?e \<le> (of_int N :: rat)"
    using assms by (simp_all add: tame_def dval_def abs_mult)
  have k1: "1 \<le> ndigits ?c" by (rule ndigits_pos)
  have "(10 :: rat) powi (ndigits ?c - 1 + ?e) = of_int (10 ^ nat (ndigits ?c - 1)) * 10 powi ?e"
    using k1 power_int_add [of "10 :: rat" "ndigits ?c - 1" ?e]
      power_int_of_nat [of "10 :: rat" "nat (ndigits ?c - 1)"] by simp
  also have "\<dots> \<le> of_int ?c * 10 powi ?e"
    using ndigits_lower [of ?c] False by (intro mult_right_mono) (simp_all only: of_int_le_iff, simp_all)
  also have "\<dots> < 10 powi 27" using v assms(2) by (simp add: order_le_less_trans)
  finally have k: "ndigits ?c + ?e \<le> 27"
    by (metis add.commute add_le_cancel_left diff_add_cancel not_le one_less_numeral_iff semiring_norm(76) power_int_increasing less_le_not_le linorder_not_less zle_add1_eq_le add_diff_eq)
  show ?thesis
  proof (cases "?e < ?m")
    case False
    then show ?thesis using assms e k1 k \<open>coeff d \<noteq> 0\<close>
      by (simp add: dec_fix_def Let_def Etiny_def Etop_def Emax_def prec_def)
  next
    case True
    have one: "10 ^ nat (- ?m) * (10 :: rat) powi ?m = 1"
      using powi_split [of ?m 0] k by (simp add: prec_def)
    have N: "of_int (N * 10 ^ nat (- ?m)) * (10 :: rat) powi ?m = of_int N"
      using one by (simp add: mult.assoc)
    have "of_int ?c * 10 powi ?e \<le> (of_int (N * 10 ^ nat (- ?m)) * 10 powi ?m :: rat)"
      using v unfolding N .
    also have "(10 :: rat) powi ?m = 10 ^ nat (?m - ?e) * 10 powi ?e"
      using True by (intro powi_split) simp
    finally have "(of_int ?c :: rat) \<le> of_int (N * 10 ^ nat (- ?m) * 10 ^ nat (?m - ?e))"
      by simp
    then have "?c \<le> N * 10 ^ nat (- ?m) * 10 ^ nat (?m - ?e)" by (simp only: of_int_le_iff)
    then have q: "?q \<le> N * 10 ^ nat (- ?m)" by (rule div_half_even_le [rotated]) simp
    have "of_int ?q * 10 powi ?m \<le> of_int (N * 10 ^ nat (- ?m)) * (10 :: rat) powi ?m"
      using q by (intro mult_right_mono) (simp_all only: of_int_le_iff, simp_all)
    then have vq: "of_int ?q * 10 powi ?m \<le> (of_int N :: rat)"
      unfolding N .
    have "of_int (?q div 10) * 10 powi (?m + 1) = of_int (?q div 10 * 10) * (10 :: rat) powi ?m"
      by (simp add: power_int_add)
    also have "\<dots> \<le> of_int ?q * 10 powi ?m"
      by (intro mult_right_mono) (simp_all only: of_int_le_iff, simp_all)
    finally have "of_int (?q div 10) * 10 powi (?m + 1) \<le> (of_int N :: rat)" using vq by simp
    note v10 = this
    let ?r = "if ndigits ?q > prec then (?q div 10, ?m + 1) else (?q, ?m)"
    have q0: "0 \<le> ?q" by (simp add: div_half_even_def Let_def pos_imp_zdiv_nonneg_iff)
    have r: "\<not> snd ?r > Etop" "\<bar>snd ?r\<bar> \<le> int f"
      and m: "\<not> ?m > Etop" "max ?m Etiny = ?m"
      using True k e k1 assms(1)
      by (auto simp: Etop_def Etiny_def Emax_def prec_def tame_def split: if_splits)
    have fr: "0 \<le> fst ?r" "of_int (fst ?r) * 10 powi (snd ?r) \<le> (of_int N :: rat)"
      using q0 vq v10 by (simp_all add: pos_imp_zdiv_nonneg_iff)
    have "dec_fix d = Inr (Dec (sgn (coeff d) * fst ?r) (snd ?r))"
      unfolding dec_fix_def Let_def m(2) if_not_P [OF m(1)] if_P [OF True] if_not_P [OF r(1)]
      using \<open>coeff d \<noteq> 0\<close> by simp
    moreover have "dval (Dec (sgn (coeff d) * fst ?r) (snd ?r)) =
      sgn (of_int (coeff d)) * (of_int (fst ?r) * 10 powi (snd ?r))"
      by (rule dval_sgn)
    moreover have "\<bar>sgn (of_int (coeff d) :: rat)\<bar> = 1" using \<open>coeff d \<noteq> 0\<close> by (simp add: abs_sgn_eq)
    ultimately show ?thesis using fr r(2)
      by (simp only: returns_Inr tame_def decimal.sel abs_mult mult_1) (simp add: abs_mult)
  qed
qed

text \<open>The operations, as rules that keep the bounds.\<close>

lemma tame_scaled:
  assumes "tame N f a" and "tame M f b"
  shows "tame (N + M) f (Dec (scaled a (min (expo a) (expo b)) + scaled b (min (expo a) (expo b)))
    (min (expo a) (expo b)))" (is "tame _ _ ?r")
proof -
  let ?e = "min (expo a) (expo b)"
  have "dval ?r = dval a + dval b"
    using scaled_dval [of ?e a] scaled_dval [of ?e b] by (simp add: dval_def distrib_right)
  then show ?thesis using assms by (auto simp: tame_def)
qed

lemma returns_add:
  "tame N f a \<Longrightarrow> tame M f b \<Longrightarrow> N + M < 10 ^ 27 \<Longrightarrow> f \<le> 900 \<Longrightarrow>
   returns (dec_add a b) (tame (N + M) f)"
  unfolding dec_add_def Let_def by (intro dec_fix_tame tame_scaled) simp_all

lemma returns_sub:
  assumes "tame N f a" and "tame M f b" and "N + M < 10 ^ 27" and "f \<le> 900"
  shows "returns (dec_sub a b) (tame (N + M) f)"
proof -
  have "tame M f (Dec (- coeff b) (expo b))" using assms(2) by (simp add: tame_def)
  then show ?thesis using assms unfolding dec_sub_def by (intro returns_add)
qed

lemma returns_mul:
  assumes "tame N f a" and "tame M g b" and "N * M < 10 ^ 27" and "f + g \<le> 900"
  shows "returns (dec_mul a b) (tame (N * M) (f + g))"
proof -
  have "dval (Dec (coeff a * coeff b) (expo a + expo b)) = dval a * dval b"
    by (simp add: dval_def power_int_add)
  moreover have "\<bar>dval a * dval b\<bar> \<le> of_int (N * M)"
    unfolding abs_mult of_int_mult using assms by (intro mult_mono) (auto simp: tame_def)
  moreover have "\<bar>expo a + expo b\<bar> \<le> int (f + g)" using assms by (auto simp: tame_def)
  ultimately show ?thesis using assms unfolding dec_mul_def
    by (intro dec_fix_tame) (auto simp: tame_def)
qed

lemma returns_abs:
  "tame N f a \<Longrightarrow> N < 10 ^ 27 \<Longrightarrow> f \<le> 900 \<Longrightarrow> returns (dec_abs a) (tame N f)"
  unfolding dec_abs_def by (intro dec_fix_tame) (auto simp: tame_def dval_def abs_mult)

lemma returns_div100:
  assumes "tame (100 * N) f a" and "N < 10 ^ 27" and "f + 2 \<le> 900"
  shows "returns (dec_div100 a) (tame N (f + 2))"
proof -
  have "dval (Dec (coeff a) (expo a - 2)) = dval a / 100"
    by (simp add: dval_def power_int_diff)
  moreover have "\<bar>dval a / 100\<bar> \<le> of_int N" using assms(1) by (auto simp: tame_def)
  ultimately show ?thesis using assms unfolding dec_div100_def
    by (intro dec_fix_tame) (auto simp: tame_def)
qed

lemma returns_fn_round:
  assumes "tame N f v" and "N + 2 < 10 ^ 27" and "1 \<le> f" and "f \<le> 900"
  shows "returns (fn_round v) (tame (N + 2) f)"
proof -
  have "tame 1 f (Dec 5 (- 1))" using assms(3) by (simp add: tame_def dval_def power_int_def)
  then have "returns (dec_add v (Dec 5 (- 1))) (tame (N + 1) f)"
    using assms by (intro returns_add) simp_all
  moreover have "tame (N + 2) f (dec_floor d)" if "tame (N + 1) f d" for d
  proof -
    have "of_int \<lfloor>dval d\<rfloor> \<le> dval d" and "dval d < of_int \<lfloor>dval d\<rfloor> + 1"
      using floor_correct [of "dval d"] by simp_all
    then have "\<bar>of_int \<lfloor>dval d\<rfloor>\<bar> \<le> \<bar>dval d\<bar> + 1" by linarith
    moreover have "\<bar>expo (dec_floor d)\<bar> \<le> int f"
      using that by (auto simp: tame_def dec_floor_def)
    ultimately show ?thesis using that by (simp add: tame_def dval_floor)
  qed
  ultimately show ?thesis unfolding fn_round_def by (auto intro: returns_bind)
qed

lemma returns_xr2:
  assumes "tame N f v" and "100 * N + 2 < 10 ^ 27" and "1 \<le> f" and "f + 2 \<le> 900"
  shows "returns (xr2 v) (tame (N + 1) (f + 2))"
proof -
  have "tame 100 0 (Dec 100 0)" by (simp add: tame_def dval_def)
  then have "returns (dec_mul v (Dec 100 0)) (tame (N * 100) (f + 0))"
    using assms by (intro returns_mul) simp_all
  moreover have "returns (fn_round x) (tame (N * 100 + 2) f)" if "tame (N * 100) (f + 0) x" for x
    using assms that by (intro returns_fn_round) simp_all
  moreover have "returns (dec_div100 y) (tame (N + 1) (f + 2))" if "tame (N * 100 + 2) f y" for y
  proof -
    have "tame (100 * (N + 1)) f y" using that by (rule tame_mono) simp_all
    then show ?thesis using assms by (intro returns_div100) simp_all
  qed
  ultimately show ?thesis unfolding xr2_def by (blast intro: returns_bind)
qed


lemma returns_q_cent:
  assumes "tame N f v" and "N < 10 ^ 25"
  shows "returns (q_cent v) (\<lambda>_. True)"
  using q_cent_value [of v] assms by (auto simp: tame_def returns_def)

section \<open>Doubles\<close>

lemma bitlen_le: "0 < n \<Longrightarrow> 2 powi (bitlen n - 1) \<le> (of_int n :: rat)"
proof -
  assume n: "0 < n"
  then have "0 < bitlen n" using bitlen_eq_zero_iff [of n] bitlen_nonneg [of n] by linarith
  then have "(2 :: rat) powi (bitlen n - 1) = of_int (2 ^ nat (bitlen n - 1))"
    by (simp add: power_int_def)
  also have "\<dots> \<le> of_int n" using bitlen_bounds [OF n] by (simp only: of_int_le_iff)
  finally show ?thesis .
qed

lemma bitlen_less: "0 < n \<Longrightarrow> (of_int n :: rat) < 2 powi (bitlen n)"
proof -
  assume n: "0 < n"
  then have "0 < bitlen n" using bitlen_eq_zero_iff [of n] bitlen_nonneg [of n] by linarith
  then have "(2 :: rat) powi (bitlen n) = of_int (2 ^ nat (bitlen n))"
    by (simp add: power_int_def)
  moreover have "of_int n < (of_int (2 ^ nat (bitlen n)) :: rat)"
    using bitlen_bounds [OF n] by (simp only: of_int_less_iff)
  ultimately show ?thesis by simp
qed

lemma binary_exponent_le:
  assumes "0 < a"
  shows "2 powi (binary_exponent a) \<le> a"
proof -
  obtain n d where q: "quotient_of a = (n, d)" by fastforce
  then have d: "0 < d" by (rule quotient_of_denom_pos)
  have a: "a = of_int n / of_int d" by (rule quotient_of_div [OF q])
  then have n: "0 < n" using assms d by (simp add: zero_less_divide_iff)
  have "(2 :: rat) powi (bitlen n - bitlen d - 1) = 2 powi (bitlen n - 1) / 2 powi (bitlen d)"
    by (simp flip: power_int_diff add: algebra_simps)
  also have "\<dots> \<le> of_int n / 2 powi (bitlen d)" by (intro divide_right_mono bitlen_le n) simp
  also have "\<dots> \<le> a" unfolding a using bitlen_less [OF d] d n
    by (intro divide_left_mono) (auto simp: zero_less_power_int)
  finally show ?thesis by (simp add: binary_exponent_def q Let_def)
qed

lemma round_half_even_le: "of_int (round_half_even r) \<le> r + 1"
  proof -
  have "of_int \<lfloor>r\<rfloor> \<le> r" by (rule of_int_floor_le)
  moreover have "round_half_even r = \<lfloor>r\<rfloor> \<or> round_half_even r = \<lfloor>r\<rfloor> + 1"
    by (simp add: round_half_even_def Let_def)
  ultimately show ?thesis by (elim disjE; hypsubst?; simp only: of_int_add of_int_1; linarith)
qed

lemma to_double_returns:
  assumes "\<bar>x\<bar> \<le> 10 ^ 60"
  shows "\<exists>v. to_double x = Some v \<and> \<bar>v\<bar> \<le> 2 * \<bar>x\<bar> + 1"
proof (cases "x = 0")
  case True
  then show ?thesis by (simp add: to_double_def)
next
  case False
  let ?u = "max (binary_exponent \<bar>x\<bar> - 52) (- 1074)"
  let ?v = "of_int (round_half_even (\<bar>x\<bar> / 2 powi ?u)) * (2 :: rat) powi ?u"
  have u: "(2 :: rat) powi ?u \<le> \<bar>x\<bar> + 1"
  proof -
    have "(2 :: rat) powi (binary_exponent \<bar>x\<bar> - 52) \<le> 2 powi (binary_exponent \<bar>x\<bar>)"
      by (intro power_int_increasing) simp_all
    also have "\<dots> \<le> \<bar>x\<bar>" using False by (intro binary_exponent_le) simp
    finally have "(2 :: rat) powi (binary_exponent \<bar>x\<bar> - 52) \<le> \<bar>x\<bar> + 1" by simp
    moreover have "(2 :: rat) powi (- 1074) \<le> 2 powi 0" by (intro power_int_increasing) simp_all
    ultimately show ?thesis by (simp add: max_def)
  qed
  have "?v \<le> (\<bar>x\<bar> / 2 powi ?u + 1) * 2 powi ?u"
    by (intro mult_right_mono round_half_even_le) simp
  also have "\<dots> = \<bar>x\<bar> + 2 powi ?u" by (simp add: distrib_right)
  finally have v: "?v \<le> 2 * \<bar>x\<bar> + 1" using u by simp
  have nv: "\<not> ?v \<ge> 2 powi 1024"
  proof -
    have "2 * \<bar>x\<bar> + 1 < (2 :: rat) ^ 210" using assms by simp
    also have "\<dots> \<le> 2 ^ 1024" by (rule power_increasing) simp_all
    also have "\<dots> = 2 powi 1024" by (simp only: power_int_numeral)
    finally show ?thesis using v by (simp only: not_le)
  qed
  have v0: "0 \<le> ?v"
  proof -
    have "0 \<le> round_half_even r" if "0 \<le> r" for r using that by (simp add: round_half_even_def Let_def)
    then show ?thesis by (intro mult_nonneg_nonneg) simp_all
  qed
  have "to_double x = Some (sgn x * ?v)"
    unfolding to_double_def Let_def if_not_P [OF False] if_not_P [OF nv] ..
  moreover have "\<bar>sgn x * ?v\<bar> = ?v"
    unfolding abs_mult [of "sgn x"] abs_of_nonneg [OF v0] using False by (simp add: abs_sgn_eq)
  ultimately show ?thesis using v by (intro exI [of _ "sgn x * ?v"] conjI) (simp_all only:)
qed

lemma returns_cii_round2_equal:
  assumes "\<And>v. float_of_text raw = Some v \<Longrightarrow> \<bar>v\<bar> \<le> 10 ^ 50"
  shows "returns (cii_round2_equal raw) (\<lambda>_. True)"
proof (cases "float_of_text raw")
  case None
  then show ?thesis by (simp add: cii_round2_equal_def)
next
  case (Some v)
  then have v: "\<bar>v\<bar> \<le> 10 ^ 50" by (rule assms)
  then obtain h where h: "to_double (v * 100) = Some h" "\<bar>h\<bar> \<le> 2 * \<bar>v * 100\<bar> + 1"
    using to_double_returns [of "v * 100"] by (auto simp: abs_mult)
  have "\<bar>h + 1 / 2\<bar> \<le> \<bar>h\<bar> + 1 / 2" by simp
  then have "\<bar>h + 1 / 2\<bar> \<le> 10 ^ 60" using h(2) v by (simp add: abs_mult)
  then obtain s where "to_double (h + 1 / 2) = Some s" using to_double_returns by blast
  with Some h show ?thesis by (simp add: cii_round2_equal_def)
qed

end
