(* ===== verification/EI_Total.thy ===== *)
theory EI_Total
  imports EI_Rules EI_Tame
begin

text \<open>
  When the ruleset returns.  An invoice of moderate amounts is one whose amounts and rates are at
  most \<open>10 ^ 12\<close> in size with exponents of at most 60 in size, with at most a million amounts;
  on it no rule raises.
\<close>

section \<open>Moderate invoices\<close>

definition moderate :: "text_opt \<Rightarrow> bool" where
  "moderate x = (case dec_opt x of None \<Rightarrow> True
     | Some d \<Rightarrow> \<not> dec_less (Dec (10 ^ 12) 0) d \<and> \<not> dec_less d (Dec (- (10 ^ 12)) 0)
         \<and> \<bar>expo d\<bar> \<le> 60)"

definition moderate_float :: "pystr \<Rightarrow> bool" where
  "moderate_float x = (case float_of_text x of None \<Rightarrow> True | Some v \<Rightarrow> \<bar>v\<bar> \<le> 10 ^ 50)"

definition subtotal_amounts :: "tax_subtotal list \<Rightarrow> text_opt list" where
  "subtotal_amounts sts = map percent sts @ map st_tax_amount sts @ map taxable_amount sts"

definition amounts :: "invoice \<Rightarrow> text_opt list" where
  "amounts iv = [line_extension_total iv, tax_exclusive_amount iv, tax_inclusive_amount iv,
       payable_amount iv, allowance_total iv, charge_total iv, prepaid_amount iv,
       payable_rounding_amount iv]
     @ map line_extension_amount (inv_lines iv) @ map amount_raw (doc_allowance_charges iv)
     @ subtotal_amounts (all_tax_subtotals iv)
     @ concat (map (\<lambda>tt. tt_tax_amount tt # subtotal_amounts (subtotals tt)) (tax_totals iv))
     @ cii_doc_currency_tax_total_values iv"

definition moderate_invoice :: "invoice \<Rightarrow> bool" where
  "moderate_invoice iv \<longleftrightarrow> length (amounts iv) \<le> 10 ^ 6 \<and> list_all moderate (amounts iv) \<and>
     list_all moderate_float (map snd (concat (cii_summation_taxtotals iv)))"

section \<open>Levels\<close>

text \<open>\<open>lv k\<close>: decimals at most \<open>k\<close> operations away from a sum of amounts.\<close>

definition lv :: "nat \<Rightarrow> decimal \<Rightarrow> bool" where
  "lv k = tame (10 ^ (12 + k)) (60 + 10 * k)"

definition safe :: "'e + 'a \<Rightarrow> bool" where
  "safe m = returns m (\<lambda>_. True)"

named_theorems safe_intros \<open>results that are values\<close>

lemma lv_mono: "lv i d \<Longrightarrow> i \<le> j \<Longrightarrow> lv j d"
  unfolding lv_def by (erule tame_mono) (simp_all add: power_increasing)

lemma moderate_iff:
  "moderate x \<longleftrightarrow> (\<forall>d. dec_opt x = Some d \<longrightarrow> lv 0 d)"
  by (auto simp: moderate_def lv_def tame_def abs_le_iff not_less dval_def [of "Dec _ 0"]
      split: option.splits)

lemma lv_opt: "moderate x \<Longrightarrow> dec_opt x = Some d \<Longrightarrow> lv 0 d"
  by (simp add: moderate_iff)

lemma zero_lv: "lv k zero"
  by (simp add: lv_def tame_def dval_def)

lemma safe_Inr [safe_intros]: "safe (Inr x)"
  by (simp add: safe_def)

lemma safe_bind: "returns m P \<Longrightarrow> (\<And>x. P x \<Longrightarrow> safe (f x)) \<Longrightarrow> safe (bindE m f)"
  unfolding safe_def by (rule returns_bind)

lemma safe_bind_safe: "safe m \<Longrightarrow> (\<And>x. safe (f x)) \<Longrightarrow> safe (bindE m f)"
  unfolding safe_def by (rule returns_bind)

lemma safe_if [safe_intros]: "(c \<Longrightarrow> safe a) \<Longrightarrow> (\<not> c \<Longrightarrow> safe b) \<Longrightarrow> safe (if c then a else b)"
  by simp

lemma safe_option [safe_intros]:
  "(y = None \<Longrightarrow> safe a) \<Longrightarrow> (\<And>x. y = Some x \<Longrightarrow> safe (f x)) \<Longrightarrow> safe (case_option a f y)"
  by (cases y) simp_all

lemma safe_first [safe_intros]:
  "(\<And>x. x \<in> set xs \<Longrightarrow> safe (f x)) \<Longrightarrow> safe (first_someE f xs)"
proof (induction xs)
  case (Cons x xs)
  then have "safe (f x)" and "safe (first_someE f xs)" by simp_all
  then show ?case by (auto simp: safe_def returns_def split: option.splits)
qed (simp add: safe_def)

lemma returns_if: "(c \<Longrightarrow> returns a P) \<Longrightarrow> (\<not> c \<Longrightarrow> returns b P) \<Longrightarrow> returns (if c then a else b) P"
  by simp

section \<open>The operations at a level\<close>

lemma lv_add: "lv i a \<Longrightarrow> lv j b \<Longrightarrow> max i j < 13 \<Longrightarrow> returns (dec_add a b) (lv (Suc (max i j)))"
proof -
  assume h: "lv i a" "lv j b" "max i j < 13"
  let ?k = "max i j"
  have "tame (10 ^ (12 + ?k)) (60 + 10 * ?k) a" "tame (10 ^ (12 + ?k)) (60 + 10 * ?k) b"
    using h lv_mono [of i a ?k] lv_mono [of j b ?k] by (simp_all add: lv_def)
  moreover have "(10 :: int) ^ (12 + ?k) + 10 ^ (12 + ?k) \<le> 10 ^ (12 + Suc ?k)"
    using zero_le_power [of "10 :: int" "12 + ?k"] by (simp only: add_Suc_right power_Suc) linarith
  moreover have "(10 :: int) ^ (12 + Suc ?k) < 10 ^ 27" using h(3) by (intro power_strict_increasing) auto
  ultimately show ?thesis using h(3) unfolding lv_def
    by (intro returns_mono [OF returns_add]) (auto elim!: tame_mono)
qed

lemma lv_neg [simp]: "lv k (Dec (- coeff b) (expo b)) = lv k b"
  by (simp add: lv_def tame_def)

lemma lv_sub: "lv i a \<Longrightarrow> lv j b \<Longrightarrow> max i j < 13 \<Longrightarrow> returns (dec_sub a b) (lv (Suc (max i j)))"
  unfolding dec_sub_def by (rule lv_add) simp_all

lemma lv_abs: "lv i a \<Longrightarrow> i < 15 \<Longrightarrow> returns (dec_abs a) (lv i)"
  unfolding lv_def by (intro returns_abs power_strict_increasing) simp_all

lemma lv_power: "i \<le> 12 \<Longrightarrow> 10 ^ (12 + i) \<le> (10 ^ 24 :: int)"
  by (rule power_increasing) simp_all

lemma lv_Suc_power: "(10 :: int) ^ (12 + i) + 2 \<le> 10 ^ (12 + Suc i)"
  using one_le_power [of "10 :: int" "12 + i"] by (simp only: add_Suc_right power_Suc) linarith

lemma lv_xr2:
  assumes "lv i v" and "i \<le> 12"
  shows "returns (xr2 v) (lv (Suc i))"
proof -
  have "returns (xr2 v) (tame (10 ^ (12 + i) + 1) (60 + 10 * i + 2))"
    using assms lv_power [OF assms(2)] unfolding lv_def by (intro returns_xr2) simp_all
  then show ?thesis unfolding lv_def
    by (rule returns_mono) (erule tame_mono, use lv_Suc_power [of i] in simp_all)
qed

lemma lv_fn_round:
  assumes "lv i v" and "i \<le> 12"
  shows "returns (fn_round v) (lv (Suc i))"
proof -
  have "returns (fn_round v) (tame (10 ^ (12 + i) + 2) (60 + 10 * i))"
    using assms lv_power [OF assms(2)] unfolding lv_def by (intro returns_fn_round) simp_all
  then show ?thesis unfolding lv_def
    by (rule returns_mono) (erule tame_mono, use lv_Suc_power [of i] in simp_all)
qed

lemma safe_q [safe_intros]: "lv 9 v \<Longrightarrow> (\<And>x. safe (f x)) \<Longrightarrow> safe (bindE (q_cent v) f)"
  by (rule safe_bind_safe) (auto simp: safe_def lv_def elim!: returns_q_cent)

lemma safe_q_arg [safe_intros]:
  "(\<And>d. x = Some d \<Longrightarrow> lv 9 d) \<Longrightarrow> (\<And>y. safe (f y)) \<Longrightarrow> safe (bindE (q_arg x) f)"
  unfolding q_arg_def by (rule safe_bind_safe) (auto intro!: safe_intros)

lemma lv_one: "lv k (dec_of_int 1)"
  by (simp add: lv_def tame_def dec_of_int_def dval_def)

lemma safe_add_one: "lv 9 t \<Longrightarrow> (\<And>x. safe (f x)) \<Longrightarrow> safe (bindE (dec_add t (dec_of_int 1)) f)"
  by (rule safe_bind [OF lv_add [of 9 t 9]]) (simp_all add: lv_one)

lemma safe_sub_one: "lv 9 t \<Longrightarrow> (\<And>x. safe (f x)) \<Longrightarrow> safe (bindE (dec_sub t (dec_of_int 1)) f)"
  by (rule safe_bind [OF lv_sub [of 9 t 9]]) (simp_all add: lv_one)

lemma safe_in_band: "lv 9 t \<Longrightarrow> safe (in_band t e)"
  unfolding in_band_def by (intro safe_sub_one safe_if safe_add_one safe_Inr)

lemma safe_rounds_to_zero: "lv 0 v \<Longrightarrow> safe (rounds_to_zero v)"
  unfolding rounds_to_zero_def by (rule safe_bind, erule lv_fn_round) (simp_all add: safe_intros)

lemma safe_tax_in_band:
  assumes "lv 0 pct" and "lv 0 tax" and "lv 0 taxable"
  shows "safe (tax_in_band pct tax taxable)"
proof -
  have base: "returns (dec_abs taxable) (lv 0)" using assms(3) by (rule lv_abs) simp
  have "tame (100 * 10 ^ 12) 60 pct" using assms(1) by (auto simp: lv_def elim: tame_mono)
  then have rate: "returns (dec_div100 pct) (tame (10 ^ 12) 62)"
    using returns_div100 [of "10 ^ 12" 60 pct] by simp
  have prod: "returns (dec_mul b r) (lv 12)" if "lv 0 b" "tame (10 ^ 12) 62 r" for b r
    using that unfolding lv_def by (intro returns_mono [OF returns_mul]) (auto elim!: tame_mono)
  have expected: "returns (bindE (dec_mul b r) xr2) (lv 13)"
    if "lv 0 b" "tame (10 ^ 12) 62 r" for b r
    using prod [OF that] by (rule returns_bind) (drule lv_xr2, simp_all)
  show ?thesis unfolding tax_in_band_def
    by (rule safe_bind, rule base, rule safe_bind, rule rate, rule safe_bind, erule (1) expected,
        rule safe_bind, rule lv_abs [OF assms(2)], simp,
        intro safe_sub_one safe_add_one safe_if safe_Inr) (auto elim: lv_mono)
qed

lemma returns_dec_sum:
  "tame N 60 acc \<Longrightarrow> list_all moderate xs \<Longrightarrow> N + int (length xs) * 10 ^ 12 < 10 ^ 27 \<Longrightarrow>
   returns (dec_sum acc xs) (tame (N + int (length xs) * 10 ^ 12) 60)"
proof (induction xs arbitrary: N acc)
  case (Cons x xs)
  show ?case
  proof (cases "dec_opt x")
    case None
    then have "returns (dec_sum acc xs) (tame (N + int (length xs) * 10 ^ 12) 60)"
      using Cons by simp
    with None show ?thesis by (auto simp: distrib_right elim!: returns_mono tame_mono)
  next
    case (Some v)
    then have v: "tame (10 ^ 12) 60 v" using Cons.prems(2) by (simp add: moderate_iff lv_def)
    have "returns (dec_add acc v) (tame (N + 10 ^ 12) 60)"
      using Cons.prems by (intro returns_add v) (auto simp: distrib_right)
    moreover have "returns (dec_sum t xs) (tame (N + 10 ^ 12 + int (length xs) * 10 ^ 12) 60)"
      if "tame (N + 10 ^ 12) 60 t" for t
      using Cons that by (auto simp: distrib_right)
    ultimately show ?thesis using Some by (auto simp: distrib_right add.assoc intro: returns_bind)
  qed
qed simp

lemma lv_dec_sum:
  assumes "list_all moderate xs" and "length xs \<le> 10 ^ 6"
  shows "returns (dec_sum zero xs) (lv 6)"
proof -
  have n: "int (length xs) * 10 ^ 12 \<le> 10 ^ 18" using assms(2) by simp
  then have "returns (dec_sum zero xs) (tame (0 + int (length xs) * 10 ^ 12) 60)"
    by (intro returns_dec_sum assms(1)) (simp_all add: tame_def dval_def)
  then show ?thesis unfolding lv_def using n by (auto elim!: returns_mono tame_mono)
qed

section \<open>The rules\<close>

definition modlist :: "text_opt list \<Rightarrow> bool" where
  "modlist xs \<longleftrightarrow> list_all moderate xs \<and> length xs \<le> 10 ^ 6"

lemma modlist_sub: "modlist ys \<Longrightarrow> set xs \<subseteq> set ys \<Longrightarrow> length xs \<le> length ys \<Longrightarrow> modlist xs"
  by (auto simp: modlist_def list_all_iff)

lemma modlist_filter: "modlist (map f xs) \<Longrightarrow> modlist (map f (filter P xs))"
  by (erule modlist_sub) auto

lemma modlist_mem: "modlist (map f xs) \<Longrightarrow> x \<in> set xs \<Longrightarrow> moderate (f x)"
  by (simp add: modlist_def list_all_iff)

lemma safe_dec_sum: "modlist xs \<Longrightarrow> (\<And>x. lv 6 x \<Longrightarrow> safe (f x)) \<Longrightarrow> safe (bindE (dec_sum zero xs) f)"
  by (rule safe_bind [OF lv_dec_sum]) (simp_all add: modlist_def)

lemma safe_xr2_sum: "modlist xs \<Longrightarrow> (\<And>x. safe (f x)) \<Longrightarrow> safe (bindE (bindE (dec_sum zero xs) xr2) f)"
  by (rule safe_bind [OF returns_bind [OF lv_dec_sum lv_xr2 [of 6]]]) (simp_all add: modlist_def)

lemma moderate_sub: "moderate_invoice iv \<Longrightarrow> x \<in> set (amounts iv) \<Longrightarrow> moderate x"
  by (simp add: moderate_invoice_def list_all_iff)

lemma modlist_amounts:
  "moderate_invoice iv \<Longrightarrow> set xs \<subseteq> set (amounts iv) \<Longrightarrow> length xs \<le> length (amounts iv) \<Longrightarrow> modlist xs"
  by (rule modlist_sub [of "amounts iv"]) (simp_all add: moderate_invoice_def modlist_def)

lemma moderate_header:
  assumes "moderate_invoice iv"
  shows "moderate (line_extension_total iv)" "moderate (tax_exclusive_amount iv)"
    "moderate (tax_inclusive_amount iv)" "moderate (payable_amount iv)"
    "moderate (allowance_total iv)" "moderate (charge_total iv)" "moderate (prepaid_amount iv)"
    "moderate (payable_rounding_amount iv)"
  by (rule moderate_sub [OF assms], simp add: amounts_def)+

lemma moderate_rows:
  assumes "moderate_invoice iv"
  shows "modlist (map line_extension_amount (inv_lines iv))"
    "modlist (map amount_raw (doc_allowance_charges iv))"
    "modlist (map st_tax_amount (all_tax_subtotals iv))"
    "modlist (cii_doc_currency_tax_total_values iv)"
  by (rule modlist_amounts [OF assms]; force simp: amounts_def subtotal_amounts_def)+

lemma moderate_row_fields:
  assumes "moderate_invoice iv" and "st \<in> set (all_tax_subtotals iv)"
  shows "moderate (percent st)" "moderate (st_tax_amount st)" "moderate (taxable_amount st)"
  by (rule moderate_sub [OF assms(1)], use assms(2) in \<open>simp add: amounts_def subtotal_amounts_def\<close>)+

lemma moderate_totals:
  assumes "moderate_invoice iv" and "tt \<in> set (tax_totals iv)"
  shows "moderate (tt_tax_amount tt)" "modlist (map st_tax_amount (subtotals tt))"
    "st \<in> set (subtotals tt) \<Longrightarrow> moderate (percent st)"
    "st \<in> set (subtotals tt) \<Longrightarrow> moderate (st_tax_amount st)"
    "st \<in> set (subtotals tt) \<Longrightarrow> moderate (taxable_amount st)"
proof -
  let ?f = "\<lambda>tt. tt_tax_amount tt # subtotal_amounts (subtotals tt)"
  have sub: "set (?f tt) \<subseteq> set (amounts iv)"
    using assms(2) by (auto simp: amounts_def)
  then show "moderate (tt_tax_amount tt)"
    "st \<in> set (subtotals tt) \<Longrightarrow> moderate (percent st)"
    "st \<in> set (subtotals tt) \<Longrightarrow> moderate (st_tax_amount st)"
    "st \<in> set (subtotals tt) \<Longrightarrow> moderate (taxable_amount st)"
    using moderate_sub [OF assms(1)] by (auto simp: subtotal_amounts_def)
  have "length (?f tt) \<le> length (concat (map ?f (tax_totals iv)))"
    using assms(2) by (auto simp: length_concat comp_def intro!: member_le_sum_list)
  then have "length (map st_tax_amount (subtotals tt)) \<le> length (amounts iv)"
    by (simp add: amounts_def subtotal_amounts_def)
  moreover have "set (map st_tax_amount (subtotals tt)) \<subseteq> set (amounts iv)"
    using sub by (auto simp: subtotal_amounts_def)
  ultimately show "modlist (map st_tax_amount (subtotals tt))"
    by (intro modlist_amounts [OF assms(1)])
qed

lemma lv9_opt: "moderate x \<Longrightarrow> dec_opt x = Some d \<Longrightarrow> lv 9 d"
  using lv_opt lv_mono by blast

lemma lv_or_zero: "moderate x \<Longrightarrow> lv 0 (dec_or_zero x)"
  by (auto simp: dec_or_zero_def zero_lv lv_opt split: option.splits)

lemma lv9: "lv k d \<Longrightarrow> k \<le> 9 \<Longrightarrow> lv 9 d"
  by (rule lv_mono)

lemma safe_br_co_10: "moderate_invoice iv \<Longrightarrow> safe (br_co_10 iv)"
  unfolding br_co_10_def Let_def
  by (intro safe_if safe_Inr safe_dec_sum safe_option safe_q)
     (auto intro: moderate_rows lv9_opt moderate_header lv9)

lemma safe_br_co_11: "moderate_invoice iv \<Longrightarrow> safe (br_co_11 iv)"
  unfolding br_co_11_def Let_def doc_ac_amount_sum_def
  by (intro safe_if safe_Inr safe_xr2_sum) (auto intro: moderate_rows modlist_filter)

lemma safe_br_co_12: "moderate_invoice iv \<Longrightarrow> safe (br_co_12 iv)"
  unfolding br_co_12_def Let_def doc_ac_amount_sum_def
  by (intro safe_if safe_Inr safe_xr2_sum) (auto intro: moderate_rows modlist_filter)

lemma safe_sub_add:
  assumes "lv 0 l" "lv 0 a" "lv 0 c" and "\<And>x. lv 9 x \<Longrightarrow> safe (f x)"
  shows "safe (bindE (dec_sub l a) (\<lambda>d. bindE (dec_add d c) f))"
  by (intro safe_bind [OF lv_sub [of 0 _ 0]] safe_bind [OF lv_add [of 1 _ 0]] assms)
     (auto elim: lv9)

lemma lv_add0: "lv 0 a \<Longrightarrow> lv 0 b \<Longrightarrow> returns (dec_add a b) (lv 1)"
  using lv_add [of 0 a 0 b] by simp

lemma lv_sub0: "lv 0 a \<Longrightarrow> lv 0 b \<Longrightarrow> returns (dec_sub a b) (lv 1)"
  using lv_sub [of 0 a 0 b] by simp

lemma safe_sum_xr2:
  "lv 0 a \<Longrightarrow> lv 0 b \<Longrightarrow> (\<And>y. safe (f y)) \<Longrightarrow> safe (bindE (bindE (dec_add a b) xr2) f)"
  by (intro safe_bind [OF returns_bind [OF lv_add0 lv_xr2 [of 1]]]) simp_all

lemma safe_diff_xr2:
  "lv 0 a \<Longrightarrow> lv 0 b \<Longrightarrow> (\<And>y. safe (f y)) \<Longrightarrow> safe (bindE (bindE (dec_sub a b) xr2) f)"
  by (intro safe_bind [OF returns_bind [OF lv_sub0 lv_xr2 [of 1]]]) simp_all

lemma safe_br_co_13:
  assumes "moderate_invoice iv"
  shows "safe (br_co_13 iv)"
proof -
  note m = moderate_header [OF assms]
  show ?thesis unfolding br_co_13_def Let_def
    by (auto split: option.splits intro!: safe_intros safe_sub_add
        intro: lv_opt lv9_opt lv_or_zero lv9 m)
qed

lemma safe_br_co_14:
  assumes "moderate_invoice iv"
  shows "safe (br_co_14 iv)"
proof -
  note r = moderate_rows [OF assms] and t = moderate_totals [OF assms]
  have "safe (br_co_14_cii iv)"
    unfolding br_co_14_cii_def Let_def
    by (intro safe_if safe_Inr safe_xr2_sum r safe_first safe_q_arg)
       (use r(4) in \<open>auto intro: lv9_opt simp: modlist_def list_all_iff\<close>)
  moreover have "safe (br_co_14_ubl tt)" if "tt \<in> set (tax_totals iv)" for tt
    unfolding br_co_14_ubl_def Let_def
    by (intro safe_if safe_Inr safe_dec_sum t(2) [OF that] safe_option safe_q)
       (auto intro: lv9_opt t(1) [OF that] lv9)
  ultimately show ?thesis unfolding br_co_14_def by (intro safe_if safe_first) auto
qed

lemma safe_br_co_15:
  assumes "moderate_invoice iv"
  shows "safe (br_co_15 iv)"
proof -
  note m = moderate_header [OF assms] and r = moderate_rows [OF assms]
    and t = moderate_totals [OF assms]
  have "safe (br_co_15_cii c iv)" for c
  proof -
    have "lv 0 x" if "length (cii_doc_currency_tax_total_values iv) = 1"
        "dec_opt (hd (cii_doc_currency_tax_total_values iv)) = Some x" for x
      using r(4) that by (auto simp: modlist_def length_Suc_conv intro: lv_opt)
    then show ?thesis unfolding br_co_15_cii_def br_co_15_violation_def Let_def
      by (auto intro!: safe_intros safe_sum_xr2 intro: lv_opt m)
  qed
  moreover have "safe (br_co_15_ubl c iv)" for c
  proof -
    have "lv 0 d" if "map (\<lambda>tt. dec_opt (tt_tax_amount tt))
        (filter (\<lambda>tt. tax_amount_currency tt = Some c) (tax_totals iv)) = [Some d]" for d
      using that t(1) by (auto simp: map_eq_Cons_conv filter_eq_Cons_iff intro!: lv_opt)
    then show ?thesis unfolding br_co_15_ubl_def br_co_15_violation_def Let_def
      by (auto split: option.splits simp: length_Suc_conv
          intro!: safe_if safe_Inr safe_q safe_bind [OF lv_add0] intro: lv9_opt lv_opt lv9 m)
  qed
  ultimately show ?thesis unfolding br_co_15_def Let_def by (intro safe_if safe_Inr) auto
qed

lemma safe_br_co_16:
  assumes "moderate_invoice iv"
  shows "safe (br_co_16 iv)"
proof -
  note m = moderate_header [OF assms]
  have "safe (br_co_16_holds iv)" unfolding br_co_16_holds_def Let_def
    by (auto split: option.splits intro!: safe_Inr safe_if safe_diff_xr2 intro: lv_opt m)
  then show ?thesis unfolding br_co_16_def by (intro safe_intros safe_bind_safe)
qed

lemma safe_br_co_17_holds:
  assumes "moderate (percent st)" "moderate (st_tax_amount st)" "moderate (taxable_amount st)"
  shows "safe (br_co_17_holds st)"
  unfolding br_co_17_holds_def Let_def
  by (auto split: option.splits intro!: safe_Inr safe_if safe_bind_safe safe_rounds_to_zero
      safe_tax_in_band intro: assms [THEN lv_opt])

lemma safe_br_co_17: "moderate_invoice iv \<Longrightarrow> safe (br_co_17 iv)"
  unfolding br_co_17_def
  by (intro safe_first safe_bind_safe safe_br_co_17_holds moderate_row_fields safe_intros)

lemma safe_tax_band_rule: "moderate_invoice iv \<Longrightarrow> safe (tax_band_rule rid code name iv)"
  unfolding tax_band_rule_def
  by (intro safe_first safe_if safe_Inr safe_bind_safe)
     (auto split: option.splits intro!: safe_Inr safe_tax_in_band intro: lv_opt moderate_totals)

lemma safe_line_sum:
  "moderate_invoice iv \<Longrightarrow> (\<And>x. lv 6 x \<Longrightarrow> safe (f x)) \<Longrightarrow> safe (bindE (line_sum P iv) f)"
  unfolding line_sum_def by (intro safe_dec_sum modlist_filter moderate_rows)

lemma safe_ac_sum:
  "moderate_invoice iv \<Longrightarrow> (\<And>x. lv 6 x \<Longrightarrow> safe (f x)) \<Longrightarrow> safe (bindE (ac_sum P c iv) f)"
  unfolding ac_sum_def by (intro safe_dec_sum modlist_filter moderate_rows)

lemma returns_plus_minus: "lv 6 a \<Longrightarrow> lv 6 b \<Longrightarrow> lv 6 c \<Longrightarrow> returns (plus_minus a b c) (lv 8)"
  unfolding plus_minus_def
  using returns_bind [OF lv_add [of 6 a 6 b] lv_sub [of 7 _ 6 c]] by simp

lemma returns_plus_minus_rounded:
  assumes "lv 6 a" "lv 6 b" "lv 6 c"
  shows "returns (plus_minus_rounded a b c) (lv 9)"
  unfolding plus_minus_rounded_def
  by (rule returns_bind [OF lv_xr2 [OF assms(1)]], simp, rule returns_bind [OF lv_xr2 [OF assms(2)]], simp,
      rule returns_bind [OF lv_add [of 7 _ 7]], simp, simp, simp,
      rule returns_bind [OF lv_xr2 [OF assms(3)]], simp, use lv_sub [of 8 _ 7] in simp)

lemmas safe_sums = safe_line_sum safe_ac_sum safe_bind [OF returns_plus_minus]
  safe_bind [OF returns_plus_minus_rounded]

lemma safe_band_opt: "moderate x \<Longrightarrow> (\<And>b. safe (f b)) \<Longrightarrow>
  safe (bindE (case dec_opt x of None \<Rightarrow> Inr False | Some t \<Rightarrow> in_band t e) f)"
  by (intro safe_bind_safe) (auto split: option.splits intro!: safe_Inr safe_in_band lv9_opt)

lemma safe_mismatch:
  assumes "moderate_invoice iv" and "\<And>x. safe (f x)"
  shows "safe (bindE (breakdown_taxable_sum_mismatch iv code band) f)"
  unfolding breakdown_taxable_sum_mismatch_def Let_def
  by (intro safe_bind_safe [OF _ assms(2)] safe_first safe_if safe_Inr safe_sums safe_band_opt assms(1)
      moderate_totals(5) [OF assms(1)])

lemma safe_of: "returns m P \<Longrightarrow> safe m"
  unfolding safe_def by (erule returns_mono) simp

lemma safe_br_s_08_row:
  assumes "moderate_invoice iv" and "moderate (taxable_amount st)"
  shows "safe (br_s_08_row iv st)"
  unfolding br_s_08_row_def Let_def
  by (intro safe_if safe_Inr safe_option safe_sums safe_bind_safe assms(1);
      (assumption | intro safe_in_band lv9_opt [OF assms(2)] | rule safe_of [OF lv_sub [of 6 _ 6]])?)
     simp_all

lemma safe_rate_sum_row:
  assumes "moderate_invoice iv" and "moderate (taxable_amount st)"
  shows "safe (rate_sum_row rid code name iv st)"
proof -
  have "safe (in_band (the (dec_opt (taxable_amount st))) e)" if "dec_opt (taxable_amount st) \<noteq> None" for e
    using that assms(2) by (auto intro!: safe_in_band lv9_opt)
  then show ?thesis unfolding rate_sum_row_def Let_def
    by (intro safe_if safe_Inr safe_option safe_sums safe_bind_safe assms(1)) auto
qed

lemma safe_anyE: "(\<And>x. x \<in> set xs \<Longrightarrow> safe (p x)) \<Longrightarrow> safe (anyE p xs)"
  by (induction xs) (auto intro!: safe_Inr safe_bind_safe)

lemma safe_dec_float:
  assumes "moderate_invoice iv" and "ttas \<in> set (cii_summation_taxtotals iv)" and "p \<in> set ttas"
  shows "safe (cii_round2_equal (snd p))"
proof -
  have "snd p \<in> set (map snd (concat (cii_summation_taxtotals iv)))" using assms(2,3) by auto
  then have "moderate_float (snd p)" using assms(1)
    unfolding moderate_invoice_def list_all_iff by blast
  then show ?thesis unfolding safe_def
    by (intro returns_cii_round2_equal) (simp add: moderate_float_def)
qed

lemma safe_br_dec_13: "moderate_invoice iv \<Longrightarrow> safe (br_dec_13 iv)"
  unfolding br_dec_13_def case_prod_beta
  by (intro safe_if safe_Inr safe_first safe_bind_safe safe_anyE safe_dec_float)

lemma safe_br_dec_15: "moderate_invoice iv \<Longrightarrow> safe (br_dec_15 iv)"
  unfolding br_dec_15_def case_prod_beta
  by (intro safe_if safe_Inr safe_first safe_bind_safe safe_anyE safe_dec_float)

lemmas raising_rules = br_s_08_def br_s_09_def br_z_08_def br_e_08_def br_ae_08_def br_ic_08_def
  br_g_08_def br_o_08_def br_af_08_def br_af_09_def br_ag_08_def br_ag_09_def

lemma safe_rules:
  assumes "moderate_invoice iv"
  shows "list_all (\<lambda>r. safe (r iv)) (ALL_RULES py311)"
proof -
  note m = assms
  have pure: "safe (pure r iv)" for r by (simp add: safe_Inr)
  have a: "safe (br_s_08 iv)" "safe (br_af_08 iv)" "safe (br_ag_08 iv)"
    unfolding raising_rules
    by (intro safe_first safe_br_s_08_row safe_rate_sum_row m moderate_totals(5) [OF m]; assumption)+
  have b: "safe (br_s_09 iv)" "safe (br_af_09 iv)" "safe (br_ag_09 iv)"
    unfolding raising_rules by (rule safe_tax_band_rule [OF m])+
  have c: "safe (br_z_08 iv)" "safe (br_e_08 iv)" "safe (br_ae_08 iv)" "safe (br_ic_08 iv)"
    "safe (br_g_08 iv)" "safe (br_o_08 iv)"
    unfolding raising_rules
    by (intro safe_mismatch [OF m]; auto split: option.splits intro!: safe_Inr)+
  show ?thesis unfolding ALL_RULES_def list.pred_inject
    by (intro conjI list.pred_inject(1) pure a b c safe_br_co_10 [OF m] safe_br_co_11 [OF m] safe_br_co_12 [OF m]
        safe_br_co_13 [OF m] safe_br_co_14 [OF m] safe_br_co_15 [OF m] safe_br_co_16 [OF m]
        safe_br_co_17 [OF m] safe_br_dec_13 [OF m] safe_br_dec_15 [OF m])
qed

lemma safe_run_rules: "list_all (\<lambda>r. safe (r iv)) rs \<Longrightarrow> safe (run_rules rs iv)"
  by (induction rs) (auto intro!: safe_Inr safe_bind_safe)

end
