(* ===== verification/EI_Run.thy ===== *)
theory EI_Run
  imports EI_Total "HOL-Library.Sublist"
begin

text \<open>
  One run of the ruleset: which findings it returns and in which order, what decides
  \<open>Result.ok\<close>, and when it raises instead.
\<close>

section \<open>Findings\<close>

lemma run_reports:
  "reports_all rids rs \<Longrightarrow> run_rules rs iv = Inr vs \<Longrightarrow> subseq (map v_rule_id vs) rids \<and>
   (\<forall>v\<in>set vs. v_severity v = severity_of (v_rule_id v) \<and> v_insertion_point_line v = None)"
proof (induction arbitrary: vs rule: list_all2_induct)
  case Nil
  then show ?case by simp
next
  case (Cons rid rids r rs)
  from Cons.prems obtain v us where v: "r iv = Inr v" "run_rules rs iv = Inr us"
    "vs = (case v of None \<Rightarrow> us | Some x \<Rightarrow> x # us)"
    by (auto simp: bindE_eq_Inr)
  have "reports rid (severity_of rid) v" using Cons.hyps v(1) by (auto simp: reportsE_def)
  then show ?case using Cons.IH [OF v(2)] v(3)
    by (cases v) (auto simp: reports_def)
qed

lemma distinct_RULE_IDS: "distinct RULE_IDS"
  by (simp add: RULE_IDS_def)

lemma subseq_distinct: "subseq xs ys \<Longrightarrow> distinct ys \<Longrightarrow> distinct xs"
  by (induction rule: list_emb.induct) (auto dest: list_emb_set)

text \<open>C15: Whatever invoice the ruleset runs on, the identifiers of the findings are a
  subsequence of \<open>RULE_IDS\<close>: every finding carries the identifier of the rule that made it,
  they come in document-flow order, and no identifier is reported twice.  Every finding is fatal
  except those of BR-51, which are warnings, and none has an insertion point yet.\<close>
theorem findings_in_order:
  "case run_rules (ALL_RULES py311) iv of Inl e \<Rightarrow> True
   | Inr vs \<Rightarrow> subseq (map v_rule_id vs) RULE_IDS \<and> distinct (map v_rule_id vs) \<and>
       map v_severity vs = map (\<lambda>v. if v_rule_id v = ''BR-51'' then Warning else Fatal) vs \<and>
       map v_insertion_point_line vs = map (\<lambda>v. None) vs"
proof (cases "run_rules (ALL_RULES py311) iv")
  case (Inr vs)
  note r = run_reports [OF reports_all_rules Inr]
  then show ?thesis using Inr subseq_distinct [OF conjunct1 [OF r] distinct_RULE_IDS]
    by (auto simp: severity_of_def)
qed simp

section \<open>The loop\<close>

text \<open>The loop over the rules is a comprehension: when no rule raises it returns the findings
  of the rules in the order of the rules, and otherwise the exception of the first rule that
  raises; a finding made before the exception is lost.\<close>
theorem run_rules_comprehension:
  "run_rules rs iv = (let results = map (\<lambda>r. r iv) rs in
     case dropWhile (\<lambda>m. \<not> isl m) results of
       [] \<Rightarrow> Inr (map the (filter (\<lambda>v. v \<noteq> None) (map projr results)))
     | m # _ \<Rightarrow> Inl (projl m))"
proof (induction rs)
  case (Cons r rs)
  then show ?case
    by (cases "r iv"; cases "dropWhile (\<lambda>m. \<not> isl m) (map (\<lambda>r. r iv) rs)")
       (auto simp: Let_def simp del: dropWhile_eq_Nil_conv split: option.splits)
qed simp

text \<open>A run that returns makes the document valid exactly when nothing but BR-51 was reported.\<close>
theorem verdict_of_a_run:
  "case run_rules (ALL_RULES py311) iv of Inl e \<Rightarrow> True
   | Inr vs \<Rightarrow> result_ok vs = (set (map v_rule_id vs) \<subseteq> {''BR-51''})"
proof (cases "run_rules (ALL_RULES py311) iv")
  case (Inr vs)
  then show ?thesis using run_reports [OF reports_all_rules Inr]
    by (auto simp: result_ok_def severity_of_def)
qed simp

section \<open>When the run raises\<close>

lemma ndigits_upper: "0 \<le> n \<Longrightarrow> n < 10 ^ nat (ndigits n)"
proof (induction n rule: ndigits.induct)
  case (1 n)
  show ?case
  proof (cases "n < 10")
    case True
    with 1 show ?thesis by (subst ndigits.simps) simp
  next
    case False
    then have "n div 10 < 10 ^ nat (ndigits (n div 10))" using 1 by (simp add: pos_imp_zdiv_nonneg_iff)
    moreover have "nat (ndigits n) = Suc (nat (ndigits (n div 10)))"
      using False ndigits_pos [of "n div 10"] by (subst ndigits.simps) simp
    ultimately show ?thesis by simp
  qed
qed

text \<open>An amount of at least \<open>10 ^ 26\<close> cannot be quantized to cents with 28 digits.\<close>

lemma q_cent_raises:
  assumes "10 ^ 26 \<le> \<bar>dval d\<bar>"
  shows "q_cent d = Inl InvalidOperation"
proof -
  let ?q = "if - 2 \<le> expo d then coeff d * 10 ^ nat (expo d + 2)
    else div_half_up (coeff d) (10 ^ nat (- 2 - expo d))"
  have big: "(10 :: rat) ^ 28 \<le> 100 * \<bar>dval d\<bar>" using assms by simp
  have "10 ^ 28 \<le> \<bar>?q\<bar>"
  proof (cases "- 2 \<le> expo d")
    case True
    then have "100 * \<bar>dval d\<bar> = of_int (\<bar>coeff d\<bar> * 10 ^ nat (expo d + 2))"
      using powi_split [of "- 2" "expo d"] by (simp add: dval_def abs_mult power_int_def power_divide)
    then have "(of_int (10 ^ 28) :: rat) \<le> of_int (\<bar>coeff d\<bar> * 10 ^ nat (expo d + 2))"
      using big by simp
    then have "10 ^ 28 \<le> \<bar>coeff d\<bar> * 10 ^ nat (expo d + 2)" by (simp only: of_int_le_iff)
    then show ?thesis using True by (simp add: abs_mult)
  next
    case False
    let ?m = "10 ^ nat (- 2 - expo d) :: int"
    have "100 * \<bar>dval d\<bar> * of_int ?m = of_int \<bar>coeff d\<bar>"
      using False powi_split [of "expo d" "- 2"]
      by (simp add: dval_def abs_mult power_int_def field_simps)
    moreover have "(10 :: rat) ^ 28 * of_int ?m \<le> 100 * \<bar>dval d\<bar> * of_int ?m"
      using big by (intro mult_right_mono) simp_all
    ultimately have "(of_int (10 ^ 28 * ?m) :: rat) \<le> of_int \<bar>coeff d\<bar>" by simp
    then have c: "10 ^ 28 * ?m \<le> \<bar>coeff d\<bar>" by (simp only: of_int_le_iff)
    then have "10 ^ 28 * (2 * ?m) \<le> 2 * \<bar>coeff d\<bar> + ?m" by simp
    then have "10 ^ 28 \<le> (2 * \<bar>coeff d\<bar> + ?m) div (2 * ?m)"
      by (simp add: zdiv_mono1 [of "10 ^ 28 * (2 * ?m)" _ "2 * ?m", simplified])
    moreover have "0 < 10 ^ 28 * ?m" by simp
    then have "0 < \<bar>coeff d\<bar>" using c by (rule less_le_trans)
    ultimately show ?thesis using False by (simp add: div_half_up_def abs_mult abs_sgn_eq)
  qed
  then have "(10 :: int) ^ 28 < 10 ^ nat (ndigits \<bar>?q\<bar>)"
    using ndigits_upper [of "\<bar>?q\<bar>"] by simp
  then have "28 < ndigits \<bar>?q\<bar>" by (simp only: power_strict_increasing_iff)
  then show ?thesis by (simp add: q_cent_def dec_quantize_cent_def Let_def prec_def)
qed

lemma run_rules_raises:
  "r \<in> set rs \<Longrightarrow> r iv = Inl e \<Longrightarrow> \<exists>e'. run_rules rs iv = Inl e'"
proof (induction rs)
  case (Cons a rs)
  then show ?case by (cases "a iv") auto
qed simp

text \<open>C26: A stated sum of line amounts (BT-106) of \<open>10 ^ 26\<close> or more makes the run raise: no
  verdict is returned for the document, because \<open>quantize\<close> in BR-CO-10 exceeds the 28 digits of
  the decimal context and nothing catches the exception.\<close>
theorem ruleset_raises_on_large_amounts:
  assumes "has_legal_monetary_total iv" and "dec_opt (line_extension_total iv) = Some d"
    and "10 ^ 26 \<le> \<bar>dval d\<bar>"
  shows "\<exists>e. run_rules (ALL_RULES py311) iv = Inl e"
proof -
  have "\<exists>e. br_co_10 iv = Inl e"
    using assms q_cent_raises [of d]
    by (cases "dec_sum zero (map line_extension_amount (inv_lines iv))")
       (auto simp: br_co_10_def Let_def)
  moreover have "br_co_10 \<in> set (ALL_RULES py311)" by (simp add: ALL_RULES_def)
  ultimately show ?thesis using run_rules_raises by blast
qed

lemma ruleset_raises_witness:
  "\<exists>e. run_rules (ALL_RULES True) (new_invoice\<lparr> has_legal_monetary_total := True,
     line_extension_total := Some (ascii ''1E+26'') \<rparr>) = Inl e"
  by (rule ruleset_raises_on_large_amounts [where d = "Dec 1 26"])
     (simp_all add: new_invoice_def dec_eval dval_def)

section \<open>When the run returns\<close>

text \<open>An invoice over one line of 100.00 at 19 percent.\<close>

definition sample_line :: invoice_line where
  "sample_line = (new_line 1)\<lparr> line_id := Some (ascii ''1''), quantity := Some (ascii ''2''),
     line_extension_amount := Some (ascii ''100.00''), price_amount := Some (ascii ''50''),
     item_name := Some (ascii ''Chair'') \<rparr>"

definition sample_subtotal :: tax_subtotal where
  "sample_subtotal = new_subtotal\<lparr> st_tax_amount := Some (ascii ''19.00''),
     taxable_amount := Some (ascii ''100.00''), category_id := Some (ascii ''S''),
     category_scheme_id := VAT, percent := Some (ascii ''19'') \<rparr>"

definition sample_invoice :: invoice where
  "sample_invoice = new_invoice\<lparr> root_is_ubl_invoice := True, inv_id := Some (ascii ''R-1''),
     document_currency_code := Some (ascii ''EUR''), has_legal_monetary_total := True,
     line_extension_total := Some (ascii ''100.00''),
     tax_exclusive_amount := Some (ascii ''100.00''),
     tax_inclusive_amount := Some (ascii ''119.00''), payable_amount := Some (ascii ''119.00''),
     tax_totals := [\<lparr> tt_tax_amount = Some (ascii ''19.00''),
       tax_amount_currency = Some (ascii ''EUR''), subtotals = [sample_subtotal] \<rparr>],
     all_tax_subtotals := [sample_subtotal], inv_lines := [sample_line] \<rparr>"

lemmas sample_defs = sample_invoice_def sample_subtotal_def sample_line_def new_invoice_def
  new_line_def new_subtotal_def

text \<open>C12: The ruleset returns a result on every moderate invoice: amounts and rates of at most
  \<open>10 ^ 12\<close> in size, exponents of at most 60 in size, at most a million of them.  No rule
  raises, whatever the other fields hold.\<close>
theorem ruleset_returns:
  assumes "moderate_invoice iv"
  shows "\<exists>vs. run_rules (ALL_RULES py311) iv = Inr vs"
  using safe_run_rules [OF safe_rules [OF assms]] by (auto simp: safe_def returns_def)

lemma ruleset_returns_witness:
  "moderate_invoice sample_invoice \<and> (\<exists>vs. run_rules (ALL_RULES True) sample_invoice = Inr vs)"
proof -
  have "moderate_invoice sample_invoice"
    by (simp add: moderate_invoice_def amounts_def subtotal_amounts_def sample_defs moderate_def
        dec_eval dval_def power_int_def power2_eq_square)
  then show ?thesis using ruleset_returns by blast
qed

end
