(* ===== verification/EI_Dates.thy ===== *)
theory EI_Dates
  imports EI_Rules_Core
begin

text \<open>
  The calendar of \<open>EI_Rules_Core\<close>: day numbers follow the lexicographic order of year, month
  and day, the extended ISO form of every date parses to it on every interpreter, and what
  follows for the period rules BR-29 and BR-30.
\<close>

section \<open>Day numbers\<close>

lemma leap_count:
  "(b :: nat) \<le> p \<Longrightarrow> (r \<longrightarrow> q) \<Longrightarrow> (q \<longrightarrow> s) \<Longrightarrow>
   365 * Suc p + (a + of_bool s) - (b + of_bool q) + (c + of_bool r) =
   365 * p + a - b + c + (if s \<and> (\<not> q \<or> r) then 366 else 365)"
  by (cases q; cases r; cases s) auto

lemma days_before_year_Suc:
  assumes "1 \<le> y"
  shows "days_before_year (Suc y) = days_before_year y + (if leap y then 366 else 365)"
proof -
  obtain p where p: "y = Suc p" using assms by (cases y) auto
  have "p mod 400 mod 100 = p mod 100" "p mod 100 mod 4 = p mod 4"
    by (simp_all add: mod_mod_cancel)
  then have "p mod 400 = 399 \<longrightarrow> p mod 100 = 99" "p mod 100 = 99 \<longrightarrow> p mod 4 = 3"
    by auto
  note count = leap_count [OF div_le_dividend this]
  have "leap y \<longleftrightarrow> p mod 4 = 3 \<and> (p mod 100 \<noteq> 99 \<or> p mod 400 = 399)"
    unfolding p leap_def by (simp add: mod_Suc)
  moreover have "Suc p div 4 = p div 4 + of_bool (p mod 4 = 3)"
    "Suc p div 100 = p div 100 + of_bool (p mod 100 = 99)"
    "Suc p div 400 = p div 400 + of_bool (p mod 400 = 399)" by (simp_all add: div_Suc mod_Suc)
  ultimately show ?thesis unfolding p days_before_year_def Let_def diff_Suc_1
    by (simp only: count)
qed

lemma days_in_year: "sum_list (map (days_in_month y) [1..<13]) = (if leap y then 366 else 365)"
  by (simp add: upt_rec days_in_month_def)

lemma days_before_month:
  assumes "1 \<le> m" and "m < m'"
  shows "sum_list (map (days_in_month y) [1..<m]) + days_in_month y m
    \<le> sum_list (map (days_in_month y) [1..<m'])"
proof -
  have "[1..<m'] = [1..<m] @ [m..<m']"
    using assms upt_add_eq_append [of 1 m "m' - m"] by simp
  also have "\<dots> = [1..<m] @ m # [Suc m..<m']" using assms by (simp add: upt_conv_Cons)
  finally show ?thesis by simp
qed

lemma ordinal_bounds:
  assumes "valid_date y m d"
  shows "days_before_year y < ordinal y m d" "ordinal y m d \<le> days_before_year (Suc y)"
proof -
  have "sum_list (map (days_in_month y) [1..<m]) + d \<le> sum_list (map (days_in_month y) [1..<13])"
    using assms days_before_month [of m 13 y] by (simp add: valid_date_def)
  then show "ordinal y m d \<le> days_before_year (Suc y)"
    using assms days_before_year_Suc [of y]
    by (auto simp: ordinal_def valid_date_def days_in_year simp del: One_nat_def)
qed (use assms in \<open>simp add: ordinal_def valid_date_def\<close>)

lemma days_before_year_mono: "1 \<le> y \<Longrightarrow> y \<le> y' \<Longrightarrow> days_before_year y \<le> days_before_year y'"
proof (induction y' rule: nat_induct)
  case (Suc n)
  then show ?case by (cases "y = Suc n") (auto simp: days_before_year_Suc)
qed simp

definition date_less :: "nat \<times> nat \<times> nat \<Rightarrow> nat \<times> nat \<times> nat \<Rightarrow> bool" where
  "date_less a b \<longleftrightarrow> (case (a, b) of ((y, m, d), (y', m', d')) \<Rightarrow>
     y < y' \<or> y = y' \<and> (m < m' \<or> m = m' \<and> d < d'))"

lemma ordinal_strict_mono:
  assumes "valid_date y m d" "valid_date y' m' d'" "date_less (y, m, d) (y', m', d')"
  shows "ordinal y m d < ordinal y' m' d'"
proof -
  consider "y < y'" | "y = y'" "m < m'" | "y = y'" "m = m'" "d < d'"
    using assms(3) by (auto simp: date_less_def)
  then show ?thesis
  proof cases
    case 1
    have "ordinal y m d \<le> days_before_year (Suc y)" by (rule ordinal_bounds [OF assms(1)])
    also have "\<dots> \<le> days_before_year y'" using 1 by (intro days_before_year_mono) auto
    also have "\<dots> < ordinal y' m' d'" by (rule ordinal_bounds [OF assms(2)])
    finally show ?thesis .
  next
    case 2
    then show ?thesis using days_before_month [of m m' y] assms(1,2)
      by (simp add: ordinal_def valid_date_def)
  qed (simp add: ordinal_def)
qed

lemma ordinal_less_iff:
  assumes "valid_date y m d" "valid_date y' m' d'"
  shows "ordinal y m d < ordinal y' m' d' \<longleftrightarrow> date_less (y, m, d) (y', m', d')"
proof -
  have "date_less (y, m, d) (y', m', d') \<or> (y, m, d) = (y', m', d') \<or> date_less (y', m', d') (y, m, d)"
    by (auto simp: date_less_def)
  then show ?thesis using ordinal_strict_mono [OF assms] ordinal_strict_mono [OF assms(2,1)] by fastforce
qed

section \<open>The extended form\<close>

definition digit :: "nat \<Rightarrow> nat" where
  "digit n = 48 + n mod 10"

definition isoformat :: "nat \<Rightarrow> nat \<Rightarrow> nat \<Rightarrow> pystr" where
  "isoformat y m d = [digit (y div 1000), digit (y div 100), digit (y div 10), digit y, 45,
     digit (m div 10), digit m, 45, digit (d div 10), digit d]"

lemma dig_digit [simp]: "dig (digit n) = Some (n mod 10)"
  by (simp add: dig_def digit_def)

lemma digs_two: "n < 100 \<Longrightarrow> digs [digit (n div 10), digit n] = Some n"
  by simp

lemma digs_four:
  "n < 10000 \<Longrightarrow> digs [digit (n div 1000), digit (n div 100), digit (n div 10), digit n] = Some n"
proof -
  assume n: "n < 10000"
  have "n div 100 = n div 10 div 10" "n div 1000 = n div 10 div 10 div 10"
    by (simp_all flip: div_mult2_eq)
  moreover have "n div 10 div 10 div 10 mod 10 = n div 10 div 10 div 10" using n by simp
  ultimately show ?thesis by simp
qed

lemma digit_bounds: "48 \<le> digit n" "digit n < 58"
  by (simp_all add: digit_def)

lemma digit_space [simp]: "\<not> py_isspace (digit n)"
  using digit_bounds [of n] by (simp add: py_isspace_def)

lemma isoformat_parses:
  assumes "valid_date y m d" and "y \<le> 9999" and "sfx \<in> {[], ascii ''Z'', ascii ''+02:00''}"
  shows "date_of_text py311 (Some (isoformat y m d @ sfx)) = Some (ordinal y m d)"
proof -
  have v: "y < 10000" "m < 100" "d < 100" using assms
    by (auto simp: valid_date_def days_in_month_def split: if_splits)
  have ne: "digit n \<noteq> 45" "digit n \<noteq> 87" "digit n \<noteq> 90" "digit n < 128" for n
    using digit_bounds [of n] by simp_all
  have "fromisoformat py311 (isoformat y m d) = Some (ordinal y m d)"
    using digs_four [OF v(1)] digs_two [OF v(2)] digs_two [OF v(3)] assms ne
    by (simp add: fromisoformat_def isoformat_def utf8_len_def Let_def ymd_def del: digs.simps)
  moreover have "\<not> py_isspace 90" "\<not> py_isspace 48" by (simp_all add: py_isspace_def)
  then have "py_strip (isoformat y m d @ sfx) = isoformat y m d @ sfx"
    using assms(3) by (auto simp: py_strip_def isoformat_def ascii_def)
  moreover have "sfx = [] \<or> sfx = [90] \<or> sfx = [43, 48, 50, 58, 48, 48]"
    using assms(3) by (auto simp: ascii_def)
  moreover have "last (isoformat y m d) \<noteq> 90" "length (isoformat y m d) = 10"
    "isoformat y m d \<noteq> []" using ne by (simp_all add: isoformat_def)
  ultimately show ?thesis
    by (auto simp: date_of_text_def Let_def nth_append)
qed

lemma period_check_on_dates:
  assumes "valid_date y m d" "y \<le> 9999" "valid_date y' m' d'" "y' \<le> 9999"
  shows "period_end_before_start py311
      \<lparr>period_start = Some (isoformat y m d), period_end = Some (isoformat y' m' d')\<rparr>
    \<longleftrightarrow> date_less (y', m', d') (y, m, d)"
  using assms isoformat_parses [of y m d "[]"] isoformat_parses [of y' m' d' "[]"]
  by (simp add: period_end_before_start_def ordinal_less_iff)

section \<open>The rules on dates\<close>

text \<open>Parsing inverts the extended ISO form: on every interpreter \<open>_date\<close> reads the form
  \<open>YYYY-MM-DD\<close> of a date of the calendar, alone, with the suffix \<open>Z\<close> or with a time zone, as
  that date, and different dates get different day numbers in the order of the calendar.\<close>
theorem date_roundtrip:
  assumes "valid_date y m d" "y \<le> 9999" "valid_date y' m' d'" "y' \<le> 9999"
  shows "date_of_text py311 (Some (isoformat y m d)) = Some (ordinal y m d) \<and>
    date_of_text py311 (Some (isoformat y m d @ ascii ''Z'')) = Some (ordinal y m d) \<and>
    date_of_text py311 (Some (isoformat y m d @ ascii ''+02:00'')) = Some (ordinal y m d) \<and>
    (ordinal y m d < ordinal y' m' d' \<longleftrightarrow> date_less (y, m, d) (y', m', d'))"
  using isoformat_parses [OF assms(1,2), of "[]"] isoformat_parses [OF assms(1,2), of "ascii ''Z''"]
    isoformat_parses [OF assms(1,2), of "ascii ''+02:00''"] ordinal_less_iff [OF assms(1,3)] by simp

lemma date_roundtrip_witness:
  "date_of_text False (Some (ascii ''2024-02-29Z'')) = Some (ordinal 2024 2 29) \<and>
   ordinal 2024 2 29 < ordinal 2024 3 1"
  using date_roundtrip [of 2024 2 29 2024 3 1 False]
  by (simp add: valid_date_def days_in_month_def leap_def isoformat_def digit_def ascii_def
      date_less_def)

text \<open>A period by the dates of its start and its end.\<close>

definition dated_period :: "(nat \<times> nat \<times> nat) \<times> (nat \<times> nat \<times> nat) \<Rightarrow> period" where
  "dated_period p = (case p of ((y, m, d), (y', m', d')) \<Rightarrow>
     \<lparr>period_start = Some (isoformat y m d), period_end = Some (isoformat y' m' d')\<rparr>)"

definition in_calendar :: "nat \<times> nat \<times> nat \<Rightarrow> bool" where
  "in_calendar c \<longleftrightarrow> (case c of (y, m, d) \<Rightarrow> y \<le> 9999 \<and> valid_date y m d)"

text \<open>On invoices whose invoicing periods carry dates, BR-29 reports exactly when some
  period ends before it starts in the order of the calendar, on every interpreter.\<close>
theorem br_29_on_dates:
  assumes "invoice_periods iv = map dated_period ps"
    and "list_all (\<lambda>(s, e). in_calendar s \<and> in_calendar e) ps"
  shows "fires (br_29 py311 iv) \<longleftrightarrow> (\<exists>(s, e)\<in>set ps. date_less e s)"
proof -
  have "period_end_before_start py311 (dated_period p) \<longleftrightarrow> date_less (snd p) (fst p)"
    if "p \<in> set ps" for p
    using assms(2) that period_check_on_dates
    by (cases p) (auto simp: list_all_iff in_calendar_def dated_period_def)
  then have "(\<exists>p\<in>set ps. period_end_before_start py311 (dated_period p)) \<longleftrightarrow>
      (\<exists>p\<in>set ps. date_less (snd p) (fst p))" by blast
  then show ?thesis using assms(1) by (simp add: br_29_def case_prod_beta)
qed

lemma br_29_on_dates_witness:
  "\<forall>py311. fires (br_29 py311 (new_invoice\<lparr>invoice_periods := [dated_period ((2024, 3, 1), (2024, 2, 29))]\<rparr>)) \<and>
   \<not> fires (br_29 py311 (new_invoice\<lparr>invoice_periods := [dated_period ((2024, 2, 29), (2024, 3, 1))]\<rparr>))"
proof
  fix py311
  show "fires (br_29 py311 (new_invoice\<lparr>invoice_periods := [dated_period ((2024, 3, 1), (2024, 2, 29))]\<rparr>)) \<and>
   \<not> fires (br_29 py311 (new_invoice\<lparr>invoice_periods := [dated_period ((2024, 2, 29), (2024, 3, 1))]\<rparr>))"
  using br_29_on_dates [of "new_invoice\<lparr>invoice_periods := [dated_period ((2024, 3, 1), (2024, 2, 29))]\<rparr>"
      "[((2024, 3, 1), (2024, 2, 29))]" py311]
    br_29_on_dates [of "new_invoice\<lparr>invoice_periods := [dated_period ((2024, 2, 29), (2024, 3, 1))]\<rparr>"
      "[((2024, 2, 29), (2024, 3, 1))]" py311]
  by (simp add: in_calendar_def valid_date_def days_in_month_def leap_def date_less_def)
qed

text \<open>The basic form, which is no \<open>xs:date\<close>, is a date from Python 3.11 on and none before.\<close>

lemma basic_form_by_interpreter:
  "date_of_text True (Some (ascii ''20240201'')) = Some (ordinal 2024 2 1)"
  "date_of_text False (Some (ascii ''20240201'')) = None"
  by (simp_all add: date_of_text_def py_strip_def py_isspace_def ascii_def fromisoformat_def
      utf8_len_def ymd_def dig_def valid_date_def days_in_month_def Let_def
      numeral_2_eq_2)

end
