(* ===== verification/EI_Codes_Spec.thy ===== *)
theory EI_Codes_Spec
  imports EI_Rules_Codes EI_Rules_Doc
begin

text \<open>
  The code-list rules against the tests of the official artefacts, which search a value between
  spaces in one space-separated string: membership in the list of words is the same test for
  every pinned list, and the \<open>#CODE#\<close> grammar of notes is the quoted disjunction.
\<close>

section \<open>Words in a padded list\<close>

lemma py_split_words: "w \<in> set (py_split s) \<Longrightarrow> w \<noteq> [] \<and> (\<forall>c\<in>set w. \<not> py_isspace c)"
proof (induction s rule: py_split.induct)
  case (1 s)
  let ?t = "dropWhile py_isspace s"
  show ?case
  proof (cases "?t = []")
    case True
    with 1 show ?thesis by (simp add: py_split.simps [of s])
  next
    case False
    then have "\<not> py_isspace (hd ?t)" using hd_dropWhile by blast
    then have ne: "takeWhile (\<lambda>c. \<not> py_isspace c) ?t \<noteq> []" using False by (cases ?t) auto
    have "py_split s = takeWhile (\<lambda>c. \<not> py_isspace c) ?t #
        py_split (dropWhile (\<lambda>c. \<not> py_isspace c) ?t)"
      using False by (subst py_split.simps) (simp only: Let_def if_False)
    then have "w = takeWhile (\<lambda>c. \<not> py_isspace c) ?t \<or>
        w \<in> set (py_split (dropWhile (\<lambda>c. \<not> py_isspace c) ?t))"
      using 1(2) by simp
    then show ?thesis
    proof
      assume w: "w = takeWhile (\<lambda>c. \<not> py_isspace c) ?t"
      have "\<forall>c\<in>set (takeWhile (\<lambda>c. \<not> py_isspace c) ?t). \<not> py_isspace c"
        by (blast dest: set_takeWhileD)
      then show ?thesis using ne unfolding w by (rule conjI [rotated])
    qed (rule 1(1) [OF refl False])
  qed
qed

text \<open>One space before each word and one at the end.\<close>

definition padded :: "pystr list \<Rightarrow> pystr" where
  "padded ws = concat (map (\<lambda>w. 32 # w) ws) @ [32]"

lemma padded_simps [simp]:
  "padded [] = [32]" "padded (w # ws) = 32 # w @ padded ws"
  by (simp_all add: padded_def)

lemma takeWhile_space: "32 \<notin> set a \<Longrightarrow> takeWhile (\<lambda>c. c \<noteq> 32) (a @ 32 # b) = a"
  by (induction a) auto

lemma padded_tl: "padded ws = 32 # tl (padded ws)"
  by (cases ws) simp_all

lemma prefix_padded: "32 \<notin> set w \<Longrightarrow> 32 \<notin> set v \<Longrightarrow> w @ padded ws = v @ 32 # b \<Longrightarrow> w = v"
  by (metis padded_tl takeWhile_space)

lemma word_in_padded:
  "32 \<notin> set v \<Longrightarrow> (\<forall>w\<in>set ws. 32 \<notin> set w) \<Longrightarrow>
   substring_of (32 # v @ [32]) (padded ws) \<longleftrightarrow> v \<in> set ws"
proof (induction ws)
  case Nil
  then show ?case by (simp del: substring_of.simps add: substring_of_iff)
next
  case (Cons w ws)
  have "(\<exists>a b. 32 # w @ padded ws = a @ (32 # v @ [32]) @ b) \<longleftrightarrow>
      w = v \<or> (\<exists>a b. padded ws = a @ (32 # v @ [32]) @ b)" (is "?L \<longleftrightarrow> ?R")
  proof
    assume ?L
    then obtain a b where h: "32 # w @ padded ws = a @ 32 # v @ 32 # b" by auto
    show ?R
    proof (cases a)
      case Nil
      with h Cons.prems show ?thesis using prefix_padded [of w v ws b] by simp
    next
      case (Cons x a')
      then have e: "w @ padded ws = a' @ 32 # v @ 32 # b" using h by simp
      then obtain us where "w = a' @ us \<and> us @ padded ws = 32 # v @ 32 # b \<or>
          w @ us = a' \<and> padded ws = us @ 32 # v @ 32 # b"
        by (auto simp: append_eq_append_conv2)
      then show ?thesis
      proof
        assume u: "w = a' @ us \<and> us @ padded ws = 32 # v @ 32 # b"
        then have "us = []" using Cons.prems by (cases us) auto
        then show ?thesis using u by (auto intro: exI [of _ "[]"])
      qed auto
    qed
  next
    assume ?R
    then show ?L
    proof
      assume "w = v"
      then have "32 # w @ padded ws = [] @ (32 # v @ [32]) @ tl (padded ws)"
        using padded_tl [of ws] by simp
      then show ?L by blast
    next
      assume "\<exists>a b. padded ws = a @ (32 # v @ [32]) @ b"
      then obtain a b where "padded ws = a @ (32 # v @ [32]) @ b" by blast
      then have "32 # w @ padded ws = (32 # w @ a) @ (32 # v @ [32]) @ b" by simp
      then show ?L by blast
    qed
  qed
  with Cons show ?case by (auto simp: substring_of_iff simp del: substring_of.simps)
qed

section \<open>The membership test\<close>

text \<open>\<open>not(contains(V, ' ')) and contains(' L ', concat(' ', V, ' '))\<close>.\<close>

definition official_code :: "string \<Rightarrow> pystr \<Rightarrow> bool" where
  "official_code words v \<longleftrightarrow> 32 \<notin> set v \<and> substring_of (32 # v @ [32]) (padded (py_split (ascii words)))"

text \<open>A pinned list: the set of the words of its text.\<close>

locale code_list =
  fixes words :: string and codes :: "pystr set"
  assumes codes_words: "codes = set (py_split (ascii words))"
begin

lemma bad_code_official: "bad_code v codes \<longleftrightarrow> \<not> official_code words v"
proof -
  have "py_isspace 32" by (simp add: py_isspace_def)
  then have "\<forall>w\<in>set (py_split (ascii words)). 32 \<notin> set w"
    using py_split_words by blast
  then show ?thesis unfolding bad_code_def official_code_def codes_words
    using word_in_padded [of v "py_split (ascii words)"] by blast
qed

lemma empty_code_bad: "bad_code [] codes"
  unfolding bad_code_def codes_words using py_split_words [of "[]" "ascii words"] by blast

end
interpretation currency: code_list CURRENCY_text CURRENCY_CODES
  by unfold_locales (rule CURRENCY_CODES_def)

interpretation item_class: code_list ITEM_CLASS_text ITEM_CLASS_LIST_CODES
  by unfold_locales (rule ITEM_CLASS_LIST_CODES_def)

interpretation ubl_country: code_list UBL_COUNTRY_text UBL_COUNTRY_CODES
  by unfold_locales (rule UBL_COUNTRY_CODES_def)

interpretation cii_country: code_list CII_COUNTRY_text CII_COUNTRY_CODES
  by unfold_locales (rule CII_COUNTRY_CODES_def)

interpretation ubl_vat_point: code_list UBL_VAT_POINT_text UBL_VAT_POINT_CODES
  by unfold_locales (rule UBL_VAT_POINT_CODES_def)

interpretation cii_vat_point: code_list CII_VAT_POINT_text CII_VAT_POINT_CODES
  by unfold_locales (rule CII_VAT_POINT_CODES_def)

interpretation untdid_1153: code_list UNTDID_1153_text UNTDID_1153_CODES
  by unfold_locales (rule UNTDID_1153_CODES_def)

interpretation cii_note_subject: code_list CII_NOTE_SUBJECT_text CII_NOTE_SUBJECT_CODES
  by unfold_locales (rule CII_NOTE_SUBJECT_CODES_def)

interpretation vat_category: code_list VAT_CATEGORY_text VAT_CATEGORY_CODES
  by unfold_locales (rule VAT_CATEGORY_CODES_def)

interpretation vatex: code_list VATEX_text VATEX_CODES
  by unfold_locales (rule VATEX_CODES_def)

interpretation unit_code: code_list UNIT_CODE_text UNIT_CODES
  by unfold_locales (rule UNIT_CODES_def)

interpretation payment_means: code_list PAYMENT_MEANS_text PAYMENT_MEANS_CODES
  by unfold_locales (rule PAYMENT_MEANS_CODES_def)

interpretation allowance_reason: code_list ALLOWANCE_REASON_text ALLOWANCE_REASON_CODES
  by unfold_locales (rule ALLOWANCE_REASON_CODES_def)

interpretation charge_reason: code_list CHARGE_REASON_text CHARGE_REASON_CODES
  by unfold_locales (rule CHARGE_REASON_CODES_def)

interpretation item_scheme_id: code_list ITEM_SCHEME_ID_text ITEM_SCHEME_ID_CODES
  by unfold_locales (rule ITEM_SCHEME_ID_CODES_def)

interpretation endpoint_eas: code_list ENDPOINT_EAS_text ENDPOINT_EAS_CODES
  by unfold_locales (rule ENDPOINT_EAS_CODES_def)


text \<open>C25: The code-list rules of UBL invoices report exactly when the official test fails: a
  currency, unit, payment means, allowance reason, charge reason, exemption reason or VAT
  category code contains a space, or is not found between spaces in the official string.  The
  engine tests membership in the set of the words of that string.\<close>
theorem code_rules_official:
  "(fires (br_cl_03 iv) \<longleftrightarrow> (\<exists>c\<in>set (amount_currency_ids iv). \<not> official_code CURRENCY_text c)) \<and>
   (fires (br_cl_16 iv) \<longleftrightarrow> (\<exists>c\<in>set (payment_means_codes iv). \<not> official_code PAYMENT_MEANS_text c)) \<and>
   (fires (br_cl_17 iv) \<longleftrightarrow> (\<exists>c\<in>set (taxcategory_id_codes iv). \<not> official_code VAT_CATEGORY_text c)) \<and>
   (fires (br_cl_19 iv) \<longleftrightarrow> (\<exists>c\<in>set (allowance_reason_codes iv). \<not> official_code ALLOWANCE_REASON_text c)) \<and>
   (fires (br_cl_20 iv) \<longleftrightarrow> (\<exists>c\<in>set (charge_reason_codes iv). \<not> official_code CHARGE_REASON_text c)) \<and>
   (fires (br_cl_22 iv) \<longleftrightarrow> (\<exists>c\<in>set (tax_exemption_reason_codes iv). \<not> official_code VATEX_text c)) \<and>
   (fires (br_cl_23 iv) \<longleftrightarrow> (\<exists>c\<in>set (unit_codes iv). \<not> official_code UNIT_CODE_text c))"
  unfolding br_cl_03_def br_cl_16_def br_cl_17_def br_cl_19_def br_cl_20_def br_cl_22_def
    br_cl_23_def fires_simps currency.bad_code_official payment_means.bad_code_official
    vat_category.bad_code_official allowance_reason.bad_code_official
    charge_reason.bad_code_official vatex.bad_code_official unit_code.bad_code_official
  by (intro conjI refl)

section \<open>The grammar of notes\<close>

text \<open>\<open>substring-after(s, c)\<close> and \<open>substring-before(s, c)\<close> at one character.\<close>

definition substring_after :: "pystr \<Rightarrow> nat \<Rightarrow> pystr" where
  "substring_after s c = (if c \<in> set s then tl (dropWhile (\<lambda>x. x \<noteq> c) s) else [])"

definition substring_before :: "pystr \<Rightarrow> nat \<Rightarrow> pystr" where
  "substring_before s c = (if c \<in> set s then takeWhile (\<lambda>x. x \<noteq> c) s else [])"

definition official_note :: "pystr \<Rightarrow> bool" where
  "official_note s \<longleftrightarrow> (let T = substring_before (substring_after s 35) 35 in
     35 \<in> set s \<and> length T = 3 \<and> substring_of T (ascii UBL_NOTE_SUBJECT_PADDED) \<or>
     35 \<notin> set s \<or> length T \<noteq> 3)"

lemma split1_after: "snd (split1 c s) = (if c \<in> set s then Some (substring_after s c) else None)"
  by (induction s) (auto simp: substring_after_def Let_def)

text \<open>On a UBL document BR-CL-08 reports exactly when some document note fails the official
  disjunction over the text between its first two \<open>#\<close> characters.\<close>
theorem note_rule_official:
  "inv_syntax iv = UBL \<Longrightarrow>
   fires (br_cl_08 iv) \<longleftrightarrow> (\<exists>note\<in>set (note_subject_texts iv). \<not> official_note note)"
proof -
  assume "inv_syntax iv = UBL"
  moreover have "ubl_note_subject_fires n \<longleftrightarrow> \<not> official_note n" for n
    by (auto simp: ubl_note_subject_fires_def note_token_def split1_after official_note_def
        substring_before_def Let_def simp del: substring_of.simps)
  ultimately show ?thesis by (simp add: br_cl_08_def)
qed

lemma note_rule_official_witness:
  "\<not> fires (br_cl_08 (new_invoice\<lparr>note_subject_texts := [ascii ''Hello #A#'']\<rparr>))"
  by (subst note_rule_official)
     (simp_all add: new_invoice_def official_note_def substring_before_def substring_after_def ascii_def Let_def)

section \<open>The prefixes of BR-CO-09\<close>

text \<open>The words of the CII list.\<close>

definition CII_PREFIXES :: "string list" where
  "CII_PREFIXES = [
    ''1A'', ''AD'', ''AE'', ''AF'', ''AG'', ''AI'', ''AL'', ''AM'', ''AN'', ''AO'', ''AQ'',
    ''AR'', ''AS'', ''AT'', ''AU'', ''AW'', ''AX'', ''AZ'', ''BA'', ''BB'', ''BD'', ''BE'',
    ''BF'', ''BG'', ''BH'', ''BI'', ''BL'', ''BJ'', ''BM'', ''BN'', ''BO'', ''BQ'', ''BR'',
    ''BS'', ''BT'', ''BV'', ''BW'', ''BY'', ''BZ'', ''CA'', ''CC'', ''CD'', ''CF'', ''CG'',
    ''CH'', ''CI'', ''CK'', ''CL'', ''CM'', ''CN'', ''CO'', ''CR'', ''CU'', ''CV'', ''CW'',
    ''CX'', ''CY'', ''CZ'', ''DE'', ''DJ'', ''DK'', ''DM'', ''DO'', ''DZ'', ''EC'', ''EE'',
    ''EG'', ''EH'', ''EL'', ''ER'', ''ES'', ''ET'', ''FI'', ''FJ'', ''FK'', ''FM'', ''FO'',
    ''FR'', ''GA'', ''GB'', ''GD'', ''GE'', ''GF'', ''GG'', ''GH'', ''GI'', ''GL'', ''GM'',
    ''GN'', ''GP'', ''GQ'', ''GR'', ''GS'', ''GT'', ''GU'', ''GW'', ''GY'', ''HK'', ''HM'',
    ''HN'', ''HR'', ''HT'', ''HU'', ''ID'', ''IE'', ''IL'', ''IM'', ''IN'', ''IO'', ''IQ'',
    ''IR'', ''IS'', ''IT'', ''JE'', ''JM'', ''JO'', ''JP'', ''KE'', ''KG'', ''KH'', ''KI'',
    ''KM'', ''KN'', ''KP'', ''KR'', ''KW'', ''KY'', ''KZ'', ''LA'', ''LB'', ''LC'', ''LI'',
    ''LK'', ''LR'', ''LS'', ''LT'', ''LU'', ''LV'', ''LY'', ''MA'', ''MC'', ''MD'', ''ME'',
    ''MF'', ''MG'', ''MH'', ''MK'', ''ML'', ''MM'', ''MN'', ''MO'', ''MP'', ''MQ'', ''MR'',
    ''MS'', ''MT'', ''MU'', ''MV'', ''MW'', ''MX'', ''MY'', ''MZ'', ''NA'', ''NC'', ''NE'',
    ''NF'', ''NG'', ''NI'', ''NL'', ''NO'', ''NP'', ''NR'', ''NU'', ''NZ'', ''OM'', ''PA'',
    ''PE'', ''PF'', ''PG'', ''PH'', ''PK'', ''PL'', ''PM'', ''PN'', ''PR'', ''PS'', ''PT'',
    ''PW'', ''PY'', ''QA'', ''RE'', ''RO'', ''RS'', ''RU'', ''RW'', ''SA'', ''SB'', ''SC'',
    ''SD'', ''SE'', ''SG'', ''SH'', ''SI'', ''SJ'', ''SK'', ''SL'', ''SM'', ''SN'', ''SO'',
    ''SR'', ''ST'', ''SV'', ''SX'', ''SY'', ''SZ'', ''TC'', ''TD'', ''TF'', ''TG'', ''TH'',
    ''TJ'', ''TK'', ''TL'', ''TM'', ''TN'', ''TO'', ''TR'', ''TT'', ''TV'', ''TW'', ''TZ'',
    ''UA'', ''UG'', ''UM'', ''US'', ''UY'', ''UZ'', ''VA'', ''VC'', ''VE'', ''VG'', ''VI'',
    ''VN'', ''VU'', ''WF'', ''WS'', ''XI'', ''YE'', ''YT'', ''ZA'', ''ZM'', ''ZW'']"

lemma cii_prefixes: "BR_CO_09_CII_LIST = padded (map ascii CII_PREFIXES)"
  by (simp add: BR_CO_09_CII_LIST_def CII_PREFIXES_def ascii_def)

lemma substring_of_trans: "substring_of a b \<Longrightarrow> substring_of b c \<Longrightarrow> substring_of a c"
  unfolding substring_of_iff by (metis append.assoc)

lemma cii_prefix_listed:
  assumes "length p \<le> 2"
  shows "substring_of (32 # p @ [32]) BR_CO_09_CII_LIST \<longleftrightarrow> p \<in> ascii ` set CII_PREFIXES"
proof -
  have w: "\<forall>w\<in>set (map ascii CII_PREFIXES). w \<noteq> [] \<and> 32 \<notin> set w"
    by (simp add: CII_PREFIXES_def ascii_def)
  show ?thesis
  proof (cases "32 \<in> set p")
    case False
    then show ?thesis using word_in_padded [of p "map ascii CII_PREFIXES"] w
      unfolding cii_prefixes by (simp only: set_map) blast
  next
    case True
    then have "p = [32] \<or> (\<exists>c. p = [32, c]) \<or> (\<exists>c. p = [c, 32])"
      using assms by (cases p; cases "tl p") auto
    then have "substring_of [32, 32] (32 # p @ [32])" by auto
    moreover have "\<not> substring_of [32, 32] BR_CO_09_CII_LIST"
      using word_in_padded [of "[]" "map ascii CII_PREFIXES"] w
      unfolding cii_prefixes by (simp only: append_Nil) auto
    ultimately have "\<not> substring_of (32 # p @ [32]) BR_CO_09_CII_LIST"
      using substring_of_trans by blast
    then show ?thesis using True w by auto
  qed
qed

text \<open>On a CII document BR-CO-09 accepts a prefix of at most two characters exactly when it is
  one of the 252 listed ones: an empty or one-character identifier always fails, and so does a
  pair with a space.\<close>
theorem cii_prefix_rule:
  assumes "inv_syntax iv = CII" and "list_all (\<lambda>p. length p \<le> 2) (vat_id_prefixes iv)"
  shows "fires (br_co_09 iv) \<longleftrightarrow> \<not> set (vat_id_prefixes iv) \<subseteq> ascii ` set CII_PREFIXES"
proof -
  have "substring_of (ascii '' '' @ p @ ascii '' '') BR_CO_09_CII_LIST \<longleftrightarrow> p \<in> ascii ` set CII_PREFIXES"
    if "p \<in> set (vat_id_prefixes iv)" for p
    using cii_prefix_listed [of p] assms(2) that by (simp add: list_all_iff ascii_def)
  then show ?thesis using assms(1) unfolding br_co_09_def by auto
qed

lemma cii_prefix_rule_witness:
  "fires (br_co_09 (new_invoice\<lparr>inv_syntax := CII, vat_id_prefixes := [ascii ''EL'', ascii ''X'']\<rparr>))"
  by (subst cii_prefix_rule) (simp_all add: new_invoice_def CII_PREFIXES_def ascii_def)

text \<open>On a UBL document a lower-case letter is reported although it is shorter than two characters,
  and a letter followed by a space is accepted.\<close>

lemma substring_of_single: "substring_of [c] s \<longleftrightarrow> c \<in> set s"
  by (induction s) auto

lemma ubl_prefix_examples:
  "fires (br_co_09 (new_invoice\<lparr>vat_id_prefixes := [ascii ''x'']\<rparr>))"
  "\<not> fires (br_co_09 (new_invoice\<lparr>vat_id_prefixes := [ascii ''D '']\<rparr>))"
proof -
  have "\<not> substring_of (ascii ''x'') BR_CO_09_UBL_LIST"
    unfolding BR_CO_09_UBL_LIST_def by (simp add: ascii_def substring_of_single)
  then show "fires (br_co_09 (new_invoice\<lparr>vat_id_prefixes := [ascii ''x'']\<rparr>))"
    by (simp add: br_co_09_def new_invoice_def)
  have "BR_CO_09_UBL_LIST = ascii '' 1A A'' @ ascii ''D '' @ drop 7 BR_CO_09_UBL_LIST"
    by (simp add: BR_CO_09_UBL_LIST_def ascii_def)
  then have "substring_of (ascii ''D '') BR_CO_09_UBL_LIST"
    unfolding substring_of_iff by blast
  then show "\<not> fires (br_co_09 (new_invoice\<lparr>vat_id_prefixes := [ascii ''D '']\<rparr>))"
    by (simp add: br_co_09_def new_invoice_def)
qed

end
