(* ===== verification/EI_Official.thy ===== *)
theory EI_Official
  imports EI_Rules_Sums EI_Tame
begin

text \<open>
  The calculation rules against the official tests their comments quote, over the rationals.
  Amounts are taken with at most eight decimals and below \<open>10 ^ 11\<close>, at most \<open>10 ^ 5\<close> of them
  in a sum; then the decimal context never rounds and the rules compute exactly.
\<close>

section \<open>Exact amounts\<close>

definition rval :: "text_opt \<Rightarrow> rat option" where
  "rval x = map_option dval (dec_opt x)"

definition exact :: "nat \<Rightarrow> nat \<Rightarrow> text_opt \<Rightarrow> bool" where
  "exact f p x \<longleftrightarrow> (case dec_opt x of None \<Rightarrow> True
     | Some d \<Rightarrow> - int f \<le> expo d \<and> expo d \<le> 40 \<and> \<bar>dval d\<bar> < 10 ^ p)"

abbreviation exact_amount :: "text_opt \<Rightarrow> bool" where
  "exact_amount \<equiv> exact 8 11"

definition rsum :: "text_opt list \<Rightarrow> rat" where
  "rsum xs = sum_list (map (\<lambda>x. case rval x of None \<Rightarrow> 0 | Some v \<Rightarrow> v) xs)"

lemma rsum_simps [simp]:
  "rsum [] = 0" "rsum (x # xs) = (case rval x of None \<Rightarrow> 0 | Some v \<Rightarrow> v) + rsum xs"
  by (simp_all add: rsum_def)

lemma exactD:
  assumes "exact f p x" and "dec_opt x = Some d"
  shows "fine f d" "\<bar>dval d\<bar> < 10 ^ p"
  using assms by (simp_all add: exact_def fine_def)

lemma exact_expo: "exact f p x \<Longrightarrow> dec_opt x = Some d \<Longrightarrow> expo d \<le> 40"
  by (simp add: exact_def)

lemma dec_sum_value:
  "fine 8 acc \<Longrightarrow> list_all exact_amount xs \<Longrightarrow> \<bar>dval acc\<bar> + of_nat (length xs) * 10 ^ 11 < 10 ^ 17 \<Longrightarrow>
   \<exists>r. dec_sum acc xs = Inr r \<and> dval r = dval acc + rsum xs \<and> fine 8 r \<and> \<bar>dval r\<bar> < 10 ^ 17"
proof (induction xs arbitrary: acc)
  case Nil
  then show ?case by simp
next
  case (Cons x xs)
  show ?case
  proof (cases "dec_opt x")
    case None
    with Cons show ?thesis by (simp add: rval_def distrib_right)
  next
    case (Some v)
    then have v: "fine 8 v" "\<bar>dval v\<bar> < 10 ^ 11" using Cons.prems(2) exactD [of 8 11 x v] Some by simp_all
    then have b: "\<bar>dval acc + dval v\<bar> + of_nat (length xs) * 10 ^ 11 < 10 ^ 17"
      using Cons.prems(3) by (simp add: distrib_right)
    moreover have "0 \<le> of_nat (length xs) * (10 ^ 11 :: rat)" by simp
    ultimately have "\<bar>dval acc + dval v\<bar> < 10 ^ 17" by linarith
    then obtain t where t: "dec_add acc v = Inr t" "dval t = dval acc + dval v" "fine 8 t"
      using dec_add_fine [OF Cons.prems(1) v(1), of 17] by auto
    have "list_all exact_amount xs" using Cons.prems(2) by simp
    then show ?thesis using Cons.IH [OF t(3)] b Some t(1,2) by (simp add: rval_def add.assoc)
  qed
qed

lemma dec_sum_zero:
  assumes "list_all exact_amount xs" and "length xs < 10 ^ 5"
  obtains r where "dec_sum zero xs = Inr r" "dval r = rsum xs" "fine 8 r" "\<bar>dval r\<bar> < 10 ^ 17"
proof -
  have "of_nat (length xs) * (10 ^ 11 :: rat) \<le> of_nat (10 ^ 5) * 10 ^ 11"
    using assms(2) by (intro mult_right_mono) (simp_all only: of_nat_le_iff, simp_all)
  also have "\<dots> < 10 ^ 17" by simp
  finally show ?thesis
    using dec_sum_value [of zero xs] assms that by (auto simp: fine_def dval_def)
qed

lemma q_cent_fine:
  assumes "\<bar>dval v\<bar> < 10 ^ 17"
  obtains r where "q_cent v = Inr r" "dval r = half_up2 (dval v)"
  using q_cent_value [of v] assms by auto

lemma xr2_exact:
  assumes "fine 8 v" and "\<bar>dval v\<bar> < 10 ^ 17"
  obtains r where "xr2 v = Inr r" "dval r = xpath_round2 (dval v)"
  using xr2_fine [OF assms] by auto

lemma floor_numeral_rat [dec_eval]:
  "\<lfloor>numeral a / numeral b :: rat\<rfloor> = numeral a div numeral b"
  "\<lfloor>1 / numeral b :: rat\<rfloor> = 1 div numeral b"
  "\<lfloor>- (numeral a / numeral b) :: rat\<rfloor> = - numeral a div numeral b"
  "\<lfloor>- (1 / numeral b) :: rat\<rfloor> = - 1 div numeral b"
  using floor_divide_of_int_eq [of "numeral a" "numeral b", where 'a = rat]
    floor_divide_of_int_eq [of 1 "numeral b", where 'a = rat]
    floor_divide_of_int_eq [of "- numeral a" "numeral b", where 'a = rat]
    floor_divide_of_int_eq [of "- 1" "numeral b", where 'a = rat]
  by simp_all

section \<open>The two roundings\<close>

lemma xpath_round2_half_up2:
  "xpath_round2 x = half_up2 x \<longleftrightarrow> \<not> (x < 0 \<and> frac (100 * \<bar>x\<bar>) = 1 / 2)"
proof (cases "x < 0")
  case False
  then show ?thesis
    by (cases "x = 0")
       (auto simp: xpath_round2_def xpath_round_def half_up2_def mult.commute floor_eq_iff)
next
  case True
  define z where "z = 100 * \<bar>x\<bar> - 1 / 2"
  have "xpath_round2 x = - of_int \<lceil>z\<rceil> / 100"
    using True by (simp add: xpath_round2_def xpath_round_def z_def ceiling_def algebra_simps)
  moreover have "half_up2 x = - of_int (\<lfloor>z\<rfloor> + 1) / 100"
  proof -
    have "\<lfloor>100 * \<bar>x\<bar> + 1 / 2\<rfloor> = \<lfloor>z + of_int 1\<rfloor>" by (simp add: z_def algebra_simps)
    then show ?thesis using True by (simp add: half_up2_def)
  qed
  ultimately have "xpath_round2 x = half_up2 x \<longleftrightarrow> \<lceil>z\<rceil> = \<lfloor>z\<rfloor> + 1" by simp linarith
  also have "\<dots> \<longleftrightarrow> z \<notin> \<int>" by (auto simp: ceiling_altdef Ints_def)
  also have "z \<in> \<int> \<longleftrightarrow> frac (100 * \<bar>x\<bar>) = 1 / 2"
  proof
    assume "z \<in> \<int>"
    then obtain n where "z = of_int n" by (rule Ints_cases)
    then have w: "100 * \<bar>x\<bar> = of_int n + 1 / 2" by (simp add: z_def)
    have "\<lfloor>of_int n + 1 / 2 :: rat\<rfloor> = n" by (simp add: floor_eq_iff)
    then show "frac (100 * \<bar>x\<bar>) = 1 / 2" unfolding frac_def w by simp
  next
    assume "frac (100 * \<bar>x\<bar>) = 1 / 2"
    then have "z = of_int \<lfloor>100 * \<bar>x\<bar>\<rfloor>" by (simp add: frac_def z_def)
    then show "z \<in> \<int>" by (metis Ints_of_int)
  qed
  finally show ?thesis using True by simp
qed

text \<open>The two roundings of the engine on an exact amount, \<open>_xr2\<close> (halves towards plus
  infinity, as XPath) and \<open>_q\<close> (halves away from zero), both succeed and give the same value
  except exactly on the negative amounts that lie half way between two cents.\<close>
theorem roundings_agree:
  assumes "fine 8 v" and "\<bar>dval v\<bar> < 10 ^ 17"
  shows "\<exists>a b. xr2 v = Inr a \<and> q_cent v = Inr b \<and>
    (dval a = dval b \<longleftrightarrow> \<not> (dval v < 0 \<and> frac (100 * \<bar>dval v\<bar>) = 1 / 2))"
proof -
  obtain a where a: "xr2 v = Inr a" "dval a = xpath_round2 (dval v)" using xr2_exact [OF assms] .
  obtain b where "q_cent v = Inr b" "dval b = half_up2 (dval v)" using q_cent_fine [OF assms(2)] .
  with a show ?thesis by (simp add: xpath_round2_half_up2)
qed

lemma roundings_agree_witness:
  "\<exists>a b. xr2 (Dec (- 25) (- 3)) = Inr a \<and> q_cent (Dec (- 25) (- 3)) = Inr b \<and> dval a \<noteq> dval b"
proof -
  have v: "dval (Dec (- 25) (- 3)) = - (1 / 40)" by (simp add: dval_def power_int_def power3_eq_cube)
  have "frac (100 * \<bar>- (1 / 40) :: rat\<bar>) = 1 / 2" by (simp add: frac_def floor_eq_iff)
  then show ?thesis using roundings_agree [of "Dec (- 25) (- 3)"] unfolding v
    by (simp add: fine_def)
qed

section \<open>BR-CO-10 to BR-CO-12\<close>

text \<open>With exact amounts BR-CO-10 never raises, and it reports exactly when the
  stated sum of line amounts is absent or differs from the sum of the line amounts after both are
  rounded to cents, halves away from zero.  The official test rounds the computed sum only, so a
  stated sum with more than two decimals is judged differently (the witness: 100.004 for
  100.00 is accepted).\<close>
theorem br_co_10_verdict:
  assumes "has_legal_monetary_total iv" and "length (inv_lines iv) < 10 ^ 5"
    and "list_all exact_amount (map line_extension_amount (inv_lines iv))"
    and "exact_amount (line_extension_total iv)"
  shows "\<exists>r. br_co_10 iv = Inr r \<and> (fires r \<longleftrightarrow>
    (case rval (line_extension_total iv) of None \<Rightarrow> True
     | Some s \<Rightarrow> half_up2 s \<noteq> half_up2 (rsum (map line_extension_amount (inv_lines iv)))))"
proof -
  obtain t where t: "dec_sum zero (map line_extension_amount (inv_lines iv)) = Inr t"
    "dval t = rsum (map line_extension_amount (inv_lines iv))" "\<bar>dval t\<bar> < 10 ^ 17"
    using dec_sum_zero [OF assms(3)] assms(2) by auto
  obtain qt where qt: "q_cent t = Inr qt" "dval qt = half_up2 (dval t)"
    using q_cent_fine [OF t(3)] .
  show ?thesis
  proof (cases "dec_opt (line_extension_total iv)")
    case None
    with assms t qt show ?thesis by (simp add: br_co_10_def Let_def rval_def)
  next
    case (Some s)
    have "\<bar>dval s\<bar> < 10 ^ 17" using exactD [OF assms(4) Some] by simp
    then obtain qs where "q_cent s = Inr qs" "dval qs = half_up2 (dval s)" by (rule q_cent_fine)
    with assms t qt Some show ?thesis by (simp add: br_co_10_def Let_def rval_def)
  qed
qed

definition ex10 :: invoice where
  "ex10 = new_invoice\<lparr> has_legal_monetary_total := True,
     line_extension_total := Some (ascii ''100.004''),
     inv_lines := [(new_line 1)\<lparr> line_extension_amount := Some (ascii ''100.00'') \<rparr>] \<rparr>"

lemma br_co_10_verdict_witness:
  "\<exists>r. br_co_10 ex10 = Inr r \<and> \<not> fires r"
proof -
  have "has_legal_monetary_total ex10" "length (inv_lines ex10) < 10 ^ 5" "list_all exact_amount (map line_extension_amount (inv_lines ex10))" "exact_amount (line_extension_total ex10)"
    by (simp_all add: ex10_def new_invoice_def new_line_def new_subtotal_def new_allowance_charge_def
      
      exact_def rval_def dec_eval dval_def power_int_def power2_eq_square power3_eq_cube)
  moreover have "\<not> (case rval (line_extension_total ex10) of None \<Rightarrow> True
     | Some s \<Rightarrow> half_up2 s \<noteq> half_up2 (rsum (map line_extension_amount (inv_lines ex10))))"
    by (simp add: ex10_def new_invoice_def new_line_def new_subtotal_def new_allowance_charge_def
       half_up2_def xpath_round2_def xpath_round_def
      exact_def rval_def dec_eval dval_def power_int_def power2_eq_square power3_eq_cube)
  ultimately show ?thesis using br_co_10_verdict [of ex10] by simp
qed

text \<open>The sum of the document level allowances (\<open>False\<close>) or charges (\<open>True\<close>), and the
  official test of BR-CO-11 and BR-CO-12.\<close>

definition doc_amounts :: "invoice \<Rightarrow> bool \<Rightarrow> text_opt list" where
  "doc_amounts iv charge =
     map amount_raw (filter (\<lambda>ac. is_charge ac = Some charge) (doc_allowance_charges iv))"

definition official_ac_total :: "invoice \<Rightarrow> bool \<Rightarrow> rat option \<Rightarrow> bool" where
  "official_ac_total iv charge stated \<longleftrightarrow>
     stated = Some (xpath_round2 (rsum (doc_amounts iv charge))) \<or>
     stated = None \<and> doc_amounts iv charge = []"

text \<open>C14: With exact amounts BR-CO-11 and BR-CO-12 never raise and report exactly when
  the official test fails: the stated total of the document level allowances (charges) must equal
  the two-place rounding, halves towards plus infinity, of the sum of their amounts, and may be
  absent only when the document has none.  (The CII artifact has the same formula without the casts
  to decimals; it computes in binary floating point, which is not modelled and can differ on
  amounts below a cent.)\<close>
theorem br_co_11_12_official:
  assumes "has_legal_monetary_total iv"
    and "list_all exact_amount (doc_amounts iv False)" "length (doc_amounts iv False) < 10 ^ 5"
    and "list_all exact_amount (doc_amounts iv True)" "length (doc_amounts iv True) < 10 ^ 5"
  shows "(\<exists>r. br_co_11 iv = Inr r \<and>
       (fires r \<longleftrightarrow> \<not> official_ac_total iv False (rval (allowance_total iv)))) \<and>
    (\<exists>r. br_co_12 iv = Inr r \<and>
       (fires r \<longleftrightarrow> \<not> official_ac_total iv True (rval (charge_total iv))))"
proof -
  have has: "has_doc_ac iv c \<longleftrightarrow> doc_amounts iv c \<noteq> []" for c
    by (auto simp: has_doc_ac_def doc_amounts_def filter_empty_conv)
  have expected: "\<exists>e. bindE (doc_ac_amount_sum iv c) xr2 = Inr e \<and>
      dval e = xpath_round2 (rsum (doc_amounts iv c))"
    if h: "list_all exact_amount (doc_amounts iv c)" "length (doc_amounts iv c) < 10 ^ 5" for c
  proof -
    obtain t where t: "dec_sum zero (doc_amounts iv c) = Inr t" "dval t = rsum (doc_amounts iv c)"
      "fine 8 t" "\<bar>dval t\<bar> < 10 ^ 17" using dec_sum_zero [OF h] .
    then show ?thesis using xr2_exact [OF t(3,4)]
      by (auto simp: doc_ac_amount_sum_def doc_amounts_def)
  qed
  obtain e0 e1 where "bindE (doc_ac_amount_sum iv False) xr2 = Inr e0"
    "dval e0 = xpath_round2 (rsum (doc_amounts iv False))"
    "bindE (doc_ac_amount_sum iv True) xr2 = Inr e1"
    "dval e1 = xpath_round2 (rsum (doc_amounts iv True))"
    using expected [OF assms(2,3)] expected [OF assms(4,5)] by blast
  then show ?thesis using assms(1)
    by (auto simp: br_co_11_def br_co_12_def Let_def official_ac_total_def rval_def has)
qed

definition ex11 :: invoice where
  "ex11 = new_invoice\<lparr> has_legal_monetary_total := True,
     allowance_total := Some (ascii ''-0.01''),
     doc_allowance_charges := [new_allowance_charge\<lparr> is_charge := Some False,
       amount_raw := Some (ascii ''-0.015'') \<rparr>] \<rparr>"

lemma br_co_11_12_witness:
  "\<exists>r. br_co_11 ex11 = Inr r \<and> \<not> fires r"
proof -
  have "has_legal_monetary_total ex11" "list_all exact_amount (doc_amounts ex11 False)" "length (doc_amounts ex11 False) < 10 ^ 5" "list_all exact_amount (doc_amounts ex11 True)" "length (doc_amounts ex11 True) < 10 ^ 5"
    by (simp_all add: ex11_def new_invoice_def new_line_def new_subtotal_def new_allowance_charge_def
      doc_amounts_def official_ac_total_def
      exact_def rval_def dec_eval dval_def power_int_def power2_eq_square power3_eq_cube)
  moreover have "official_ac_total ex11 False (rval (allowance_total ex11))"
    by (simp add: ex11_def new_invoice_def new_line_def new_subtotal_def new_allowance_charge_def
      doc_amounts_def official_ac_total_def half_up2_def xpath_round2_def xpath_round_def
      exact_def rval_def dec_eval dval_def power_int_def power2_eq_square power3_eq_cube)
  ultimately show ?thesis using br_co_11_12_official [of ex11] by simp
qed

section \<open>BR-CO-13 and BR-CO-16\<close>

text \<open>With exact amounts BR-CO-13 never raises, and it reports exactly when the
  invoice total without VAT or the sum of line amounts is absent, or when the total differs from
  the sum of line amounts minus the allowances plus the charges after both are rounded to cents,
  halves away from zero; absent allowances and charges count as zero.\<close>
theorem br_co_13_verdict:
  assumes "has_legal_monetary_total iv"
    and "exact_amount (tax_exclusive_amount iv)" "exact_amount (line_extension_total iv)"
    and "exact_amount (allowance_total iv)" "exact_amount (charge_total iv)"
  shows "\<exists>r. br_co_13 iv = Inr r \<and> (fires r \<longleftrightarrow>
    (case (rval (tax_exclusive_amount iv), rval (line_extension_total iv)) of
       (Some x, Some l) \<Rightarrow> half_up2 x \<noteq> half_up2
         (l - (case rval (allowance_total iv) of None \<Rightarrow> 0 | Some a \<Rightarrow> a)
            + (case rval (charge_total iv) of None \<Rightarrow> 0 | Some c \<Rightarrow> c))
     | _ \<Rightarrow> True))"
proof -
  let ?a = "dec_or_zero (allowance_total iv)" and ?c = "dec_or_zero (charge_total iv)"
  have oz: "fine 8 (dec_or_zero x)" "\<bar>dval (dec_or_zero x)\<bar> < 10 ^ 11"
    "dval (dec_or_zero x) = (case rval x of None \<Rightarrow> 0 | Some v \<Rightarrow> v)" if "exact_amount x" for x
    using exactD [OF that]
    by (auto simp: dec_or_zero_def rval_def fine_def dval_def split: option.splits)
  note a = oz [OF assms(4)] and c = oz [OF assms(5)]
  obtain qa qc where qa: "q_cent ?a = Inr qa" and qc: "q_cent ?c = Inr qc"
    using q_cent_value [of ?a] q_cent_value [of ?c] a(2) c(2) by auto
  have q: "\<exists>r. q_cent d = Inr r \<and> dval r = half_up2 (dval d)"
    if "exact_amount x" "dec_opt x = Some d" for x d
    using q_cent_value [of d] exactD [OF that] by auto
  have arg: "\<exists>r. q_arg (dec_opt x) = Inr r" if "exact_amount x" for x
    using q [OF that] by (cases "dec_opt x") (auto simp: q_arg_def)
  show ?thesis
  proof (cases "dec_opt (tax_exclusive_amount iv)"; cases "dec_opt (line_extension_total iv)")
    fix x l assume x: "dec_opt (tax_exclusive_amount iv) = Some x"
      and l: "dec_opt (line_extension_total iv) = Some l"
    note lf = exactD [OF assms(3) l]
    have ld: "\<bar>dval l - dval ?a\<bar> < 10 ^ 17" using lf a(2) by simp
    obtain d where d: "dec_sub l ?a = Inr d" "dval d = dval l - dval ?a" "fine 8 d"
      using dec_sub_fine [OF _ a(1) ld] lf by auto
    have "\<bar>dval d + dval ?c\<bar> < 10 ^ 17" unfolding d(2) using lf a(2) c(2) by simp
    then obtain e where e: "dec_add d ?c = Inr e" "dval e = dval d + dval ?c"
      using dec_add_fine [OF d(3) c(1), of 17] by auto
    have "\<bar>dval e\<bar> < 10 ^ 25" using e d lf a(2) c(2) by simp
    then obtain qe where qe: "q_cent e = Inr qe" "dval qe = half_up2 (dval e)"
      using q_cent_value [of e] by auto
    obtain qx ql where "q_cent x = Inr qx" "dval qx = half_up2 (dval x)" "q_cent l = Inr ql"
      using q [OF assms(2) x] q [OF assms(3) l] by auto
    then show ?thesis using assms(1) x l d e qe qa qc a(3) c(3)
      by (simp add: br_co_13_def Let_def rval_def)
  qed (use assms(1) arg [OF assms(2)] arg [OF assms(3)] in
      \<open>auto simp: br_co_13_def Let_def rval_def\<close>)
qed

definition ex13 :: invoice where
  "ex13 = new_invoice\<lparr> has_legal_monetary_total := True,
     tax_exclusive_amount := Some (ascii ''95''), line_extension_total := Some (ascii ''100''),
     allowance_total := Some (ascii ''5.10'') \<rparr>"

lemma br_co_13_verdict_witness:
  "\<exists>r. br_co_13 ex13 = Inr r \<and> fires r"
proof -
  have "has_legal_monetary_total ex13" "exact_amount (tax_exclusive_amount ex13)" "exact_amount (line_extension_total ex13)" "exact_amount (allowance_total ex13)" "exact_amount (charge_total ex13)"
    by (simp_all add: ex13_def new_invoice_def new_line_def new_subtotal_def new_allowance_charge_def
      
      exact_def rval_def dec_eval dval_def power_int_def power2_eq_square power3_eq_cube)
  moreover have "(case (rval (tax_exclusive_amount ex13), rval (line_extension_total ex13)) of
       (Some x, Some l) \<Rightarrow> half_up2 x \<noteq> half_up2
         (l - (case rval (allowance_total ex13) of None \<Rightarrow> 0 | Some a \<Rightarrow> a)
            + (case rval (charge_total ex13) of None \<Rightarrow> 0 | Some c \<Rightarrow> c))
     | _ \<Rightarrow> True)"
    by (simp add: ex13_def new_invoice_def new_line_def new_subtotal_def new_allowance_charge_def
       half_up2_def xpath_round2_def xpath_round_def
      exact_def rval_def dec_eval dval_def power_int_def power2_eq_square power3_eq_cube)
  ultimately show ?thesis using br_co_13_verdict [of ex13] by simp
qed

text \<open>The four-way test of BR-CO-16, keyed on the presence of the prepaid amount and the
  rounding amount.  The UBL artifact rounds the differences, the CII artifact compares exactly.\<close>

definition official_co_16_ubl :: "invoice \<Rightarrow> bool" where
  "official_co_16_ubl iv \<longleftrightarrow>
     (case (rval (payable_amount iv), rval (tax_inclusive_amount iv)) of
        (Some pay, Some incl) \<Rightarrow>
          (case (prepaid_amount iv, payable_rounding_amount iv) of
             (None, None) \<Rightarrow> pay = incl
           | (Some _, None) \<Rightarrow> (case rval (prepaid_amount iv) of None \<Rightarrow> False
               | Some pre \<Rightarrow> pay = xpath_round2 (incl - pre))
           | (None, Some _) \<Rightarrow> (case rval (payable_rounding_amount iv) of None \<Rightarrow> False
               | Some r \<Rightarrow> xpath_round2 (pay - r) = incl)
           | (Some _, Some _) \<Rightarrow>
               (case (rval (prepaid_amount iv), rval (payable_rounding_amount iv)) of
                  (Some pre, Some r) \<Rightarrow> xpath_round2 (pay - r) = xpath_round2 (incl - pre)
                | _ \<Rightarrow> False))
      | _ \<Rightarrow> False)"

definition official_co_16_cii :: "invoice \<Rightarrow> bool" where
  "official_co_16_cii iv \<longleftrightarrow>
     (case (rval (payable_amount iv), rval (tax_inclusive_amount iv)) of
        (Some pay, Some incl) \<Rightarrow>
          (case (prepaid_amount iv, payable_rounding_amount iv) of
             (None, None) \<Rightarrow> pay = incl
           | (Some _, None) \<Rightarrow> (case rval (prepaid_amount iv) of None \<Rightarrow> False
               | Some pre \<Rightarrow> pay = incl - pre)
           | (None, Some _) \<Rightarrow> (case rval (payable_rounding_amount iv) of None \<Rightarrow> False
               | Some r \<Rightarrow> pay = incl + r)
           | (Some _, Some _) \<Rightarrow>
               (case (rval (prepaid_amount iv), rval (payable_rounding_amount iv)) of
                  (Some pre, Some r) \<Rightarrow> pay = incl - pre + r
                | _ \<Rightarrow> False))
      | _ \<Rightarrow> False)"

definition official_co_16 :: "invoice \<Rightarrow> bool" where
  "official_co_16 iv \<longleftrightarrow>
     (if inv_syntax iv = CII then official_co_16_cii iv else official_co_16_ubl iv)"

definition whole_cents :: "text_opt \<Rightarrow> bool" where
  "whole_cents x \<longleftrightarrow> (case rval x of None \<Rightarrow> True | Some v \<Rightarrow> frac (100 * v) = 0)"

definition co_16_amounts :: "invoice \<Rightarrow> text_opt list" where
  "co_16_amounts iv = [payable_amount iv, tax_inclusive_amount iv, prepaid_amount iv, payable_rounding_amount iv]"

lemma round2_cents:
  assumes "frac (100 * v) = 0"
  shows "xpath_round2 v = v"
proof -
  obtain n where n: "100 * v = of_int n" using assms by (auto simp: frac_eq_0_iff elim: Ints_cases)
  have "\<lfloor>of_int n + 1 / 2 :: rat\<rfloor> = n" by (simp add: floor_eq_iff)
  then show ?thesis using n by (simp add: xpath_round2_def xpath_round_def mult.commute)
qed

lemma frac_diff: "frac (100 * a) = 0 \<Longrightarrow> frac (100 * b) = 0 \<Longrightarrow> frac (100 * (a - b :: rat)) = 0"
  unfolding frac_eq_0_iff right_diff_distrib by (rule Ints_diff)

lemma co_16_syntaxes_agree:
  assumes "list_all whole_cents (co_16_amounts iv)"
  shows "official_co_16_ubl iv \<longleftrightarrow> official_co_16_cii iv"
proof -
  have cents: "frac (100 * v) = 0" if "rval x = Some v" "x \<in> set (co_16_amounts iv)" for x v
    using assms that by (auto simp: list_all_iff whole_cents_def split: option.splits)
  have diff: "xpath_round2 (v - w) = v - w" if "rval x = Some v" "rval y = Some w"
      "x \<in> set (co_16_amounts iv)" "y \<in> set (co_16_amounts iv)" for x y v w
    using that by (intro round2_cents frac_diff cents)
  show ?thesis
    by (auto simp: official_co_16_ubl_def official_co_16_cii_def co_16_amounts_def diff
        split: option.split)
qed

lemma br_co_16_ubl:
  assumes "has_legal_monetary_total iv"
    and "exact_amount (payable_amount iv)" "exact_amount (tax_inclusive_amount iv)"
    and "exact_amount (prepaid_amount iv)" "exact_amount (payable_rounding_amount iv)"
  shows "\<exists>r. br_co_16 iv = Inr r \<and> (fires r \<longleftrightarrow> \<not> official_co_16_ubl iv)"
proof -
  have diff: "\<exists>r. bindE (dec_sub a b) xr2 = Inr r \<and> dval r = xpath_round2 (dval a - dval b)"
    if "exact_amount x" "dec_opt x = Some a" "exact_amount y" "dec_opt y = Some b" for x y a b
  proof -
    have f: "fine 8 a" "\<bar>dval a\<bar> < 10 ^ 11" "fine 8 b" "\<bar>dval b\<bar> < 10 ^ 11"
      using exactD that by blast+
    then have "\<bar>dval a - dval b\<bar> < 10 ^ 17" by simp
    then obtain d where "dec_sub a b = Inr d" "dval d = dval a - dval b" "fine 8 d"
      using dec_sub_fine [OF f(1,3), of 17] by auto
    then show ?thesis using xr2_fine [of 8 d 17] \<open>\<bar>dval a - dval b\<bar> < 10 ^ 17\<close> by auto
  qed
  have "\<exists>b. br_co_16_holds iv = Inr b \<and> (b \<longleftrightarrow> official_co_16_ubl iv)"
  proof (cases "dec_opt (payable_amount iv)"; cases "dec_opt (tax_inclusive_amount iv)")
    fix p t assume p: "dec_opt (payable_amount iv) = Some p"
      and t: "dec_opt (tax_inclusive_amount iv) = Some t"
    note l = diff [OF assms(2) p assms(5)] and r = diff [OF assms(3) t assms(4)]
    show ?thesis
      by (cases "prepaid_amount iv"; cases "payable_rounding_amount iv";
          cases "dec_opt (prepaid_amount iv)"; cases "dec_opt (payable_rounding_amount iv)")
         (use p t l r in \<open>auto simp: br_co_16_holds_def official_co_16_ubl_def rval_def Let_def\<close>)
  qed (auto simp: br_co_16_holds_def official_co_16_ubl_def rval_def split: option.splits)
  then show ?thesis using assms(1) by (auto simp: br_co_16_def)
qed

text \<open>C10: With exact amounts BR-CO-16 never raises.  On a UBL invoice it reports exactly when the
  test of the UBL artifact fails, and on a CII invoice whose four amounts are whole cents, as
  BR-DEC-14 and its companions ask, exactly when that of the CII artifact fails.  (On other
  amounts the rule rounds as for UBL, and departs from the CII artifact.)\<close>
theorem br_co_16_official:
  assumes "has_legal_monetary_total iv"
    and "exact_amount (payable_amount iv)" "exact_amount (tax_inclusive_amount iv)"
    and "exact_amount (prepaid_amount iv)" "exact_amount (payable_rounding_amount iv)"
    and "inv_syntax iv = CII \<longrightarrow> list_all whole_cents (co_16_amounts iv)"
  shows "\<exists>r. br_co_16 iv = Inr r \<and> (fires r \<longleftrightarrow> \<not> official_co_16 iv)"
  using br_co_16_ubl [OF assms(1-5)] assms(6) co_16_syntaxes_agree [of iv]
  by (cases "inv_syntax iv = CII") (simp_all add: official_co_16_def)

text \<open>Below a cent the rule departs from the CII artifact: 100.005 less 10 is not 90.01.\<close>

definition ex16_cii :: invoice where
  "ex16_cii = new_invoice\<lparr> inv_syntax := CII, has_legal_monetary_total := True,
     payable_amount := Some (ascii ''90.005''), tax_inclusive_amount := Some (ascii ''100.005''),
     prepaid_amount := Some (ascii ''10'') \<rparr>"

lemma br_co_16_rounds_cii: "official_co_16 ex16_cii \<and> (\<exists>r. br_co_16 ex16_cii = Inr r \<and> fires r)"
proof
  show "official_co_16 ex16_cii"
    by (simp add: ex16_cii_def new_invoice_def official_co_16_def official_co_16_cii_def
        rval_def dec_eval dval_def power_int_def power2_eq_square power3_eq_cube)
  have "has_legal_monetary_total ex16_cii" "exact_amount (payable_amount ex16_cii)"
    "exact_amount (tax_inclusive_amount ex16_cii)" "exact_amount (prepaid_amount ex16_cii)"
    "exact_amount (payable_rounding_amount ex16_cii)"
    by (simp_all add: ex16_cii_def new_invoice_def exact_def dec_eval dval_def power_int_def
        power2_eq_square power3_eq_cube)
  moreover have "\<not> official_co_16_ubl ex16_cii"
    by (simp add: ex16_cii_def new_invoice_def official_co_16_ubl_def xpath_round2_def xpath_round_def
        rval_def dec_eval dval_def power_int_def power2_eq_square power3_eq_cube)
  ultimately show "\<exists>r. br_co_16 ex16_cii = Inr r \<and> fires r"
    using br_co_16_ubl [of ex16_cii] by simp
qed

definition ex16 :: invoice where
  "ex16 = new_invoice\<lparr> has_legal_monetary_total := True,
     payable_amount := Some (ascii ''100.003''), tax_inclusive_amount := Some (ascii ''100.00''),
     inv_syntax := UBL \<rparr>"

lemma br_co_16_official_witness:
  "\<exists>r. br_co_16 ex16 = Inr r \<and> fires r"
proof -
  have "has_legal_monetary_total ex16" "exact_amount (payable_amount ex16)" "exact_amount (tax_inclusive_amount ex16)" "exact_amount (prepaid_amount ex16)" "exact_amount (payable_rounding_amount ex16)"
    "inv_syntax ex16 = CII \<longrightarrow> list_all whole_cents (co_16_amounts ex16)"
    by (simp_all add: ex16_def new_invoice_def new_line_def new_subtotal_def new_allowance_charge_def
      official_co_16_def official_co_16_ubl_def
      exact_def rval_def dec_eval dval_def power_int_def power2_eq_square power3_eq_cube)
  moreover have "\<not> official_co_16 ex16"
    by (simp add: ex16_def new_invoice_def new_line_def new_subtotal_def new_allowance_charge_def
      official_co_16_def official_co_16_ubl_def half_up2_def xpath_round2_def xpath_round_def
      exact_def rval_def dec_eval dval_def power_int_def power2_eq_square power3_eq_cube)
  ultimately show ?thesis using br_co_16_official [of ex16] by simp
qed

section \<open>BR-CO-17\<close>

text \<open>The three-way test of BR-CO-17 on the rate, the tax amount and the taxable amount.  The
  band of one unit is open in the UBL artifact and closed in the CII artifact.\<close>

definition in_band :: "syntax_kind \<Rightarrow> rat \<Rightarrow> bool" where
  "in_band syn d \<longleftrightarrow> (if syn = CII then \<bar>d\<bar> \<le> 1 else \<bar>d\<bar> < 1)"

definition official_co_17 :: "syntax_kind \<Rightarrow> rat option \<Rightarrow> rat option \<Rightarrow> rat option \<Rightarrow> bool" where
  "official_co_17 syn pct tax taxable \<longleftrightarrow>
     (case tax of None \<Rightarrow> False | Some t \<Rightarrow>
        (case pct of None \<Rightarrow> xpath_round t = 0
         | Some p \<Rightarrow> xpath_round p = 0 \<and> xpath_round t = 0 \<or>
             xpath_round p \<noteq> 0 \<and> (case taxable of None \<Rightarrow> False
               | Some x \<Rightarrow> in_band syn (\<bar>t\<bar> - xpath_round2 (\<bar>x\<bar> * (p / 100))))))"

definition vat_rate :: "tax_subtotal \<Rightarrow> rat option" where
  "vat_rate st = (if category_scheme_id st = VAT then rval (percent st) else None)"

definition official_co_17_row :: "syntax_kind \<Rightarrow> tax_subtotal \<Rightarrow> bool" where
  "official_co_17_row syn st = official_co_17 syn (vat_rate st)
     (rval (st_tax_amount st)) (rval (taxable_amount st))"

text \<open>A row whose tax amount is exactly one unit away from the product.\<close>

definition on_band_edge :: "tax_subtotal \<Rightarrow> bool" where
  "on_band_edge st \<longleftrightarrow> (case (vat_rate st, rval (st_tax_amount st), rval (taxable_amount st)) of
     (Some p, Some t, Some x) \<Rightarrow> xpath_round p \<noteq> 0 \<and>
       \<bar>\<bar>t\<bar> - xpath_round2 (\<bar>x\<bar> * (p / 100))\<bar> = 1
   | _ \<Rightarrow> False)"

lemma official_co_17_syntaxes:
  "official_co_17_row UBL st \<longleftrightarrow> official_co_17_row CII st \<and> \<not> on_band_edge st"
  by (auto simp: official_co_17_row_def official_co_17_def in_band_def on_band_edge_def split: option.splits)

definition exact_row :: "tax_subtotal \<Rightarrow> bool" where
  "exact_row st \<longleftrightarrow> exact 4 3 (percent st) \<and> exact 4 11 (st_tax_amount st) \<and>
     exact 4 11 (taxable_amount st)"

lemma dec_abs_fine:
  assumes "fine f d" "\<bar>dval d\<bar> < 10 ^ p" "p + f \<le> 28"
  shows "dec_abs d = Inr (Dec \<bar>coeff d\<bar> (expo d))" "dval (Dec \<bar>coeff d\<bar> (expo d)) = \<bar>dval d\<bar>"
proof -
  show v: "dval (Dec \<bar>coeff d\<bar> (expo d)) = \<bar>dval d\<bar>" by (simp add: dval_def abs_mult)
  show "dec_abs d = Inr (Dec \<bar>coeff d\<bar> (expo d))"
    unfolding dec_abs_def using assms v by (intro dec_fix_fine [of _ p f]) (simp_all add: fine_def)
qed

lemma tax_product:
  assumes "fine 4 x" "\<bar>dval x\<bar> < 10 ^ 11" "expo x \<le> 40"
    and "fine 4 p" "\<bar>dval p\<bar> < 10 ^ 3" "expo p \<le> 40"
  obtains e where
    "bindE (dec_abs x) (\<lambda>base. bindE (dec_div100 p) (\<lambda>rate. bindE (bindE (dec_mul base rate) xr2) f))
       = f e"
    "dval e = xpath_round2 (\<bar>dval x\<bar> * (dval p / 100))"
proof -
  let ?b = "Dec \<bar>coeff x\<bar> (expo x)" and ?r = "Dec (coeff p) (expo p - 2)"
  let ?m = "Dec (\<bar>coeff x\<bar> * coeff p) (expo x + (expo p - 2))"
  have b: "dec_abs x = Inr ?b" "dval ?b = \<bar>dval x\<bar>" using dec_abs_fine [of 4 x 11] assms by auto
  have rv: "dval ?r = dval p / 100" by (simp add: dval_def power_int_diff)
  have r: "dec_div100 p = Inr ?r" unfolding dec_div100_def
    using assms rv by (intro dec_fix_fine [of _ 3 6]) (simp_all add: fine_def)
  have mv: "dval ?m = \<bar>dval x\<bar> * (dval p / 100)"
    by (simp add: dval_def abs_mult power_int_add power_int_diff)
  have "\<bar>\<bar>dval x\<bar> * (dval p / 100)\<bar> \<le> 10 ^ 11 * 10"
    unfolding abs_mult using assms(2,5) by (intro mult_mono) simp_all
  then have mb: "\<bar>dval ?m\<bar> < 10 ^ 13" unfolding mv by simp
  have mf: "fine 10 ?m" using assms by (auto simp: fine_def)
  have m: "dec_mul ?b ?r = Inr ?m" unfolding dec_mul_def
    using dec_fix_fine [OF mb _ mf] by simp
  obtain e where "xr2 ?m = Inr e" "dval e = xpath_round2 (dval ?m)"
    using xr2_fine [OF mf mb] by auto
  then show ?thesis using that [of e] b r m mv by simp
qed

lemma tax_in_band_value:
  assumes "exact 4 3 y" "dec_opt y = Some p" "exact 4 11 z" "dec_opt z = Some t"
    "exact 4 11 w" "dec_opt w = Some x"
  shows "tax_in_band p t x = Inr (\<bar>\<bar>dval t\<bar> - xpath_round2 (\<bar>dval x\<bar> * (dval p / 100))\<bar> < 1)"
proof -
  note p = exactD [OF assms(1,2)] exact_expo [OF assms(1,2)]
    and t = exactD [OF assms(3,4)] and x = exactD [OF assms(5,6)] exact_expo [OF assms(5,6)]
  let ?t = "Dec \<bar>coeff t\<bar> (expo t)"
  have one: "fine 4 (dec_of_int 1)" "dval (dec_of_int 1) = 1"
    by (simp_all add: fine_def dec_of_int_def dval_def)
  have at: "dec_abs t = Inr ?t" "dval ?t = \<bar>dval t\<bar>" "fine 4 ?t"
    using dec_abs_fine [of 4 t 11] t by (auto simp: fine_def)
  have "\<bar>dval t\<bar> < 100000000000" using t(2) by simp
  then have b: "\<bar>\<bar>dval t\<bar> - 1\<bar> < 1000000000000" "\<bar>\<bar>dval t\<bar> + 1\<bar> < 1000000000000" by linarith+
  obtain lo where lo: "dec_sub ?t (dec_of_int 1) = Inr lo" "dval lo = \<bar>dval t\<bar> - 1"
    using dec_sub_fine [OF at(3) one(1), of 12] at one b by auto
  obtain hi where hi: "dec_add ?t (dec_of_int 1) = Inr hi" "dval hi = \<bar>dval t\<bar> + 1"
    using dec_add_fine [OF at(3) one(1), of 12] at one b by auto
  let ?f = "\<lambda>expected. bindE (dec_abs t) (\<lambda>t. bindE (dec_sub t (dec_of_int 1)) (\<lambda>lo.
       if \<not> dec_less lo expected then Inr False
       else bindE (dec_add t (dec_of_int 1)) (\<lambda>hi. Inr (dec_less expected hi))))"
  obtain e where "tax_in_band p t x = ?f e" "dval e = xpath_round2 (\<bar>dval x\<bar> * (dval p / 100))"
    unfolding tax_in_band_def using tax_product [OF x p, of ?f] by blast
  moreover have "\<bar>a - b\<bar> < 1 \<longleftrightarrow> a - 1 < b \<and> b < a + 1" for a b :: rat by linarith
  ultimately show ?thesis using at lo hi by auto
qed

lemma rounds_to_zero_value:
  assumes "exact 4 11 y" "dec_opt y = Some v"
  shows "rounds_to_zero v = Inr (xpath_round (dval v) = 0)"
proof -
  have "\<bar>dval v\<bar> < 10 ^ 12 - 1" using exactD(2) [OF assms] by simp
  then obtain r where "fn_round v = Inr r" "dval r = xpath_round (dval v)"
    using fn_round_fine [OF exactD(1) [OF assms], of 12] by auto
  then show ?thesis by (simp add: rounds_to_zero_def dval_def [of zero])
qed

lemma br_co_17_holds_value:
  assumes "exact_row st"
  shows "br_co_17_holds st = Inr (official_co_17_row UBL st)"
proof -
  have e: "exact 4 3 (percent st)" "exact 4 11 (st_tax_amount st)" "exact 4 11 (taxable_amount st)"
    using assms by (simp_all add: exact_row_def)
  have p: "exact 4 11 (percent st)" using e(1) by (auto simp: exact_def split: option.splits)
  show ?thesis
    by (cases "dec_opt (percent st)"; cases "dec_opt (st_tax_amount st)";
        cases "dec_opt (taxable_amount st)")
       (auto simp: br_co_17_holds_def official_co_17_row_def official_co_17_def vat_rate_def in_band_def rval_def Let_def
         rounds_to_zero_value [OF e(2)] rounds_to_zero_value [OF p]
         tax_in_band_value [OF e(1) _ e(2) _ e(3)])
qed

text \<open>C11: On VAT breakdown rows with exact amounts BR-CO-17 never raises.  A rate that rounds to
  zero, or an absent one, asks for a tax amount that rounds to zero, and any other rate for a tax
  amount within one unit of the rounded product of the taxable amount and the rate.  On a UBL
  invoice the rule reports exactly when some row fails the test of the UBL artifact; on a CII
  invoice exactly when some row fails that of the CII artifact or lies exactly one unit away,
  which the closed band of that artifact accepts.\<close>
theorem br_co_17_official:
  assumes "list_all exact_row (all_tax_subtotals iv)"
  shows "\<exists>r. br_co_17 iv = Inr r \<and> (fires r \<longleftrightarrow>
    \<not> list_all (official_co_17_row (inv_syntax iv)) (all_tax_subtotals iv) \<or>
    inv_syntax iv = CII \<and> list_ex on_band_edge (all_tax_subtotals iv))"
proof -
  have "br_co_17_holds st = Inr (official_co_17_row UBL st)" if "st \<in> set (all_tax_subtotals iv)" for st
    using assms that by (intro br_co_17_holds_value) (simp add: list_all_iff)
  then have "\<exists>r. br_co_17 iv = Inr r \<and>
      (fires r \<longleftrightarrow> (\<exists>st\<in>set (all_tax_subtotals iv). \<not> official_co_17_row UBL st))"
    unfolding br_co_17_def by (intro first_someE_fires) auto
  then show ?thesis
    by (cases "inv_syntax iv") (auto simp: list_all_iff list_ex_iff official_co_17_syntaxes)
qed

definition ex17 :: invoice where
  "ex17 = new_invoice\<lparr> all_tax_subtotals := [new_subtotal\<lparr> category_scheme_id := VAT,
     percent := Some (ascii ''19''), st_tax_amount := Some (ascii ''20''),
     taxable_amount := Some (ascii ''100'') \<rparr>] \<rparr>"

lemma ex17_row:
  "exact_row (hd (all_tax_subtotals ex17))" "on_band_edge (hd (all_tax_subtotals ex17))"
  "official_co_17_row CII (hd (all_tax_subtotals ex17))" "\<not> official_co_17_row UBL (hd (all_tax_subtotals ex17))"
  by (simp_all add: ex17_def new_invoice_def new_subtotal_def exact_row_def official_co_17_row_def
      official_co_17_def in_band_def on_band_edge_def vat_rate_def xpath_round2_def xpath_round_def
      exact_def rval_def dec_eval dval_def power_int_def power2_eq_square power3_eq_cube)

text \<open>100 at 19 percent with a tax of 20 is reported in both syntaxes.\<close>

lemma br_co_17_official_witness:
  "(\<exists>r. br_co_17 (ex17\<lparr> inv_syntax := UBL \<rparr>) = Inr r \<and> fires r) \<and>
   (\<exists>r. br_co_17 (ex17\<lparr> inv_syntax := CII \<rparr>) = Inr r \<and> fires r)"
proof -
  obtain st where st: "all_tax_subtotals ex17 = [st]" by (simp add: ex17_def)
  show ?thesis
    using br_co_17_official [of "ex17\<lparr> inv_syntax := UBL \<rparr>"] br_co_17_official [of "ex17\<lparr> inv_syntax := CII \<rparr>"]
      ex17_row by (simp add: st)
qed

end
