(* ===== verification/EI_Xml.thy ===== *)
theory EI_Xml
  imports EI_Upper
begin

text \<open>
  The element trees of \<open>xml.etree.ElementTree\<close> and the part of its API that the parsers and
  the XML rules use: \<open>find\<close> and \<open>findall\<close> over child paths and over \<open>.//\<close> paths,
  \<open>iter\<close>, \<open>itertext\<close>, \<open>get\<close>, with the parent of every element where the code builds a
  parent map.  A tag is the string \<open>{namespace}local\<close> that ElementTree uses.
\<close>

named_theorems xml_simps \<open>navigation on concrete elements\<close>

section \<open>Elements\<close>

text \<open>An element: tag, attributes, \<open>text\<close>, \<open>tail\<close>, the source line that the hardened parser
  stamps on it, and its children.\<close>

datatype xml = Elem (xtag: pystr) (attrs: "(pystr \<times> pystr) list") (xtext: text_opt)
  (xtail: text_opt) (xline: "nat option") (kids: "xml list")

lemma size_kid [termination_simp]: "k \<in> set (kids e) \<Longrightarrow> size k < size e"
  by (cases e) (auto simp: size_list_estimation dest!: size_list_estimation' [where f = size, OF _ order_refl])

lemma size_kids [termination_simp]: "k \<in> set ks \<Longrightarrow> size k < Suc (size_list size ks)"
  by (simp add: less_Suc_eq_le size_list_estimation')

text \<open>\<open>el.get(key)\<close> and \<open>key in el.attrib\<close>.\<close>

definition xget :: "string \<Rightarrow> xml \<Rightarrow> text_opt" where
  "xget key e = map_of (attrs e) (ascii key)"

section \<open>Navigation\<close>

definition children_named :: "pystr \<Rightarrow> xml \<Rightarrow> xml list" where
  "children_named t e = filter (\<lambda>k. xtag k = t) (kids e)"

fun steps :: "pystr list \<Rightarrow> xml list \<Rightarrow> xml list" where
  "steps [] es = es"
| "steps (t # ts) es = steps ts (concat (map (children_named t) es))"

text \<open>\<open>el.findall("a/b/c")\<close> and \<open>el.find("a/b/c")\<close>.\<close>

definition xfindall :: "pystr list \<Rightarrow> xml \<Rightarrow> xml list" where
  "xfindall path e = steps path [e]"

fun first :: "'a list \<Rightarrow> 'a option" where
  "first [] = None"
| "first (x # xs) = Some x"

definition xfind :: "pystr list \<Rightarrow> xml \<Rightarrow> xml option" where
  "xfind path e = first (xfindall path e)"

definition has_path :: "pystr list \<Rightarrow> xml \<Rightarrow> bool" where
  "has_path path e \<longleftrightarrow> xfindall path e \<noteq> []"

text \<open>\<open>el.iter()\<close>: the element and its descendants in document order.\<close>

fun iter :: "xml \<Rightarrow> xml list" where
  "iter (Elem t a x y l ks) = Elem t a x y l ks # concat (map iter ks)"

definition iter_tag :: "pystr \<Rightarrow> xml \<Rightarrow> xml list" where
  "iter_tag t e = filter (\<lambda>d. xtag d = t) (iter e)"

text \<open>\<open>el.findall(".//a/b")\<close>: the descendants with the first tag, and child steps from there.\<close>

definition xdesc :: "pystr list \<Rightarrow> xml \<Rightarrow> xml list" where
  "xdesc path e = (case path of [] \<Rightarrow> []
     | t # ts \<Rightarrow> steps ts (filter (\<lambda>d. xtag d = t) (concat (map iter (kids e)))))"

text \<open>The elements of \<open>iter()\<close> with their ancestors, nearest first: what the parent map
  \<open>{c: p for p in root.iter() for c in p}\<close> is used for.\<close>

fun iter_up :: "xml list \<Rightarrow> xml \<Rightarrow> (xml \<times> xml list) list" where
  "iter_up up (Elem t a x y l ks) =
     (Elem t a x y l ks, up) # concat (map (iter_up (Elem t a x y l ks # up)) ks)"

section \<open>Text\<close>

text \<open>\<open>"".join(el.itertext())\<close>.\<close>

fun strval :: "xml \<Rightarrow> pystr" where
  "strval (Elem t a x y l ks) =
     or_empty x @ concat (map (\<lambda>k. strval k @ or_empty (xtail k)) ks)"

text \<open>\<open>_text\<close>, \<open>_rawtext\<close>, \<open>_norm_space\<close> on an optional text, \<open>_sourceline\<close>.\<close>

definition text_of :: "xml option \<Rightarrow> text_opt" where
  "text_of = map_option (\<lambda>e. py_strip (or_empty (xtext e)))"

definition rawtext :: "xml option \<Rightarrow> text_opt" where
  "rawtext = map_option (\<lambda>e. or_empty (xtext e))"

definition norm_opt :: "text_opt \<Rightarrow> text_opt" where
  "norm_opt = map_option norm_space"

definition sourceline :: "xml option \<Rightarrow> nat option" where
  "sourceline e = (case e of None \<Rightarrow> None | Some x \<Rightarrow> xline x)"

text \<open>\<open>_localname\<close>: what follows the last \<open>}\<close>, the whole tag when there is none.\<close>

definition localname :: "pystr \<Rightarrow> pystr" where
  "localname t = rev (takeWhile (\<lambda>c. c \<noteq> 125) (rev t))"

text \<open>\<open>scheme.upper() if scheme else None\<close> and \<open>scheme and scheme.upper() == "VAT"\<close>.\<close>

definition upper_opt :: "text_opt \<Rightarrow> text_opt" where
  "upper_opt s = (if falsy s then None else map_option py_upper s)"

definition is_vat :: "text_opt \<Rightarrow> bool" where
  "is_vat s \<longleftrightarrow> upper_opt s = VAT"

section \<open>Qualified names\<close>

definition qname :: "string \<Rightarrow> string \<Rightarrow> pystr" where
  "qname ns n = 123 # ascii ns @ 125 # ascii n"

definition NS_INVOICE :: string where
  "NS_INVOICE = ''urn:oasis:names:specification:ubl:schema:xsd:Invoice-2''"

definition NS_CREDITNOTE :: string where
  "NS_CREDITNOTE = ''urn:oasis:names:specification:ubl:schema:xsd:CreditNote-2''"

definition NS_CAC :: string where
  "NS_CAC = ''urn:oasis:names:specification:ubl:schema:xsd:CommonAggregateComponents-2''"

definition NS_CBC :: string where
  "NS_CBC = ''urn:oasis:names:specification:ubl:schema:xsd:CommonBasicComponents-2''"

definition cac :: "string \<Rightarrow> pystr" where "cac n = qname NS_CAC n"

definition cbc :: "string \<Rightarrow> pystr" where "cbc n = qname NS_CBC n"

section \<open>Lemmas\<close>

lemma ascii_eq_iff [simp]: "ascii a = ascii b \<longleftrightarrow> a = b"
  unfolding ascii_def by (rule inj_map_eq_map) (simp add: inj_on_def)

lemma brace_ascii: "125 \<in> set (ascii s) \<longleftrightarrow> CHR ''}'' \<in> set s"
proof -
  have "(of_char c = (125 :: nat)) = (c = CHR ''}'')" for c
    using of_char_eq_iff [of c "CHR ''}''", where 'a = nat] by simp
  then show ?thesis unfolding ascii_def by (induction s) (auto simp: eq_commute)
qed

lemma qname_eq_iff:
  assumes "CHR ''}'' \<notin> set m" "CHR ''}'' \<notin> set n"
  shows "qname m a = qname n b \<longleftrightarrow> m = n \<and> a = b"
proof
  assume eq: "qname m a = qname n b"
  have tw: "takeWhile (\<lambda>c. c \<noteq> 125) (ascii s @ 125 # t) = ascii s" if "CHR ''}'' \<notin> set s" for s and t :: pystr
    using that by (auto simp: takeWhile_append brace_ascii)
  from eq have "ascii m @ 125 # ascii a = ascii n @ 125 # ascii b" by (simp add: qname_def)
  moreover from this have "ascii m = ascii n" using tw assms by metis
  ultimately show "m = n \<and> a = b" by simp
qed simp

lemma qname_simps [simp, xml_simps]:
  "cac a = cac b \<longleftrightarrow> a = b" "cbc a = cbc b \<longleftrightarrow> a = b"
  "cac a \<noteq> cbc b" "cbc a \<noteq> cac b"
  unfolding cac_def cbc_def by (subst qname_eq_iff; simp add: NS_CAC_def NS_CBC_def)+

lemma localname_qname [simp, xml_simps]:
  assumes "CHR ''}'' \<notin> set n"
  shows "localname (qname ns n) = ascii n"
proof -
  have "125 \<notin> set (rev (ascii n))" using assms by (simp add: brace_ascii)
  then show ?thesis
    by (simp add: localname_def qname_def takeWhile_append2 takeWhile_append)
qed

lemma steps_append: "steps ts (es @ fs) = steps ts es @ steps ts fs"
  by (induction ts arbitrary: es fs) simp_all

lemma steps_concat: "steps ts es = concat (map (xfindall ts) es)"
proof (induction es)
  case Nil
  show ?case by (induction ts) simp_all
next
  case (Cons e es)
  then show ?case using steps_append [of ts "[e]" es] by (simp add: xfindall_def)
qed

lemma xfindall_simps [simp, xml_simps]:
  "xfindall [] e = [e]"
  "xfindall (t # ts) e = concat (map (xfindall ts) (children_named t e))"
proof -
  show "xfindall [] e = [e]" by (simp add: xfindall_def)
  have "xfindall (t # ts) e = steps ts (children_named t e)" by (simp add: xfindall_def)
  also have "\<dots> = concat (map (xfindall ts) (children_named t e))" by (rule steps_concat)
  finally show "xfindall (t # ts) e = concat (map (xfindall ts) (children_named t e))" .
qed

lemma children_named_Elem [simp, xml_simps]:
  "children_named t (Elem u a x y l ks) = filter (\<lambda>k. xtag k = t) ks"
  by (simp add: children_named_def)

lemma has_path_find: "has_path p e \<longleftrightarrow> xfind p e \<noteq> None"
  by (cases "xfindall p e") (simp_all add: has_path_def xfind_def)

lemma iter_kids: "iter e = e # concat (map iter (kids e))"
  by (cases e) simp

lemma iter_self [simp]: "e \<in> set (iter e)"
  by (cases e) simp

lemma iter_trans: "x \<in> set (iter y) \<Longrightarrow> y \<in> set (iter z) \<Longrightarrow> x \<in> set (iter z)"
proof (induction z rule: iter.induct)
  case (1 t a p q l ks)
  then show ?case by (auto)
qed

lemma fst_iter_up: "map fst (iter_up up e) = iter e"
proof (induction up e rule: iter_up.induct)
  case (1 up t a x y l ks)
  then have "map (map fst \<circ> iter_up (Elem t a x y l ks # up)) ks = map iter ks" by simp
  then show ?case by (simp only: iter_up.simps iter.simps list.map map_concat map_map fst_conv)
qed

lemma steps_descend:
  assumes "\<forall>e\<in>set es. e \<in> set (iter r)"
  shows "x \<in> set (steps ts es) \<Longrightarrow> x \<in> set (iter r)"
  using assms
proof (induction ts arbitrary: es)
  case (Cons t ts)
  have "k \<in> set (iter r)" if "e \<in> set es" "k \<in> set (children_named t e)" for e k
  proof -
    have "k \<in> set (kids e)" using that(2) by (simp add: children_named_def)
    then have "k \<in> set (iter e)" using iter_self [of k] by (cases e) fastforce
    then show ?thesis using that(1) Cons.prems(2) iter_trans by blast
  qed
  then show ?case using Cons.IH [of "concat (map (children_named t) es)"] Cons.prems(1) by auto
qed simp

lemma xfindall_in_iter: "x \<in> set (xfindall p e) \<Longrightarrow> x \<in> set (iter e)"
  unfolding xfindall_def by (rule steps_descend [of "[e]"]) auto

end
