(* ===== verification/EI_Xr_Base.thy ===== *)
theory EI_Xr_Base
  imports EI_Xml EI_Codelists EI_Float
begin

text \<open>
  What the national rules share (\<open>rules_xrechnung.py\<close>): the official constants, the
  string tests that the code writes as regular expressions, the IBAN check, and the decimals
  of \<open>_dec\<close>, which here keep infinities and NaNs.
\<close>

named_theorems xr_defs \<open>the definitions of the national rules\<close>

section \<open>Findings and rules\<close>

text \<open>\<open>_v(fn, message, element)\<close> with the identifier and severity of the decorator.\<close>

definition XV :: "severity \<Rightarrow> string \<Rightarrow> fmt \<Rightarrow> fmt \<Rightarrow> violation" where
  "XV s rid msg el = with_severity s (Violation rid msg el)"

lemma XV_sel [simp]:
  "v_rule_id (XV s r m e) = r" "v_severity (XV s r m e) = s"
  "v_source_line (XV s r m e) = None" "v_element (XV s r m e) = e"
  by (simp_all add: XV_def)

text \<open>\<open>for rule in RULES: v = rule(x); if v is not None: out.append(v)\<close>.\<close>

fun evaluate_rules :: "('a \<Rightarrow> dec_exc + violation option) list \<Rightarrow> 'a \<Rightarrow> dec_exc + violation list" where
  "evaluate_rules [] x = Inr []"
| "evaluate_rules (r # rs) x = bindE (r x) (\<lambda>v. bindE (evaluate_rules rs x) (\<lambda>vs.
     Inr (case v of None \<Rightarrow> vs | Some w \<Rightarrow> w # vs)))"

text \<open>Two loops after each other: the second one runs when the first one returned nothing.\<close>

definition orelseE :: "dec_exc + violation option \<Rightarrow> dec_exc + violation option \<Rightarrow> dec_exc + violation option" where
  "orelseE m n = bindE m (\<lambda>v. case v of Some x \<Rightarrow> Inr (Some x) | None \<Rightarrow> n)"

definition total_rule :: "('a \<Rightarrow> violation option) \<Rightarrow> 'a \<Rightarrow> dec_exc + violation option" where
  "total_rule r = (\<lambda>x. Inr (r x))"

text \<open>\<open>%r\<close> of a value that may be \<open>None\<close>.\<close>

fun repr_opt :: "text_opt \<Rightarrow> frag" where
  "repr_opt None = L ''None''"
| "repr_opt (Some s) = R s"

section \<open>Constants\<close>

definition XR_CIUS_ID :: pystr where
  "XR_CIUS_ID = ascii ''urn:cen.eu:en16931:2017#compliant#'' @
     ascii ''urn:xeinkauf.de:kosit:xrechnung_3.0''"

definition XR_EXTENSION_ID :: pystr where
  "XR_EXTENSION_ID = XR_CIUS_ID @ ascii ''#conformant#'' @
     ascii ''urn:xeinkauf.de:kosit:extension:xrechnung_3.0''"

definition XR_CVD_ID :: pystr where
  "XR_CVD_ID = XR_CIUS_ID @ ascii ''#compliant#urn:xeinkauf.de:kosit:xrechnung:cvd_0.9''"

definition XR_TYPE_CODES :: "pystr list" where
  "XR_TYPE_CODES =
     map ascii [''326'', ''380'', ''384'', ''389'', ''381'', ''875'', ''876'', ''877'']"

definition XR_SUPPORTED_VAT_CODES :: "pystr list" where
  "XR_SUPPORTED_VAT_CODES =
     map ascii [''S'', ''Z'', ''E'', ''AE'', ''K'', ''G'', ''L'', ''M'']"

definition DIGA_text :: string where
  "DIGA_text = ''XR01 XR02 XR03''"

definition ISO_6523_ICD_text :: string where
  "ISO_6523_ICD_text =
     ''0002 0003 0004 0005 0006 0007 0008 0009 0010 0011 0012 0013 0014 0015 '' @
     ''0016 0017 0018 0019 0020 0021 0022 0023 0024 0025 0026 0027 0028 0029 '' @
     ''0030 0031 0032 0033 0034 0035 0036 0037 0038 0039 0040 0041 0042 0043 '' @
     ''0044 0045 0046 0047 0048 0049 0050 0051 0052 0053 0054 0055 0056 0057 '' @
     ''0058 0059 0060 0061 0062 0063 0064 0065 0066 0067 0068 0069 0070 0071 '' @
     ''0072 0073 0074 0075 0076 0077 0078 0079 0080 0081 0082 0083 0084 0085 '' @
     ''0086 0087 0088 0089 0090 0091 0093 0094 0095 0096 0097 0098 0099 0100 '' @
     ''0101 0102 0104 0105 0106 0107 0108 0109 0110 0111 0112 0113 0114 0115 '' @
     ''0116 0117 0118 0119 0120 0121 0122 0123 0124 0125 0126 0127 0128 0129 '' @
     ''0130 0131 0132 0133 0134 0135 0136 0137 0138 0139 0140 0141 0142 0143 '' @
     ''0144 0145 0146 0147 0148 0149 0150 0151 0152 0153 0154 0155 0156 0157 '' @
     ''0158 0159 0160 0161 0162 0163 0164 0165 0166 0167 0168 0169 0170 0171 '' @
     ''0172 0173 0174 0175 0176 0177 0178 0179 0180 0183 0184 0185 0186 0187 '' @
     ''0188 0189 0190 0191 0192 0193 0194 0195 0196 0197 0198 0199 0200 0201 '' @
     ''0202 0203 0204 0205 0206 0207 0208 0209 0210 0211 0212 0213 0214 0215 '' @
     ''0216 0217 0218 0219 0220 0221 0222 0223 0224 0225 0226 0227 0228 0229 '' @
     ''0230 0231 0232 0233 0234 0235 0236 0237 0238 0239 0240 0241 0242 0243 '' @
     ''0244''"

definition UNTDID_7143_text :: string where
  "UNTDID_7143_text =
     '' AA AB AC AD AE AF AG AH AI AJ AK AL AM AN AO AP AQ AR AS AT AU AV AW '' @
     ''AX AY AZ BA BB BC BD BE BF BG BH BI BJ BK BL BM BN BO BP BQ BR BS BT BU '' @
     ''BV BW BX BY BZ CC CG CL CR CV DR DW EC EF EMD EN FS GB GN GMN GS HS IB '' @
     ''IN IS IT IZ MA MF MN MP NB ON PD PL PO PPI PV QS RC RN RU RY SA SG SK '' @
     ''SN SRS SRT SRU SRV SRW SRX SRY SRZ SS SSA SSB SSC SSD SSE SSF SSG SSH '' @
     ''SSI SSJ SSK SSL SSM SSN SSO SSP SSQ SSR SSS SST SSU SSV SSW SSX SSY SSZ '' @
     ''ST STA STB STC STD STE STF STG STH STI STJ STK STL STM STN STO STP STQ '' @
     ''STR STS STT STU STV STW STX STY STZ SUA SUB SUC SUD SUE SUF SUG SUH SUI '' @
     ''SUJ SUK SUL SUM TG TSN TSO TSP TSQ TSR TSS TST TSU UA UP VN VP VS VX '' @
     ''ZZZ ''"

definition ISO_6523_ICD_EXT_CODES :: "pystr set" where
  "ISO_6523_ICD_EXT_CODES = set (py_split (ascii (DIGA_text @ '' '' @ ISO_6523_ICD_text)))"

definition CEF_EAS_EXT_CODES :: "pystr set" where
  "CEF_EAS_EXT_CODES = set (py_split (ascii DIGA_text)) \<union> KOSIT_CEF_EAS_CODES"

definition UNTDID_7143_CVD_CODES :: pystr where
  "UNTDID_7143_CVD_CODES = ascii ('' CVD '' @ UNTDID_7143_text)"

definition CVD_VEHICLE_CATEGORIES :: "pystr list" where
  "CVD_VEHICLE_CATEGORIES = map ascii [''M1'', ''M2'', ''M3'', ''N1'', ''N2'', ''N3'']"

definition CVA_CODES :: "pystr list" where
  "CVA_CODES = map ascii [''clean'', ''zero-emission'', ''other'']"

definition XR_EXT_MIME_CODES :: "pystr list" where
  "XR_EXT_MIME_CODES = map ascii [''application/pdf'', ''image/png'', ''image/jpeg'', ''text/csv'',
     ''application/vnd.openxmlformats-officedocument.spreadsheetml.sheet'',
     ''application/vnd.oasis.opendocument.spreadsheet'', ''application/xml'']"

section \<open>XPath helpers\<close>

definition sv :: "xml option \<Rightarrow> text_opt" where
  "sv = map_option strval"

definition nsp :: "text_opt \<Rightarrow> pystr" where
  "nsp t = (case t of None \<Rightarrow> [] | Some s \<Rightarrow> norm_space s)"

definition has_nonempty :: "pystr list \<Rightarrow> xml \<Rightarrow> bool" where
  "has_nonempty path parent \<longleftrightarrow> list_ex (\<lambda>e. nsp (Some (strval e)) \<noteq> []) (xfindall path parent)"

definition untdid_7143_cvd_ok :: "text_opt \<Rightarrow> bool" where
  "untdid_7143_cvd_ok scheme_id \<longleftrightarrow>
     (let n = nsp scheme_id in 32 \<notin> set n \<and> substring_of (32 # n @ [32]) UNTDID_7143_CVD_CODES)"

definition scheme_no_internal_space :: "text_opt \<Rightarrow> bool" where
  "scheme_no_internal_space s \<longleftrightarrow> 32 \<notin> set (nsp s)"

section \<open>Regular expressions\<close>

definition is_09 :: "nat \<Rightarrow> bool" where "is_09 c \<longleftrightarrow> 48 \<le> c \<and> c \<le> 57"

definition is_AZ :: "nat \<Rightarrow> bool" where "is_AZ c \<longleftrightarrow> 65 \<le> c \<and> c \<le> 90"

definition is_az :: "nat \<Rightarrow> bool" where "is_az c \<longleftrightarrow> 97 \<le> c \<and> c \<le> 122"

text \<open>The characters \<open>[ \t\n\r]\<close>.\<close>

definition xp_space :: "nat \<Rightarrow> bool" where
  "xp_space c \<longleftrightarrow> c = 32 \<or> c = 9 \<or> c = 10 \<or> c = 13"

text \<open>\<open>s.split(c)\<close> at a single character.\<close>

fun split_on :: "nat \<Rightarrow> pystr \<Rightarrow> pystr list" where
  "split_on c [] = [[]]"
| "split_on c (x # xs) = (if x = c then [] # split_on c xs
     else (case split_on c xs of [] \<Rightarrow> [[x]] | w # ws \<Rightarrow> (x # w) # ws))"

text \<open>\<open>_TELEPHONE_RE\<close> on a text without line breaks: at least three digits.\<close>

definition telephone_ok :: "pystr \<Rightarrow> bool" where
  "telephone_ok s \<longleftrightarrow> 3 \<le> length (filter is_09 s)"

text \<open>\<open>_EMAIL_RE\<close>: one \<open>@\<close>, before it a text and after it labels between dots, none of them
  empty or with white space.\<close>

definition email_ok :: "pystr \<Rightarrow> bool" where
  "email_ok s \<longleftrightarrow> (case split_on 64 s of
     [a, b] \<Rightarrow> a \<noteq> [] \<and> 2 \<le> length (split_on 46 b) \<and> list_all (\<lambda>w. w \<noteq> []) (split_on 46 b)
       \<and> \<not> list_ex xp_space s
   | _ \<Rightarrow> False)"

text \<open>\<open>_XR_URL_RE\<close>: a scheme of at least two characters.\<close>

definition url_ok :: "pystr \<Rightarrow> bool" where
  "url_ok s \<longleftrightarrow> (case s of [] \<Rightarrow> False
     | c # cs \<Rightarrow> (let body = (\<lambda>c. is_AZ c \<or> is_az c \<or> is_09 c \<or> c = 43 \<or> c = 46 \<or> c = 45)
         in (is_AZ c \<or> is_az c) \<and> takeWhile body cs \<noteq> [] \<and>
            (case dropWhile body cs of [] \<Rightarrow> False | d # _ \<Rightarrow> d = 58)))"

text \<open>\<open>_SKONTO_RE\<close> on a normalised line.  Every repetition is followed by a character outside
  its class, so the expression is read from left to right.\<close>

definition strip_prefix :: "string \<Rightarrow> pystr \<Rightarrow> pystr option" where
  "strip_prefix p s = (if starts_with (ascii p) s then Some (drop (length p) s) else None)"

text \<open>\<open>[0-9]+\.[0-9]{2}\<close>.\<close>

definition strip_amount :: "pystr \<Rightarrow> pystr option" where
  "strip_amount s =
     (if takeWhile is_09 s = [] then None
      else case dropWhile is_09 s of
        p # a # b # r \<Rightarrow> if p = 46 \<and> is_09 a \<and> is_09 b then Some r else None
      | _ \<Rightarrow> None)"

definition skonto_end :: "pystr \<Rightarrow> bool" where
  "skonto_end r \<longleftrightarrow> r = [35] \<or>
     (case strip_prefix ''#BASISBETRAG='' r of None \<Rightarrow> False
      | Some t \<Rightarrow> strip_amount (case t of [] \<Rightarrow> [] | c # cs \<Rightarrow> if c = 45 then cs else t) = Some [35])"

definition skonto_ok :: "pystr \<Rightarrow> bool" where
  "skonto_ok s \<longleftrightarrow>
     (case strip_prefix ''#SKONTO#TAGE='' s of None \<Rightarrow> False
      | Some t \<Rightarrow> takeWhile is_09 t \<noteq> [] \<and>
          (case strip_prefix ''#PROZENT='' (dropWhile is_09 t) of None \<Rightarrow> False
           | Some u \<Rightarrow> (case strip_amount u of None \<Rightarrow> False | Some r \<Rightarrow> skonto_end r)))"

text \<open>\<open>re.split(r"\r?\n", note)\<close>: lines, each without one carriage return at its end, the last
  one as it is.\<close>

fun chop_cr :: "pystr list \<Rightarrow> pystr list" where
  "chop_cr [] = []"
| "chop_cr [w] = [w]"
| "chop_cr (w # v # ws) = (if w \<noteq> [] \<and> last w = 13 then butlast w else w) # chop_cr (v # ws)"

definition split_lines :: "pystr \<Rightarrow> pystr list" where
  "split_lines note = chop_cr (split_on 10 note)"

text \<open>\<open>re.split(r"#.+#", note)[-1]\<close>: the expression matches at most once in a line, from its
  first to its last \<open>#\<close>, when something is between them.\<close>

definition after_hash :: "pystr \<Rightarrow> pystr" where
  "after_hash l = rev (takeWhile (\<lambda>c. c \<noteq> 35) (rev l))"

definition hash_pair :: "pystr \<Rightarrow> bool" where
  "hash_pair l \<longleftrightarrow> length (after_hash l) + 3 \<le> length (dropWhile (\<lambda>c. c \<noteq> 35) l)"

fun join_on :: "nat \<Rightarrow> pystr list \<Rightarrow> pystr" where
  "join_on c [] = []"
| "join_on c [w] = w"
| "join_on c (w # v # ws) = w @ c # join_on c (v # ws)"

fun last_token :: "pystr list \<Rightarrow> pystr list \<Rightarrow> pystr" where
  "last_token [] acc = join_on 10 acc"
| "last_token (l # ls) acc =
     (if hash_pair l then join_on 10 (after_hash l # acc) else last_token ls (l # acc))"

definition skonto_terminated :: "pystr \<Rightarrow> bool" where
  "skonto_terminated note \<longleftrightarrow>
     10 \<in> set (takeWhile xp_space (last_token (rev (split_on 10 note)) []))"

text \<open>\<open>_skonto_terms_hold\<close>.\<close>

definition skonto_terms_hold :: "pystr list \<Rightarrow> bool" where
  "skonto_terms_hold notes \<longleftrightarrow>
     (let skonto_lines = filter (\<lambda>l. starts_with [35] (norm_space l)) (concat (map split_lines notes))
      in skonto_lines = [] \<or>
         list_all (\<lambda>l. skonto_ok (norm_space l)) skonto_lines \<and>
         (case notes of [n] \<Rightarrow> skonto_terminated n | _ \<Rightarrow> False))"

section \<open>IBAN\<close>

definition iban_shape :: "pystr \<Rightarrow> bool" where
  "iban_shape s \<longleftrightarrow> 4 \<le> length s \<and> length s \<le> 34 \<and> list_all is_AZ (take 2 s) \<and>
     list_all is_09 (take 2 (drop 2 s)) \<and> list_all (\<lambda>c. is_AZ c \<or> is_az c \<or> is_09 c) (drop 4 s)"

text \<open>\<open>str(ord(c) - 55)\<close> or \<open>str(ord(c) - 48)\<close>: at most two digits.\<close>

definition iban_digits :: "nat \<Rightarrow> nat list" where
  "iban_digits c = (let d = (if 64 < c then c - 55 else c - 48)
     in if d < 10 then [d] else [d div 10, d mod 10])"

definition iban_number :: "pystr \<Rightarrow> nat" where
  "iban_number s = foldl (\<lambda>v d. 10 * v + d) 0 (concat (map iban_digits s))"

definition iban_ok :: "text_opt \<Rightarrow> bool" where
  "iban_ok raw \<longleftrightarrow>
     (let s = norm_space (filter (\<lambda>c. \<not> xp_space c) (or_empty raw))
      in iban_shape s \<and>
         iban_number (drop 4 s @ py_upper (take 2 s) @ take 2 (drop 2 s)) mod 97 = 1)"

section \<open>Decimals with infinities and NaNs\<close>

text \<open>\<open>Inf True\<close> is negative; \<open>NaN True\<close> is a signaling NaN.\<close>

datatype xdec = Fin decimal | Inf bool | NaN bool

definition lower_ascii :: "pystr \<Rightarrow> pystr" where
  "lower_ascii s = map (\<lambda>c. if is_AZ c then c + 32 else c) s"

definition xdec_of_text :: "pystr \<Rightarrow> xdec option" where
  "xdec_of_text s =
     (case decimal_of_text s of
        Some d \<Rightarrow> Some (Fin d)
      | None \<Rightarrow> (let (g, t) = sign_of (lower_ascii (filter (\<lambda>c. c \<noteq> 95) (py_strip s)));
                   payload = (\<lambda>p. case strip_prefix p t of None \<Rightarrow> False | Some r \<Rightarrow> list_all is_digit r)
          in if t = ascii ''inf'' \<or> t = ascii ''infinity'' then Some (Inf (g < 0))
             else if payload ''nan'' then Some (NaN False)
             else if payload ''snan'' then Some (NaN True) else None))"

definition xr_dec :: "text_opt \<Rightarrow> xdec option" where
  "xr_dec t = (case t of None \<Rightarrow> None | Some s \<Rightarrow> xdec_of_text s)"

fun xdec_neg :: "xdec \<Rightarrow> xdec" where
  "xdec_neg (Fin d) = Fin (Dec (- coeff d) (expo d))"
| "xdec_neg (Inf n) = Inf (\<not> n)"
| "xdec_neg (NaN s) = NaN s"

fun xdec_add :: "xdec \<Rightarrow> xdec \<Rightarrow> dec_exc + xdec" where
  "xdec_add (NaN True) b = Inl InvalidOperation"
| "xdec_add a (NaN True) = Inl InvalidOperation"
| "xdec_add (NaN False) b = Inr (NaN False)"
| "xdec_add a (NaN False) = Inr (NaN False)"
| "xdec_add (Inf m) (Inf n) = (if m = n then Inr (Inf m) else Inl InvalidOperation)"
| "xdec_add (Inf m) (Fin d) = Inr (Inf m)"
| "xdec_add (Fin d) (Inf n) = Inr (Inf n)"
| "xdec_add (Fin a) (Fin b) = bindE (dec_add a b) (\<lambda>c. Inr (Fin c))"

definition xdec_sub :: "xdec \<Rightarrow> xdec \<Rightarrow> dec_exc + xdec" where
  "xdec_sub a b = xdec_add a (xdec_neg b)"

fun xdec_times100 :: "xdec \<Rightarrow> dec_exc + xdec" where
  "xdec_times100 (NaN True) = Inl InvalidOperation"
| "xdec_times100 (NaN False) = Inr (NaN False)"
| "xdec_times100 (Inf m) = Inr (Inf m)"
| "xdec_times100 (Fin d) = bindE (dec_mul d (Dec 100 0)) (\<lambda>c. Inr (Fin c))"

text \<open>\<open>_xpath_round\<close>.\<close>

fun xpath_round_x :: "xdec \<Rightarrow> dec_exc + xdec" where
  "xpath_round_x (NaN True) = Inl InvalidOperation"
| "xpath_round_x (NaN False) = Inr (NaN False)"
| "xpath_round_x (Inf m) = Inr (Inf m)"
| "xpath_round_x (Fin d) = bindE (fn_round d) (\<lambda>c. Inr (Fin c))"

text \<open>\<open>a != b\<close>: a signaling NaN raises, a quiet one differs from everything.\<close>

fun xdec_neq :: "xdec \<Rightarrow> xdec \<Rightarrow> dec_exc + bool" where
  "xdec_neq (NaN True) b = Inl InvalidOperation"
| "xdec_neq a (NaN True) = Inl InvalidOperation"
| "xdec_neq (NaN False) b = Inr True"
| "xdec_neq a (NaN False) = Inr True"
| "xdec_neq (Inf m) (Inf n) = Inr (m \<noteq> n)"
| "xdec_neq (Inf m) (Fin d) = Inr True"
| "xdec_neq (Fin d) (Inf n) = Inr True"
| "xdec_neq (Fin a) (Fin b) = Inr (\<not> dec_eq a b)"

end
