(* ===== verification/EI_Xr_Ubl.thy ===== *)
theory EI_Xr_Ubl
  imports EI_Xr_Base
begin

text \<open>
  The XRechnung rules on UBL documents (\<open>rules_xrechnung.py\<close>, \<open>br_de_1\<close> to
  \<open>br_dex_14\<close>, \<open>ALL_RULES\<close>, \<open>evaluate\<close>): functions of the root element.  Only
  \<open>br_dex_2\<close> and \<open>br_dex_9\<close> compute with decimals and can raise.
\<close>

section \<open>Document level\<close>

definition br_de_1 :: "xml \<Rightarrow> violation option" where
  "br_de_1 r =
     (if has_path [cac ''PaymentMeans''] r then None else
        Some (XV Fatal ''BR-DE-1''
          [L ''An invoice (INVOICE) must contain information on PAYMENT INSTRUCTIONS '',
           L ''(BG-16).'']
          [L ''cac:PaymentMeans'']))"

definition br_de_15 :: "xml \<Rightarrow> violation option" where
  "br_de_15 r =
     (if has_nonempty [cbc ''BuyerReference''] r then None else
        Some (XV Fatal ''BR-DE-15''
          [L ''The element 'Buyer reference' (BT-10) must be transmitted.'']
          [L ''cbc:BuyerReference'']))"

text \<open>The category identifiers of the \<open>cac:TaxCategory\<close> children, with the siblings that follow them.\<close>

fun category_ids :: "bool \<Rightarrow> bool \<Rightarrow> xml list \<Rightarrow> pystr list" where
  "category_ids f t [] = []"
| "category_ids f t (k # ks) =
     (if xtag k \<noteq> cbc ''ID'' then []
      else (if t then [strval k] else []) @
        (if f then [strval k] @
           (if list_ex (\<lambda>sib. xtag sib = cac ''TaxScheme'' \<and>
                list_ex (\<lambda>sid. strval sid = ascii ''VAT'') (xfindall [cbc ''ID''] sib)) ks
            then [strval k] else [])
         else [])) @
     category_ids f t ks"

definition charge_codes :: "xml \<Rightarrow> pystr list" where
  "charge_codes ac =
     (let indicators = map strval (xfindall [cbc ''ChargeIndicator''] ac);
          f = ascii ''false'' \<in> set indicators; t = ascii ''true'' \<in> set indicators
      in if f \<or> t
         then concat (map (\<lambda>cat. category_ids f t (kids cat)) (xfindall [cac ''TaxCategory''] ac))
         else [])"

definition used_codes :: "xml \<Rightarrow> pystr list" where
  "used_codes r =
     concat (map charge_codes (xfindall [cac ''AllowanceCharge''] r)) @
     map strval (xfindall [cac ''InvoiceLine'', cac ''Item'', cac ''ClassifiedTaxCategory'', cbc ''ID''] r) @
     map strval (xfindall [cac ''CreditNoteLine'', cac ''Item'', cac ''ClassifiedTaxCategory'', cbc ''ID''] r)"

definition br_de_16 :: "xml \<Rightarrow> violation option" where
  "br_de_16 r =
     (if \<not> list_ex (\<lambda>c. c \<in> set XR_SUPPORTED_VAT_CODES) (used_codes r) then None
      else if has_path [cac ''TaxRepresentativeParty''] r \<or>
        has_nonempty [cac ''AccountingSupplierParty'', cac ''Party'', cac ''PartyTaxScheme'', cbc ''CompanyID''] r then None
      else Some (XV Fatal ''BR-DE-16''
        [L ''VAT category codes S, Z, E, AE, K, G, L or M are used, so at least one of '', U 39,
         L ''Seller VAT identifier' (BT-31), 'Seller tax registration identifier' '',
         L ''(BT-32) or 'SELLER TAX REPRESENTATIVE PARTY' (BG-11) must be transmitted.'']
        [L ''cac:AccountingSupplierParty/cac:Party/cac:PartyTaxScheme/cbc:CompanyID'']))"

definition type_code_norm :: "string \<Rightarrow> xml \<Rightarrow> pystr" where
  "type_code_norm n r = nsp (sv (xfind [cbc n] r))"

definition br_de_17 :: "xml \<Rightarrow> violation option" where
  "br_de_17 r =
     (let itc = type_code_norm ''InvoiceTypeCode'' r; cnc = type_code_norm ''CreditNoteTypeCode'' r
      in if itc \<in> set XR_TYPE_CODES \<or> cnc \<in> set XR_TYPE_CODES then None
         else Some (XV Warning ''BR-DE-17''
           [U 39,
            L ''Invoice type code' (BT-3) should be one of the codes 326, 380, 384, 389, '',
            L ''381, 875, 876, 877 (UNTDID 1001 subset); found '',
            R (if itc = [] then ascii ''(absent)'' else itc), L ''.'']
           [L ''cbc:InvoiceTypeCode'']))"

definition br_de_18 :: "xml \<Rightarrow> violation option" where
  "br_de_18 r =
     (if skonto_terms_hold (map strval
           (List.map_filter (xfind [cbc ''Note'']) (xfindall [cac ''PaymentTerms''] r))) then None
      else Some (XV Fatal ''BR-DE-18''
        [L ''Skonto entries in 'Payment terms' (BT-20) must follow the XRechnung grammar '',
         L ''#SKONTO#TAGE=n#PROZENT=n.nn#[BASISBETRAG=n.nn#] with a newline terminating '',
         L ''each entry.'']
        [L ''cac:PaymentTerms/cbc:Note'']))"

definition br_de_21 :: "xml \<Rightarrow> violation option" where
  "br_de_21 r =
     (if list_ex (\<lambda>e. strval e \<in> {XR_CIUS_ID, XR_EXTENSION_ID, XR_CVD_ID})
          (xfindall [cbc ''CustomizationID''] r) then None
      else Some (XV Warning ''BR-DE-21''
        [U 39, L ''Specification identifier' (BT-24) should syntactically match the XRechnung '',
         L ''standard identifier.'']
        [L ''cbc:CustomizationID'']))"

text \<open>The first file name that a later reference repeats: \<open>seen\<close> grows by whole references.\<close>

fun repeated_name :: "pystr list \<Rightarrow> pystr list list \<Rightarrow> pystr option" where
  "repeated_name seen [] = None"
| "repeated_name seen (fns # gs) =
     (case first_some (\<lambda>f. if f \<in> set seen then Some f else None) fns of
        Some f \<Rightarrow> Some f | None \<Rightarrow> repeated_name (seen @ fns) gs)"

definition attachment_names :: "xml \<Rightarrow> pystr list" where
  "attachment_names adr = List.map_filter (xget ''filename'')
     (xfindall [cac ''Attachment'', cbc ''EmbeddedDocumentBinaryObject''] adr)"

definition br_de_22 :: "xml \<Rightarrow> violation option" where
  "br_de_22 r =
     (case repeated_name [] (map attachment_names (xfindall [cac ''AdditionalDocumentReference''] r)) of
        None \<Rightarrow> None
      | Some f \<Rightarrow> Some (XV Fatal ''BR-DE-22''
        [L ''The 'filename' attribute of all 'EmbeddedDocumentBinaryObject' elements '',
         L ''must be unique; '', R f, L '' repeats.'']
        [L ''cac:AdditionalDocumentReference/cac:Attachment/'',
         L ''cbc:EmbeddedDocumentBinaryObject/@filename'']))"

definition br_de_26 :: "xml \<Rightarrow> violation option" where
  "br_de_26 r =
     (if type_code_norm ''InvoiceTypeCode'' r \<noteq> ascii ''384'' \<and>
         type_code_norm ''CreditNoteTypeCode'' r \<noteq> ascii ''384'' then None
      else if has_path [cac ''BillingReference'', cac ''InvoiceDocumentReference''] r then None
      else Some (XV Warning ''BR-DE-26''
        [U 39, L ''Invoice type code' (BT-3) is 384 (Corrected invoice), so PRECEDING INVOICE '',
         L ''REFERENCE (BG-3) should be present at least once.'']
        [L ''cac:BillingReference/cac:InvoiceDocumentReference'']))"

definition sepa_ids :: "xml \<Rightarrow> xml list" where
  "sepa_ids r = filter (\<lambda>e. xget ''schemeID'' e = Some (ascii ''SEPA''))
     (xfindall [cac ''AccountingSupplierParty'', cac ''Party'', cac ''PartyIdentification'', cbc ''ID''] r @
      xfindall [cac ''PayeeParty'', cac ''PartyIdentification'', cbc ''ID''] r)"

definition br_de_30 :: "xml \<Rightarrow> violation option" where
  "br_de_30 r =
     (if \<not> has_path [cac ''PaymentMeans'', cac ''PaymentMandate''] r then None
      else if sepa_ids r \<noteq> [] then None
      else Some (XV Fatal ''BR-DE-30''
        [L ''DIRECT DEBIT (BG-19) is present, so 'Bank assigned creditor identifier' '',
         L ''(BT-90) must be transmitted.'']
        [L ''cac:PartyIdentification/cbc:ID[@schemeID='SEPA']'']))"

definition br_de_31 :: "xml \<Rightarrow> violation option" where
  "br_de_31 r =
     (if \<not> has_path [cac ''PaymentMeans'', cac ''PaymentMandate''] r then None
      else if has_path [cac ''PaymentMeans'', cac ''PaymentMandate'', cac ''PayerFinancialAccount'', cbc ''ID''] r then None
      else Some (XV Fatal ''BR-DE-31''
        [L ''DIRECT DEBIT (BG-19) is present, so 'Debited account identifier' (BT-91) '',
         L ''must be transmitted.'']
        [L ''cac:PaymentMeans/cac:PaymentMandate/cac:PayerFinancialAccount/cbc:ID'']))"

definition br_de_tmp_32 :: "xml \<Rightarrow> violation option" where
  "br_de_tmp_32 r =
     (if has_path [cac ''Delivery'', cbc ''ActualDeliveryDate''] r then None
      else if has_path [cac ''InvoicePeriod''] r then None
      else if list_all (has_path [cac ''InvoicePeriod''])
        (xfindall [cac ''InvoiceLine''] r @ xfindall [cac ''CreditNoteLine''] r) then None
      else Some (XV Information ''BR-DE-TMP-32''
        [L ''The invoice should state the delivery/service date: BT-72 'Actual delivery '',
         L ''date', BG-14 'Invoicing period', or BG-26 'Invoice line period' on every '',
         L ''line.'']
        [L ''cac:Delivery/cbc:ActualDeliveryDate'']))"

section \<open>Seller, buyer and delivery\<close>

definition br_de_2 :: "xml \<Rightarrow> violation option" where
  "br_de_2 r =
     (case xfind [cac ''AccountingSupplierParty''] r of None \<Rightarrow> None
      | Some asp \<Rightarrow> if has_path [cac ''Party'', cac ''Contact''] asp then None
          else Some (XV Fatal ''BR-DE-2''
            [L ''The group 'SELLER CONTACT' (BG-6) must be transmitted.'']
            [L ''cac:AccountingSupplierParty/cac:Party/cac:Contact'']))"

definition br_de_3 :: "xml \<Rightarrow> violation option" where
  "br_de_3 r =
     first_some (\<lambda>e. if has_nonempty [cbc ''CityName''] e then None else
       Some (XV Fatal ''BR-DE-3''
         [L ''The element 'Seller city' (BT-37) must be transmitted.'']
         [L ''cac:AccountingSupplierParty/cac:Party/cac:PostalAddress/cbc:CityName'']))
       (xfindall [cac ''AccountingSupplierParty'', cac ''Party'', cac ''PostalAddress''] r)"

definition br_de_4 :: "xml \<Rightarrow> violation option" where
  "br_de_4 r =
     first_some (\<lambda>e. if has_nonempty [cbc ''PostalZone''] e then None else
       Some (XV Fatal ''BR-DE-4''
         [L ''The element 'Seller post code' (BT-38) must be transmitted.'']
         [L ''cac:AccountingSupplierParty/cac:Party/cac:PostalAddress/cbc:PostalZone'']))
       (xfindall [cac ''AccountingSupplierParty'', cac ''Party'', cac ''PostalAddress''] r)"

definition seller_contacts :: "xml \<Rightarrow> xml list" where
  "seller_contacts r = xfindall [cac ''AccountingSupplierParty'', cac ''Party'', cac ''Contact''] r"

definition br_de_5 :: "xml \<Rightarrow> violation option" where
  "br_de_5 r =
     first_some (\<lambda>e. if has_nonempty [cbc ''Name''] e then None else
       Some (XV Fatal ''BR-DE-5''
         [L ''The element 'Seller contact point' (BT-41) must be transmitted.'']
         [L ''cac:AccountingSupplierParty/cac:Party/cac:Contact/cbc:Name'']))
       (seller_contacts r)"

definition br_de_6 :: "xml \<Rightarrow> violation option" where
  "br_de_6 r =
     first_some (\<lambda>e. if has_nonempty [cbc ''Telephone''] e then None else
       Some (XV Fatal ''BR-DE-6''
         [L ''The element 'Seller contact telephone number' (BT-42) must be transmitted.'']
         [L ''cac:AccountingSupplierParty/cac:Party/cac:Contact/cbc:Telephone'']))
       (seller_contacts r)"

definition br_de_7 :: "xml \<Rightarrow> violation option" where
  "br_de_7 r =
     first_some (\<lambda>e. if has_nonempty [cbc ''ElectronicMail''] e then None else
       Some (XV Fatal ''BR-DE-7''
         [L ''The element 'Seller contact email address' (BT-43) must be transmitted.'']
         [L ''cac:AccountingSupplierParty/cac:Party/cac:Contact/cbc:ElectronicMail'']))
       (seller_contacts r)"

definition br_de_27 :: "xml \<Rightarrow> violation option" where
  "br_de_27 r =
     first_some (\<lambda>c. if telephone_ok (nsp (sv (xfind [cbc ''Telephone''] c))) then None else
       Some (XV Warning ''BR-DE-27''
         [U 39, L ''Seller contact telephone number' (BT-42) should contain at least three '',
          L ''digits.'']
         [L ''cac:AccountingSupplierParty/cac:Party/cac:Contact/cbc:Telephone'']))
       (seller_contacts r)"

definition br_de_28 :: "xml \<Rightarrow> violation option" where
  "br_de_28 r =
     first_some (\<lambda>c. if email_ok (nsp (sv (xfind [cbc ''ElectronicMail''] c))) then None else
       Some (XV Warning ''BR-DE-28''
         [U 39, L ''Seller contact email address' (BT-43) should contain exactly one '@' with '',
          L ''valid flanking characters.'']
         [L ''cac:AccountingSupplierParty/cac:Party/cac:Contact/cbc:ElectronicMail'']))
       (seller_contacts r)"

definition br_de_8 :: "xml \<Rightarrow> violation option" where
  "br_de_8 r =
     first_some (\<lambda>e. if has_nonempty [cbc ''CityName''] e then None else
       Some (XV Fatal ''BR-DE-8''
         [L ''The element 'Buyer city' (BT-52) must be transmitted.'']
         [L ''cac:AccountingCustomerParty/cac:Party/cac:PostalAddress/cbc:CityName'']))
       (xfindall [cac ''AccountingCustomerParty'', cac ''Party'', cac ''PostalAddress''] r)"

definition br_de_9 :: "xml \<Rightarrow> violation option" where
  "br_de_9 r =
     first_some (\<lambda>e. if has_nonempty [cbc ''PostalZone''] e then None else
       Some (XV Fatal ''BR-DE-9''
         [L ''The element 'Buyer post code' (BT-53) must be transmitted.'']
         [L ''cac:AccountingCustomerParty/cac:Party/cac:PostalAddress/cbc:PostalZone'']))
       (xfindall [cac ''AccountingCustomerParty'', cac ''Party'', cac ''PostalAddress''] r)"

definition br_de_10 :: "xml \<Rightarrow> violation option" where
  "br_de_10 r =
     first_some (\<lambda>e. if has_nonempty [cbc ''CityName''] e then None else
       Some (XV Fatal ''BR-DE-10''
         [L ''The element 'Deliver to city' (BT-77) must be transmitted when DELIVER TO '',
          L ''ADDRESS (BG-15) is present.'']
         [L ''cac:Delivery/cac:DeliveryLocation/cac:Address/cbc:CityName'']))
       (xfindall [cac ''Delivery'', cac ''DeliveryLocation'', cac ''Address''] r)"

definition br_de_11 :: "xml \<Rightarrow> violation option" where
  "br_de_11 r =
     first_some (\<lambda>e. if has_nonempty [cbc ''PostalZone''] e then None else
       Some (XV Fatal ''BR-DE-11''
         [L ''The element 'Deliver to post code' (BT-78) must be transmitted when DELIVER '',
          L ''TO ADDRESS (BG-15) is present.'']
         [L ''cac:Delivery/cac:DeliveryLocation/cac:Address/cbc:PostalZone'']))
       (xfindall [cac ''Delivery'', cac ''DeliveryLocation'', cac ''Address''] r)"

definition br_de_14 :: "xml \<Rightarrow> violation option" where
  "br_de_14 r =
     first_some (\<lambda>e. if has_nonempty [cac ''TaxCategory'', cbc ''Percent''] e then None else
       Some (XV Fatal ''BR-DE-14''
         [L ''The element 'VAT category rate' (BT-119) must be transmitted.'']
         [L ''cac:TaxTotal/cac:TaxSubtotal/cac:TaxCategory/cbc:Percent'']))
       (xfindall [cac ''TaxTotal'', cac ''TaxSubtotal''] r)"

section \<open>Payment means\<close>

definition payment_means_code :: "xml \<Rightarrow> pystr" where
  "payment_means_code pm = nsp (sv (xfind [cbc ''PaymentMeansCode''] pm))"

definition code_in :: "string list \<Rightarrow> pystr \<Rightarrow> bool" where
  "code_in cs c \<longleftrightarrow> c \<in> set (map ascii cs)"

definition br_de_19 :: "xml \<Rightarrow> violation option" where
  "br_de_19 r =
     first_some (\<lambda>pm. if payment_means_code pm = ascii ''58'' \<and>
       \<not> iban_ok (sv (xfind [cac ''PayeeFinancialAccount'', cbc ''ID''] pm))
       then Some (XV Warning ''BR-DE-19''
         [U 39,
          L ''Payment account identifier' (BT-84) should be a correct IBAN when 'Payment '',
          L ''means type code' (BT-81) is 58 (SEPA).'']
         [L ''cac:PaymentMeans/cac:PayeeFinancialAccount/cbc:ID''])
       else None) (xfindall [cac ''PaymentMeans''] r)"

definition br_de_20 :: "xml \<Rightarrow> violation option" where
  "br_de_20 r =
     first_some (\<lambda>pm. if payment_means_code pm = ascii ''59'' \<and>
       \<not> iban_ok (sv (xfind [cac ''PaymentMandate'', cac ''PayerFinancialAccount'', cbc ''ID''] pm))
       then Some (XV Warning ''BR-DE-20''
         [U 39,
          L ''Debited account identifier' (BT-91) should be a correct IBAN when 'Payment '',
          L ''means type code' (BT-81) is 59 (SEPA direct debit).'']
         [L ''cac:PaymentMeans/cac:PaymentMandate/cac:PayerFinancialAccount/cbc:ID''])
       else None) (xfindall [cac ''PaymentMeans''] r)"

definition br_de_23_a :: "xml \<Rightarrow> violation option" where
  "br_de_23_a r =
     first_some (\<lambda>pm. if code_in [''30'', ''58''] (payment_means_code pm) \<and> \<not> has_path [cac ''PayeeFinancialAccount''] pm
       then Some (XV Fatal ''BR-DE-23-a''
         [U 39, L ''Payment means type code' (BT-81) is a credit-transfer code (30, 58), so '',
          L ''CREDIT TRANSFER (BG-17) must be transmitted.'']
         [L ''cac:PaymentMeans/cac:PayeeFinancialAccount''])
       else None) (xfindall [cac ''PaymentMeans''] r)"

definition br_de_23_b :: "xml \<Rightarrow> violation option" where
  "br_de_23_b r =
     first_some (\<lambda>pm. if code_in [''30'', ''58''] (payment_means_code pm) \<and>
       (has_path [cac ''CardAccount''] pm \<or> has_path [cac ''PaymentMandate''] pm)
       then Some (XV Fatal ''BR-DE-23-b''
         [U 39, L ''Payment means type code' (BT-81) is a credit-transfer code (30, 58), so '',
          L ''BG-18 and BG-19 must not be transmitted.'']
         [L ''cac:PaymentMeans/cac:CardAccount | cac:PaymentMeans/cac:PaymentMandate''])
       else None) (xfindall [cac ''PaymentMeans''] r)"

definition br_de_24_a :: "xml \<Rightarrow> violation option" where
  "br_de_24_a r =
     first_some (\<lambda>pm. if code_in [''48'', ''54'', ''55''] (payment_means_code pm) \<and> \<not> has_path [cac ''CardAccount''] pm
       then Some (XV Fatal ''BR-DE-24-a''
         [U 39, L ''Payment means type code' (BT-81) is a card-payment code (48, 54, 55), so '',
          L ''PAYMENT CARD INFORMATION (BG-18) must be transmitted.'']
         [L ''cac:PaymentMeans/cac:CardAccount''])
       else None) (xfindall [cac ''PaymentMeans''] r)"

definition br_de_24_b :: "xml \<Rightarrow> violation option" where
  "br_de_24_b r =
     first_some (\<lambda>pm. if code_in [''48'', ''54'', ''55''] (payment_means_code pm) \<and>
       (has_path [cac ''PayeeFinancialAccount''] pm \<or> has_path [cac ''PaymentMandate''] pm)
       then Some (XV Fatal ''BR-DE-24-b''
         [U 39, L ''Payment means type code' (BT-81) is a card-payment code (48, 54, 55), so '',
          L ''BG-17 and BG-19 must not be transmitted.'']
         [L ''cac:PaymentMeans/cac:PayeeFinancialAccount | '',
          L ''cac:PaymentMeans/cac:PaymentMandate''])
       else None) (xfindall [cac ''PaymentMeans''] r)"

definition br_de_25_a :: "xml \<Rightarrow> violation option" where
  "br_de_25_a r =
     first_some (\<lambda>pm. if code_in [''59''] (payment_means_code pm) \<and> \<not> has_path [cac ''PaymentMandate''] pm
       then Some (XV Fatal ''BR-DE-25-a''
         [U 39, L ''Payment means type code' (BT-81) is the direct-debit code (59), so DIRECT '',
          L ''DEBIT (BG-19) must be transmitted.'']
         [L ''cac:PaymentMeans/cac:PaymentMandate''])
       else None) (xfindall [cac ''PaymentMeans''] r)"

definition br_de_25_b :: "xml \<Rightarrow> violation option" where
  "br_de_25_b r =
     first_some (\<lambda>pm. if code_in [''59''] (payment_means_code pm) \<and>
       (has_path [cac ''PayeeFinancialAccount''] pm \<or> has_path [cac ''CardAccount''] pm)
       then Some (XV Fatal ''BR-DE-25-b''
         [U 39, L ''Payment means type code' (BT-81) is the direct-debit code (59), so BG-17 '',
          L ''and BG-18 must not be transmitted.'']
         [L ''cac:PaymentMeans/cac:PayeeFinancialAccount | '',
          L ''cac:PaymentMeans/cac:CardAccount''])
       else None) (xfindall [cac ''PaymentMeans''] r)"

section \<open>External references and the Clean Vehicle Directive\<close>

definition br_tmp_2 :: "xml \<Rightarrow> violation option" where
  "br_tmp_2 r =
     first_some (\<lambda>ext. let uri = or_empty (sv (xfind [cbc ''URI''] ext)) in
       if url_ok uri then None else Some (XV Warning ''BR-TMP-2''
         [U 39, L ''External document location' (BT-124) must be an absolute URL with a valid '',
          L ''scheme (e.g. https://'', U 8230, L ''); found '', R uri, L ''.'']
         [L ''cac:AdditionalDocumentReference/cac:Attachment/cac:ExternalReference/cbc:URI'']))
       (xfindall [cac ''AdditionalDocumentReference'', cac ''Attachment'', cac ''ExternalReference''] r)"

definition is_cvd :: "xml \<Rightarrow> bool" where
  "is_cvd r \<longleftrightarrow> list_ex (\<lambda>e. strval e = XR_CVD_ID) (xfindall [cbc ''CustomizationID''] r)"

definition cvd_items :: "xml \<Rightarrow> xml list" where
  "cvd_items r = concat (map (xfindall [cac ''Item''])
     (xfindall [cac ''InvoiceLine''] r @ xfindall [cac ''CreditNoteLine''] r))"

definition item_class_codes :: "xml \<Rightarrow> xml list" where
  "item_class_codes item = xfindall [cac ''CommodityClassification'', cbc ''ItemClassificationCode''] item"

definition item_cvd_class_codes :: "xml \<Rightarrow> xml list" where
  "item_cvd_class_codes item =
     filter (\<lambda>cc. xget ''listID'' cc = Some (ascii ''CVD'')) (item_class_codes item)"

definition item_cva_properties :: "xml \<Rightarrow> xml list" where
  "item_cva_properties item =
     filter (\<lambda>p. list_ex (\<lambda>n. strval n = ascii ''cva'') (xfindall [cbc ''Name''] p))
       (xfindall [cac ''AdditionalItemProperty''] item)"

definition br_de_cvd_01 :: "xml \<Rightarrow> violation option" where
  "br_de_cvd_01 r =
     (if \<not> is_cvd r then None
      else if has_nonempty [cac ''ContractDocumentReference'', cbc ''ID''] r then None
      else Some (XV Fatal ''BR-DE-CVD-01''
        [L ''The element 'Contract reference' (BT-12) must be transmitted in a '',
         L ''Clean-Vehicle-Directive invoice.'']
        [L ''cac:ContractDocumentReference/cbc:ID'']))"

definition br_de_cvd_02 :: "xml \<Rightarrow> violation option" where
  "br_de_cvd_02 r =
     (if \<not> is_cvd r then None
      else if has_nonempty [cac ''OriginatorDocumentReference'', cbc ''ID''] r then None
      else Some (XV Fatal ''BR-DE-CVD-02''
        [L ''The element 'Tender or lot reference' (BT-17) must be transmitted in a '',
         L ''Clean-Vehicle-Directive invoice.'']
        [L ''cac:OriginatorDocumentReference/cbc:ID'']))"

definition br_de_cvd_03 :: "xml \<Rightarrow> violation option" where
  "br_de_cvd_03 r =
     (if \<not> is_cvd r then None
      else if list_ex (\<lambda>item.
          list_ex (\<lambda>cc. xget ''listID'' cc = Some (ascii ''CVD'')) (item_class_codes item) \<and>
          list_ex (\<lambda>n. strval n = ascii ''cva'') (xfindall [cac ''AdditionalItemProperty'', cbc ''Name''] item))
        (cvd_items r) then None
      else Some (XV Fatal ''BR-DE-CVD-03''
        [L ''A Clean-Vehicle-Directive invoice must contain at least one INVOICE LINE '',
         L ''(BG-25) in which the scheme identifier of 'Item classification identifier' '',
         L ''(BT-158) is 'CVD' and the 'Item attribute name' (BT-160) is 'cva'.'']
        [L ''cac:InvoiceLine/cac:Item'']))"

definition br_de_cvd_06_a :: "xml \<Rightarrow> violation option" where
  "br_de_cvd_06_a r =
     (if \<not> is_cvd r then None
      else first_some (\<lambda>item. if item_cvd_class_codes item = [] then None
        else if length (item_cva_properties item) \<noteq> 1
        then Some (XV Fatal ''BR-DE-CVD-06-a''
          [L ''An Item with a BT-158 scheme identifier 'CVD' must carry exactly one 'Item '',
           L ''attribute name' (BT-160) with the value 'cva' in the same invoice line.'']
          [L ''cac:InvoiceLine/cac:Item/cac:AdditionalItemProperty/cbc:Name''])
        else None) (cvd_items r))"

definition br_de_cvd_06_b :: "xml \<Rightarrow> violation option" where
  "br_de_cvd_06_b r =
     (if \<not> is_cvd r then None
      else first_some (\<lambda>item. if item_cva_properties item = [] then None
        else if length (item_cvd_class_codes item) \<noteq> 1
        then Some (XV Fatal ''BR-DE-CVD-06-b''
          [L ''An Item with an 'Item attribute name' (BT-160) of 'cva' must carry exactly '',
           L ''one 'Item classification identifier' (BT-158) with the scheme identifier '', U 39,
           L ''CVD' in the same invoice line.'']
          [L ''cac:InvoiceLine/cac:Item/cac:CommodityClassification/'',
           L ''cbc:ItemClassificationCode''])
        else None) (cvd_items r))"

definition br_tmp_cvd_01 :: "xml \<Rightarrow> violation option" where
  "br_tmp_cvd_01 r =
     (if \<not> is_cvd r then None
      else first_some (\<lambda>cc. if untdid_7143_cvd_ok (xget ''listID'' cc) then None
        else Some (XV Fatal ''BR-TMP-CVD-01''
          [L ''The scheme identifier of 'Item classification identifier' (BT-158) must be '',
           L ''chosen from the code list UNTDID 7143; found '', repr_opt (xget ''listID'' cc),
           L ''.'']
          [L ''cac:InvoiceLine/cac:Item/cac:CommodityClassification/'',
           L ''cbc:ItemClassificationCode/@listID'']))
        (concat (map item_class_codes (cvd_items r))))"

definition br_de_cvd_04 :: "xml \<Rightarrow> violation option" where
  "br_de_cvd_04 r =
     (if \<not> is_cvd r then None
      else first_some (\<lambda>cc. if nsp (xget ''listID'' cc) \<noteq> ascii ''CVD'' then None
        else if nsp (sv (Some cc)) \<in> set CVD_VEHICLE_CATEGORIES then None
        else Some (XV Fatal ''BR-DE-CVD-04''
          [L ''An 'Item classification identifier' (BT-158) with the scheme identifier '', U 39,
           L ''CVD' must contain one of the permitted vehicle categories M1, M2, M3, N1, '',
           L ''N2, N3; found '', R (nsp (sv (Some cc))), L ''.'']
          [L ''cac:InvoiceLine/cac:Item/cac:CommodityClassification/'',
           L ''cbc:ItemClassificationCode'']))
        (concat (map item_class_codes (cvd_items r))))"

definition br_de_cvd_05 :: "xml \<Rightarrow> violation option" where
  "br_de_cvd_05 r =
     (if \<not> is_cvd r then None
      else first_some (\<lambda>p. let value = nsp (sv (xfind [cbc ''Value''] p)) in
        if value \<in> set CVA_CODES then None
        else Some (XV Fatal ''BR-DE-CVD-05''
          [L ''When the 'Item attribute name' (BT-160) is 'cva', the 'Item attribute '',
           L ''value' (BT-161) must be one of 'clean', 'zero-emission', 'other'; found '',
           R value, L ''.'']
          [L ''cac:InvoiceLine/cac:Item/cac:AdditionalItemProperty/cbc:Value'']))
        (concat (map item_cva_properties (cvd_items r))))"

section \<open>The extension\<close>

definition is_extension :: "xml \<Rightarrow> bool" where
  "is_extension r \<longleftrightarrow>
     list_ex (\<lambda>e. strval e = XR_EXTENSION_ID) (xfindall [cbc ''CustomizationID''] r)"

definition br_dex_1 :: "xml \<Rightarrow> violation option" where
  "br_dex_1 r =
     (if \<not> is_extension r then None
      else first_some (\<lambda>obj. case xget ''mimeCode'' obj of
          Some m \<Rightarrow> if m \<in> set XR_EXT_MIME_CODES then None
            else Some (XV Fatal ''BR-DEX-01''
              [L ''The 'Attached Document' (BT-125) uses a MIME code that an XRechnung '',
               L ''Extension does not permit: '', R m, L ''.'']
              [L ''cbc:EmbeddedDocumentBinaryObject/@mimeCode''])
        | None \<Rightarrow> Some (XV Fatal ''BR-DEX-01''
          [L ''The 'Attached Document' (BT-125) uses a MIME code that an XRechnung '',
           L ''Extension does not permit: '', L ''None'', L ''.'']
          [L ''cbc:EmbeddedDocumentBinaryObject/@mimeCode'']))
        (iter_tag (cbc ''EmbeddedDocumentBinaryObject'') r))"

text \<open>\<open>total += d\<close> over the amounts; \<open>None\<close> when one of them is no number.\<close>

fun sum_amounts :: "xdec \<Rightarrow> text_opt list \<Rightarrow> dec_exc + xdec option" where
  "sum_amounts s [] = Inr (Some s)"
| "sum_amounts s (t # ts) = (case xr_dec t of None \<Rightarrow> Inr None
     | Some d \<Rightarrow> bindE (xdec_add s d) (\<lambda>s'. sum_amounts s' ts))"

definition line_amount :: "xml \<Rightarrow> text_opt" where
  "line_amount node = sv (xfind [cbc ''LineExtensionAmount''] node)"

definition sub_sum_differs :: "xml \<Rightarrow> dec_exc + bool" where
  "sub_sum_differs node =
     bindE (sum_amounts (Fin (Dec 0 0)) (map line_amount (xfindall [cac ''SubInvoiceLine''] node)))
       (\<lambda>s. case xr_dec (line_amount node) of None \<Rightarrow> Inr True
         | Some own \<Rightarrow> (case s of None \<Rightarrow> Inr True | Some t \<Rightarrow> xdec_neq own t))"

definition check_sub_sum :: "violation \<Rightarrow> xml \<Rightarrow> dec_exc + violation option" where
  "check_sub_sum v node = (if xfindall [cac ''SubInvoiceLine''] node = [] then Inr None
     else bindE (sub_sum_differs node) (\<lambda>b. Inr (if b then Some v else None)))"

definition br_dex_2 :: "xml \<Rightarrow> dec_exc + violation option" where
  "br_dex_2 r =
     (if \<not> is_extension r then Inr None
      else orelseE (first_someE (check_sub_sum
          (XV Warning ''BR-DEX-02''
            [L ''The 'Invoice line net amount' (BT-131) should equal the sum of the directly '',
             L ''nested SUB INVOICE LINE net amounts.'']
            [L ''cac:InvoiceLine/cbc:LineExtensionAmount'']))
          (xfindall [cac ''InvoiceLine''] r))
        (first_someE (check_sub_sum
          (XV Warning ''BR-DEX-02''
            [L ''The 'Invoice line net amount' (BT-131) of a SUB INVOICE LINE should equal '',
             L ''the sum of the directly nested SUB INVOICE LINE net amounts.'']
            [L ''cac:SubInvoiceLine/cbc:LineExtensionAmount'']))
          (iter_tag (cac ''SubInvoiceLine'') r)))"

definition br_dex_3 :: "xml \<Rightarrow> violation option" where
  "br_dex_3 r =
     (if \<not> is_extension r then None
      else first_some (\<lambda>item. if length (xfindall [cac ''ClassifiedTaxCategory''] item) \<noteq> 1
        then Some (XV Fatal ''BR-DEX-03''
          [L ''A SUB INVOICE LINE (BG-DEX-01) must contain exactly one SUB INVOICE LINE '',
           L ''VAT INFORMATION (BG-DEX-06).'']
          [L ''cac:SubInvoiceLine/cac:Item/cac:ClassifiedTaxCategory''])
        else None)
        (concat (map (xfindall [cac ''Item'']) (iter_tag (cac ''SubInvoiceLine'') r))))"

text \<open>The third-party amounts, and the check of one \<open>cac:LegalMonetaryTotal\<close>.\<close>

definition third_party_sum :: "xml \<Rightarrow> dec_exc + xdec option" where
  "third_party_sum r =
     (let vals = map strval (List.map_filter (xfind [cbc ''PaidAmount'']) (xfindall [cac ''PrepaidPayment''] r))
      in if list_ex (\<lambda>v. nsp (Some v) \<noteq> []) vals then sum_amounts (Fin (Dec 0 0)) (map Some vals)
         else Inr (Some (Fin (Dec 0 0))))"

definition or_zero :: "xdec option \<Rightarrow> xdec" where
  "or_zero d = (case d of None \<Rightarrow> Fin (Dec 0 0) | Some x \<Rightarrow> x)"

definition times100_round :: "dec_exc + xdec \<Rightarrow> dec_exc + xdec" where
  "times100_round m = bindE m (\<lambda>x. bindE (xdec_times100 x) xpath_round_x)"

definition payable_differs :: "xdec \<Rightarrow> xdec \<Rightarrow> xdec \<Rightarrow> xdec \<Rightarrow> xdec \<Rightarrow> dec_exc + bool" where
  "payable_differs payable rounding taxincl prepaid third =
     bindE (times100_round (xdec_sub payable rounding)) (\<lambda>lhs.
     bindE (times100_round (bindE (xdec_sub taxincl prepaid) (\<lambda>d. xdec_add d third))) (\<lambda>rhs.
     xdec_neq lhs rhs))"

definition check_payable :: "xml \<Rightarrow> xml \<Rightarrow> dec_exc + bool" where
  "check_payable r lmt =
     (let amount = (\<lambda>n. xr_dec (sv (xfind [cbc n] lmt))) in
      case amount ''PayableAmount'' of None \<Rightarrow> Inr False
      | Some payable \<Rightarrow>
         (case amount ''TaxInclusiveAmount'' of None \<Rightarrow> Inr False
          | Some taxincl \<Rightarrow> bindE (third_party_sum r) (\<lambda>t.
              case t of None \<Rightarrow> Inr False
              | Some third \<Rightarrow> payable_differs payable (or_zero (amount ''PayableRoundingAmount''))
                  taxincl (or_zero (amount ''PrepaidAmount'')) third)))"

definition br_dex_9 :: "xml \<Rightarrow> dec_exc + violation option" where
  "br_dex_9 r =
     (if \<not> is_extension r then Inr None
      else first_someE (\<lambda>lmt. bindE (check_payable r lmt) (\<lambda>b. Inr (if b
        then Some (XV Fatal ''BR-DEX-09''
          [U 39, L ''Amount due for payment' (BT-115) must equal Invoice total with VAT '',
           L ''(BT-112) - Paid amount (BT-113) + Rounding amount (BT-114) + '', U 931,
           L '' Third party payment amount (BT-DEX-002).'']
          [L ''cac:LegalMonetaryTotal/cbc:PayableAmount''])
        else None))) (xfindall [cac ''LegalMonetaryTotal''] r))"

text \<open>\<open>_scheme_targets\<close> with the ancestors of each target, and \<open>_scheme_rule\<close>.\<close>

definition scheme_targets :: "pystr \<Rightarrow> string \<Rightarrow> xml \<Rightarrow> (xml \<times> xml list) list" where
  "scheme_targets parent child r =
     concat (map (\<lambda>(p, up). map (\<lambda>e. (e, p # up)) (xfindall [cbc child] p))
       (filter (\<lambda>(p, up). xtag p = parent) (iter_up [] r)))"

definition scheme_ok :: "pystr set \<Rightarrow> bool \<Rightarrow> xml list \<Rightarrow> pystr \<Rightarrow> bool" where
  "scheme_ok code_set allow_sepa up scheme \<longleftrightarrow>
     (let n = nsp (Some scheme) in scheme_no_internal_space (Some scheme) \<and>
        (n \<in> code_set \<or> (allow_sepa \<and> n = ascii ''SEPA'' \<and>
          list_ex (\<lambda>a. localname (xtag a) = ascii ''AccountingSupplierParty'' \<or>
            localname (xtag a) = ascii ''PayeeParty'') up)))"

definition scheme_rule ::
    "(xml \<times> xml list) list \<Rightarrow> pystr set \<Rightarrow> bool \<Rightarrow> violation \<Rightarrow> xml \<Rightarrow> violation option" where
  "scheme_rule targets code_set allow_sepa v r =
     (if \<not> is_extension r then None
      else first_some (\<lambda>(e, up). case xget ''schemeID'' e of None \<Rightarrow> None
        | Some scheme \<Rightarrow> if scheme_ok code_set allow_sepa up scheme then None else Some v) targets)"

definition br_dex_4 :: "xml \<Rightarrow> violation option" where
  "br_dex_4 r =
     scheme_rule (scheme_targets (cac ''PartyIdentification'') ''ID'' r) ISO_6523_ICD_EXT_CODES True
       (XV Fatal ''BR-DEX-04''
         [L ''Any scheme identifier on a Party identification (BT-29/BT-46/BT-60) must be '',
          L ''coded with an ISO 6523 ICD code (or 'SEPA' for the Seller/Payee creditor '',
          L ''identifier).'']
         [L ''cac:PartyIdentification/cbc:ID/@schemeID'']) r"

definition br_dex_5 :: "xml \<Rightarrow> violation option" where
  "br_dex_5 r =
     scheme_rule (scheme_targets (cac ''PartyLegalEntity'') ''CompanyID'' r) ISO_6523_ICD_EXT_CODES False
       (XV Fatal ''BR-DEX-05''
         [L ''Any scheme identifier on a legal registration identifier (BT-30/BT-47) must '',
          L ''be coded with an ISO 6523 ICD code.'']
         [L ''cac:PartyLegalEntity/cbc:CompanyID/@schemeID'']) r"

definition br_dex_6 :: "xml \<Rightarrow> violation option" where
  "br_dex_6 r =
     scheme_rule (scheme_targets (cac ''StandardItemIdentification'') ''ID'' r) ISO_6523_ICD_EXT_CODES False
       (XV Fatal ''BR-DEX-06''
         [L ''Any scheme identifier on an 'Item standard identifier' (BT-157) must be '',
          L ''coded with an ISO 6523 ICD code.'']
         [L ''cac:StandardItemIdentification/cbc:ID/@schemeID'']) r"

definition br_dex_7 :: "xml \<Rightarrow> violation option" where
  "br_dex_7 r =
     scheme_rule (filter (\<lambda>(e, up). xtag e = cbc ''EndpointID'') (iter_up [] r)) CEF_EAS_EXT_CODES False
       (XV Fatal ''BR-DEX-07''
         [L ''Any scheme identifier on an 'Electronic address' endpoint (BT-34/BT-49) '',
          L ''must belong to the CEF EAS code list.'']
         [L ''cbc:EndpointID/@schemeID'']) r"

definition br_dex_8 :: "xml \<Rightarrow> violation option" where
  "br_dex_8 r =
     scheme_rule (scheme_targets (cac ''DeliveryLocation'') ''ID'' r) ISO_6523_ICD_EXT_CODES False
       (XV Fatal ''BR-DEX-08''
         [L ''Any scheme identifier on a 'Deliver to location identifier' (BT-71) must be '',
          L ''coded with an ISO 6523 ICD code.'']
         [L ''cac:DeliveryLocation/cbc:ID/@schemeID'']) r"

definition prepaid_payments :: "xml \<Rightarrow> xml list" where
  "prepaid_payments r = xfindall [cac ''PrepaidPayment''] r"

definition br_dex_10 :: "xml \<Rightarrow> violation option" where
  "br_dex_10 r =
     (if \<not> is_extension r then None
      else first_some (\<lambda>pp. if has_nonempty [cbc ''ID''] pp then None
        else Some (XV Fatal ''BR-DEX-10''
          [U 39, L ''Third party payment type' (BT-DEX-001) must be transmitted when a THIRD '',
           L ''PARTY PAYMENT (BG-DEX-09) is present.'']
          [L ''cac:PrepaidPayment/cbc:ID''])) (prepaid_payments r))"

definition br_dex_11 :: "xml \<Rightarrow> violation option" where
  "br_dex_11 r =
     (if \<not> is_extension r then None
      else first_some (\<lambda>pp. if has_nonempty [cbc ''PaidAmount''] pp then None
        else Some (XV Fatal ''BR-DEX-11''
          [U 39,
           L ''Third party payment amount' (BT-DEX-002) must be transmitted when a THIRD '',
           L ''PARTY PAYMENT (BG-DEX-09) is present.'']
          [L ''cac:PrepaidPayment/cbc:PaidAmount''])) (prepaid_payments r))"

definition br_dex_12 :: "xml \<Rightarrow> violation option" where
  "br_dex_12 r =
     (if \<not> is_extension r then None
      else first_some (\<lambda>pp. if has_nonempty [cbc ''InstructionID''] pp then None
        else Some (XV Fatal ''BR-DEX-12''
          [U 39, L ''Third party payment description' (BT-DEX-003) must be transmitted when a '',
           L ''THIRD PARTY PAYMENT (BG-DEX-09) is present.'']
          [L ''cac:PrepaidPayment/cbc:InstructionID''])) (prepaid_payments r))"

definition br_dex_13 :: "xml \<Rightarrow> violation option" where
  "br_dex_13 r =
     (if \<not> is_extension r then None
      else first_some (\<lambda>pp. if 2 < length (or_empty (snd (split1 46 (or_empty (sv (xfind [cbc ''PaidAmount''] pp))))))
        then Some (XV Fatal ''BR-DEX-13''
          [U 39, L ''Third party payment amount' (BT-DEX-002) must have at most 2 decimal '',
           L ''places.'']
          [L ''cac:PrepaidPayment/cbc:PaidAmount''])
        else None) (prepaid_payments r))"

definition br_dex_14 :: "xml \<Rightarrow> violation option" where
  "br_dex_14 r =
     (if \<not> is_extension r then None
      else first_some (\<lambda>pp. if list_ex (\<lambda>c. c \<in> set (map strval (xfindall [cbc ''DocumentCurrencyCode''] r)))
          (List.map_filter (xget ''currencyID'') (xfindall [cbc ''PaidAmount''] pp)) then None
        else Some (XV Fatal ''BR-DEX-14''
          [L ''The currency of 'Third party payment amount' (BT-DEX-002) must equal the '', U 39,
           L ''Invoice currency code' (BT-5).'']
          [L ''cac:PrepaidPayment/cbc:PaidAmount/@currencyID''])) (prepaid_payments r))"

section \<open>The ruleset\<close>

definition XR_RULES :: "(xml \<Rightarrow> dec_exc + violation option) list" where
  "XR_RULES =
    [total_rule br_de_1, total_rule br_de_2, total_rule br_de_3, total_rule br_de_4,
     total_rule br_de_5, total_rule br_de_6, total_rule br_de_7, total_rule br_de_8,
     total_rule br_de_9, total_rule br_de_10, total_rule br_de_11, total_rule br_de_14,
     total_rule br_de_15, total_rule br_de_16, total_rule br_de_17, total_rule br_de_18,
     total_rule br_de_19, total_rule br_de_20, total_rule br_de_21, total_rule br_de_22,
     total_rule br_de_23_a, total_rule br_de_23_b, total_rule br_de_24_a,
     total_rule br_de_24_b, total_rule br_de_25_a, total_rule br_de_25_b,
     total_rule br_de_26, total_rule br_de_27, total_rule br_de_28, total_rule br_de_30,
     total_rule br_de_31, total_rule br_de_tmp_32, total_rule br_tmp_2,
     total_rule br_de_cvd_01, total_rule br_de_cvd_02, total_rule br_de_cvd_03,
     total_rule br_de_cvd_04, total_rule br_de_cvd_05, total_rule br_de_cvd_06_a,
     total_rule br_de_cvd_06_b, total_rule br_tmp_cvd_01, total_rule br_dex_1, br_dex_2,
     total_rule br_dex_3, total_rule br_dex_4, total_rule br_dex_5, total_rule br_dex_6,
     total_rule br_dex_7, total_rule br_dex_8, br_dex_9, total_rule br_dex_10,
     total_rule br_dex_11, total_rule br_dex_12, total_rule br_dex_13, total_rule br_dex_14]"

definition XR_RULE_IDS :: "(string \<times> severity) list" where
  "XR_RULE_IDS =
    [(''BR-DE-1'', Fatal), (''BR-DE-2'', Fatal), (''BR-DE-3'', Fatal),
     (''BR-DE-4'', Fatal), (''BR-DE-5'', Fatal), (''BR-DE-6'', Fatal),
     (''BR-DE-7'', Fatal), (''BR-DE-8'', Fatal), (''BR-DE-9'', Fatal),
     (''BR-DE-10'', Fatal), (''BR-DE-11'', Fatal), (''BR-DE-14'', Fatal),
     (''BR-DE-15'', Fatal), (''BR-DE-16'', Fatal), (''BR-DE-17'', Warning),
     (''BR-DE-18'', Fatal), (''BR-DE-19'', Warning), (''BR-DE-20'', Warning),
     (''BR-DE-21'', Warning), (''BR-DE-22'', Fatal), (''BR-DE-23-a'', Fatal),
     (''BR-DE-23-b'', Fatal), (''BR-DE-24-a'', Fatal), (''BR-DE-24-b'', Fatal),
     (''BR-DE-25-a'', Fatal), (''BR-DE-25-b'', Fatal), (''BR-DE-26'', Warning),
     (''BR-DE-27'', Warning), (''BR-DE-28'', Warning), (''BR-DE-30'', Fatal),
     (''BR-DE-31'', Fatal), (''BR-DE-TMP-32'', Information), (''BR-TMP-2'', Warning),
     (''BR-DE-CVD-01'', Fatal), (''BR-DE-CVD-02'', Fatal), (''BR-DE-CVD-03'', Fatal),
     (''BR-DE-CVD-04'', Fatal), (''BR-DE-CVD-05'', Fatal), (''BR-DE-CVD-06-a'', Fatal),
     (''BR-DE-CVD-06-b'', Fatal), (''BR-TMP-CVD-01'', Fatal), (''BR-DEX-01'', Fatal),
     (''BR-DEX-02'', Warning), (''BR-DEX-03'', Fatal), (''BR-DEX-04'', Fatal),
     (''BR-DEX-05'', Fatal), (''BR-DEX-06'', Fatal), (''BR-DEX-07'', Fatal),
     (''BR-DEX-08'', Fatal), (''BR-DEX-09'', Fatal), (''BR-DEX-10'', Fatal),
     (''BR-DEX-11'', Fatal), (''BR-DEX-12'', Fatal), (''BR-DEX-13'', Fatal),
     (''BR-DEX-14'', Fatal)]"

definition xr_evaluate :: "xml \<Rightarrow> dec_exc + violation list" where
  "xr_evaluate r = evaluate_rules XR_RULES r"

lemmas [xr_defs] =
  br_de_1_def br_de_15_def br_de_16_def br_de_17_def br_de_18_def br_de_21_def
   br_de_22_def br_de_26_def br_de_30_def br_de_31_def br_de_tmp_32_def br_de_2_def
   br_de_3_def br_de_4_def br_de_5_def br_de_6_def br_de_7_def br_de_27_def
   br_de_28_def br_de_8_def br_de_9_def br_de_10_def br_de_11_def br_de_14_def
   br_de_19_def br_de_20_def br_de_23_a_def br_de_23_b_def br_de_24_a_def
   br_de_24_b_def br_de_25_a_def br_de_25_b_def br_tmp_2_def br_de_cvd_01_def
   br_de_cvd_02_def br_de_cvd_03_def br_de_cvd_06_a_def br_de_cvd_06_b_def
   br_tmp_cvd_01_def br_de_cvd_04_def br_de_cvd_05_def br_dex_1_def br_dex_2_def
   br_dex_3_def br_dex_9_def br_dex_4_def br_dex_5_def br_dex_6_def br_dex_7_def
   br_dex_8_def br_dex_10_def br_dex_11_def br_dex_12_def br_dex_13_def br_dex_14_def

end
