(* ===== verification/EI_Parser.thy ===== *)
theory EI_Parser
  imports EI_Xml
begin

text \<open>
  \<open>einvoice/parser.py\<close>: \<open>build_model\<close>, which fills the normalised invoice from the tree of a
  UBL \<open>Invoice\<close> or \<open>CreditNote\<close>.  The function is one long sequence of assignments; it is
  kept in its order, as one definition per block that takes the model built so far.
\<close>

section \<open>Helpers\<close>

text \<open>\<open>_norm_space(x) or ""\<close>.\<close>

definition norm_or :: "text_opt \<Rightarrow> pystr" where
  "norm_or s = or_empty (norm_opt s)"

text \<open>The comprehensions of the code lists: normalised texts, and the attribute values of the
  elements that carry the attribute.\<close>

definition norm_values :: "xml list \<Rightarrow> pystr list" where
  "norm_values es = map (\<lambda>e. norm_or (Some (strval e))) es"

definition norm_attrs :: "string \<Rightarrow> xml list \<Rightarrow> pystr list" where
  "norm_attrs key es = [norm_space s. e \<leftarrow> es, Some s \<leftarrow> [xget key e]]"

definition raw_attrs :: "string \<Rightarrow> xml list \<Rightarrow> pystr list" where
  "raw_attrs key es = [s. e \<leftarrow> es, Some s \<leftarrow> [xget key e]]"

definition is_true :: "text_opt \<Rightarrow> bool" where
  "is_true s \<longleftrightarrow> s = Some (ascii ''true'') \<or> s = Some (ascii ''1'')"

definition is_false :: "text_opt \<Rightarrow> bool" where
  "is_false s \<longleftrightarrow> s = Some (ascii ''false'') \<or> s = Some (ascii ''0'')"

definition charge_indicator :: "xml \<Rightarrow> text_opt" where
  "charge_indicator ac_el = norm_opt (text_of (xfind [cbc ''ChargeIndicator''] ac_el))"

text \<open>\<open>_norm_space(_text(el.find("cac:TaxScheme/cbc:ID", NS)))\<close>.\<close>

definition tax_scheme :: "xml \<Rightarrow> text_opt" where
  "tax_scheme e = norm_opt (text_of (xfind [cac ''TaxScheme'', cbc ''ID''] e))"

definition build_category :: "xml \<Rightarrow> item_tax_category" where
  "build_category cat_el = \<lparr>
     cat_id = norm_opt (text_of (xfind [cbc ''ID''] cat_el)),
     cat_scheme_id = upper_opt (tax_scheme cat_el),
     cat_percent = text_of (xfind [cbc ''Percent''] cat_el),
     cat_raw_id = rawtext (xfind [cbc ''ID''] cat_el) \<rparr>"

definition build_allowance_charge :: "xml \<Rightarrow> allowance_charge" where
  "build_allowance_charge ac_el =
     (let ind = charge_indicator ac_el; amount_el = xfind [cbc ''Amount''] ac_el;
          cats = xfindall [cac ''TaxCategory''] ac_el
      in new_allowance_charge\<lparr>
        is_charge := (if is_true ind then Some True else if is_false ind then Some False else None),
        has_amount := (amount_el \<noteq> None),
        amount_raw := rawtext amount_el,
        base_amount_raw := rawtext (xfind [cbc ''BaseAmount''] ac_el),
        has_vat_category_id :=
          list_ex (\<lambda>c. is_vat (tax_scheme c) \<and> xfind [cbc ''ID''] c \<noteq> None) cats,
        tax_categories := map build_category cats,
        has_reason := (xfind [cbc ''AllowanceChargeReason''] ac_el \<noteq> None \<or>
          xfind [cbc ''AllowanceChargeReasonCode''] ac_el \<noteq> None) \<rparr>)"

definition build_period :: "xml \<Rightarrow> period" where
  "build_period p = \<lparr> period_start = text_of (xfind [cbc ''StartDate''] p),
                      period_end = text_of (xfind [cbc ''EndDate''] p) \<rparr>"

definition party_has_vat_company_id :: "xml \<Rightarrow> bool" where
  "party_has_vat_company_id p \<longleftrightarrow>
     list_ex (\<lambda>pts. is_vat (tax_scheme pts) \<and> xfind [cbc ''CompanyID''] pts \<noteq> None)
       (xfindall [cac ''PartyTaxScheme''] p)"

section \<open>Header\<close>

definition root_is :: "string \<Rightarrow> string \<Rightarrow> xml \<Rightarrow> bool" where
  "root_is ns n doc \<longleftrightarrow> xtag doc = qname ns n \<or>
     localname (xtag doc) = ascii n \<and> starts_with (123 # ascii ns @ [125]) (xtag doc)"

definition parse_header :: "xml \<Rightarrow> invoice \<Rightarrow> invoice" where
  "parse_header doc iv =
     (let inv_type = xfind [cbc ''InvoiceTypeCode''] doc;
          cn_type = xfind [cbc ''CreditNoteTypeCode''] doc;
          type_el = (if inv_type = None then cn_type else inv_type);
          cur_el = xfind [cbc ''DocumentCurrencyCode''] doc;
          taxcur_el = xfind [cbc ''TaxCurrencyCode''] doc
      in iv\<lparr>
        root_is_ubl_invoice := root_is NS_INVOICE ''Invoice'' doc,
        is_creditnote := root_is NS_CREDITNOTE ''CreditNote'' doc,
        customization_id := text_of (xfind [cbc ''CustomizationID''] doc),
        inv_id := text_of (xfind [cbc ''ID''] doc),
        issue_date := text_of (xfind [cbc ''IssueDate''] doc),
        invoice_type_code_from_creditnote :=
          (if inv_type = None then cn_type \<noteq> None else invoice_type_code_from_creditnote iv),
        invoice_type_code := text_of type_el,
        invoice_type_code_line := sourceline type_el,
        document_currency_code := text_of cur_el,
        document_currency_code_line := sourceline cur_el,
        tax_currency_code := norm_opt (text_of taxcur_el),
        tax_currency_code_line := sourceline taxcur_el,
        buyer_reference := text_of (xfind [cbc ''BuyerReference''] doc) \<rparr>)"

section \<open>Code-list inputs\<close>

definition AMOUNT_TAGS :: "string list" where
  "AMOUNT_TAGS = [''Amount'', ''BaseAmount'', ''PriceAmount'', ''TaxAmount'', ''TaxableAmount'',
     ''LineExtensionAmount'', ''TaxExclusiveAmount'', ''TaxInclusiveAmount'',
     ''AllowanceTotalAmount'', ''ChargeTotalAmount'', ''PrepaidAmount'',
     ''PayableRoundingAmount'', ''PayableAmount'']"

text \<open>Object references: the \<open>schemeID\<close> of the \<open>cbc:ID\<close> children of a reference whose first
  type code is 130.\<close>

definition object_ref_schemes :: "xml \<Rightarrow> pystr list" where
  "object_ref_schemes ref_el =
     (case xfind [cbc ''DocumentTypeCode''] ref_el of
        None \<Rightarrow> []
      | Some dtc \<Rightarrow> if norm_space (strval dtc) \<noteq> ascii ''130'' then []
          else norm_attrs ''schemeID'' (xfindall [cbc ''ID''] ref_el))"

definition parse_codes_1 :: "xml \<Rightarrow> invoice \<Rightarrow> invoice" where
  "parse_codes_1 doc iv = iv\<lparr>
     amount_currency_ids :=
       [norm_or (xget ''currencyID'' e). t \<leftarrow> AMOUNT_TAGS, e \<leftarrow> xdesc [cbc t] doc],
     item_class_list_ids := norm_attrs ''listID''
       (xdesc [cac ''CommodityClassification'', cbc ''ItemClassificationCode''] doc),
     country_codes := norm_values (xdesc [cac ''Country'', cbc ''IdentificationCode''] doc),
     origin_country_codes :=
       norm_values (xdesc [cac ''OriginCountry'', cbc ''IdentificationCode''] doc),
     vat_point_date_codes :=
       norm_values (xdesc [cac ''InvoicePeriod'', cbc ''DescriptionCode''] doc),
     object_ref_scheme_codes :=
       [s. t \<leftarrow> [''AdditionalDocumentReference'', ''DocumentReference''],
           r \<leftarrow> iter_tag (cac t) doc, s \<leftarrow> object_ref_schemes r],
     note_subject_texts := map strval (xfindall [cbc ''Note''] doc),
     tax_category_ids_raw := map strval (xdesc [cac ''TaxCategory'', cbc ''ID''] doc),
     classified_category_ids_raw :=
       map strval (xdesc [cac ''ClassifiedTaxCategory'', cbc ''ID''] doc),
     doc_breakdown_category_ids_raw := map strval
       (xfindall [cac ''TaxTotal'', cac ''TaxSubtotal'', cac ''TaxCategory'', cbc ''ID''] doc),
     doc_ac_category_ids_raw := map strval
       (xfindall [cac ''AllowanceCharge'', cac ''TaxCategory'', cbc ''ID''] doc),
     all_country_codes_raw := map strval (xdesc [cbc ''IdentificationCode''] doc) \<rparr>"

text \<open>The reason codes of the allowances (charges), at any depth.\<close>

definition reason_codes :: "bool \<Rightarrow> xml \<Rightarrow> pystr list" where
  "reason_codes charge doc =
     [c. ac_el \<leftarrow> xdesc [cac ''AllowanceCharge''] doc,
         (if charge then is_true (charge_indicator ac_el)
          else \<not> is_true (charge_indicator ac_el) \<and> is_false (charge_indicator ac_el)),
         c \<leftarrow> norm_values (xfindall [cbc ''AllowanceChargeReasonCode''] ac_el)]"

definition parse_codes_2 :: "xml \<Rightarrow> invoice \<Rightarrow> invoice" where
  "parse_codes_2 doc iv = iv\<lparr>
     taxcategory_id_codes := norm_values (xdesc [cac ''TaxCategory'', cbc ''ID''] doc),
     classified_tax_category_codes :=
       norm_values (xdesc [cac ''ClassifiedTaxCategory'', cbc ''ID''] doc),
     tax_exemption_reason_codes :=
       map py_upper (norm_values (xdesc [cbc ''TaxExemptionReasonCode''] doc)),
     unit_codes := [u. t \<leftarrow> [''InvoicedQuantity'', ''BaseQuantity'', ''CreditedQuantity''],
         u \<leftarrow> norm_attrs ''unitCode'' (xdesc [cbc t] doc)],
     payment_means_codes := norm_values (xdesc [cac ''PaymentMeans'', cbc ''PaymentMeansCode''] doc),
     charge_reason_codes := charge_reason_codes iv @ reason_codes True doc,
     allowance_reason_codes := allowance_reason_codes iv @ reason_codes False doc,
     item_std_id_scheme_ids := norm_attrs ''schemeID''
       (xdesc [cac ''StandardItemIdentification'', cbc ''ID''] doc),
     mime_codes := raw_attrs ''mimeCode'' (xdesc [cbc ''EmbeddedDocumentBinaryObject''] doc) \<rparr>"

text \<open>The scheme identifiers by the parent of their element; an identification of a seller or a
  payee may be of the scheme \<open>SEPA\<close>.\<close>

definition parent_tag :: "xml list \<Rightarrow> pystr option" where
  "parent_tag up = map_option xtag (first up)"

definition schemes_under :: "pystr \<Rightarrow> pystr \<Rightarrow> xml \<Rightarrow> (pystr \<times> xml list) list" where
  "schemes_under t parent doc =
     [(norm_space s, up). (e, up) \<leftarrow> iter_up [] doc, Some s \<leftarrow> [xget ''schemeID'' e],
        xtag e = t \<and> parent_tag up = Some parent]"

definition sepa_ancestor :: "xml list \<Rightarrow> bool" where
  "sepa_ancestor up \<longleftrightarrow>
     list_ex (\<lambda>a. xtag a = cac ''AccountingSupplierParty'' \<or> xtag a = cac ''PayeeParty'') up"

definition parse_schemes :: "xml \<Rightarrow> invoice \<Rightarrow> invoice" where
  "parse_schemes doc iv = iv\<lparr>
     endpoint_scheme_ids := endpoint_scheme_ids iv @
       norm_attrs ''schemeID'' (iter_tag (cbc ''EndpointID'') doc),
     party_id_scheme_ids := party_id_scheme_ids iv @
       map (\<lambda>(s, up). (s, sepa_ancestor up))
         (schemes_under (cbc ''ID'') (cac ''PartyIdentification'') doc),
     delivery_location_scheme_ids := delivery_location_scheme_ids iv @
       map fst (schemes_under (cbc ''ID'') (cac ''DeliveryLocation'') doc),
     party_legal_scheme_ids := party_legal_scheme_ids iv @
       map fst (schemes_under (cbc ''CompanyID'') (cac ''PartyLegalEntity'') doc) \<rparr>"

section \<open>References and identifiers\<close>

text \<open>The first two characters of the VAT identifiers, with the scheme upper-cased before it is
  normalised.\<close>

definition vat_id_prefix :: "xml \<Rightarrow> pystr list" where
  "vat_id_prefix pts_el =
     (case xfind [cac ''TaxScheme'', cbc ''ID''] pts_el of
        None \<Rightarrow> []
      | Some s \<Rightarrow> if norm_space (py_upper (strval s)) \<noteq> ascii ''VAT'' then []
          else (case xfind [cbc ''CompanyID''] pts_el of
              None \<Rightarrow> [[]] | Some c \<Rightarrow> [take 2 (strval c)]))"

definition seller_identified :: "xml \<Rightarrow> bool" where
  "seller_identified asp_el =
     (case xfind [cac ''Party''] asp_el of
        None \<Rightarrow> False
      | Some party \<Rightarrow> party_has_vat_company_id party
          \<or> list_ex (\<lambda>i. xget ''schemeID'' i \<noteq> Some (ascii ''SEPA''))
              (xfindall [cac ''PartyIdentification'', cbc ''ID''] party)
          \<or> xfind [cac ''PartyLegalEntity'', cbc ''CompanyID''] party \<noteq> None)"

definition LINE_TAGS :: "string list" where
  "LINE_TAGS = [''InvoiceLine'', ''CreditNoteLine'']"

definition has_attr :: "string \<Rightarrow> xml \<Rightarrow> bool" where
  "has_attr key e \<longleftrightarrow> xget key e \<noteq> None"

definition parse_refs :: "xml \<Rightarrow> invoice \<Rightarrow> invoice" where
  "parse_refs doc iv = iv\<lparr>
     supporting_doc_refs := supporting_doc_refs iv @
       [(case xfind [cbc ''ID''] adr of None \<Rightarrow> [] | Some i \<Rightarrow> norm_space (strval i)).
          adr \<leftarrow> iter_tag (cac ''AdditionalDocumentReference'') doc],
     tax_currency_codes_raw := map strval (xfindall [cbc ''TaxCurrencyCode''] doc),
     taxtotal_amount_currencies :=
       raw_attrs ''currencyID'' (xdesc [cac ''TaxTotal'', cbc ''TaxAmount''] doc),
     taxtotal_amounts_raw :=
       [(xget ''currencyID'' e, strval e). e \<leftarrow> xdesc [cac ''TaxTotal'', cbc ''TaxAmount''] doc],
     document_currency_codes_raw := map strval (xfindall [cbc ''DocumentCurrencyCode''] doc),
     item_attributes := item_attributes iv @
       [(xfind [cbc ''Name''] p \<noteq> None, xfind [cbc ''Value''] p \<noteq> None).
          p \<leftarrow> iter_tag (cac ''AdditionalItemProperty'') doc],
     item_std_ids_scheme_ok := [has_attr ''schemeID'' e. l \<leftarrow> LINE_TAGS,
        e \<leftarrow> xdesc [cac l, cac ''Item'', cac ''StandardItemIdentification'', cbc ''ID''] doc],
     item_class_ids_scheme_ok := [has_attr ''listID'' e. l \<leftarrow> LINE_TAGS,
        e \<leftarrow> xdesc [cac l, cac ''Item'', cac ''CommodityClassification'',
                     cbc ''ItemClassificationCode''] doc],
     has_tax_point_date := (xfind [cbc ''TaxPointDate''] doc \<noteq> None),
     has_tax_point_date_code :=
       (xfind [cac ''InvoicePeriod'', cbc ''DescriptionCode''] doc \<noteq> None),
     vat_id_prefixes := vat_id_prefixes iv @
       concat (map vat_id_prefix (iter_tag (cac ''PartyTaxScheme'') doc)),
     seller_identification_ok := seller_identification_ok iv @
       map seller_identified (iter_tag (cac ''AccountingSupplierParty'') doc) \<rparr>"

section \<open>Parties\<close>

definition country_path :: "pystr list" where
  "country_path = [cac ''PostalAddress'', cac ''Country'', cbc ''IdentificationCode'']"

definition parse_seller :: "xml \<Rightarrow> invoice \<Rightarrow> invoice" where
  "parse_seller doc iv =
     (case xfind [cac ''AccountingSupplierParty'', cac ''Party''] doc of
        None \<Rightarrow> iv
      | Some supplier \<Rightarrow> iv\<lparr>
          seller_name := text_of (xfind [cac ''PartyLegalEntity'', cbc ''RegistrationName''] supplier),
          seller_has_postal_address := (xfind [cac ''PostalAddress''] supplier \<noteq> None),
          seller_country_code := norm_opt (text_of (xfind country_path supplier)),
          seller_has_party_tax_scheme_company_id :=
            (xfind [cac ''PartyTaxScheme'', cbc ''CompanyID''] supplier \<noteq> None),
          seller_has_vat_scheme_company_id := party_has_vat_company_id supplier,
          seller_endpoints :=
            map (has_attr ''schemeID'') (xfindall [cbc ''EndpointID''] supplier) \<rparr>)"

text \<open>One \<open>cac:TaxRepresentativeParty\<close> after the other.\<close>

definition parse_taxrep :: "invoice \<Rightarrow> xml \<Rightarrow> invoice" where
  "parse_taxrep iv trp_el = iv\<lparr>
     taxrep_has_vat_company_id :=
       (taxrep_has_vat_company_id iv \<or> party_has_vat_company_id trp_el),
     taxrep_vat_ids_ok := taxrep_vat_ids_ok iv @ [party_has_vat_company_id trp_el],
     tax_representatives := tax_representatives iv @ [\<lparr>
       taxrep_name = map_option strval (xfind [cac ''PartyName'', cbc ''Name''] trp_el),
       taxrep_has_postal_address = (xfind [cac ''PostalAddress''] trp_el \<noteq> None) \<rparr>],
     taxrep_postal_addresses := taxrep_postal_addresses iv @
       map (\<lambda>pa. map_option strval (xfind [cac ''Country'', cbc ''IdentificationCode''] pa))
         (xfindall [cac ''PostalAddress''] trp_el) \<rparr>"

definition parse_taxreps :: "xml \<Rightarrow> invoice \<Rightarrow> invoice" where
  "parse_taxreps doc iv = foldl parse_taxrep iv (iter_tag (cac ''TaxRepresentativeParty'') doc)"

definition parse_buyer :: "xml \<Rightarrow> invoice \<Rightarrow> invoice" where
  "parse_buyer doc iv =
     (case xfind [cac ''AccountingCustomerParty'', cac ''Party''] doc of
        None \<Rightarrow> iv
      | Some customer \<Rightarrow> iv\<lparr>
          buyer_name := text_of (xfind [cac ''PartyLegalEntity'', cbc ''RegistrationName''] customer),
          buyer_has_postal_address := (xfind [cac ''PostalAddress''] customer \<noteq> None),
          buyer_country_code := norm_opt (text_of (xfind country_path customer)),
          buyer_has_vat_scheme_company_id := party_has_vat_company_id customer,
          buyer_has_legal_entity_company_id :=
            (xfind [cac ''PartyLegalEntity'', cbc ''CompanyID''] customer \<noteq> None),
          buyer_endpoints :=
            map (has_attr ''schemeID'') (xfindall [cbc ''EndpointID''] customer) \<rparr>)"

text \<open>A payee, with the names and identifiers of the sellers beside it.\<close>

definition build_payee :: "xml \<Rightarrow> xml \<Rightarrow> payee_party" where
  "build_payee parent el =
     (let seller = (\<lambda>p. map strval
            (xfindall ([cac ''AccountingSupplierParty'', cac ''Party''] @ p) parent))
      in \<lparr> payee_names = map strval (xfindall [cac ''PartyName'', cbc ''Name''] el),
           payee_ids = map strval (xfindall [cac ''PartyIdentification'', cbc ''ID''] el),
           payee_seller_names = seller [cac ''PartyName'', cbc ''Name''],
           payee_seller_ids = seller [cac ''PartyIdentification'', cbc ''ID''],
           payee_legal_ids = [], payee_seller_legal_ids = [] \<rparr>)"

definition build_payment_means :: "xml \<Rightarrow> payment_means_group" where
  "build_payment_means pm_el =
     (let codes_raw = map strval (xfindall [cbc ''PaymentMeansCode''] pm_el)
      in \<lparr> pm_has_code = (codes_raw \<noteq> []),
           pm_code_norm = (case codes_raw of [] \<Rightarrow> [] | c # _ \<Rightarrow> norm_space c),
           pm_codes_raw = codes_raw,
           pm_has_account_id = (xfind [cac ''PayeeFinancialAccount'', cbc ''ID''] pm_el \<noteq> None),
           pm_account_first_ids = map (\<lambda>a. map_option strval (xfind [cbc ''ID''] a))
             (xfindall [cac ''PayeeFinancialAccount''] pm_el) \<rparr>)"

definition parse_parties :: "xml \<Rightarrow> invoice \<Rightarrow> invoice" where
  "parse_parties doc iv = iv\<lparr>
     payee_parties := payee_parties iv @
       [build_payee parent el. parent \<leftarrow> iter doc, el \<leftarrow> children_named (cac ''PayeeParty'') parent],
     payment_means := payment_means iv @
       map build_payment_means (iter_tag (cac ''PaymentMeans'') doc),
     card_pans := card_pans iv @
       [strval p. pm_el \<leftarrow> iter_tag (cac ''PaymentMeans'') doc,
          p \<leftarrow> xfindall [cac ''CardAccount'', cbc ''PrimaryAccountNumberID''] pm_el],
     billing_references := billing_references iv @
       [xfind [cac ''InvoiceDocumentReference'', cbc ''ID''] b \<noteq> None.
          b \<leftarrow> iter_tag (cac ''BillingReference'') doc],
     delivery_addresses := delivery_addresses iv @
       [xfind [cac ''Country'', cbc ''IdentificationCode''] a \<noteq> None.
          d \<leftarrow> iter_tag (cac ''Delivery'') doc,
          a \<leftarrow> xfindall [cac ''DeliveryLocation'', cac ''Address''] d] \<rparr>"

definition parse_delivery :: "xml \<Rightarrow> invoice \<Rightarrow> invoice" where
  "parse_delivery doc iv =
     (let iv1 = (case xfind [cac ''Delivery''] doc of
          None \<Rightarrow> iv
        | Some d \<Rightarrow> iv\<lparr>
            doc_delivery_actual_date_raw :=
              (case xfind [cbc ''ActualDeliveryDate''] d of
                 None \<Rightarrow> doc_delivery_actual_date_raw iv | Some e \<Rightarrow> Some (strval e)),
            doc_delivery_country_code_raw :=
              (case xfind [cac ''DeliveryLocation'', cac ''Address'', cac ''Country'',
                           cbc ''IdentificationCode''] d of
                 None \<Rightarrow> doc_delivery_country_code_raw iv | Some e \<Rightarrow> Some (strval e)) \<rparr>)
      in iv1\<lparr> doc_invoice_period_has_child :=
           list_ex (\<lambda>p. kids p \<noteq> []) (xfindall [cac ''InvoicePeriod''] doc) \<rparr>)"

section \<open>Totals\<close>

definition LMT_NAMES :: "string list" where
  "LMT_NAMES = [''LineExtensionAmount'', ''AllowanceTotalAmount'', ''ChargeTotalAmount'',
     ''TaxExclusiveAmount'', ''TaxInclusiveAmount'', ''PrepaidAmount'',
     ''PayableRoundingAmount'', ''PayableAmount'']"

definition parse_totals :: "xml \<Rightarrow> invoice \<Rightarrow> invoice" where
  "parse_totals doc iv =
     (case xfind [cac ''LegalMonetaryTotal''] doc of
        None \<Rightarrow> iv
      | Some lmt \<Rightarrow> (let txt = (\<lambda>n. text_of (xfind [cbc n] lmt)) in iv\<lparr>
          has_legal_monetary_total := True,
          line_extension_total := txt ''LineExtensionAmount'',
          tax_exclusive_amount := txt ''TaxExclusiveAmount'',
          tax_inclusive_amount := txt ''TaxInclusiveAmount'',
          payable_amount := txt ''PayableAmount'',
          allowance_total := txt ''AllowanceTotalAmount'',
          charge_total := txt ''ChargeTotalAmount'',
          prepaid_amount := txt ''PrepaidAmount'',
          payable_rounding_amount := txt ''PayableRoundingAmount'',
          lmt_raw := lmt_raw iv ++ map_of (map (\<lambda>n. (n, rawtext (xfind [cbc n] lmt))) LMT_NAMES) \<rparr>))"

definition parse_subtotal :: "xml \<Rightarrow> tax_subtotal" where
  "parse_subtotal st_el =
     (let ta_el = xfind [cbc ''TaxAmount''] st_el; tx_el = xfind [cbc ''TaxableAmount''] st_el;
          st = new_subtotal\<lparr> st_tax_amount := text_of ta_el, tax_amount_raw := rawtext ta_el,
            taxable_amount := text_of tx_el, taxable_amount_raw := rawtext tx_el \<rparr>
      in case xfind [cac ''TaxCategory''] st_el of
           None \<Rightarrow> st
         | Some cat_el \<Rightarrow> st\<lparr>
             category_id := text_of (xfind [cbc ''ID''] cat_el),
             category_id_raw := rawtext (xfind [cbc ''ID''] cat_el),
             percent := text_of (xfind [cbc ''Percent''] cat_el),
             category_scheme_id := upper_opt (tax_scheme cat_el),
             has_exemption_reason := (xfind [cbc ''TaxExemptionReason''] cat_el \<noteq> None),
             has_exemption_reason_code := (xfind [cbc ''TaxExemptionReasonCode''] cat_el \<noteq> None) \<rparr>)"

definition parse_tax_total :: "xml \<Rightarrow> tax_total" where
  "parse_tax_total tt_el =
     (let amount_el = xfind [cbc ''TaxAmount''] tt_el
      in \<lparr> tt_tax_amount = text_of amount_el,
           tax_amount_currency = (case amount_el of None \<Rightarrow> None | Some e \<Rightarrow> xget ''currencyID'' e),
           subtotals = map parse_subtotal (xfindall [cac ''TaxSubtotal''] tt_el) \<rparr>)"

text \<open>The category codes of every VAT category of the document.\<close>

definition vat_codes :: "xml \<Rightarrow> pystr list" where
  "vat_codes e = (if is_vat (tax_scheme e)
     then [c. i \<leftarrow> xfindall [cbc ''ID''] e, c \<leftarrow> [norm_or (text_of (Some i))], c \<noteq> []] else [])"

definition period_filled :: "xml \<Rightarrow> bool" where
  "period_filled el \<longleftrightarrow> xfind [cbc ''StartDate''] el \<noteq> None \<or> xfind [cbc ''EndDate''] el \<noteq> None \<or>
     xfind [cbc ''DescriptionCode''] el \<noteq> None"

text \<open>The periods that are not children of a line.\<close>

definition document_periods :: "xml \<Rightarrow> xml list" where
  "document_periods doc =
     [el. parent \<leftarrow> iter doc,
          \<not> (xtag parent = cac ''InvoiceLine'' \<or> xtag parent = cac ''CreditNoteLine''),
          el \<leftarrow> children_named (cac ''InvoicePeriod'') parent]"

definition parse_taxes :: "xml \<Rightarrow> invoice \<Rightarrow> invoice" where
  "parse_taxes doc iv = iv\<lparr>
     tax_totals := tax_totals iv @ map parse_tax_total (xfindall [cac ''TaxTotal''] doc),
     all_tax_subtotals := all_tax_subtotals iv @
       map parse_subtotal (iter_tag (cac ''TaxSubtotal'') doc),
     vat_category_codes := vat_category_codes iv @
       [c. e \<leftarrow> iter doc, xtag e = cac ''TaxCategory'' \<or> xtag e = cac ''ClassifiedTaxCategory'',
           c \<leftarrow> vat_codes e],
     invoice_periods := invoice_periods iv @ map build_period (document_periods doc),
     invoice_period_filled := invoice_period_filled iv @ map period_filled (document_periods doc),
     doc_allowance_charge_category_ids := doc_allowance_charge_category_ids iv @
       [c. ac_el \<leftarrow> xfindall [cac ''AllowanceCharge''] doc,
           Some c \<leftarrow> [text_of (xfind [cac ''TaxCategory'', cbc ''ID''] ac_el)]],
     doc_allowance_charges := doc_allowance_charges iv @
       map build_allowance_charge (xfindall [cac ''AllowanceCharge''] doc) \<rparr>"

section \<open>Lines\<close>

definition parse_line :: "nat \<Rightarrow> xml \<Rightarrow> invoice_line" where
  "parse_line i ln_el =
     (let inv_qty = xfind [cbc ''InvoicedQuantity''] ln_el;
          qty_el = (if inv_qty = None then xfind [cbc ''CreditedQuantity''] ln_el else inv_qty);
          lea_el = xfind [cbc ''LineExtensionAmount''] ln_el
      in (new_line i)\<lparr>
        line_id := text_of (xfind [cbc ''ID''] ln_el),
        quantity := text_of qty_el,
        has_quantity_unit_code := list_ex (has_attr ''unitCode'')
          (xfindall [cbc ''InvoicedQuantity''] ln_el @ xfindall [cbc ''CreditedQuantity''] ln_el),
        line_extension_amount := text_of lea_el,
        line_extension_amount_raw := rawtext lea_el,
        price_amount := text_of (xfind [cac ''Price'', cbc ''PriceAmount''] ln_el),
        price_base_amounts := map (\<lambda>e. or_empty (text_of (Some e)))
          (xfindall [cac ''Price'', cac ''AllowanceCharge'', cbc ''BaseAmount''] ln_el),
        periods := map build_period (xfindall [cac ''InvoicePeriod''] ln_el),
        item_name := text_of (xfind [cac ''Item'', cbc ''Name''] ln_el),
        tax_category_ids := map (\<lambda>e. or_empty (text_of (Some e)))
          (xfindall [cac ''Item'', cac ''ClassifiedTaxCategory'', cbc ''ID''] ln_el),
        item_tax_categories := map build_category
          (xfindall [cac ''Item'', cac ''ClassifiedTaxCategory''] ln_el),
        line_allowance_charges := map build_allowance_charge
          (xfindall [cac ''AllowanceCharge''] ln_el) \<rparr>)"

definition line_elements :: "xml \<Rightarrow> xml list" where
  "line_elements doc = xfindall [cac ''InvoiceLine''] doc @ xfindall [cac ''CreditNoteLine''] doc"

definition parse_lines :: "xml \<Rightarrow> invoice \<Rightarrow> invoice" where
  "parse_lines doc iv = iv\<lparr>
     inv_lines := inv_lines iv @
       map (\<lambda>(i, e). parse_line i e) (enumerate 1 (line_elements doc)),
     line_period_filled := line_period_filled iv @
       [xfind [cbc ''StartDate''] p \<noteq> None \<or> xfind [cbc ''EndDate''] p \<noteq> None.
          ln_el \<leftarrow> line_elements doc, p \<leftarrow> xfindall [cac ''InvoicePeriod''] ln_el] \<rparr>"

text \<open>\<open>build_model\<close>.\<close>

definition build_model :: "xml \<Rightarrow> invoice" where
  "build_model doc =
     (parse_lines doc \<circ> parse_taxes doc \<circ> parse_totals doc \<circ> parse_delivery doc \<circ>
      parse_parties doc \<circ> parse_buyer doc \<circ> parse_taxreps doc \<circ> parse_seller doc \<circ>
      parse_refs doc \<circ> parse_schemes doc \<circ> parse_codes_2 doc \<circ> parse_codes_1 doc \<circ>
      parse_header doc) new_invoice"

end
