(* ===== verification/EI_Parser_Cii.thy ===== *)
theory EI_Parser_Cii
  imports EI_Parser
begin

text \<open>
  \<open>einvoice/parser_cii.py\<close>: \<open>build_model\<close> for a UN/CEFACT \<open>CrossIndustryInvoice\<close>.  It fills the
  same invoice as the UBL parser, so that the same rules run on it, and the extra fields that
  the German layer reads.  Blocks and their order are those of the code.
\<close>

section \<open>The extended invoice\<close>

record cii_contact =
  person_name :: text_opt
  department_name :: text_opt
  telephone :: text_opt
  email :: text_opt

record cii_ref_doc =
  type_codes :: "pystr list"
  issuer_ids :: "pystr list"
  uri_ids :: "pystr list"

record cii_class_code =
  cc_list_id :: text_opt
  cc_value :: pystr

record cii_characteristic =
  descriptions :: "pystr list"
  ch_values :: "pystr list"

record cii_trade_product =
  class_codes :: "cii_class_code list"
  characteristics :: "cii_characteristic list"

record cii_price_quantities =
  gross_basis_quantities :: "(pystr \<times> text_opt) list"
  net_basis_quantities :: "(pystr \<times> text_opt) list"

record cii_payment_means =
  type_code :: text_opt
  has_payee_account :: bool
  payee_iban :: text_opt
  has_payer_iban :: bool
  payer_iban :: text_opt
  has_card :: bool
  has_payee_institution :: bool
  has_payer_institution :: bool

record cii_invoice = invoice +
  root_is_cii_invoice :: bool
  has_header_monetary_summation :: bool
  tax_total_amount :: text_opt
  tax_total_amount_currency :: text_opt
  has_payment_means :: bool
  seller_party_present :: bool
  seller_has_defined_trade_contact :: bool
  seller_city :: text_opt
  seller_post_code :: text_opt
  seller_defined_trade_contacts :: "cii_contact list"
  seller_vat_or_fc_id_present :: bool
  has_tax_representative :: bool
  buyer_city :: text_opt
  buyer_post_code :: text_opt
  shipto_postal_addresses :: "(text_opt \<times> text_opt) list"
  has_invoice_referenced_document :: bool
  has_actual_delivery_date :: bool
  has_billing_period :: bool
  settlement_payment_means :: "cii_payment_means list"
  has_direct_debit_mandate_id :: bool
  has_creditor_reference_id :: bool
  payment_terms_descriptions :: "pystr list"
  additional_ref_doc_attachments :: "text_opt list list list"
  has_assoc_document_line_document :: bool
  has_parent_line_id :: bool
  ext_attachment_mime_codes :: "text_opt list"
  ext_generic_global_id_schemes :: "pystr list"
  ext_id_schemes :: "pystr list"
  ext_product_global_id_schemes :: "pystr list"
  ext_uri_id_schemes :: "pystr list"
  ext_ship_to_global_id_schemes :: "pystr list"
  guideline_ids :: "pystr list"
  has_supply_chain_transaction :: bool
  has_header_trade_agreement :: bool
  contract_reference_ids :: "pystr list"
  header_ref_docs :: "cii_ref_doc list"
  trade_products :: "cii_trade_product option list"
  line_prices :: "cii_price_quantities list"

text \<open>\<open>Invoice()\<close> of this module.\<close>

definition new_cii_invoice :: cii_invoice where
  "new_cii_invoice = invoice.extend new_invoice \<lparr>
     root_is_cii_invoice = False, has_header_monetary_summation = False,
     tax_total_amount = None, tax_total_amount_currency = None,
     has_payment_means = False, seller_party_present = False,
     seller_has_defined_trade_contact = False, seller_city = None, seller_post_code = None,
     seller_defined_trade_contacts = [], seller_vat_or_fc_id_present = False,
     has_tax_representative = False, buyer_city = None, buyer_post_code = None,
     shipto_postal_addresses = [], has_invoice_referenced_document = False,
     has_actual_delivery_date = False, has_billing_period = False,
     settlement_payment_means = [], has_direct_debit_mandate_id = False,
     has_creditor_reference_id = False, payment_terms_descriptions = [],
     additional_ref_doc_attachments = [], has_assoc_document_line_document = False,
     has_parent_line_id = False, ext_attachment_mime_codes = [],
     ext_generic_global_id_schemes = [], ext_id_schemes = [],
     ext_product_global_id_schemes = [], ext_uri_id_schemes = [],
     ext_ship_to_global_id_schemes = [], guideline_ids = [],
     has_supply_chain_transaction = False, has_header_trade_agreement = False,
     contract_reference_ids = [], header_ref_docs = [], trade_products = [], line_prices = [] \<rparr>"

section \<open>Names and helpers\<close>

definition NS_RSM :: string where
  "NS_RSM = ''urn:un:unece:uncefact:data:standard:CrossIndustryInvoice:100''"

definition NS_RAM :: string where
  "NS_RAM = ''urn:un:unece:uncefact:data:standard:ReusableAggregateBusinessInformationEntity:100''"

definition NS_UDT :: string where
  "NS_UDT = ''urn:un:unece:uncefact:data:standard:UnqualifiedDataType:100''"

definition rsm :: "string \<Rightarrow> pystr" where "rsm n = qname NS_RSM n"

definition ram :: "string \<Rightarrow> pystr" where "ram n = qname NS_RAM n"

definition udt :: "string \<Rightarrow> pystr" where "udt n = qname NS_UDT n"

lemma cii_qname_simps [simp, xml_simps]:
  "ram a = ram b \<longleftrightarrow> a = b" "rsm a = rsm b \<longleftrightarrow> a = b" "udt a = udt b \<longleftrightarrow> a = b"
  "ram a \<noteq> rsm b" "rsm a \<noteq> ram b" "ram a \<noteq> udt b" "udt a \<noteq> ram b" "rsm a \<noteq> udt b" "udt a \<noteq> rsm b"
  unfolding ram_def rsm_def udt_def
  by (subst qname_eq_iff; simp add: NS_RAM_def NS_RSM_def NS_UDT_def)+

definition norm_texts :: "xml list \<Rightarrow> pystr list" where
  "norm_texts es = map (\<lambda>e. norm_or (text_of (Some e))) es"

text \<open>\<open>el.text or ""\<close>.\<close>

definition texts :: "xml list \<Rightarrow> pystr list" where
  "texts es = map (\<lambda>e. or_empty (xtext e)) es"

text \<open>\<open>str.isdigit\<close>: the decimal digits and the digits without decimal value, such as the
  superscripts.\<close>

definition py_isdigit :: "pystr \<Rightarrow> bool" where
  "py_isdigit s \<longleftrightarrow> s \<noteq> [] \<and> list_all (\<lambda>c. is_digit c \<or> list_ex (\<lambda>(lo, hi). lo \<le> c \<and> c \<le> hi)
     [(178, 179), (185, 185), (4969, 4977), (6618, 6618), (8304, 8304), (8308, 8313), (8320, 8329),
      (9312, 9320), (9332, 9340), (9352, 9360), (9450, 9450), (9461, 9469), (9471, 9471),
      (10102, 10110), (10112, 10120), (10122, 10130), (68160, 68163), (69216, 69224),
      (69714, 69722), (127232, 127242)]) s"

definition not_a_102_date :: pystr where
  "not_a_102_date = ascii ''not-a-102-date''"

text \<open>\<open>_period_bound\<close>: absent, the ISO form of an eight digit date, or a text that is no date.\<close>

definition period_bound :: "string \<Rightarrow> xml \<Rightarrow> text_opt" where
  "period_bound which period_el =
     (case xfind [ram which] period_el of
        None \<Rightarrow> None
      | Some bound_el \<Rightarrow> (case xfind [udt ''DateTimeString''] bound_el of
          Some dts \<Rightarrow>
            if xget ''format'' dts = Some (ascii ''102'') then
              (let t = py_strip (or_empty (xtext dts))
               in if length t = 8 \<and> py_isdigit t
                  then Some (take 4 t @ 45 # take 2 (drop 4 t) @ 45 # drop 6 t)
                  else if t \<noteq> [] then Some t else Some not_a_102_date)
            else Some not_a_102_date
        | None \<Rightarrow> Some not_a_102_date))"

definition cii_period :: "xml \<Rightarrow> period" where
  "cii_period p = \<lparr> period_start = period_bound ''StartDateTime'' p,
                    period_end = period_bound ''EndDateTime'' p \<rparr>"

definition cii_indicator :: "xml \<Rightarrow> text_opt" where
  "cii_indicator ac_el =
     norm_opt (text_of (xfind [ram ''ChargeIndicator'', udt ''Indicator''] ac_el))"

definition cii_scheme :: "xml \<Rightarrow> text_opt" where
  "cii_scheme e = norm_opt (text_of (xfind [ram ''TypeCode''] e))"

definition build_trade_tax_subtotal :: "xml \<Rightarrow> tax_subtotal" where
  "build_trade_tax_subtotal tt_el =
     (let ca_el = xfind [ram ''CalculatedAmount''] tt_el; ba_el = xfind [ram ''BasisAmount''] tt_el
      in new_subtotal\<lparr>
        st_tax_amount := text_of ca_el, tax_amount_raw := rawtext ca_el,
        taxable_amount := text_of ba_el, taxable_amount_raw := rawtext ba_el,
        category_id := text_of (xfind [ram ''CategoryCode''] tt_el),
        category_id_raw := rawtext (xfind [ram ''CategoryCode''] tt_el),
        percent := text_of (xfind [ram ''RateApplicablePercent''] tt_el),
        category_scheme_id := upper_opt (cii_scheme tt_el),
        has_exemption_reason := (xfind [ram ''ExemptionReason''] tt_el \<noteq> None),
        has_exemption_reason_code := (xfind [ram ''ExemptionReasonCode''] tt_el \<noteq> None) \<rparr>)"

definition build_trade_tax_category :: "xml \<Rightarrow> item_tax_category" where
  "build_trade_tax_category cat_el = \<lparr>
     cat_id = norm_opt (text_of (xfind [ram ''CategoryCode''] cat_el)),
     cat_scheme_id = upper_opt (cii_scheme cat_el),
     cat_percent = text_of (xfind [ram ''RateApplicablePercent''] cat_el),
     cat_raw_id = rawtext (xfind [ram ''CategoryCode''] cat_el) \<rparr>"

definition build_doc_allowance_charge :: "xml \<Rightarrow> allowance_charge" where
  "build_doc_allowance_charge ac_el =
     (let ind = cii_indicator ac_el; amount_el = xfind [ram ''ActualAmount''] ac_el;
          cats = xfindall [ram ''CategoryTradeTax''] ac_el
      in new_allowance_charge\<lparr>
        is_charge := (if is_true ind then Some True else if is_false ind then Some False else None),
        has_amount := (amount_el \<noteq> None),
        amount_raw := rawtext amount_el,
        base_amount_raw := rawtext (xfind [ram ''BasisAmount''] ac_el),
        has_vat_category_id :=
          list_ex (\<lambda>c. is_vat (cii_scheme c) \<and> xfind [ram ''CategoryCode''] c \<noteq> None) cats,
        tax_categories := map build_trade_tax_category cats,
        has_reason := (xfind [ram ''Reason''] ac_el \<noteq> None \<or>
          xfind [ram ''ReasonCode''] ac_el \<noteq> None) \<rparr>)"

text \<open>\<open>_has_tax_reg\<close> and \<open>_has_tax_reg_nonempty\<close>; only the latter normalises the scheme.\<close>

definition tax_reg_ids :: "xml \<Rightarrow> xml list" where
  "tax_reg_ids party_el = xfindall [ram ''SpecifiedTaxRegistration'', ram ''ID''] party_el"

definition has_tax_reg :: "string list \<Rightarrow> xml \<Rightarrow> bool" where
  "has_tax_reg schemes party_el \<longleftrightarrow>
     list_ex (\<lambda>i. list_ex (\<lambda>s. xget ''schemeID'' i = Some (ascii s)) schemes) (tax_reg_ids party_el)"

definition has_tax_reg_nonempty :: "string list \<Rightarrow> xml \<Rightarrow> bool" where
  "has_tax_reg_nonempty schemes party_el \<longleftrightarrow>
     list_ex (\<lambda>i. list_ex (\<lambda>s. norm_opt (xget ''schemeID'' i) = Some (ascii s)) schemes \<and>
       py_strip (or_empty (xtext i)) \<noteq> []) (tax_reg_ids party_el)"

section \<open>Code-list inputs\<close>

definition settle_path :: "pystr list" where
  "settle_path = [rsm ''SupplyChainTradeTransaction'', ram ''ApplicableHeaderTradeSettlement'']"

definition cii_reason_codes :: "bool \<Rightarrow> xml \<Rightarrow> pystr list" where
  "cii_reason_codes charge doc =
     [c. ac_el \<leftarrow> xdesc [ram ''SpecifiedTradeAllowanceCharge''] doc,
         (if charge then is_true (cii_indicator ac_el)
          else \<not> is_true (cii_indicator ac_el) \<and> is_false (cii_indicator ac_el)),
         c \<leftarrow> norm_texts (xfindall [ram ''ReasonCode''] ac_el)]"

text \<open>The raw category codes of every VAT row below a settlement.\<close>

definition trade_tax_code_rows :: "string \<Rightarrow> xml \<Rightarrow> pystr list list" where
  "trade_tax_code_rows settlement doc =
     map (\<lambda>tt. map strval (xfindall [ram ''CategoryCode''] tt))
       (xdesc [ram settlement, ram ''ApplicableTradeTax''] doc)"

definition first_desc :: "pystr list \<Rightarrow> xml \<Rightarrow> xml option" where
  "first_desc path doc = first (xdesc path doc)"

definition cii_codes :: "xml \<Rightarrow> cii_invoice \<Rightarrow> cii_invoice" where
  "cii_codes doc iv = iv\<lparr>
     root_is_cii_invoice := root_is NS_RSM ''CrossIndustryInvoice'' doc,
     root_is_ubl_invoice := False,
     inv_syntax := CII,
     tax_currency_code := norm_opt (text_of (first_desc [ram ''TaxCurrencyCode''] doc)),
     amount_currency_ids := norm_attrs ''currencyID'' (xdesc [ram ''TaxTotalAmount''] doc),
     item_class_list_ids := norm_attrs ''listID'' (xdesc [ram ''ClassCode''] doc),
     country_codes := norm_texts (xdesc [ram ''CountryID''] doc),
     origin_country_codes := norm_texts (xdesc [ram ''OriginTradeCountry'', ram ''ID''] doc),
     vat_point_date_codes := norm_texts (xdesc [ram ''DueDateTypeCode''] doc),
     object_ref_scheme_codes := norm_texts (xdesc [ram ''ReferenceTypeCode''] doc),
     subject_codes := norm_texts (xdesc [ram ''SubjectCode''] doc),
     tax_category_ids_raw := map strval (xdesc [ram ''CategoryTradeTax'', ram ''CategoryCode''] doc),
     classified_category_ids_raw :=
       map strval (xdesc [ram ''ApplicableTradeTax'', ram ''CategoryCode''] doc),
     all_country_codes_raw := map strval (xdesc [ram ''CountryID''] doc),
     cii_header_trade_tax_code_rows := trade_tax_code_rows ''ApplicableHeaderTradeSettlement'' doc,
     cii_line_trade_tax_code_rows := trade_tax_code_rows ''SpecifiedLineTradeSettlement'' doc,
     taxcategory_id_codes := norm_texts (xdesc [ram ''CategoryTradeTax'', ram ''CategoryCode''] doc),
     classified_tax_category_codes :=
       norm_texts (xdesc [ram ''ApplicableTradeTax'', ram ''CategoryCode''] doc),
     tax_exemption_reason_codes := map py_upper (norm_texts (xdesc [ram ''ExemptionReasonCode''] doc)),
     unit_codes := [u. t \<leftarrow> [''BasisQuantity'', ''BilledQuantity''],
         u \<leftarrow> norm_attrs ''unitCode'' (xdesc [ram t] doc)],
     payment_means_codes := norm_texts
       (xdesc [ram ''SpecifiedTradeSettlementPaymentMeans'', ram ''TypeCode''] doc),
     charge_reason_codes := charge_reason_codes iv @ cii_reason_codes True doc,
     allowance_reason_codes := allowance_reason_codes iv @ cii_reason_codes False doc,
     item_std_id_scheme_ids := norm_attrs ''schemeID''
       (xdesc [ram ''SpecifiedTradeProduct'', ram ''GlobalID''] doc),
     mime_codes := raw_attrs ''mimeCode'' (xdesc [ram ''AttachmentBinaryObject''] doc) \<rparr>"

section \<open>References, parties and payment\<close>

definition non_blank :: "xml option \<Rightarrow> bool" where
  "non_blank e \<longleftrightarrow> (case e of None \<Rightarrow> False | Some x \<Rightarrow> norm_space (strval x) \<noteq> [])"

text \<open>\<open>xs and bool(_norm_space(xs[0].get(key) or ""))\<close>, one verdict when there is an element.\<close>

definition first_attr_ok :: "string \<Rightarrow> xml list \<Rightarrow> bool list" where
  "first_attr_ok key es =
     (case es of [] \<Rightarrow> [] | e # _ \<Rightarrow> [norm_space (or_empty (xget key e)) \<noteq> []])"

definition taxtotals_of :: "xml \<Rightarrow> xml list" where
  "taxtotals_of summ = xfindall [ram ''TaxTotalAmount''] summ"

definition summations :: "xml \<Rightarrow> xml list" where
  "summations doc = xdesc [ram ''SpecifiedTradeSettlementHeaderMonetarySummation''] doc"

definition cii_taxrep :: "cii_invoice \<Rightarrow> xml \<Rightarrow> cii_invoice" where
  "cii_taxrep iv trp_el =
     (let va_ids = filter (\<lambda>i. xget ''schemeID'' i = Some (ascii ''VA'')) (tax_reg_ids trp_el)
      in iv\<lparr>
        taxrep_vat_ids_ok := taxrep_vat_ids_ok iv @ [non_blank (first va_ids)],
        tax_representatives := tax_representatives iv @ [\<lparr>
          taxrep_name = map_option strval (xfind [ram ''Name''] trp_el),
          taxrep_has_postal_address = (xfind [ram ''PostalTradeAddress''] trp_el \<noteq> None) \<rparr>],
        taxrep_postal_addresses := taxrep_postal_addresses iv @
          [map_option strval (xfind [ram ''PostalTradeAddress'', ram ''CountryID''] trp_el)] \<rparr>)"

definition billing_periods :: "string \<Rightarrow> xml \<Rightarrow> xml list" where
  "billing_periods settlement doc = xdesc [ram settlement, ram ''BillingSpecifiedPeriod''] doc"

definition cii_period_filled :: "xml \<Rightarrow> bool" where
  "cii_period_filled p \<longleftrightarrow>
     xfind [ram ''StartDateTime''] p \<noteq> None \<or> xfind [ram ''EndDateTime''] p \<noteq> None"

text \<open>The payees, with the sellers below their grandparent.\<close>

definition build_cii_payee :: "xml \<Rightarrow> xml list \<Rightarrow> payee_party" where
  "build_cii_payee el up =
     (let seller = (\<lambda>p. case up of
            _ # gp # _ \<Rightarrow> map strval (xfindall ([ram ''ApplicableHeaderTradeAgreement'',
              ram ''SellerTradeParty''] @ p) gp)
          | _ \<Rightarrow> [])
      in \<lparr> payee_names = map strval (xfindall [ram ''Name''] el),
           payee_ids = map strval (xfindall [ram ''ID''] el),
           payee_seller_names = seller [ram ''Name''],
           payee_seller_ids = seller [ram ''ID''],
           payee_legal_ids = map strval (xfindall [ram ''SpecifiedLegalOrganization'', ram ''ID''] el),
           payee_seller_legal_ids = seller [ram ''SpecifiedLegalOrganization'', ram ''ID''] \<rparr>)"

definition cii_seller_identified :: "xml \<Rightarrow> bool" where
  "cii_seller_identified s \<longleftrightarrow> xfind [ram ''ID''] s \<noteq> None \<or> xfind [ram ''GlobalID''] s \<noteq> None \<or>
     xfind [ram ''SpecifiedLegalOrganization'', ram ''ID''] s \<noteq> None \<or> has_tax_reg [''VA''] s"

definition cii_refs :: "xml \<Rightarrow> cii_invoice \<Rightarrow> cii_invoice" where
  "cii_refs doc iv =
     (let iv1 = iv\<lparr>
        supporting_doc_refs := supporting_doc_refs iv @
          [(case xfind [ram ''IssuerAssignedID''] r of None \<Rightarrow> [] | Some i \<Rightarrow> norm_space (strval i)).
             r \<leftarrow> xdesc [ram ''AdditionalReferencedDocument''] doc],
        tax_currency_codes_raw := map strval (xfindall (settle_path @ [ram ''TaxCurrencyCode'']) doc),
        cii_invoice_currency_codes_raw :=
          map strval (xfindall (settle_path @ [ram ''InvoiceCurrencyCode'']) doc),
        cii_summation_taxtotal_currencies :=
          map (\<lambda>s. raw_attrs ''currencyID'' (taxtotals_of s)) (summations doc),
        cii_summation_taxtotals :=
          map (\<lambda>s. map (\<lambda>t. (xget ''currencyID'' t, strval t)) (taxtotals_of s)) (summations doc),
        item_attributes := item_attributes iv @
          [(xfind [ram ''Description''] p \<noteq> None, xfind [ram ''Value''] p \<noteq> None).
             p \<leftarrow> xdesc [ram ''ApplicableProductCharacteristic''] doc] \<rparr>;
        iv2 = foldl cii_taxrep iv1 (xdesc [ram ''SellerTaxRepresentativeTradeParty''] doc)
      in iv2\<lparr>
        item_std_ids_scheme_ok := item_std_ids_scheme_ok iv2 @
          [b. l \<leftarrow> xdesc [ram ''IncludedSupplyChainTradeLineItem''] doc,
              b \<leftarrow> first_attr_ok ''schemeID''
                     (xfindall [ram ''SpecifiedTradeProduct'', ram ''GlobalID''] l)],
        item_class_ids_scheme_ok := item_class_ids_scheme_ok iv2 @
          [b. d \<leftarrow> xdesc [ram ''DesignatedProductClassification''] doc,
              b \<leftarrow> first_attr_ok ''listID'' (xfindall [ram ''ClassCode''] d)],
        has_tax_point_date := (first_desc [ram ''TaxPointDate''] doc \<noteq> None),
        has_tax_point_date_code := (first_desc [ram ''DueDateTypeCode''] doc \<noteq> None),
        vat_id_prefixes := vat_id_prefixes iv2 @
          [take 2 (strval i). i \<leftarrow> xdesc [ram ''SpecifiedTaxRegistration'', ram ''ID''] doc,
             xget ''schemeID'' i = Some (ascii ''VA'')],
        invoice_period_filled := invoice_period_filled iv2 @
          map cii_period_filled (billing_periods ''ApplicableHeaderTradeSettlement'' doc),
        line_period_filled := line_period_filled iv2 @
          map cii_period_filled (billing_periods ''SpecifiedLineTradeSettlement'' doc),
        invoice_periods := invoice_periods iv2 @
          map cii_period (billing_periods ''ApplicableHeaderTradeSettlement'' doc),
        payee_parties := payee_parties iv2 @
          [build_cii_payee el up. (el, up) \<leftarrow> iter_up [] doc, xtag el = ram ''PayeeTradeParty''],
        seller_identification_ok := seller_identification_ok iv2 @
          map cii_seller_identified (xdesc [ram ''SellerTradeParty''] doc) \<rparr>)"

text \<open>An account: \<open>None\<close> without an identifier, else the first of the two that is not blank.\<close>

definition account_id :: "xml \<Rightarrow> text_opt" where
  "account_id acct_el =
     (let iban_el = xfind [ram ''IBANID''] acct_el; prop_el = xfind [ram ''ProprietaryID''] acct_el;
          txt = (\<lambda>e. case e of None \<Rightarrow> [] | Some x \<Rightarrow> norm_space (strval x))
      in if iban_el = None \<and> prop_el = None then None
         else Some (if txt iban_el \<noteq> [] then txt iban_el else txt prop_el))"

definition build_cii_payment_means :: "xml \<Rightarrow> payment_means_group" where
  "build_cii_payment_means pm_el =
     (let codes_raw = map strval (xfindall [ram ''TypeCode''] pm_el);
          ids = map account_id (xfindall [ram ''PayeePartyCreditorFinancialAccount''] pm_el)
      in \<lparr> pm_has_code = (codes_raw \<noteq> []),
           pm_code_norm = (case codes_raw of [] \<Rightarrow> [] | c # _ \<Rightarrow> norm_space c),
           pm_codes_raw = codes_raw,
           pm_has_account_id = list_ex (\<lambda>i. i \<noteq> None) ids,
           pm_account_first_ids = ids \<rparr>)"

definition delivery_path :: "pystr list" where
  "delivery_path = [rsm ''SupplyChainTradeTransaction'', ram ''ApplicableHeaderTradeDelivery'']"

definition shipto_country :: "pystr list" where
  "shipto_country = [ram ''ShipToTradeParty'', ram ''PostalTradeAddress'', ram ''CountryID'']"

text \<open>The endpoint verdict of one party: its first address only.\<close>

definition party_endpoint :: "string \<Rightarrow> xml \<Rightarrow> bool list" where
  "party_endpoint party doc =
     (case xfind [rsm ''SupplyChainTradeTransaction'', ram ''ApplicableHeaderTradeAgreement'',
                  ram party] doc of
        None \<Rightarrow> []
      | Some p \<Rightarrow> (case xfindall [ram ''URIUniversalCommunication''] p of
          [] \<Rightarrow> []
        | u # _ \<Rightarrow> [norm_space (or_empty (case xfind [ram ''URIID''] u of
            None \<Rightarrow> None | Some i \<Rightarrow> xget ''schemeID'' i)) \<noteq> []]))"

definition cii_payment :: "xml \<Rightarrow> cii_invoice \<Rightarrow> cii_invoice" where
  "cii_payment doc iv = iv\<lparr>
     payment_means := payment_means iv @
       map build_cii_payment_means (xdesc [ram ''SpecifiedTradeSettlementPaymentMeans''] doc),
     card_pans := card_pans iv @
       [(case xfind [ram ''ID''] c of None \<Rightarrow> [] | Some i \<Rightarrow> strval i).
          c \<leftarrow> xdesc [ram ''ApplicableTradeSettlementFinancialCard''] doc],
     billing_references := billing_references iv @
       map (\<lambda>r. non_blank (xfind [ram ''IssuerAssignedID''] r))
         (xfindall (settle_path @ [ram ''InvoiceReferencedDocument'']) doc),
     delivery_addresses := delivery_addresses iv @
       [non_blank (xfind shipto_country d). d \<leftarrow> xfindall delivery_path doc,
          xfindall [ram ''ShipToTradeParty'', ram ''PostalTradeAddress''] d \<noteq> []],
     cii_delivery_datetime_string_present :=
       (xfind (delivery_path @ [ram ''ActualDeliverySupplyChainEvent'', ram ''OccurrenceDateTime'',
          udt ''DateTimeString'']) doc \<noteq> None),
     cii_billing_period_start_present :=
       (xfind (settle_path @ [ram ''BillingSpecifiedPeriod'', ram ''StartDateTime'']) doc \<noteq> None),
     cii_billing_period_end_present :=
       (xfind (settle_path @ [ram ''BillingSpecifiedPeriod'', ram ''EndDateTime'']) doc \<noteq> None),
     cii_shipto_country_id_present := (xfind (delivery_path @ shipto_country) doc \<noteq> None),
     seller_endpoints := seller_endpoints iv @ party_endpoint ''SellerTradeParty'' doc,
     buyer_endpoints := buyer_endpoints iv @ party_endpoint ''BuyerTradeParty'' doc \<rparr>"

section \<open>The transaction\<close>

definition cii_header :: "xml \<Rightarrow> cii_invoice \<Rightarrow> cii_invoice" where
  "cii_header doc iv =
     (let iv1 = iv\<lparr> customization_id := text_of (xfind [rsm ''ExchangedDocumentContext'',
            ram ''GuidelineSpecifiedDocumentContextParameter'', ram ''ID''] doc) \<rparr>
      in case xfind [rsm ''ExchangedDocument''] doc of
           None \<Rightarrow> iv1
         | Some d \<Rightarrow> iv1\<lparr>
             inv_id := text_of (xfind [ram ''ID''] d),
             invoice_type_code := text_of (xfind [ram ''TypeCode''] d),
             issue_date := text_of (xfind [ram ''IssueDateTime'', udt ''DateTimeString''] d) \<rparr>)"

text \<open>\<open>x = el.find(p)\<close>, then \<open>if x is not None: f\<close>.\<close>

definition with_child :: "string \<Rightarrow> xml \<Rightarrow> (xml \<Rightarrow> 'a \<Rightarrow> 'a) \<Rightarrow> 'a \<Rightarrow> 'a" where
  "with_child n e f iv = (case xfind [ram n] e of None \<Rightarrow> iv | Some x \<Rightarrow> f x iv)"

definition cii_seller :: "xml \<Rightarrow> cii_invoice \<Rightarrow> cii_invoice" where
  "cii_seller seller iv = iv\<lparr>
     seller_name := text_of (xfind [ram ''Name''] seller),
     seller_has_postal_address := (xfind [ram ''PostalTradeAddress''] seller \<noteq> None),
     seller_country_code :=
       norm_opt (text_of (xfind [ram ''PostalTradeAddress'', ram ''CountryID''] seller)),
     seller_has_party_tax_scheme_company_id := has_tax_reg [''VA'', ''FC''] seller,
     seller_has_vat_scheme_company_id := has_tax_reg [''VA''] seller \<rparr>"

definition cii_buyer :: "xml \<Rightarrow> cii_invoice \<Rightarrow> cii_invoice" where
  "cii_buyer buyer iv = iv\<lparr>
     buyer_name := text_of (xfind [ram ''Name''] buyer),
     buyer_has_postal_address := (xfind [ram ''PostalTradeAddress''] buyer \<noteq> None),
     buyer_country_code :=
       norm_opt (text_of (xfind [ram ''PostalTradeAddress'', ram ''CountryID''] buyer)),
     buyer_has_vat_scheme_company_id := has_tax_reg [''VA''] buyer,
     buyer_has_legal_entity_company_id :=
       (xfind [ram ''SpecifiedLegalOrganization'', ram ''ID''] buyer \<noteq> None) \<rparr>"

definition cii_agreement :: "xml \<Rightarrow> cii_invoice \<Rightarrow> cii_invoice" where
  "cii_agreement agreement iv =
     (with_child ''BuyerTradeParty'' agreement cii_buyer \<circ>
      with_child ''SellerTaxRepresentativeTradeParty'' agreement
        (\<lambda>t iv. iv\<lparr> taxrep_has_vat_company_id := has_tax_reg [''VA''] t \<rparr>) \<circ>
      with_child ''SellerTradeParty'' agreement cii_seller)
     (iv\<lparr> buyer_reference := text_of (xfind [ram ''BuyerReference''] agreement) \<rparr>)"

definition CII_LMT_NAMES :: "(string \<times> string) list" where
  "CII_LMT_NAMES = [
     (''LineExtensionAmount'', ''LineTotalAmount''),
     (''AllowanceTotalAmount'', ''AllowanceTotalAmount''),
     (''ChargeTotalAmount'', ''ChargeTotalAmount''),
     (''TaxExclusiveAmount'', ''TaxBasisTotalAmount''),
     (''TaxInclusiveAmount'', ''GrandTotalAmount''),
     (''PrepaidAmount'', ''TotalPrepaidAmount''),
     (''PayableRoundingAmount'', ''RoundingAmount''),
     (''PayableAmount'', ''DuePayableAmount'')]"

definition cii_summation :: "xml \<Rightarrow> cii_invoice \<Rightarrow> cii_invoice" where
  "cii_summation summ iv =
     (let txt = (\<lambda>n. text_of (xfind [ram n] summ)); tta_el = xfind [ram ''TaxTotalAmount''] summ
      in iv\<lparr>
        has_header_monetary_summation := True,
        has_legal_monetary_total := True,
        line_extension_total := txt ''LineTotalAmount'',
        allowance_total := txt ''AllowanceTotalAmount'',
        charge_total := txt ''ChargeTotalAmount'',
        tax_exclusive_amount := txt ''TaxBasisTotalAmount'',
        tax_total_amount := text_of tta_el,
        tax_total_amount_currency := (case tta_el of
          None \<Rightarrow> tax_total_amount_currency iv | Some e \<Rightarrow> xget ''currencyID'' e),
        cii_doc_currency_tax_total_values :=
          [text_of (Some e). e \<leftarrow> taxtotals_of summ,
             xget ''currencyID'' e = document_currency_code iv \<and> document_currency_code iv \<noteq> None],
        tax_inclusive_amount := txt ''GrandTotalAmount'',
        prepaid_amount := txt ''TotalPrepaidAmount'',
        payable_rounding_amount := txt ''RoundingAmount'',
        payable_amount := txt ''DuePayableAmount'',
        lmt_raw := lmt_raw iv ++
          map_of (map (\<lambda>(u, c). (u, rawtext (xfind [ram c] summ))) CII_LMT_NAMES) \<rparr>)"

definition cii_settlement :: "xml \<Rightarrow> cii_invoice \<Rightarrow> cii_invoice" where
  "cii_settlement settlement iv =
     (let iv1 = with_child ''SpecifiedTradeSettlementHeaderMonetarySummation'' settlement cii_summation
            (iv\<lparr> document_currency_code :=
               text_of (xfind [ram ''InvoiceCurrencyCode''] settlement) \<rparr>);
          breakdown = map build_trade_tax_subtotal (xfindall [ram ''ApplicableTradeTax''] settlement);
          acs = xfindall [ram ''SpecifiedTradeAllowanceCharge''] settlement
      in iv1\<lparr>
        all_tax_subtotals := breakdown,
        tax_totals := (if breakdown \<noteq> [] \<or> tax_total_amount iv1 \<noteq> None
          then [\<lparr> tt_tax_amount = tax_total_amount iv1,
                  tax_amount_currency = tax_total_amount_currency iv1, subtotals = breakdown \<rparr>]
          else tax_totals iv1),
        doc_allowance_charge_category_ids := doc_allowance_charge_category_ids iv1 @
          [c. ac_el \<leftarrow> acs,
              Some c \<leftarrow> [text_of (xfind [ram ''CategoryTradeTax'', ram ''CategoryCode''] ac_el)]],
        doc_allowance_charges := doc_allowance_charges iv1 @ map build_doc_allowance_charge acs \<rparr>)"

definition cii_line :: "nat \<Rightarrow> xml \<Rightarrow> invoice_line" where
  "cii_line i ln_el =
     (let sls = ram ''SpecifiedLineTradeSettlement''; sla = ram ''SpecifiedLineTradeAgreement'';
          qty_path = [ram ''SpecifiedLineTradeDelivery'', ram ''BilledQuantity''];
          lea_el = xfind [sls, ram ''SpecifiedTradeSettlementLineMonetarySummation'',
                          ram ''LineTotalAmount''] ln_el;
          gross = xfind [sla, ram ''GrossPriceProductTradePrice'', ram ''ChargeAmount''] ln_el;
          cats = xfindall [sls, ram ''ApplicableTradeTax''] ln_el
      in (new_line i)\<lparr>
        line_syntax := CII,
        has_line_billing_period := (xfind [sls, ram ''BillingSpecifiedPeriod''] ln_el \<noteq> None),
        periods := map cii_period (xfindall [sls, ram ''BillingSpecifiedPeriod''] ln_el),
        line_id := text_of (xfind [ram ''AssociatedDocumentLineDocument'', ram ''LineID''] ln_el),
        quantity := text_of (xfind qty_path ln_el),
        has_quantity_unit_code := list_ex (has_attr ''unitCode'') (xfindall qty_path ln_el),
        line_extension_amount := text_of lea_el,
        line_extension_amount_raw := rawtext lea_el,
        price_amount :=
          text_of (xfind [sla, ram ''NetPriceProductTradePrice'', ram ''ChargeAmount''] ln_el),
        price_base_amounts := (case gross of None \<Rightarrow> [] | Some g \<Rightarrow> [or_empty (text_of (Some g))]),
        item_name := text_of (xfind [ram ''SpecifiedTradeProduct'', ram ''Name''] ln_el),
        tax_category_ids :=
          [c. e \<leftarrow> cats, Some c \<leftarrow> [norm_opt (text_of (xfind [ram ''CategoryCode''] e))]],
        item_tax_categories := map build_trade_tax_category cats,
        line_allowance_charges := map build_doc_allowance_charge
          (xfindall [sls, ram ''SpecifiedTradeAllowanceCharge''] ln_el) \<rparr>)"

definition cii_lines :: "xml \<Rightarrow> cii_invoice \<Rightarrow> cii_invoice" where
  "cii_lines txn iv = iv\<lparr> inv_lines := inv_lines iv @ map (\<lambda>(i, e). cii_line i e)
     (enumerate 1 (xfindall [ram ''IncludedSupplyChainTradeLineItem''] txn)) \<rparr>"

definition cii_transaction :: "xml \<Rightarrow> cii_invoice \<Rightarrow> cii_invoice" where
  "cii_transaction doc iv =
     (case xfind [rsm ''SupplyChainTradeTransaction''] doc of
        None \<Rightarrow> iv
      | Some txn \<Rightarrow> (cii_lines txn \<circ>
          with_child ''ApplicableHeaderTradeSettlement'' txn cii_settlement \<circ>
          with_child ''ApplicableHeaderTradeAgreement'' txn cii_agreement) iv)"

section \<open>The German surface\<close>

text \<open>The attachments of the sibling references of every element.\<close>

definition attachment_groups :: "xml \<Rightarrow> text_opt list list list" where
  "attachment_groups doc =
     [g. parent \<leftarrow> iter doc,
         g \<leftarrow> [map (\<lambda>c. map (xget ''filename'') (children_named (ram ''AttachmentBinaryObject'') c))
                 (children_named (ram ''AdditionalReferencedDocument'') parent)],
         g \<noteq> []]"

definition cii_schemes :: "pystr \<Rightarrow> (xml list \<Rightarrow> bool) \<Rightarrow> xml \<Rightarrow> pystr list" where
  "cii_schemes t ok doc =
     [s. (e, up) \<leftarrow> iter_up [] doc, xtag e = t, Some s \<leftarrow> [xget ''schemeID'' e], ok up]"

definition under_product :: "xml list \<Rightarrow> bool" where
  "under_product up \<longleftrightarrow> parent_tag up = Some (ram ''SpecifiedTradeProduct'')"

definition under_header_shipto :: "xml list \<Rightarrow> bool" where
  "under_header_shipto up \<longleftrightarrow> parent_tag up = Some (ram ''ShipToTradeParty'') \<and>
     parent_tag (drop 1 up) = Some (ram ''ApplicableHeaderTradeDelivery'')"

definition no_ancestor :: "string list \<Rightarrow> xml list \<Rightarrow> bool" where
  "no_ancestor names up \<longleftrightarrow> \<not> list_ex (\<lambda>a. list_ex (\<lambda>n. xtag a = ram n) names) up"

definition cii_ext :: "xml \<Rightarrow> cii_invoice \<Rightarrow> cii_invoice" where
  "cii_ext doc iv =
     (let generic = cii_schemes (ram ''GlobalID'')
            (no_ancestor [''SpecifiedTradeProduct'', ''ShipToTradeParty'']) doc;
          shipto = cii_schemes (ram ''GlobalID'') (\<lambda>up. \<not> under_product up \<and> under_header_shipto up) doc;
          ids = cii_schemes (ram ''ID'') (no_ancestor [''SpecifiedTaxRegistration'']) doc;
          uris = cii_schemes (ram ''URIID'')
            (\<lambda>up. parent_tag up = Some (ram ''URIUniversalCommunication'')) doc
      in iv\<lparr>
        guideline_ids := guideline_ids iv @ texts (xfindall [rsm ''ExchangedDocumentContext'',
          ram ''GuidelineSpecifiedDocumentContextParameter'', ram ''ID''] doc),
        has_parent_line_id := (iter_tag (ram ''ParentLineID'') doc \<noteq> []),
        additional_ref_doc_attachments := additional_ref_doc_attachments iv @ attachment_groups doc,
        ext_attachment_mime_codes := ext_attachment_mime_codes iv @
          map (xget ''mimeCode'') (iter_tag (ram ''AttachmentBinaryObject'') doc),
        ext_product_global_id_schemes := ext_product_global_id_schemes iv @
          cii_schemes (ram ''GlobalID'') under_product doc,
        ext_ship_to_global_id_schemes := ext_ship_to_global_id_schemes iv @ shipto,
        delivery_location_scheme_ids := delivery_location_scheme_ids iv @ map norm_space shipto,
        ext_generic_global_id_schemes := ext_generic_global_id_schemes iv @ generic,
        party_id_scheme_ids := party_id_scheme_ids iv @ map (\<lambda>s. (norm_space s, False)) generic,
        ext_id_schemes := ext_id_schemes iv @ ids,
        party_legal_scheme_ids := party_legal_scheme_ids iv @ map norm_space ids,
        ext_uri_id_schemes := ext_uri_id_schemes iv @ uris,
        endpoint_scheme_ids := endpoint_scheme_ids iv @ map norm_space uris \<rparr>)"

definition trade_product_of :: "xml \<Rightarrow> cii_trade_product option" where
  "trade_product_of ln_el = map_option (\<lambda>p. \<lparr>
     class_codes = map (\<lambda>cc. \<lparr> cc_list_id = xget ''listID'' cc, cc_value = or_empty (xtext cc) \<rparr>)
       (xfindall [ram ''DesignatedProductClassification'', ram ''ClassCode''] p),
     characteristics = map (\<lambda>ch. \<lparr>
         descriptions = texts (xfindall [ram ''Description''] ch),
         ch_values = texts (xfindall [ram ''Value''] ch) \<rparr>)
       (xfindall [ram ''ApplicableProductCharacteristic''] p) \<rparr>)
     (xfind [ram ''SpecifiedTradeProduct''] ln_el)"

definition price_quantities_of :: "xml \<Rightarrow> cii_price_quantities" where
  "price_quantities_of ln_el =
     (let q = (\<lambda>t. case xfind [ram ''SpecifiedLineTradeAgreement''] ln_el of
            None \<Rightarrow> []
          | Some a \<Rightarrow> map (\<lambda>b. (or_empty (xtext b), xget ''unitCode'' b))
              (xfindall [ram t, ram ''BasisQuantity''] a))
      in \<lparr> gross_basis_quantities = q ''GrossPriceProductTradePrice'',
           net_basis_quantities = q ''NetPriceProductTradePrice'' \<rparr>)"

definition cii_payment_means_of :: "xml \<Rightarrow> cii_payment_means" where
  "cii_payment_means_of pm =
     (let payer = xfind [ram ''PayerPartyDebtorFinancialAccount'', ram ''IBANID''] pm
      in \<lparr> type_code = map_option strval (xfind [ram ''TypeCode''] pm),
           has_payee_account = (xfind [ram ''PayeePartyCreditorFinancialAccount''] pm \<noteq> None),
           payee_iban =
             map_option strval (xfind [ram ''PayeePartyCreditorFinancialAccount'', ram ''IBANID''] pm),
           has_payer_iban = (payer \<noteq> None),
           payer_iban = map_option strval payer,
           has_card = (xfind [ram ''ApplicableTradeSettlementFinancialCard''] pm \<noteq> None),
           has_payee_institution =
             (xfind [ram ''PayeeSpecifiedCreditorFinancialInstitution''] pm \<noteq> None),
           has_payer_institution =
             (xfind [ram ''PayerSpecifiedDebtorFinancialInstitution''] pm \<noteq> None) \<rparr>)"

definition cii_de_lines :: "xml \<Rightarrow> cii_invoice \<Rightarrow> cii_invoice" where
  "cii_de_lines txn iv =
     (let ls = xfindall [ram ''IncludedSupplyChainTradeLineItem''] txn;
          ahts = ram ''ApplicableHeaderTradeSettlement''; terms = ram ''SpecifiedTradePaymentTerms''
      in iv\<lparr>
        has_supply_chain_transaction := True,
        has_assoc_document_line_document := (has_assoc_document_line_document iv \<or>
          list_ex (\<lambda>l. xfind [ram ''AssociatedDocumentLineDocument''] l \<noteq> None) ls),
        trade_products := trade_products iv @ map trade_product_of ls,
        line_prices := line_prices iv @ map price_quantities_of ls,
        has_direct_debit_mandate_id :=
          (xfind [ahts, terms, ram ''DirectDebitMandateID''] txn \<noteq> None),
        has_creditor_reference_id := (xfind [ahts, ram ''CreditorReferenceID''] txn \<noteq> None),
        payment_terms_descriptions := payment_terms_descriptions iv @
          [strval d. t \<leftarrow> xfindall [ahts, terms] txn, Some d \<leftarrow> [xfind [ram ''Description''] t]],
        settlement_payment_means := settlement_payment_means iv @ map cii_payment_means_of
          (xfindall [ahts, ram ''SpecifiedTradeSettlementPaymentMeans''] txn) \<rparr>)"

definition cii_de_settlement :: "xml \<Rightarrow> cii_invoice \<Rightarrow> cii_invoice" where
  "cii_de_settlement settlement iv = iv\<lparr>
     has_payment_means := (xfind [ram ''SpecifiedTradeSettlementPaymentMeans''] settlement \<noteq> None),
     has_invoice_referenced_document := (xfind [ram ''InvoiceReferencedDocument''] settlement \<noteq> None),
     has_billing_period := (xfind [ram ''BillingSpecifiedPeriod''] settlement \<noteq> None) \<rparr>"

definition cii_contact_of :: "xml \<Rightarrow> cii_contact" where
  "cii_contact_of c = \<lparr>
     person_name = rawtext (xfind [ram ''PersonName''] c),
     department_name = rawtext (xfind [ram ''DepartmentName''] c),
     telephone =
       rawtext (xfind [ram ''TelephoneUniversalCommunication'', ram ''CompleteNumber''] c),
     email = rawtext (xfind [ram ''EmailURIUniversalCommunication'', ram ''URIID''] c) \<rparr>"

definition cii_de_seller :: "xml \<Rightarrow> cii_invoice \<Rightarrow> cii_invoice" where
  "cii_de_seller seller iv =
     (let iv1 = iv\<lparr>
        seller_party_present := True,
        seller_has_defined_trade_contact := (xfind [ram ''DefinedTradeContact''] seller \<noteq> None) \<rparr>;
        iv2 = with_child ''PostalTradeAddress'' seller (\<lambda>addr iv. iv\<lparr>
          seller_city := rawtext (xfind [ram ''CityName''] addr),
          seller_post_code := rawtext (xfind [ram ''PostcodeCode''] addr) \<rparr>) iv1
      in iv2\<lparr>
        seller_defined_trade_contacts := seller_defined_trade_contacts iv2 @
          map cii_contact_of (xfindall [ram ''DefinedTradeContact''] seller),
        seller_vat_or_fc_id_present := has_tax_reg_nonempty [''VA'', ''FC''] seller \<rparr>)"

definition cii_de_agreement :: "xml \<Rightarrow> cii_invoice \<Rightarrow> cii_invoice" where
  "cii_de_agreement agreement iv =
     (with_child ''BuyerTradeParty'' agreement (\<lambda>b. with_child ''PostalTradeAddress'' b
        (\<lambda>addr iv. iv\<lparr>
          buyer_city := rawtext (xfind [ram ''CityName''] addr),
          buyer_post_code := rawtext (xfind [ram ''PostcodeCode''] addr) \<rparr>)) \<circ>
      with_child ''SellerTradeParty'' agreement cii_de_seller)
     (iv\<lparr>
        has_header_trade_agreement := True,
        contract_reference_ids := contract_reference_ids iv @
          texts (xfindall [ram ''ContractReferencedDocument'', ram ''IssuerAssignedID''] agreement),
        header_ref_docs := header_ref_docs iv @ map (\<lambda>d. \<lparr>
            type_codes = texts (xfindall [ram ''TypeCode''] d),
            issuer_ids = texts (xfindall [ram ''IssuerAssignedID''] d),
            uri_ids = texts (xfindall [ram ''URIID''] d) \<rparr>)
          (xfindall [ram ''AdditionalReferencedDocument''] agreement),
        has_tax_representative :=
          (xfind [ram ''SellerTaxRepresentativeTradeParty''] agreement \<noteq> None) \<rparr>)"

definition cii_de_delivery :: "xml \<Rightarrow> cii_invoice \<Rightarrow> cii_invoice" where
  "cii_de_delivery delivery iv = iv\<lparr>
     shipto_postal_addresses := shipto_postal_addresses iv @
       [(rawtext (xfind [ram ''CityName''] a), rawtext (xfind [ram ''PostcodeCode''] a)).
          a \<leftarrow> xfindall [ram ''ShipToTradeParty'', ram ''PostalTradeAddress''] delivery],
     has_actual_delivery_date := (xfind [ram ''ActualDeliverySupplyChainEvent'',
       ram ''OccurrenceDateTime''] delivery \<noteq> None) \<rparr>"

text \<open>\<open>_build_cii_br_de\<close>.\<close>

definition build_cii_br_de :: "xml \<Rightarrow> cii_invoice \<Rightarrow> cii_invoice" where
  "build_cii_br_de doc iv =
     (let iv1 = cii_ext doc iv
      in case xfind [rsm ''SupplyChainTradeTransaction''] doc of
           None \<Rightarrow> iv1
         | Some txn \<Rightarrow> (with_child ''ApplicableHeaderTradeDelivery'' txn cii_de_delivery \<circ>
             with_child ''ApplicableHeaderTradeAgreement'' txn cii_de_agreement \<circ>
             with_child ''ApplicableHeaderTradeSettlement'' txn cii_de_settlement \<circ>
             cii_de_lines txn) iv1)"

text \<open>\<open>build_model\<close> of this module, and the invoice that the shared rules read.\<close>

definition build_cii_model :: "xml \<Rightarrow> cii_invoice" where
  "build_cii_model doc =
     (build_cii_br_de doc \<circ> cii_transaction doc \<circ> cii_header doc \<circ> cii_payment doc \<circ>
      cii_refs doc \<circ> cii_codes doc) new_cii_invoice"

definition core_invoice :: "cii_invoice \<Rightarrow> invoice" where
  "core_invoice iv = invoice.truncate iv"

end
