(* ===== verification/EI_Xr_Cii.thy ===== *)
theory EI_Xr_Cii
  imports EI_Xr_Ubl EI_Parser_Cii
begin

text \<open>
  The XRechnung rules on CII documents (\<open>rules_xrechnung.py\<close>, \<open>cii_br_de_1\<close> to
  \<open>cii_br_dex_8\<close>, \<open>CII_DE_RULES\<close>, \<open>evaluate_cii\<close>): functions of the model that
  \<open>parser_cii.build_model\<close> makes.  They share the IBAN check, the Skonto grammar, the code
  lists and the scheme test with the UBL rules.
\<close>

section \<open>Parties and delivery\<close>

definition mnz :: "text_opt \<Rightarrow> bool" where
  "mnz t \<longleftrightarrow> nsp t \<noteq> []"

definition cii_br_de_1 :: "cii_invoice \<Rightarrow> violation option" where
  "cii_br_de_1 iv =
     (if has_payment_means iv then None
      else Some (XV Fatal ''BR-DE-1''
        [L ''An invoice (INVOICE) must contain information on PAYMENT INSTRUCTIONS '',
         L ''(BG-16).'']
        [L ''ram:ApplicableHeaderTradeSettlement/ram:SpecifiedTradeSettlementPaymentMeans'']))"

definition cii_br_de_2 :: "cii_invoice \<Rightarrow> violation option" where
  "cii_br_de_2 iv =
     (if seller_party_present iv \<and> \<not> seller_has_defined_trade_contact iv
      then Some (XV Fatal ''BR-DE-2''
        [L ''The group 'SELLER CONTACT' (BG-6) must be transmitted.'']
        [L ''ram:SellerTradeParty/ram:DefinedTradeContact'']) else None)"

definition cii_br_de_3 :: "cii_invoice \<Rightarrow> violation option" where
  "cii_br_de_3 iv =
     (if seller_has_postal_address iv \<and> \<not> mnz (seller_city iv)
      then Some (XV Fatal ''BR-DE-3''
        [L ''The element 'Seller city' (BT-37) must be transmitted.'']
        [L ''ram:SellerTradeParty/ram:PostalTradeAddress/ram:CityName'']) else None)"

definition cii_br_de_4 :: "cii_invoice \<Rightarrow> violation option" where
  "cii_br_de_4 iv =
     (if seller_has_postal_address iv \<and> \<not> mnz (seller_post_code iv)
      then Some (XV Fatal ''BR-DE-4''
        [L ''The element 'Seller post code' (BT-38) must be transmitted.'']
        [L ''ram:SellerTradeParty/ram:PostalTradeAddress/ram:PostcodeCode'']) else None)"

definition cii_br_de_5 :: "cii_invoice \<Rightarrow> violation option" where
  "cii_br_de_5 iv =
     first_some (\<lambda>c. if mnz (person_name c) \<or> mnz (department_name c) then None else
       Some (XV Fatal ''BR-DE-5''
         [L ''The element 'Seller contact point' (BT-41) must be transmitted.'']
         [L ''ram:SellerTradeParty/ram:DefinedTradeContact/ram:PersonName'']))
       (seller_defined_trade_contacts iv)"

definition cii_br_de_6 :: "cii_invoice \<Rightarrow> violation option" where
  "cii_br_de_6 iv =
     first_some (\<lambda>c. if mnz (telephone c) then None else
       Some (XV Fatal ''BR-DE-6''
         [L ''The element 'Seller contact telephone number' (BT-42) must be transmitted.'']
         [L ''ram:SellerTradeParty/ram:DefinedTradeContact/'',
          L ''ram:TelephoneUniversalCommunication/ram:CompleteNumber'']))
       (seller_defined_trade_contacts iv)"

definition cii_br_de_7 :: "cii_invoice \<Rightarrow> violation option" where
  "cii_br_de_7 iv =
     first_some (\<lambda>c. if mnz (email c) then None else
       Some (XV Fatal ''BR-DE-7''
         [L ''The element 'Seller contact email address' (BT-43) must be transmitted.'']
         [L ''ram:SellerTradeParty/ram:DefinedTradeContact/'',
          L ''ram:EmailURIUniversalCommunication/ram:URIID'']))
       (seller_defined_trade_contacts iv)"

definition cii_br_de_27 :: "cii_invoice \<Rightarrow> violation option" where
  "cii_br_de_27 iv =
     first_some (\<lambda>c. if telephone_ok (nsp (telephone c)) then None else
       Some (XV Warning ''BR-DE-27''
         [U 39, L ''Seller contact telephone number' (BT-42) should contain at least three '',
          L ''digits.'']
         [L ''ram:SellerTradeParty/ram:DefinedTradeContact/'',
          L ''ram:TelephoneUniversalCommunication/ram:CompleteNumber'']))
       (seller_defined_trade_contacts iv)"

definition cii_br_de_28 :: "cii_invoice \<Rightarrow> violation option" where
  "cii_br_de_28 iv =
     first_some (\<lambda>c. if email_ok (nsp (email c)) then None else
       Some (XV Warning ''BR-DE-28''
         [U 39, L ''Seller contact email address' (BT-43) should contain exactly one '@' with '',
          L ''valid flanking characters.'']
         [L ''ram:SellerTradeParty/ram:DefinedTradeContact/'',
          L ''ram:EmailURIUniversalCommunication/ram:URIID'']))
       (seller_defined_trade_contacts iv)"

definition cii_br_de_8 :: "cii_invoice \<Rightarrow> violation option" where
  "cii_br_de_8 iv =
     (if buyer_has_postal_address iv \<and> \<not> mnz (buyer_city iv)
      then Some (XV Fatal ''BR-DE-8''
        [L ''The element 'Buyer city' (BT-52) must be transmitted.'']
        [L ''ram:BuyerTradeParty/ram:PostalTradeAddress/ram:CityName'']) else None)"

definition cii_br_de_9 :: "cii_invoice \<Rightarrow> violation option" where
  "cii_br_de_9 iv =
     (if buyer_has_postal_address iv \<and> \<not> mnz (buyer_post_code iv)
      then Some (XV Fatal ''BR-DE-9''
        [L ''The element 'Buyer post code' (BT-53) must be transmitted.'']
        [L ''ram:BuyerTradeParty/ram:PostalTradeAddress/ram:PostcodeCode'']) else None)"

definition cii_br_de_10 :: "cii_invoice \<Rightarrow> violation option" where
  "cii_br_de_10 iv =
     first_some (\<lambda>a. if mnz (fst a) then None else
       Some (XV Fatal ''BR-DE-10''
         [L ''The element 'Deliver to city' (BT-77) must be transmitted when DELIVER TO '',
          L ''ADDRESS (BG-15) is present.'']
         [L ''ram:ShipToTradeParty/ram:PostalTradeAddress/ram:CityName'']))
       (shipto_postal_addresses iv)"

definition cii_br_de_11 :: "cii_invoice \<Rightarrow> violation option" where
  "cii_br_de_11 iv =
     first_some (\<lambda>a. if mnz (snd a) then None else
       Some (XV Fatal ''BR-DE-11''
         [L ''The element 'Deliver to post code' (BT-78) must be transmitted when DELIVER '',
          L ''TO ADDRESS (BG-15) is present.'']
         [L ''ram:ShipToTradeParty/ram:PostalTradeAddress/ram:PostcodeCode'']))
       (shipto_postal_addresses iv)"

section \<open>Payment means\<close>

definition cii_bg19_present :: "cii_invoice \<Rightarrow> cii_payment_means \<Rightarrow> bool" where
  "cii_bg19_present iv pm \<longleftrightarrow>
     has_direct_debit_mandate_id iv \<or> has_creditor_reference_id iv \<or> has_payer_iban pm"

definition cii_br_de_19 :: "cii_invoice \<Rightarrow> violation option" where
  "cii_br_de_19 iv =
     first_some (\<lambda>pm. if nsp (type_code pm) = ascii ''58'' \<and> \<not> iban_ok (payee_iban pm)
       then Some (XV Warning ''BR-DE-19''
         [U 39,
          L ''Payment account identifier' (BT-84) should be a correct IBAN when 'Payment '',
          L ''means type code' (BT-81) is 58 (SEPA).'']
         [L ''ram:SpecifiedTradeSettlementPaymentMeans/'',
          L ''ram:PayeePartyCreditorFinancialAccount/ram:IBANID''])
       else None) (settlement_payment_means iv)"

definition cii_br_de_20 :: "cii_invoice \<Rightarrow> violation option" where
  "cii_br_de_20 iv =
     first_some (\<lambda>pm. if nsp (type_code pm) = ascii ''59'' \<and> \<not> iban_ok (payer_iban pm)
       then Some (XV Warning ''BR-DE-20''
         [U 39,
          L ''Debited account identifier' (BT-91) should be a correct IBAN when 'Payment '',
          L ''means type code' (BT-81) is 59 (SEPA direct debit).'']
         [L ''ram:SpecifiedTradeSettlementPaymentMeans/'',
          L ''ram:PayerPartyDebtorFinancialAccount/ram:IBANID''])
       else None) (settlement_payment_means iv)"

definition cii_br_de_23_a :: "cii_invoice \<Rightarrow> violation option" where
  "cii_br_de_23_a iv =
     first_some (\<lambda>pm. if code_in [''30'', ''58''] (nsp (type_code pm)) \<and> \<not> has_payee_account pm
       then Some (XV Fatal ''BR-DE-23-a''
         [U 39, L ''Payment means type code' (BT-81) is a credit-transfer code (30, 58), so '',
          L ''CREDIT TRANSFER (BG-17) must be transmitted.'']
         [L ''ram:SpecifiedTradeSettlementPaymentMeans/'',
          L ''ram:PayeePartyCreditorFinancialAccount''])
       else None) (settlement_payment_means iv)"

definition cii_br_de_23_b :: "cii_invoice \<Rightarrow> violation option" where
  "cii_br_de_23_b iv =
     first_some (\<lambda>pm. if code_in [''30'', ''58''] (nsp (type_code pm)) \<and> (has_card pm \<or> cii_bg19_present iv pm)
       then Some (XV Fatal ''BR-DE-23-b''
         [U 39, L ''Payment means type code' (BT-81) is a credit-transfer code (30, 58), so '',
          L ''BG-18 and BG-19 must not be transmitted.'']
         [L ''ram:SpecifiedTradeSettlementPaymentMeans/'',
          L ''ram:ApplicableTradeSettlementFinancialCard | '',
          L ''ram:SpecifiedTradeSettlementPaymentMeans/'',
          L ''ram:PayerPartyDebtorFinancialAccount/ram:IBANID''])
       else None) (settlement_payment_means iv)"

definition cii_br_de_24_a :: "cii_invoice \<Rightarrow> violation option" where
  "cii_br_de_24_a iv =
     first_some (\<lambda>pm. if code_in [''48'', ''54'', ''55''] (nsp (type_code pm)) \<and> \<not> has_card pm
       then Some (XV Fatal ''BR-DE-24-a''
         [U 39, L ''Payment means type code' (BT-81) is a card-payment code (48, 54, 55), so '',
          L ''PAYMENT CARD INFORMATION (BG-18) must be transmitted.'']
         [L ''ram:SpecifiedTradeSettlementPaymentMeans/'',
          L ''ram:ApplicableTradeSettlementFinancialCard''])
       else None) (settlement_payment_means iv)"

definition cii_br_de_24_b :: "cii_invoice \<Rightarrow> violation option" where
  "cii_br_de_24_b iv =
     first_some (\<lambda>pm. if code_in [''48'', ''54'', ''55''] (nsp (type_code pm)) \<and>
       (has_payee_account pm \<or> cii_bg19_present iv pm)
       then Some (XV Fatal ''BR-DE-24-b''
         [U 39, L ''Payment means type code' (BT-81) is a card-payment code (48, 54, 55), so '',
          L ''BG-17 and BG-19 must not be transmitted.'']
         [L ''ram:SpecifiedTradeSettlementPaymentMeans/'',
          L ''ram:PayeePartyCreditorFinancialAccount | '',
          L ''ram:SpecifiedTradeSettlementPaymentMeans/'',
          L ''ram:PayerPartyDebtorFinancialAccount/ram:IBANID''])
       else None) (settlement_payment_means iv)"

definition cii_br_de_25_a :: "cii_invoice \<Rightarrow> violation option" where
  "cii_br_de_25_a iv =
     first_some (\<lambda>pm. if code_in [''59''] (nsp (type_code pm)) \<and> \<not> cii_bg19_present iv pm
       then Some (XV Fatal ''BR-DE-25-a''
         [U 39, L ''Payment means type code' (BT-81) is the direct-debit code (59), so DIRECT '',
          L ''DEBIT (BG-19) must be transmitted.'']
         [L ''ram:SpecifiedTradePaymentTerms/ram:DirectDebitMandateID | '',
          L ''ram:CreditorReferenceID | '', L ''ram:SpecifiedTradeSettlementPaymentMeans/'',
          L ''ram:PayerPartyDebtorFinancialAccount/ram:IBANID''])
       else None) (settlement_payment_means iv)"

definition cii_br_de_25_b :: "cii_invoice \<Rightarrow> violation option" where
  "cii_br_de_25_b iv =
     first_some (\<lambda>pm. if code_in [''59''] (nsp (type_code pm)) \<and>
       (has_payee_account pm \<or> has_payee_institution pm \<or> has_payer_institution pm \<or> has_card pm)
       then Some (XV Fatal ''BR-DE-25-b''
         [U 39, L ''Payment means type code' (BT-81) is the direct-debit code (59), so BG-17 '',
          L ''and BG-18 must not be transmitted.'']
         [L ''ram:SpecifiedTradeSettlementPaymentMeans/'',
          L ''ram:PayeePartyCreditorFinancialAccount | '',
          L ''ram:SpecifiedTradeSettlementPaymentMeans/'',
          L ''ram:ApplicableTradeSettlementFinancialCard''])
       else None) (settlement_payment_means iv)"

definition cii_bt91_exists :: "cii_invoice \<Rightarrow> bool" where
  "cii_bt91_exists iv \<longleftrightarrow> list_ex has_payer_iban (settlement_payment_means iv)"

definition cii_br_de_30 :: "cii_invoice \<Rightarrow> violation option" where
  "cii_br_de_30 iv =
     (let bt89 = has_direct_debit_mandate_id iv; bt90 = has_creditor_reference_id iv;
          bt91 = cii_bt91_exists iv
      in if ((bt89 \<or> bt91) \<and> bt90) \<or> \<not> (bt89 \<or> bt90 \<or> bt91) then None
         else Some (XV Fatal ''BR-DE-30''
           [L ''DIRECT DEBIT (BG-19) is present, so 'Bank assigned creditor identifier' '',
            L ''(BT-90) must be transmitted.'']
           [L ''ram:ApplicableHeaderTradeSettlement/ram:CreditorReferenceID'']))"

definition cii_br_de_31 :: "cii_invoice \<Rightarrow> violation option" where
  "cii_br_de_31 iv =
     (let bt89 = has_direct_debit_mandate_id iv; bt90 = has_creditor_reference_id iv;
          bt91 = cii_bt91_exists iv
      in if ((bt89 \<or> bt90) \<and> bt91) \<or> \<not> (bt89 \<or> bt90 \<or> bt91) then None
         else Some (XV Fatal ''BR-DE-31''
           [L ''DIRECT DEBIT (BG-19) is present, so 'Debited account identifier' (BT-91) '',
            L ''must be transmitted.'']
           [L ''ram:SpecifiedTradeSettlementPaymentMeans/'',
            L ''ram:PayerPartyDebtorFinancialAccount/ram:IBANID'']))"

section \<open>Document level\<close>

definition cii_br_de_22 :: "cii_invoice \<Rightarrow> violation option" where
  "cii_br_de_22 iv =
     first_some (\<lambda>g. case repeated_name [] (map (List.map_filter (\<lambda>f. f)) g) of
       None \<Rightarrow> None
     | Some f \<Rightarrow> Some (XV Fatal ''BR-DE-22''
       [L ''The 'filename' attribute of all 'AttachmentBinaryObject' elements must be '',
        L ''unique; '', R f, L '' repeats.'']
       [L ''ram:AdditionalReferencedDocument/ram:AttachmentBinaryObject/@filename'']))
       (additional_ref_doc_attachments iv)"

definition cii_br_de_14 :: "cii_invoice \<Rightarrow> violation option" where
  "cii_br_de_14 iv =
     first_some (\<lambda>st. if mnz (percent st) then None else
       Some (XV Fatal ''BR-DE-14''
         [L ''The element 'VAT category rate' (BT-119) must be transmitted.'']
         [L ''ram:ApplicableHeaderTradeSettlement/ram:ApplicableTradeTax/'',
          L ''ram:RateApplicablePercent'']))
       (all_tax_subtotals iv)"

definition cii_br_de_15 :: "cii_invoice \<Rightarrow> violation option" where
  "cii_br_de_15 iv =
     (if mnz (buyer_reference iv) then None
      else Some (XV Fatal ''BR-DE-15''
        [L ''The element 'Buyer reference' (BT-10) must be transmitted.'']
        [L ''ram:ApplicableHeaderTradeAgreement/ram:BuyerReference'']))"

definition cii_br_de_16 :: "cii_invoice \<Rightarrow> violation option" where
  "cii_br_de_16 iv =
     (let cats = concat (map item_tax_categories (inv_lines iv));
          type_vat = list_ex (\<lambda>c. cat_scheme_id c = Some (ascii ''VAT'')) cats;
          cat_in_set = list_ex (\<lambda>c. cat_id c \<in> set (map Some XR_SUPPORTED_VAT_CODES)) cats
      in if \<not> (type_vat \<and> cat_in_set) then None
         else if seller_vat_or_fc_id_present iv \<or> has_tax_representative iv then None
         else Some (XV Fatal ''BR-DE-16''
           [L ''VAT category codes S, Z, E, AE, K, G, L or M are used, so at least one of '',
            U 39, L ''Seller VAT identifier' (BT-31), 'Seller tax registration identifier' '',
            L ''(BT-32) or 'SELLER TAX REPRESENTATIVE PARTY' (BG-11) must be transmitted.'']
           [L ''ram:SellerTradeParty/ram:SpecifiedTaxRegistration/ram:ID'']))"

definition cii_br_de_17 :: "cii_invoice \<Rightarrow> violation option" where
  "cii_br_de_17 iv =
     (let itc = nsp (invoice_type_code iv) in
      if itc \<in> set XR_TYPE_CODES then None
      else Some (XV Warning ''BR-DE-17''
        [U 39, L ''Invoice type code' (BT-3) should be one of the codes 326, 380, 384, 389, '',
         L ''381, 875, 876, 877 (UNTDID 1001 subset); found '',
         R (if itc = [] then ascii ''(absent)'' else itc), L ''.'']
        [L ''ram:ExchangedDocument/ram:TypeCode'']))"

definition cii_br_de_18 :: "cii_invoice \<Rightarrow> violation option" where
  "cii_br_de_18 iv =
     (if skonto_terms_hold (payment_terms_descriptions iv) then None
      else Some (XV Fatal ''BR-DE-18''
        [L ''Skonto entries in 'Payment terms' (BT-20) must follow the XRechnung grammar '',
         L ''#SKONTO#TAGE=n#PROZENT=n.nn#[BASISBETRAG=n.nn#] with a newline terminating '',
         L ''each entry.'']
        [L ''ram:ApplicableHeaderTradeSettlement/ram:SpecifiedTradePaymentTerms/'',
         L ''ram:Description'']))"

definition cii_br_de_21 :: "cii_invoice \<Rightarrow> violation option" where
  "cii_br_de_21 iv =
     (if customization_id iv \<in> {Some XR_CIUS_ID, Some XR_EXTENSION_ID, Some XR_CVD_ID} then None
      else Some (XV Warning ''BR-DE-21''
        [U 39, L ''Specification identifier' (BT-24) should syntactically match the XRechnung '',
         L ''standard identifier.'']
        [L ''ram:ExchangedDocumentContext/ram:GuidelineSpecifiedDocumentContextParameter/'',
         L ''ram:ID'']))"

definition cii_br_de_26 :: "cii_invoice \<Rightarrow> violation option" where
  "cii_br_de_26 iv =
     (if nsp (invoice_type_code iv) \<noteq> ascii ''384'' \<or> has_invoice_referenced_document iv then None
      else Some (XV Warning ''BR-DE-26''
        [U 39, L ''Invoice type code' (BT-3) is 384 (Corrected invoice), so PRECEDING INVOICE '',
         L ''REFERENCE (BG-3) should be present at least once.'']
        [L ''ram:ApplicableHeaderTradeSettlement/ram:InvoiceReferencedDocument'']))"

definition cii_br_de_tmp_32 :: "cii_invoice \<Rightarrow> violation option" where
  "cii_br_de_tmp_32 iv =
     (if has_actual_delivery_date iv \<or> has_billing_period iv then None
      else if list_all has_line_billing_period (inv_lines iv) then None
      else Some (XV Information ''BR-DE-TMP-32''
        [L ''The invoice should state the delivery/service date: BT-72 'Actual delivery '',
         L ''date', BG-14 'Invoicing period', or BG-26 'Invoice line period' on every '',
         L ''line.'']
        [L ''ram:ApplicableHeaderTradeDelivery/ram:ActualDeliverySupplyChainEvent/'',
         L ''ram:OccurrenceDateTime'']))"

section \<open>External references, price base quantities, the Clean Vehicle Directive\<close>

definition cii_is_cvd :: "cii_invoice \<Rightarrow> bool" where
  "cii_is_cvd iv \<longleftrightarrow> XR_CVD_ID \<in> set (guideline_ids iv)"

definition cii_is_extension :: "cii_invoice \<Rightarrow> bool" where
  "cii_is_extension iv \<longleftrightarrow> XR_EXTENSION_ID \<in> set (guideline_ids iv)"

definition cii_cva_characteristics :: "cii_trade_product \<Rightarrow> cii_characteristic list" where
  "cii_cva_characteristics p = filter (\<lambda>ch. ascii ''cva'' \<in> set (descriptions ch)) (characteristics p)"

definition cii_cvd_class_codes :: "cii_trade_product \<Rightarrow> cii_class_code list" where
  "cii_cvd_class_codes p = filter (\<lambda>cc. cc_list_id cc = Some (ascii ''CVD'')) (class_codes p)"

definition cii_br_tmp_2 :: "cii_invoice \<Rightarrow> violation option" where
  "cii_br_tmp_2 iv =
     first_some (\<lambda>doc. if ascii ''916'' \<notin> set (type_codes doc) then None
       else (case uri_ids doc of [] \<Rightarrow> None
         | uri # _ \<Rightarrow> if url_ok uri then None
             else Some (XV Warning ''BR-TMP-2''
               [U 39,
                L ''External document location' (BT-124) must be an absolute URL with a valid '',
                L ''scheme (e.g. https://'', U 8230, L ''); found '', R uri, L ''.'']
               [L ''ram:ApplicableHeaderTradeAgreement/ram:AdditionalReferencedDocument/'',
                L ''ram:URIID''])))
       (header_ref_docs iv)"

definition cii_br_tmp_3 :: "cii_invoice \<Rightarrow> violation option" where
  "cii_br_tmp_3 iv =
     first_some (\<lambda>p. let gross = gross_basis_quantities p; net = net_basis_quantities p;
         gu = List.map_filter snd gross; nu = List.map_filter snd net in
       if gross = [] \<or> net = [] then None
       else if \<not> list_ex (\<lambda>g. list_ex (\<lambda>n. fst g = fst n) net) gross
       then Some (XV Fatal ''BR-TMP-3''
         [L ''The 'Item price base quantity' (BT-149) differs between '',
          L ''GrossPriceProductTradePrice and NetPriceProductTradePrice; the values must '',
          L ''be identical (string comparison, per the official test).'']
         [L ''ram:SpecifiedLineTradeAgreement/ram:GrossPriceProductTradePrice/'',
          L ''ram:BasisQuantity''])
       else if gu \<noteq> [] \<and> nu \<noteq> [] \<and> \<not> list_ex (\<lambda>a. list_ex (\<lambda>b. a = b) nu) gu
       then Some (XV Fatal ''BR-TMP-3''
         [L ''The 'Item price base quantity' unit of measure code (BT-150) differs '',
          L ''between GrossPriceProductTradePrice and NetPriceProductTradePrice; when '',
          L ''both are present they must be identical.'']
         [L ''ram:SpecifiedLineTradeAgreement/ram:GrossPriceProductTradePrice/'',
          L ''ram:BasisQuantity/@unitCode''])
       else None) (line_prices iv)"

definition cii_br_de_cvd_01 :: "cii_invoice \<Rightarrow> violation option" where
  "cii_br_de_cvd_01 iv =
     (if \<not> cii_is_cvd iv \<or> \<not> has_header_trade_agreement iv then None
      else if list_ex (\<lambda>t. mnz (Some t)) (contract_reference_ids iv) then None
      else Some (XV Fatal ''BR-DE-CVD-01''
        [L ''The element 'Contract reference' (BT-12) must be transmitted in a '',
         L ''Clean-Vehicle-Directive invoice.'']
        [L ''ram:ApplicableHeaderTradeAgreement/ram:ContractReferencedDocument/'',
         L ''ram:IssuerAssignedID'']))"

definition cii_br_de_cvd_02 :: "cii_invoice \<Rightarrow> violation option" where
  "cii_br_de_cvd_02 iv =
     (if \<not> cii_is_cvd iv \<or> \<not> has_header_trade_agreement iv then None
      else if list_ex (\<lambda>doc. nsp (first (type_codes doc)) = ascii ''50'' \<and> mnz (first (issuer_ids doc)))
        (header_ref_docs iv) then None
      else Some (XV Fatal ''BR-DE-CVD-02''
        [L ''The element 'Tender or lot reference' (BT-17) must be transmitted in a '',
         L ''Clean-Vehicle-Directive invoice.'']
        [L ''ram:ApplicableHeaderTradeAgreement/'',
         L ''ram:AdditionalReferencedDocument[ram:TypeCode='50']/ram:IssuerAssignedID'']))"

text \<open>The products that are there; the loops skip \<open>None\<close>.\<close>

definition products :: "cii_invoice \<Rightarrow> cii_trade_product list" where
  "products iv = List.map_filter (\<lambda>p. p) (trade_products iv)"

definition cii_br_de_cvd_03 :: "cii_invoice \<Rightarrow> violation option" where
  "cii_br_de_cvd_03 iv =
     (if \<not> cii_is_cvd iv \<or> \<not> has_supply_chain_transaction iv then None
      else if list_ex (\<lambda>p. list_ex (\<lambda>cc. cc_list_id cc = Some (ascii ''CVD'')) (class_codes p) \<and>
          list_ex (\<lambda>ch. ascii ''cva'' \<in> set (descriptions ch)) (characteristics p)) (products iv) then None
      else Some (XV Fatal ''BR-DE-CVD-03''
        [L ''A Clean-Vehicle-Directive invoice must contain at least one INVOICE LINE '',
         L ''(BG-25) in which the scheme identifier of 'Item classification identifier' '',
         L ''(BT-158) is 'CVD' and the 'Item attribute name' (BT-160) is 'cva'.'']
        [L ''ram:IncludedSupplyChainTradeLineItem/ram:SpecifiedTradeProduct'']))"

definition cii_br_de_cvd_06_a :: "cii_invoice \<Rightarrow> violation option" where
  "cii_br_de_cvd_06_a iv =
     (if \<not> cii_is_cvd iv then None
      else first_some (\<lambda>p. if cii_cvd_class_codes p = [] then None
        else if length (cii_cva_characteristics p) \<noteq> 1
        then Some (XV Fatal ''BR-DE-CVD-06-a''
          [L ''A product with a BT-158 scheme identifier 'CVD' must carry exactly one '', U 39,
           L ''Item attribute name' (BT-160) with the value 'cva' in the same invoice '',
           L ''line.'']
          [L ''ram:SpecifiedTradeProduct/ram:ApplicableProductCharacteristic/'',
           L ''ram:Description''])
        else None) (products iv))"

definition cii_br_de_cvd_06_b :: "cii_invoice \<Rightarrow> violation option" where
  "cii_br_de_cvd_06_b iv =
     (if \<not> cii_is_cvd iv then None
      else first_some (\<lambda>p. if cii_cva_characteristics p = [] then None
        else if length (cii_cvd_class_codes p) \<noteq> 1
        then Some (XV Fatal ''BR-DE-CVD-06-b''
          [L ''A product with an 'Item attribute name' (BT-160) of 'cva' must carry '',
           L ''exactly one 'Item classification identifier' (BT-158) with the scheme '',
           L ''identifier 'CVD' in the same invoice line.'']
          [L ''ram:SpecifiedTradeProduct/ram:DesignatedProductClassification/ram:ClassCode''])
        else None) (products iv))"

definition cii_br_tmp_cvd_01 :: "cii_invoice \<Rightarrow> violation option" where
  "cii_br_tmp_cvd_01 iv =
     (if \<not> cii_is_cvd iv then None
      else first_some (\<lambda>cc. if untdid_7143_cvd_ok (cc_list_id cc) then None
        else Some (XV Fatal ''BR-TMP-CVD-01''
          [L ''The scheme identifier of 'Item classification identifier' (BT-158) must be '',
           L ''chosen from the code list UNTDID 7143; found '', repr_opt (cc_list_id cc), L ''.'']
          [L ''ram:SpecifiedTradeProduct/ram:DesignatedProductClassification/ram:ClassCode/'',
           L ''@listID'']))
        (concat (map class_codes (products iv))))"

definition cii_br_de_cvd_04 :: "cii_invoice \<Rightarrow> violation option" where
  "cii_br_de_cvd_04 iv =
     (if \<not> cii_is_cvd iv then None
      else first_some (\<lambda>cc. if nsp (cc_list_id cc) \<noteq> ascii ''CVD'' then None
        else if nsp (Some (cc_value cc)) \<in> set CVD_VEHICLE_CATEGORIES then None
        else Some (XV Fatal ''BR-DE-CVD-04''
          [L ''An 'Item classification identifier' (BT-158) with the scheme identifier '', U 39,
           L ''CVD' must contain one of the permitted vehicle categories M1, M2, M3, N1, '',
           L ''N2, N3; found '', R (nsp (Some (cc_value cc))), L ''.'']
          [L ''ram:SpecifiedTradeProduct/ram:DesignatedProductClassification/ram:ClassCode'']))
        (concat (map class_codes (products iv))))"

definition cii_br_de_cvd_05 :: "cii_invoice \<Rightarrow> violation option" where
  "cii_br_de_cvd_05 iv =
     (if \<not> cii_is_cvd iv then None
      else first_some (\<lambda>ch. let value = nsp (first (ch_values ch)) in
        if value \<in> set CVA_CODES then None
        else Some (XV Fatal ''BR-DE-CVD-05''
          [L ''When the 'Item attribute name' (BT-160) is 'cva', the 'Item attribute '',
           L ''value' (BT-161) must be one of 'clean', 'zero-emission', 'other'; found '',
           R value, L ''.'']
          [L ''ram:SpecifiedTradeProduct/ram:ApplicableProductCharacteristic/ram:Value'']))
        (concat (map cii_cva_characteristics (products iv))))"

section \<open>The extension\<close>

definition cii_br_dex_15 :: "cii_invoice \<Rightarrow> violation option" where
  "cii_br_dex_15 iv =
     (if cii_is_extension iv \<and> has_assoc_document_line_document iv \<and> has_parent_line_id iv
      then Some (XV Warning ''BR-DEX-15''
        [L ''This CII file might use the concept of Sub Invoice Lines. However XRechnung '',
         L ''does not support this.'']
        [L ''ram:IncludedSupplyChainTradeLineItem/ram:AssociatedDocumentLineDocument'']) else None)"

definition cii_scheme_rule ::
    "(cii_invoice \<Rightarrow> pystr list) \<Rightarrow> pystr set \<Rightarrow> violation \<Rightarrow> cii_invoice \<Rightarrow> violation option" where
  "cii_scheme_rule schemes code_set v iv =
     (if \<not> cii_is_extension iv then None
      else first_some (\<lambda>s. if scheme_no_internal_space (Some s) \<and> nsp (Some s) \<in> code_set then None
        else Some v) (schemes iv))"

definition cii_br_dex_1 :: "cii_invoice \<Rightarrow> violation option" where
  "cii_br_dex_1 iv =
     (if \<not> cii_is_extension iv then None
      else first_some (\<lambda>code. if code \<in> set (map Some XR_EXT_MIME_CODES) then None
        else Some (XV Fatal ''BR-DEX-01''
          [L ''The 'Attached Document' (BT-125) uses a MIME code that an XRechnung '',
           L ''Extension does not permit: '', repr_opt code, L ''.'']
          [L ''ram:AttachmentBinaryObject/@mimeCode''])) (ext_attachment_mime_codes iv))"

definition cii_br_dex_4 :: "cii_invoice \<Rightarrow> violation option" where
  "cii_br_dex_4 iv =
     cii_scheme_rule ext_generic_global_id_schemes ISO_6523_ICD_EXT_CODES
       (XV Fatal ''BR-DEX-04''
         [L ''Any scheme identifier on a party/document ram:GlobalID must be coded with '',
          L ''an ISO 6523 ICD code.'']
         [L ''ram:GlobalID/@schemeID'']) iv"

definition cii_br_dex_5 :: "cii_invoice \<Rightarrow> violation option" where
  "cii_br_dex_5 iv =
     cii_scheme_rule ext_id_schemes ISO_6523_ICD_EXT_CODES
       (XV Fatal ''BR-DEX-05''
         [L ''Any scheme identifier on a ram:ID (outside a tax registration) must be '',
          L ''coded with an ISO 6523 ICD code.'']
         [L ''ram:ID/@schemeID'']) iv"

definition cii_br_dex_6 :: "cii_invoice \<Rightarrow> violation option" where
  "cii_br_dex_6 iv =
     cii_scheme_rule ext_product_global_id_schemes ISO_6523_ICD_EXT_CODES
       (XV Fatal ''BR-DEX-06''
         [L ''Any scheme identifier on an 'Item standard identifier' (BT-157) must be '',
          L ''coded with an ISO 6523 ICD code.'']
         [L ''ram:SpecifiedTradeProduct/ram:GlobalID/@schemeID'']) iv"

definition cii_br_dex_7 :: "cii_invoice \<Rightarrow> violation option" where
  "cii_br_dex_7 iv =
     cii_scheme_rule ext_uri_id_schemes CEF_EAS_EXT_CODES
       (XV Fatal ''BR-DEX-07''
         [L ''Any scheme identifier on an 'Electronic address' endpoint (BT-34/BT-49) '',
          L ''must belong to the CEF EAS code list.'']
         [L ''ram:URIUniversalCommunication/ram:URIID/@schemeID'']) iv"

definition cii_br_dex_8 :: "cii_invoice \<Rightarrow> violation option" where
  "cii_br_dex_8 iv =
     cii_scheme_rule ext_ship_to_global_id_schemes ISO_6523_ICD_EXT_CODES
       (XV Fatal ''BR-DEX-08''
         [L ''Any scheme identifier on a 'Deliver to location identifier' (BT-71) must be '',
          L ''coded with an ISO 6523 ICD code.'']
         [L ''ram:ApplicableHeaderTradeDelivery/ram:ShipToTradeParty/ram:GlobalID/'',
          L ''@schemeID'']) iv"

section \<open>The ruleset\<close>

definition CII_DE_RULES :: "(cii_invoice \<Rightarrow> dec_exc + violation option) list" where
  "CII_DE_RULES =
    [total_rule cii_br_de_1, total_rule cii_br_de_2, total_rule cii_br_de_3,
     total_rule cii_br_de_4, total_rule cii_br_de_5, total_rule cii_br_de_6,
     total_rule cii_br_de_7, total_rule cii_br_de_8, total_rule cii_br_de_9,
     total_rule cii_br_de_10, total_rule cii_br_de_11, total_rule cii_br_de_19,
     total_rule cii_br_de_23_a, total_rule cii_br_de_23_b, total_rule cii_br_de_24_a,
     total_rule cii_br_de_24_b, total_rule cii_br_de_20, total_rule cii_br_de_25_a,
     total_rule cii_br_de_25_b, total_rule cii_br_de_30, total_rule cii_br_de_31,
     total_rule cii_br_de_14, total_rule cii_br_de_15, total_rule cii_br_de_16,
     total_rule cii_br_de_17, total_rule cii_br_de_18, total_rule cii_br_de_21,
     total_rule cii_br_de_22, total_rule cii_br_de_26, total_rule cii_br_de_27,
     total_rule cii_br_de_28, total_rule cii_br_de_tmp_32, total_rule cii_br_tmp_2,
     total_rule cii_br_tmp_3, total_rule cii_br_de_cvd_01, total_rule cii_br_de_cvd_02,
     total_rule cii_br_de_cvd_03, total_rule cii_br_de_cvd_04, total_rule cii_br_de_cvd_05,
     total_rule cii_br_de_cvd_06_a, total_rule cii_br_de_cvd_06_b,
     total_rule cii_br_tmp_cvd_01, total_rule cii_br_dex_15, total_rule cii_br_dex_4,
     total_rule cii_br_dex_5, total_rule cii_br_dex_6, total_rule cii_br_dex_7,
     total_rule cii_br_dex_8, total_rule cii_br_dex_1]"

definition CII_DE_RULE_IDS :: "(string \<times> severity) list" where
  "CII_DE_RULE_IDS =
    [(''BR-DE-1'', Fatal), (''BR-DE-2'', Fatal), (''BR-DE-3'', Fatal),
     (''BR-DE-4'', Fatal), (''BR-DE-5'', Fatal), (''BR-DE-6'', Fatal),
     (''BR-DE-7'', Fatal), (''BR-DE-8'', Fatal), (''BR-DE-9'', Fatal),
     (''BR-DE-10'', Fatal), (''BR-DE-11'', Fatal), (''BR-DE-19'', Warning),
     (''BR-DE-23-a'', Fatal), (''BR-DE-23-b'', Fatal), (''BR-DE-24-a'', Fatal),
     (''BR-DE-24-b'', Fatal), (''BR-DE-20'', Warning), (''BR-DE-25-a'', Fatal),
     (''BR-DE-25-b'', Fatal), (''BR-DE-30'', Fatal), (''BR-DE-31'', Fatal),
     (''BR-DE-14'', Fatal), (''BR-DE-15'', Fatal), (''BR-DE-16'', Fatal),
     (''BR-DE-17'', Warning), (''BR-DE-18'', Fatal), (''BR-DE-21'', Warning),
     (''BR-DE-22'', Fatal), (''BR-DE-26'', Warning), (''BR-DE-27'', Warning),
     (''BR-DE-28'', Warning), (''BR-DE-TMP-32'', Information), (''BR-TMP-2'', Warning),
     (''BR-TMP-3'', Fatal), (''BR-DE-CVD-01'', Fatal), (''BR-DE-CVD-02'', Fatal),
     (''BR-DE-CVD-03'', Fatal), (''BR-DE-CVD-04'', Fatal), (''BR-DE-CVD-05'', Fatal),
     (''BR-DE-CVD-06-a'', Fatal), (''BR-DE-CVD-06-b'', Fatal), (''BR-TMP-CVD-01'', Fatal),
     (''BR-DEX-15'', Warning), (''BR-DEX-04'', Fatal), (''BR-DEX-05'', Fatal),
     (''BR-DEX-06'', Fatal), (''BR-DEX-07'', Fatal), (''BR-DEX-08'', Fatal),
     (''BR-DEX-01'', Fatal)]"

definition cii_evaluate :: "cii_invoice \<Rightarrow> dec_exc + violation list" where
  "cii_evaluate iv = evaluate_rules CII_DE_RULES iv"

lemmas [xr_defs] =
  cii_br_de_1_def cii_br_de_2_def cii_br_de_3_def cii_br_de_4_def cii_br_de_5_def
   cii_br_de_6_def cii_br_de_7_def cii_br_de_27_def cii_br_de_28_def cii_br_de_8_def
   cii_br_de_9_def cii_br_de_10_def cii_br_de_11_def cii_br_de_19_def cii_br_de_20_def
   cii_br_de_23_a_def cii_br_de_23_b_def cii_br_de_24_a_def cii_br_de_24_b_def
   cii_br_de_25_a_def cii_br_de_25_b_def cii_br_de_30_def cii_br_de_31_def
   cii_br_de_22_def cii_br_de_14_def cii_br_de_15_def cii_br_de_16_def
   cii_br_de_17_def cii_br_de_18_def cii_br_de_21_def cii_br_de_26_def
   cii_br_de_tmp_32_def cii_br_tmp_2_def cii_br_tmp_3_def cii_br_de_cvd_01_def
   cii_br_de_cvd_02_def cii_br_de_cvd_03_def cii_br_de_cvd_06_a_def
   cii_br_de_cvd_06_b_def cii_br_tmp_cvd_01_def cii_br_de_cvd_04_def
   cii_br_de_cvd_05_def cii_br_dex_15_def cii_br_dex_1_def cii_br_dex_4_def
   cii_br_dex_5_def cii_br_dex_6_def cii_br_dex_7_def cii_br_dex_8_def

end
