(* ===== verification/EI_Validate.thy ===== *)
theory EI_Validate
  imports EI_Rules EI_Xr_Cii EI_Parser EI_Word_Chars
begin

text \<open>
  The validation facade (\<open>validate.py\<close>): the dispatch on the root element, the core rules,
  the national layer, and the pass that anchors findings on absent elements at the line of the
  deepest element of their path that the document has.  The remediation catalog is a data file;
  its entries are an argument.
\<close>

section \<open>Paths of findings\<close>

text \<open>
  The element path of a finding as text.  A \<open>%r\<close> argument appears between quotes, and a
  decimal as a question mark: both are outside the characters of a path segment, so a path
  that has one is not walked whatever its argument is.
\<close>

definition digit_char :: "nat \<Rightarrow> nat" where
  "digit_char d = 48 + d"

function decimal_text :: "nat \<Rightarrow> pystr" where
  "decimal_text n = (if n < 10 then [digit_char n] else decimal_text (n div 10) @ [digit_char (n mod 10)])"
  by auto
termination
  by (relation "measure id") auto

declare decimal_text.simps [simp del]

fun frag_text :: "frag \<Rightarrow> pystr" where
  "frag_text (L s) = ascii s"
| "frag_text (U c) = [c]"
| "frag_text (R s) = 39 # s @ [39]"
| "frag_text (S s) = s"
| "frag_text (I n) = decimal_text n"
| "frag_text (D c e) = [63]"

definition path_text :: "fmt \<Rightarrow> pystr" where
  "path_text el = concat (map frag_text el)"

text \<open>\<open>_PATH_SEGMENT_RE\<close>: a name, or two names with a colon between them; the dollar sign
  also matches before a line feed at the end.\<close>

definition segment_ok :: "pystr \<Rightarrow> bool" where
  "segment_ok s \<longleftrightarrow> (let t = (if s \<noteq> [] \<and> last s = 10 then butlast s else s) in
     case split1 58 t of (a, None) \<Rightarrow> name_ok a | (a, Some b) \<Rightarrow> name_ok a \<and> name_ok b)"

text \<open>\<open>segment.rsplit(":", 1)[-1]\<close>.\<close>

definition segment_localname :: "pystr \<Rightarrow> pystr" where
  "segment_localname s = rev (takeWhile (\<lambda>c. c \<noteq> 58) (rev s))"

section \<open>Insertion points\<close>

text \<open>The children of an element whose local name a segment asks for.\<close>

definition segment_matches :: "pystr \<Rightarrow> xml \<Rightarrow> xml list" where
  "segment_matches s node = filter (\<lambda>k. localname (xtag k) = segment_localname s) (kids node)"

text \<open>
  The loop over the segments: \<open>None\<close> when a segment is ambiguous, when every segment resolves,
  or when the first one does not (\<open>deep\<close> is \<open>0 < depth\<close>).
\<close>

fun walk :: "xml \<Rightarrow> bool \<Rightarrow> pystr list \<Rightarrow> xml option" where
  "walk node deep [] = None"
| "walk node deep (s # ss) = (case segment_matches s node of
     [] \<Rightarrow> if deep then Some node else None
   | [k] \<Rightarrow> walk k True ss
   | _ \<Rightarrow> None)"

definition path_segments :: "xml \<Rightarrow> pystr \<Rightarrow> pystr list option" where
  "path_segments r path =
     (let raw = py_strip path; segs = filter (\<lambda>s. s \<noteq> []) (split_on 47 raw) in
      if raw = [] \<or> starts_with [47, 47] raw \<or> segs = [] \<or> \<not> list_all segment_ok segs then None
      else if starts_with [47] raw
      then (if segment_localname (hd segs) \<noteq> localname (xtag r) \<or> tl segs = [] then None else Some (tl segs))
      else Some segs)"

definition positive_line :: "nat option \<Rightarrow> nat option" where
  "positive_line l = (case l of None \<Rightarrow> None | Some n \<Rightarrow> if n < 1 then None else Some n)"

definition insertion_point_line :: "xml \<Rightarrow> text_opt \<Rightarrow> nat option" where
  "insertion_point_line r path =
     (case path of None \<Rightarrow> None
      | Some p \<Rightarrow> (case path_segments r p of None \<Rightarrow> None
          | Some segs \<Rightarrow> (case walk r False segs of None \<Rightarrow> None
              | Some node \<Rightarrow> positive_line (xline node))))"

text \<open>An entry of the catalog, and \<open>remediation_fields\<close>.\<close>

record catalog_entry =
  entry_title :: text_opt
  entry_fix :: text_opt
  entry_terms :: "pystr list"
  entry_location_hint :: text_opt

definition remediation_fields :: "(string \<Rightarrow> catalog_entry option) \<Rightarrow> string \<Rightarrow> catalog_entry" where
  "remediation_fields catalog rid = (case catalog rid of
     None \<Rightarrow> \<lparr> entry_title = None, entry_fix = None, entry_terms = [], entry_location_hint = None \<rparr>
   | Some e \<Rightarrow> e)"

definition finding_path :: "(string \<Rightarrow> catalog_entry option) \<Rightarrow> violation \<Rightarrow> text_opt" where
  "finding_path catalog v =
     (let p = path_text (v_element v) in
      if py_strip p = [] then entry_location_hint (remediation_fields catalog (v_rule_id v)) else Some p)"

definition stamp :: "(string \<Rightarrow> catalog_entry option) \<Rightarrow> xml \<Rightarrow> violation \<Rightarrow> violation" where
  "stamp catalog r v =
     (if v_source_line v \<noteq> None then v
      else case insertion_point_line r (finding_path catalog v) of None \<Rightarrow> v
        | Some n \<Rightarrow> v\<lparr> v_insertion_point_line := Some n \<rparr>)"

definition stamp_insertion_points ::
    "(string \<Rightarrow> catalog_entry option) \<Rightarrow> xml \<Rightarrow> violation list \<Rightarrow> violation list" where
  "stamp_insertion_points catalog r vs = map (stamp catalog r) vs"

section \<open>The facade\<close>

definition PROFILES :: "string list" where
  "PROFILES = [''en16931'', ''xrechnung'']"

datatype run_error = UnknownProfile string | DecimalError dec_exc

definition lift_exc :: "dec_exc + 'a \<Rightarrow> run_error + 'a" where
  "lift_exc m = (case m of Inl e \<Rightarrow> Inl (DecimalError e) | Inr x \<Rightarrow> Inr x)"

definition S_ROOT :: "pystr \<Rightarrow> violation" where
  "S_ROOT tag = Violation ''S-ROOT''
     [L ''Root element must be Invoice in the UBL Invoice-2 namespace, or '',
      L ''CreditNote in the UBL CreditNote-2 namespace.''] [S tag]"

text \<open>The findings of the core rules followed by those of the national layer.\<close>

definition with_layer ::
    "string \<Rightarrow> dec_exc + violation list \<Rightarrow> dec_exc + violation list \<Rightarrow> dec_exc + violation list" where
  "with_layer profile core layer = bindE core (\<lambda>vs.
     if profile = ''xrechnung'' then bindE layer (\<lambda>ws. Inr (vs @ ws)) else Inr vs)"

definition cii_violations :: "bool \<Rightarrow> string \<Rightarrow> xml \<Rightarrow> dec_exc + violation list" where
  "cii_violations py311 profile r =
     (let iv = build_cii_model r in
      with_layer profile (run_rules (ALL_RULES py311) (core_invoice iv)) (cii_evaluate iv))"

definition ubl_violations :: "bool \<Rightarrow> string \<Rightarrow> xml \<Rightarrow> dec_exc + violation list" where
  "ubl_violations py311 profile r =
     with_layer profile (run_rules (ALL_RULES py311) (build_model r)) (xr_evaluate r)"

definition supported_ubl :: "xml \<Rightarrow> bool" where
  "supported_ubl r \<longleftrightarrow> root_is_ubl_invoice (build_model r) \<or> is_creditnote (build_model r)"

definition is_cii_root :: "xml \<Rightarrow> bool" where
  "is_cii_root r \<longleftrightarrow> localname (xtag r) = ascii ''CrossIndustryInvoice''"

definition validate_root ::
    "bool \<Rightarrow> (string \<Rightarrow> catalog_entry option) \<Rightarrow> string \<Rightarrow> xml \<Rightarrow> run_error + violation list" where
  "validate_root py311 catalog profile r =
     (if profile \<notin> set PROFILES then Inl (UnknownProfile profile)
      else if is_cii_root r
      then lift_exc (bindE (cii_violations py311 profile r) (\<lambda>vs. Inr (stamp_insertion_points catalog r vs)))
      else if \<not> supported_ubl r then Inr [S_ROOT (localname (xtag r))]
      else lift_exc (bindE (ubl_violations py311 profile r)
             (\<lambda>vs. Inr (stamp_insertion_points catalog r vs))))"

section \<open>The record of a result\<close>

text \<open>\<open>Result.to_dict\<close> and \<open>Result._violation_dict\<close>; a key that is left out is \<open>None\<close>.\<close>

record violation_dict =
  d_rule :: string
  d_message :: fmt
  d_element :: fmt
  d_severity :: severity
  d_field :: fmt
  d_remediation :: catalog_entry
  d_source_line :: "nat option"
  d_insertion_point_line :: "nat option"

definition to_violation_dict :: "(string \<Rightarrow> catalog_entry option) \<Rightarrow> violation \<Rightarrow> violation_dict" where
  "to_violation_dict catalog v = \<lparr> d_rule = v_rule_id v, d_message = v_message v,
     d_element = v_element v, d_severity = v_severity v, d_field = v_element v,
     d_remediation = remediation_fields catalog (v_rule_id v),
     d_source_line = v_source_line v, d_insertion_point_line = v_insertion_point_line v \<rparr>"

record result_dict =
  d_source :: text_opt
  d_valid :: bool
  d_violation_count :: nat
  d_violations :: "violation_dict list"

definition to_dict :: "(string \<Rightarrow> catalog_entry option) \<Rightarrow> text_opt \<Rightarrow> violation list \<Rightarrow> result_dict" where
  "to_dict catalog source vs = \<lparr> d_source = source, d_valid = result_ok vs,
     d_violation_count = length vs, d_violations = map (to_violation_dict catalog) vs \<rparr>"

end
