(* ===== verification/EI_Peppol.thy ===== *)
theory EI_Peppol
  imports EI_Xr_Base EI_Parser_Cii
begin

text \<open>
  The Peppol rules of the KoSIT artifact (\<open>rules_peppol.py\<close>: \<open>UBL_RULES\<close>,
  \<open>CII_RULES\<close>, \<open>evaluate_ubl\<close>, \<open>evaluate_cii\<close>), functions of the root element in both
  syntaxes.  A number or date that does not parse makes the rule hold; the rules that compute
  with decimals can raise.  Not modelled: the limit on the digits of \<open>int()\<close> of newer
  interpreters (a year of more than 4300 digits).
\<close>

section \<open>Division\<close>

text \<open>One step of the loop that removes trailing zeros down to the ideal exponent.\<close>

function to_ideal :: "int \<Rightarrow> int \<Rightarrow> int \<Rightarrow> decimal" where
  "to_ideal ideal c e = (if e < ideal \<and> c mod 10 = 0 then to_ideal ideal (c div 10) (e + 1) else Dec c e)"
  by auto
termination
  by (relation "measure (\<lambda>(ideal, c, e). nat (ideal - e))") auto

declare to_ideal.simps [simp del]

text \<open>\<open>Decimal.__truediv__\<close>: the quotient to 29 digits with a sticky last digit, then rounded.\<close>

definition dec_div :: "decimal \<Rightarrow> decimal \<Rightarrow> dec_exc + decimal" where
  "dec_div a b = (let m = \<bar>coeff a\<bar>; n = \<bar>coeff b\<bar>; sg = sgn (coeff a) * sgn (coeff b);
       ideal = expo a - expo b in
     if n = 0 then Inl (if m = 0 then InvalidOperation else DivisionByZero)
     else if m = 0 then dec_fix (Dec 0 ideal)
     else let shift = ndigits n - ndigits m + prec + 1;
         x = (if 0 \<le> shift then m * 10 ^ nat shift else m);
         y = (if 0 \<le> shift then n else n * 10 ^ nat (- shift));
         q = x div y; e = ideal - shift
       in if x mod y \<noteq> 0 then dec_fix (Dec (sg * (if q mod 5 = 0 then q + 1 else q)) e)
          else let d = to_ideal ideal q e in dec_fix (Dec (sg * coeff d) (expo d)))"

section \<open>Texts, numbers and dates\<close>

definition own_text :: "xml option \<Rightarrow> pystr" where
  "own_text e = (case e of None \<Rightarrow> [] | Some x \<Rightarrow> nsp (xtext x))"

definition pep_dec :: "pystr \<Rightarrow> decimal option" where
  "pep_dec s = decimal_of_text s"

definition slack_value :: "bool \<Rightarrow> decimal" where
  "slack_value huf = (if huf then Dec 5 (- 1) else Dec 2 (- 2))"

definition slack_holds :: "decimal \<Rightarrow> decimal \<Rightarrow> decimal \<Rightarrow> dec_exc + bool" where
  "slack_holds ex v slack = bindE (dec_add ex slack) (\<lambda>hi. if dec_less hi v then Inr False
     else bindE (dec_sub ex slack) (\<lambda>lo. Inr (\<not> dec_less v lo)))"

text \<open>\<open>_dbl\<close>: a finite double, an infinity (\<open>True\<close> is the negative one) or a NaN.\<close>

datatype dbl = DFin rat | DInf bool | DNaN

definition dbl_of_text :: "pystr \<Rightarrow> dbl option" where
  "dbl_of_text s =
     (let t = py_strip s; l = lower_ascii t; (g, w) = sign_of l in
      if t = [] \<or> w = ascii ''infinity'' then None
      else if \<not> underscores_ok False t then None
      else case number_of (filter (\<lambda>c. c \<noteq> 95) t) of
        Some (c, e) \<Rightarrow> Some (case to_double (of_int c * 10 powi e) of
          Some v \<Rightarrow> DFin v | None \<Rightarrow> DInf (c < 0))
      | None \<Rightarrow> if w = ascii ''inf'' then Some (DInf (g < 0))
          else if w = ascii ''nan'' then Some DNaN else None)"

fun nonpos :: "dbl \<Rightarrow> bool" where
  "nonpos (DFin v) = (v \<le> 0)"
| "nonpos (DInf n) = n"
| "nonpos DNaN = False"

fun nonneg :: "dbl \<Rightarrow> bool" where
  "nonneg (DFin v) = (0 \<le> v)"
| "nonneg (DInf n) = (\<not> n)"
| "nonneg DNaN = False"

fun negative :: "dbl \<Rightarrow> bool" where
  "negative (DFin v) = (v < 0)"
| "negative (DInf n) = n"
| "negative DNaN = False"

text \<open>\<open>_date\<close>: year, month and day; a time zone is accepted and ignored.\<close>

definition digits_value :: "pystr \<Rightarrow> int" where
  "digits_value s = foldl (\<lambda>v c. case digit_of c of None \<Rightarrow> v | Some d \<Rightarrow> 10 * v + int d) 0 s"

definition zone_ok :: "pystr \<Rightarrow> bool" where
  "zone_ok z \<longleftrightarrow> z = [] \<or> z = [90] \<or>
     (case z of [s, a, b, c, d, e] \<Rightarrow> (s = 43 \<or> s = 45) \<and> is_digit a \<and> is_digit b \<and> c = 58 \<and>
        is_digit d \<and> is_digit e
      | _ \<Rightarrow> False)"

definition pep_date :: "pystr \<Rightarrow> (int \<times> int \<times> int) option" where
  "pep_date text =
     (let t = py_strip text; neg = (t \<noteq> [] \<and> hd t = 45); u = (if neg then tl t else t);
          ys = takeWhile is_digit u in
      if length ys < 4 then None
      else case dropWhile is_digit u of
        h # m1 # m2 # k # d1 # d2 # z \<Rightarrow>
          if h = 45 \<and> k = 45 \<and> list_all is_digit [m1, m2, d1, d2] \<and> zone_ok z
          then let y = (if neg then - digits_value ys else digits_value ys);
                 m = digits_value [m1, m2]; d = digits_value [d1, d2]
               in if 1 \<le> m \<and> m \<le> 12 \<and> 1 \<le> d \<and> d \<le> 31 then Some (y, m, d) else None
          else None
      | _ \<Rightarrow> None)"

fun date_le :: "int \<times> int \<times> int \<Rightarrow> int \<times> int \<times> int \<Rightarrow> bool" where
  "date_le (y, m, d) (y', m', d') \<longleftrightarrow> y < y' \<or> (y = y' \<and> (m < m' \<or> (m = m' \<and> d \<le> d')))"

text \<open>\<open>xs:decimal\<close> of the single node of a path: whether there is a node, and its value.\<close>

definition single_dec :: "xml \<Rightarrow> pystr list \<Rightarrow> decimal \<Rightarrow> bool \<times> decimal option" where
  "single_dec parent path dflt = (case xfindall path parent of
     [] \<Rightarrow> (False, Some dflt) | [e] \<Rightarrow> (True, pep_dec (strval e)) | _ \<Rightarrow> (True, None))"

fun sum_decs :: "decimal \<Rightarrow> pystr list \<Rightarrow> dec_exc + decimal option" where
  "sum_decs s [] = Inr (Some s)"
| "sum_decs s (t # ts) = (case pep_dec t of None \<Rightarrow> Inr None
     | Some d \<Rightarrow> bindE (dec_add s d) (\<lambda>s'. sum_decs s' ts))"

text \<open>The rounded sum of the allowances or charges with the given indicator.\<close>

definition pep_ac_sum :: "pystr list \<Rightarrow> pystr list \<Rightarrow> string \<Rightarrow> xml list \<Rightarrow> dec_exc + decimal option" where
  "pep_ac_sum ind_path amount_path indicator acs =
     (if list_ex (\<lambda>ac. 1 < length (xfindall ind_path ac)) acs then Inr None
      else let matched = filter (\<lambda>ac. nsp (sv (xfind ind_path ac)) = ascii indicator) acs in
        if matched = [] then Inr (Some (Dec 0 0))
        else bindE (sum_decs (Dec 0 0) (map strval (concat (map (xfindall amount_path) matched))))
          (\<lambda>t. case t of None \<Rightarrow> Inr None
           | Some s \<Rightarrow> bindE (dec_mul s (Dec 100 0)) (\<lambda>x. bindE (fn_round x) (\<lambda>y.
               bindE (dec_div y (Dec 100 0)) (\<lambda>z. Inr (Some z))))))"

text \<open>Whether the net amount of a line is the value of its terms, within the slack.\<close>

definition line_amount_holds ::
    "decimal \<Rightarrow> decimal \<Rightarrow> decimal \<Rightarrow> decimal \<Rightarrow> decimal \<Rightarrow> decimal \<Rightarrow> decimal \<Rightarrow> dec_exc + bool" where
  "line_amount_holds lea qty price bq charges allowances slack =
     bindE (dec_div price bq) (\<lambda>u. bindE (dec_mul qty u) (\<lambda>x. bindE (dec_add x charges) (\<lambda>y.
     bindE (dec_sub y allowances) (\<lambda>v. slack_holds lea v slack))))"

definition percentage_holds :: "decimal \<Rightarrow> decimal \<Rightarrow> decimal \<Rightarrow> decimal \<Rightarrow> dec_exc + bool" where
  "percentage_holds amount base pct slack =
     bindE (dec_mul base pct) (\<lambda>p. bindE (dec_div p (Dec 100 0)) (\<lambda>v. slack_holds amount v slack))"

text \<open>The amount of an optional element: zero when it is absent.\<close>

definition amount_or_zero :: "xml option \<Rightarrow> decimal option" where
  "amount_or_zero e = (case e of None \<Rightarrow> Some (Dec 0 0) | Some x \<Rightarrow> pep_dec (strval x))"

section \<open>Rules on UBL documents\<close>

definition ubl_doc_and_line_allowance_charges :: "xml \<Rightarrow> xml list" where
  "ubl_doc_and_line_allowance_charges r =
     xfindall [cac ''AllowanceCharge''] r @ xfindall [cac ''InvoiceLine'', cac ''AllowanceCharge''] r"

definition ubl_price_allowance_charges :: "xml \<Rightarrow> (xml \<times> xml) list" where
  "ubl_price_allowance_charges r = concat (map (\<lambda>p. map (\<lambda>ac. (p, ac))
     (xfindall [cac ''AllowanceCharge''] p)) (iter_tag (cac ''Price'') r))"

definition ubl_is_huf :: "xml \<Rightarrow> bool" where
  "ubl_is_huf r \<longleftrightarrow> list_ex (\<lambda>e. strval e = ascii ''HUF'') (xfindall [cbc ''DocumentCurrencyCode''] r)"

definition ubl_r001 :: "xml \<Rightarrow> violation option" where
  "ubl_r001 r =
     (if has_path [cbc ''ProfileID''] r then None
      else Some (XV Fatal ''PEPPOL-EN16931-R001''
        [L ''Business process MUST be provided.'']
        [L ''cbc:ProfileID'']))"

definition ubl_r005 :: "xml \<Rightarrow> violation option" where
  "ubl_r005 r =
     first_some (\<lambda>(tcc, up). case up of [] \<Rightarrow> None
       | parent # _ \<Rightarrow> if own_text (Some tcc) = own_text (xfind [cbc ''DocumentCurrencyCode''] parent)
           then Some (XV Fatal ''PEPPOL-EN16931-R005''
             [L ''VAT accounting currency code MUST be different from invoice currency code '',
              L ''when provided.'']
             [L ''cbc:TaxCurrencyCode''])
           else None)
       (filter (\<lambda>(e, up). xtag e = cbc ''TaxCurrencyCode'') (iter_up [] r))"

definition is_blank :: "xml \<Rightarrow> bool" where
  "is_blank e \<longleftrightarrow> kids e = [] \<and> nsp (xtext e) = []"

definition ubl_r008 :: "xml \<Rightarrow> violation option" where
  "ubl_r008 r =
     first_some (\<lambda>e. if is_blank e
       then Some (XV Fatal ''PEPPOL-EN16931-R008''
         [L ''Document MUST not contain empty elements.'']
         [S (xtag e)])
       else None) (iter r)"

definition ubl_r010 :: "xml \<Rightarrow> violation option" where
  "ubl_r010 r =
     first_some (\<lambda>party. if has_path [cbc ''EndpointID''] party then None
       else Some (XV Fatal ''PEPPOL-EN16931-R010''
         [L ''Buyer electronic address MUST be provided'']
         [L ''cac:AccountingCustomerParty/cac:Party/cbc:EndpointID'']))
       (concat (map (xfindall [cac ''Party'']) (iter_tag (cac ''AccountingCustomerParty'') r)))"

definition ubl_r020 :: "xml \<Rightarrow> violation option" where
  "ubl_r020 r =
     first_some (\<lambda>party. if has_path [cbc ''EndpointID''] party then None
       else Some (XV Fatal ''PEPPOL-EN16931-R020''
         [L ''Seller electronic address MUST be provided'']
         [L ''cac:AccountingSupplierParty/cac:Party/cbc:EndpointID'']))
       (concat (map (xfindall [cac ''Party'']) (iter_tag (cac ''AccountingSupplierParty'') r)))"

definition ubl_r040 :: "xml \<Rightarrow> dec_exc + violation option" where
  "ubl_r040 r =
     first_someE (\<lambda>ac. case (xfind [cbc ''MultiplierFactorNumeric''] ac, xfind [cbc ''BaseAmount''] ac) of
         (Some m, Some b) \<Rightarrow>
           (case (amount_or_zero (xfind [cbc ''Amount''] ac), pep_dec (strval b), pep_dec (strval m)) of
              (Some amount, Some bd, Some md) \<Rightarrow>
                bindE (percentage_holds amount bd md (slack_value (ubl_is_huf r))) (\<lambda>ok. Inr (if ok then None
                  else Some (XV Fatal ''PEPPOL-EN16931-R040''
                    [L ''Allowance/charge amount must equal base amount * percentage/100 if base '',
                     L ''amount and percentage exists'']
                    [L ''cac:AllowanceCharge/cbc:Amount''])))
            | _ \<Rightarrow> Inr None)
       | _ \<Rightarrow> Inr None) (ubl_doc_and_line_allowance_charges r)"

definition ubl_r041 :: "xml \<Rightarrow> violation option" where
  "ubl_r041 r =
     first_some (\<lambda>ac. if has_path [cbc ''MultiplierFactorNumeric''] ac \<and> \<not> has_path [cbc ''BaseAmount''] ac
       then Some (XV Fatal ''PEPPOL-EN16931-R041''
         [L ''Allowance/charge base amount MUST be provided when allowance/charge '',
          L ''percentage is provided.'']
         [L ''cac:AllowanceCharge/cbc:BaseAmount''])
       else None) (ubl_doc_and_line_allowance_charges r)"

definition ubl_r042 :: "xml \<Rightarrow> violation option" where
  "ubl_r042 r =
     first_some (\<lambda>ac. if \<not> has_path [cbc ''MultiplierFactorNumeric''] ac \<and> has_path [cbc ''BaseAmount''] ac
       then Some (XV Fatal ''PEPPOL-EN16931-R042''
         [L ''Allowance/charge percentage MUST be provided when allowance/charge base '',
          L ''amount is provided.'']
         [L ''cac:AllowanceCharge/cbc:MultiplierFactorNumeric''])
       else None) (ubl_doc_and_line_allowance_charges r)"

definition is_true_false :: "pystr \<Rightarrow> bool" where
  "is_true_false t \<longleftrightarrow> t = ascii ''true'' \<or> t = ascii ''false''"

definition ubl_r043 :: "xml \<Rightarrow> violation option" where
  "ubl_r043 r =
     first_some (\<lambda>ac. if \<not> is_true_false (own_text (xfind [cbc ''ChargeIndicator''] ac))
       then Some (XV Fatal ''PEPPOL-EN16931-R043''
         [L ''Allowance/charge ChargeIndicator value MUST equal 'true' or 'false'', U 39]
         [L ''cac:AllowanceCharge/cbc:ChargeIndicator''])
       else None) (ubl_doc_and_line_allowance_charges r)"

definition ubl_r044 :: "xml \<Rightarrow> violation option" where
  "ubl_r044 r =
     first_some (\<lambda>(p, ac). if nsp (sv (xfind [cbc ''ChargeIndicator''] ac)) \<noteq> ascii ''false''
       then Some (XV Fatal ''PEPPOL-EN16931-R044''
         [L ''Charge on price level is NOT allowed. Only value 'false' allowed.'']
         [L ''cac:Price/cac:AllowanceCharge/cbc:ChargeIndicator''])
       else None) (ubl_price_allowance_charges r)"

text \<open>Whether the net price differs from the gross price less the allowance; \<open>None\<close> when one of them is no number.\<close>

definition price_differs :: "decimal option \<Rightarrow> decimal option \<Rightarrow> decimal option \<Rightarrow> dec_exc + bool" where
  "price_differs net gross allowance = (case (net, gross, allowance) of
     (Some n, Some g, Some a) \<Rightarrow> bindE (dec_sub g a) (\<lambda>d. Inr (\<not> dec_eq n d))
   | _ \<Rightarrow> Inr False)"

definition ubl_r046 :: "xml \<Rightarrow> dec_exc + violation option" where
  "ubl_r046 r =
     first_someE (\<lambda>(p, ac). case xfind [cbc ''BaseAmount''] ac of None \<Rightarrow> Inr None
       | Some base \<Rightarrow>
           bindE (case (xfind [cbc ''PriceAmount''] p, xfind [cbc ''Amount''] ac) of
               (Some pa, Some amt) \<Rightarrow>
                 price_differs (pep_dec (strval pa)) (pep_dec (strval base)) (pep_dec (strval amt))
             | _ \<Rightarrow> Inr True)
             (\<lambda>b. Inr (if b then Some (XV Fatal ''PEPPOL-EN16931-R046''
               [L ''Item net price MUST equal (Gross price - Allowance amount) when gross price '',
                L ''is provided.'']
               [L ''cac:Price/cbc:PriceAmount''])
               else None))) (ubl_price_allowance_charges r)"

definition ubl_r053 :: "xml \<Rightarrow> violation option" where
  "ubl_r053 r =
     (if length (filter (has_path [cac ''TaxSubtotal'']) (xfindall [cac ''TaxTotal''] r)) \<noteq> 1
      then Some (XV Fatal ''PEPPOL-EN16931-R053''
        [L ''Only one tax total with tax subtotals MUST be provided.'']
        [L ''cac:TaxTotal'']) else None)"

definition ubl_r054 :: "xml \<Rightarrow> violation option" where
  "ubl_r054 r =
     (let n = length (filter (\<lambda>tt. \<not> has_path [cac ''TaxSubtotal''] tt) (xfindall [cac ''TaxTotal''] r));
          want = (if has_path [cbc ''TaxCurrencyCode''] r then 1 else 0)
      in if n \<noteq> want then Some (XV Fatal ''PEPPOL-EN16931-R054''
        [L ''Only one tax total without tax subtotals MUST be provided when tax currency '',
         L ''code is provided.'']
        [L ''cac:TaxTotal'']) else None)"

text \<open>The amounts with a currency, and the test on the signs of the two groups.\<close>

definition amounts_in :: "pystr \<Rightarrow> xml \<Rightarrow> dbl option list" where
  "amounts_in cur r = map (\<lambda>ta. dbl_of_text (strval ta))
     (filter (\<lambda>ta. xget ''currencyID'' ta = Some cur) (xfindall [cac ''TaxTotal'', cbc ''TaxAmount''] r))"

definition same_sign :: "(dbl \<Rightarrow> bool) \<Rightarrow> dbl option list \<Rightarrow> dbl option list \<Rightarrow> bool" where
  "same_sign below xs ys \<longleftrightarrow> None \<in> set (xs @ ys) \<or>
     (let a = List.map_filter (\<lambda>x. x) xs; b = List.map_filter (\<lambda>x. x) ys in
      (list_ex below a \<and> list_ex below b) \<or> (list_ex nonneg a \<and> list_ex nonneg b))"

definition ubl_r055 :: "xml \<Rightarrow> violation option" where
  "ubl_r055 r =
     (case (xfindall [cbc ''TaxCurrencyCode''] r, xfindall [cbc ''DocumentCurrencyCode''] r) of
        ([t], dccs) \<Rightarrow> if 1 < length dccs then None
          else if same_sign nonpos (amounts_in (nsp (sv (Some t))) r) (amounts_in (nsp (sv (first dccs))) r)
          then None
          else Some (XV Fatal ''PEPPOL-EN16931-R055''
            [L ''Invoice total VAT amount and Invoice total VAT amount in accounting '',
             L ''currency MUST have the same operational sign'']
            [L ''cac:TaxTotal/cbc:TaxAmount''])
      | _ \<Rightarrow> None)"

definition direct_debit_code :: "xml list \<Rightarrow> bool" where
  "direct_debit_code codes = (case codes of
     [c] \<Rightarrow> nsp (sv (Some c)) = ascii ''49'' \<or> nsp (sv (Some c)) = ascii ''59'' | _ \<Rightarrow> False)"

definition ubl_r061 :: "xml \<Rightarrow> violation option" where
  "ubl_r061 r =
     first_some (\<lambda>pm. if direct_debit_code (xfindall [cbc ''PaymentMeansCode''] pm) \<and>
         \<not> has_path [cac ''PaymentMandate'', cbc ''ID''] pm
       then Some (XV Fatal ''PEPPOL-EN16931-R061''
         [L ''Mandate reference MUST be provided for direct debit.'']
         [L ''cac:PaymentMeans/cac:PaymentMandate/cbc:ID''])
       else None) (iter_tag (cac ''PaymentMeans'') r)"

definition ubl_r101 :: "xml \<Rightarrow> violation option" where
  "ubl_r101 r =
     first_some (\<lambda>l. if has_path [cac ''DocumentReference''] l \<and>
         \<not> list_ex (\<lambda>dtc. strval dtc = ascii ''130'') (xfindall [cac ''DocumentReference'', cbc ''DocumentTypeCode''] l)
       then Some (XV Fatal ''PEPPOL-EN16931-R101''
         [L ''Element Document reference can only be used for Invoice line object'']
         [L ''cac:InvoiceLine/cac:DocumentReference/cbc:DocumentTypeCode''])
       else None) (iter_tag (cac ''InvoiceLine'') r)"

text \<open>The walk over the dates of the line periods: the first one outside, or without text, is reported; one that is no date ends the walk.\<close>

fun outside_period :: "((int \<times> int \<times> int) \<Rightarrow> bool) \<Rightarrow> xml list \<Rightarrow> bool" where
  "outside_period ok [] = False"
| "outside_period ok (d # ds) = (case xtext d of None \<Rightarrow> True
     | Some t \<Rightarrow> (case pep_date t of None \<Rightarrow> False
         | Some v \<Rightarrow> if ok v then outside_period ok ds else True))"

definition ubl_line_period_check ::
    "((int \<times> int \<times> int) \<Rightarrow> (int \<times> int \<times> int) \<Rightarrow> bool) \<Rightarrow> string \<Rightarrow> xml \<Rightarrow> bool" where
  "ubl_line_period_check cmp which r =
     (case xfindall [cac ''InvoicePeriod'', cbc which] r of
        [h] \<Rightarrow> (case pep_date (strval h) of None \<Rightarrow> False
          | Some doc \<Rightarrow> outside_period (\<lambda>v. cmp v doc)
              (xfindall [cac ''InvoiceLine'', cac ''InvoicePeriod'', cbc which] r))
      | _ \<Rightarrow> False)"

definition ubl_r110 :: "xml \<Rightarrow> violation option" where
  "ubl_r110 r =
     (if ubl_line_period_check (\<lambda>v doc. date_le doc v) ''StartDate'' r
      then Some (XV Fatal ''PEPPOL-EN16931-R110''
        [L ''Start date of line period MUST be within invoice period.'']
        [L ''cac:InvoiceLine/cac:InvoicePeriod/cbc:StartDate'']) else None)"

definition ubl_r111 :: "xml \<Rightarrow> violation option" where
  "ubl_r111 r =
     (if ubl_line_period_check date_le ''EndDate'' r
      then Some (XV Fatal ''PEPPOL-EN16931-R111''
        [L ''End date of line period MUST be within invoice period.'']
        [L ''cac:InvoiceLine/cac:InvoicePeriod/cbc:EndDate'']) else None)"

definition ubl_r120 :: "xml \<Rightarrow> dec_exc + violation option" where
  "ubl_r120 r =
     first_someE (\<lambda>l.
       case (snd (single_dec l [cbc ''LineExtensionAmount''] (Dec 0 0)),
             snd (single_dec l [cbc ''InvoicedQuantity''] (Dec 1 0)),
             snd (single_dec l [cac ''Price'', cbc ''PriceAmount''] (Dec 0 0)),
             snd (single_dec l [cac ''Price'', cbc ''BaseQuantity''] (Dec 1 0))) of
         (Some lea, Some qty, Some price, Some bq0) \<Rightarrow>
           let bq = (if dec_eq bq0 (Dec 0 0) then Dec 1 0 else bq0);
               acs = xfindall [cac ''AllowanceCharge''] l;
               tot = (\<lambda>ind. pep_ac_sum [cbc ''ChargeIndicator''] [cbc ''Amount''] ind acs)
           in bindE (tot ''false'') (\<lambda>al. bindE (tot ''true'') (\<lambda>ch. case (al, ch) of
                (Some allowances, Some charges) \<Rightarrow>
                  bindE (line_amount_holds lea qty price bq charges allowances (slack_value (ubl_is_huf r)))
                    (\<lambda>ok. Inr (if ok then None
                      else Some (XV Warning ''PEPPOL-EN16931-R120''
                        [L ''Invoice line net amount MUST equal (Invoiced quantity * (Item net '',
                         L ''price/item price base quantity) + Sum of invoice line charge amount - sum '',
                         L ''of invoice line allowance amount'']
                        [L ''cac:InvoiceLine/cbc:LineExtensionAmount''])))
              | _ \<Rightarrow> Inr None))
       | _ \<Rightarrow> Inr None) (iter_tag (cac ''InvoiceLine'') r)"

text \<open>A single base quantity that is a number and is not above zero.\<close>

definition not_positive :: "xml list \<Rightarrow> bool" where
  "not_positive bqs = (case bqs of
     [b] \<Rightarrow> (case pep_dec (strval b) of None \<Rightarrow> False | Some d \<Rightarrow> \<not> dec_less (Dec 0 0) d)
   | _ \<Rightarrow> False)"

definition ubl_r121 :: "xml \<Rightarrow> violation option" where
  "ubl_r121 r =
     first_some (\<lambda>l. if not_positive (xfindall [cac ''Price'', cbc ''BaseQuantity''] l)
       then Some (XV Fatal ''PEPPOL-EN16931-R121''
         [L ''Base quantity MUST be a positive number above zero.'']
         [L ''cac:InvoiceLine/cac:Price/cbc:BaseQuantity''])
       else None) (iter_tag (cac ''InvoiceLine'') r)"

text \<open>A base quantity whose unit is none of the given ones.\<close>

definition other_unit :: "xml list \<Rightarrow> xml \<Rightarrow> bool" where
  "other_unit quantities bq = (case xget ''unitCode'' bq of None \<Rightarrow> False
     | Some uc \<Rightarrow> \<not> list_ex (\<lambda>q. xget ''unitCode'' q = Some uc) quantities)"

definition ubl_r130 :: "xml \<Rightarrow> violation option" where
  "ubl_r130 r =
     first_some (\<lambda>(price, up). case up of [] \<Rightarrow> None
       | l # _ \<Rightarrow> if \<not> has_path [cbc ''InvoicedQuantity''] l \<and> \<not> has_path [cbc ''CreditedQuantity''] l then None
           else if list_ex (other_unit (xfindall [cbc ''InvoicedQuantity''] l)) (xfindall [cbc ''BaseQuantity''] price)
           then Some (XV Fatal ''PEPPOL-EN16931-R130''
             [L ''Unit code of price base quantity MUST be same as invoiced quantity.'']
             [L ''cac:Price/cbc:BaseQuantity/@unitCode''])
           else None)
       (filter (\<lambda>(e, up). xtag e = cac ''Price'') (iter_up [] r))"

section \<open>Rules on CII documents\<close>

definition cii_gross_prices :: "xml \<Rightarrow> (xml \<times> xml) list" where
  "cii_gross_prices r = concat (map (\<lambda>agr. map (\<lambda>gp. (agr, gp))
     (xfindall [ram ''GrossPriceProductTradePrice''] agr))
     (xfindall [rsm ''SupplyChainTradeTransaction'', ram ''IncludedSupplyChainTradeLineItem'', ram ''SpecifiedLineTradeAgreement''] r))"

definition cii_doc_currency_els :: "xml \<Rightarrow> string \<Rightarrow> xml list" where
  "cii_doc_currency_els r which = xfindall
     [rsm ''SupplyChainTradeTransaction'', ram ''ApplicableHeaderTradeSettlement'', ram which] r"

definition cii_is_huf :: "xml \<Rightarrow> bool" where
  "cii_is_huf r \<longleftrightarrow> list_ex (\<lambda>e. strval e = ascii ''HUF'') (cii_doc_currency_els r ''InvoiceCurrencyCode'')"

definition indicator_text :: "xml \<Rightarrow> pystr" where
  "indicator_text ac = own_text (xfind [ram ''ChargeIndicator'', udt ''Indicator''] ac)"

definition cii_r001 :: "xml \<Rightarrow> violation option" where
  "cii_r001 r =
     first_some (\<lambda>e. if \<not> has_path [ram ''BusinessProcessSpecifiedDocumentContextParameter'', ram ''ID''] e
       then Some (XV Fatal ''PEPPOL-EN16931-R001''
         [L ''Business process MUST be provided.'']
         [L ''rsm:ExchangedDocumentContext/'',
          L ''ram:BusinessProcessSpecifiedDocumentContextParameter/ram:ID''])
       else None) (iter_tag (rsm ''ExchangedDocumentContext'') r)"

definition cii_r005 :: "xml \<Rightarrow> violation option" where
  "cii_r005 r =
     first_some (\<lambda>e. if has_path [ram ''TaxCurrencyCode''] e \<and>
         own_text (xfind [ram ''TaxCurrencyCode''] e) = own_text (xfind [ram ''InvoiceCurrencyCode''] e)
       then Some (XV Fatal ''PEPPOL-EN16931-R005''
         [L ''VAT accounting currency code MUST be different from invoice currency code '',
          L ''when provided.'']
         [L ''ram:ApplicableHeaderTradeSettlement/ram:TaxCurrencyCode''])
       else None) (iter_tag (ram ''ApplicableHeaderTradeSettlement'') r)"

definition cii_r008 :: "xml \<Rightarrow> violation option" where
  "cii_r008 r =
     first_some (\<lambda>e. if xtag e \<noteq> ram ''ApplicableHeaderTradeDelivery'' \<and> is_blank e
       then Some (XV Fatal ''PEPPOL-EN16931-R008''
         [L ''Document MUST not contain empty elements.'']
         [S (xtag e)])
       else None) (iter r)"

definition cii_r010 :: "xml \<Rightarrow> violation option" where
  "cii_r010 r =
     first_some (\<lambda>e. if \<not> has_path [ram ''URIUniversalCommunication'', ram ''URIID''] e
       then Some (XV Fatal ''PEPPOL-EN16931-R010''
         [L ''Buyer electronic address MUST be provided'']
         [L ''ram:BuyerTradeParty/ram:URIUniversalCommunication/ram:URIID''])
       else None) (iter_tag (ram ''BuyerTradeParty'') r)"

definition cii_r020 :: "xml \<Rightarrow> violation option" where
  "cii_r020 r =
     first_some (\<lambda>e. if \<not> has_path [ram ''URIUniversalCommunication'', ram ''URIID''] e
       then Some (XV Fatal ''PEPPOL-EN16931-R020''
         [L ''Seller electronic address MUST be provided'']
         [L ''ram:SellerTradeParty/ram:URIUniversalCommunication/ram:URIID''])
       else None) (iter_tag (ram ''SellerTradeParty'') r)"

definition cii_r040 :: "xml \<Rightarrow> dec_exc + violation option" where
  "cii_r040 r =
     first_someE (\<lambda>ac. case (xfind [ram ''CalculationPercent''] ac, xfind [ram ''BasisAmount''] ac) of
         (Some m, Some b) \<Rightarrow>
           (case (amount_or_zero (xfind [ram ''ActualAmount''] ac), pep_dec (strval b), pep_dec (strval m)) of
              (Some amount, Some bd, Some md) \<Rightarrow>
                bindE (percentage_holds amount bd md (slack_value (cii_is_huf r))) (\<lambda>ok. Inr (if ok then None
                  else Some (XV Fatal ''PEPPOL-EN16931-R040''
                    [L ''Allowance/charge amount must equal base amount * percentage/100 if base '',
                     L ''amount and percentage exists'']
                    [L ''ram:SpecifiedTradeAllowanceCharge/ram:ActualAmount''])))
            | _ \<Rightarrow> Inr None)
       | _ \<Rightarrow> Inr None) (iter_tag (ram ''SpecifiedTradeAllowanceCharge'') r)"

definition cii_r041 :: "xml \<Rightarrow> violation option" where
  "cii_r041 r =
     first_some (\<lambda>ac. if has_path [ram ''CalculationPercent''] ac \<and> \<not> has_path [ram ''BasisAmount''] ac
       then Some (XV Fatal ''PEPPOL-EN16931-R041''
         [L ''Allowance/charge base amount MUST be provided when allowance/charge '',
          L ''percentage is provided.'']
         [L ''ram:SpecifiedTradeAllowanceCharge/ram:BasisAmount''])
       else None) (iter_tag (ram ''SpecifiedTradeAllowanceCharge'') r)"

definition cii_r042 :: "xml \<Rightarrow> violation option" where
  "cii_r042 r =
     first_some (\<lambda>ac. if \<not> has_path [ram ''CalculationPercent''] ac \<and> has_path [ram ''BasisAmount''] ac
       then Some (XV Fatal ''PEPPOL-EN16931-R042''
         [L ''Allowance/charge percentage MUST be provided when allowance/charge base '',
          L ''amount is provided.'']
         [L ''ram:SpecifiedTradeAllowanceCharge/ram:CalculationPercent''])
       else None) (iter_tag (ram ''SpecifiedTradeAllowanceCharge'') r)"

definition cii_r043_1 :: "xml \<Rightarrow> violation option" where
  "cii_r043_1 r =
     first_some (\<lambda>ac. if \<not> is_true_false (indicator_text ac)
       then Some (XV Fatal ''PEPPOL-EN16931-R043''
         [L ''Allowance/charge ChargeIndicator value MUST equal 'true' or 'false'', U 39]
         [L ''ram:SpecifiedTradeAllowanceCharge/ram:ChargeIndicator/udt:Indicator''])
       else None) (iter_tag (ram ''SpecifiedTradeAllowanceCharge'') r)"

definition cii_r043_2 :: "xml \<Rightarrow> violation option" where
  "cii_r043_2 r =
     first_some (\<lambda>ac. if \<not> is_true_false (indicator_text ac)
       then Some (XV Fatal ''PEPPOL-EN16931-R043''
         [L ''Allowance/charge ChargeIndicator value MUST equal 'true' or 'false'', U 39]
         [L ''ram:AppliedTradeAllowanceCharge/ram:ChargeIndicator/udt:Indicator''])
       else None) (iter_tag (ram ''AppliedTradeAllowanceCharge'') r)"

definition cii_r044 :: "xml \<Rightarrow> violation option" where
  "cii_r044 r =
     first_some (\<lambda>(agr, gp). if has_path [ram ''AppliedTradeAllowanceCharge'', ram ''ActualAmount''] gp \<and>
         \<not> list_ex (\<lambda>i. strval i = ascii ''false'')
           (xfindall [ram ''AppliedTradeAllowanceCharge'', ram ''ChargeIndicator'', udt ''Indicator''] gp)
       then Some (XV Fatal ''PEPPOL-EN16931-R044''
         [L ''Charge on price level is NOT allowed. Only value 'false' allowed.'']
         [L ''ram:GrossPriceProductTradePrice/ram:AppliedTradeAllowanceCharge/'',
          L ''ram:ChargeIndicator/udt:Indicator''])
       else None) (cii_gross_prices r)"

definition cii_r046 :: "xml \<Rightarrow> dec_exc + violation option" where
  "cii_r046 r =
     first_someE (\<lambda>(agr, gp). case xfind [ram ''ChargeAmount''] gp of None \<Rightarrow> Inr None
       | Some charge \<Rightarrow>
           bindE (case xfind [ram ''NetPriceProductTradePrice'', ram ''ChargeAmount''] agr of None \<Rightarrow> Inr True
             | Some net \<Rightarrow> price_differs (pep_dec (strval net)) (pep_dec (strval charge))
                 (amount_or_zero (xfind [ram ''AppliedTradeAllowanceCharge'', ram ''ActualAmount''] gp)))
             (\<lambda>b. Inr (if b then Some (XV Fatal ''PEPPOL-EN16931-R046''
               [L ''Item net price MUST equal (Gross price - Allowance amount) when gross price '',
                L ''is provided.'']
               [L ''ram:NetPriceProductTradePrice/ram:ChargeAmount''])
               else None))) (cii_gross_prices r)"

definition cii_tax_totals_matching :: "bool \<Rightarrow> xml \<Rightarrow> xml list \<Rightarrow> xml list" where
  "cii_tax_totals_matching negate settlement codes =
     filter (\<lambda>tta. case xget ''currencyID'' tta of None \<Rightarrow> False
       | Some cur \<Rightarrow> list_ex (\<lambda>c. (cur = strval c) \<noteq> negate) codes)
     (xfindall [ram ''SpecifiedTradeSettlementHeaderMonetarySummation'', ram ''TaxTotalAmount''] settlement)"

definition cii_r053 :: "xml \<Rightarrow> violation option" where
  "cii_r053 r =
     first_some (\<lambda>e. if 1 < length (cii_tax_totals_matching False e (cii_doc_currency_els r ''InvoiceCurrencyCode''))
       then Some (XV Fatal ''PEPPOL-EN16931-R053''
         [L ''No more than one tax total amount must be provided where currency id equals '',
          L ''document currency code.'']
         [L ''ram:SpecifiedTradeSettlementHeaderMonetarySummation/ram:TaxTotalAmount''])
       else None) (iter_tag (ram ''ApplicableHeaderTradeSettlement'') r)"

definition cii_r054 :: "xml \<Rightarrow> violation option" where
  "cii_r054 r =
     first_some (\<lambda>e. if length (cii_tax_totals_matching True e (cii_doc_currency_els r ''InvoiceCurrencyCode'')) \<noteq>
         (if has_path [ram ''TaxCurrencyCode''] e then 1 else 0)
       then Some (XV Fatal ''PEPPOL-EN16931-R054''
         [L ''Only one tax total amount must be provided where currency id equals tax '',
          L ''currency code, if tax currency code (BT-6) is provided.'']
         [L ''ram:SpecifiedTradeSettlementHeaderMonetarySummation/ram:TaxTotalAmount''])
       else None) (iter_tag (ram ''ApplicableHeaderTradeSettlement'') r)"

definition cii_r055 :: "xml \<Rightarrow> violation option" where
  "cii_r055 r =
     (let tcc = cii_doc_currency_els r ''TaxCurrencyCode'';
          dcc = cii_doc_currency_els r ''InvoiceCurrencyCode'';
          amounts = map (\<lambda>e. dbl_of_text (strval e)) in
      first_some (\<lambda>st. let doc_els = cii_tax_totals_matching False st dcc in
        if tcc = [] \<or> doc_els = [] then None
        else if same_sign negative (amounts (cii_tax_totals_matching False st tcc)) (amounts doc_els) then None
        else Some (XV Fatal ''PEPPOL-EN16931-R055''
          [L ''Invoice total VAT amount and Invoice total VAT amount in accounting '',
           L ''currency MUST have the same operational sign'']
          [L ''ram:SpecifiedTradeSettlementHeaderMonetarySummation/ram:TaxTotalAmount'']))
        (iter_tag (ram ''ApplicableHeaderTradeSettlement'') r))"

definition cii_r061 :: "xml \<Rightarrow> violation option" where
  "cii_r061 r =
     first_some (\<lambda>(pm, up). case up of [] \<Rightarrow> None
       | parent # _ \<Rightarrow> if direct_debit_code (xfindall [ram ''TypeCode''] pm) \<and>
             \<not> has_path [ram ''SpecifiedTradePaymentTerms'', ram ''DirectDebitMandateID''] parent
           then Some (XV Fatal ''PEPPOL-EN16931-R061''
             [L ''Mandate reference MUST be provided for direct debit.'']
             [L ''ram:SpecifiedTradePaymentTerms/ram:DirectDebitMandateID''])
           else None)
       (filter (\<lambda>(e, up). xtag e = ram ''SpecifiedTradeSettlementPaymentMeans'') (iter_up [] r))"

definition cii_r101 :: "xml \<Rightarrow> violation option" where
  "cii_r101 r =
     first_some (\<lambda>e. if has_path [ram ''SpecifiedLineTradeSettlement'', ram ''AdditionalReferencedDocument''] e \<and>
         \<not> list_ex (\<lambda>tc. strval tc = ascii ''130'')
           (xfindall [ram ''SpecifiedLineTradeSettlement'', ram ''AdditionalReferencedDocument'', ram ''TypeCode''] e)
       then Some (XV Fatal ''PEPPOL-EN16931-R101''
         [L ''Element Additional referenced document can only be used for Invoice line '',
          L ''object.'']
         [L ''ram:SpecifiedLineTradeSettlement/ram:AdditionalReferencedDocument/'',
          L ''ram:TypeCode''])
       else None) (iter_tag (ram ''IncludedSupplyChainTradeLineItem'') r)"

text \<open>The order of \<open>str\<close>, by code points.\<close>

fun str_le :: "pystr \<Rightarrow> pystr \<Rightarrow> bool" where
  "str_le [] ys = True"
| "str_le (x # xs) [] = False"
| "str_le (x # xs) (y # ys) = (x < y \<or> (x = y \<and> str_le xs ys))"

definition cii_line_period_check :: "(pystr \<Rightarrow> pystr \<Rightarrow> bool) \<Rightarrow> string \<Rightarrow> xml \<Rightarrow> bool" where
  "cii_line_period_check cmp which r =
     list_ex (\<lambda>tx.
       let heads = xfindall [ram ''ApplicableHeaderTradeSettlement'', ram ''BillingSpecifiedPeriod'', ram which] tx;
           texts = (\<lambda>h. map strval (xfindall [udt ''DateTimeString''] h));
           head_vals = concat (map texts heads)
       in heads \<noteq> [] \<and> list_ex (\<lambda>dt. \<not> list_ex (\<lambda>lv. list_ex (cmp lv) head_vals) (texts dt))
            (xfindall [ram ''IncludedSupplyChainTradeLineItem'', ram ''SpecifiedLineTradeSettlement'',
               ram ''BillingSpecifiedPeriod'', ram which] tx))
       (xfindall [rsm ''SupplyChainTradeTransaction''] r)"

definition cii_r110 :: "xml \<Rightarrow> violation option" where
  "cii_r110 r =
     (if cii_line_period_check (\<lambda>l h. str_le h l) ''StartDateTime'' r
      then Some (XV Fatal ''PEPPOL-EN16931-R110''
        [L ''Start date of line period MUST be within invoice period.'']
        [L ''ram:SpecifiedLineTradeSettlement/ram:BillingSpecifiedPeriod/'',
         L ''ram:StartDateTime/udt:DateTimeString'']) else None)"

definition cii_r111 :: "xml \<Rightarrow> violation option" where
  "cii_r111 r =
     (if cii_line_period_check str_le ''EndDateTime'' r
      then Some (XV Fatal ''PEPPOL-EN16931-R111''
        [L ''End date of line period MUST be within invoice period.'']
        [L ''ram:SpecifiedLineTradeSettlement/ram:BillingSpecifiedPeriod/ram:EndDateTime/'',
         L ''udt:DateTimeString'']) else None)"

text \<open>The base quantity: the net one when it is a number other than zero, else the gross one, else one; \<open>None\<close> when the quantity that is asked for is no number.\<close>

definition cii_base_quantity :: "xml \<Rightarrow> decimal option" where
  "cii_base_quantity li =
     (let net = single_dec li [ram ''SpecifiedLineTradeAgreement'', ram ''NetPriceProductTradePrice'', ram ''BasisQuantity''] (Dec 1 0);
          gross = single_dec li [ram ''SpecifiedLineTradeAgreement'', ram ''GrossPriceProductTradePrice'', ram ''BasisQuantity''] (Dec 1 0);
          nonzero = (\<lambda>f q. f \<and> \<not> dec_eq q (Dec 0 0))
      in case net of (nf, None) \<Rightarrow> None
       | (nf, Some n) \<Rightarrow> if nonzero nf n then Some n
           else (case gross of (gf, None) \<Rightarrow> None
             | (gf, Some g) \<Rightarrow> Some (if nonzero gf g then g else Dec 1 0)))"

definition cii_r120 :: "xml \<Rightarrow> dec_exc + violation option" where
  "cii_r120 r =
     first_someE (\<lambda>l.
       case (snd (single_dec l [ram ''SpecifiedLineTradeSettlement'', ram ''SpecifiedTradeSettlementLineMonetarySummation'', ram ''LineTotalAmount''] (Dec 0 0)),
             snd (single_dec l [ram ''SpecifiedLineTradeDelivery'', ram ''BilledQuantity''] (Dec 1 0)),
             snd (single_dec l [ram ''SpecifiedLineTradeAgreement'', ram ''NetPriceProductTradePrice'', ram ''ChargeAmount''] (Dec 0 0)),
             cii_base_quantity l) of
         (Some lea, Some qty, Some price, Some bq) \<Rightarrow>
           let acs = xfindall [ram ''SpecifiedLineTradeSettlement'', ram ''SpecifiedTradeAllowanceCharge''] l;
               tot = (\<lambda>ind. pep_ac_sum [ram ''ChargeIndicator'', udt ''Indicator''] [ram ''ActualAmount''] ind acs)
           in bindE (tot ''false'') (\<lambda>al. bindE (tot ''true'') (\<lambda>ch. case (al, ch) of
                (Some allowances, Some charges) \<Rightarrow>
                  bindE (line_amount_holds lea qty price bq charges allowances (slack_value (cii_is_huf r)))
                    (\<lambda>ok. Inr (if ok then None
                      else Some (XV Warning ''PEPPOL-EN16931-R120''
                        [L ''Invoice line net amount MUST equal (Invoiced quantity * (Item net '',
                         L ''price/item price base quantity) + Sum of invoice line charge amount - sum '',
                         L ''of invoice line allowance amount'']
                        [L ''ram:SpecifiedTradeSettlementLineMonetarySummation/ram:LineTotalAmount''])))
              | _ \<Rightarrow> Inr None))
       | _ \<Rightarrow> Inr None) (iter_tag (ram ''IncludedSupplyChainTradeLineItem'') r)"

definition CII_PRICE_TAGS :: "string list" where
  "CII_PRICE_TAGS = [''NetPriceProductTradePrice'', ''GrossPriceProductTradePrice'']"

definition cii_r121 :: "xml \<Rightarrow> violation option" where
  "cii_r121 r =
     first_some (\<lambda>tag. first_some (\<lambda>price. if not_positive (xfindall [ram ''BasisQuantity''] price)
       then Some (XV Fatal ''PEPPOL-EN16931-R121''
         [L ''Base quantity MUST be a positive number above zero.'']
         [L ''ram:'', L tag, L ''/ram:BasisQuantity''])
       else None) (iter_tag (ram tag) r)) CII_PRICE_TAGS"

definition cii_r130 :: "xml \<Rightarrow> violation option" where
  "cii_r130 r =
     first_some (\<lambda>tag. first_some (\<lambda>(price, up).
       let quantities = (case up of agreement # li # _ \<Rightarrow>
             xfindall [ram ''SpecifiedLineTradeDelivery'', ram ''BilledQuantity''] li | _ \<Rightarrow> [])
       in if list_ex (other_unit quantities) (xfindall [ram ''BasisQuantity''] price)
          then Some (XV Fatal ''PEPPOL-EN16931-R130''
            [L ''Unit code of price base quantity MUST be same as invoiced quantity.'']
            [L ''ram:'', L tag, L ''/ram:BasisQuantity/@unitCode''])
          else None) (filter (\<lambda>(e, up). xtag e = ram tag) (iter_up [] r))) CII_PRICE_TAGS"

section \<open>The rulesets\<close>

definition PEP_UBL_RULES :: "(xml \<Rightarrow> dec_exc + violation option) list" where
  "PEP_UBL_RULES =
    [total_rule ubl_r001, total_rule ubl_r005, total_rule ubl_r008, total_rule ubl_r010,
     total_rule ubl_r020, ubl_r040, total_rule ubl_r041, total_rule ubl_r042,
     total_rule ubl_r043, total_rule ubl_r044, ubl_r046, total_rule ubl_r053,
     total_rule ubl_r054, total_rule ubl_r055, total_rule ubl_r061, total_rule ubl_r101,
     total_rule ubl_r110, total_rule ubl_r111, ubl_r120, total_rule ubl_r121,
     total_rule ubl_r130]"

definition PEP_UBL_RULE_IDS :: "(string \<times> severity) list" where
  "PEP_UBL_RULE_IDS =
    [(''PEPPOL-EN16931-R001'', Fatal), (''PEPPOL-EN16931-R005'', Fatal),
     (''PEPPOL-EN16931-R008'', Fatal), (''PEPPOL-EN16931-R010'', Fatal),
     (''PEPPOL-EN16931-R020'', Fatal), (''PEPPOL-EN16931-R040'', Fatal),
     (''PEPPOL-EN16931-R041'', Fatal), (''PEPPOL-EN16931-R042'', Fatal),
     (''PEPPOL-EN16931-R043'', Fatal), (''PEPPOL-EN16931-R044'', Fatal),
     (''PEPPOL-EN16931-R046'', Fatal), (''PEPPOL-EN16931-R053'', Fatal),
     (''PEPPOL-EN16931-R054'', Fatal), (''PEPPOL-EN16931-R055'', Fatal),
     (''PEPPOL-EN16931-R061'', Fatal), (''PEPPOL-EN16931-R101'', Fatal),
     (''PEPPOL-EN16931-R110'', Fatal), (''PEPPOL-EN16931-R111'', Fatal),
     (''PEPPOL-EN16931-R120'', Warning), (''PEPPOL-EN16931-R121'', Fatal),
     (''PEPPOL-EN16931-R130'', Fatal)]"

definition pep_evaluate_ubl :: "xml \<Rightarrow> dec_exc + violation list" where
  "pep_evaluate_ubl r = evaluate_rules PEP_UBL_RULES r"

definition PEP_CII_RULES :: "(xml \<Rightarrow> dec_exc + violation option) list" where
  "PEP_CII_RULES =
    [total_rule cii_r001, total_rule cii_r005, total_rule cii_r008, total_rule cii_r010,
     total_rule cii_r020, cii_r040, total_rule cii_r041, total_rule cii_r042,
     total_rule cii_r043_1, total_rule cii_r043_2, total_rule cii_r044, cii_r046,
     total_rule cii_r053, total_rule cii_r054, total_rule cii_r055, total_rule cii_r061,
     total_rule cii_r101, total_rule cii_r110, total_rule cii_r111, cii_r120,
     total_rule cii_r121, total_rule cii_r130]"

definition PEP_CII_RULE_IDS :: "(string \<times> severity) list" where
  "PEP_CII_RULE_IDS =
    [(''PEPPOL-EN16931-R001'', Fatal), (''PEPPOL-EN16931-R005'', Fatal),
     (''PEPPOL-EN16931-R008'', Fatal), (''PEPPOL-EN16931-R010'', Fatal),
     (''PEPPOL-EN16931-R020'', Fatal), (''PEPPOL-EN16931-R040'', Fatal),
     (''PEPPOL-EN16931-R041'', Fatal), (''PEPPOL-EN16931-R042'', Fatal),
     (''PEPPOL-EN16931-R043'', Fatal), (''PEPPOL-EN16931-R043'', Fatal),
     (''PEPPOL-EN16931-R044'', Fatal), (''PEPPOL-EN16931-R046'', Fatal),
     (''PEPPOL-EN16931-R053'', Fatal), (''PEPPOL-EN16931-R054'', Fatal),
     (''PEPPOL-EN16931-R055'', Fatal), (''PEPPOL-EN16931-R061'', Fatal),
     (''PEPPOL-EN16931-R101'', Fatal), (''PEPPOL-EN16931-R110'', Fatal),
     (''PEPPOL-EN16931-R111'', Fatal), (''PEPPOL-EN16931-R120'', Warning),
     (''PEPPOL-EN16931-R121'', Fatal), (''PEPPOL-EN16931-R130'', Fatal)]"

definition pep_evaluate_cii :: "xml \<Rightarrow> dec_exc + violation list" where
  "pep_evaluate_cii r = evaluate_rules PEP_CII_RULES r"

lemmas [xr_defs] =
  ubl_r001_def ubl_r005_def ubl_r008_def ubl_r010_def ubl_r020_def ubl_r040_def
   ubl_r041_def ubl_r042_def ubl_r043_def ubl_r044_def ubl_r046_def ubl_r053_def
   ubl_r054_def ubl_r055_def ubl_r061_def ubl_r101_def ubl_r110_def ubl_r111_def
   ubl_r120_def ubl_r121_def ubl_r130_def cii_r001_def cii_r005_def cii_r008_def
   cii_r010_def cii_r020_def cii_r040_def cii_r041_def cii_r042_def cii_r043_1_def
   cii_r043_2_def cii_r044_def cii_r046_def cii_r053_def cii_r054_def cii_r055_def
   cii_r061_def cii_r101_def cii_r110_def cii_r111_def cii_r120_def cii_r121_def
   cii_r130_def

end
