(* ===== verification/EI_Parser_Props.thy ===== *)
theory EI_Parser_Props
  imports EI_Parser EI_Parser_Cii
begin

text \<open>
  What both parsers make of the document: which elements become lines, how the lines are
  numbered, and which allowances and charges the rules can see.
\<close>

section \<open>The blocks of the UBL parser that leave the lines alone\<close>

lemma fold_keeps: "(\<And>x iv. f (g iv x) = f iv) \<Longrightarrow> f (foldl g iv xs) = f iv"
  by (induction xs arbitrary: iv) simp_all

lemma parse_taxrep_keeps [simp]:
  "inv_lines (parse_taxrep iv e) = inv_lines iv"
  "doc_allowance_charges (parse_taxrep iv e) = doc_allowance_charges iv"
  by (simp_all add: parse_taxrep_def Let_def)

lemma parse_blocks_lines [simp]:
  "inv_lines (parse_header d iv) = inv_lines iv"
  "inv_lines (parse_codes_1 d iv) = inv_lines iv"
  "inv_lines (parse_codes_2 d iv) = inv_lines iv"
  "inv_lines (parse_schemes d iv) = inv_lines iv"
  "inv_lines (parse_refs d iv) = inv_lines iv"
  "inv_lines (parse_seller d iv) = inv_lines iv"
  "inv_lines (parse_taxreps d iv) = inv_lines iv"
  "inv_lines (parse_buyer d iv) = inv_lines iv"
  "inv_lines (parse_parties d iv) = inv_lines iv"
  "inv_lines (parse_delivery d iv) = inv_lines iv"
  "inv_lines (parse_totals d iv) = inv_lines iv"
  "inv_lines (parse_taxes d iv) = inv_lines iv"
  by (simp_all add: parse_header_def parse_codes_1_def parse_codes_2_def parse_schemes_def
      parse_refs_def parse_seller_def parse_taxreps_def parse_buyer_def parse_parties_def
      parse_delivery_def parse_totals_def parse_taxes_def Let_def fold_keeps split: option.split)

lemma parse_blocks_charges [simp]:
  "doc_allowance_charges (parse_header d iv) = doc_allowance_charges iv"
  "doc_allowance_charges (parse_codes_1 d iv) = doc_allowance_charges iv"
  "doc_allowance_charges (parse_codes_2 d iv) = doc_allowance_charges iv"
  "doc_allowance_charges (parse_schemes d iv) = doc_allowance_charges iv"
  "doc_allowance_charges (parse_refs d iv) = doc_allowance_charges iv"
  "doc_allowance_charges (parse_seller d iv) = doc_allowance_charges iv"
  "doc_allowance_charges (parse_taxreps d iv) = doc_allowance_charges iv"
  "doc_allowance_charges (parse_buyer d iv) = doc_allowance_charges iv"
  "doc_allowance_charges (parse_parties d iv) = doc_allowance_charges iv"
  "doc_allowance_charges (parse_delivery d iv) = doc_allowance_charges iv"
  "doc_allowance_charges (parse_totals d iv) = doc_allowance_charges iv"
  "doc_allowance_charges (parse_lines d iv) = doc_allowance_charges iv"
  by (simp_all add: parse_header_def parse_codes_1_def parse_codes_2_def parse_schemes_def
      parse_refs_def parse_seller_def parse_taxreps_def parse_buyer_def parse_parties_def
      parse_delivery_def parse_totals_def parse_lines_def Let_def fold_keeps split: option.split)

lemma build_model_lines:
  "inv_lines (build_model d) = map (\<lambda>(i, e). parse_line i e) (enumerate 1 (line_elements d))"
  by (simp add: build_model_def parse_lines_def new_invoice_def)

lemma build_model_charges:
  "doc_allowance_charges (build_model d) =
     map build_allowance_charge (xfindall [cac ''AllowanceCharge''] d)"
  by (simp add: build_model_def parse_taxes_def new_invoice_def)

lemma parse_line_parts [simp]:
  "line_index (parse_line i e) = i"
  "line_allowance_charges (parse_line i e) =
     map build_allowance_charge (xfindall [cac ''AllowanceCharge''] e)"
  by (simp_all add: parse_line_def new_line_def Let_def)

lemma numbered_map: "map (\<lambda>(i, e). f e) (enumerate n xs) = map f xs"
  by (induction xs arbitrary: n) simp_all

lemma numbered_fst: "map (\<lambda>(i, e). i) (enumerate n xs) = [n..<n + length xs]"
proof (induction xs arbitrary: n)
  case (Cons x xs)
  have "[n..<n + length (x # xs)] = n # [Suc n..<Suc n + length xs]"
    by (simp only: upt_conv_Cons length_Cons add_Suc_right add_Suc less_add_Suc1)
  then show ?case using Cons by simp
qed simp

lemma document_charges:
  "all_allowance_charges (build_model d) = map build_allowance_charge
     (concat (map (xfindall [cac ''AllowanceCharge'']) (d # line_elements d)))"
proof -
  have "line_allowance_charges \<circ> (\<lambda>(i, e). parse_line i e) =
      (\<lambda>(i, e). map build_allowance_charge (xfindall [cac ''AllowanceCharge''] e))"
    by (rule ext) auto
  then show ?thesis
    using numbered_map [of "\<lambda>e. map build_allowance_charge (xfindall [cac ''AllowanceCharge''] e)"
        1 "line_elements d"]
    by (simp add: all_allowance_charges_def build_model_lines build_model_charges map_concat comp_def)
qed

text \<open>The lines of a UBL document are its invoice lines followed by its credit note lines,
  numbered from 1 without gaps; the allowances and charges that the rules quantify over are
  exactly the children of the root followed by those of each line, in document order.\<close>
theorem document_lines_and_charges:
  "map line_index (inv_lines (build_model d)) = [1..<Suc (length (line_elements d))] \<and>
   all_allowance_charges (build_model d) = map build_allowance_charge
     (concat (map (xfindall [cac ''AllowanceCharge'']) (d # line_elements d)))"
proof
  have "line_index \<circ> (\<lambda>(i, e). parse_line i e) = (\<lambda>(i, e). i)" by (rule ext) auto
  then show "map line_index (inv_lines (build_model d)) = [1..<Suc (length (line_elements d))]"
    using numbered_fst [of 1 "line_elements d"] by (simp add: build_model_lines)
qed (rule document_charges)

text \<open>An allowance of a price is an \<open>AllowanceCharge\<close> of the document that no rule sees.\<close>

definition priced_invoice :: xml where
  "priced_invoice = Elem [] [] None None None
     [Elem (cac ''InvoiceLine'') [] None None None
       [Elem (cac ''Price'') [] None None None
         [Elem (cac ''AllowanceCharge'') [] None None None []]]]"

lemma price_allowance_unseen:
  "all_allowance_charges (build_model priced_invoice) = [] \<and>
   length (iter_tag (cac ''AllowanceCharge'') priced_invoice) = 1"
proof -
  have tags: "cac ''AllowanceCharge'' \<noteq> cac ''InvoiceLine''" "cac ''CreditNoteLine'' \<noteq> cac ''InvoiceLine''"
    "cac ''AllowanceCharge'' \<noteq> cac ''Price''" "cac n \<noteq> []" for n
    by (simp_all add: cac_def qname_def ascii_def)
  show ?thesis
    using tags tags [symmetric]
    by (simp add: document_charges line_elements_def priced_invoice_def xfindall_def
        children_named_def iter_tag_def)
qed

end
