(* ===== verification/EI_Xr_Run.thy ===== *)
theory EI_Xr_Run
  imports EI_Run EI_Validate EI_Peppol EI_Parser_Props
begin

text \<open>
  Runs of the national rulesets and of the facade: which findings they report and in which
  order, when they return, and how the findings of the two profiles are related.
\<close>

section \<open>The findings of the national rules\<close>

definition id_severity :: "violation \<Rightarrow> string \<times> severity" where
  "id_severity v = (v_rule_id v, v_severity v)"

lemma reports_XV [reports_intros]: "reports rid sev (Some (XV sev rid m e))"
  by (simp add: reports_def XV_def Violation_def with_severity_def)

lemma reportsE_total [reports_intros]: "reports rid sev (r x) \<Longrightarrow> reportsE rid sev (total_rule r x)"
  by (simp add: total_rule_def reportsE_def)

lemma reports_list [reports_intros]:
  "reports rid sev a \<Longrightarrow> (\<And>x xs. reports rid sev (f x xs)) \<Longrightarrow> reports rid sev (case_list a f y)"
  by (cases y) simp_all

lemma reports_let [reports_intros]: "(\<And>x. reports rid sev (f x)) \<Longrightarrow> reports rid sev (let y = t in f y)"
  by (simp add: Let_def)

lemma reportsE_let [reports_intros]: "(\<And>x. reportsE rid sev (f x)) \<Longrightarrow> reportsE rid sev (let y = t in f y)"
  by (simp add: Let_def)

lemma reports_scheme [reports_intros]:
  "reports rid sev (Some v) \<Longrightarrow> reports rid sev (scheme_rule ts cs b v r)"
  "reports rid sev (Some v) \<Longrightarrow> reports rid sev (cii_scheme_rule fs cs v iv)"
  unfolding scheme_rule_def cii_scheme_rule_def by (intro reports_intros; simp)+

lemma reportsE_orelse [reports_intros]:
  "reportsE rid sev m \<Longrightarrow> reportsE rid sev n \<Longrightarrow> reportsE rid sev (orelseE m n)"
  by (cases m) (auto simp: orelseE_def reportsE_def split: option.splits)

lemma reportsE_check [reports_intros]:
  "reports rid sev (Some v) \<Longrightarrow> reportsE rid sev (check_sub_sum v node)"
  unfolding check_sub_sum_def by (intro reports_intros)

abbreviation reports_as :: "(string \<times> severity) list \<Rightarrow> ('a \<Rightarrow> dec_exc + violation option) list \<Rightarrow> bool" where
  "reports_as \<equiv> list_all2 (\<lambda>p r. \<forall>x. reportsE (fst p) (snd p) (r x))"

lemma reports_as_Cons:
  "(\<And>x. reportsE rid sev (r x)) \<Longrightarrow> reports_as ps rs \<Longrightarrow> reports_as ((rid, sev) # ps) (r # rs)"
  by simp

lemma reports_as_ubl: "reports_as XR_RULE_IDS XR_RULES"
  unfolding XR_RULE_IDS_def XR_RULES_def
  by (intro reports_as_Cons list_all2_Nil [THEN iffD2] refl conjI;
      unfold xr_defs; intro reports_intros)

lemma reports_as_cii: "reports_as CII_DE_RULE_IDS CII_DE_RULES"
  unfolding CII_DE_RULE_IDS_def CII_DE_RULES_def
  by (intro reports_as_Cons list_all2_Nil [THEN iffD2] refl conjI;
      unfold xr_defs; intro reports_intros)

lemma reports_as_pep_ubl: "reports_as PEP_UBL_RULE_IDS PEP_UBL_RULES"
  unfolding PEP_UBL_RULE_IDS_def PEP_UBL_RULES_def
  by (intro reports_as_Cons list_all2_Nil [THEN iffD2] refl conjI;
      unfold xr_defs; intro reports_intros)

lemma reports_as_pep_cii: "reports_as PEP_CII_RULE_IDS PEP_CII_RULES"
  unfolding PEP_CII_RULE_IDS_def PEP_CII_RULES_def
  by (intro reports_as_Cons list_all2_Nil [THEN iffD2] refl conjI;
      unfold xr_defs; intro reports_intros)

lemma evaluate_reports:
  "reports_as ps rs \<Longrightarrow> evaluate_rules rs x = Inr vs \<Longrightarrow>
   subseq (map id_severity vs) ps \<and> (\<forall>v\<in>set vs. v_insertion_point_line v = None)"
proof (induction arbitrary: vs rule: list_all2_induct)
  case Nil
  then show ?case by simp
next
  case (Cons p ps r rs)
  from Cons.prems obtain v us where v: "r x = Inr v" "evaluate_rules rs x = Inr us"
    "vs = (case v of None \<Rightarrow> us | Some w \<Rightarrow> w # us)"
    by (auto simp: bindE_eq_Inr)
  have "reports (fst p) (snd p) v" using Cons.hyps v(1) by (auto simp: reportsE_def)
  then show ?case using Cons.IH [OF v(2)] v(3)
    by (cases v; cases p) (auto simp: reports_def id_severity_def)
qed

lemma evaluate_reports_case:
  "reports_as ps rs \<Longrightarrow> case evaluate_rules rs x of Inl e \<Rightarrow> True | Inr vs \<Rightarrow> subseq (map id_severity vs) ps"
  using evaluate_reports [of ps rs x] by (cases "evaluate_rules rs x") auto

text \<open>The findings of the national rules and of the Peppol rules, on UBL and on CII documents,
  have the identifiers and severities of their rules, in the order of the ruleset; a rule reports
  at most once.\<close>
theorem national_findings_in_order:
  "(case xr_evaluate r of Inl e \<Rightarrow> True | Inr vs \<Rightarrow> subseq (map id_severity vs) XR_RULE_IDS) \<and>
   (case cii_evaluate iv of Inl e \<Rightarrow> True | Inr vs \<Rightarrow> subseq (map id_severity vs) CII_DE_RULE_IDS) \<and>
   (case pep_evaluate_ubl r of Inl e \<Rightarrow> True | Inr vs \<Rightarrow> subseq (map id_severity vs) PEP_UBL_RULE_IDS) \<and>
   (case pep_evaluate_cii r of Inl e \<Rightarrow> True | Inr vs \<Rightarrow> subseq (map id_severity vs) PEP_CII_RULE_IDS)"
  unfolding xr_evaluate_def cii_evaluate_def pep_evaluate_ubl_def pep_evaluate_cii_def
  by (intro conjI evaluate_reports_case reports_as_ubl reports_as_cii reports_as_pep_ubl reports_as_pep_cii)

section \<open>When the national rules return\<close>

lemma evaluate_raises_total [simp]:
  "evaluate_rules (total_rule f # rs) x = Inl e \<longleftrightarrow> evaluate_rules rs x = Inl e"
  by (cases "evaluate_rules rs x") (simp_all add: total_rule_def)

lemma evaluate_raises_Cons:
  "evaluate_rules (r # rs) x = Inl e \<longleftrightarrow>
     r x = Inl e \<or> (\<exists>v. r x = Inr v) \<and> evaluate_rules rs x = Inl e"
  by (cases "r x"; cases "evaluate_rules rs x") simp_all

lemma xr_raises_iff:
  "xr_evaluate r = Inl e \<longleftrightarrow> br_dex_2 r = Inl e \<or> (\<exists>v. br_dex_2 r = Inr v) \<and> br_dex_9 r = Inl e"
  unfolding xr_evaluate_def XR_RULES_def
  by (simp add: evaluate_raises_Cons [where r = br_dex_2] evaluate_raises_Cons [where r = br_dex_9]
      del: evaluate_rules.simps(2))

lemma cii_evaluate_returns: "cii_evaluate iv \<noteq> Inl e"
  unfolding cii_evaluate_def CII_DE_RULES_def by (simp del: evaluate_rules.simps(2))

text \<open>The national layer returns on every CII document, and on every UBL document that is not
  marked as an extension invoice; on those, only the two rules that add up amounts can raise.\<close>
theorem national_layer_returns:
  "(\<exists>ws. cii_evaluate iv = Inr ws) \<and>
   (is_extension r \<or> (\<exists>vs. xr_evaluate r = Inr vs)) \<and>
   (\<exists>vs. xr_evaluate r = Inr vs \<or> isl (br_dex_2 r) \<or> isl (br_dex_9 r))"
proof -
  have "\<exists>ws. cii_evaluate iv = Inr ws"
    using cii_evaluate_returns by (cases "cii_evaluate iv") auto
  moreover have "isl (br_dex_2 r) \<or> isl (br_dex_9 r)" if "xr_evaluate r = Inl e" for e
    using xr_raises_iff [THEN iffD1, OF that] by auto
  moreover have "\<not> isl (br_dex_2 r) \<and> \<not> isl (br_dex_9 r)" if "\<not> is_extension r"
    using that by (simp add: br_dex_2_def br_dex_9_def)
  moreover have "(\<exists>vs. xr_evaluate r = Inr vs) \<or> (\<exists>e. xr_evaluate r = Inl e)"
    by (cases "xr_evaluate r") simp_all
  ultimately show ?thesis by blast
qed

text \<open>An extension invoice with one sub line, whose amount is the text \<open>sNaN\<close>.\<close>

definition xleaf :: "pystr \<Rightarrow> pystr \<Rightarrow> xml" where
  "xleaf t s = Elem t [] (Some s) None None []"

definition xnode :: "pystr \<Rightarrow> xml list \<Rightarrow> xml" where
  "xnode t ks = Elem t [] None None None ks"

definition snan_invoice :: xml where
  "snan_invoice = xnode (qname NS_INVOICE ''Invoice'')
     [xleaf (cbc ''CustomizationID'') XR_EXTENSION_ID,
      xnode (cac ''InvoiceLine'')
        [xleaf (cbc ''LineExtensionAmount'') (ascii ''1.00''),
         xnode (cac ''SubInvoiceLine'') [xleaf (cbc ''LineExtensionAmount'') (ascii ''sNaN'')]]]"

lemma snan_text: "xr_dec (Some (ascii ''sNaN'')) = Some (NaN True)"
proof -
  have "decimal_of_text (ascii ''sNaN'') = None"
    by (simp add: decimal_of_text_def number_of_def Let_def ascii_def dec_eval)
  moreover have "sign_of (lower_ascii (filter (\<lambda>c. c \<noteq> 95) (py_strip (ascii ''sNaN'')))) = (1, ascii ''snan'')"
    by (simp add: lower_ascii_def is_AZ_def ascii_def py_strip_def py_isspace_def)
  ultimately show ?thesis
    by (simp add: xr_dec_def xdec_of_text_def strip_prefix_def starts_with_iff) (simp add: ascii_def)
qed

lemma xdec_add_snan [simp]: "xdec_add s (NaN True) = Inl InvalidOperation"
proof (cases s)
  case (NaN b)
  then show ?thesis by (cases b) simp_all
qed simp_all

lemma sum_amounts_snan:
  "\<forall>t\<in>set ts. xr_dec t \<noteq> None \<Longrightarrow> xr_dec t = Some (NaN True) \<Longrightarrow> \<exists>e. sum_amounts s (ts @ t # us) = Inl e"
proof (induction ts arbitrary: s)
  case (Cons u ts)
  then obtain d where d: "xr_dec u = Some d" by auto
  show ?case
  proof (cases "xdec_add s d")
    case (Inr s')
    with Cons.IH [of s'] Cons.prems d show ?thesis by simp
  qed (simp add: d)
qed simp

lemma first_someE_raises:
  "(\<And>x. x \<in> set xs \<Longrightarrow> f x = Inr None) \<Longrightarrow> f y = Inl e \<Longrightarrow> first_someE f (xs @ y # ys) = Inl e"
  by (induction xs) auto

lemma snan_br_dex_2:
  assumes "is_extension r" and "xfindall [cac ''InvoiceLine''] r = before @ il # after"
    and "\<forall>l\<in>set before. xfindall [cac ''SubInvoiceLine''] l = []"
    and "xfindall [cac ''SubInvoiceLine''] il = subs @ sub # rest"
    and "\<forall>s\<in>set subs. xr_dec (line_amount s) \<noteq> None"
    and "xr_dec (line_amount sub) = Some (NaN True)"
  shows "\<exists>e. br_dex_2 r = Inl e"
proof -
  obtain e where "sum_amounts (Fin (Dec 0 0)) (map line_amount subs @ line_amount sub # map line_amount rest) = Inl e"
    using sum_amounts_snan [of "map line_amount subs" "line_amount sub" _ "map line_amount rest"] assms(5,6)
    by fastforce
  then have il: "check_sub_sum v il = Inl e" for v
    using assms(4) by (simp add: check_sub_sum_def sub_sum_differs_def del: xfindall_simps)
  have "check_sub_sum v l = Inr None" if "l \<in> set before" for v l
    using assms(3) that by (simp add: check_sub_sum_def del: xfindall_simps)
  then have "first_someE (check_sub_sum v) (before @ il # after) = Inl e" for v
    using il by (intro first_someE_raises) auto
  then show ?thesis
    using assms(1,2) by (auto simp: br_dex_2_def orelseE_def simp del: xfindall_simps)
qed

text \<open>C33: \<open>_dec\<close> accepts the text \<open>sNaN\<close>, and the sum over the sub lines traps on it.  So on every
  UBL invoice marked as an extension, whose first line with sub lines has one with a signaling NaN
  as its amount, all the sub lines before it having amounts, the national rules raise, and the
  validation under the national profile ends in an exception of the decimal module instead of
  findings.\<close>
theorem snan_amount_raises:
  assumes "is_extension r" and "supported_ubl r" and "\<not> is_cii_root r"
    and "xfindall [cac ''InvoiceLine''] r = before @ il # after"
    and "\<forall>l\<in>set before. xfindall [cac ''SubInvoiceLine''] l = []"
    and "xfindall [cac ''SubInvoiceLine''] il = subs @ sub # rest"
    and "\<forall>s\<in>set subs. xr_dec (line_amount s) \<noteq> None"
    and "xr_dec (line_amount sub) = Some (NaN True)"
  shows "(\<exists>e. xr_evaluate r = Inl e) \<and>
    (\<exists>e. validate_root py311 catalog ''xrechnung'' r = Inl (DecimalError e))"
proof -
  obtain e where e: "xr_evaluate r = Inl e"
    using snan_br_dex_2 [OF assms(1,4-8)] xr_raises_iff by blast
  then obtain e' where "ubl_violations py311 ''xrechnung'' r = Inl e'"
    by (cases "run_rules (ALL_RULES py311) (build_model r)")
       (auto simp: ubl_violations_def with_layer_def)
  with e assms(2,3) show ?thesis by (simp add: validate_root_def PROFILES_def lift_exc_def)
qed

lemma parse_blocks_root [simp]:
  "root_is_ubl_invoice (parse_codes_1 d iv) = root_is_ubl_invoice iv"
  "root_is_ubl_invoice (parse_codes_2 d iv) = root_is_ubl_invoice iv"
  "root_is_ubl_invoice (parse_schemes d iv) = root_is_ubl_invoice iv"
  "root_is_ubl_invoice (parse_refs d iv) = root_is_ubl_invoice iv"
  "root_is_ubl_invoice (parse_seller d iv) = root_is_ubl_invoice iv"
  "root_is_ubl_invoice (parse_taxreps d iv) = root_is_ubl_invoice iv"
  "root_is_ubl_invoice (parse_buyer d iv) = root_is_ubl_invoice iv"
  "root_is_ubl_invoice (parse_parties d iv) = root_is_ubl_invoice iv"
  "root_is_ubl_invoice (parse_delivery d iv) = root_is_ubl_invoice iv"
  "root_is_ubl_invoice (parse_totals d iv) = root_is_ubl_invoice iv"
  "root_is_ubl_invoice (parse_taxes d iv) = root_is_ubl_invoice iv"
  "root_is_ubl_invoice (parse_lines d iv) = root_is_ubl_invoice iv"
  by (simp_all add: parse_codes_1_def parse_codes_2_def
      parse_schemes_def parse_refs_def parse_seller_def parse_taxreps_def parse_taxrep_def parse_buyer_def
      parse_parties_def parse_delivery_def parse_totals_def parse_taxes_def parse_lines_def
      Let_def fold_keeps split: option.split)

lemma parsed_root: "root_is_ubl_invoice (build_model d) = root_is NS_INVOICE ''Invoice'' d"
  by (simp add: build_model_def parse_header_def Let_def)

theorem snan_amount_raises_witness:
  "(\<exists>e. xr_evaluate snan_invoice = Inl e) \<and>
   (\<exists>e. validate_root True (\<lambda>rid. None) ''xrechnung'' snan_invoice = Inl (DecimalError e))"
proof (rule snan_amount_raises)
  let ?sub = "xnode (cac ''SubInvoiceLine'') [xleaf (cbc ''LineExtensionAmount'') (ascii ''sNaN'')]"
  let ?il = "xnode (cac ''InvoiceLine'') [xleaf (cbc ''LineExtensionAmount'') (ascii ''1.00''), ?sub]"
  show "is_extension snan_invoice"
    by (simp add: is_extension_def snan_invoice_def xnode_def xleaf_def)
  show "supported_ubl snan_invoice"
    by (simp add: supported_ubl_def parsed_root root_is_def snan_invoice_def xnode_def)
  show "\<not> is_cii_root snan_invoice"
    by (simp add: is_cii_root_def snan_invoice_def xnode_def qname_def localname_def ascii_def)
  show "xfindall [cac ''InvoiceLine''] snan_invoice = [] @ ?il # []"
    by (simp add: snan_invoice_def xnode_def xleaf_def)
  show "xfindall [cac ''SubInvoiceLine''] ?il = [] @ ?sub # []"
    by (simp add: xnode_def xleaf_def)
  show "xr_dec (line_amount ?sub) = Some (NaN True)"
    using snan_text by (simp add: line_amount_def xnode_def xleaf_def xfind_def sv_def)
qed simp_all

end
