(* ===== verification/EI_XmlSec.thy ===== *)
theory EI_XmlSec
  imports EI_Xml "HOL-Library.AList"
begin

text \<open>
  The hardened XML parser (\<open>_xmlsec.py\<close>): the handlers as a machine over the events that
  expat reports, with the \<open>TreeBuilder\<close> of the standard library, the refusal of DTDs and
  entities, and the limits on size, depth and number of elements.  expat itself, a C library,
  is an argument: the function from the bytes to its events.
\<close>

section \<open>Events and errors\<close>

datatype xml_event =
    StartElement pystr "(pystr \<times> pystr) list" nat
  | EndElement pystr
  | CharacterData pystr
  | StartDoctype
  | EntityDecl pystr
  | UnparsedEntityDecl
  | ExternalEntityRef pystr
  | ExpatError

datatype xml_limit = InputTooLarge | MaxDepth | TooManyElements

datatype xml_error = Security | ResourceLimit xml_limit | IllFormed

definition MAX_INPUT_BYTES :: nat where "MAX_INPUT_BYTES = 64 * 1024 * 1024"

definition MAX_ELEMENT_DEPTH :: nat where "MAX_ELEMENT_DEPTH = 256"

definition MAX_ELEMENT_COUNT :: nat where "MAX_ELEMENT_COUNT = 2000000"

section \<open>The tree builder\<close>

text \<open>
  The open elements, innermost first, the finished root, the collected character data, and
  whether the last element is finished (its tail is collected then, its text before).
\<close>

record builder =
  opened :: "xml list"
  finished :: "xml option"
  chunks :: "pystr list"
  in_tail :: bool

definition new_builder :: builder where
  "new_builder = \<lparr> opened = [], finished = None, chunks = [], in_tail = False \<rparr>"

fun set_text :: "pystr \<Rightarrow> xml \<Rightarrow> xml" where
  "set_text s (Elem t a x y l ks) = Elem t a (Some s) y l ks"

fun set_tail :: "pystr \<Rightarrow> xml \<Rightarrow> xml" where
  "set_tail s (Elem t a x y l ks) = Elem t a x (Some s) l ks"

fun add_kid :: "xml \<Rightarrow> xml \<Rightarrow> xml" where
  "add_kid k (Elem t a x y l ks) = Elem t a x y l (ks @ [k])"

fun tail_last :: "pystr \<Rightarrow> xml \<Rightarrow> xml" where
  "tail_last s (Elem t a x y l ks) =
     Elem t a x y l (if ks = [] then [] else butlast ks @ [set_tail s (last ks)])"

definition flush_builder :: "builder \<Rightarrow> builder" where
  "flush_builder b =
     (if chunks b = [] then b
      else let s = concat (chunks b); c = b\<lparr> chunks := [] \<rparr> in
        case opened b of
          [] \<Rightarrow> if in_tail b then c\<lparr> finished := map_option (set_tail s) (finished b) \<rparr> else c
        | e # es \<Rightarrow> c\<lparr> opened := (if in_tail b then tail_last s e else set_text s e) # es \<rparr>)"

definition builder_start :: "pystr \<Rightarrow> (pystr \<times> pystr) list \<Rightarrow> nat \<Rightarrow> builder \<Rightarrow> builder" where
  "builder_start tag attrib line b =
     (let c = flush_builder b
      in c\<lparr> opened := Elem tag attrib None None (Some line) [] # opened c, in_tail := False \<rparr>)"

text \<open>An element that is closed goes to its parent, the outermost one becomes the root.\<close>

definition builder_end :: "builder \<Rightarrow> builder" where
  "builder_end b =
     (let c = flush_builder b in case opened c of
        [] \<Rightarrow> c
      | [e] \<Rightarrow> c\<lparr> opened := [], finished := Some e, in_tail := True \<rparr>
      | e # p # es \<Rightarrow> c\<lparr> opened := add_kid e p # es, in_tail := True \<rparr>)"

definition builder_data :: "pystr \<Rightarrow> builder \<Rightarrow> builder" where
  "builder_data s b = b\<lparr> chunks := chunks b @ [s] \<rparr>"

section \<open>The handlers\<close>

record parser_state =
  depth :: nat
  elements :: nat
  target :: builder

definition new_parser :: parser_state where
  "new_parser = \<lparr> depth = 0, elements = 0, target = new_builder \<rparr>"

text \<open>\<open>_fixname\<close>: expat separates the namespace from the name by a closing brace.\<close>

definition fixname :: "pystr \<Rightarrow> pystr" where
  "fixname key = (if 125 \<in> set key then 123 # key else key)"

definition fix_attributes :: "(pystr \<times> pystr) list \<Rightarrow> (pystr \<times> pystr) list" where
  "fix_attributes as = foldl (\<lambda>d (k, v). AList.update (fixname k) v d) [] as"

definition handle_start ::
    "pystr \<Rightarrow> (pystr \<times> pystr) list \<Rightarrow> nat \<Rightarrow> parser_state \<Rightarrow> xml_error + parser_state" where
  "handle_start tag as line p =
     (let d = depth p + 1; n = elements p + 1 in
      if MAX_ELEMENT_DEPTH < d then Inl (ResourceLimit MaxDepth)
      else if MAX_ELEMENT_COUNT < n then Inl (ResourceLimit TooManyElements)
      else Inr \<lparr> depth = d, elements = n,
        target = builder_start (fixname tag) (fix_attributes as) line (target p) \<rparr>)"

definition handle_end :: "parser_state \<Rightarrow> xml_error + parser_state" where
  "handle_end p = Inr (p\<lparr> depth := depth p - 1, target := builder_end (target p) \<rparr>)"

fun handle :: "xml_event \<Rightarrow> parser_state \<Rightarrow> xml_error + parser_state" where
  "handle (StartElement tag as line) p = handle_start tag as line p"
| "handle (EndElement tag) p = handle_end p"
| "handle (CharacterData s) p = Inr (p\<lparr> target := builder_data s (target p) \<rparr>)"
| "handle StartDoctype p = Inl Security"
| "handle (EntityDecl n) p = Inl Security"
| "handle UnparsedEntityDecl p = Inl Security"
| "handle (ExternalEntityRef s) p = Inl Security"
| "handle ExpatError p = Inl IllFormed"

fun feed :: "xml_event list \<Rightarrow> parser_state \<Rightarrow> xml_error + parser_state" where
  "feed [] p = Inr p"
| "feed (e # es) p = bindE (handle e p) (feed es)"

text \<open>\<open>close\<close>.  expat reports a document without a root element, one with two, and one with
  unbalanced tags as errors, so the missing root here and the empty stack in \<open>builder_end\<close> do
  not arise from a document.\<close>

definition close_parser :: "parser_state \<Rightarrow> xml_error + xml" where
  "close_parser p = (case finished (target p) of
     None \<Rightarrow> Inl IllFormed | Some r \<Rightarrow> Inr r)"

definition parse_events :: "xml_event list \<Rightarrow> xml_error + xml" where
  "parse_events es = bindE (feed es new_parser) close_parser"

text \<open>\<open>_safe_fromstring\<close>.\<close>

definition safe_fromstring :: "('b list \<Rightarrow> xml_event list) \<Rightarrow> 'b list \<Rightarrow> xml_error + xml" where
  "safe_fromstring expat bytes =
     (if MAX_INPUT_BYTES < length bytes then Inl (ResourceLimit InputTooLarge)
      else parse_events (expat bytes))"

text \<open>\<open>_safe_parse\<close>: at most one byte more than the limit is read.\<close>

definition safe_parse :: "('b list \<Rightarrow> xml_event list) \<Rightarrow> 'b list \<Rightarrow> xml_error + xml" where
  "safe_parse expat file =
     (let bytes = take (MAX_INPUT_BYTES + 1) file in
      if MAX_INPUT_BYTES < length bytes then Inl (ResourceLimit InputTooLarge)
      else safe_fromstring expat bytes)"

text \<open>\<open>parse_file\<close> of both parsers: every parse error is \<open>NotWellFormed\<close>.\<close>

datatype not_well_formed = NotWellFormed xml_error

definition parse_file :: "('b list \<Rightarrow> xml_event list) \<Rightarrow> 'b list \<Rightarrow> not_well_formed + xml" where
  "parse_file expat file = (case safe_parse expat file of
     Inl e \<Rightarrow> Inl (NotWellFormed e) | Inr r \<Rightarrow> Inr r)"

section \<open>Sizes of trees\<close>

fun levels :: "xml \<Rightarrow> nat" where
  "levels (Elem t a x y l ks) = Suc (foldr max (map levels ks) 0)"

fun element_count :: "xml \<Rightarrow> nat" where
  "element_count (Elem t a x y l ks) = Suc (sum_list (map element_count ks))"

lemma element_count_iter: "element_count e = length (iter e)"
proof (induction e rule: element_count.induct)
  case (1 t a x y l ks)
  then have "map element_count ks = map length (map iter ks)" by simp
  then show ?case by (simp only: element_count.simps iter.simps length_concat list.size)
qed

lemma foldr_max_acc: "foldr max xs (n :: nat) = max (foldr max xs 0) n"
  by (induction xs) auto

lemma set_tail_size [simp]:
  "levels (set_tail s e) = levels e" "element_count (set_tail s e) = element_count e"
  "levels (set_text s e) = levels e" "element_count (set_text s e) = element_count e"
  by (cases e; simp)+

lemma tail_last_size [simp]:
  "levels (tail_last s e) = levels e" "element_count (tail_last s e) = element_count e"
proof -
  obtain t a x y l ks where e: "e = Elem t a x y l ks" by (cases e)
  show "levels (tail_last s e) = levels e"
    by (cases ks rule: rev_cases) (simp_all add: e)
  show "element_count (tail_last s e) = element_count e"
    by (cases ks rule: rev_cases) (simp_all add: e)
qed

lemma add_kid_size [simp]:
  "levels (add_kid k e) = max (levels e) (Suc (levels k))"
  "element_count (add_kid k e) = element_count e + element_count k"
proof -
  obtain t a x y l ks where e: "e = Elem t a x y l ks" by (cases e)
  show "levels (add_kid k e) = max (levels e) (Suc (levels k))"
    using foldr_max_acc [of "map levels ks" "levels k"] by (simp add: e)
  show "element_count (add_kid k e) = element_count e + element_count k"
    by (simp add: e)
qed

section \<open>The limits hold for every accepted document\<close>

text \<open>The open element at height \<open>h\<close> (the outermost one has height 0) and its levels.\<close>

fun stack_fits :: "xml list \<Rightarrow> bool" where
  "stack_fits [] = True"
| "stack_fits (e # es) = (length es + levels e \<le> MAX_ELEMENT_DEPTH \<and> stack_fits es)"

definition within_limits :: "parser_state \<Rightarrow> bool" where
  "within_limits p \<longleftrightarrow> (let b = target p in
     depth p = length (opened b) \<and> stack_fits (opened b) \<and>
     sum_list (map element_count (opened b)) \<le> elements p \<and>
     (\<forall>r. finished b = Some r \<longrightarrow> levels r \<le> MAX_ELEMENT_DEPTH \<and> element_count r \<le> elements p) \<and>
     elements p \<le> MAX_ELEMENT_COUNT)"

lemma within_limits_flush:
  "within_limits (p\<lparr> target := flush_builder b \<rparr>) \<longleftrightarrow> within_limits (p\<lparr> target := b \<rparr>)"
  by (auto simp: within_limits_def flush_builder_def Let_def split: list.splits)

lemma within_limits_start:
  assumes "within_limits p" and "handle_start tag as line p = Inr q"
  shows "within_limits q"
proof -
  have "within_limits (p\<lparr> target := flush_builder (target p) \<rparr>)"
    using assms(1) by (simp add: within_limits_flush)
  then show ?thesis using assms(2)
    by (auto simp: handle_start_def within_limits_def builder_start_def Let_def split: if_splits)
qed

lemma within_limits_end:
  assumes "within_limits p" and "handle_end p = Inr q"
  shows "within_limits q"
proof -
  have "within_limits (p\<lparr> target := flush_builder (target p) \<rparr>)"
    using assms(1) by (simp add: within_limits_flush)
  then show ?thesis using assms(2)
    by (auto simp: handle_end_def within_limits_def builder_end_def Let_def split: list.splits)
qed

lemma within_limits_feed: "within_limits p \<Longrightarrow> feed es p = Inr q \<Longrightarrow> within_limits q"
proof (induction es arbitrary: p)
  case (Cons e es)
  then obtain p' where p': "handle e p = Inr p'" "feed es p' = Inr q" by (auto simp: bindE_eq_Inr)
  have "within_limits p'"
  proof (cases e)
    case (StartElement tag as line)
    then show ?thesis using p'(1) within_limits_start [OF Cons.prems(1)] by simp
  next
    case (EndElement tag)
    then show ?thesis using p'(1) within_limits_end [OF Cons.prems(1)] by simp
  next
    case (CharacterData s)
    then show ?thesis using p'(1) Cons.prems(1) by (auto simp: within_limits_def builder_data_def Let_def)
  qed (use p'(1) in simp_all)
  then show ?case using Cons.IH p'(2) by blast
qed simp

fun refused :: "xml_event \<Rightarrow> bool" where
  "refused (StartElement tag as line) = False"
| "refused (EndElement tag) = False"
| "refused (CharacterData s) = False"
| "refused e = True"

lemma feed_not_refused: "feed es p = Inr q \<Longrightarrow> e \<in> set es \<Longrightarrow> \<not> refused e"
  by (induction es arbitrary: p; cases e) (auto simp: bindE_eq_Inr)

text \<open>C27: a document that the hardened parser accepts is at most 64 MiB long, has at most 256
  levels and at most 2,000,000 elements, and expat reported no DOCTYPE, no entity declaration and
  no external reference in it, whatever the events of expat are.\<close>
theorem accepted_document_limits:
  assumes "parse_file expat file = Inr r"
  shows "length file \<le> 64 * 1024 * 1024 \<and> levels r \<le> 256 \<and> length (iter r) \<le> 2000000 \<and>
    filter refused (expat file) = []"
proof -
  have len: "length file \<le> MAX_INPUT_BYTES"
    using assms by (auto simp: parse_file_def safe_parse_def Let_def min_def split: if_splits sum.splits)
  then have "parse_events (expat file) = Inr r"
    using assms by (auto simp: parse_file_def safe_parse_def safe_fromstring_def Let_def
      split: if_splits sum.splits)
  then obtain p where p: "feed (expat file) new_parser = Inr p" "finished (target p) = Some r"
    by (auto simp: parse_events_def bindE_eq_Inr close_parser_def split: option.splits)
  have "within_limits new_parser" by (simp add: within_limits_def new_parser_def new_builder_def)
  from within_limits_feed [OF this p(1)] p(2)
  have "levels r \<le> MAX_ELEMENT_DEPTH" "element_count r \<le> MAX_ELEMENT_COUNT"
    by (auto simp: within_limits_def Let_def)
  moreover have "filter refused (expat file) = []"
    using feed_not_refused [OF p(1)] by (simp add: filter_empty_conv)
  ultimately show ?thesis using len
    by (simp add: element_count_iter MAX_INPUT_BYTES_def MAX_ELEMENT_DEPTH_def MAX_ELEMENT_COUNT_def)
qed

section \<open>Every tree is parsed from its own events\<close>

text \<open>The name expat reports for a tag, and the trees that have tags of that form, distinct
  attributes and a line on every element.\<close>

definition event_name :: "pystr \<Rightarrow> pystr" where
  "event_name t = (if t \<noteq> [] \<and> hd t = 123 \<and> 125 \<in> set t then tl t else t)"

definition name_form :: "pystr \<Rightarrow> bool" where
  "name_form t \<longleftrightarrow> fixname (event_name t) = t"

fun tree_ok :: "xml \<Rightarrow> bool" where
  "tree_ok (Elem t a x y l ks) = (name_form t \<and> distinct (map fst a) \<and>
     list_all (\<lambda>(k, v). name_form k) a \<and> l \<noteq> None \<and> list_all (\<lambda>b. b) (map tree_ok ks))"

definition text_events :: "text_opt \<Rightarrow> xml_event list" where
  "text_events x = (case x of None \<Rightarrow> [] | Some s \<Rightarrow> [CharacterData s])"

fun events_of :: "xml \<Rightarrow> xml_event list" where
  "events_of (Elem t a x y l ks) =
     StartElement (event_name t) (map (\<lambda>(k, v). (event_name k, v)) a) (the l) #
     text_events x @ concat (map (\<lambda>k. events_of k @ text_events (xtail k)) ks) @
     [EndElement (event_name t)]"

fun clear_tail :: "xml \<Rightarrow> xml" where
  "clear_tail (Elem t a x y l ks) = Elem t a x None l ks"

text \<open>What the open elements and the root are once the collected text is stored.\<close>

definition core :: "builder \<Rightarrow> xml list \<times> xml option" where
  "core b = (opened (flush_builder b), finished (flush_builder b))"

definition attach :: "xml \<Rightarrow> xml list \<Rightarrow> xml option \<Rightarrow> builder" where
  "attach e st f = (case st of
     [] \<Rightarrow> \<lparr> opened = [], finished = Some e, chunks = [], in_tail = True \<rparr>
   | q # es \<Rightarrow> \<lparr> opened = add_kid e q # es, finished = f, chunks = [], in_tail = True \<rparr>)"

lemma chunks_flush [simp]: "chunks (flush_builder b) = []"
  by (simp add: flush_builder_def Let_def split: list.split)

lemma builder_start_core: "core b = (st, f) \<Longrightarrow> builder_start t a l b =
    \<lparr> opened = Elem t a None None (Some l) [] # st, finished = f, chunks = [], in_tail = False \<rparr>"
  by (auto simp: core_def builder_start_def Let_def intro!: builder.equality)

lemma builder_end_core: "core b = (e # st, f) \<Longrightarrow> builder_end b = attach e st f"
  by (auto simp: core_def builder_end_def attach_def Let_def intro!: builder.equality split: list.split)

lemma update_new: "k \<notin> fst ` set d \<Longrightarrow> AList.update k v d = d @ [(k, v)]"
  by (induction d) auto

lemma fold_attributes:
  "distinct (map fst d @ map fst a) \<Longrightarrow> list_all (\<lambda>(k, v). name_form k) a \<Longrightarrow>
   foldl (\<lambda>d (k, v). AList.update (fixname k) v d) d (map (\<lambda>(k, v). (event_name k, v)) a) = d @ a"
proof (induction a arbitrary: d)
  case (Cons kv a)
  obtain k v where kv: "kv = (k, v)" by (cases kv)
  have "AList.update k v d = d @ [(k, v)]"
    using Cons.prems(1) by (intro update_new) (auto simp: kv)
  then show ?case using Cons by (simp add: kv name_form_def)
qed simp

lemma fix_attributes_event:
  "distinct (map fst a) \<Longrightarrow> list_all (\<lambda>(k, v). name_form k) a \<Longrightarrow>
   fix_attributes (map (\<lambda>(k, v). (event_name k, v)) a) = a"
  unfolding fix_attributes_def by (subst fold_attributes) simp_all

lemma core_text:
  "opened b = Elem t a None None l [] # st \<Longrightarrow> chunks b = [] \<Longrightarrow> \<not> in_tail b \<Longrightarrow>
   \<exists>b'. feed (text_events x @ rest) \<lparr> depth = d, elements = n, target = b \<rparr> =
       feed rest \<lparr> depth = d, elements = n, target = b' \<rparr> \<and>
     core b' = (Elem t a x None l [] # st, finished b)"
  by (cases x) (auto simp: text_events_def core_def flush_builder_def builder_data_def)

lemma core_tail:
  assumes "xtail k = None \<Longrightarrow> k' = k" and "\<And>s. xtail k = Some s \<Longrightarrow> set_tail s k' = k"
  shows "\<exists>b'. feed (text_events (xtail k) @ rest)
      \<lparr> depth = d, elements = n, target = attach k' (Elem t a x None l ks # st) f \<rparr> =
       feed rest \<lparr> depth = d, elements = n, target = b' \<rparr> \<and>
     core b' = (Elem t a x None l (ks @ [k]) # st, f)"
  using assms
  by (cases "xtail k") (auto simp: text_events_def core_def flush_builder_def builder_data_def attach_def)

lemma clear_tail_cases: "xtail k = None \<Longrightarrow> clear_tail k = k" "xtail k = Some s \<Longrightarrow> set_tail s (clear_tail k) = k"
  by (cases k; simp)+

text \<open>The events of a tree, as the parser sees them inside a document.\<close>

definition feeds_to :: "xml \<Rightarrow> bool" where
  "feeds_to e \<longleftrightarrow> (\<forall>st f d n b rest. core b = (st, f) \<longrightarrow>
     d + levels e \<le> MAX_ELEMENT_DEPTH \<longrightarrow> n + element_count e \<le> MAX_ELEMENT_COUNT \<longrightarrow>
     feed (events_of e @ rest) \<lparr> depth = d, elements = n, target = b \<rparr> =
     feed rest \<lparr> depth = d, elements = n + element_count e, target = attach (clear_tail e) st f \<rparr>)"

lemma feed_kids:
  assumes "list_all feeds_to ks" and "core b = (Elem t a x None l done # st, f)"
    and "d + foldr max (map levels ks) 0 \<le> MAX_ELEMENT_DEPTH"
    and "n + sum_list (map element_count ks) \<le> MAX_ELEMENT_COUNT"
  shows "\<exists>b'. feed (concat (map (\<lambda>k. events_of k @ text_events (xtail k)) ks) @ rest)
        \<lparr> depth = d, elements = n, target = b \<rparr> =
      feed rest \<lparr> depth = d, elements = n + sum_list (map element_count ks), target = b' \<rparr> \<and>
     core b' = (Elem t a x None l (done @ ks) # st, f)"
  using assms
proof (induction ks arbitrary: "done" n b)
  case (Cons k ks)
  define rest' where "rest' = concat (map (\<lambda>k. events_of k @ text_events (xtail k)) ks) @ rest"
  have "feed (events_of k @ text_events (xtail k) @ rest') \<lparr> depth = d, elements = n, target = b \<rparr> =
      feed (text_events (xtail k) @ rest') \<lparr> depth = d, elements = n + element_count k,
        target = attach (clear_tail k) (Elem t a x None l done # st) f \<rparr>"
    using Cons.prems by (simp add: feeds_to_def)
  moreover obtain b' where b': "feed (text_events (xtail k) @ rest')
        \<lparr> depth = d, elements = n + element_count k,
          target = attach (clear_tail k) (Elem t a x None l done # st) f \<rparr> =
      feed rest' \<lparr> depth = d, elements = n + element_count k, target = b' \<rparr>"
    "core b' = (Elem t a x None l (done @ [k]) # st, f)"
    using core_tail [OF clear_tail_cases] by blast
  ultimately show ?case
    using Cons.IH [OF _ b'(2), of "n + element_count k"] Cons.prems
    by (simp add: rest'_def add.assoc)
qed auto

lemma feeds_to_tree: "tree_ok e \<Longrightarrow> feeds_to e"
proof (induction e rule: tree_ok.induct)
  case (1 t a x y l ks)
  have ok: "name_form t" "distinct (map fst a)" "list_all (\<lambda>(k, v). name_form k) a" "l \<noteq> None"
    using "1.prems" by simp_all
  have kids: "list_all feeds_to ks" using 1 by (simp add: list_all_iff)
  show ?case unfolding feeds_to_def
  proof (intro allI impI)
    fix st f d n b rest
    assume c: "core b = (st, f)" and d: "d + levels (Elem t a x y l ks) \<le> MAX_ELEMENT_DEPTH"
      and n: "n + element_count (Elem t a x y l ks) \<le> MAX_ELEMENT_COUNT"
    define c1 where "c1 = \<lparr> opened = Elem t a None None l [] # st, finished = f, chunks = [], in_tail = False \<rparr>"
    have c1: "opened c1 = Elem t a None None l [] # st" "chunks c1 = []" "\<not> in_tail c1" "finished c1 = f"
      by (simp_all add: c1_def)
    define es where "es = concat (map (\<lambda>k. events_of k @ text_events (xtail k)) ks)"
    have start: "builder_start t a (the l) b = c1"
      using builder_start_core [OF c] ok(4) by (simp add: c1_def)
    obtain b1 where b1: "feed (text_events x @ es @ EndElement (event_name t) # rest)
        \<lparr> depth = Suc d, elements = Suc n, target = c1 \<rparr> =
      feed (es @ EndElement (event_name t) # rest) \<lparr> depth = Suc d, elements = Suc n, target = b1 \<rparr>"
      "core b1 = (Elem t a x None l [] # st, f)"
      using core_text [of c1 t a l st x _ "Suc d" "Suc n"] c1 by metis
    have bounds: "Suc d + foldr max (map levels ks) 0 \<le> MAX_ELEMENT_DEPTH"
      "Suc n + sum_list (map element_count ks) \<le> MAX_ELEMENT_COUNT" using d n by simp_all
    obtain b2 where b2: "feed (es @ EndElement (event_name t) # rest)
        \<lparr> depth = Suc d, elements = Suc n, target = b1 \<rparr> =
      feed (EndElement (event_name t) # rest)
        \<lparr> depth = Suc d, elements = Suc n + sum_list (map element_count ks), target = b2 \<rparr>"
      "core b2 = (Elem t a x None l ks # st, f)"
      using feed_kids [OF kids b1(2) bounds, folded es_def, unfolded append_Nil] by blast
    show "feed (events_of (Elem t a x y l ks) @ rest) \<lparr> depth = d, elements = n, target = b \<rparr> =
      feed rest \<lparr> depth = d, elements = n + element_count (Elem t a x y l ks),
        target = attach (clear_tail (Elem t a x y l ks)) st f \<rparr>"
      using ok d n start b1(1) b2(1) builder_end_core [OF b2(2)]
      by (simp add: handle_start_def handle_end_def fix_attributes_event name_form_def es_def)
  qed
qed

text \<open>C28: a tree with well-formed names within the limits is what the parser builds from its
  own events: text, tails, attributes, lines and the order of the children all come back.\<close>
theorem parse_events_roundtrip:
  assumes "tree_ok e" and "xtail e = None" and "levels e \<le> 256" and "element_count e \<le> 2000000"
  shows "parse_events (events_of e) = Inr e"
proof -
  have "core new_builder = ([], None)" by (simp add: core_def new_builder_def flush_builder_def)
  then have "feed (events_of e @ []) \<lparr> depth = 0, elements = 0, target = new_builder \<rparr> =
      feed [] \<lparr> depth = 0, elements = 0 + element_count e, target = attach (clear_tail e) [] None \<rparr>"
    using assms(3,4)
    by (intro feeds_to_tree [OF assms(1), unfolded feeds_to_def, rule_format])
      (simp_all add: MAX_ELEMENT_DEPTH_def MAX_ELEMENT_COUNT_def)
  then show ?thesis
    using clear_tail_cases(1) [OF assms(2)]
    by (simp add: parse_events_def close_parser_def attach_def new_parser_def)
qed

text \<open>A small document: an attribute, two children, text and tails.\<close>

definition sample_tree :: xml where
  "sample_tree = Elem [123, 117, 125, 97] [([105, 100], [49])] (Some [10]) None (Some 1)
     [Elem [98] [] (Some [120, 121]) (Some [32]) (Some 2) [],
      Elem [99] [([123, 119, 125, 107], []), ([107], [50])] None None (Some 3) []]"

theorem parse_events_roundtrip_witness:
  "tree_ok sample_tree \<and> parse_events (events_of sample_tree) = Inr sample_tree"
  using parse_events_roundtrip [of sample_tree]
  by (simp add: sample_tree_def name_form_def event_name_def fixname_def)

theorem accepted_document_limits_witness:
  "parse_file (\<lambda>_. events_of sample_tree) [0 :: nat] = Inr sample_tree \<and> levels sample_tree \<le> 256"
proof -
  have "parse_file (\<lambda>_. events_of sample_tree) [0 :: nat] = Inr sample_tree"
    by (simp add: parse_file_def safe_parse_def safe_fromstring_def MAX_INPUT_BYTES_def sample_tree_def
        event_name_def fixname_def fix_attributes_def parse_events_def text_events_def new_parser_def
        new_builder_def handle_start_def handle_end_def builder_start_def builder_end_def
        builder_data_def flush_builder_def close_parser_def MAX_ELEMENT_DEPTH_def
        MAX_ELEMENT_COUNT_def Let_def)
  from this accepted_document_limits [OF this] show ?thesis by blast
qed

end
