(* ===== verification/EI_Facade.thy ===== *)
theory EI_Facade
  imports EI_Xr_Run EI_XmlSec
begin

text \<open>
  What the facade promises: where a finding on an absent element is anchored, that anchoring
  changes nothing else, how the two profiles are related, and which inputs are refused.
\<close>

section \<open>Insertion points\<close>

text \<open>The element that a path of segments leads to when each segment has exactly one match.\<close>

fun leads_to :: "xml \<Rightarrow> pystr list \<Rightarrow> xml \<Rightarrow> bool" where
  "leads_to node [] e \<longleftrightarrow> e = node"
| "leads_to node (s # ss) e \<longleftrightarrow> (case segment_matches s node of [k] \<Rightarrow> leads_to k ss e | _ \<Rightarrow> False)"

lemma walk_iff:
  "walk node deep segs = Some e \<longleftrightarrow>
     (\<exists>pre s post. segs = pre @ s # post \<and> (deep \<or> pre \<noteq> []) \<and> leads_to node pre e \<and>
        segment_matches s e = [])"
proof (induction node deep segs rule: walk.induct)
  case (1 node deep)
  then show ?case by simp
next
  case (2 node deep s ss)
  have split: "(\<exists>pre t post. s # ss = pre @ t # post \<and> Q pre t) \<longleftrightarrow>
      Q [] s \<or> (\<exists>pre t post. ss = pre @ t # post \<and> Q (s # pre) t)" for Q
    by (auto simp: Cons_eq_append_conv)
  consider "segment_matches s node = []" | k where "segment_matches s node = [k]"
    | k k' ks where "segment_matches s node = k # k' # ks"
    by (metis list.exhaust)
  then show ?case
  proof cases
    case 1
    then show ?thesis by (subst split) auto
  next
    case (2 k)
    have "walk node deep (s # ss) = Some e \<longleftrightarrow>
        (\<exists>pre t post. ss = pre @ t # post \<and> leads_to k pre e \<and> segment_matches t e = [])"
      using "2.IH" [OF 2 refl] 2 by simp
    then show ?thesis using 2 by (subst split) auto
  next
    case (3 k k' ks)
    then show ?thesis by (subst split) auto
  qed
qed

text \<open>C32: The anchor of a finding is the line of the element that all segments before some segment
  of its path lead to, one match for each, when that element is below the root, has a line of at
  least 1, and has no child for the next segment.  Ambiguous, complete and unreadable paths have
  none.\<close>
theorem insertion_point_iff:
  "insertion_point_line r (Some p) = Some n \<longleftrightarrow>
     (\<exists>segs pre s post e. path_segments r p = Some segs \<and> segs = pre @ s # post \<and> pre \<noteq> [] \<and>
        leads_to r pre e \<and> segment_matches s e = [] \<and> xline e = Some n \<and> 1 \<le> n)"
proof -
  have line: "positive_line l = Some n \<longleftrightarrow> l = Some n \<and> 1 \<le> n" for l
    by (auto simp: positive_line_def split: option.splits)
  have "insertion_point_line r (Some p) = Some n \<longleftrightarrow>
      (\<exists>segs e. path_segments r p = Some segs \<and> walk r False segs = Some e \<and> positive_line (xline e) = Some n)"
    by (simp add: insertion_point_line_def split: option.split)
  then show ?thesis by (simp add: walk_iff line) blast
qed

lemma leads_to_iter: "leads_to node pre e \<Longrightarrow> e \<in> set (iter node)"
proof (induction pre arbitrary: node)
  case (Cons s ss)
  then obtain k where k: "segment_matches s node = [k]" "leads_to k ss e"
    by (auto split: list.splits)
  then have "k \<in> set (segment_matches s node)" by simp
  then have "k \<in> set (kids node)" by (simp add: segment_matches_def)
  then have "k \<in> set (concat (map iter (kids node)))" using iter_self [of k] by (simp, blast)
  then have "k \<in> set (iter node)" using iter_kids [of node] by simp
  then show ?case using iter_trans Cons.IH [OF k(2)] by blast
qed simp

lemma insertion_point_in_document:
  assumes "insertion_point_line r p = Some n"
  shows "\<exists>e\<in>set (iter r). xline e = Some n \<and> 1 \<le> n"
proof -
  obtain q segs e where "walk r False segs = Some e" "positive_line (xline e) = Some n"
    using assms by (auto simp: insertion_point_line_def split: option.splits)
  then show ?thesis using leads_to_iter
    by (auto simp: walk_iff positive_line_def split: option.splits if_splits)
qed

lemma stamp_keeps [simp]:
  "v_rule_id (stamp c r v) = v_rule_id v" "v_message (stamp c r v) = v_message v"
  "v_element (stamp c r v) = v_element v" "v_severity (stamp c r v) = v_severity v"
  "v_source_line (stamp c r v) = v_source_line v" "id_severity (stamp c r v) = id_severity v"
  by (simp_all add: stamp_def id_severity_def split: option.split)

lemma stamp_verdict [simp]: "result_ok (stamp_insertion_points c r vs) = result_ok vs"
  by (simp add: result_ok_def stamp_insertion_points_def)

text \<open>What the lines of a finding say about the document \<open>r\<close>.\<close>

definition anchored :: "xml \<Rightarrow> violation \<Rightarrow> bool" where
  "anchored r v \<longleftrightarrow> (case v_insertion_point_line v of None \<Rightarrow> True
     | Some n \<Rightarrow> v_source_line v = None \<and> 1 \<le> n \<and> list_ex (\<lambda>e. xline e = Some n) (iter r))"

lemma anchored_stamp: "v_insertion_point_line v = None \<Longrightarrow> anchored r (stamp c r v)"
  using insertion_point_in_document
  by (auto simp: anchored_def stamp_def list_ex_iff split: option.splits)

section \<open>The findings of the facade\<close>

lemma core_run_unanchored:
  "run_rules (ALL_RULES py311) iv = Inr vs \<Longrightarrow> v \<in> set vs \<Longrightarrow> v_insertion_point_line v = None"
  using run_reports [OF reports_all_rules] by blast

lemma with_layer_Inr:
  "with_layer profile m layer = Inr vs \<longleftrightarrow>
     (\<exists>ws us. m = Inr ws \<and> vs = ws @ us \<and>
        (if profile = ''xrechnung'' then layer = Inr us else us = []))"
  by (cases m; cases layer) (auto simp: with_layer_def)

lemma layers_unanchored:
  "xr_evaluate r = Inr vs \<Longrightarrow> v \<in> set vs \<Longrightarrow> v_insertion_point_line v = None"
  "cii_evaluate iv = Inr vs \<Longrightarrow> v \<in> set vs \<Longrightarrow> v_insertion_point_line v = None"
  using evaluate_reports [OF reports_as_ubl] evaluate_reports [OF reports_as_cii]
  by (auto simp: xr_evaluate_def cii_evaluate_def)

lemma violations_unanchored:
  "ubl_violations py311 profile r = Inr vs \<Longrightarrow> v \<in> set vs \<Longrightarrow> v_insertion_point_line v = None"
  "cii_violations py311 profile r = Inr vs \<Longrightarrow> v \<in> set vs \<Longrightarrow> v_insertion_point_line v = None"
  using core_run_unanchored layers_unanchored
  by (auto simp: ubl_violations_def cii_violations_def with_layer_Inr Let_def split: if_splits)

lemma lift_exc_simps [simp]:
  "lift_exc m = Inr x \<longleftrightarrow> m = Inr x" "lift_exc m = Inl (UnknownProfile p) \<longleftrightarrow> False"
  by (cases m; simp add: lift_exc_def)+

lemma validate_root_Inr:
  "validate_root py311 c profile r = Inr vs \<longleftrightarrow> profile \<in> set PROFILES \<and>
     (if is_cii_root r \<or> supported_ubl r
      then \<exists>ws. (if is_cii_root r then cii_violations py311 profile r else ubl_violations py311 profile r) = Inr ws
        \<and> vs = stamp_insertion_points c r ws
      else vs = [S_ROOT (localname (xtag r))])"
  by (auto simp: validate_root_def bindE_eq_Inr)

text \<open>C31: Every finding of the facade carries at most one of its two lines, and an insertion point
  is the line, at least 1, of an element of the document.\<close>
theorem findings_anchored:
  "case validate_root py311 c profile r of Inl e \<Rightarrow> True | Inr vs \<Rightarrow> list_all (anchored r) vs"
proof (cases "validate_root py311 c profile r")
  case (Inr vs)
  have root: "anchored r (S_ROOT t)" for t by (simp add: anchored_def S_ROOT_def)
  have stamped: "list_all (anchored r) (stamp_insertion_points c r ws)"
    if "\<And>v. v \<in> set ws \<Longrightarrow> v_insertion_point_line v = None" for ws
    using that anchored_stamp by (simp add: list_all_iff stamp_insertion_points_def)
  have "list_all (anchored r) vs"
    using Inr [unfolded validate_root_Inr] root stamped [OF violations_unanchored(1)]
      stamped [OF violations_unanchored(2)] by (auto split: if_splits)
  then show ?thesis using Inr by simp
qed simp

text \<open>C29: The national profile extends the core profile: when it returns, the core profile returns
  an initial part of its findings, and the others are those of the national rules, in order.\<close>
theorem profile_extends_core:
  "case validate_root py311 c ''xrechnung'' r of Inl e \<Rightarrow> True
   | Inr vs \<Rightarrow> \<exists>ws us. validate_root py311 c ''en16931'' r = Inr ws \<and> vs = ws @ us \<and>
       subseq (map id_severity us) (if is_cii_root r then CII_DE_RULE_IDS else XR_RULE_IDS)"
proof (cases "validate_root py311 c ''xrechnung'' r")
  case (Inr vs)
  have ids: "subseq (map id_severity us) CII_DE_RULE_IDS" if "cii_evaluate iv = Inr us" for iv us
    using that evaluate_reports [OF reports_as_cii] by (simp add: cii_evaluate_def)
  have ids': "subseq (map id_severity us) XR_RULE_IDS" if "xr_evaluate r = Inr us" for us
    using that evaluate_reports [OF reports_as_ubl] by (simp add: xr_evaluate_def)
  have stamped: "id_severity \<circ> stamp c r = id_severity" by (rule ext) simp
  show ?thesis
  proof (cases "is_cii_root r \<or> supported_ubl r")
    case True
    then obtain xs where xs: "(if is_cii_root r then cii_violations py311 ''xrechnung'' r
        else ubl_violations py311 ''xrechnung'' r) = Inr xs" "vs = map (stamp c r) xs"
      using Inr [unfolded validate_root_Inr] by (auto simp: stamp_insertion_points_def)
    then obtain ws us where u: "xs = ws @ us"
      "(if is_cii_root r then cii_violations py311 ''en16931'' r
        else ubl_violations py311 ''en16931'' r) = Inr ws"
      "subseq (map id_severity us) (if is_cii_root r then CII_DE_RULE_IDS else XR_RULE_IDS)"
      using ids ids' by (cases "is_cii_root r")
        (auto simp: ubl_violations_def cii_violations_def with_layer_Inr Let_def)
    have "validate_root py311 c ''en16931'' r = Inr (map (stamp c r) ws)"
      using True u(2) by (simp add: validate_root_Inr PROFILES_def stamp_insertion_points_def)
    then show ?thesis using Inr stamped u(1,3) xs(2) by simp
  next
    case False
    then have "validate_root py311 c ''en16931'' r = Inr vs" using Inr
      by (auto simp: validate_root_Inr PROFILES_def)
    then show ?thesis using Inr by auto
  qed
qed simp

lemma subseq_subset: "subseq xs ys \<Longrightarrow> set xs \<subseteq> set ys"
  by (induction rule: list_emb.induct) auto

lemma subseq_ids:
  assumes "subseq (map id_severity vs) ps"
  shows "set (map v_rule_id vs) \<subseteq> set (map fst ps)"
proof -
  have "fst ` id_severity ` set vs \<subseteq> fst ` set ps"
    using image_mono [OF subseq_subset [OF assms]] by simp
  then show ?thesis by (simp add: image_image id_severity_def)
qed

lemma no_S_ROOT: "''S-ROOT'' \<notin> set RULE_IDS" "''S-ROOT'' \<notin> set (map fst XR_RULE_IDS)"
  "''S-ROOT'' \<notin> set (map fst CII_DE_RULE_IDS)"
  by (simp_all add: RULE_IDS_def XR_RULE_IDS_def CII_DE_RULE_IDS_def)

lemma run_ids: "run_rules (ALL_RULES py311) iv = Inr vs \<Longrightarrow> set (map v_rule_id vs) \<subseteq> set RULE_IDS"
  using run_reports [OF reports_all_rules] subseq_subset by blast

lemma layered_without_S_ROOT:
  assumes "with_layer profile (run_rules (ALL_RULES py311) iv) layer = Inr vs"
    and "\<And>us. layer = Inr us \<Longrightarrow> ''S-ROOT'' \<notin> set (map v_rule_id us)"
  shows "''S-ROOT'' \<notin> set (map v_rule_id vs)"
proof -
  obtain ws us where *: "run_rules (ALL_RULES py311) iv = Inr ws" "vs = ws @ us"
    "layer = Inr us \<or> us = []"
    using assms(1) by (auto simp: with_layer_Inr split: if_splits)
  then show ?thesis using run_ids [OF *(1)] no_S_ROOT(1) assms(2) by auto
qed

lemma graded_without_S_ROOT:
  "ubl_violations py311 profile r = Inr vs \<Longrightarrow> ''S-ROOT'' \<notin> set (map v_rule_id vs)"
  "cii_violations py311 profile r = Inr vs \<Longrightarrow> ''S-ROOT'' \<notin> set (map v_rule_id vs)"
proof -
  have xr: "''S-ROOT'' \<notin> set (map v_rule_id us)" if "xr_evaluate r = Inr us" for us
    using evaluate_reports [OF reports_as_ubl that [unfolded xr_evaluate_def]]
      subseq_ids [of us XR_RULE_IDS] no_S_ROOT(2) by blast
  have cii: "''S-ROOT'' \<notin> set (map v_rule_id us)" if "cii_evaluate iv = Inr us" for iv us
    using evaluate_reports [OF reports_as_cii that [unfolded cii_evaluate_def]]
      subseq_ids [of us CII_DE_RULE_IDS] no_S_ROOT(3) by blast
  show "ubl_violations py311 profile r = Inr vs \<Longrightarrow> ''S-ROOT'' \<notin> set (map v_rule_id vs)"
    unfolding ubl_violations_def by (rule layered_without_S_ROOT [OF _ xr])
  show "cii_violations py311 profile r = Inr vs \<Longrightarrow> ''S-ROOT'' \<notin> set (map v_rule_id vs)"
    unfolding cii_violations_def Let_def by (rule layered_without_S_ROOT [OF _ cii])
qed

lemma unknown_profile_iff:
  "validate_root py311 c profile r = Inl (UnknownProfile q) \<longleftrightarrow> q = profile \<and> profile \<notin> set PROFILES"
  by (auto simp: validate_root_def)

text \<open>C30: The facade refuses exactly the profiles other than its two, and the structural finding
  S-ROOT is reported exactly on the documents whose root is neither a UBL invoice, a UBL credit
  note nor, in any namespace, a cross-industry invoice.\<close>
theorem facade_dispatch:
  "(validate_root py311 c profile r = Inl (UnknownProfile q)) =
     (q = profile \<and> profile \<noteq> ''en16931'' \<and> profile \<noteq> ''xrechnung'') \<and>
   (case validate_root py311 c profile r of Inl e \<Rightarrow> True
    | Inr vs \<Rightarrow> (''S-ROOT'' \<in> set (map v_rule_id vs)) = (\<not> is_cii_root r \<and> \<not> supported_ubl r))"
proof -
  have ids: "map v_rule_id (stamp_insertion_points c r ws) = map v_rule_id ws" for ws
    by (simp add: stamp_insertion_points_def)
  have "case validate_root py311 c profile r of Inl e \<Rightarrow> True
    | Inr vs \<Rightarrow> (''S-ROOT'' \<in> set (map v_rule_id vs)) = (\<not> is_cii_root r \<and> \<not> supported_ubl r)"
  proof (cases "validate_root py311 c profile r")
    case (Inr vs)
    show ?thesis
    proof (cases "is_cii_root r \<or> supported_ubl r")
      case True
      then obtain ws where "(if is_cii_root r then cii_violations py311 profile r
        else ubl_violations py311 profile r) = Inr ws" "vs = stamp_insertion_points c r ws"
        using Inr [unfolded validate_root_Inr] by auto
      then have "''S-ROOT'' \<notin> set (map v_rule_id vs)"
        using graded_without_S_ROOT ids by (metis (no_types, lifting))
      then show ?thesis using Inr True by auto
    next
      case False
      then have "vs = [S_ROOT (localname (xtag r))]" using Inr [unfolded validate_root_Inr] by auto
      then show ?thesis using Inr False by (simp add: S_ROOT_def)
    qed
  qed simp
  then show ?thesis using unknown_profile_iff by (auto simp: PROFILES_def)
qed

section \<open>From the octets of a file\<close>

text \<open>\<open>validate_file\<close>: the file is parsed before the profile is looked at.\<close>

datatype file_error = Unreadable not_well_formed | Refused run_error

definition validate_file ::
    "('b list \<Rightarrow> xml_event list) \<Rightarrow> bool \<Rightarrow> (string \<Rightarrow> catalog_entry option) \<Rightarrow> string \<Rightarrow>
     'b list \<Rightarrow> file_error + violation list" where
  "validate_file expat py311 catalog profile file =
     (case parse_file expat file of
        Inl e \<Rightarrow> Inl (Unreadable e)
      | Inr r \<Rightarrow> (case validate_root py311 catalog profile r of
          Inl e \<Rightarrow> Inl (Refused e) | Inr vs \<Rightarrow> Inr vs))"

text \<open>A file whose events are those of a tree is graded as that tree.\<close>

lemma validate_file_of_tree:
  assumes "expat file = events_of e" and "length file \<le> MAX_INPUT_BYTES"
    and "parse_events (events_of e) = Inr e"
  shows "validate_file expat py311 catalog profile file =
    (case validate_root py311 catalog profile e of Inl x \<Rightarrow> Inl (Refused x) | Inr vs \<Rightarrow> Inr vs)"
  using assms by (simp add: validate_file_def parse_file_def safe_parse_def safe_fromstring_def)

end
