(* ===== verification/EI_Xr_Props.thy ===== *)
theory EI_Xr_Props
  imports EI_Xr_Run
begin

text \<open>
  What single national rules mean: the IBAN check detects every substitution of a character by
  another of its kind, the attachment rule compares different references, the payment-means
  rules together ask for exactly the group of the code.
\<close>

section \<open>The IBAN check\<close>

definition iban_value :: "nat \<Rightarrow> nat" where
  "iban_value c = (if 64 < c then c - 55 else c - 48)"

definition iban_char :: "nat \<Rightarrow> bool" where
  "iban_char c \<longleftrightarrow> is_AZ c \<or> is_az c \<or> is_09 c"

definition iban_weight :: "pystr \<Rightarrow> nat" where
  "iban_weight s = 10 ^ length (concat (map iban_digits s))"

lemma iban_value_bound: "iban_char c \<Longrightarrow> iban_value c < 100"
  by (auto simp: iban_char_def iban_value_def is_AZ_def is_az_def is_09_def)

lemma fold_digits: "foldl (\<lambda>v d. 10 * v + d) v ds = v * 10 ^ length ds + foldl (\<lambda>v d. 10 * v + d) 0 (ds :: nat list)"
proof (induction ds arbitrary: v)
  case (Cons d ds)
  show ?case using Cons [of "10 * v + d"] Cons [of d] by (simp add: algebra_simps)
qed simp

lemma iban_number_append: "iban_number (a @ b) = iban_number a * iban_weight b + iban_number b"
  using fold_digits [of "foldl (\<lambda>v d. 10 * v + d) 0 (concat (map iban_digits a))" "concat (map iban_digits b)"]
  by (simp add: iban_number_def iban_weight_def)

lemma iban_number_single: "iban_char c \<Longrightarrow> iban_number [c] = iban_value c"
  using iban_value_bound [of c] by (simp add: iban_number_def iban_digits_def iban_value_def Let_def)

lemma same_width:
  "iban_char c \<Longrightarrow> iban_char d \<Longrightarrow> is_09 c = is_09 d \<Longrightarrow> iban_weight (c # s) = iban_weight (d # s)"
  by (auto simp: iban_weight_def iban_digits_def iban_char_def is_AZ_def is_az_def is_09_def Let_def)

lemma value_differs:
  "iban_char c \<Longrightarrow> iban_char d \<Longrightarrow> is_09 c = is_09 d \<Longrightarrow> c \<noteq> d \<Longrightarrow>
   iban_value c \<noteq> iban_value d \<and> iban_value c < 97 \<and> iban_value d < 97"
  by (auto simp: iban_value_def iban_char_def is_AZ_def is_az_def is_09_def)

lemma dvd_times_power10: "(97 :: nat) dvd m * 10 ^ k \<Longrightarrow> 97 dvd m"
proof (induction k)
  case (Suc k)
  have "97 dvd n" if "97 dvd 10 * n" for n :: nat
  proof -
    have "97 dvd 68 * (10 * n)" using that by (rule dvd_mult)
    then have "97 dvd 97 * (7 * n) + n" by simp
    then show ?thesis using dvd_add_right_iff [of 97 "97 * (7 * n)" n] by simp
  qed
  moreover have "97 dvd 10 * (m * 10 ^ k)"
    using Suc.prems by (simp only: power_Suc mult.left_commute [of m])
  ultimately show ?case using Suc.IH by blast
qed simp

lemma substitution_changes:
  assumes "iban_char c" "iban_char d" "is_09 c = is_09 d" "c \<noteq> d"
  shows "iban_number (a @ c # b) mod 97 \<noteq> iban_number (a @ d # b) mod 97"
proof
  define P where "P = iban_number a * iban_weight (c # b) + iban_number b"
  define k where "k = length (concat (map iban_digits b))"
  have number: "iban_number (a @ e # b) = P + iban_value e * 10 ^ k"
    if "iban_char e" "is_09 c = is_09 e" for e
    using iban_number_append [of a "e # b"] iban_number_append [of "[e]" b] iban_number_single [OF that(1)]
      same_width [OF assms(1) that, of b] by (simp add: P_def k_def iban_weight_def)
  assume "iban_number (a @ c # b) mod 97 = iban_number (a @ d # b) mod 97"
  then have eq: "(P + iban_value c * 10 ^ k) mod 97 = (P + iban_value d * 10 ^ k) mod 97"
    using number [OF assms(1) refl] number [OF assms(2,3)] by simp
  have False if "x < y" "y < 97" "(P + x * 10 ^ k) mod 97 = (P + y * 10 ^ k) mod 97" for x y :: nat
  proof -
    have "P + x * 10 ^ k \<le> P + y * 10 ^ k" using that(1) by simp
    then have "97 dvd (P + y * 10 ^ k) - (P + x * 10 ^ k)"
      using that(3) by (metis mod_eq_dvd_iff_nat)
    then have "97 dvd (y - x) * 10 ^ k" by (simp add: diff_mult_distrib)
    then have "97 dvd y - x" by (rule dvd_times_power10)
    then show False using that(1,2) by (auto dest: dvd_imp_le)
  qed
  then show False using value_differs [OF assms] eq by (metis linorder_neqE_nat)
qed

text \<open>The rearranged IBAN keeps every position: replacing a character replaces it there too.\<close>

definition rearranged :: "pystr \<Rightarrow> pystr" where
  "rearranged s = drop 4 s @ take 2 s @ take 2 (drop 2 s)"

lemma rearranged_update:
  assumes "i < length s"
  shows "\<exists>a b. \<forall>x. rearranged (s[i := x]) = a @ x # b"
proof -
  have upd: "\<exists>a b. \<forall>x. xs[j := x] = a @ x # b" if "j < length xs" for xs :: pystr and j
    using that by (metis upd_conv_take_nth_drop)
  consider "i < 2" | "2 \<le> i" "i < 4" | "4 \<le> i" by linarith
  then show ?thesis
  proof cases
    case 1
    then obtain a b where "\<forall>x. (take 2 s)[i := x] = a @ x # b" using upd [of i "take 2 s"] assms by auto
    with 1 have "\<forall>x. rearranged (s[i := x]) = (drop 4 s @ a) @ x # (b @ take 2 (drop 2 s))"
      by (simp add: rearranged_def take_update_swap)
    then show ?thesis by blast
  next
    case 2
    then have "i - 2 < length (take 2 (drop 2 s))" using assms by (simp, linarith)
    then obtain a b where "\<forall>x. (take 2 (drop 2 s))[i - 2 := x] = a @ x # b"
      using upd by blast
    moreover have "take 2 (drop 2 (s[i := x])) = (take 2 (drop 2 s))[i - 2 := x]" for x
      using 2 by (simp add: drop_update_swap take_update_swap)
    ultimately have "\<forall>x. rearranged (s[i := x]) = (drop 4 s @ take 2 s @ a) @ x # b"
      using 2 by (simp add: rearranged_def)
    then show ?thesis by blast
  next
    case 3
    then have "i - 4 < length (drop 4 s)" using assms by (simp add: diff_less_mono)
    then obtain a b where "\<forall>x. (drop 4 s)[i - 4 := x] = a @ x # b" using upd by blast
    then have "\<forall>x. rearranged (s[i := x]) = a @ x # (b @ take 2 s @ take 2 (drop 2 s))"
      using 3 by (simp add: rearranged_def drop_update_swap)
    then show ?thesis by blast
  qed
qed

lemma alnum_not_space: "iban_char c \<Longrightarrow> \<not> py_isspace c \<and> \<not> xp_space c"
  by (auto simp: iban_char_def is_AZ_def is_az_def is_09_def py_isspace_def xp_space_def)

lemma norm_alnum:
  assumes "list_all iban_char s"
  shows "norm_space (filter (\<lambda>c. \<not> xp_space c) s) = s"
proof -
  have f: "filter (\<lambda>c. \<not> xp_space c) s = s"
    using assms alnum_not_space by (simp add: filter_id_conv list_all_iff)
  have t: "takeWhile (\<lambda>c. \<not> py_isspace c) s = s" "dropWhile (\<lambda>c. \<not> py_isspace c) s = []" "dropWhile py_isspace s = s"
    using assms alnum_not_space by (auto simp: list_all_iff dropWhile_eq_self_iff)
  show ?thesis unfolding f norm_space_def
    by (subst py_split.simps) (cases "s = []"; simp add: t py_split.simps [of "[]"])
qed

lemma shape_alnum: "iban_shape s \<Longrightarrow> list_all iban_char s"
proof -
  assume "iban_shape s"
  then have "list_all iban_char (take 2 s @ take 2 (drop 2 s) @ drop 4 s)"
    by (auto simp: iban_shape_def iban_char_def list_all_iff)
  moreover have "take 2 s @ take 2 (drop 2 s) @ drop 4 s = s"
    by (metis append_take_drop_id drop_drop numeral_Bit0)
  ultimately show ?thesis by metis
qed

lemma upper_AZ: "list_all is_AZ s \<Longrightarrow> py_upper s = s"
  by (induction s) (auto simp: py_upper_def is_AZ_def upper_char_ascii)

lemma iban_ok_alnum:
  "list_all iban_char s \<Longrightarrow> iban_ok (Some s) \<longleftrightarrow> iban_shape s \<and> iban_number (rearranged s) mod 97 = 1"
  using norm_alnum [of s] upper_AZ [of "take 2 s"]
  by (auto simp: iban_ok_def iban_shape_def rearranged_def Let_def)

text \<open>C34: An account identifier that passes the IBAN check fails it after any one of its
  characters is replaced by another digit, where it was a digit, or by another letter, where it was
  a letter.\<close>
theorem iban_substitution_detected:
  assumes "iban_shape s" and "iban_ok (Some s)" and "i < length s" and "c \<noteq> s ! i"
    and "is_09 c = is_09 (s ! i)" and "is_AZ c \<or> is_az c \<or> is_09 c"
  shows "\<not> iban_ok (Some (s[i := c]))"
proof
  assume bad: "iban_ok (Some (s[i := c]))"
  have c: "iban_char c" and all: "list_all iban_char s"
    using assms(6) shape_alnum [OF assms(1)] by (simp_all add: iban_char_def)
  then have i: "iban_char (s ! i)" using assms(3) by (simp add: list_all_length)
  have all': "list_all iban_char (s[i := c])"
    using all c set_update_subset_insert [of s i c] by (auto simp: list_all_iff)
  obtain a b where ab: "\<And>x. rearranged (s[i := x]) = a @ x # b" using rearranged_update [OF assms(3)] by blast
  have "iban_number (a @ c # b) mod 97 = 1" using bad ab [of c] iban_ok_alnum [OF all'] by simp
  moreover have "iban_number (a @ s ! i # b) mod 97 = 1"
    using assms(2) ab [of "s ! i"] iban_ok_alnum [OF all] by simp
  ultimately show False using substitution_changes [OF c i assms(5,4), of a b] by simp
qed

lemma iban_witness_digits: "iban_shape (ascii ''DE89370400440532013000'')"
  "iban_ok (Some (ascii ''DE89370400440532013000''))"
proof -
  let ?s = "ascii ''DE89370400440532013000''"
  show shape: "iban_shape ?s" by (simp add: iban_shape_def is_AZ_def is_09_def ascii_def)
  have "iban_number (rearranged ?s) mod 97 = 1"
    by (simp add: rearranged_def iban_number_def iban_digits_def ascii_def Let_def)
  then show "iban_ok (Some ?s)" using iban_ok_alnum [OF shape_alnum [OF shape]] shape by simp
qed

lemma iban_substitution_witness: "\<not> iban_ok (Some (ascii ''DE89370400440532013001''))"
  using iban_substitution_detected [OF iban_witness_digits, of 21 49]
  by (simp add: is_09_def ascii_def)

section \<open>Attachments\<close>

lemma repeated_name_None:
  "repeated_name seen gs = None \<longleftrightarrow>
     (\<forall>g\<in>set gs. set g \<inter> set seen = {}) \<and> sorted_wrt (\<lambda>a b. set a \<inter> set b = {}) gs"
proof (induction gs arbitrary: seen)
  case (Cons fns gs)
  have first: "first_some (\<lambda>f. if f \<in> set seen then Some f else None) fns = None \<longleftrightarrow> set fns \<inter> set seen = {}"
    by auto
  show ?case
  proof (cases "set fns \<inter> set seen = {}")
    case True
    then have eq: "repeated_name seen (fns # gs) = repeated_name (seen @ fns) gs"
      using first by (simp del: first_some_None)
    show ?thesis unfolding eq Cons using True by (simp add: Int_Un_distrib Int_commute) blast
  next
    case False
    then have "repeated_name seen (fns # gs) \<noteq> None" using first
      by (cases "first_some (\<lambda>f. if f \<in> set seen then Some f else None) fns") auto
    then show ?thesis using False by auto
  qed
qed simp

text \<open>BR-DE-22 fires exactly when two different document references carry attachments with the
  same file name; a name that one reference repeats by itself is not reported.\<close>
theorem br_de_22_iff:
  "fires (br_de_22 r) = (let gs = map attachment_names (xfindall [cac ''AdditionalDocumentReference''] r) in
     \<exists>j i. j < length gs \<and> i < j \<and> set (gs ! i) \<inter> set (gs ! j) \<noteq> {})"
proof -
  define gs where "gs = map attachment_names (xfindall [cac ''AdditionalDocumentReference''] r)"
  have "fires (br_de_22 r) = (repeated_name [] gs \<noteq> None)"
    by (simp add: br_de_22_def gs_def fires_def del: xfindall_simps split: option.split)
  then show ?thesis unfolding gs_def [symmetric] Let_def repeated_name_None sorted_wrt_iff_nth_less by auto
qed

section \<open>Payment means\<close>

text \<open>The group that a payment-means code asks for: credit transfer, card or direct debit.\<close>

datatype payment_group = CreditTransfer | Card | DirectDebit

definition group_path :: "payment_group \<Rightarrow> pystr list" where
  "group_path g = (case g of CreditTransfer \<Rightarrow> [cac ''PayeeFinancialAccount'']
     | Card \<Rightarrow> [cac ''CardAccount''] | DirectDebit \<Rightarrow> [cac ''PaymentMandate''])"

definition group_of_code :: "pystr \<Rightarrow> payment_group option" where
  "group_of_code c = (if code_in [''30'', ''58''] c then Some CreditTransfer
     else if code_in [''48'', ''54'', ''55''] c then Some Card
     else if code_in [''59''] c then Some DirectDebit else None)"

text \<open>The groups that are present are exactly the one of the code, when the code has one.\<close>

definition groups_match :: "xml \<Rightarrow> bool" where
  "groups_match pm = (case group_of_code (payment_means_code pm) of None \<Rightarrow> True
     | Some g \<Rightarrow> filter (\<lambda>h. has_path (group_path h) pm) [CreditTransfer, Card, DirectDebit] = [g])"

text \<open>C35: The six rules on payment-means groups (BR-DE-23-a to BR-DE-25-b) are all silent exactly
  when in every payment means with a credit-transfer, card or direct-debit code the group of that
  code is there and the other two are not.\<close>
theorem payment_groups:
  "(\<not> fires (br_de_23_a r) \<and> \<not> fires (br_de_23_b r) \<and> \<not> fires (br_de_24_a r) \<and>
    \<not> fires (br_de_24_b r) \<and> \<not> fires (br_de_25_a r) \<and> \<not> fires (br_de_25_b r)) =
   list_all groups_match (xfindall [cac ''PaymentMeans''] r)"
proof -
  have rules: "(\<not> fires (br_de_23_a r) \<and> \<not> fires (br_de_23_b r) \<and> \<not> fires (br_de_24_a r) \<and>
    \<not> fires (br_de_24_b r) \<and> \<not> fires (br_de_25_a r) \<and> \<not> fires (br_de_25_b r)) \<longleftrightarrow>
    (\<forall>pm\<in>set (xfindall [cac ''PaymentMeans''] r). let c = payment_means_code pm;
       p = has_path (group_path CreditTransfer) pm; a = has_path (group_path Card) pm;
       d = has_path (group_path DirectDebit) pm in
       \<not> (code_in [''30'', ''58''] c \<and> \<not> p) \<and> \<not> (code_in [''30'', ''58''] c \<and> (a \<or> d)) \<and>
       \<not> (code_in [''48'', ''54'', ''55''] c \<and> \<not> a) \<and> \<not> (code_in [''48'', ''54'', ''55''] c \<and> (p \<or> d)) \<and>
       \<not> (code_in [''59''] c \<and> \<not> d) \<and> \<not> (code_in [''59''] c \<and> (p \<or> a)))"
    unfolding br_de_23_a_def br_de_23_b_def br_de_24_a_def br_de_24_b_def br_de_25_a_def br_de_25_b_def
      fires_simps group_path_def payment_group.case Let_def by blast
  have one: "(let c = payment_means_code pm;
       p = has_path (group_path CreditTransfer) pm; a = has_path (group_path Card) pm;
       d = has_path (group_path DirectDebit) pm in
       \<not> (code_in [''30'', ''58''] c \<and> \<not> p) \<and> \<not> (code_in [''30'', ''58''] c \<and> (a \<or> d)) \<and>
       \<not> (code_in [''48'', ''54'', ''55''] c \<and> \<not> a) \<and> \<not> (code_in [''48'', ''54'', ''55''] c \<and> (p \<or> d)) \<and>
       \<not> (code_in [''59''] c \<and> \<not> d) \<and> \<not> (code_in [''59''] c \<and> (p \<or> a))) \<longleftrightarrow> groups_match pm" for pm
  proof -
    have "\<not> (code_in [''30'', ''58''] c \<and> code_in [''48'', ''54'', ''55''] c)"
      "\<not> (code_in [''30'', ''58''] c \<and> code_in [''59''] c)"
      "\<not> (code_in [''48'', ''54'', ''55''] c \<and> code_in [''59''] c)" for c
      by (auto simp: code_in_def)
    then show ?thesis
      by (simp add: groups_match_def group_of_code_def Let_def)
  qed
  show ?thesis unfolding rules one by (simp add: list_all_iff del: xfindall_simps)
qed

end
