(* ===== verification/EI_Sb.thy ===== *)
theory EI_Sb
  imports EI_Word_Chars EI_Decimal "HOL-Library.List_Lexorder"
begin

text \<open>
  The syntax-binding evaluator (\<open>syntax_binding_eval.py\<close>): a closed subset of XPath, compiled
  from the text of a Schematron assert and of its rule context, and evaluated on every node the
  context matches.  A node is identified by its address, the child positions on the way from
  the root, as the code identifies elements by \<open>id\<close> in one document.
\<close>

section \<open>Namespaces and names\<close>

type_synonym nsmap = "(pystr \<times> pystr) list"

definition NSMAP :: nsmap where
  "NSMAP = [
    (ascii ''ext'', ascii ''urn:oasis:names:specification:ubl:schema:xsd:CommonExtensionComponents-2''),
    (ascii ''cbc'', ascii ''urn:oasis:names:specification:ubl:schema:xsd:CommonBasicComponents-2''),
    (ascii ''cac'', ascii ''urn:oasis:names:specification:ubl:schema:xsd:CommonAggregateComponents-2''),
    (ascii ''qdt'', ascii ''urn:oasis:names:specification:ubl:schema:xsd:QualifiedDataTypes-2''),
    (ascii ''udt'', ascii ''urn:oasis:names:specification:ubl:schema:xsd:UnqualifiedDataTypes-2''),
    (ascii ''cn'', ascii ''urn:oasis:names:specification:ubl:schema:xsd:CreditNote-2''),
    (ascii ''ubl'', ascii ''urn:oasis:names:specification:ubl:schema:xsd:Invoice-2''),
    (ascii ''xs'', ascii ''http://www.w3.org/2001/XMLSchema'')]"

definition CII_NSMAP :: nsmap where
  "CII_NSMAP = [
    (ascii ''rsm'', ascii ''urn:un:unece:uncefact:data:standard:CrossIndustryInvoice:100''),
    (ascii ''ram'', ascii ''urn:un:unece:uncefact:data:standard:ReusableAggregateBusinessInformationEntity:100''),
    (ascii ''udt'', ascii ''urn:un:unece:uncefact:data:standard:UnqualifiedDataType:100''),
    (ascii ''qdt'', ascii ''urn:un:unece:uncefact:data:standard:QualifiedDataType:100'')]"

definition SUPPORTED_CONTEXT :: pystr where
  "SUPPORTED_CONTEXT = ascii ''/ubl:Invoice | /cn:CreditNote''"

text \<open>\<open>{uri}local\<close>.\<close>

definition clark :: "pystr \<Rightarrow> pystr \<Rightarrow> pystr" where
  "clark uri local = 123 # uri @ 125 # local"

text \<open>A dollar sign also matches before a line feed at the end.\<close>

definition chop_newline :: "pystr \<Rightarrow> pystr" where
  "chop_newline s = (if s \<noteq> [] \<and> last s = 10 then butlast s else s)"

definition is_qname :: "pystr \<Rightarrow> bool" where
  "is_qname s \<longleftrightarrow> (case split1 58 (chop_newline s) of
     (a, None) \<Rightarrow> False | (a, Some b) \<Rightarrow> name_ok a \<and> name_ok b)"

definition is_attr_name :: "pystr \<Rightarrow> bool" where
  "is_attr_name s \<longleftrightarrow> (case split1 58 (chop_newline s) of
     (a, None) \<Rightarrow> name_ok a | (a, Some b) \<Rightarrow> name_ok a \<and> name_ok b)"

definition resolve_qname :: "nsmap \<Rightarrow> pystr \<Rightarrow> pystr option" where
  "resolve_qname ns q =
     (if \<not> is_qname q then None
      else case split1 58 q of (prefix, None) \<Rightarrow> None
        | (prefix, Some local) \<Rightarrow> map_option (\<lambda>uri. clark uri local) (map_of ns prefix))"

definition resolve_attr :: "nsmap \<Rightarrow> pystr \<Rightarrow> pystr option" where
  "resolve_attr ns name =
     (if \<not> is_attr_name name then None
      else case split1 58 name of (local, None) \<Rightarrow> Some name
        | (prefix, Some local) \<Rightarrow> map_option (\<lambda>uri. clark uri local) (map_of ns prefix))"

section \<open>Text operations\<close>

definition ends_with :: "pystr \<Rightarrow> pystr \<Rightarrow> bool" where
  "ends_with suf s \<longleftrightarrow> starts_with (rev suf) (rev s)"

definition depth_after :: "nat \<Rightarrow> int \<Rightarrow> int" where
  "depth_after c d = (if c = 40 then d + 1 else if c = 41 then d - 1 else d)"

text \<open>\<open>_split_top\<close>: the pieces between the separators at parenthesis depth 0.\<close>

function split_loop :: "pystr \<Rightarrow> int \<Rightarrow> pystr \<Rightarrow> pystr \<Rightarrow> pystr list" where
  "split_loop sep d buf [] = [buf]"
| "split_loop sep d buf (c # cs) =
     (let e = depth_after c d in
      if e = 0 \<and> starts_with sep (c # cs) then buf # split_loop sep e [] (drop (length sep - 1) cs)
      else split_loop sep e (buf @ [c]) cs)"
  by pat_completeness auto
termination
  by (relation "measure (\<lambda>(sep, d, buf, s). length s)") auto

definition split_top :: "pystr \<Rightarrow> pystr \<Rightarrow> pystr list" where
  "split_top s sep = split_loop sep 0 [] s"

text \<open>\<open>_match_paren\<close> at an opening parenthesis: the text inside and the text after the
  parenthesis that closes it.\<close>

fun paren_loop :: "int \<Rightarrow> pystr \<Rightarrow> pystr \<Rightarrow> (pystr \<times> pystr) option" where
  "paren_loop d acc [] = None"
| "paren_loop d acc (c # cs) =
     (let e = depth_after c d in
      if c = 41 \<and> e = 0 then Some (tl acc, cs) else paren_loop e (acc @ [c]) cs)"

definition match_paren :: "pystr \<Rightarrow> (pystr \<times> pystr) option" where
  "match_paren s = paren_loop 0 [] s"

lemma paren_loop_length:
  "paren_loop d acc s = Some (i, t) \<Longrightarrow> length i + length t \<le> length acc + length s"
proof (induction d acc s rule: paren_loop.induct)
  case (2 d acc c cs)
  then show ?case by (fastforce simp: Let_def split: if_splits)
qed simp

lemma py_strip_length [simp]: "length (py_strip s) \<le> length s"
  unfolding py_strip_def
  by (metis length_dropWhile_le length_rev le_trans)

lemma paren_loop_inner:
  "paren_loop d acc s = Some (i, t) \<Longrightarrow> acc = [] \<longrightarrow> d = 0 \<Longrightarrow>
   length i + length t < length acc + length s"
proof (induction d acc s rule: paren_loop.induct)
  case (2 d acc c cs)
  then show ?case
    by (cases acc) (fastforce simp: Let_def depth_after_def split: if_splits dest: paren_loop_length)+
qed simp

text \<open>\<open>_strip_outer_parens\<close>.\<close>

function strip_outer_parens :: "pystr \<Rightarrow> pystr" where
  "strip_outer_parens s =
     (let t = py_strip s in
      if t \<noteq> [] \<and> hd t = 40 \<and> last t = 41 then
        (case match_paren t of Some (inner, []) \<Rightarrow> strip_outer_parens inner | _ \<Rightarrow> t)
      else t)"
  by auto
termination
proof (relation "measure length")
  fix s t p inner tl'
  assume "t = py_strip s" "match_paren t = Some p" "(inner, tl') = p" "tl' = []"
  then have "length inner < length t" using paren_loop_inner [of 0 "[]" t inner "[]"]
    by (simp add: match_paren_def)
  then show "(inner, s) \<in> measure length"
    using \<open>t = py_strip s\<close> le_trans [OF _ py_strip_length [of s]] by (simp add: less_le_trans)
qed simp

declare strip_outer_parens.simps [simp del]

text \<open>\<open>_strip_outer_not\<close>: the parenthesis after \<open>not\<close> may only close at the end.\<close>

fun closes_early :: "int \<Rightarrow> pystr \<Rightarrow> bool" where
  "closes_early d [] = False"
| "closes_early d (c # cs) =
     (let e = depth_after c d in (c = 41 \<and> e = 0 \<and> cs \<noteq> []) \<or> closes_early e cs)"

definition strip_outer_not :: "pystr \<Rightarrow> pystr option" where
  "strip_outer_not expr =
     (let s = py_strip expr; body = dropWhile py_isspace (drop 3 s) in
      if starts_with (ascii ''not'') s \<and> body \<noteq> [] \<and> hd body = 40 \<and> last body = 41 \<and>
        \<not> closes_early 0 body
      then Some (butlast (tl body)) else None)"

section \<open>Restricted location paths\<close>

datatype step = ElemStep "pystr list" | AttrStep pystr | ParentStep

datatype sb_path = Path (p_descendant: bool) (p_steps: "step list") (p_rooted: bool)

definition parse_step :: "nsmap \<Rightarrow> pystr \<Rightarrow> step option" where
  "parse_step ns tok =
     (let t = py_strip tok in
      if t = [] then None
      else if t = ascii ''..'' then Some ParentStep
      else if hd t = 64 then map_option AttrStep (resolve_attr ns (tl t))
      else if hd t = 40 \<and> last t = 41
      then map_option ElemStep (those (map (\<lambda>m. resolve_qname ns (py_strip m))
             (split_top (butlast (tl t)) (ascii ''|''))))
      else map_option (\<lambda>q. ElemStep [q]) (resolve_qname ns t))"

text \<open>The loop of \<open>parse_path\<close>; \<open>np\<close> says that a parent step is not allowed any more.\<close>

fun parse_steps :: "nsmap \<Rightarrow> bool \<Rightarrow> pystr list \<Rightarrow> step list option" where
  "parse_steps ns np [] = Some []"
| "parse_steps ns np (raw # raws) = (case parse_step ns raw of
     None \<Rightarrow> None
   | Some (AttrStep k) \<Rightarrow> if raws = [] then Some [AttrStep k] else None
   | Some ParentStep \<Rightarrow> if np then None else map_option ((#) ParentStep) (parse_steps ns np raws)
   | Some (ElemStep ts) \<Rightarrow> map_option ((#) (ElemStep ts)) (parse_steps ns True raws))"

definition parse_path :: "nsmap \<Rightarrow> bool \<Rightarrow> pystr \<Rightarrow> sb_path option" where
  "parse_path ns allow_rooted path =
     (let s = py_strip path; descendant = starts_with (ascii ''//'') s;
          rooted = (\<not> descendant \<and> starts_with (ascii ''/'') s);
          rest = (if descendant then drop 2 s else if rooted then drop 1 s else s)
      in if rooted \<and> \<not> allow_rooted then None
         else if rest = [] \<or> substring_of (ascii ''//'') rest then None
         else case parse_steps ns (descendant \<or> rooted) (split_top rest (ascii ''/'')) of
             None \<Rightarrow> None
           | Some sts \<Rightarrow> (case sts of
               ElemStep ts # _ \<Rightarrow> Some (Path descendant sts rooted)
             | _ \<Rightarrow> if rooted then None else Some (Path descendant sts rooted)))"

section \<open>Nodes and selection\<close>

type_synonym loc = "nat list"

fun subtree :: "xml \<Rightarrow> loc \<Rightarrow> xml option" where
  "subtree e [] = Some e"
| "subtree e (i # p) = (if i < length (kids e) then subtree (kids e ! i) p else None)"

text \<open>\<open>root.iter()\<close>: every address, in document order.\<close>

function locs :: "xml \<Rightarrow> loc list" where
  "locs (Elem t a x y l ks) =
     [] # concat (map (\<lambda>i. map ((#) i) (locs (ks ! i))) [0..<length ks])"
  by pat_completeness auto
termination
  by (relation "measure size") (auto intro: size_kids)

definition loc_parent :: "loc \<Rightarrow> loc option" where
  "loc_parent p = (if p = [] then None else Some (butlast p))"

definition loc_tag :: "xml \<Rightarrow> loc \<Rightarrow> text_opt" where
  "loc_tag r p = map_option xtag (subtree r p)"

definition loc_attr :: "xml \<Rightarrow> loc \<Rightarrow> pystr \<Rightarrow> text_opt" where
  "loc_attr r p key = (case subtree r p of None \<Rightarrow> None | Some e \<Rightarrow> map_of (attrs e) key)"

definition child_locs :: "xml \<Rightarrow> loc \<Rightarrow> loc list" where
  "child_locs r p = (case subtree r p of None \<Rightarrow> []
     | Some e \<Rightarrow> map (\<lambda>i. p @ [i]) [0..<length (kids e)])"

definition children_in :: "xml \<Rightarrow> pystr list \<Rightarrow> loc \<Rightarrow> loc list" where
  "children_in r tags p =
     filter (\<lambda>c. case loc_tag r c of None \<Rightarrow> False | Some t \<Rightarrow> t \<in> set tags) (child_locs r p)"

datatype sb_node = ElemNode loc | AttrNode loc pystr

text \<open>The first occurrences, in order.\<close>

definition distinct_first :: "'a list \<Rightarrow> 'a list" where
  "distinct_first xs = rev (remdups (rev xs))"

fun select_steps :: "xml \<Rightarrow> step list \<Rightarrow> loc list \<Rightarrow> sb_node list" where
  "select_steps r [] cur = map ElemNode cur"
| "select_steps r (ParentStep # ss) cur =
     select_steps r ss (distinct_first (List.map_filter loc_parent cur))"
| "select_steps r (AttrStep k # ss) cur =
     map (\<lambda>p. AttrNode p k) (filter (\<lambda>p. loc_attr r p k \<noteq> None) cur)"
| "select_steps r (ElemStep ts # ss) cur =
     select_steps r ss (concat (map (children_in r ts) cur))"

text \<open>\<open>_select\<close>.\<close>

definition select :: "sb_path \<Rightarrow> loc \<Rightarrow> xml \<Rightarrow> sb_node list" where
  "select path ctx r =
     (if p_descendant path then select_steps r (p_steps path) (locs r)
      else if p_rooted path then (case p_steps path of
          ElemStep ts # ss \<Rightarrow> select_steps r ss (if xtag r \<in> set ts then [[]] else [])
        | _ \<Rightarrow> [])
      else select_steps r (p_steps path) [ctx])"

fun string_value :: "xml \<Rightarrow> sb_node \<Rightarrow> pystr" where
  "string_value r (ElemNode p) = (case subtree r p of None \<Rightarrow> [] | Some e \<Rightarrow> strval e)"
| "string_value r (AttrNode p k) = or_empty (loc_attr r p k)"

definition nodeset_ne :: "xml \<Rightarrow> sb_node list \<Rightarrow> sb_node list \<Rightarrow> bool" where
  "nodeset_ne r as bs \<longleftrightarrow>
     (if as = [] \<or> bs = [] then False
      else let avals = set (map (string_value r) as); bvals = set (map (string_value r) bs)
           in \<not> (card avals = 1 \<and> avals = bvals))"

section \<open>Compiled asserts\<close>

datatype relop = LE | GE | EQ | LT | GT

fun sb_cmp :: "int \<Rightarrow> relop \<Rightarrow> int \<Rightarrow> bool" where
  "sb_cmp c LE n = (c \<le> n)"
| "sb_cmp c EQ n = (c = n)"
| "sb_cmp c LT n = (c < n)"
| "sb_cmp c GE n = (n \<le> c)"
| "sb_cmp c GT n = (n < c)"

text \<open>\<open>_Compiled\<close>, one constructor per \<open>kind\<close>.\<close>

datatype compiled =
    C_Not sb_path
  | C_NotOrEq sb_path sb_path pystr
  | C_NotOrExists sb_path sb_path
  | C_NotAnd "sb_path list"
  | C_Count sb_path relop int
  | C_NotOrCount sb_path sb_path relop int
  | C_CountDiff sb_path sb_path relop int
  | C_AndCountNe sb_path relop int sb_path sb_path
  | C_DecimalLe int
  | C_ExistsAll "sb_path list"

definition first_or :: "sb_node list \<Rightarrow> sb_node option \<Rightarrow> sb_node option" where
  "first_or ns d = (case ns of [] \<Rightarrow> d | n # _ \<Rightarrow> Some n)"

text \<open>The text after the first full stop, empty without one.\<close>

definition substring_after_dot :: "pystr \<Rightarrow> pystr" where
  "substring_after_dot s = or_empty (snd (split1 46 s))"

text \<open>\<open>_Compiled.evaluate\<close>: whether the assert fires, and the offending node.\<close>

fun eval_compiled :: "compiled \<Rightarrow> loc \<Rightarrow> xml \<Rightarrow> bool \<times> sb_node option" where
  "eval_compiled (C_Not p) ctx r =
     (case select p ctx r of [] \<Rightarrow> (False, None) | n # _ \<Rightarrow> (True, Some n))"
| "eval_compiled (C_NotOrEq p q literal) ctx r =
     (case select p ctx r of [] \<Rightarrow> (False, None)
      | n # _ \<Rightarrow> if list_ex (\<lambda>m. string_value r m = literal) (select q ctx r) then (False, None)
                else (True, Some n))"
| "eval_compiled (C_NotOrExists p q) ctx r =
     (case select p ctx r of [] \<Rightarrow> (False, None)
      | n # _ \<Rightarrow> if select q ctx r \<noteq> [] then (False, None) else (True, Some n))"
| "eval_compiled (C_NotAnd terms) ctx r =
     (let sets = map (\<lambda>t. select t ctx r) terms in
      if list_all (\<lambda>s. s \<noteq> []) sets
      then (True, case sets of [] \<Rightarrow> None | s # _ \<Rightarrow> first_or s None) else (False, None))"
| "eval_compiled (C_Count p op n) ctx r =
     (let nodes = select p ctx r in
      if sb_cmp (int (length nodes)) op n then (False, None) else (True, first_or nodes None))"
| "eval_compiled (C_NotOrCount p q op n) ctx r =
     (case select p ctx r of [] \<Rightarrow> (False, None)
      | m # _ \<Rightarrow> (let nodes = select q ctx r in
          if sb_cmp (int (length nodes)) op n then (False, None)
          else (True, first_or nodes (Some m))))"
| "eval_compiled (C_CountDiff p q op n) ctx r =
     (let c1 = int (length (select p ctx r)); c2 = int (length (select q ctx r)) in
      if sb_cmp (c1 - c2) op n then (False, None) else (True, None))"
| "eval_compiled (C_AndCountNe p op n a b) ctx r =
     (let nodes = select p ctx r; count_ok = sb_cmp (int (length nodes)) op n;
          ne_true = nodeset_ne r (select a ctx r) (select b ctx r) in
      if count_ok \<and> ne_true then (False, None)
      else (True, if count_ok then None else first_or nodes None))"
| "eval_compiled (C_DecimalLe n) ctx r =
     (if int (length (substring_after_dot (string_value r (ElemNode ctx)))) \<le> n then (False, None)
      else (True, Some (ElemNode ctx)))"
| "eval_compiled (C_ExistsAll terms) ctx r =
     (list_ex (\<lambda>t. select t ctx r = []) terms, None)"

section \<open>Compiling absence restrictions\<close>

text \<open>\<open>_LITERAL_CMP_RE\<close>: the shortest path, at least one character, that the comparison
  with a literal follows.\<close>

definition literal_tail :: "pystr \<Rightarrow> pystr option" where
  "literal_tail t = (case dropWhile py_isspace t of
     [] \<Rightarrow> None
   | c # u \<Rightarrow> if c \<noteq> 61 then None else (case dropWhile py_isspace u of
       [] \<Rightarrow> None
     | d # v \<Rightarrow> if d \<noteq> 39 then None else (case split1 39 v of
         (lit, None) \<Rightarrow> None
       | (lit, Some rest) \<Rightarrow> if rest = [] \<or> rest = [10] then Some lit else None)))"

definition literal_cmp :: "pystr \<Rightarrow> (pystr \<times> pystr) option" where
  "literal_cmp s = first_some (\<lambda>i. map_option (\<lambda>lit. (take i s, lit)) (literal_tail (drop i s)))
     [1..<length s]"

definition is_parent :: "step \<Rightarrow> bool" where
  "is_parent st \<longleftrightarrow> st = ParentStep"

definition plain_child_path :: "nsmap \<Rightarrow> bool \<Rightarrow> pystr \<Rightarrow> sb_path option" where
  "plain_child_path ns allow_rooted expr = (case parse_path ns allow_rooted expr of
     None \<Rightarrow> None | Some p \<Rightarrow> if list_ex is_parent (p_steps p) then None else Some p)"

text \<open>\<open>_parse_existence_atom\<close>: the text of the path, the path, and its sign.\<close>

definition parse_existence_atom :: "nsmap \<Rightarrow> pystr \<Rightarrow> (pystr \<times> sb_path \<times> bool) option" where
  "parse_existence_atom ns term =
     (let t = py_strip term in case strip_outer_not t of
        Some inner \<Rightarrow> (let key = py_strip inner in
          map_option (\<lambda>p. (key, p, False)) (plain_child_path ns False key))
      | None \<Rightarrow> map_option (\<lambda>p. (t, p, True)) (plain_child_path ns False t))"

text \<open>The two atoms of one disjunct of the mutual-exclusion form, over different paths.\<close>

definition exclusion_pair ::
    "nsmap \<Rightarrow> pystr \<Rightarrow> ((pystr \<times> sb_path \<times> bool) \<times> (pystr \<times> sb_path \<times> bool)) option" where
  "exclusion_pair ns d = (case split_top (strip_outer_parens (py_strip d)) (ascii '' and '') of
     [x, y] \<Rightarrow> (case (parse_existence_atom ns x, parse_existence_atom ns y) of
         (Some a, Some b) \<Rightarrow> if fst a = fst b then None else Some (a, b)
       | _ \<Rightarrow> None)
   | _ \<Rightarrow> None)"

definition add_path :: "pystr \<times> sb_path \<times> bool \<Rightarrow> (pystr \<times> sb_path) list \<Rightarrow> (pystr \<times> sb_path) list" where
  "add_path a order = (if fst a \<in> fst ` set order then order else order @ [(fst a, fst (snd a))])"

text \<open>The loop over the disjuncts: the paths in the order of their first occurrence and the
  pairs of signs, the sign of the first path first.\<close>

fun exclusion_loop ::
    "nsmap \<Rightarrow> pystr list \<Rightarrow> (pystr \<times> sb_path) list \<Rightarrow> (bool \<times> bool) list \<Rightarrow>
     ((pystr \<times> sb_path) list \<times> (bool \<times> bool) list) option" where
  "exclusion_loop ns [] order signs = Some (order, signs)"
| "exclusion_loop ns (d # ds) order signs = (case exclusion_pair ns d of
     None \<Rightarrow> None
   | Some (a, b) \<Rightarrow>
      (let order' = add_path b (add_path a order);
           sign = (\<lambda>k. if k = fst a then snd (snd a) else snd (snd b))
       in if length order' > 2 then None
          else (case map fst order' of
            [k, l] \<Rightarrow> if {fst a, fst b} \<noteq> {k, l} then None
                      else exclusion_loop ns ds order' (signs @ [(sign k, sign l)])
          | _ \<Rightarrow> None)))"

definition compile_mutual_exclusion :: "nsmap \<Rightarrow> pystr list \<Rightarrow> compiled option" where
  "compile_mutual_exclusion ns disjuncts =
     (if length disjuncts \<noteq> 3 then None
      else case exclusion_loop ns disjuncts [] [] of
          None \<Rightarrow> None
        | Some (order, signs) \<Rightarrow>
            if length order = 2 \<and> set signs = {(False, True), (True, False), (False, False)}
            then Some (C_NotAnd (map snd order)) else None)"

definition compile_not :: "nsmap \<Rightarrow> pystr \<Rightarrow> compiled option" where
  "compile_not ns inner = (case parse_path ns False inner of
     Some p \<Rightarrow> Some (C_Not p)
   | None \<Rightarrow> (case split_top inner (ascii '' and '') of
       [x, y] \<Rightarrow> (case (plain_child_path ns False x, plain_child_path ns False y) of
           (Some a, Some b) \<Rightarrow> Some (C_NotAnd [a, b]) | _ \<Rightarrow> None)
     | _ \<Rightarrow> None))"

definition compile_not_or :: "nsmap \<Rightarrow> pystr \<Rightarrow> pystr \<Rightarrow> compiled option" where
  "compile_not_or ns d1 d2 = (case strip_outer_not (py_strip d1) of
     None \<Rightarrow> None
   | Some left_inner \<Rightarrow> (case parse_path ns False left_inner of
       None \<Rightarrow> None
     | Some p \<Rightarrow> (let right = strip_outer_parens (py_strip d2) in
         case literal_cmp right of
           Some (path, lit) \<Rightarrow>
             map_option (\<lambda>q. C_NotOrEq p q lit) (parse_path ns False (py_strip path))
         | None \<Rightarrow>
             if starts_with (ascii ''('') (py_strip d2)
             then map_option (C_NotOrExists p) (plain_child_path ns True right) else None)))"

definition compile_test :: "nsmap \<Rightarrow> text_opt \<Rightarrow> compiled option" where
  "compile_test ns test =
     (let s = py_strip (or_empty test) in
      if s = [] then None
      else case strip_outer_not s of
          Some inner \<Rightarrow> compile_not ns inner
        | None \<Rightarrow> (case split_top s (ascii '' or '') of
            [d1, d2] \<Rightarrow> compile_not_or ns d1 d2
          | [d1, d2, d3] \<Rightarrow> compile_mutual_exclusion ns [d1, d2, d3]
          | _ \<Rightarrow> None))"

section \<open>Compiling counts, existence and decimals\<close>

text \<open>\<open>_COUNT_OP_RE\<close>.\<close>

definition relop_of :: "pystr \<Rightarrow> (relop \<times> pystr) option" where
  "relop_of s =
     (if starts_with (ascii ''<='') s then Some (LE, drop 2 s)
      else if starts_with (ascii ''>='') s then Some (GE, drop 2 s)
      else if starts_with (ascii ''='') s then Some (EQ, drop 1 s)
      else if starts_with (ascii ''<'') s then Some (LT, drop 1 s)
      else if starts_with (ascii ''>'') s then Some (GT, drop 1 s) else None)"

definition count_op :: "pystr \<Rightarrow> (relop \<times> int) option" where
  "count_op tail = (case relop_of (dropWhile py_isspace tail) of
     None \<Rightarrow> None
   | Some (op, u) \<Rightarrow> (let v = dropWhile py_isspace u; ds = takeWhile is_digit v in
       if ds \<noteq> [] \<and> list_all py_isspace (dropWhile is_digit v) then Some (op, digits_val ds)
       else None))"

definition parse_count_cmp :: "nsmap \<Rightarrow> pystr \<Rightarrow> (sb_path \<times> relop \<times> int) option" where
  "parse_count_cmp ns expr =
     (let e = py_strip expr in
      if \<not> starts_with (ascii ''count('') e then None
      else case match_paren (drop 5 e) of
          None \<Rightarrow> None
        | Some (inner, tail) \<Rightarrow> (case (count_op tail, parse_path ns False (py_strip inner)) of
            (Some (op, n), Some p) \<Rightarrow> Some (p, op, n) | _ \<Rightarrow> None))"

definition parse_count_diff :: "nsmap \<Rightarrow> pystr \<Rightarrow> compiled option" where
  "parse_count_diff ns expr =
     (let e = py_strip expr in
      if \<not> starts_with (ascii ''count('') e then None
      else case match_paren (drop 5 e) of
          None \<Rightarrow> None
        | Some (inner1, tail1) \<Rightarrow>
           (let t = py_strip tail1; rest = py_strip (drop 1 t) in
            if \<not> starts_with (ascii ''-'') t \<or> \<not> starts_with (ascii ''count('') rest then None
            else case match_paren (drop 5 rest) of
                None \<Rightarrow> None
              | Some (inner2, tail2) \<Rightarrow>
                 (case (count_op tail2, parse_path ns False (py_strip inner1),
                        parse_path ns False (py_strip inner2)) of
                    (Some (op, n), Some p1, Some p2) \<Rightarrow> Some (C_CountDiff p1 p2 op n)
                  | _ \<Rightarrow> None)))"

definition parse_nodeset_ne :: "nsmap \<Rightarrow> pystr \<Rightarrow> (sb_path \<times> sb_path) option" where
  "parse_nodeset_ne ns expr = (case split_top expr (ascii ''!='') of
     [x, y] \<Rightarrow> (case (parse_path ns False (strip_outer_parens (py_strip x)),
                      parse_path ns False (strip_outer_parens (py_strip y))) of
         (Some a, Some b) \<Rightarrow> Some (a, b) | _ \<Rightarrow> None)
   | _ \<Rightarrow> None)"

definition compile_and_count_ne :: "nsmap \<Rightarrow> pystr \<Rightarrow> pystr \<Rightarrow> compiled option" where
  "compile_and_count_ne ns left right =
     (case parse_count_cmp ns (strip_outer_parens (py_strip left)) of
        None \<Rightarrow> None
      | Some (p, op, n) \<Rightarrow> (case parse_nodeset_ne ns (strip_outer_parens (py_strip right)) of
          None \<Rightarrow> None | Some (a, b) \<Rightarrow> Some (C_AndCountNe p op n a b)))"

definition compile_not_or_count :: "nsmap \<Rightarrow> pystr \<Rightarrow> pystr \<Rightarrow> compiled option" where
  "compile_not_or_count ns d1 d2 = (case strip_outer_not (py_strip d1) of
     None \<Rightarrow> None
   | Some left \<Rightarrow> (case parse_path ns False left of
       None \<Rightarrow> None
     | Some p1 \<Rightarrow> (case parse_count_cmp ns (strip_outer_parens (py_strip d2)) of
         None \<Rightarrow> None | Some (p2, op, n) \<Rightarrow> Some (C_NotOrCount p1 p2 op n))))"

definition compile_count_test :: "nsmap \<Rightarrow> text_opt \<Rightarrow> compiled option" where
  "compile_count_test ns test =
     (let s = strip_outer_parens (py_strip (or_empty test)) in
      if s = [] then None
      else case split_top s (ascii '' and '') of
          [x, y] \<Rightarrow> compile_and_count_ne ns x y
        | _ \<Rightarrow> (case split_top s (ascii '' or '') of
            [d1, d2] \<Rightarrow> compile_not_or_count ns d1 d2
          | [d] \<Rightarrow> (case parse_count_diff ns s of
              Some c \<Rightarrow> Some c
            | None \<Rightarrow> map_option (\<lambda>(p, op, n). C_Count p op n) (parse_count_cmp ns s))
          | _ \<Rightarrow> None))"

definition exists_term :: "nsmap \<Rightarrow> pystr \<Rightarrow> sb_path option" where
  "exists_term ns term =
     (let t = py_strip term; u = (if starts_with (ascii ''exists('') t then drop 6 t else t) in
      if t \<noteq> [] \<and> last t = 41 \<and> u \<noteq> [] \<and> hd u = 40 then
        (case match_paren u of
           Some (inner, []) \<Rightarrow> parse_path ns False (py_strip inner) | _ \<Rightarrow> None)
      else None)"

definition compile_existence_test :: "nsmap \<Rightarrow> text_opt \<Rightarrow> compiled option" where
  "compile_existence_test ns test =
     (let s = py_strip (or_empty test) in
      if s = [] then None
      else map_option C_ExistsAll
        (those (map (\<lambda>part. exists_term ns (py_strip part)) (split_top s (ascii '' and '')))))"

text \<open>The tokens of a pattern, with white space before each.\<close>

fun eat_tokens :: "pystr list \<Rightarrow> pystr \<Rightarrow> pystr option" where
  "eat_tokens [] s = Some s"
| "eat_tokens (t # ts) s =
     (let u = dropWhile py_isspace s in
      if starts_with t u then eat_tokens ts (drop (length t) u) else None)"

definition compile_datatype_test :: "text_opt \<Rightarrow> compiled option" where
  "compile_datatype_test test =
     (case eat_tokens (map ascii [''string-length('', ''substring-after('', ''.'', '',''] @ [[39, 46, 39]] @
          map ascii ['')'', '')'', ''<='']) (py_strip (or_empty test)) of
        None \<Rightarrow> None
      | Some rest \<Rightarrow> (let ds = dropWhile py_isspace rest in
          if all_digits ds then Some (C_DecimalLe (digits_val ds)) else None))"

definition compile_class_test :: "nsmap \<Rightarrow> string \<Rightarrow> text_opt \<Rightarrow> compiled option" where
  "compile_class_test ns shape test =
     (if shape = ''absence-restriction'' then compile_test ns test
      else if shape = ''cardinality-count'' then compile_count_test ns test
      else if shape = ''existence'' then compile_existence_test ns test
      else if shape = ''datatype-regex'' then compile_datatype_test test
      else None)"

section \<open>Rule contexts\<close>

datatype ctx_branch =
    CtxBranch bool "pystr list"
  | SuffixBranch "pystr option" pystr "pystr list" "pystr list" "(pystr \<times> pystr list) list"

datatype sb_context = Context (branches: "ctx_branch list")

fun chain_present :: "xml \<Rightarrow> loc list \<Rightarrow> pystr list \<Rightarrow> bool" where
  "chain_present r cur [] = (cur \<noteq> [])"
| "chain_present r cur (t # ts) =
     (let nxt = concat (map (children_in r [t]) cur) in
      if nxt = [] then False else chain_present r nxt ts)"

text \<open>The addresses above a node, the parent first.\<close>

function ancestors :: "loc \<Rightarrow> loc list" where
  "ancestors p = (if p = [] then [] else butlast p # ancestors (butlast p))"
  by auto
termination
  by (relation "measure length") auto

declare ancestors.simps [simp del]

definition ancestor_path_present :: "xml \<Rightarrow> loc \<Rightarrow> pystr \<Rightarrow> pystr list \<Rightarrow> bool" where
  "ancestor_path_present r p anc_tag child_chain \<longleftrightarrow>
     list_ex (\<lambda>q. loc_tag r q = Some anc_tag \<and> chain_present r [q] child_chain) (ancestors p)"

text \<open>Namespace and local name of a tag, the namespace empty without a closing brace.\<close>

definition tag_parts :: "pystr \<Rightarrow> pystr \<times> pystr" where
  "tag_parts tag = (if 125 \<in> set tag
     then (case split1 125 (tl tag) of (uri, Some local) \<Rightarrow> (uri, local) | (uri, None) \<Rightarrow> ([], tag))
     else ([], tag))"

definition suffix_matches ::
    "xml \<Rightarrow> pystr option \<Rightarrow> pystr \<Rightarrow> pystr list \<Rightarrow> pystr list \<Rightarrow> (pystr \<times> pystr list) list \<Rightarrow>
     loc \<Rightarrow> bool" where
  "suffix_matches r ns_uri suffix exclude_tags exclude_suffixes exclude_ancestors p =
     (case loc_tag r p of None \<Rightarrow> False
      | Some tag \<Rightarrow> (let (uri, local) = tag_parts tag in
          (ns_uri = None \<or> ns_uri = Some uri) \<and> ends_with suffix local \<and>
          tag \<notin> set exclude_tags \<and>
          \<not> list_ex (\<lambda>s. ends_with s local) exclude_suffixes \<and>
          \<not> list_ex (\<lambda>(a, ch). ancestor_path_present r p a ch) exclude_ancestors))"

text \<open>The walk up of \<open>_branch_matches\<close> along the tags, the innermost first: the node of the
  outermost tag.\<close>

fun climb :: "xml \<Rightarrow> loc \<Rightarrow> pystr list \<Rightarrow> loc option" where
  "climb r p [] = Some p"
| "climb r p (t # ts) =
     (if loc_tag r p \<noteq> Some t then None
      else if ts = [] then Some p
      else case loc_parent p of None \<Rightarrow> None | Some q \<Rightarrow> climb r q ts)"

fun branch_matches :: "xml \<Rightarrow> ctx_branch \<Rightarrow> loc \<Rightarrow> bool" where
  "branch_matches r (SuffixBranch u s ts ss as) p = suffix_matches r u s ts ss as p"
| "branch_matches r (CtxBranch rooted tags) p = (case climb r p (rev tags) of
     None \<Rightarrow> False | Some q \<Rightarrow> \<not> rooted \<or> loc_parent q = None)"

text \<open>\<open>_Context.match\<close>.\<close>

definition context_match :: "sb_context \<Rightarrow> xml \<Rightarrow> loc list" where
  "context_match c r = filter (\<lambda>p. list_ex (\<lambda>b. branch_matches r b p) (branches c)) (locs r)"

definition parse_ctx_branch :: "nsmap \<Rightarrow> pystr \<Rightarrow> ctx_branch option" where
  "parse_ctx_branch ns s =
     (let descendant = starts_with (ascii ''//'') s;
          rooted = (\<not> descendant \<and> starts_with (ascii ''/'') s);
          rest = (if descendant then drop 2 s else if rooted then drop 1 s else s)
      in if rest = [] \<or> substring_of (ascii ''//'') rest then None
         else map_option (CtxBranch rooted)
           (those (map (\<lambda>st. resolve_qname ns (py_strip st)) (split_top rest (ascii ''/'')))))"

text \<open>\<open>_ENDS_WITH_RE\<close>, with a non-empty suffix.\<close>

definition ends_with_call :: "pystr \<Rightarrow> pystr option" where
  "ends_with_call s =
     (case eat_tokens (map ascii [''ends-with('', ''name()'', '',''] @ [[39]]) s of
        None \<Rightarrow> None
      | Some u \<Rightarrow> (case split1 39 u of
          (lit, None) \<Rightarrow> None
        | (lit, Some rest) \<Rightarrow>
            if lit \<noteq> [] \<and> dropWhile py_isspace rest = ascii '')'' then Some lit else None))"

definition strip_guard_not :: "pystr \<Rightarrow> pystr option" where
  "strip_guard_not guard =
     (let g = py_strip guard; u = dropWhile py_isspace (drop 3 g) in
      if starts_with (ascii ''not'') g \<and> starts_with (ascii ''('') u then
        (case match_paren u of
           Some (inner, tail) \<Rightarrow> if py_strip tail = [] then Some (py_strip inner) else None
         | None \<Rightarrow> None)
      else None)"

definition parse_ancestor_guard :: "nsmap \<Rightarrow> pystr \<Rightarrow> (pystr \<times> pystr list) option" where
  "parse_ancestor_guard ns inner =
     (let body = py_strip (drop 10 inner); parts = split_top body (ascii ''/'') in
      if body = [] \<or> substring_of (ascii ''//'') body \<or> length parts < 2 then None
      else case those (map (\<lambda>st. resolve_qname ns (py_strip st)) parts) of
          Some (t # ts) \<Rightarrow> Some (t, ts) | _ \<Rightarrow> None)"

datatype ctx_guard = ExcludeTag pystr | ExcludeSuffix pystr | ExcludeAncestor pystr "pystr list"

definition parse_guard :: "nsmap \<Rightarrow> pystr \<Rightarrow> ctx_guard option" where
  "parse_guard ns guard = (case strip_guard_not guard of
     None \<Rightarrow> None
   | Some inner \<Rightarrow>
       if starts_with (ascii ''self::'') inner
       then map_option ExcludeTag (resolve_qname ns (py_strip (drop 6 inner)))
       else if starts_with (ascii ''ancestor::'') inner
       then map_option (\<lambda>(a, ch). ExcludeAncestor a ch) (parse_ancestor_guard ns inner)
       else map_option ExcludeSuffix (ends_with_call inner))"

definition suffix_branch :: "pystr option \<Rightarrow> pystr \<Rightarrow> ctx_guard list \<Rightarrow> ctx_branch" where
  "suffix_branch ns_uri suffix guards = SuffixBranch ns_uri suffix
     [t. ExcludeTag t \<leftarrow> guards] [s. ExcludeSuffix s \<leftarrow> guards]
     [(a, ch). ExcludeAncestor a ch \<leftarrow> guards]"

text \<open>The namespace test of a head \<open>*\<close> or \<open>prefix:*\<close>.\<close>

definition head_namespace :: "nsmap \<Rightarrow> pystr \<Rightarrow> pystr option option" where
  "head_namespace ns head =
     (if head = ascii ''*'' then Some None
      else if ends_with (ascii '':*'') head
      then map_option Some (map_of ns (butlast (butlast head))) else None)"

definition parse_suffix_ctx_branch :: "nsmap \<Rightarrow> pystr \<Rightarrow> ctx_branch option" where
  "parse_suffix_ctx_branch ns str =
     (let s = py_strip str; rest = drop 2 s in
      if \<not> starts_with (ascii ''//'') s \<or> rest = [] \<or> last rest \<noteq> 93 then None
      else case split1 91 rest of
          (head, None) \<Rightarrow> None
        | (head, Some after) \<Rightarrow> (case head_namespace ns (py_strip head) of
            None \<Rightarrow> None
          | Some ns_uri \<Rightarrow> (case split_top (py_strip (butlast after)) (ascii '' and '') of
              [] \<Rightarrow> None
            | c # guards \<Rightarrow> (case (ends_with_call (py_strip c), those (map (parse_guard ns) guards)) of
                (Some suffix, Some gs) \<Rightarrow> Some (suffix_branch ns_uri suffix gs)
              | _ \<Rightarrow> None))))"

definition parse_branch :: "nsmap \<Rightarrow> pystr \<Rightarrow> ctx_branch option" where
  "parse_branch ns raw = (case parse_ctx_branch ns (py_strip raw) of
     Some b \<Rightarrow> Some b | None \<Rightarrow> parse_suffix_ctx_branch ns (py_strip raw))"

definition compile_context :: "nsmap \<Rightarrow> text_opt \<Rightarrow> sb_context option" where
  "compile_context ns ctx =
     (let s = py_strip (or_empty ctx) in
      if s = [] then None
      else map_option Context (those (map (parse_branch ns) (split_top s (ascii ''|'')))))"

section \<open>The catalog and its implemented part\<close>

record catalog_item =
  ci_id :: pystr
  ci_binding :: text_opt
  ci_shape :: text_opt
  ci_flag :: text_opt
  ci_test :: text_opt
  ci_context :: text_opt

record sb_entry =
  e_id :: pystr
  e_flag :: pystr
  e_test :: text_opt
  e_compiled :: compiled
  e_ctx :: sb_context
  e_cii :: bool

text \<open>\<open>e.get("flag") or "fatal"\<close>.\<close>

definition flag_or_fatal :: "text_opt \<Rightarrow> pystr" where
  "flag_or_fatal f = (if falsy f then ascii ''fatal'' else the f)"

definition NEW_CLASSES :: "string list" where
  "NEW_CLASSES = [''cardinality-count'', ''existence'', ''datatype-regex'']"

definition CII_SHAPE_CLASSES :: "string list" where
  "CII_SHAPE_CLASSES = [''absence-restriction'', ''cardinality-count'', ''existence'',
     ''other-complex'', ''datatype-regex'']"

text \<open>\<open>class_entries\<close>, \<open>absence_restriction_entries\<close> and \<open>cii_class_entries\<close>; the catalog is
  \<open>None\<close> when its file is not there.\<close>

definition shape_entries :: "string \<Rightarrow> string \<Rightarrow> catalog_item list option \<Rightarrow> catalog_item list" where
  "shape_entries binding shape catalog = (case catalog of None \<Rightarrow> []
     | Some es \<Rightarrow> filter (\<lambda>e. ci_binding e = Some (ascii binding) \<and> ci_shape e = Some (ascii shape)) es)"

definition root_context :: sb_context where
  "root_context = the (compile_context NSMAP (Some SUPPORTED_CONTEXT))"

definition make_entry :: "catalog_item \<Rightarrow> compiled \<Rightarrow> sb_context \<Rightarrow> bool \<Rightarrow> sb_entry" where
  "make_entry e c k cii = \<lparr> e_id = ci_id e, e_flag = flag_or_fatal (ci_flag e), e_test = ci_test e,
     e_compiled = c, e_ctx = k, e_cii = cii \<rparr>"

text \<open>An entry that is implemented, or the identifier of one that stays open.\<close>

type_synonym verdict_of_entry = "sb_entry + pystr"

definition partition_entry :: "catalog_item \<Rightarrow> verdict_of_entry" where
  "partition_entry e =
     (case (if ci_context e = Some SUPPORTED_CONTEXT then compile_test NSMAP (ci_test e) else None) of
        Some c \<Rightarrow> Inl (make_entry e c root_context False)
      | None \<Rightarrow> Inr (ci_id e))"

definition class_entry :: "string \<Rightarrow> catalog_item \<Rightarrow> verdict_of_entry" where
  "class_entry shape e =
     (case compile_class_test NSMAP shape (ci_test e) of
        None \<Rightarrow> Inr (ci_id e)
      | Some c \<Rightarrow> (case compile_context NSMAP (ci_context e) of
          None \<Rightarrow> Inr (ci_id e) | Some k \<Rightarrow> Inl (make_entry e c k False)))"

definition cii_entry :: "string \<Rightarrow> pystr list \<Rightarrow> pystr list \<Rightarrow> catalog_item \<Rightarrow> verdict_of_entry" where
  "cii_entry shape shadowed suffix_unsafe e =
     (case compile_class_test CII_NSMAP shape (ci_test e) of
        None \<Rightarrow> Inr (ci_id e)
      | Some c \<Rightarrow> (case compile_context CII_NSMAP (ci_context e) of
          None \<Rightarrow> Inr (ci_id e)
        | Some k \<Rightarrow> if ci_id e \<notin> set shadowed \<and> ci_id e \<notin> set suffix_unsafe
            then Inl (make_entry e c k True) else Inr (ci_id e)))"

definition implemented :: "verdict_of_entry list \<Rightarrow> sb_entry list" where
  "implemented vs = [e. Inl e \<leftarrow> vs]"

definition known_open :: "verdict_of_entry list \<Rightarrow> pystr list" where
  "known_open vs = [i. Inr i \<leftarrow> vs]"

text \<open>\<open>_partition\<close>, \<open>_partition_class\<close> and \<open>_partition_cii\<close>.\<close>

definition partition_abs :: "catalog_item list option \<Rightarrow> verdict_of_entry list" where
  "partition_abs catalog =
     map partition_entry (shape_entries ''ubl'' ''absence-restriction'' catalog)"

definition partition_class :: "string \<Rightarrow> catalog_item list option \<Rightarrow> verdict_of_entry list" where
  "partition_class shape catalog = map (class_entry shape) (shape_entries ''ubl'' shape catalog)"

definition partition_cii ::
    "string \<Rightarrow> catalog_item list option \<Rightarrow> pystr list \<Rightarrow> pystr list \<Rightarrow> verdict_of_entry list" where
  "partition_cii shape catalog shadowed suffix_unsafe =
     map (cii_entry shape shadowed suffix_unsafe) (shape_entries ''cii'' shape catalog)"

section \<open>Rules that claim the nodes of later rules\<close>

definition SCH_NS :: string where
  "SCH_NS = ''http://purl.oclc.org/dsdl/schematron''"

definition sch :: "string \<Rightarrow> pystr" where
  "sch n = qname SCH_NS n"

definition universal_qname :: "sb_context option \<Rightarrow> pystr option" where
  "universal_qname c = (case c of
     Some (Context [CtxBranch False [t]]) \<Rightarrow> Some t | _ \<Rightarrow> None)"

definition branch_leaf :: "ctx_branch \<Rightarrow> pystr option" where
  "branch_leaf b = (case b of SuffixBranch u s ts ss as \<Rightarrow> None
     | CtxBranch rooted tags \<Rightarrow> if tags = [] then None else Some (last tags))"

definition context_leaf_tags :: "sb_context option \<Rightarrow> pystr list option" where
  "context_leaf_tags c = (case c of None \<Rightarrow> None
     | Some k \<Rightarrow> those (map branch_leaf (branches k)))"

text \<open>\<open>_add_rule_assert_ids\<close>: the non-empty identifiers of the asserts of a rule.\<close>

definition rule_assert_ids :: "xml \<Rightarrow> pystr list" where
  "rule_assert_ids rule = [i. a \<leftarrow> children_named (sch ''assert'') rule, Some i \<leftarrow> [xget ''id'' a], i \<noteq> []]"

definition rule_context :: "xml \<Rightarrow> sb_context option" where
  "rule_context rule = compile_context CII_NSMAP (xget ''context'' rule)"

fun shadow_loop :: "pystr list \<Rightarrow> xml list \<Rightarrow> pystr list" where
  "shadow_loop universal [] = []"
| "shadow_loop universal (rule # rules) =
     (let ctx = rule_context rule;
          ids = (case context_leaf_tags ctx of None \<Rightarrow> []
            | Some leaves \<Rightarrow>
                if universal \<noteq> [] \<and> list_all (\<lambda>t. t \<in> set universal) leaves
                then rule_assert_ids rule else [])
      in ids @ shadow_loop (case universal_qname ctx of None \<Rightarrow> universal
           | Some t \<Rightarrow> t # universal) rules)"

definition patterns :: "xml option \<Rightarrow> xml list list" where
  "patterns artifact = (case artifact of None \<Rightarrow> []
     | Some r \<Rightarrow> map (children_named (sch ''rule'')) (iter_tag (sch ''pattern'') r))"

text \<open>\<open>cii_claim_shadowed_ids\<close>; the artifact is \<open>None\<close> when its file is missing or ill-formed.\<close>

definition cii_claim_shadowed_ids :: "xml option \<Rightarrow> pystr list" where
  "cii_claim_shadowed_ids artifact = concat (map (shadow_loop []) (patterns artifact))"

definition suffix_branch_of :: "sb_context option \<Rightarrow> pystr option" where
  "suffix_branch_of c = (case c of
     Some (Context [SuffixBranch u s ts ss as]) \<Rightarrow> Some s | _ \<Rightarrow> None)"

fun suffix_loop :: "pystr list \<Rightarrow> pystr list \<Rightarrow> xml list \<Rightarrow> pystr list" where
  "suffix_loop earlier_leaves earlier_suffixes [] = []"
| "suffix_loop earlier_leaves earlier_suffixes (rule # rules) =
     (let ctx = rule_context rule in case suffix_branch_of ctx of
        Some suf \<Rightarrow>
          (if list_ex (ends_with suf) earlier_leaves \<or>
              list_ex (\<lambda>s. ends_with suf s \<or> ends_with s suf) earlier_suffixes
           then rule_assert_ids rule else []) @
          suffix_loop earlier_leaves (earlier_suffixes @ [suf]) rules
      | None \<Rightarrow> (case context_leaf_tags ctx of
          None \<Rightarrow> suffix_loop earlier_leaves earlier_suffixes rules
        | Some leaves \<Rightarrow>
            (let locals = map localname leaves in
             (if list_ex (\<lambda>lv. list_ex (\<lambda>s. ends_with s lv) earlier_suffixes) locals
              then rule_assert_ids rule else []) @
             suffix_loop (earlier_leaves @ locals) earlier_suffixes rules)))"

definition cii_suffix_claim_unsafe_ids :: "xml option \<Rightarrow> pystr list" where
  "cii_suffix_claim_unsafe_ids artifact = concat (map (suffix_loop [] []) (patterns artifact))"

section \<open>Evaluation\<close>

text \<open>The entries that \<open>_ensure_cache\<close> computes once from the two files.\<close>

definition implemented_entries :: "catalog_item list option \<Rightarrow> sb_entry list" where
  "implemented_entries catalog = implemented (partition_abs catalog) @
     concat (map (\<lambda>shape. implemented (partition_class shape catalog)) NEW_CLASSES)"

definition cii_partition :: "xml option \<Rightarrow> string \<Rightarrow> catalog_item list option \<Rightarrow> verdict_of_entry list" where
  "cii_partition artifact shape catalog = partition_cii shape catalog
     (cii_claim_shadowed_ids artifact) (cii_suffix_claim_unsafe_ids artifact)"

definition cii_implemented_entries :: "xml option \<Rightarrow> catalog_item list option \<Rightarrow> sb_entry list" where
  "cii_implemented_entries artifact catalog =
     concat (map (\<lambda>shape. implemented (cii_partition artifact shape catalog)) CII_SHAPE_CLASSES)"

definition implemented_ids :: "catalog_item list option \<Rightarrow> pystr list" where
  "implemented_ids catalog = sort (map e_id (implemented_entries catalog))"

definition known_open_ids :: "catalog_item list option \<Rightarrow> pystr list" where
  "known_open_ids catalog = sort (known_open (partition_abs catalog))"

definition class_known_open_ids :: "string \<Rightarrow> catalog_item list option \<Rightarrow> pystr list" where
  "class_known_open_ids shape catalog =
     (if shape \<in> set NEW_CLASSES then sort (known_open (partition_class shape catalog)) else [])"

definition cii_implemented_ids :: "xml option \<Rightarrow> catalog_item list option \<Rightarrow> pystr list" where
  "cii_implemented_ids artifact catalog = sort (map e_id (cii_implemented_entries artifact catalog))"

definition cii_known_open_ids :: "xml option \<Rightarrow> catalog_item list option \<Rightarrow> pystr list" where
  "cii_known_open_ids artifact catalog =
     sort (concat (map (\<lambda>shape. known_open (cii_partition artifact shape catalog)) CII_SHAPE_CLASSES))"

text \<open>The index from tags to nodes, and the candidates it gives for a branch.\<close>

definition tag_index :: "xml \<Rightarrow> pystr \<Rightarrow> loc list option" where
  "tag_index r = foldl (\<lambda>m p. case loc_tag r p of None \<Rightarrow> m
       | Some t \<Rightarrow> m(t := Some (case m t of None \<Rightarrow> [p] | Some ps \<Rightarrow> ps @ [p])))
     (\<lambda>t. None) (locs r)"

fun branch_candidates :: "xml \<Rightarrow> ctx_branch \<Rightarrow> loc list" where
  "branch_candidates r (SuffixBranch u s ts ss as) = locs r"
| "branch_candidates r (CtxBranch rooted tags) =
     (case tag_index r (last tags) of None \<Rightarrow> [] | Some ps \<Rightarrow> ps)"

fun position :: "loc list \<Rightarrow> loc \<Rightarrow> nat" where
  "position [] p = 0"
| "position (q # qs) p = (if q = p then 0 else Suc (position qs p))"

definition add_matching :: "xml \<Rightarrow> loc list \<Rightarrow> ctx_branch \<Rightarrow> loc list" where
  "add_matching r out b =
     foldl (\<lambda>out p. if p \<in> set out then out else if branch_matches r b p then out @ [p] else out)
       out (branch_candidates r b)"

text \<open>\<open>_match_context_indexed\<close>.\<close>

definition match_context_indexed :: "sb_context \<Rightarrow> xml \<Rightarrow> loc list" where
  "match_context_indexed c r =
     (let out = foldl (add_matching r) [] (branches c) in
      if 1 < length (branches c) then sort_key (position (locs r)) out else out)"

definition flag_is_fatal :: "pystr \<Rightarrow> bool" where
  "flag_is_fatal flag \<longleftrightarrow> map (\<lambda>c. if 65 \<le> c \<and> c \<le> 90 then c + 32 else c) (py_strip flag) = ascii ''fatal''"

text \<open>\<open>_severity_from_flag\<close>: apart from ASCII letters no character has a lower case that
  occurs in \<open>fatal\<close>.\<close>

definition severity_from_flag :: "pystr \<Rightarrow> severity" where
  "severity_from_flag flag = (if flag_is_fatal flag then Fatal else Warning)"

definition loc_steps :: "xml \<Rightarrow> loc \<Rightarrow> pystr list" where
  "loc_steps r p = map (\<lambda>q. localname (or_empty (loc_tag r q))) (rev (p # ancestors p))"

fun join_steps :: "pystr list \<Rightarrow> pystr" where
  "join_steps [] = []"
| "join_steps (s # ss) = 47 # s @ join_steps ss"

text \<open>\<open>_node_path\<close>.\<close>

fun node_path :: "xml \<Rightarrow> sb_node \<Rightarrow> pystr" where
  "node_path r (ElemNode p) = join_steps (loc_steps r p)"
| "node_path r (AttrNode p k) = join_steps (loc_steps r p) @ ascii ''/@'' @ localname k"

definition binding_name :: "sb_entry \<Rightarrow> pystr" where
  "binding_name e = (if e_cii e then ascii ''CII'' else ascii ''UBL'')"

definition sb_detail :: "sb_entry \<Rightarrow> pystr" where
  "sb_detail e = (let syn = binding_name e in case e_compiled e of
     C_Not p \<Rightarrow> ascii ''forbidden '' @ syn @ ascii '' element/attribute is present''
   | C_NotOrEq p q l \<Rightarrow>
       ascii ''restricted '' @ syn @ ascii '' element is present with a non-conforming value''
   | C_NotOrExists p q \<Rightarrow> ascii ''a restricted '' @ syn @
       ascii '' element is present without the companion element/attribute the EN 16931 syntax binding requires alongside it''
   | C_NotAnd ts \<Rightarrow> ascii ''two mutually-exclusive '' @ syn @ ascii '' elements are both present '' @ [8212] @
       ascii '' the EN 16931 syntax binding allows at most one of them''
   | C_Count p op n \<Rightarrow> syn @ ascii '' element repetition exceeds the EN 16931 syntax-binding cardinality cap''
   | C_NotOrCount p q op n \<Rightarrow>
       syn @ ascii '' element repetition exceeds the EN 16931 syntax-binding cardinality cap''
   | C_ExistsAll ts \<Rightarrow> ascii ''a '' @ syn @
       ascii '' element/attribute the EN 16931 syntax binding requires is absent''
   | _ \<Rightarrow> ascii ''syntax-binding restriction violated'')"

definition is_absence :: "compiled \<Rightarrow> bool" where
  "is_absence c = (case c of C_Not p \<Rightarrow> True | C_NotOrEq p q l \<Rightarrow> True | _ \<Rightarrow> False)"

text \<open>\<open>_message\<close>; every catalog entry that compiles has a test.\<close>

definition sb_message :: "sb_entry \<Rightarrow> pystr \<Rightarrow> pystr" where
  "sb_message e path =
     ascii ''Syntax-binding restriction '' @ e_id e @ ascii '' (CEN EN 16931 '' @ binding_name e @
     ascii '', flag='' @ e_flag e @ ascii ''): '' @ sb_detail e @ ascii '' at '' @ path @
     (if is_absence (e_compiled e)
      then 32 # 8212 # ascii '' the EN 16931 core model has no conformant slot for it'' else []) @
     ascii '' (@test='' @ or_empty (e_test e) @ ascii '').''"

record sb_finding =
  f_id :: pystr
  f_severity :: severity
  f_flag :: pystr
  f_message :: pystr
  f_element :: pystr

definition sb_finding_of :: "sb_entry \<Rightarrow> xml \<Rightarrow> sb_node \<Rightarrow> sb_finding" where
  "sb_finding_of e r n = (let path = node_path r n in
     \<lparr> f_id = e_id e, f_severity = severity_from_flag (e_flag e), f_flag = e_flag e,
       f_message = sb_message e path, f_element = path \<rparr>)"

definition entry_findings :: "xml \<Rightarrow> sb_entry \<Rightarrow> sb_finding list" where
  "entry_findings r e = [sb_finding_of e r (case n of Some m \<Rightarrow> m | None \<Rightarrow> ElemNode ctx).
     ctx \<leftarrow> match_context_indexed (e_ctx e) r, (True, n) \<leftarrow> [eval_compiled (e_compiled e) ctx r]]"

definition evaluate_entries :: "xml \<Rightarrow> sb_entry list \<Rightarrow> sb_finding list" where
  "evaluate_entries r es = concat (map (entry_findings r) es)"

definition ROOT_TAGS :: "pystr list" where
  "ROOT_TAGS = [qname NS_INVOICE ''Invoice'', qname NS_CREDITNOTE ''CreditNote'']"

definition CII_ROOT_TAG :: pystr where
  "CII_ROOT_TAG = qname ''urn:un:unece:uncefact:data:standard:CrossIndustryInvoice:100''
     ''CrossIndustryInvoice''"

definition sb_evaluate :: "catalog_item list option \<Rightarrow> xml \<Rightarrow> sb_finding list" where
  "sb_evaluate catalog r =
     (if xtag r \<notin> set ROOT_TAGS then [] else evaluate_entries r (implemented_entries catalog))"

definition sb_evaluate_cii :: "xml option \<Rightarrow> catalog_item list option \<Rightarrow> xml \<Rightarrow> sb_finding list" where
  "sb_evaluate_cii artifact catalog r =
     (if xtag r \<noteq> CII_ROOT_TAG then []
      else evaluate_entries r (cii_implemented_entries artifact catalog))"

end
