(* ===== verification/EI_Sb_Props.thy ===== *)
theory EI_Sb_Props
  imports EI_Sb EI_XmlSec "HOL-Library.Multiset"
begin

text \<open>
  What the syntax-binding evaluator computes: the node-sets of XPath and the truth of the
  asserts over them, the index against the walk over the tree, the rules whose nodes are
  claimed by earlier rules, and the partition of the catalog.
\<close>

section \<open>Addresses\<close>

lemma locs_iff: "p \<in> set (locs r) \<longleftrightarrow> subtree r p \<noteq> None"
proof (induction r arbitrary: p rule: locs.induct)
  case (1 t a x y l ks)
  show ?case
  proof (cases p)
    case (Cons i q)
    have "p \<in> set (locs (Elem t a x y l ks)) \<longleftrightarrow> i < length ks \<and> q \<in> set (locs (ks ! i))"
      by (auto simp: Cons image_iff)
    then show ?thesis using 1 [of i q] by (auto simp: Cons)
  qed simp
qed

lemma distinct_locs: "distinct (locs r)"
proof (induction r rule: locs.induct)
  case (1 t a x y l ks)
  have "distinct (map (\<lambda>i. map ((#) i) (locs (ks ! i))) [0..<length ks])"
  proof (subst distinct_map, intro conjI inj_onI)
    fix i j assume "map ((#) i) (locs (ks ! i)) = map ((#) j) (locs (ks ! j))"
    moreover have "\<exists>p. p \<in> set (locs (ks ! i))" by (cases "ks ! i") auto
    ultimately show "i = j" by (metis (no_types, lifting) imageE image_eqI list.inject list.set_map)
  qed simp
  then have "distinct (concat (map (\<lambda>i. map ((#) i) (locs (ks ! i))) [0..<length ks]))"
    using 1 by (intro distinct_concat) (auto simp: distinct_map)
  then show ?case by auto
qed

lemma loc_tag_locs: "loc_tag r p = Some t \<Longrightarrow> p \<in> set (locs r)"
  by (auto simp: loc_tag_def locs_iff)

lemma loc_parent_Some: "loc_parent q = Some p \<longleftrightarrow> (\<exists>i. q = p @ [i])"
  by (auto simp: loc_parent_def) (metis append_butlast_last_id)

lemma subtree_snoc:
  "subtree r (p @ [i]) = (case subtree r p of None \<Rightarrow> None
     | Some e \<Rightarrow> if i < length (kids e) then Some (kids e ! i) else None)"
  by (induction r p rule: subtree.induct) auto

lemma set_child_locs: "q \<in> set (child_locs r p) \<longleftrightarrow> loc_parent q = Some p \<and> subtree r q \<noteq> None"
  by (cases "subtree r p") (auto simp: child_locs_def loc_parent_Some subtree_snoc split: if_splits)

lemma set_children_in:
  "q \<in> set (children_in r ts p) \<longleftrightarrow> loc_parent q = Some p \<and> (\<exists>t\<in>set ts. loc_tag r q = Some t)"
  by (cases "loc_tag r q") (auto simp: children_in_def set_child_locs loc_tag_def)

lemma distinct_children_in: "distinct (children_in r ts p)"
  by (cases "subtree r p") (simp_all add: children_in_def child_locs_def distinct_map inj_on_def)

lemma distinct_children:
  "distinct cur \<Longrightarrow> distinct (concat (map (children_in r ts) cur))"
proof (induction cur)
  case (Cons p cur)
  have "set (children_in r ts p) \<inter> set (children_in r ts q) = {}" if "q \<in> set cur" for q
    using that Cons.prems by (auto simp: set_children_in)
  then show ?case using Cons by (auto simp: distinct_children_in)
qed simp

lemma distinct_first_simps [simp]:
  "distinct (distinct_first xs)" "set (distinct_first xs) = set xs"
  by (simp_all add: distinct_first_def)

section \<open>Node-sets\<close>

text \<open>The steps of a location path on sets of nodes.\<close>

fun steps_sem :: "xml \<Rightarrow> step list \<Rightarrow> loc set \<Rightarrow> sb_node set" where
  "steps_sem r [] C = ElemNode ` C"
| "steps_sem r (ParentStep # ss) C = steps_sem r ss {q. \<exists>p\<in>C. loc_parent p = Some q}"
| "steps_sem r (AttrStep k # ss) C = {AttrNode p k |p. p \<in> C \<and> loc_attr r p k \<noteq> None}"
| "steps_sem r (ElemStep ts # ss) C =
     steps_sem r ss {q. \<exists>p\<in>C. loc_parent q = Some p \<and> (\<exists>t\<in>set ts. loc_tag r q = Some t)}"

text \<open>Descendant paths start from every node, rooted ones at the document node, whose child is
  the root element, and the others at the context node.\<close>

definition nodes_sem :: "sb_path \<Rightarrow> loc \<Rightarrow> xml \<Rightarrow> sb_node set" where
  "nodes_sem path ctx r =
     (if p_descendant path then steps_sem r (p_steps path) {p. subtree r p \<noteq> None}
      else if p_rooted path then (case p_steps path of
          ElemStep ts # ss \<Rightarrow> steps_sem r ss (if xtag r \<in> set ts then {[]} else {})
        | _ \<Rightarrow> {})
      else steps_sem r (p_steps path) {ctx})"

lemma select_steps_sem: "distinct cur \<Longrightarrow>
    distinct (select_steps r ss cur) \<and> set (select_steps r ss cur) = steps_sem r ss (set cur)"
proof (induction r ss cur rule: select_steps.induct)
  case (1 r cur)
  then show ?case by (simp add: distinct_map inj_on_def)
next
  case (2 r ss cur)
  have "set (List.map_filter loc_parent cur) = {q. \<exists>p\<in>set cur. loc_parent p = Some q}"
    by (force simp: map_filter_def)
  then show ?case using 2 by simp
next
  case (3 r k ss cur)
  then show ?case by (auto simp: distinct_map inj_on_def)
next
  case (4 r ts ss cur)
  have "set (concat (map (children_in r ts) cur)) =
      {q. \<exists>p\<in>set cur. loc_parent q = Some p \<and> (\<exists>t\<in>set ts. loc_tag r q = Some t)}"
    by (auto simp: set_children_in)
  then show ?case using 4 distinct_children [of cur r ts] by simp
qed

lemma select_sem: "distinct (select p ctx r)" "set (select p ctx r) = nodes_sem p ctx r"
proof -
  have "set (locs r) = {p. subtree r p \<noteq> None}" using locs_iff by blast
  then have "distinct (select p ctx r) \<and> set (select p ctx r) = nodes_sem p ctx r"
    using select_steps_sem [OF distinct_locs [of r], of r] select_steps_sem [of _ r]
    by (auto simp: select_def nodes_sem_def split: list.split step.split)
  then show "distinct (select p ctx r)" "set (select p ctx r) = nodes_sem p ctx r" by auto
qed

lemma select_empty [simp]: "select p ctx r = [] \<longleftrightarrow> nodes_sem p ctx r = {}"
  using select_sem(2) [of p ctx r] by (metis set_empty)

lemma select_length: "length (select p ctx r) = card (nodes_sem p ctx r)"
  using select_sem [of p ctx r] distinct_card by metis

lemma nodeset_ne_sem:
  "nodeset_ne r as bs \<longleftrightarrow> (\<exists>x\<in>set as. \<exists>y\<in>set bs. string_value r x \<noteq> string_value r y)"
proof -
  define f where "f = string_value r"
  have "(card (f ` set as) = 1 \<and> f ` set as = f ` set bs) \<longleftrightarrow>
      (\<forall>x\<in>set as. \<forall>y\<in>set bs. f x = f y)" if "as \<noteq> []" "bs \<noteq> []"
  proof
    assume "card (f ` set as) = 1 \<and> f ` set as = f ` set bs"
    then obtain v where "f ` set as = {v}" "f ` set bs = {v}" by (metis card_1_singletonE)
    then show "\<forall>x\<in>set as. \<forall>y\<in>set bs. f x = f y" by (metis image_eqI singletonD)
  next
    assume *: "\<forall>x\<in>set as. \<forall>y\<in>set bs. f x = f y"
    have "f ` set as = {f (hd bs)}" "f ` set bs = {f (hd bs)}"
      using * that by (auto simp: image_iff) (metis hd_in_set list.set_sel(1))+
    then show "card (f ` set as) = 1 \<and> f ` set as = f ` set bs" by simp
  qed
  then show ?thesis by (auto simp: nodeset_ne_def Let_def f_def)
qed

section \<open>The index against the walk\<close>

lemma tag_index_fold:
  "foldl (\<lambda>m p. case loc_tag r p of None \<Rightarrow> m
       | Some t \<Rightarrow> m(t := Some (case m t of None \<Rightarrow> [p] | Some ps \<Rightarrow> ps @ [p]))) (\<lambda>t. None) ps t =
   (let qs = filter (\<lambda>p. loc_tag r p = Some t) ps in if qs = [] then None else Some qs)"
  by (induction ps arbitrary: t rule: rev_induct) (auto simp: Let_def split: option.split)

lemma climb_tag: "climb r p (t # ts) = Some q \<Longrightarrow> loc_tag r p = Some t"
  by (auto split: if_splits)

definition concrete :: "ctx_branch \<Rightarrow> bool" where
  "concrete b \<longleftrightarrow> (case b of CtxBranch rooted tags \<Rightarrow> tags \<noteq> [] | _ \<Rightarrow> True)"

lemma branch_leaf_tag:
  assumes "branch_matches r (CtxBranch rooted tags) p" and "tags \<noteq> []"
  shows "loc_tag r p = Some (last tags)"
proof (cases tags rule: rev_cases)
  case (snoc us t)
  obtain q where "climb r p (rev tags) = Some q"
    using assms(1) by (cases "climb r p (rev tags)") simp_all
  then have "climb r p (t # rev us) = Some q" by (simp only: snoc rev_append rev.simps append.simps)
  then show ?thesis unfolding snoc by (simp only: climb_tag last_snoc)
qed (use assms(2) in simp)

lemma candidates_filter:
  assumes "concrete b"
  shows "filter (branch_matches r b) (branch_candidates r b) = filter (branch_matches r b) (locs r)"
proof (cases b)
  case (CtxBranch rooted tags)
  define qs where "qs = filter (\<lambda>p. loc_tag r p = Some (last tags)) (locs r)"
  have "branch_candidates r b = qs"
    by (simp add: CtxBranch tag_index_def tag_index_fold Let_def qs_def del: branch_matches.simps)
  moreover have "filter (branch_matches r b) qs = filter (branch_matches r b) (locs r)"
    unfolding qs_def filter_filter
    using branch_leaf_tag [of r rooted tags] assms CtxBranch
    by (intro filter_cong refl) (auto simp: concrete_def simp del: branch_matches.simps)
  ultimately show ?thesis by simp
qed simp

lemma add_matching_append:
  assumes "distinct cs"
  shows "foldl (\<lambda>out p. if p \<in> set out then out else if M p then out @ [p] else out) out cs =
     out @ filter (\<lambda>p. M p \<and> p \<notin> set out) cs"
  using assms
proof (induction cs arbitrary: out)
  case (Cons c cs)
  then show ?case by (auto intro!: filter_cong)
qed simp

lemma distinct_candidates: "distinct (branch_candidates r b)"
  by (cases b) (auto simp: distinct_locs tag_index_def tag_index_fold Let_def split: option.split)

lemma add_matching_eq:
  assumes "concrete b"
  shows "add_matching r out b = out @ filter (\<lambda>p. branch_matches r b p \<and> p \<notin> set out) (locs r)"
proof -
  have two: "filter (\<lambda>p. branch_matches r b p \<and> p \<notin> set out) cs =
      filter (\<lambda>p. p \<notin> set out) (filter (branch_matches r b) cs)" for cs
    by simp
  show ?thesis
    unfolding add_matching_def add_matching_append [OF distinct_candidates] two
      candidates_filter [OF assms] ..
qed

lemma fold_matching:
  assumes "list_all concrete bs" and "distinct out"
  shows "distinct (foldl (add_matching r) out bs) \<and>
    set (foldl (add_matching r) out bs) =
      set out \<union> {p \<in> set (locs r). list_ex (\<lambda>b. branch_matches r b p) bs}"
  using assms
proof (induction bs arbitrary: out)
  case (Cons b bs)
  define out' where "out' = add_matching r out b"
  have "distinct out'" "set out' = set out \<union> {p \<in> set (locs r). branch_matches r b p}"
    using Cons.prems by (auto simp: out'_def add_matching_eq distinct_locs)
  then show ?case using Cons.IH [of out'] Cons.prems(1) by (auto simp: out'_def [symmetric])
qed simp

lemma position_inj: "p \<in> set qs \<Longrightarrow> position qs p = position qs q \<Longrightarrow> p = q"
  by (induction qs) (auto split: if_splits)

lemma map_position: "distinct qs \<Longrightarrow> map (\<lambda>q. n + position qs q) qs = [n..<n + length qs]"
proof (induction qs arbitrary: n)
  case (Cons q qs)
  have "map (\<lambda>x. n + position (q # qs) x) qs = map (\<lambda>x. Suc n + position qs x) qs"
    using Cons.prems by auto
  also have "\<dots> = [Suc n..<Suc n + length qs]" using Cons.prems by (intro Cons.IH) simp
  finally have "map (\<lambda>x. n + position (q # qs) x) (q # qs) = n # [Suc n..<Suc n + length qs]"
    by (simp only: list.map position.simps) simp
  then show ?case by (simp only: upt_conv_Cons length_Cons add_Suc_right add_Suc less_add_Suc1)
qed simp

lemma sorted_positions: "distinct qs \<Longrightarrow> sorted (map (position qs) (filter P qs))"
  using map_position [of qs 0] by (intro sorted_filter) simp

lemma match_indexed_eq:
  assumes "list_all concrete (branches c)"
  shows "match_context_indexed c r = context_match c r"
proof (cases "1 < length (branches c)")
  case True
  define out where "out = foldl (add_matching r) [] (branches c)"
  define pos where "pos = position (locs r)"
  have out: "distinct out" "set out = set (context_match c r)"
    using fold_matching [OF assms, of "[]" r] by (auto simp: out_def context_match_def)
  have inj: "inj_on pos (set (locs r))" by (auto simp: inj_on_def pos_def intro: position_inj)
  have sub: "set out \<subseteq> set (locs r)" using out(2) by (auto simp: context_match_def)
  have "map pos (sort_key pos out) = map pos (context_match c r)"
  proof (rule sorted_distinct_set_unique)
    show "distinct (map pos (sort_key pos out))"
      using out(1) inj sub by (simp add: distinct_map inj_on_subset)
    show "distinct (map pos (context_match c r))"
      using inj by (auto simp: distinct_map context_match_def distinct_locs intro: inj_on_subset)
    show "sorted (map pos (context_match c r))"
      unfolding context_match_def pos_def by (rule sorted_positions [OF distinct_locs])
  qed (simp_all add: out(2))
  then have "sort_key pos out = context_match c r"
    using inj_on_map_eq_map [of pos "sort_key pos out" "context_match c r"] inj sub out(2)
    by (metis inj_on_subset set_sort sup.idem)
  then show ?thesis using True by (simp add: match_context_indexed_def out_def pos_def Let_def)
next
  case False
  then consider "branches c = []" | b where "branches c = [b]"
    by (cases "branches c"; cases "tl (branches c)") auto
  then show ?thesis
  proof cases
    case 1
    then show ?thesis by (simp add: match_context_indexed_def context_match_def)
  next
    case (2 b)
    then show ?thesis using assms
      by (simp add: match_context_indexed_def context_match_def add_matching_eq)
  qed
qed

lemma those_all: "those (map f xs) = Some ys \<Longrightarrow> (\<And>x y. f x = Some y \<Longrightarrow> P y) \<Longrightarrow> list_all P ys"
  by (induction xs arbitrary: ys) (auto split: option.splits)

lemma those_length: "those xs = Some ys \<Longrightarrow> length ys = length xs"
  by (induction xs arbitrary: ys) (auto split: option.splits)

lemma split_top_ne [simp]: "split_top s sep \<noteq> []"
proof -
  have "split_loop sep d buf s \<noteq> []" for d buf
    by (induction sep d buf s rule: split_loop.induct) (auto simp: Let_def)
  then show ?thesis by (simp add: split_top_def)
qed

lemma parse_branch_concrete: "parse_branch ns raw = Some b \<Longrightarrow> concrete b"
proof -
  have "concrete c" if "parse_ctx_branch ns s = Some c" for s c
    using that by (auto simp: parse_ctx_branch_def Let_def concrete_def dest!: those_length split: if_splits)
  moreover have "concrete c" if "parse_suffix_ctx_branch ns s = Some c" for s c
    using that by (auto simp: parse_suffix_ctx_branch_def suffix_branch_def Let_def concrete_def
        split: if_splits option.splits list.splits prod.splits)
  ultimately show "parse_branch ns raw = Some b \<Longrightarrow> concrete b"
    by (auto simp: parse_branch_def split: option.splits)
qed

lemma compile_context_concrete:
  "compile_context ns ctx = Some c \<Longrightarrow> list_all concrete (branches c)"
  by (auto simp: compile_context_def Let_def intro: those_all parse_branch_concrete split: if_splits)

text \<open>C23: On every context that compiles, the matching through the per-document index of tags
  returns the nodes of the walk over the whole tree, in the same order.\<close>
theorem index_agrees_with_walk:
  "case compile_context ns ctx of None \<Rightarrow> True | Some c \<Rightarrow> match_context_indexed c r = context_match c r"
  by (auto intro: match_indexed_eq compile_context_concrete split: option.split)

section \<open>The three-way mutual exclusion\<close>

text \<open>The truth of a signed existence atom, and of a disjunct of two of them.\<close>

definition atom_true :: "pystr \<times> sb_path \<times> bool \<Rightarrow> loc \<Rightarrow> xml \<Rightarrow> bool" where
  "atom_true a ctx r \<longleftrightarrow> (nodes_sem (fst (snd a)) ctx r \<noteq> {}) = snd (snd a)"

definition disjunct_true :: "nsmap \<Rightarrow> loc \<Rightarrow> xml \<Rightarrow> pystr \<Rightarrow> bool" where
  "disjunct_true ns ctx r d \<longleftrightarrow> (case exclusion_pair ns d of None \<Rightarrow> False
     | Some (a, b) \<Rightarrow> atom_true a ctx r \<and> atom_true b ctx r)"

definition present :: "nsmap \<Rightarrow> loc \<Rightarrow> xml \<Rightarrow> pystr \<Rightarrow> bool" where
  "present ns ctx r key \<longleftrightarrow> (case plain_child_path ns False key of None \<Rightarrow> False
     | Some p \<Rightarrow> nodes_sem p ctx r \<noteq> {})"

lemma atom_path: "parse_existence_atom ns s = Some a \<Longrightarrow>
    plain_child_path ns False (fst a) = Some (fst (snd a))"
  by (auto simp: parse_existence_atom_def Let_def split: option.splits)

lemma exclusion_pair_atoms:
  assumes "exclusion_pair ns d = Some (a, b)"
  shows "fst a \<noteq> fst b" "plain_child_path ns False (fst a) = Some (fst (snd a))"
    "plain_child_path ns False (fst b) = Some (fst (snd b))"
    "disjunct_true ns ctx r d \<longleftrightarrow>
       present ns ctx r (fst a) = snd (snd a) \<and> present ns ctx r (fst b) = snd (snd b)"
proof -
  show ne: "fst a \<noteq> fst b"
    and a: "plain_child_path ns False (fst a) = Some (fst (snd a))"
    and b: "plain_child_path ns False (fst b) = Some (fst (snd b))"
    using assms by (auto simp: exclusion_pair_def dest!: atom_path split: list.splits option.splits if_splits)
  show "disjunct_true ns ctx r d \<longleftrightarrow>
       present ns ctx r (fst a) = snd (snd a) \<and> present ns ctx r (fst b) = snd (snd b)"
    by (simp add: disjunct_true_def assms atom_true_def present_def a b)
qed

lemma add_path_simps:
  "add_path a [(k, p), (l, q)] = (if fst a = k \<or> fst a = l then [(k, p), (l, q)]
     else [(k, p), (l, q), (fst a, fst (snd a))])"
  "add_path a [] = [(fst a, fst (snd a))]"
  "add_path b [(k, p)] = (if fst b = k then [(k, p)] else [(k, p), (fst b, fst (snd b))])"
  by (auto simp: add_path_def)

text \<open>Once both paths are known, every further disjunct is over them.\<close>

lemma exclusion_loop_two:
  assumes "exclusion_loop ns ds [(k, p), (l, q)] signs = Some (order, signs')" and "k \<noteq> l"
  shows "order = [(k, p), (l, q)] \<and> (\<exists>more. signs' = signs @ more \<and>
    (list_ex (disjunct_true ns ctx r) ds \<longleftrightarrow> (present ns ctx r k, present ns ctx r l) \<in> set more))"
  using assms(1)
proof (induction ds arbitrary: signs)
  case (Cons d ds)
  obtain a b where ab: "exclusion_pair ns d = Some (a, b)"
    using Cons.prems by (auto split: option.splits)
  have sub: "fst a \<in> {k, l}" "fst b \<in> {k, l}"
    using Cons.prems by (auto simp: ab Let_def add_path_def split: if_splits)
  define s where "s = (\<lambda>x. if x = fst a then snd (snd a) else snd (snd b))"
  have loop: "exclusion_loop ns ds [(k, p), (l, q)] (signs @ [(s k, s l)]) = Some (order, signs')"
    using Cons.prems sub by (auto simp: ab Let_def add_path_simps s_def split: if_splits)
  have "disjunct_true ns ctx r d \<longleftrightarrow> (present ns ctx r k, present ns ctx r l) = (s k, s l)"
    using exclusion_pair_atoms(1) [OF ab] exclusion_pair_atoms(4) [OF ab, of ctx r] sub assms(2)
    by (auto simp: s_def)
  then show ?case using Cons.IH [OF loop] by auto
qed simp

text \<open>When the three-way form compiles, the compiled test fires exactly when none of the three
  disjuncts \<open>not(A) and B\<close>, \<open>A and not(B)\<close>, \<open>not(A) and not(B)\<close> holds, in whatever order and with
  whatever spelling they are written.\<close>
theorem mutual_exclusion_exact:
  "case compile_mutual_exclusion ns ds of None \<Rightarrow> True
   | Some c \<Rightarrow> fst (eval_compiled c ctx r) = (\<not> list_ex (disjunct_true ns ctx r) ds)"
proof (cases "compile_mutual_exclusion ns ds")
  case (Some c)
  then obtain order signs where loop: "exclusion_loop ns ds [] [] = Some (order, signs)"
    and three: "length ds = 3" "length order = 2" and c: "c = C_NotAnd (map snd order)"
    and table: "set signs = {(False, True), (True, False), (False, False)}"
    by (auto simp: compile_mutual_exclusion_def split: if_splits option.splits)
  obtain d ds' where ds: "ds = d # ds'" using three(1) by (cases ds) auto
  obtain a b where ab: "exclusion_pair ns d = Some (a, b)"
    using loop by (auto simp: ds split: option.splits)
  note atoms = exclusion_pair_atoms [OF ab]
  have "exclusion_loop ns ds' [(fst a, fst (snd a)), (fst b, fst (snd b))]
      [(snd (snd a), snd (snd b))] = Some (order, signs)"
    using loop atoms(1) by (auto simp: ds ab Let_def add_path_simps split: if_splits)
  from exclusion_loop_two [OF this atoms(1), of ctx r]
  obtain more where order: "order = [(fst a, fst (snd a)), (fst b, fst (snd b))]"
    and more: "signs = (snd (snd a), snd (snd b)) # more"
    "list_ex (disjunct_true ns ctx r) ds' \<longleftrightarrow>
       (present ns ctx r (fst a), present ns ctx r (fst b)) \<in> set more" by auto
  have "list_ex (disjunct_true ns ctx r) ds \<longleftrightarrow>
      (present ns ctx r (fst a), present ns ctx r (fst b)) \<in> set signs"
    using more atoms(4) [of ctx r] by (auto simp: ds)
  also have "\<dots> \<longleftrightarrow> \<not> (present ns ctx r (fst a) \<and> present ns ctx r (fst b))"
    unfolding table by auto
  finally have "\<not> list_ex (disjunct_true ns ctx r) ds \<longleftrightarrow>
      nodes_sem (fst (snd a)) ctx r \<noteq> {} \<and> nodes_sem (fst (snd b)) ctx r \<noteq> {}"
    by (simp add: present_def atoms(2,3))
  then show ?thesis by (simp add: Some c order Let_def)
qed simp

section \<open>Claimed nodes\<close>

text \<open>In a pattern a node belongs to the first rule whose context matches it.  What the official
  contexts match is an argument; on contexts that compile it is \<open>_Context.match\<close>.\<close>

definition claimed_by :: "(xml \<Rightarrow> loc \<Rightarrow> bool) \<Rightarrow> xml list \<Rightarrow> loc \<Rightarrow> xml option" where
  "claimed_by official rules p = List.find (\<lambda>rule. official rule p) rules"

definition faithful :: "(xml \<Rightarrow> loc \<Rightarrow> bool) \<Rightarrow> xml \<Rightarrow> xml list \<Rightarrow> bool" where
  "faithful official r rules \<longleftrightarrow> (\<forall>rule\<in>set rules. case rule_context rule of None \<Rightarrow> True
     | Some c \<Rightarrow> \<forall>p. official rule p = (p \<in> set (context_match c r)))"

lemma those_member: "those (map f xs) = Some ys \<Longrightarrow> x \<in> set xs \<Longrightarrow> \<exists>y\<in>set ys. f x = Some y"
  by (induction xs arbitrary: ys) (auto split: option.splits)

lemma no_context [simp]: "universal_qname None = None" "context_leaf_tags None = None"
  by (simp_all add: universal_qname_def context_leaf_tags_def)

lemma leaf_tags_match:
  assumes "context_leaf_tags (Some c) = Some leaves" and "p \<in> set (context_match c r)"
  shows "\<exists>t\<in>set leaves. loc_tag r p = Some t"
proof -
  obtain b where b: "b \<in> set (branches c)" "branch_matches r b p"
    using assms(2) by (auto simp: context_match_def list_ex_iff)
  have "those (map branch_leaf (branches c)) = Some leaves"
    using assms(1) by (simp add: context_leaf_tags_def)
  from those_member [OF this b(1)]
  obtain t where t: "t \<in> set leaves" "branch_leaf b = Some t" by blast
  then show ?thesis using b(2) branch_leaf_tag
    by (auto simp: branch_leaf_def split: ctx_branch.splits if_splits simp del: branch_matches.simps)
qed

lemma universal_match:
  "universal_qname (Some c) = Some t \<Longrightarrow> p \<in> set (context_match c r) \<longleftrightarrow> loc_tag r p = Some t"
  by (auto simp: universal_qname_def context_match_def loc_tag_locs
      split: sb_context.splits list.splits ctx_branch.splits bool.splits)

lemma shadow_loop_ids: "i \<in> set (shadow_loop u rules) \<Longrightarrow> \<exists>rule\<in>set rules. i \<in> set (rule_assert_ids rule)"
  by (induction u rules rule: shadow_loop.induct) (auto simp: Let_def split: option.splits if_splits)

lemma shadowed_never_claims:
  assumes "faithful official r rules" and "distinct (concat (map rule_assert_ids rules))"
    and "claimed_by official rules p = Some rule" and "\<forall>t\<in>set u. loc_tag r p \<noteq> Some t"
    and "i \<in> set (rule_assert_ids rule)"
  shows "i \<notin> set (shadow_loop u rules)"
  using assms
proof (induction u rules rule: shadow_loop.induct)
  case (2 u rule0 rules)
  have later: "i \<notin> set (shadow_loop v rules)" if "rule = rule0" for v
    using that "2.prems"(2,5) shadow_loop_ids [of i v rules] by auto
  have own: "p \<in> set (context_match c r) \<longleftrightarrow> official rule0 p" if "rule_context rule0 = Some c" for c
    using "2.prems"(1) that by (auto simp: faithful_def)
  show ?case
  proof (cases "official rule0 p")
    case True
    then have "rule = rule0" using "2.prems"(3) by (simp add: claimed_by_def)
    moreover have "\<not> list_all (\<lambda>t. t \<in> set u) leaves"
      if lt: "context_leaf_tags (rule_context rule0) = Some leaves" for leaves
    proof -
      obtain c where c: "rule_context rule0 = Some c"
        using lt no_context(2) by (metis not_None_eq option.distinct(1))
      have "p \<in> set (context_match c r)" using own [OF c] True by simp
      from leaf_tags_match [OF lt [unfolded c] this] "2.prems"(4)
      show ?thesis by (auto simp: list_all_iff)
    qed
    ultimately show ?thesis using later by (auto simp: Let_def split: option.split)
  next
    case False
    then have claimed: "claimed_by official rules p = Some rule"
      using "2.prems"(3) by (simp add: claimed_by_def)
    then have "rule \<in> set rules" by (auto simp: claimed_by_def find_Some_iff)
    then have "i \<notin> set (rule_assert_ids rule0)" using "2.prems"(2,5) by auto
    moreover have "loc_tag r p \<noteq> Some t" if uq: "universal_qname (rule_context rule0) = Some t" for t
    proof -
      obtain c where c: "rule_context rule0 = Some c"
        using uq no_context(1) by (metis not_None_eq option.distinct(1))
      show ?thesis using own [OF c] universal_match [OF uq [unfolded c], of p r] False by simp
    qed
    moreover have "faithful official r rules" "distinct (concat (map rule_assert_ids rules))"
      using "2.prems"(1,2) by (auto simp: faithful_def)
    ultimately show ?thesis
      using "2.IH" [OF refl refl] claimed "2.prems"(4,5)
      by (auto simp: Let_def split: option.split if_splits)
  qed
qed simp

text \<open>C24: An assert that \<open>cii_claim_shadowed_ids\<close> lists is dead: whatever the contexts outside the
  grammar match, no node of any document is claimed by its rule, because an earlier rule of the
  pattern claims every element of that type.\<close>
theorem shadowed_asserts_are_dead:
  assumes "faithful official r rules" and "distinct (concat (map rule_assert_ids rules))"
    and "i \<in> set (shadow_loop [] rules)" and "claimed_by official rules p = Some rule"
  shows "i \<notin> set (rule_assert_ids rule)"
  using shadowed_never_claims [OF assms(1,2,4), of "[]" i] assms(3) by auto

text \<open>A pattern with a universal rule before a rule on the same element type.\<close>

definition sample_rule :: "pystr \<Rightarrow> pystr \<Rightarrow> xml" where
  "sample_rule ctx i = Elem (sch ''rule'') [(ascii ''context'', ctx)] None None None
     [Elem (sch ''assert'') [(ascii ''id'', i)] None None None []]"

definition RAM :: pystr where
  "RAM = ascii ''urn:un:unece:uncefact:data:standard:ReusableAggregateBusinessInformationEntity:100''"

definition RSM :: pystr where
  "RSM = ascii ''urn:un:unece:uncefact:data:standard:CrossIndustryInvoice:100''"

definition sample_document :: xml where
  "sample_document = Elem (clark RSM [67]) [] None None None [Elem (clark RAM [84]) [] None None None []]"

definition sample_official :: "xml \<Rightarrow> loc \<Rightarrow> bool" where
  "sample_official rule p = (case rule_context rule of None \<Rightarrow> False
     | Some c \<Rightarrow> p \<in> set (context_match c sample_document))"

lemmas context_eval = compile_context_def parse_branch_def parse_ctx_branch_def split_top_def
  depth_after_def resolve_qname_def is_qname_def chop_newline_def name_ok_def word_char_def
  ascii_letter_def CII_NSMAP_def clark_def py_strip_def py_isspace_def

lemma sample_rule_simps:
  "rule_context (sample_rule (ascii ''//ram:T'') i) = Some (Context [CtxBranch False [clark RAM [84]]])"
  "rule_context (sample_rule (ascii ''/rsm:C/ram:T'') i) =
     Some (Context [CtxBranch True [clark RSM [67], clark RAM [84]]])"
  "i \<noteq> [] \<Longrightarrow> rule_assert_ids (sample_rule c i) = [i]"
  by (simp_all add: rule_context_def sample_rule_def xget_def context_eval RAM_def RSM_def Let_def
      rule_assert_ids_def ascii_def)

theorem shadowed_asserts_are_dead_witness:
  "claimed_by sample_official [sample_rule (ascii ''//ram:T'') [65], sample_rule (ascii ''/rsm:C/ram:T'') [66]] [0] =
     Some (sample_rule (ascii ''//ram:T'') [65]) \<and>
   [66] \<notin> set (rule_assert_ids (sample_rule (ascii ''//ram:T'') [65]))"
proof -
  let ?rules = "[sample_rule (ascii ''//ram:T'') [65], sample_rule (ascii ''/rsm:C/ram:T'') [66]]"
  have match: "set (context_match (Context [CtxBranch False [clark RAM [84]]]) sample_document) = {[0]}"
    by (simp add: context_match_def sample_document_def loc_tag_def clark_def RAM_def RSM_def ascii_def)
  then have claimed: "claimed_by sample_official ?rules [0] = Some (sample_rule (ascii ''//ram:T'') [65])"
    by (simp add: claimed_by_def sample_official_def sample_rule_simps)
  have "faithful sample_official sample_document ?rules"
    by (simp add: faithful_def sample_official_def sample_rule_simps)
  moreover have "distinct (concat (map rule_assert_ids ?rules))" by (simp add: sample_rule_simps)
  moreover have "[66] \<in> set (shadow_loop [] ?rules)"
    by (simp add: sample_rule_simps context_leaf_tags_def branch_leaf_def universal_qname_def)
  ultimately have "[66] \<notin> set (rule_assert_ids (sample_rule (ascii ''//ram:T'') [65]))"
    using claimed by (rule shadowed_asserts_are_dead)
  then show ?thesis using claimed by simp
qed

section \<open>The nodes of XPath\<close>

text \<open>The data model of XPath: the document node, the elements below it and their attributes.\<close>

datatype xpath_node = XDocument | XElement loc | XAttribute loc pystr

inductive child_of :: "xml \<Rightarrow> xpath_node \<Rightarrow> xpath_node \<Rightarrow> bool" for r where
  child_of_document: "child_of r (XElement []) XDocument"
| child_of_element: "subtree r (p @ [i]) \<noteq> None \<Longrightarrow> child_of r (XElement (p @ [i])) (XElement p)"

inductive_simps child_of_iff:
  "child_of r n XDocument" "child_of r n (XElement p)" "child_of r (XElement q) n"
  "child_of r n (XAttribute p k)" "child_of r XDocument n" "child_of r (XAttribute p k) n"

text \<open>One step along an axis, and a path of steps.\<close>

fun step_to :: "xml \<Rightarrow> step \<Rightarrow> xpath_node \<Rightarrow> xpath_node \<Rightarrow> bool" where
  "step_to r (ElemStep ts) n m \<longleftrightarrow>
     child_of r m n \<and> (\<exists>p t. m = XElement p \<and> loc_tag r p = Some t \<and> t \<in> set ts)"
| "step_to r (AttrStep k) n m \<longleftrightarrow> (\<exists>p. n = XElement p \<and> m = XAttribute p k \<and> loc_attr r p k \<noteq> None)"
| "step_to r ParentStep n m \<longleftrightarrow> child_of r n m \<or> (\<exists>p k. n = XAttribute p k \<and> m = XElement p)"

fun path_to :: "xml \<Rightarrow> step list \<Rightarrow> xpath_node \<Rightarrow> xpath_node \<Rightarrow> bool" where
  "path_to r [] n m \<longleftrightarrow> m = n"
| "path_to r (s # ss) n m \<longleftrightarrow> (\<exists>k. step_to r s n k \<and> path_to r ss k m)"

text \<open>\<open>//\<close> starts at the document node and everything below it, \<open>/\<close> at the document node,
  a relative path at the context node.\<close>

definition starts_at :: "sb_path \<Rightarrow> loc \<Rightarrow> xml \<Rightarrow> xpath_node \<Rightarrow> bool" where
  "starts_at path ctx r n \<longleftrightarrow>
     (if p_descendant path then (child_of r)\<^sup>*\<^sup>* n XDocument
      else if p_rooted path then n = XDocument else n = XElement ctx)"

definition xpath_nodes :: "sb_path \<Rightarrow> loc \<Rightarrow> xml \<Rightarrow> xpath_node set" where
  "xpath_nodes path ctx r = {m. \<exists>n. starts_at path ctx r n \<and> path_to r (p_steps path) n m}"

text \<open>The string value of an element is the character data between its tags, in document order.\<close>

definition character_data :: "xml_event list \<Rightarrow> pystr" where
  "character_data es = concat (map (\<lambda>e. case e of CharacterData s \<Rightarrow> s | _ \<Rightarrow> []) es)"

fun xpath_string :: "xml \<Rightarrow> xpath_node \<Rightarrow> pystr" where
  "xpath_string r XDocument = character_data (events_of r)"
| "xpath_string r (XElement p) = (case subtree r p of None \<Rightarrow> [] | Some e \<Rightarrow> character_data (events_of e))"
| "xpath_string r (XAttribute p k) = (case loc_attr r p k of None \<Rightarrow> [] | Some v \<Rightarrow> v)"

text \<open>The comparison of two numbers, by the sign of their difference.\<close>

definition xpath_compares :: "int \<Rightarrow> relop \<Rightarrow> int \<Rightarrow> bool" where
  "xpath_compares a op b \<longleftrightarrow> sgn (a - b) \<in> (case op of
     LE \<Rightarrow> {-1, 0} | LT \<Rightarrow> {-1} | EQ \<Rightarrow> {0} | GE \<Rightarrow> {0, 1} | GT \<Rightarrow> {1})"

definition xpath_count :: "xpath_node set \<Rightarrow> int" where
  "xpath_count ns = int (card ns)"

text \<open>\<open>substring-after(s, '.')\<close>.\<close>

definition after_first_dot :: "pystr \<Rightarrow> pystr" where
  "after_first_dot s = tl (dropWhile (\<lambda>c. c \<noteq> 46) s)"

text \<open>The truth of the test a compiled assert stands for: a node-set counts as its being
  non-empty, comparisons of node-sets are existential over string values.\<close>

fun xpath_true :: "compiled \<Rightarrow> loc \<Rightarrow> xml \<Rightarrow> bool" where
  "xpath_true (C_Not p) ctx r = (xpath_nodes p ctx r = {})"
| "xpath_true (C_NotOrEq p q literal) ctx r =
     (xpath_nodes p ctx r = {} \<or> (\<exists>n\<in>xpath_nodes q ctx r. xpath_string r n = literal))"
| "xpath_true (C_NotOrExists p q) ctx r = (xpath_nodes p ctx r = {} \<or> xpath_nodes q ctx r \<noteq> {})"
| "xpath_true (C_NotAnd terms) ctx r = (\<exists>t\<in>set terms. xpath_nodes t ctx r = {})"
| "xpath_true (C_Count p op n) ctx r = xpath_compares (xpath_count (xpath_nodes p ctx r)) op n"
| "xpath_true (C_NotOrCount p q op n) ctx r =
     (xpath_nodes p ctx r = {} \<or> xpath_compares (xpath_count (xpath_nodes q ctx r)) op n)"
| "xpath_true (C_CountDiff p q op n) ctx r =
     xpath_compares (xpath_count (xpath_nodes p ctx r) - xpath_count (xpath_nodes q ctx r)) op n"
| "xpath_true (C_AndCountNe p op n a b) ctx r =
     (xpath_compares (xpath_count (xpath_nodes p ctx r)) op n \<and>
      (\<exists>x\<in>xpath_nodes a ctx r. \<exists>y\<in>xpath_nodes b ctx r. xpath_string r x \<noteq> xpath_string r y))"
| "xpath_true (C_DecimalLe n) ctx r =
     xpath_compares (int (length (after_first_dot (xpath_string r (XElement ctx))))) LE n"
| "xpath_true (C_ExistsAll terms) ctx r = (\<forall>t\<in>set terms. xpath_nodes t ctx r \<noteq> {})"

section \<open>The evaluator computes the nodes of XPath\<close>

fun xpath_node_of :: "sb_node \<Rightarrow> xpath_node" where
  "xpath_node_of (ElemNode p) = XElement p"
| "xpath_node_of (AttrNode p k) = XAttribute p k"

lemma inj_xpath_node_of: "inj_on xpath_node_of A"
proof (rule inj_onI)
  fix x y assume "xpath_node_of x = xpath_node_of y"
  then show "x = y" by (cases x; cases y) simp_all
qed

text \<open>Paths that stay below the document node when they start at depth \<open>d\<close>.\<close>

fun stays_below :: "nat \<Rightarrow> step list \<Rightarrow> bool" where
  "stays_below d [] = True"
| "stays_below d (ElemStep ts # ss) = stays_below (Suc d) ss"
| "stays_below d (AttrStep k # ss) = (ss = [])"
| "stays_below d (ParentStep # ss) = (case d of 0 \<Rightarrow> False | Suc e \<Rightarrow> stays_below e ss)"

lemma subtree_butlast: "subtree r (p @ q) \<noteq> None \<Longrightarrow> subtree r p \<noteq> None"
  by (induction r p rule: subtree.induct) (auto split: if_splits)

lemma steps_sem_path_to:
  "stays_below d ss \<Longrightarrow> \<forall>p\<in>C. d \<le> length p \<and> subtree r p \<noteq> None \<Longrightarrow>
   xpath_node_of ` steps_sem r ss C = {m. \<exists>p\<in>C. path_to r ss (XElement p) m}"
proof (induction r ss C arbitrary: d rule: steps_sem.induct)
  case (1 r C)
  then show ?case by (auto simp: image_image)
next
  case (2 r ss C)
  then obtain e where e: "d = Suc e" "stays_below e ss" by (cases d) auto
  let ?D = "{q. \<exists>p\<in>C. loc_parent p = Some q}"
  have D: "\<forall>q\<in>?D. e \<le> length q \<and> subtree r q \<noteq> None"
  proof
    fix q assume "q \<in> ?D"
    then obtain p i where p: "p \<in> C" "p = q @ [i]" by (auto simp: loc_parent_Some)
    with "2.prems"(2) have "Suc e \<le> length p" "subtree r (q @ [i]) \<noteq> None" using e(1) by auto
    then show "e \<le> length q \<and> subtree r q \<noteq> None" using subtree_butlast [of r q "[i]"] p(2) by simp
  qed
  have "step_to r ParentStep (XElement p) m \<longleftrightarrow> (\<exists>q. m = XElement q \<and> loc_parent p = Some q)" if "p \<in> C" for p m
    using that "2.prems"(2) e(1) by (cases p rule: rev_cases) (force simp: child_of_iff loc_parent_Some)+
  then have "(\<exists>p\<in>C. path_to r (ParentStep # ss) (XElement p) m) \<longleftrightarrow> (\<exists>q\<in>?D. path_to r ss (XElement q) m)" for m
    by (auto simp del: step_to.simps)
  then show ?case using "2.IH" [OF e(2) D] by simp
next
  case (3 r k ss C)
  have "xpath_node_of ` {AttrNode p k |p. P p} = {XAttribute p k |p. P p}" for P :: "loc \<Rightarrow> bool"
    by (auto simp: image_iff) (metis xpath_node_of.simps(2))
  with 3 show ?case by auto
next
  case (4 r ts ss C)
  let ?D = "{q. \<exists>p\<in>C. loc_parent q = Some p \<and> (\<exists>t\<in>set ts. loc_tag r q = Some t)}"
  have D: "\<forall>q\<in>?D. Suc d \<le> length q \<and> subtree r q \<noteq> None"
    using "4.prems"(2) by (fastforce simp: loc_parent_Some loc_tag_def)
  have "step_to r (ElemStep ts) (XElement p) m \<longleftrightarrow>
      (\<exists>q. m = XElement q \<and> loc_parent q = Some p \<and> (\<exists>t\<in>set ts. loc_tag r q = Some t))" for p m
    by (auto simp: child_of_iff loc_parent_Some loc_tag_def)
  then have "(\<exists>p\<in>C. path_to r (ElemStep ts # ss) (XElement p) m) \<longleftrightarrow> (\<exists>q\<in>?D. path_to r ss (XElement q) m)" for m
    by (auto simp del: step_to.simps)
  then show ?case using "4.IH" [of "Suc d"] "4.prems"(1) D by simp
qed

lemma below_document:
  "(child_of r)\<^sup>*\<^sup>* n XDocument \<longleftrightarrow> n = XDocument \<or> (\<exists>p. n = XElement p \<and> subtree r p \<noteq> None)"
proof
  assume "(child_of r)\<^sup>*\<^sup>* n XDocument"
  then show "n = XDocument \<or> (\<exists>p. n = XElement p \<and> subtree r p \<noteq> None)"
    by (induction rule: converse_rtranclp_induct) (auto simp: child_of_iff)
next
  assume "n = XDocument \<or> (\<exists>p. n = XElement p \<and> subtree r p \<noteq> None)"
  moreover have "subtree r p \<noteq> None \<Longrightarrow> (child_of r)\<^sup>*\<^sup>* (XElement p) XDocument" for p
  proof (induction p rule: rev_induct)
    case Nil
    show ?case by (rule r_into_rtranclp) (rule child_of_document)
  next
    case (snoc i p)
    have "subtree r p \<noteq> None" using subtree_butlast [OF snoc.prems] .
    from snoc.IH [OF this] show ?case
      using converse_rtranclp_into_rtranclp child_of_element [OF snoc.prems] by metis
  qed
  ultimately show "(child_of r)\<^sup>*\<^sup>* n XDocument" by auto
qed

text \<open>The two cases in which \<open>_select\<close> is not XPath: \<open>//\<close> before the name of the root element,
  and a parent step from the root.\<close>

definition xpath_scope :: "sb_path \<Rightarrow> loc \<Rightarrow> xml \<Rightarrow> bool" where
  "xpath_scope path ctx r \<longleftrightarrow> length (takeWhile is_parent (p_steps path)) \<le> length ctx \<and>
     \<not> (p_descendant path \<and> (\<exists>ts ss. p_steps path = ElemStep ts # ss \<and> xtag r \<in> set ts))"

text \<open>What \<open>parse_path\<close> returns: parent steps only in front and only of a relative path, an
  attribute only at the end, and an element first below the document node.\<close>

definition well_formed :: "sb_path \<Rightarrow> bool" where
  "well_formed path \<longleftrightarrow> p_steps path \<noteq> [] \<and>
     stays_below (length (takeWhile is_parent (p_steps path))) (p_steps path) \<and>
     (if p_descendant path then \<not> list_ex is_parent (p_steps path)
      else if p_rooted path then (\<exists>ts ss. p_steps path = ElemStep ts # ss \<and> stays_below 0 ss) else True)"

lemma stays_below_mono: "stays_below d ss \<Longrightarrow> d \<le> d' \<Longrightarrow> stays_below d' ss"
proof (induction d ss arbitrary: d' rule: stays_below.induct)
  case (4 d ss)
  then show ?case by (cases d; cases d') auto
qed auto

lemma parse_steps_below:
  "parse_steps ns np raws = Some ss \<Longrightarrow> (raws \<noteq> [] \<longrightarrow> ss \<noteq> []) \<and>
   stays_below (length (takeWhile is_parent ss)) ss \<and> (np \<longrightarrow> \<not> list_ex is_parent ss \<and> (\<forall>d. stays_below d ss))"
proof (induction ns np raws arbitrary: ss rule: parse_steps.induct)
  case (2 ns np raw raws)
  then obtain st where st: "parse_step ns raw = Some st" by (auto split: option.splits)
  show ?case
  proof (cases st)
    case (ElemStep ts)
    with st "2.prems" obtain tl where t: "ss = ElemStep ts # tl" "parse_steps ns True raws = Some tl" by auto
    with "2.IH"(1) [OF st ElemStep t(2)] show ?thesis by (simp add: is_parent_def)
  next
    case (AttrStep k)
    with st "2.prems" show ?thesis by (auto simp: is_parent_def split: if_splits)
  next
    case ParentStep
    with st "2.prems" obtain tl where t: "ss = ParentStep # tl" "parse_steps ns np raws = Some tl" "\<not> np"
      by (auto split: if_splits)
    with "2.IH"(2) [OF st ParentStep] show ?thesis by (simp add: is_parent_def)
  qed
qed simp

lemma parse_path_well_formed: "parse_path ns ar s = Some p \<Longrightarrow> well_formed p"
proof -
  assume a: "parse_path ns ar s = Some p"
  then obtain desc rooted rest ss where p: "p = Path desc ss rooted" and
    ss: "parse_steps ns (desc \<or> rooted) (split_top rest (ascii ''/'')) = Some ss" and
    first: "rooted \<Longrightarrow> \<exists>ts tl. ss = ElemStep ts # tl" and "desc \<Longrightarrow> \<not> rooted"
    by (auto simp: parse_path_def Let_def split: if_splits option.splits list.splits step.splits)
  have "stays_below 0 tl" if "rooted" "ss = ElemStep ts # tl" for ts tl
  proof -
    have "parse_steps ns True (split_top rest (ascii ''/'')) = Some (ElemStep ts # tl)" using ss that by simp
    then obtain raw raws where "split_top rest (ascii ''/'') = raw # raws" "parse_steps ns True raws = Some tl"
      by (cases "split_top rest (ascii ''/'')") (auto split: option.splits step.splits if_splits)
    with parse_steps_below [of ns True raws tl] show ?thesis by simp
  qed
  with parse_steps_below [OF ss] first show ?thesis by (auto simp: well_formed_def p)
qed

lemma select_xpath:
  assumes "well_formed path" and "xpath_scope path ctx r" and "subtree r ctx \<noteq> None"
  shows "xpath_node_of ` set (select path ctx r) = xpath_nodes path ctx r"
proof -
  let ?ss = "p_steps path"
  consider (desc) "p_descendant path" | (rooted) "\<not> p_descendant path" "p_rooted path"
    | (rel) "\<not> p_descendant path" "\<not> p_rooted path" by blast
  then have "xpath_node_of ` nodes_sem path ctx r = xpath_nodes path ctx r"
  proof cases
    case desc
    let ?C = "{p. subtree r p \<noteq> None}"
    have "stays_below 0 ?ss" and np: "\<not> list_ex is_parent ?ss"
    proof -
      show n: "\<not> list_ex is_parent ?ss" using assms(1) desc by (simp add: well_formed_def)
      then have "takeWhile is_parent ?ss = []" by (cases ?ss) auto
      then show "stays_below 0 ?ss" using assms(1) by (simp add: well_formed_def)
    qed
    then have "xpath_node_of ` steps_sem r ?ss ?C = {m. \<exists>p\<in>?C. path_to r ?ss (XElement p) m}"
      by (intro steps_sem_path_to) auto
    moreover have "\<exists>p\<in>?C. path_to r ?ss (XElement p) m" if m: "path_to r ?ss XDocument m" for m
    proof (cases ?ss)
      case Nil
      then show ?thesis using assms(1) by (simp add: well_formed_def)
    next
      case (Cons s ss)
      then show ?thesis using m np assms(2) desc
        by (cases s) (auto simp: child_of_iff xpath_scope_def loc_tag_def is_parent_def)
    qed
    ultimately show ?thesis using desc
      by (auto simp: nodes_sem_def xpath_nodes_def starts_at_def below_document)
  next
    case rooted
    then obtain ts ss where s: "?ss = ElemStep ts # ss" "stays_below 0 ss"
      using assms(1) by (auto simp: well_formed_def)
    have "xpath_node_of ` steps_sem r ss (if xtag r \<in> set ts then {[]} else {}) =
        {m. \<exists>p\<in>(if xtag r \<in> set ts then {[]} else {}). path_to r ss (XElement p) m}"
      by (rule steps_sem_path_to [OF s(2)]) auto
    then show ?thesis using rooted s(1)
      by (auto simp: nodes_sem_def xpath_nodes_def starts_at_def child_of_iff loc_tag_def split: if_splits)
  next
    case rel
    have "xpath_node_of ` steps_sem r ?ss {ctx} = {m. \<exists>p\<in>{ctx}. path_to r ?ss (XElement p) m}"
      by (rule steps_sem_path_to [of "length ctx"])
        (use assms stays_below_mono in \<open>auto simp: well_formed_def xpath_scope_def\<close>)
    with rel show ?thesis by (simp add: nodes_sem_def xpath_nodes_def starts_at_def)
  qed
  then show ?thesis by (simp add: select_sem)
qed

lemma character_data_simps [simp]:
  "character_data [] = []" "character_data (CharacterData s # es) = s @ character_data es"
  "character_data (StartElement t l a # es) = character_data es" "character_data (EndElement t # es) = character_data es"
  "character_data (es @ fs) = character_data es @ character_data fs"
  "character_data (text_events x) = or_empty x"
  by (simp_all add: character_data_def text_events_def split: option.split)

lemma strval_character_data: "strval e = character_data (events_of e)"
proof (induction e rule: strval.induct)
  case (1 t a x y l ks)
  have "character_data (concat (map (\<lambda>k. events_of k @ text_events (xtail k)) us)) =
      concat (map (\<lambda>k. strval k @ or_empty (xtail k)) us)" if "set us \<subseteq> set ks" for us
    using that 1 by (induction us) auto
  from this [of ks] show ?case by simp
qed

lemma string_value_xpath: "xpath_string r (xpath_node_of n) = string_value r n"
  by (cases n) (auto simp: strval_character_data split: option.split)

lemma sb_cmp_xpath: "sb_cmp a op b \<longleftrightarrow> xpath_compares a op b"
  by (cases op) (auto simp: xpath_compares_def sgn_if)

lemma substring_after_dot_xpath: "substring_after_dot s = after_first_dot s"
  by (induction s) (auto simp: substring_after_dot_def after_first_dot_def split: prod.splits)

section \<open>The paths of a compiled test\<close>

fun paths_of :: "compiled \<Rightarrow> sb_path list" where
  "paths_of (C_Not p) = [p]"
| "paths_of (C_NotOrEq p q l) = [p, q]"
| "paths_of (C_NotOrExists p q) = [p, q]"
| "paths_of (C_NotAnd ts) = ts"
| "paths_of (C_Count p op n) = [p]"
| "paths_of (C_NotOrCount p q op n) = [p, q]"
| "paths_of (C_CountDiff p q op n) = [p, q]"
| "paths_of (C_AndCountNe p op n a b) = [p, a, b]"
| "paths_of (C_DecimalLe n) = []"
| "paths_of (C_ExistsAll ts) = ts"

lemma plain_well_formed: "plain_child_path ns ar s = Some p \<Longrightarrow> well_formed p"
  by (auto simp: plain_child_path_def dest: parse_path_well_formed split: option.splits if_splits)

lemma atom_well_formed: "parse_existence_atom ns s = Some a \<Longrightarrow> well_formed (fst (snd a))"
  by (auto dest: atom_path plain_well_formed)

lemma exclusion_loop_well_formed:
  "exclusion_loop ns ds order signs = Some (order', signs') \<Longrightarrow> \<forall>p\<in>snd ` set order. well_formed p \<Longrightarrow>
   \<forall>p\<in>snd ` set order'. well_formed p"
proof (induction ns ds order signs rule: exclusion_loop.induct)
  case (2 ns d ds order signs)
  then obtain a b where ab: "exclusion_pair ns d = Some (a, b)" by (auto split: option.splits)
  then have wf: "well_formed (fst (snd a))" "well_formed (fst (snd b))"
    by (auto simp: exclusion_pair_def dest: atom_well_formed split: list.splits option.splits if_splits)
  let ?o = "add_path b (add_path a order)"
  have o: "\<forall>p\<in>snd ` set ?o. well_formed p" using "2.prems"(2) wf by (auto simp: add_path_def)
  from "2.prems"(1) ab obtain k l where kl: "length ?o \<le> 2" "map fst ?o = [k, l]" "{fst a, fst b} = {k, l}"
    by (auto simp: Let_def split: if_splits list.splits)
  have loop: "exclusion_loop ns ds ?o (signs @ [(if k = fst a then snd (snd a) else snd (snd b),
      if l = fst a then snd (snd a) else snd (snd b))]) = Some (order', signs')"
    using "2.prems"(1) kl by (simp add: ab Let_def)
  show ?case
    using "2.IH" [OF ab refl refl refl] kl loop o by (simp add: not_less)
qed simp

lemma those_well_formed:
  assumes "those (map f xs) = Some ts" and "\<And>x p. f x = Some p \<Longrightarrow> well_formed p"
  shows "\<forall>t\<in>set ts. well_formed t"
  using those_all [of f xs ts well_formed] assms by (auto simp: list_all_iff)

lemma count_cmp_well_formed: "parse_count_cmp ns e = Some (p, op, n) \<Longrightarrow> well_formed p"
  by (auto simp: parse_count_cmp_def Let_def dest: parse_path_well_formed split: if_splits option.splits)

lemma nodeset_ne_well_formed: "parse_nodeset_ne ns e = Some (a, b) \<Longrightarrow> well_formed a \<and> well_formed b"
  by (auto simp: parse_nodeset_ne_def dest: parse_path_well_formed split: list.splits option.splits)

lemma count_diff_well_formed: "parse_count_diff ns e = Some c \<Longrightarrow> \<forall>p\<in>set (paths_of c). well_formed p"
  by (auto simp: parse_count_diff_def Let_def split: if_splits option.splits; erule parse_path_well_formed)

lemma exists_term_well_formed: "exists_term ns s = Some p \<Longrightarrow> well_formed p"
  by (auto simp: exists_term_def Let_def dest: parse_path_well_formed split: if_splits option.splits list.splits)

lemma compile_test_well_formed: "compile_test ns t = Some c \<Longrightarrow> \<forall>p\<in>set (paths_of c). well_formed p"
proof -
  have "\<forall>p\<in>set (paths_of c). well_formed p" if "compile_not ns i = Some c" for i
    using that by (auto simp: compile_not_def dest: parse_path_well_formed plain_well_formed
        split: option.splits list.splits)
  moreover have "\<forall>p\<in>set (paths_of c). well_formed p" if "compile_not_or ns d1 d2 = Some c" for d1 d2
    using that by (auto simp: compile_not_or_def Let_def dest: parse_path_well_formed plain_well_formed
        split: option.splits if_splits)
  moreover have "\<forall>p\<in>set (paths_of c). well_formed p" if "compile_mutual_exclusion ns ds = Some c" for ds
    using that by (fastforce simp: compile_mutual_exclusion_def dest: exclusion_loop_well_formed
        split: option.splits if_splits)
  ultimately show "compile_test ns t = Some c \<Longrightarrow> \<forall>p\<in>set (paths_of c). well_formed p"
    by (simp only: compile_test_def Let_def split: if_splits option.splits list.splits) blast+
qed

lemma compile_count_well_formed: "compile_count_test ns t = Some c \<Longrightarrow> \<forall>p\<in>set (paths_of c). well_formed p"
proof -
  have "\<forall>p\<in>set (paths_of c). well_formed p" if "compile_and_count_ne ns x y = Some c" for x y
    using that by (auto simp: compile_and_count_ne_def split: option.splits;
        blast dest: count_cmp_well_formed nodeset_ne_well_formed)
  moreover have "\<forall>p\<in>set (paths_of c). well_formed p" if "compile_not_or_count ns x y = Some c" for x y
    using that by (auto simp: compile_not_or_count_def dest: count_cmp_well_formed parse_path_well_formed
        split: option.splits)
  moreover have "\<forall>p\<in>set (paths_of c). well_formed p"
    if "map_option (\<lambda>(p, op, n). C_Count p op n) (parse_count_cmp ns s) = Some c" for s
    using that by (auto dest: count_cmp_well_formed)
  moreover note count_diff_well_formed
  ultimately show "compile_count_test ns t = Some c \<Longrightarrow> \<forall>p\<in>set (paths_of c). well_formed p"
    by (simp only: compile_count_test_def Let_def split: if_splits option.splits list.splits) blast+
qed

lemma compile_class_well_formed:
  assumes "compile_class_test ns shape test = Some c"
  shows "\<forall>p\<in>set (paths_of c). well_formed p"
proof -
  have "\<forall>p\<in>set (paths_of c). well_formed p" if "compile_existence_test ns test = Some c"
    using that by (auto simp: compile_existence_test_def Let_def split: if_splits
        dest!: those_well_formed [OF _ exists_term_well_formed])
  moreover have "\<forall>p\<in>set (paths_of c). well_formed p" if "compile_datatype_test test = Some c"
    using that by (auto simp: compile_datatype_test_def Let_def split: if_splits option.splits)
  ultimately show ?thesis
    using assms compile_test_well_formed compile_count_well_formed
    by (auto simp: compile_class_test_def split: if_splits)
qed

text \<open>C22: Every assert that compiles fires exactly when its test is false, read as XPath reads it,
  at every context node: the paths select the nodes of the XPath axes, counts count nodes, \<open>=\<close> and
  \<open>!=\<close> are existential over string values, and the string value is the character data of the
  element.  Two kinds of path are excepted, where the evaluator is not XPath: a search with \<open>//\<close>
  for the name of the root element itself, which it never finds, and more parent steps than the
  context node has ancestors.\<close>
theorem assert_fires_iff_false:
  assumes "compile_class_test ns shape test = Some c" and "subtree r ctx \<noteq> None"
    and "\<forall>p\<in>set (paths_of c). xpath_scope p ctx r"
  shows "fst (eval_compiled c ctx r) = (\<not> xpath_true c ctx r)"
proof -
  have sel: "xpath_node_of ` set (select p ctx r) = xpath_nodes p ctx r" if "p \<in> set (paths_of c)" for p
    using select_xpath [OF _ _ assms(2)] compile_class_well_formed [OF assms(1)] assms(3) that by blast
  have empty: "select p ctx r = [] \<longleftrightarrow> xpath_nodes p ctx r = {}" if "p \<in> set (paths_of c)" for p
    using sel [OF that] by (auto simp del: select_empty)
  have count: "int (length (select p ctx r)) = xpath_count (xpath_nodes p ctx r)" if "p \<in> set (paths_of c)" for p
    unfolding xpath_count_def sel [OF that, symmetric]
    by (simp add: card_image [OF inj_xpath_node_of] select_length select_sem)
  have some: "(\<exists>n\<in>set (select p ctx r). P (string_value r n)) \<longleftrightarrow>
      (\<exists>m\<in>xpath_nodes p ctx r. P (xpath_string r m))" if "p \<in> set (paths_of c)" for p P
    unfolding sel [OF that, symmetric] by (simp add: string_value_xpath)
  have cases: "fst (case ns of [] \<Rightarrow> (False, None) | n # ns' \<Rightarrow> f n) \<longleftrightarrow> ns \<noteq> [] \<and> fst (f (hd ns))"
    for ns and f :: "sb_node \<Rightarrow> bool \<times> sb_node option"
    by (cases ns) simp_all
  note rules = cases empty count some sb_cmp_xpath Let_def list_all_iff list_ex_iff
  show ?thesis
  proof (cases c)
    case (C_AndCountNe p op n a b)
    then have "nodeset_ne r (select a ctx r) (select b ctx r) \<longleftrightarrow>
        (\<exists>x\<in>xpath_nodes a ctx r. \<exists>y\<in>xpath_nodes b ctx r. xpath_string r x \<noteq> xpath_string r y)"
      using some [of a "\<lambda>v. \<exists>y\<in>xpath_nodes b ctx r. v \<noteq> xpath_string r y"]
        some [of b "\<lambda>w. string_value r x \<noteq> w" for x] by (simp add: nodeset_ne_sem)
    with C_AndCountNe show ?thesis by (simp add: rules)
  next
    case (C_DecimalLe n)
    then show ?thesis using string_value_xpath [of r "ElemNode ctx"]
      by (simp add: substring_after_dot_xpath xpath_compares_def sgn_if)
  next
    case (C_NotOrEq p q literal)
    then show ?thesis using some [of q "\<lambda>v. v = literal"] by (auto simp: rules simp del: select_empty)
  qed (auto simp: rules simp del: select_empty)
qed

lemmas test_eval = compile_class_test_def compile_test_def compile_not_def strip_outer_not_def
  literal_cmp_def literal_tail_def parse_path_def parse_step_def

theorem assert_fires_iff_false_witness:
  "fst (eval_compiled (C_Not (Path True [ElemStep [clark RAM [84]]] False)) [0] sample_document) =
    (\<not> xpath_true (C_Not (Path True [ElemStep [clark RAM [84]]] False)) [0] sample_document)"
proof (rule assert_fires_iff_false)
  show "compile_class_test CII_NSMAP ''absence-restriction'' (Some (ascii ''not(//ram:T)'')) =
      Some (C_Not (Path True [ElemStep [clark RAM [84]]] False))"
    by (simp add: test_eval context_eval RAM_def Let_def ascii_def)
  show "subtree sample_document [0] \<noteq> None" by (simp add: sample_document_def)
  show "\<forall>p\<in>set (paths_of (C_Not (Path True [ElemStep [clark RAM [84]]] False))). xpath_scope p [0] sample_document"
    by (simp add: xpath_scope_def is_parent_def sample_document_def clark_def RAM_def RSM_def ascii_def)
qed

text \<open>The excepted search: \<open>//\<close> with the name of the root selects the root element in XPath, and
  \<open>_select\<close> does not return it.\<close>
lemma root_not_found:
  assumes "xtag r \<in> set ts"
  shows "XElement [] \<in> xpath_nodes (Path True [ElemStep ts] False) ctx r \<and>
    ElemNode [] \<notin> set (select (Path True [ElemStep ts] False) ctx r)"
proof
  have "(child_of r)\<^sup>*\<^sup>* XDocument XDocument" by simp
  moreover have "path_to r [ElemStep ts] XDocument (XElement [])"
    using assms by (auto simp: child_of_iff loc_tag_def)
  ultimately show "XElement [] \<in> xpath_nodes (Path True [ElemStep ts] False) ctx r"
    unfolding xpath_nodes_def starts_at_def by auto
  show "ElemNode [] \<notin> set (select (Path True [ElemStep ts] False) ctx r)"
    by (auto simp: select_sem nodes_sem_def loc_parent_Some)
qed

section \<open>The catalog is partitioned\<close>

lemma partition_ids:
  "(\<And>e v. f e = Inl v \<Longrightarrow> e_id v = ci_id e) \<Longrightarrow> (\<And>e i. f e = Inr i \<Longrightarrow> i = ci_id e) \<Longrightarrow>
   mset (map e_id (implemented (map f es))) + mset (known_open (map f es)) = mset (map ci_id es)"
proof (induction es)
  case (Cons e es)
  then show ?case by (cases "f e") (auto simp: implemented_def known_open_def)
qed (simp add: implemented_def known_open_def)

lemma entry_ids:
  "partition_entry e = Inl v \<Longrightarrow> e_id v = ci_id e" "partition_entry e = Inr i \<Longrightarrow> i = ci_id e"
  "class_entry s e = Inl v \<Longrightarrow> e_id v = ci_id e" "class_entry s e = Inr i \<Longrightarrow> i = ci_id e"
  "cii_entry s a b e = Inl v \<Longrightarrow> e_id v = ci_id e" "cii_entry s a b e = Inr i \<Longrightarrow> i = ci_id e"
  by (auto simp: partition_entry_def class_entry_def cii_entry_def make_entry_def
      split: option.splits if_splits)

lemma partition_abs_ids:
  "mset (map e_id (implemented (partition_abs c))) + mset (known_open (partition_abs c)) =
   mset (map ci_id (shape_entries ''ubl'' ''absence-restriction'' c))"
  unfolding partition_abs_def by (rule partition_ids) (auto dest: entry_ids)

lemma partition_class_ids:
  "mset (map e_id (implemented (partition_class s c))) + mset (known_open (partition_class s c)) =
   mset (map ci_id (shape_entries ''ubl'' s c))"
  unfolding partition_class_def by (rule partition_ids) (auto dest: entry_ids)

lemma partition_cii_ids:
  "mset (map e_id (implemented (cii_partition a s c))) + mset (known_open (cii_partition a s c)) =
   mset (map ci_id (shape_entries ''cii'' s c))"
  unfolding cii_partition_def partition_cii_def by (rule partition_ids) (auto dest: entry_ids)

lemma mset_concat_add:
  "(\<And>s. mset (f s) + mset (g s) = mset (h s)) \<Longrightarrow>
   mset (concat (map f ss)) + mset (concat (map g ss)) = mset (concat (map h ss))"
proof (induction ss)
  case (Cons s ss)
  have "mset (concat (map f (s # ss))) + mset (concat (map g (s # ss))) =
      (mset (f s) + mset (g s)) + (mset (concat (map f ss)) + mset (concat (map g ss)))"
    by (simp add: ac_simps)
  also have "\<dots> = mset (concat (map h (s # ss)))"
    unfolding Cons.prems Cons.IH [OF Cons.prems] by simp
  finally show ?case .
qed simp

text \<open>No catalog entry is dropped or counted twice: the implemented identifiers and the open
  ones of all classes together are the identifiers of the entries of these classes, with
  multiplicity, for both syntaxes.\<close>
theorem catalog_partitioned:
  "mset (implemented_ids c) + mset (known_open_ids c) +
     mset (concat (map (\<lambda>s. class_known_open_ids s c) NEW_CLASSES)) =
   mset (map ci_id (concat (map (\<lambda>s. shape_entries ''ubl'' s c) (''absence-restriction'' # NEW_CLASSES)))) \<and>
   mset (cii_implemented_ids a c) + mset (cii_known_open_ids a c) =
   mset (map ci_id (concat (map (\<lambda>s. shape_entries ''cii'' s c) CII_SHAPE_CLASSES)))"
proof
  show "mset (implemented_ids c) + mset (known_open_ids c) +
     mset (concat (map (\<lambda>s. class_known_open_ids s c) NEW_CLASSES)) =
   mset (map ci_id (concat (map (\<lambda>s. shape_entries ''ubl'' s c) (''absence-restriction'' # NEW_CLASSES))))"
    using partition_abs_ids [of c] partition_class_ids [of "''cardinality-count''" c]
      partition_class_ids [of "''existence''" c] partition_class_ids [of "''datatype-regex''" c]
    by (simp add: implemented_ids_def known_open_ids_def implemented_entries_def NEW_CLASSES_def
        class_known_open_ids_def add.commute add.left_commute add.assoc)
  show "mset (cii_implemented_ids a c) + mset (cii_known_open_ids a c) =
   mset (map ci_id (concat (map (\<lambda>s. shape_entries ''cii'' s c) CII_SHAPE_CLASSES)))"
    using mset_concat_add [where ss = CII_SHAPE_CLASSES, OF partition_cii_ids [of a _ c]]
    by (simp add: cii_implemented_ids_def cii_known_open_ids_def cii_implemented_entries_def
        map_concat comp_def del: mset_concat)
qed

end
