(* ===== verification/EI_Report.thy ===== *)
theory EI_Report
  imports EI_Facade EI_Sb VH_Paths "HOL-Library.Product_Lexorder"
begin

text \<open>
  The conformance report of \<open>report.py\<close>: the records of the findings, the report of one file,
  the section of the syntax-binding findings, the report of a directory, and the exit codes.
  The text of a message, of a parse error and the outcome of opening a PDF container are
  arguments (the fields of \<open>world\<close>), as are expat and the two catalogs.
\<close>

section \<open>Records\<close>

definition severity_text :: "severity \<Rightarrow> pystr" where
  "severity_text s = (case s of Fatal \<Rightarrow> ascii ''fatal'' | Warning \<Rightarrow> ascii ''warning''
     | Information \<Rightarrow> ascii ''information'')"

text \<open>\<open>x or y\<close> for strings.\<close>

definition or_else :: "pystr \<Rightarrow> pystr \<Rightarrow> pystr" where
  "or_else x y = (if x = [] then y else x)"

fun py_join :: "pystr \<Rightarrow> pystr list \<Rightarrow> pystr" where
  "py_join sp [] = []"
| "py_join sp [w] = w"
| "py_join sp (w # ws) = w @ sp @ py_join sp ws"

text \<open>A violation record; \<open>element\<close> repeats \<open>field\<close>, and a line that is \<open>None\<close> is a key that is
  left out.\<close>

record finding_record =
  r_rule :: pystr
  r_severity :: pystr
  r_message :: pystr
  r_field :: pystr
  r_title :: text_opt
  r_fix_hint :: text_opt
  r_terms :: "pystr list"
  r_location :: text_opt
  r_element :: pystr
  r_source_line :: "nat option"
  r_insertion_point_line :: "nat option"

definition record_of ::
    "(fmt \<Rightarrow> pystr) \<Rightarrow> (string \<Rightarrow> catalog_entry option) \<Rightarrow> violation \<Rightarrow> finding_record" where
  "record_of txt catalog v = (let e = remediation_fields catalog (v_rule_id v) in
     \<lparr> r_rule = ascii (v_rule_id v), r_severity = severity_text (v_severity v),
       r_message = txt (v_message v), r_field = txt (v_element v),
       r_title = entry_title e, r_fix_hint = entry_fix e, r_terms = entry_terms e,
       r_location = entry_location_hint e, r_element = txt (v_element v),
       r_source_line = v_source_line v, r_insertion_point_line = v_insertion_point_line v \<rparr>)"

text \<open>\<open>syntax_binding_section\<close>.\<close>

record binding_section =
  sb_bindings :: "sb_finding list"
  sb_fatal_count :: nat
  sb_warning_count :: nat

definition is_fatal_binding :: "sb_finding \<Rightarrow> bool" where
  "is_fatal_binding f \<longleftrightarrow> f_severity f = Fatal"

definition syntax_binding_section :: "catalog_item list option \<Rightarrow> xml \<Rightarrow> binding_section" where
  "syntax_binding_section catalog r = (let fs = sb_evaluate catalog r in
     \<lparr> sb_bindings = fs, sb_fatal_count = length (filter is_fatal_binding fs),
       sb_warning_count = length fs - length (filter is_fatal_binding fs) \<rparr>)"

section \<open>The report of one file\<close>

record report =
  rp_source :: pystr
  rp_profile :: string
  rp_valid :: bool
  rp_error :: "(pystr \<times> pystr) option"
  rp_fatal_count :: nat
  rp_warning_count :: nat
  rp_violations :: "finding_record list"
  rp_bindings :: "binding_section option"

definition has_severity :: "string \<Rightarrow> finding_record \<Rightarrow> bool" where
  "has_severity s rec \<longleftrightarrow> r_severity rec = ascii s"

definition count_severity :: "string \<Rightarrow> finding_record list \<Rightarrow> nat" where
  "count_severity s recs = length (filter (has_severity s) recs)"

definition error_report :: "pystr \<Rightarrow> string \<Rightarrow> string \<Rightarrow> pystr \<Rightarrow> report" where
  "error_report source profile code message =
     \<lparr> rp_source = source, rp_profile = profile, rp_valid = False, rp_error = Some (ascii code, message),
       rp_fatal_count = 0, rp_warning_count = 0, rp_violations = [], rp_bindings = None \<rparr>"

text \<open>What the report takes from outside: expat, the version of the interpreter, the two
  catalogs, the text of a format, the text of a parse error, and the container of a PDF.\<close>

datatype 'b container = NoPdf | Unsupported pystr | Embedded "'b list" "violation list"

record 'b world =
  w_expat :: "'b list \<Rightarrow> xml_event list"
  w_py311 :: bool
  w_catalog :: "string \<Rightarrow> catalog_entry option"
  w_syntax :: "catalog_item list option"
  w_text :: "fmt \<Rightarrow> pystr"
  w_parse_error :: "'b list \<Rightarrow> pystr"
  w_container :: "'b list \<Rightarrow> 'b container"

definition report_from_violations ::
    "'b world \<Rightarrow> violation list \<Rightarrow> pystr \<Rightarrow> string \<Rightarrow> report" where
  "report_from_violations w vs source profile =
     (let recs = map (record_of (w_text w) (w_catalog w)) vs in
      \<lparr> rp_source = source, rp_profile = profile, rp_valid = (count_severity ''fatal'' recs = 0),
        rp_error = None, rp_fatal_count = count_severity ''fatal'' recs,
        rp_warning_count = count_severity ''warning'' recs, rp_violations = recs, rp_bindings = None \<rparr>)"

definition report_from_invoice_bytes ::
    "'b world \<Rightarrow> 'b list \<Rightarrow> pystr \<Rightarrow> string \<Rightarrow> violation list \<Rightarrow> run_error + report" where
  "report_from_invoice_bytes w bytes source profile extra =
     (case safe_fromstring (w_expat w) bytes of
        Inl e \<Rightarrow> Inr (error_report source profile ''not-well-formed'' (w_parse_error w bytes))
      | Inr r \<Rightarrow> bindE (validate_root (w_py311 w) (w_catalog w) profile r)
          (\<lambda>vs. Inr (report_from_violations w (vs @ extra) source profile)))"

text \<open>The detail of a container error without the prefix that its message carries.\<close>

definition container_detail :: "pystr \<Rightarrow> pystr" where
  "container_detail d = (let p = ascii ''unsupported container:'' in
     if startswith d p then py_strip (drop (length p) d) else d)"

definition build_report ::
    "'b world \<Rightarrow> string \<Rightarrow> pystr \<Rightarrow> 'b list \<Rightarrow> run_error + report" where
  "build_report w profile path file =
     (case w_container w file of
        Unsupported detail \<Rightarrow> Inr (error_report path profile ''unsupported-container''
          (ascii ''unsupported container '' @ 8212 # ascii '' could not extract embedded invoice XML: '' @
           container_detail detail))
      | Embedded bytes found \<Rightarrow> report_from_invoice_bytes w bytes path profile found
      | NoPdf \<Rightarrow> (case parse_file (w_expat w) file of
          Inl e \<Rightarrow> Inr (error_report path profile ''not-well-formed'' (w_parse_error w file))
        | Inr r \<Rightarrow> bindE (validate_root (w_py311 w) (w_catalog w) profile r) (\<lambda>vs.
            (let recs = map (record_of (w_text w) (w_catalog w)) vs;
                 sb = syntax_binding_section (w_syntax w) r in
             Inr \<lparr> rp_source = path, rp_profile = profile,
                   rp_valid = (result_ok vs \<and> sb_fatal_count sb = 0), rp_error = None,
                   rp_fatal_count = count_severity ''fatal'' recs,
                   rp_warning_count = count_severity ''warning'' recs,
                   rp_violations = recs, rp_bindings = Some sb \<rparr>))))"

text \<open>The exit code of \<open>main\<close> for a single file.\<close>

definition EXIT_OK :: nat where "EXIT_OK = 0"

definition EXIT_FAIL :: nat where "EXIT_FAIL = 1"

definition EXIT_PARSE :: nat where "EXIT_PARSE = 3"

definition total_fatal :: "report \<Rightarrow> nat" where
  "total_fatal rp = rp_fatal_count rp +
     (case rp_bindings rp of None \<Rightarrow> 0 | Some sb \<Rightarrow> sb_fatal_count sb)"

definition single_exit_code :: "report \<Rightarrow> nat" where
  "single_exit_code rp = (if rp_error rp \<noteq> None then EXIT_PARSE
     else if total_fatal rp = 0 then EXIT_OK else EXIT_FAIL)"

section \<open>Directories\<close>

text \<open>A directory as \<open>os.walk\<close> sees it: files, links to directories (listed among the directories,
  not entered) and directories.\<close>

datatype walk_tree = Walk "(pystr \<times> walk_node) list"
  and walk_node = AFile | ADirLink | ADir walk_tree

definition BATCH_INVOICE_EXTS :: "string list" where
  "BATCH_INVOICE_EXTS = [''.xml'', ''.pdf'']"

text \<open>\<open>name.lower().endswith(ext)\<close>: apart from ASCII letters no character has a lower case that
  occurs in the two extensions.\<close>

definition has_extension :: "pystr \<Rightarrow> bool" where
  "has_extension name \<longleftrightarrow> list_ex (\<lambda>ext. starts_with (rev (ascii ext)) (rev (lower name))) BATCH_INVOICE_EXTS"

definition is_dotted :: "pystr \<Rightarrow> bool" where
  "is_dotted name \<longleftrightarrow> startswith name dot"

text \<open>The names of the files of one directory, and the walk into those directories that are not
  pruned.\<close>

definition invoice_names :: "(pystr \<times> walk_node) list \<Rightarrow> pystr list" where
  "invoice_names es = [fst e. e \<leftarrow> es, snd e = AFile, \<not> is_dotted (fst e), has_extension (fst e)]"

fun walk_files :: "pystr \<Rightarrow> walk_tree \<Rightarrow> pystr list"
  and walk_dirs :: "pystr \<Rightarrow> (pystr \<times> walk_node) list \<Rightarrow> pystr list" where
  "walk_files dirpath (Walk es) = map (path_join dirpath) (invoice_names es) @ walk_dirs dirpath es"
| "walk_dirs dirpath [] = []"
| "walk_dirs dirpath ((name, AFile) # es) = walk_dirs dirpath es"
| "walk_dirs dirpath ((name, ADirLink) # es) = walk_dirs dirpath es"
| "walk_dirs dirpath ((name, ADir t) # es) =
     (if is_dotted name then [] else walk_files (path_join dirpath name) t) @ walk_dirs dirpath es"

definition collect_invoice_files :: "pystr \<Rightarrow> walk_tree \<Rightarrow> pystr list" where
  "collect_invoice_files rt t = sort (walk_files rt t)"

record batch =
  b_root :: pystr
  b_profile :: string
  b_file_count :: nat
  b_fatal_count :: nat
  b_warning_count :: nat
  b_violation_count :: nat
  b_failed_file_count :: nat
  b_files :: "report list"
  b_note :: bool

definition report_failed :: "report \<Rightarrow> bool" where
  "report_failed rp \<longleftrightarrow> rp_error rp \<noteq> None \<or> 0 < rp_fatal_count rp"

definition batch_of :: "pystr \<Rightarrow> string \<Rightarrow> report list \<Rightarrow> batch" where
  "batch_of rt profile rps =
     \<lparr> b_root = rt, b_profile = profile, b_file_count = length rps,
       b_fatal_count = sum_list (map rp_fatal_count rps),
       b_warning_count = sum_list (map rp_warning_count rps),
       b_violation_count = sum_list (map (\<lambda>rp. length (rp_violations rp)) rps),
       b_failed_file_count = length (filter report_failed rps),
       b_files = rps, b_note = (rps = []) \<rparr>"

text \<open>\<open>build_batch_report_from_files\<close> and \<open>build_batch_report\<close>; \<open>build\<close> is \<open>build_report\<close> with
  the profile, on the files of the directory.\<close>

definition build_batch_report_from_files ::
    "(pystr \<Rightarrow> 'e + report) \<Rightarrow> string \<Rightarrow> pystr \<Rightarrow> pystr list \<Rightarrow> 'e + batch" where
  "build_batch_report_from_files build profile rt files =
     bindE (mapE build files) (\<lambda>rps. Inr (batch_of rt profile rps))"

definition build_batch_report ::
    "(pystr \<Rightarrow> 'e + report) \<Rightarrow> string \<Rightarrow> pystr \<Rightarrow> walk_tree \<Rightarrow> 'e + batch" where
  "build_batch_report build profile rt t =
     build_batch_report_from_files build profile rt (collect_invoice_files rt t)"

definition batch_exit_code :: "batch \<Rightarrow> nat" where
  "batch_exit_code b =
     (if list_ex (\<lambda>rp. 0 < rp_fatal_count rp) (b_files b) then EXIT_FAIL
      else if list_ex (\<lambda>rp. rp_error rp \<noteq> None) (b_files b) then EXIT_PARSE
      else EXIT_OK)"

end
