(* ===== verification/EI_Render.thy ===== *)
theory EI_Render
  imports EI_Report
begin

text \<open>
  The text formats of \<open>report.py\<close>: the escapes, the position suffixes, and the emitters for the
  terminal, JUnit, GitHub, Azure and badges.  Numbers are written by \<open>decimal_text\<close>.
\<close>

section \<open>Escapes\<close>

text \<open>\<open>str.replace\<close> of one character.\<close>

definition replace_char :: "nat \<Rightarrow> pystr \<Rightarrow> pystr \<Rightarrow> pystr" where
  "replace_char c r s = concat (map (\<lambda>x. if x = c then r else [x]) s)"

definition github_escape_data :: "pystr \<Rightarrow> pystr" where
  "github_escape_data s =
     replace_char 10 (ascii ''%0A'') (replace_char 13 (ascii ''%0D'') (replace_char 37 (ascii ''%25'') s))"

definition github_escape_property :: "pystr \<Rightarrow> pystr" where
  "github_escape_property s =
     replace_char 58 (ascii ''%3A'') (replace_char 44 (ascii ''%2C'') (github_escape_data s))"

definition azure_escape_data :: "pystr \<Rightarrow> pystr" where
  "azure_escape_data s =
     replace_char 10 (ascii ''%0A'') (replace_char 13 (ascii ''%0D'') (replace_char 37 (ascii ''%AZP25'') s))"

definition azure_escape_property :: "pystr \<Rightarrow> pystr" where
  "azure_escape_property s =
     replace_char 93 (ascii ''%5D'') (replace_char 59 (ascii ''%3B'') (azure_escape_data s))"

text \<open>\<open>xml.sax.saxutils.escape\<close> and \<open>quoteattr\<close>.\<close>

definition xml_escape :: "pystr \<Rightarrow> pystr" where
  "xml_escape s =
     replace_char 60 (ascii ''&lt;'') (replace_char 62 (ascii ''&gt;'') (replace_char 38 (ascii ''&amp;'') s))"

definition quoteattr :: "pystr \<Rightarrow> pystr" where
  "quoteattr s =
     (let d = replace_char 9 (ascii ''&#9;'') (replace_char 13 (ascii ''&#13;'')
                (replace_char 10 (ascii ''&#10;'') (xml_escape s))) in
      if 34 \<in> set d
      then if 39 \<in> set d then 34 # replace_char 34 (ascii ''&quot;'') d @ [34] else 39 # d @ [39]
      else 34 # d @ [34])"

section \<open>Positions\<close>

text \<open>\<open>_position_suffix\<close> and \<open>_insertion_point_suffix\<close>: a line that is not positive is no line.\<close>

definition position_suffix :: "pystr \<Rightarrow> nat option \<Rightarrow> pystr" where
  "position_suffix source l = (case positive_line l of None \<Rightarrow> []
     | Some n \<Rightarrow> if source = [] then ascii '' at line '' @ decimal_text n
                 else ascii '' at '' @ source @ 58 # decimal_text n)"

definition insertion_point_suffix :: "pystr \<Rightarrow> nat option \<Rightarrow> pystr" where
  "insertion_point_suffix source l = (case positive_line l of None \<Rightarrow> []
     | Some n \<Rightarrow> if source = [] then ascii '' (insertion point line '' @ decimal_text n @ ascii '')''
                 else ascii '' (insertion point '' @ source @ 58 # decimal_text n @ ascii '')'')"

definition place_suffix :: "pystr \<Rightarrow> finding_record \<Rightarrow> pystr" where
  "place_suffix source v = or_else (position_suffix source (r_source_line v))
     (insertion_point_suffix source (r_insertion_point_line v))"

definition plural :: "nat \<Rightarrow> pystr" where
  "plural n = (if n = 1 then [] else ascii ''s'')"

section \<open>Text\<close>

text \<open>The first line of a file without error, in the listing of a directory too.\<close>

definition status_line :: "report \<Rightarrow> pystr" where
  "status_line rp = (let f = rp_fatal_count rp; wc = rp_warning_count rp in
     if 0 < f
     then ascii ''FAIL  '' @ rp_source rp @ ascii ''  '' @ decimal_text f @ ascii '' fatal, '' @
       decimal_text wc @ ascii '' warning''
     else ascii ''PASS  '' @ rp_source rp @ ascii ''  conformant'' @
       (if 0 < wc then ascii '' ('' @ decimal_text wc @ ascii '' warning'' @ plural wc @ ascii '')'' else []))"

text \<open>\<open>official_message\<close> and \<open>resolve_message\<close>; \<open>german\<close> looks up \<open>message_de\<close>.\<close>

definition official_message :: "(pystr \<Rightarrow> text_opt) \<Rightarrow> pystr \<Rightarrow> string \<Rightarrow> text_opt" where
  "official_message german rid lang = (if lang = ''de'' then german rid else None)"

definition resolve_message :: "(pystr \<Rightarrow> text_opt) \<Rightarrow> pystr \<Rightarrow> pystr \<Rightarrow> string \<Rightarrow> pystr" where
  "resolve_message german rid english lang =
     (let m = official_message german rid lang in if falsy m then english else the m)"

definition text_line :: "(pystr \<Rightarrow> text_opt) \<Rightarrow> string \<Rightarrow> pystr \<Rightarrow> finding_record \<Rightarrow> pystr" where
  "text_line german lang source v =
     ascii ''  ['' @ r_severity v @ ascii ''] '' @ r_rule v @ ascii '': '' @
     resolve_message german (r_rule v) (r_message v) lang @
     (if r_field v = [] then [] else ascii '' ('' @ r_field v @ ascii '')'') @ place_suffix source v"

definition build_text :: "(pystr \<Rightarrow> text_opt) \<Rightarrow> string \<Rightarrow> report \<Rightarrow> pystr" where
  "build_text german lang rp = (case rp_error rp of
     Some (code, message) \<Rightarrow>
       ascii ''ERROR '' @ rp_source rp @ ascii ''  '' @ code @ ascii '': '' @ message @ [10]
   | None \<Rightarrow> py_join [10] (status_line rp # map (text_line german lang (rp_source rp)) (rp_violations rp)) @ [10])"

section \<open>The listing of a directory\<close>

definition BATCH_RULE_LIST_CAP :: nat where "BATCH_RULE_LIST_CAP = 11"

definition severity_rank :: "pystr \<Rightarrow> nat" where
  "severity_rank s = (if s = ascii ''fatal'' then 0 else if s = ascii ''warning'' then 1
     else if s = ascii ''information'' then 2 else 3)"

definition is_ascii_digit :: "nat \<Rightarrow> bool" where
  "is_ascii_digit c \<longleftrightarrow> 48 \<le> c \<and> c \<le> 57"

definition number_of :: "pystr \<Rightarrow> int" where
  "number_of ds = foldl (\<lambda>n d. 10 * n + int d - 48) 0 ds"

text \<open>\<open>_rule_sort_key\<close>: the runs of digits and the runs of other characters; rule identifiers are
  ASCII.\<close>

function rule_sort_key :: "pystr \<Rightarrow> (int \<times> pystr) list" where
  "rule_sort_key [] = []"
| "rule_sort_key (c # cs) =
     (let digits = is_ascii_digit c;
          run = takeWhile (\<lambda>d. is_ascii_digit d = digits) (c # cs);
          rest = dropWhile (\<lambda>d. is_ascii_digit d = digits) (c # cs)
      in (if digits then (number_of run, []) else (-1, run)) # rule_sort_key rest)"
  by pat_completeness auto
termination
  by (relation "measure length") (auto simp: le_imp_less_Suc length_dropWhile_le)

definition batch_finding_sort_key :: "finding_record \<Rightarrow> nat \<times> (int \<times> pystr) list \<times> pystr" where
  "batch_finding_sort_key v = (severity_rank (r_severity v), rule_sort_key (r_rule v), r_rule v)"

definition batch_truncation_sentence :: "nat \<Rightarrow> nat \<Rightarrow> pystr" where
  "batch_truncation_sentence omitted all =
     ascii ''... '' @ decimal_text omitted @ ascii '' more not shown '' @ 8212 #
     ascii '' use --format json for all '' @ decimal_text all"

definition batch_finding_line :: "pystr \<Rightarrow> finding_record \<Rightarrow> pystr" where
  "batch_finding_line source v =
     ascii ''    ['' @ r_severity v @ ascii ''] '' @ r_rule v @ ascii '': '' @ r_message v @
     place_suffix source v"

definition batch_file_finding_lines :: "report \<Rightarrow> pystr list" where
  "batch_file_finding_lines rp = (let vs = rp_violations rp; n = length vs; f = count_severity ''fatal'' vs in
     if vs = [] then []
     else (ascii ''  '' @ decimal_text n @ ascii '' finding(s) total: '' @ decimal_text f @ ascii '' fatal, '' @
           decimal_text (n - f) @ ascii '' non-fatal (--format json carries every field of each)'') #
       map (batch_finding_line (rp_source rp)) (take BATCH_RULE_LIST_CAP (sort_key batch_finding_sort_key vs)) @
       (if BATCH_RULE_LIST_CAP < n
        then [ascii ''    '' @ batch_truncation_sentence (n - BATCH_RULE_LIST_CAP) n] else []))"

text \<open>\<open>_batch_rule_frequency\<close>: for each rule the number of files it occurs in, a dictionary in the
  order of insertion, and its best severity.\<close>

definition bump :: "pystr \<Rightarrow> (pystr \<times> nat) list \<Rightarrow> (pystr \<times> nat) list" where
  "bump rid m = (case map_of m rid of None \<Rightarrow> m @ [(rid, 1)] | Some n \<Rightarrow> AList.update rid (n + 1) m)"

definition lower_rank :: "pystr \<Rightarrow> nat \<Rightarrow> (pystr \<Rightarrow> nat option) \<Rightarrow> pystr \<Rightarrow> nat option" where
  "lower_rank rid k m = m(rid := Some (case m rid of None \<Rightarrow> k | Some j \<Rightarrow> min j k))"

fun count_file ::
    "finding_record list \<Rightarrow> pystr set \<Rightarrow> (pystr \<times> nat) list \<times> (pystr \<Rightarrow> nat option) \<Rightarrow>
     (pystr \<times> nat) list \<times> (pystr \<Rightarrow> nat option)" where
  "count_file [] seen st = st"
| "count_file (v # vs) seen (files, ranks) =
     (let rid = r_rule v; ranks' = lower_rank rid (severity_rank (r_severity v)) ranks in
      if rid \<in> seen then count_file vs seen (files, ranks')
      else count_file vs (insert rid seen) (bump rid files, ranks'))"

definition rule_counts :: "report list \<Rightarrow> (pystr \<times> nat) list \<times> (pystr \<Rightarrow> nat option)" where
  "rule_counts rps = foldl (\<lambda>st rp. count_file (rp_violations rp) {} st) ([], \<lambda>rid. None) rps"

definition rule_frequency_key ::
    "(pystr \<times> nat) list \<Rightarrow> (pystr \<Rightarrow> nat option) \<Rightarrow> pystr \<Rightarrow> int \<times> nat \<times> (int \<times> pystr) list \<times> pystr" where
  "rule_frequency_key files ranks rid =
     (- int (the (map_of files rid)), the (ranks rid), rule_sort_key rid, rid)"

definition batch_rule_frequency :: "report list \<Rightarrow> pystr list \<times> (pystr \<times> nat) list" where
  "batch_rule_frequency rps = (let (files, ranks) = rule_counts rps in
     (sort_key (rule_frequency_key files ranks) (map fst files), files))"

definition pad_right :: "nat \<Rightarrow> pystr \<Rightarrow> pystr" where
  "pad_right width s = s @ replicate (width - length s) 32"

definition batch_aggregate_lines :: "pystr list \<Rightarrow> (pystr \<times> nat) list \<Rightarrow> pystr list" where
  "batch_aggregate_lines ordered files = (if ordered = [] then [] else
     (let shown = take BATCH_RULE_LIST_CAP ordered; width = Max (set (map length shown)) in
      [[], ascii ''Most violated rules (rule id, files affected):''] @
      map (\<lambda>rid. let n = the (map_of files rid) in
        ascii ''  '' @ pad_right width rid @ ascii ''  '' @ decimal_text n @ ascii '' file'' @ plural n) shown @
      (if BATCH_RULE_LIST_CAP < length ordered
       then [ascii ''  '' @ batch_truncation_sentence (length ordered - BATCH_RULE_LIST_CAP) (length ordered)]
       else [])))"

definition batch_explain_hint :: "pystr list \<Rightarrow> (pystr \<Rightarrow> pystr) \<Rightarrow> pystr option" where
  "batch_explain_hint ordered rank_lookup = (let shown = take BATCH_RULE_LIST_CAP ordered in
     case filter (\<lambda>rid. rank_lookup rid = ascii ''fatal'') shown of
       rid # _ \<Rightarrow> Some rid
     | [] \<Rightarrow> (case shown of [] \<Rightarrow> None | rid # _ \<Rightarrow> Some rid))"

definition severity_of :: "report list \<Rightarrow> pystr \<Rightarrow> pystr" where
  "severity_of rps rid = or_empty (foldl (\<lambda>m v.
     if m = None \<or> r_severity v = ascii ''fatal'' then Some (r_severity v) else m) None
     (filter (\<lambda>v. r_rule v = rid) (concat (map rp_violations rps))))"

definition batch_file_lines :: "report \<Rightarrow> pystr list" where
  "batch_file_lines rp = (case rp_error rp of
     Some (code, message) \<Rightarrow> [ascii ''ERROR '' @ rp_source rp @ ascii ''  '' @ code]
   | None \<Rightarrow> status_line rp # batch_file_finding_lines rp)"

definition batch_tally :: "batch \<Rightarrow> pystr" where
  "batch_tally b = decimal_text (b_file_count b) @ ascii '' file'' @ plural (b_file_count b) @ ascii '': '' @
     decimal_text (b_file_count b - b_failed_file_count b) @ ascii '' passed, '' @
     decimal_text (b_failed_file_count b) @ ascii '' failed  ('' @ decimal_text (b_fatal_count b) @
     ascii '' fatal, '' @ decimal_text (b_warning_count b) @ ascii '' warning across all files)''"

definition build_batch_text :: "batch \<Rightarrow> pystr" where
  "build_batch_text b =
     (if b_file_count b = 0
      then ascii ''einvoice batch: no invoice files found under '' @ b_root b @ [10]
      else (let (ordered, files) = batch_rule_frequency (b_files b) in
        py_join [10] (concat (map batch_file_lines (b_files b)) @ [[], batch_tally b] @
          batch_aggregate_lines ordered files @
          (case batch_explain_hint ordered (severity_of (b_files b)) of
             Some rid \<Rightarrow> if rid = [] then []
               else [[], ascii ''Explain any rule above: einvoice --explain '' @ rid]
           | None \<Rightarrow> [])) @ [10]))"

section \<open>JUnit\<close>

definition junit_testcase :: "pystr \<Rightarrow> pystr \<Rightarrow> finding_record \<Rightarrow> pystr list" where
  "junit_testcase source classname v =
     (let severity = or_else (r_severity v) (ascii ''fatal''); place = place_suffix source v in
      [ascii ''    <testcase name='' @ quoteattr (r_rule v) @ ascii '' classname='' @ classname @ ascii ''>'',
       (if severity = ascii ''fatal''
        then ascii ''      <failure message='' @ quoteattr (r_message v) @ ascii ''>'' @
          xml_escape ((if r_field v = [] then severity else severity @ ascii '': '' @ r_field v) @ place) @
          ascii ''</failure>''
        else ascii ''      <system-out>'' @ xml_escape (severity @ ascii '': '' @ r_message v @
          (if r_field v = [] then [] else ascii '' ('' @ r_field v @ ascii '')'') @ place) @
          ascii ''</system-out>''),
       ascii ''    </testcase>''])"

definition junit_counts :: "report \<Rightarrow> nat \<times> nat \<times> nat" where
  "junit_counts rp = (case rp_error rp of Some e \<Rightarrow> (1, 0, 1)
     | None \<Rightarrow> (length (rp_violations rp), rp_fatal_count rp, 0))"

definition count_attrs :: "pystr \<Rightarrow> nat \<times> nat \<times> nat \<Rightarrow> pystr" where
  "count_attrs name counts = (case counts of (tests, failures, errors) \<Rightarrow>
     ascii ''name='' @ quoteattr name @ ascii '' tests='' @ quoteattr (decimal_text tests) @
     ascii '' failures='' @ quoteattr (decimal_text failures) @
     ascii '' errors='' @ quoteattr (decimal_text errors))"

definition junit_suite_block :: "report \<Rightarrow> pystr option \<Rightarrow> pystr list" where
  "junit_suite_block rp suite_name =
     (let classname = quoteattr (ascii (rp_profile rp));
          inner = (case rp_error rp of
            Some (code, message) \<Rightarrow> (let msg = or_else message code in
              [ascii ''    <testcase name='' @ quoteattr code @ ascii '' classname='' @ classname @ ascii ''>'',
               ascii ''      <error message='' @ quoteattr msg @ ascii ''>'' @ xml_escape msg @ ascii ''</error>'',
               ascii ''    </testcase>''])
          | None \<Rightarrow> concat (map (junit_testcase (rp_source rp) classname) (rp_violations rp)))
      in [ascii ''  <testsuite '' @
            count_attrs (case suite_name of None \<Rightarrow> ascii (rp_profile rp) | Some n \<Rightarrow> n) (junit_counts rp) @
            ascii ''>''] @ inner @ [ascii ''  </testsuite>''])"

definition JUNIT_SUITES_NAME :: pystr where
  "JUNIT_SUITES_NAME = ascii ''einvoice-conformance''"

definition junit_document :: "nat \<times> nat \<times> nat \<Rightarrow> pystr list \<Rightarrow> pystr" where
  "junit_document counts body =
     py_join [10] ([ascii ''<?xml version=\"1.0\" encoding=\"UTF-8\"?>'',
       ascii ''<testsuites '' @ count_attrs JUNIT_SUITES_NAME counts @ ascii ''>''] @ body @
       [ascii ''</testsuites>'']) @ [10]"

definition build_junit :: "report \<Rightarrow> pystr" where
  "build_junit rp = junit_document (junit_counts rp) (junit_suite_block rp None)"

definition add_counts :: "nat \<times> nat \<times> nat \<Rightarrow> nat \<times> nat \<times> nat \<Rightarrow> nat \<times> nat \<times> nat" where
  "add_counts a b = (fst a + fst b, fst (snd a) + fst (snd b), snd (snd a) + snd (snd b))"

definition build_junit_batch :: "batch \<Rightarrow> pystr" where
  "build_junit_batch b =
     junit_document (foldl add_counts (0, 0, 0) (map junit_counts (b_files b)))
       (concat (map (\<lambda>rp. junit_suite_block rp (Some (or_else (rp_source rp) (b_root b)))) (b_files b)))"

section \<open>Annotations\<close>

definition github_level :: "pystr \<Rightarrow> pystr" where
  "github_level severity = (if severity = ascii ''fatal'' then ascii ''error'' else ascii ''warning'')"

text \<open>\<open>source or field or location_hint or ""\<close>, and \<open>message or title or rule_id\<close>.\<close>

definition annotated_path :: "pystr \<Rightarrow> finding_record \<Rightarrow> pystr" where
  "annotated_path source v = or_else source (or_else (r_field v) (or_empty (r_location v)))"

definition annotated_message :: "finding_record \<Rightarrow> pystr" where
  "annotated_message v = or_else (r_message v) (or_else (or_empty (r_title v)) (r_rule v))"

definition github_line :: "pystr \<Rightarrow> finding_record \<Rightarrow> pystr" where
  "github_line source v =
     (let props = [ascii ''file='' @ github_escape_property (annotated_path source v)] @
        (case r_source_line v of None \<Rightarrow> [] | Some n \<Rightarrow> [ascii ''line='' @ decimal_text n]) @
        [ascii ''title='' @ github_escape_property (r_rule v)]
      in ascii ''::'' @ github_level (or_else (r_severity v) (ascii ''fatal'')) @ 32 # py_join [44] props @
         ascii ''::'' @ github_escape_data (annotated_message v))"

definition github_lines :: "report \<Rightarrow> pystr list" where
  "github_lines rp = (case rp_error rp of
     Some (code, message) \<Rightarrow>
       [ascii ''::error '' @ py_join [44] [ascii ''file='' @ github_escape_property (rp_source rp),
          ascii ''title='' @ github_escape_property code] @ ascii ''::'' @
        github_escape_data (or_else message code)]
   | None \<Rightarrow> (let ls = map (github_line (rp_source rp)) (rp_violations rp) in
       if ls = []
       then [ascii ''# einvoice: '' @ or_else (rp_source rp) (ascii ''input'') @
             ascii '' is conformant with EN 16931 '' @ 8212 # ascii '' no annotations'']
       else ls))"

definition build_github :: "report \<Rightarrow> pystr" where
  "build_github rp = concat (map (\<lambda>l. l @ [10]) (github_lines rp))"

definition azure_level :: "pystr \<Rightarrow> pystr" where
  "azure_level severity = (if severity = ascii ''fatal'' then ascii ''error'' else ascii ''warning'')"

definition azure_command :: "pystr list \<Rightarrow> pystr \<Rightarrow> pystr" where
  "azure_command props message =
     ascii ''##vso[task.logissue '' @ py_join [59] props @ 93 # azure_escape_data message"

definition azure_line :: "pystr \<Rightarrow> finding_record \<Rightarrow> pystr" where
  "azure_line source v =
     azure_command ([ascii ''type='' @ azure_level (or_else (r_severity v) (ascii ''fatal'')),
         ascii ''sourcepath='' @ azure_escape_property (annotated_path source v)] @
        (case r_source_line v of None \<Rightarrow> [] | Some n \<Rightarrow> [ascii ''linenumber='' @ decimal_text n]) @
        [ascii ''code='' @ azure_escape_property (r_rule v)]) (annotated_message v)"

definition azure_lines :: "report \<Rightarrow> pystr list" where
  "azure_lines rp = (case rp_error rp of
     Some (code, message) \<Rightarrow>
       [azure_command [ascii ''type=error'', ascii ''sourcepath='' @ azure_escape_property (rp_source rp),
          ascii ''code='' @ azure_escape_property code] (or_else message code)]
   | None \<Rightarrow> (let ls = map (azure_line (rp_source rp)) (rp_violations rp) in
       if ls = []
       then [ascii ''# einvoice: '' @ or_else (rp_source rp) (ascii ''input'') @
             ascii '' is conformant with EN 16931 '' @ 8212 # ascii '' no issues'']
       else ls))"

definition build_azure :: "report \<Rightarrow> pystr" where
  "build_azure rp = concat (map (\<lambda>l. l @ [10]) (azure_lines rp))"

section \<open>Badge\<close>

record badge =
  badge_schema :: nat
  badge_label :: pystr
  badge_message :: pystr
  badge_color :: pystr

definition build_badge :: "report \<Rightarrow> badge" where
  "build_badge rp = (let (message, color) =
      (if rp_error rp \<noteq> None then (ascii ''not well-formed'', ascii ''red'')
       else (let f = rp_fatal_count rp; wc = rp_warning_count rp in
         if 0 < f then (decimal_text f @ ascii '' issue'' @ plural f, ascii ''red'')
         else if 0 < wc then (ascii ''conformant ('' @ decimal_text wc @ ascii '' warning'' @ plural wc @ ascii '')'',
           ascii ''yellow'')
         else (ascii ''conformant'', ascii ''brightgreen'')))
     in \<lparr> badge_schema = 1, badge_label = ascii ''EN 16931'', badge_message = message, badge_color = color \<rparr>)"

end
