(* ===== verification/EI_Sarif.thy ===== *)
theory EI_Sarif
  imports EI_Render
begin

text \<open>
  The documents of \<open>report.py\<close> that are JSON: SARIF, GitLab Code Quality and badges; and the
  explanation of one rule.  \<open>hashlib.sha256(...).hexdigest()\<close> is the argument \<open>sha256\<close>; a string
  with a lone surrogate, which \<open>sys.argv\<close> has for a file name that is not UTF-8, can not be encoded.
\<close>

definition obj :: "(string \<times> json) list \<Rightarrow> json" where
  "obj items = JObj (map (\<lambda>(k, v). (ascii k, v)) items)"

definition encode_utf8 :: "pystr \<Rightarrow> py_exc + bytes" where
  "encode_utf8 s = (case utf8_encode s of None \<Rightarrow> Inl UnicodeEncodeError | Some b \<Rightarrow> Inr b)"

section \<open>SARIF\<close>

definition SARIF_INFORMATION_URI :: pystr where
  "SARIF_INFORMATION_URI = ascii ''https://github.com/verifyhash/verifyhash''"

definition SARIF_SCHEMA_URI :: pystr where
  "SARIF_SCHEMA_URI = ascii ''https://raw.githubusercontent.com/oasis-tcs/sarif-spec/master/Schemata/sarif-schema-2.1.0.json''"

definition SARIF_RULE_HELP_BASE_URL :: pystr where
  "SARIF_RULE_HELP_BASE_URL = ascii ''https://verifyhash.com/einvoice/rules/''"

definition rule_page_url :: "pystr \<Rightarrow> pystr" where
  "rule_page_url rid = SARIF_RULE_HELP_BASE_URL @ rid @ [47]"

definition sarif_level :: "pystr \<Rightarrow> pystr" where
  "sarif_level severity = (if severity = ascii ''fatal'' then ascii ''error''
     else if severity = ascii ''warning'' then ascii ''warning'' else ascii ''note'')"

definition sarif_fingerprint :: "(bytes \<Rightarrow> pystr) \<Rightarrow> pystr \<Rightarrow> pystr \<Rightarrow> py_exc + pystr" where
  "sarif_fingerprint sha256 rid loc_name =
     bindE (encode_utf8 (rid @ 32 # loc_name)) (\<lambda>b. Inr (sha256 b))"

text \<open>\<open>_URI_PATH_SAFE\<close> and the percent-encoding of the path of the invoice, where \<open>os.sep\<close> is the
  slash.\<close>

definition URI_PATH_SAFE :: pystr where
  "URI_PATH_SAFE = ascii ''ABCDEFGHIJKLMNOPQRSTUVWXYZabcdefghijklmnopqrstuvwxyz0123456789-._~'' @
     ascii ''!$&'' @ [39] @ ascii ''()*+,;='' @ ascii '':@'' @ ascii ''/''"

definition upper_hexdigit :: "nat \<Rightarrow> nat" where
  "upper_hexdigit n = (if n < 10 then 48 + n else 55 + n)"

definition percent_byte :: "8 word \<Rightarrow> pystr" where
  "percent_byte b = [37, upper_hexdigit (unat b div 16), upper_hexdigit (unat b mod 16)]"

definition uri_char :: "nat \<Rightarrow> py_exc + pystr" where
  "uri_char c = (if c \<in> set URI_PATH_SAFE then Inr [c]
     else bindE (encode_utf8 [c]) (\<lambda>bs. Inr (concat (map percent_byte bs))))"

definition sarif_artifact_uri :: "pystr \<Rightarrow> py_exc + pystr" where
  "sarif_artifact_uri source = bindE (mapE uri_char source) (\<lambda>cs. Inr (concat cs))"

definition opt_text :: "pystr \<Rightarrow> text_opt \<Rightarrow> pystr" where
  "opt_text d t = or_else (or_empty t) d"

definition help_text :: "finding_record \<Rightarrow> pystr" where
  "help_text v = (let h = or_empty (r_fix_hint v) in
     if r_terms v = [] then h
     else (let terms_line = ascii ''Business terms: '' @ py_join (ascii '', '') (r_terms v) in
       if h = [] then terms_line else h @ 10 # terms_line))"

definition sarif_descriptor :: "(pystr \<Rightarrow> bool) \<Rightarrow> finding_record \<Rightarrow> json" where
  "sarif_descriptor catalog_ids v = obj ([(''id'', JStr (r_rule v)), (''name'', JStr (r_rule v)),
      (''shortDescription'', obj [(''text'', JStr (opt_text (r_rule v) (r_title v)))]),
      (''fullDescription'', obj [(''text'', JStr (or_empty (r_fix_hint v)))]),
      (''help'', obj [(''text'', JStr (help_text v))])] @
     (if catalog_ids (r_rule v) then [(''helpUri'', JStr (rule_page_url (r_rule v)))] else []))"

text \<open>One descriptor for each rule that fired, at its first finding.\<close>

fun sarif_rules :: "(pystr \<Rightarrow> bool) \<Rightarrow> pystr set \<Rightarrow> finding_record list \<Rightarrow> json list" where
  "sarif_rules catalog_ids seen [] = []"
| "sarif_rules catalog_ids seen (v # vs) =
     (if r_rule v \<noteq> [] \<and> r_rule v \<notin> seen
      then sarif_descriptor catalog_ids v # sarif_rules catalog_ids (insert (r_rule v) seen) vs
      else sarif_rules catalog_ids seen vs)"

definition sarif_physical :: "pystr \<Rightarrow> finding_record \<Rightarrow> (string \<times> json) list" where
  "sarif_physical artifact_uri v = (if artifact_uri = [] then [] else
     [(''physicalLocation'', obj ([(''artifactLocation'', obj [(''uri'', JStr artifact_uri)])] @
       (case positive_line (r_source_line v) of None \<Rightarrow> []
        | Some n \<Rightarrow> [(''region'', obj [(''startLine'', JInt (int n))])])))])"

definition sarif_location :: "pystr \<Rightarrow> finding_record \<Rightarrow> pystr \<Rightarrow> json" where
  "sarif_location artifact_uri v loc_name = obj
     ([(''logicalLocations'', JArr [obj [(''name'', JStr loc_name), (''kind'', JStr (ascii ''member''))]])] @
      sarif_physical artifact_uri v)"

definition sarif_result ::
    "(bytes \<Rightarrow> pystr) \<Rightarrow> pystr \<Rightarrow> finding_record \<Rightarrow> py_exc + json" where
  "sarif_result sha256 artifact_uri v =
     (let loc_name = or_else (r_field v) (or_empty (r_location v)) in
      bindE (sarif_fingerprint sha256 (r_rule v) loc_name) (\<lambda>fp. Inr (obj
        ([(''ruleId'', JStr (r_rule v)),
          (''level'', JStr (sarif_level (or_else (r_severity v) (ascii ''fatal'')))),
          (''message'', obj [(''text'', JStr (annotated_message v))]),
          (''partialFingerprints'', obj [(''einvoice/v1'', JStr fp)])] @
         (if loc_name = [] then [] else [(''locations'', JArr [sarif_location artifact_uri v loc_name])])))))"

definition sarif_error :: "(bytes \<Rightarrow> pystr) \<Rightarrow> pystr \<Rightarrow> pystr \<Rightarrow> py_exc + json" where
  "sarif_error sha256 code message =
     bindE (sarif_fingerprint sha256 code []) (\<lambda>fp. Inr (obj
       [(''ruleId'', JStr code), (''level'', JStr (ascii ''error'')),
        (''message'', obj [(''text'', JStr (or_else message code))]),
        (''partialFingerprints'', obj [(''einvoice/v1'', JStr fp)])]))"

definition sarif_results :: "(bytes \<Rightarrow> pystr) \<Rightarrow> pystr \<Rightarrow> report \<Rightarrow> py_exc + json list" where
  "sarif_results sha256 artifact_uri rp = (case rp_error rp of
     Some (code, message) \<Rightarrow> bindE (sarif_error sha256 code message) (\<lambda>j. Inr [j])
   | None \<Rightarrow> mapE (sarif_result sha256 artifact_uri) (rp_violations rp))"

definition build_sarif ::
    "(bytes \<Rightarrow> pystr) \<Rightarrow> (pystr \<Rightarrow> bool) \<Rightarrow> report \<Rightarrow> py_exc + json" where
  "build_sarif sha256 catalog_ids rp =
     bindE (sarif_artifact_uri (rp_source rp)) (\<lambda>artifact_uri.
     bindE (sarif_results sha256 artifact_uri rp) (\<lambda>results.
     Inr (obj [(''version'', JStr (ascii ''2.1.0'')), (''$schema'', JStr SARIF_SCHEMA_URI),
       (''runs'', JArr [obj [
          (''tool'', obj [(''driver'', obj [(''name'', JStr (ascii ''einvoice'')),
             (''informationUri'', JStr SARIF_INFORMATION_URI),
             (''rules'', JArr (if rp_error rp = None then sarif_rules catalog_ids {} (rp_violations rp) else []))])]),
          (''results'', JArr results)]])])))"

section \<open>GitLab\<close>

definition gitlab_severity :: "pystr \<Rightarrow> pystr" where
  "gitlab_severity severity =
     (if severity = ascii ''fatal'' \<or> severity = ascii ''error'' then ascii ''major''
      else if severity = ascii ''warning'' then ascii ''minor'' else ascii ''info'')"

definition gitlab_fingerprint ::
    "(bytes \<Rightarrow> pystr) \<Rightarrow> pystr \<Rightarrow> pystr \<Rightarrow> nat option \<Rightarrow> py_exc + pystr" where
  "gitlab_fingerprint sha256 check_name path l =
     bindE (encode_utf8 (py_join [0] [check_name, path, case l of None \<Rightarrow> [] | Some n \<Rightarrow> decimal_text n]))
       (\<lambda>b. Inr (sha256 b))"

definition gitlab_issue :: "(bytes \<Rightarrow> pystr) \<Rightarrow> pystr \<Rightarrow> finding_record \<Rightarrow> py_exc + json" where
  "gitlab_issue sha256 source v =
     (let path = annotated_path source v in
      bindE (gitlab_fingerprint sha256 (r_rule v) path (r_source_line v)) (\<lambda>fp. Inr (obj
        [(''description'', JStr (annotated_message v)), (''check_name'', JStr (r_rule v)),
         (''fingerprint'', JStr fp),
         (''severity'', JStr (gitlab_severity (or_else (r_severity v) (ascii ''fatal'')))),
         (''location'', obj ([(''path'', JStr path)] @ (case r_source_line v of None \<Rightarrow> []
            | Some n \<Rightarrow> [(''lines'', obj [(''begin'', JInt (int n))])])))])))"

definition is_conformance_issue :: "finding_record \<Rightarrow> bool" where
  "is_conformance_issue v \<longleftrightarrow> or_else (r_severity v) (ascii ''fatal'') \<noteq> ascii ''information''"

definition gitlab_error :: "(bytes \<Rightarrow> pystr) \<Rightarrow> pystr \<Rightarrow> pystr \<Rightarrow> pystr \<Rightarrow> py_exc + json" where
  "gitlab_error sha256 source code message =
     bindE (gitlab_fingerprint sha256 code source None) (\<lambda>fp. Inr (obj
       [(''description'', JStr (or_else message code)), (''check_name'', JStr code),
        (''fingerprint'', JStr fp), (''severity'', JStr (gitlab_severity (ascii ''error''))),
        (''location'', obj [(''path'', JStr source)])]))"

definition build_gitlab :: "(bytes \<Rightarrow> pystr) \<Rightarrow> report \<Rightarrow> py_exc + json list" where
  "build_gitlab sha256 rp = (case rp_error rp of
     Some (code, message) \<Rightarrow> bindE (gitlab_error sha256 (rp_source rp) code message) (\<lambda>j. Inr [j])
   | None \<Rightarrow> mapE (gitlab_issue sha256 (rp_source rp)) (filter is_conformance_issue (rp_violations rp)))"

section \<open>Explaining a rule\<close>

text \<open>An entry of the catalog with the fields that \<open>format_explain\<close> prints; a key that is missing
  and one that is \<open>null\<close> are both \<open>None\<close>, which the code tells apart only for the title.\<close>

record explain_entry =
  x_title :: text_opt
  x_requires :: text_opt
  x_bt_bg :: "pystr list"
  x_location_hint :: text_opt
  x_fix :: text_opt
  x_severity :: text_opt
  x_prov_source :: text_opt
  x_prov_assert :: text_opt
  x_title_de :: text_opt
  x_fix_de :: text_opt
  x_message_de :: text_opt
  x_de_source :: text_opt

definition GERMAN_PROVENANCE :: "text_opt \<Rightarrow> pystr option" where
  "GERMAN_PROVENANCE source = (case source of
     None \<Rightarrow> Some (ascii ''no German in the catalog for this rule '' @ 8212 # ascii '' shown in English'')
   | Some s \<Rightarrow> if s = ascii ''kosit''
       then Some (ascii ''title/requires = official KoSIT XRechnung <sch:assert> text (verbatim); fix = project translation'')
     else if s = ascii ''translation''
       then Some (ascii ''project-authored translation of the English wording; no official German text exists for this rule, so '' @
         39 # ascii ''requires'' @ 39 # ascii '' stays English'')
     else None)"

text \<open>The canonical identifier: the one given, or the first of the catalog that is equal to it in
  upper case.\<close>

definition find_entry :: "(pystr \<times> explain_entry) list \<Rightarrow> pystr \<Rightarrow> (pystr \<times> explain_entry) option" where
  "find_entry catalog rid = (case map_of catalog rid of
     Some e \<Rightarrow> Some (rid, e)
   | None \<Rightarrow> first (filter (\<lambda>(k, e). py_upper k = py_upper rid) catalog))"

definition german_line :: "(pystr \<Rightarrow> pystr) \<Rightarrow> string \<Rightarrow> explain_entry \<Rightarrow> pystr option" where
  "german_line repr lang e = (if lang \<noteq> ''de'' then None
     else (case GERMAN_PROVENANCE (x_de_source e) of Some t \<Rightarrow> Some t
       | None \<Rightarrow> Some (ascii ''de_source '' @ repr (or_empty (x_de_source e)) @ 32 # 8212 #
           ascii '' provenance not recognised'')))"

definition entry_message_de :: "(pystr \<times> explain_entry) list \<Rightarrow> pystr \<Rightarrow> text_opt" where
  "entry_message_de catalog rid = (case map_of catalog rid of None \<Rightarrow> None | Some e \<Rightarrow> x_message_de e)"

definition explain_lines ::
    "(pystr \<Rightarrow> pystr) \<Rightarrow> (pystr \<times> explain_entry) list \<Rightarrow> string \<Rightarrow> pystr \<Rightarrow> explain_entry \<Rightarrow> pystr list" where
  "explain_lines repr catalog lang canonical e =
     (let de = (lang = ''de'');
          requires = opt_text (ascii ''(not stated)'') (x_requires e);
          title = or_empty (x_title e);
          fixed = opt_text (ascii ''(none given)'') (x_fix e)
      in [canonical @ ascii ''  '' @ (if de then opt_text title (x_title_de e) else title),
          [],
          ascii ''  requires : '' @ (if de then resolve_message (entry_message_de catalog) canonical requires lang
            else requires),
          ascii ''  BT/BG    : '' @ (if x_bt_bg e = [] then ascii ''(none)'' else py_join (ascii '', '') (x_bt_bg e)),
          ascii ''  location : '' @ opt_text (ascii ''(unspecified)'') (x_location_hint e),
          ascii ''  fix      : '' @ (if de then opt_text fixed (x_fix_de e) else fixed),
          ascii ''  severity : '' @ opt_text (ascii ''(unspecified)'') (x_severity e),
          ascii ''  source   : '' @ opt_text (ascii ''(unknown)'') (x_prov_source e) @ ascii '' (Schematron)''] @
         (case german_line repr lang e of None \<Rightarrow> [] | Some t \<Rightarrow> [ascii ''  german   : '' @ t]) @
         (if falsy (x_prov_assert e) then [] else [ascii ''  assert   : '' @ or_empty (x_prov_assert e)]) @
         [ascii ''  rule page: '' @ rule_page_url canonical] @
         (if \<not> de \<and> x_de_source e \<noteq> None \<and> (\<not> falsy (x_title_de e) \<or> \<not> falsy (x_fix_de e))
          then [ascii ''  in German: einvoice --explain '' @ canonical @ ascii '' --lang=de''] else []))"

definition format_explain ::
    "(pystr \<Rightarrow> pystr) \<Rightarrow> (pystr \<times> explain_entry) list \<Rightarrow> string \<Rightarrow> pystr \<Rightarrow> pystr option" where
  "format_explain repr catalog lang rid = (case find_entry catalog rid of
     None \<Rightarrow> None
   | Some (canonical, e) \<Rightarrow> Some (py_join [10] (explain_lines repr catalog lang canonical e) @ [10]))"

end
