(* ===== verification/EI_Escape.thy ===== *)
theory EI_Escape
  imports EI_Sarif
begin

text \<open>
  The escapes of the report formats are codes of single characters that a reader takes back.
  The locale \<open>escaping\<close> states what a code owes its reader; its interpretations are the escapes
  of GitHub, Azure, XML text, XML attributes and URIs.  The readers of annotations and of
  attributes follow the documentation of the formats.
\<close>

section \<open>The interface\<close>

locale escaping =
  fixes code :: "nat \<Rightarrow> pystr" and decode :: "pystr \<Rightarrow> pystr" and forbidden :: "nat set"
  assumes decode_Nil: "decode [] = []"
    and decode_code: "decode (code c @ s) = c # decode s"
    and clean: "set (code c) \<inter> forbidden = {}"
begin

lemma decode_encode: "decode (concat (map code s)) = s"
  by (induction s) (simp_all add: decode_Nil decode_code)

lemma encode_inject: "concat (map code s) = concat (map code t) \<longleftrightarrow> s = t"
  by (metis decode_encode)

lemma encode_clean: "x \<in> forbidden \<Longrightarrow> x \<notin> set (concat (map code s))"
  using clean by auto

end

section \<open>The codes\<close>

definition github_data_char :: "nat \<Rightarrow> pystr" where
  "github_data_char c = (if c = 37 then ascii ''%25'' else if c = 13 then ascii ''%0D''
     else if c = 10 then ascii ''%0A'' else [c])"

definition github_property_char :: "nat \<Rightarrow> pystr" where
  "github_property_char c = (if c = 44 then ascii ''%2C'' else if c = 58 then ascii ''%3A'' else github_data_char c)"

definition azure_data_char :: "nat \<Rightarrow> pystr" where
  "azure_data_char c = (if c = 37 then ascii ''%AZP25'' else if c = 13 then ascii ''%0D''
     else if c = 10 then ascii ''%0A'' else [c])"

definition azure_property_char :: "nat \<Rightarrow> pystr" where
  "azure_property_char c = (if c = 59 then ascii ''%3B'' else if c = 93 then ascii ''%5D'' else azure_data_char c)"

definition xml_char :: "nat \<Rightarrow> pystr" where
  "xml_char c = (if c = 38 then ascii ''&amp;'' else if c = 62 then ascii ''&gt;''
     else if c = 60 then ascii ''&lt;'' else [c])"

definition attr_char :: "nat \<Rightarrow> pystr" where
  "attr_char c = (if c = 10 then ascii ''&#10;'' else if c = 13 then ascii ''&#13;''
     else if c = 9 then ascii ''&#9;'' else xml_char c)"

definition quot_char :: "nat \<Rightarrow> pystr" where
  "quot_char c = (if c = 34 then ascii ''&quot;'' else attr_char c)"

lemmas char_defs = github_data_char_def github_property_char_def azure_data_char_def
  azure_property_char_def xml_char_def attr_char_def quot_char_def ascii_def

text \<open>Replacing one character after the other is one code, since no replacement writes a
  character that a later one replaces.\<close>

lemma concat_map_concat: "concat (map f (concat (map g s))) = concat (map (\<lambda>x. concat (map f (g x))) s)"
  by (induction s) auto

lemma concat_map_eqI: "(\<And>c. f c = g c) \<Longrightarrow> concat (map f s) = concat (map g s)"
  by (simp cong: map_cong)

lemmas replace_defs = github_escape_data_def github_escape_property_def azure_escape_data_def
  azure_escape_property_def xml_escape_def replace_char_def concat_map_concat

lemma escape_codes:
  "github_escape_data s = concat (map github_data_char s)"
  "github_escape_property s = concat (map github_property_char s)"
  "azure_escape_data s = concat (map azure_data_char s)"
  "azure_escape_property s = concat (map azure_property_char s)"
  "xml_escape s = concat (map xml_char s)"
  unfolding replace_defs by (rule concat_map_eqI, simp add: char_defs)+

section \<open>The readers\<close>

definition hex_pair :: "nat \<Rightarrow> nat \<Rightarrow> nat" where
  "hex_pair a b = 16 * (case hexval a of None \<Rightarrow> 0 | Some x \<Rightarrow> x) + (case hexval b of None \<Rightarrow> 0 | Some y \<Rightarrow> y)"

fun unpercent :: "pystr \<Rightarrow> pystr" where
  "unpercent [] = []"
| "unpercent (c # s) = (if c \<noteq> 37 then c # unpercent s
     else case s of a # b # r \<Rightarrow> hex_pair a b # unpercent r | _ \<Rightarrow> c # s)"

function unazure :: "pystr \<Rightarrow> pystr" where
  "unazure [] = []"
| "unazure (c # s) = (if c \<noteq> 37 then c # unazure s
     else if starts_with (ascii ''AZP25'') s then 37 # unazure (drop 5 s)
     else case s of a # b # r \<Rightarrow> hex_pair a b # unazure r | _ \<Rightarrow> c # s)"
  by pat_completeness auto
termination
  by (relation "measure length") auto

definition entity_char :: "pystr \<Rightarrow> nat" where
  "entity_char n = (if n = ascii ''amp'' then 38 else if n = ascii ''lt'' then 60
     else if n = ascii ''gt'' then 62 else if n = ascii ''quot'' then 34
     else if n = ascii ''#9'' then 9 else if n = ascii ''#10'' then 10 else 13)"

function unentity :: "pystr \<Rightarrow> pystr" where
  "unentity [] = []"
| "unentity (c # s) = (if c \<noteq> 38 then c # unentity s
     else entity_char (takeWhile (\<lambda>x. x \<noteq> 59) s) # unentity (tl (dropWhile (\<lambda>x. x \<noteq> 59) s)))"
  by pat_completeness auto
termination
  by (relation "measure length") (auto simp: less_Suc_eq_le intro: le_trans [OF diff_le_self length_dropWhile_le])

lemmas decode_eval = char_defs hex_pair_def hexval_def entity_char_def

interpretation gh_data: escaping github_data_char unpercent "{10, 13}"
  by unfold_locales (auto simp: decode_eval)

interpretation gh_property: escaping github_property_char unpercent "{10, 13, 44, 58}"
  by unfold_locales (auto simp: decode_eval)

interpretation az_data: escaping azure_data_char unazure "{10, 13}"
  by unfold_locales (auto simp: decode_eval)

interpretation az_property: escaping azure_property_char unazure "{10, 13, 59, 93}"
  by unfold_locales (auto simp: decode_eval)

interpretation xml_text: escaping xml_char unentity "{60}"
  by unfold_locales (auto simp: decode_eval)

interpretation xml_attr: escaping attr_char unentity "{9, 10, 13, 60}"
  by unfold_locales (auto simp: decode_eval)

interpretation xml_quot: escaping quot_char unentity "{9, 10, 13, 34, 60}"
  by unfold_locales (auto simp: decode_eval)

end
