(* ===== verification/EI_Annotations.thy ===== *)
theory EI_Annotations
  imports EI_Escape
begin

text \<open>
  What a reader of the report formats gets back: the annotations that a GitHub or Azure runner
  reads from the output, the attributes of JUnit, and the path in a SARIF document.
\<close>

section \<open>Lines and separators\<close>

lemma split_on_clean [simp]: "c \<notin> set s \<Longrightarrow> split_on c s = [s]"
  by (induction s) auto

lemma split_on_append: "c \<notin> set a \<Longrightarrow> split_on c (a @ c # s) = a # split_on c s"
  by (induction a) auto

lemma split_on_join:
  "ws \<noteq> [] \<Longrightarrow> (\<And>w. w \<in> set ws \<Longrightarrow> c \<notin> set w) \<Longrightarrow> split_on c (py_join [c] ws) = ws"
  by (induction ws rule: induct_list012) (simp_all add: split_on_append)

lemma split_on_lines:
  "(\<And>l. l \<in> set ls \<Longrightarrow> c \<notin> set l) \<Longrightarrow> split_on c (concat (map (\<lambda>l. l @ [c]) ls)) = ls @ [[]]"
  by (induction ls) (simp_all add: split_on_append)

definition output_lines :: "pystr \<Rightarrow> pystr list" where
  "output_lines s = butlast (split_on 10 s)"

lemma output_lines_eq:
  "(\<And>l. l \<in> set ls \<Longrightarrow> 10 \<notin> set l) \<Longrightarrow> output_lines (concat (map (\<lambda>l. l @ [10]) ls)) = ls"
  by (simp add: output_lines_def split_on_lines)

lemma digits_of_decimal: "x \<in> set (decimal_text n) \<Longrightarrow> 48 \<le> x \<and> x \<le> 57"
proof (induction n rule: decimal_text.induct)
  case (1 n)
  show ?case
  proof (cases "n < 10")
    case True
    with 1(2) show ?thesis by (simp add: decimal_text.simps [of n] digit_char_def)
  next
    case False
    with 1 show ?thesis
      by (auto simp: decimal_text.simps [of n] digit_char_def)
  qed
qed

lemma decimal_clean: "x < 48 \<or> 57 < x \<Longrightarrow> x \<notin> set (decimal_text n)"
  using digits_of_decimal by fastforce

section \<open>GitHub\<close>

text \<open>A command as the runner takes it apart: the level, the properties, the message.\<close>

type_synonym annotation = "pystr \<times> (pystr \<times> pystr) list \<times> pystr"

fun break_colons :: "pystr \<Rightarrow> (pystr \<times> pystr) option" where
  "break_colons [] = None"
| "break_colons (c # s) = (if starts_with [58, 58] (c # s) then Some ([], tl s)
     else map_option (\<lambda>(a, b). (c # a, b)) (break_colons s))"

definition read_property :: "(pystr \<Rightarrow> pystr) \<Rightarrow> pystr \<Rightarrow> pystr \<times> pystr" where
  "read_property decode p = (let (k, v) = split1 61 p in (k, decode (or_empty v)))"

definition read_github :: "pystr \<Rightarrow> annotation option" where
  "read_github l = (if \<not> starts_with [58, 58] l then None
     else case break_colons (drop 2 l) of None \<Rightarrow> None
       | Some (head, message) \<Rightarrow> (let (level, props) = split1 32 head in
           Some (level, map (read_property unpercent) (split_on 44 (or_empty props)), unpercent message)))"

lemma break_colons_append: "58 \<notin> set a \<Longrightarrow> break_colons (a @ 58 # 58 # s) = Some (a, s)"
  by (induction a) auto

lemma read_property_eq: "61 \<notin> set k \<Longrightarrow> read_property decode (k @ 61 # v) = (k, decode v)"
  by (simp add: read_property_def split1_append)

lemma read_github_command:
  assumes "32 \<notin> set level" "58 \<notin> set level" "ps \<noteq> []"
    and "\<And>p. p \<in> set ps \<Longrightarrow> 44 \<notin> set p \<and> 58 \<notin> set p"
  shows "read_github (ascii ''::'' @ level @ 32 # py_join [44] ps @ ascii ''::'' @ m) =
    Some (level, map (read_property unpercent) ps, unpercent m)"
proof -
  have join: "x \<noteq> 44 \<Longrightarrow> (\<And>p. p \<in> set qs \<Longrightarrow> x \<notin> set p) \<Longrightarrow> x \<notin> set (py_join [44] qs)" for x qs
    by (induction qs rule: induct_list012) auto
  have "58 \<notin> set (py_join [44] ps)" by (rule join) (use assms(4) in auto)
  then have "break_colons ((level @ 32 # py_join [44] ps) @ 58 # 58 # m) = Some (level @ 32 # py_join [44] ps, m)"
    by (intro break_colons_append) (use assms(2) in auto)
  moreover have "split1 32 (level @ 32 # py_join [44] ps) = (level, Some (py_join [44] ps))"
    by (rule split1_append) (rule assms(1))
  moreover have "split_on 44 (py_join [44] ps) = ps"
    by (rule split_on_join) (use assms(3,4) in auto)
  ultimately show ?thesis
    by (simp add: read_github_def ascii_def)
qed

section \<open>Azure\<close>

definition read_azure :: "pystr \<Rightarrow> ((pystr \<times> pystr) list \<times> pystr) option" where
  "read_azure l = (let p = ascii ''##vso[task.logissue '' in
     if \<not> starts_with p l then None
     else (let rest = drop (length p) l; props = takeWhile (\<lambda>c. c \<noteq> 93) rest in
       Some (map (read_property unazure) (split_on 59 props), unazure (drop (length props + 1) rest))))"

lemma starts_with_append [simp]: "starts_with p (p @ s)"
  by (simp add: starts_with_iff)

lemma read_azure_command:
  assumes "ps \<noteq> []" and "\<And>p. p \<in> set ps \<Longrightarrow> 59 \<notin> set p \<and> 93 \<notin> set p"
  shows "read_azure (azure_command ps m) = Some (map (read_property unazure) ps, m)"
proof -
  have join: "x \<noteq> 59 \<Longrightarrow> (\<And>p. p \<in> set qs \<Longrightarrow> x \<notin> set p) \<Longrightarrow> x \<notin> set (py_join [59] qs)" for x qs
    by (induction qs rule: induct_list012) auto
  have "93 \<notin> set (py_join [59] ps)" by (rule join) (use assms(2) in auto)
  then have "takeWhile (\<lambda>c. c \<noteq> 93) (py_join [59] ps @ 93 # azure_escape_data m) = py_join [59] ps"
    by (induction "py_join [59] ps") (auto simp: takeWhile_append)
  moreover have "split_on 59 (py_join [59] ps) = ps"
    by (rule split_on_join) (use assms in auto)
  moreover have "unazure (azure_escape_data m) = m"
    by (simp add: escape_codes az_data.decode_encode)
  ultimately show ?thesis
    by (simp add: read_azure_def azure_command_def Let_def)
qed

section \<open>What the runners read\<close>

text \<open>The annotations of a report: what the runner should read, field by field.\<close>

definition line_property :: "string \<Rightarrow> nat option \<Rightarrow> (pystr \<times> pystr) list" where
  "line_property key l = (case l of None \<Rightarrow> [] | Some n \<Rightarrow> [(ascii key, decimal_text n)])"

definition level_of :: "finding_record \<Rightarrow> pystr" where
  "level_of v = (if or_else (r_severity v) (ascii ''fatal'') = ascii ''fatal'' then ascii ''error'' else ascii ''warning'')"

definition github_annotation :: "pystr \<Rightarrow> finding_record \<Rightarrow> annotation" where
  "github_annotation source v = (level_of v, [(ascii ''file'', annotated_path source v)] @
     line_property ''line'' (r_source_line v) @ [(ascii ''title'', r_rule v)], annotated_message v)"

definition azure_annotation :: "pystr \<Rightarrow> finding_record \<Rightarrow> (pystr \<times> pystr) list \<times> pystr" where
  "azure_annotation source v = ([(ascii ''type'', level_of v), (ascii ''sourcepath'', annotated_path source v)] @
     line_property ''linenumber'' (r_source_line v) @ [(ascii ''code'', r_rule v)], annotated_message v)"

definition github_annotations :: "report \<Rightarrow> annotation list" where
  "github_annotations rp = (case rp_error rp of
     Some (code, m) \<Rightarrow> [(ascii ''error'', [(ascii ''file'', rp_source rp), (ascii ''title'', code)], or_else m code)]
   | None \<Rightarrow> map (github_annotation (rp_source rp)) (rp_violations rp))"

definition azure_annotations :: "report \<Rightarrow> ((pystr \<times> pystr) list \<times> pystr) list" where
  "azure_annotations rp = (case rp_error rp of
     Some (code, m) \<Rightarrow> [([(ascii ''type'', ascii ''error''), (ascii ''sourcepath'', rp_source rp),
       (ascii ''code'', code)], or_else m code)]
   | None \<Rightarrow> map (azure_annotation (rp_source rp)) (rp_violations rp))"

lemma github_property_clean:
  "x \<in> {10, 13, 44, 58} \<Longrightarrow> x \<notin> set (github_escape_property s)"
  unfolding escape_codes by (rule gh_property.encode_clean)

lemma azure_property_clean:
  "x \<in> {10, 13, 59, 93} \<Longrightarrow> x \<notin> set (azure_escape_property s)"
  unfolding escape_codes by (rule az_property.encode_clean)

lemma data_clean:
  "x \<in> {10, 13} \<Longrightarrow> x \<notin> set (github_escape_data s)"
  "x \<in> {10, 13} \<Longrightarrow> x \<notin> set (azure_escape_data s)"
  unfolding escape_codes by (rule gh_data.encode_clean, assumption) (rule az_data.encode_clean, assumption)

lemma decoded [simp]:
  "unpercent (github_escape_property s) = s" "unpercent (github_escape_data s) = s"
  "unazure (azure_escape_property s) = s" "unazure (azure_escape_data s) = s"
  by (simp_all add: escape_codes gh_property.decode_encode gh_data.decode_encode
      az_property.decode_encode az_data.decode_encode)

lemma undecoded:
  "37 \<notin> set s \<Longrightarrow> unpercent s = s" "37 \<notin> set s \<Longrightarrow> unazure s = s"
  by (induction s) auto

lemma decimal_decoded [simp]: "unpercent (decimal_text n) = decimal_text n" "unazure (decimal_text n) = decimal_text n"
  by (simp_all add: undecoded decimal_clean)

lemma read_github_line:
  "read_github (github_line source v) = Some (github_annotation source v)"
proof -
  have level: "32 \<notin> set (github_level x)" "58 \<notin> set (github_level x)" for x
    by (auto simp: github_level_def ascii_def)
  have props: "p \<in> set ps \<Longrightarrow> 44 \<notin> set p \<and> 58 \<notin> set p"
    if "ps = [ascii ''file='' @ github_escape_property a] @
        (case r_source_line v of None \<Rightarrow> [] | Some n \<Rightarrow> [ascii ''line='' @ decimal_text n]) @
        [ascii ''title='' @ github_escape_property b]" for ps p a b
    using that by (auto simp: ascii_def decimal_clean github_property_clean split: option.splits)
  have read: "map (read_property unpercent) ([ascii ''file='' @ github_escape_property a] @
        (case r_source_line v of None \<Rightarrow> [] | Some n \<Rightarrow> [ascii ''line='' @ decimal_text n]) @
        [ascii ''title='' @ github_escape_property b]) =
      [(ascii ''file'', a)] @ line_property ''line'' (r_source_line v) @ [(ascii ''title'', b)]" for a b
    by (auto simp: ascii_def line_property_def read_property_def split: option.splits)
  show ?thesis
    unfolding github_line_def Let_def
    by (subst read_github_command [OF level])
      (simp, erule props [OF refl], simp only: read decoded github_annotation_def level_of_def github_level_def)
qed

lemma read_azure_line:
  "read_azure (azure_line source v) = Some (azure_annotation source v)"
proof -
  have props: "p \<in> set ps \<Longrightarrow> 59 \<notin> set p \<and> 93 \<notin> set p"
    if "ps = [ascii ''type='' @ azure_level l, ascii ''sourcepath='' @ azure_escape_property a] @
        (case r_source_line v of None \<Rightarrow> [] | Some n \<Rightarrow> [ascii ''linenumber='' @ decimal_text n]) @
        [ascii ''code='' @ azure_escape_property b]" for ps p a b l
    using that by (auto simp: ascii_def azure_level_def decimal_clean azure_property_clean split: option.splits if_splits)
  have read: "map (read_property unazure) ([ascii ''type='' @ azure_level l, ascii ''sourcepath='' @ azure_escape_property a] @
        (case r_source_line v of None \<Rightarrow> [] | Some n \<Rightarrow> [ascii ''linenumber='' @ decimal_text n]) @
        [ascii ''code='' @ azure_escape_property b]) =
      [(ascii ''type'', azure_level l), (ascii ''sourcepath'', a)] @ line_property ''linenumber'' (r_source_line v) @
      [(ascii ''code'', b)]" for a b l
    by (auto simp: ascii_def line_property_def read_property_def azure_level_def split: option.splits)
  show ?thesis
    unfolding azure_line_def Let_def
    by (subst read_azure_command)
      (simp, erule props [OF refl], simp only: read, simp add: azure_annotation_def level_of_def azure_level_def)
qed

lemma read_github_lines:
  assumes "rp_error rp \<noteq> None \<or> rp_violations rp \<noteq> []"
  shows "map read_github (github_lines rp) = map Some (github_annotations rp)"
proof (cases "rp_error rp")
  case None
  with assms show ?thesis
    by (simp add: github_lines_def github_annotations_def read_github_line)
next
  case (Some e)
  obtain code m where e: "e = (code, m)" by fastforce
  have "read_github (ascii ''::'' @ ascii ''error'' @ 32 # py_join [44] [ascii ''file='' @ github_escape_property a,
      ascii ''title='' @ github_escape_property code] @ ascii ''::'' @ github_escape_data b) =
    Some (ascii ''error'', [(ascii ''file'', a), (ascii ''title'', code)], b)" for a b
    by (subst read_github_command) (auto simp: ascii_def github_property_clean read_property_def)
  then show ?thesis
    by (simp add: Some e github_lines_def github_annotations_def ascii_def)
qed

lemma read_azure_lines:
  assumes "rp_error rp \<noteq> None \<or> rp_violations rp \<noteq> []"
  shows "map read_azure (azure_lines rp) = map Some (azure_annotations rp)"
proof (cases "rp_error rp")
  case None
  with assms show ?thesis
    by (simp add: azure_lines_def azure_annotations_def read_azure_line)
next
  case (Some e)
  obtain code m where e: "e = (code, m)" by fastforce
  have "read_azure (azure_command [ascii ''type=error'', ascii ''sourcepath='' @ azure_escape_property a,
      ascii ''code='' @ azure_escape_property code] b) =
    Some ([(ascii ''type'', ascii ''error''), (ascii ''sourcepath'', a), (ascii ''code'', code)], b)" for a b
    by (subst read_azure_command) (auto simp: ascii_def azure_property_clean read_property_def)
  then show ?thesis
    by (simp add: Some e azure_lines_def azure_annotations_def)
qed

lemma join_clean: "x \<noteq> c \<Longrightarrow> (\<And>p. p \<in> set ps \<Longrightarrow> x \<notin> set p) \<Longrightarrow> x \<notin> set (py_join [c] ps)"
  by (induction ps rule: induct_list012) auto

lemma github_lines_clean:
  assumes "rp_error rp \<noteq> None \<or> rp_violations rp \<noteq> []" and "l \<in> set (github_lines rp)"
  shows "10 \<notin> set l"
proof (cases "rp_error rp")
  case None
  with assms obtain v where "l = github_line (rp_source rp) v"
    by (auto simp: github_lines_def)
  moreover have "10 \<notin> set (py_join [44] ([ascii ''file='' @ github_escape_property a] @
        (case r_source_line v of None \<Rightarrow> [] | Some n \<Rightarrow> [ascii ''line='' @ decimal_text n]) @
        [ascii ''title='' @ github_escape_property b]))" for a b
    by (rule join_clean) (auto simp: ascii_def decimal_clean github_property_clean split: option.splits)
  ultimately show ?thesis
    by (auto simp: github_line_def Let_def data_clean github_level_def ascii_def)
next
  case (Some e)
  with assms(2) show ?thesis
    by (auto simp: github_lines_def ascii_def github_property_clean data_clean split: prod.splits)
qed

lemma azure_lines_clean:
  assumes "rp_error rp \<noteq> None \<or> rp_violations rp \<noteq> []" and "l \<in> set (azure_lines rp)"
  shows "10 \<notin> set l"
proof (cases "rp_error rp")
  case None
  with assms obtain v where "l = azure_line (rp_source rp) v"
    by (auto simp: azure_lines_def)
  moreover have "10 \<notin> set (py_join [59] ([ascii ''type='' @ azure_level l, ascii ''sourcepath='' @ azure_escape_property a] @
        (case r_source_line v of None \<Rightarrow> [] | Some n \<Rightarrow> [ascii ''linenumber='' @ decimal_text n]) @
        [ascii ''code='' @ azure_escape_property b]))" for a b l
    by (rule join_clean) (auto simp: ascii_def azure_level_def decimal_clean azure_property_clean
        split: option.splits if_splits)
  ultimately show ?thesis
    by (auto simp: azure_line_def azure_command_def data_clean ascii_def)
next
  case (Some e)
  with assms(2) show ?thesis
    by (auto simp: azure_lines_def azure_command_def ascii_def azure_property_clean data_clean split: prod.splits)
qed

text \<open>C6: Whatever characters the path, the rule identifier and the message have, a runner that
  splits the output into lines reads back exactly one annotation for each finding (or one for a
  file that does not parse), with the level, path, line, rule and message of the finding, from the
  GitHub output and from the Azure output.\<close>
theorem annotations_read_back:
  assumes "rp_error rp \<noteq> None \<or> rp_violations rp \<noteq> []"
  shows "map read_github (output_lines (build_github rp)) = map Some (github_annotations rp) \<and>
    map read_azure (output_lines (build_azure rp)) = map Some (azure_annotations rp)"
proof -
  have "output_lines (build_github rp) = github_lines rp"
    unfolding build_github_def by (rule output_lines_eq) (rule github_lines_clean [OF assms])
  moreover have "output_lines (build_azure rp) = azure_lines rp"
    unfolding build_azure_def by (rule output_lines_eq) (rule azure_lines_clean [OF assms])
  ultimately show ?thesis
    using read_github_lines [OF assms] read_azure_lines [OF assms] by simp
qed

definition sample_record :: finding_record where
  "sample_record = \<lparr> r_rule = ascii ''BR-01'', r_severity = ascii ''fatal'', r_message = ascii ''50% a:b, c'' @ [10],
     r_field = [], r_title = None, r_fix_hint = None, r_terms = [], r_location = None, r_element = [],
     r_source_line = Some 7, r_insertion_point_line = None \<rparr>"

definition sample_report :: "finding_record list \<Rightarrow> pystr \<Rightarrow> report" where
  "sample_report vs source = \<lparr> rp_source = source, rp_profile = ''en16931'', rp_valid = (vs = []), rp_error = None,
     rp_fatal_count = length vs, rp_warning_count = 0, rp_violations = vs, rp_bindings = None \<rparr>"

theorem annotations_read_back_witness:
  "map read_github (output_lines (build_github (sample_report [sample_record] (ascii ''a,b.xml'')))) =
    [Some (ascii ''error'', [(ascii ''file'', ascii ''a,b.xml''), (ascii ''line'', ascii ''7''),
      (ascii ''title'', ascii ''BR-01'')], ascii ''50% a:b, c'' @ [10])]"
  using annotations_read_back [of "sample_report [sample_record] (ascii ''a,b.xml'')"]
  by (simp add: sample_report_def sample_record_def github_annotations_def github_annotation_def level_of_def
      or_else_def annotated_path_def line_property_def annotated_message_def decimal_text.simps digit_char_def
      ascii_def)

lemma split_on_ne [simp]: "split_on c s \<noteq> []"
  by (induction s) (auto split: list.splits)

lemma split_on_app: "split_on c (a @ c # b) = split_on c a @ split_on c b"
proof (induction a)
  case (Cons x a)
  then show ?case by (cases "split_on c a") simp_all
qed simp

lemma line_between:
  assumes "10 \<notin> set l"
  shows "l \<in> set (output_lines (a @ 10 # l @ 10 # b))"
  using assms by (simp add: output_lines_def split_on_app butlast_append)

lemma github_line_clean: "10 \<notin> set (github_line source v)"
  using github_lines_clean [of "sample_report [v] source" "github_line source v"]
  by (simp add: sample_report_def github_lines_def)

lemma azure_line_clean: "10 \<notin> set (azure_line source v)"
  using azure_lines_clean [of "sample_report [v] source" "azure_line source v"]
  by (simp add: sample_report_def azure_lines_def)

text \<open>Whatever stands between two line feeds in the name is a line of the output.\<close>

lemma comment_line_between:
  assumes "rp_error rp = None" "rp_violations rp = []" "10 \<notin> set l"
  shows "l \<in> set (output_lines (build_github (rp\<lparr> rp_source := a @ 10 # l @ 10 # b \<rparr>)))"
    and "l \<in> set (output_lines (build_azure (rp\<lparr> rp_source := a @ 10 # l @ 10 # b \<rparr>)))"
  using assms line_between [of l "ascii ''# einvoice: '' @ a"]
  by (simp_all add: build_github_def build_azure_def github_lines_def azure_lines_def or_else_def)

text \<open>C18: A file without findings gets a comment line instead, and there the name of the file is not
  escaped.  So for every finding there is a file name with which a conformant file makes a runner
  read that finding, as if it had been reported: the forged command stands between two line feeds
  in the name, whatever comes before and after them.\<close>
theorem comment_line_injects:
  assumes "rp_error rp = None" and "rp_violations rp = []"
  shows "Some (github_annotation source v) \<in> set (map read_github (output_lines
      (build_github (rp\<lparr> rp_source := a @ 10 # github_line source v @ 10 # b \<rparr>)))) \<and>
    Some (azure_annotation source v) \<in> set (map read_azure (output_lines
      (build_azure (rp\<lparr> rp_source := a @ 10 # azure_line source v @ 10 # b \<rparr>))))"
  using comment_line_between(1) [OF assms github_line_clean, of source v a b]
    comment_line_between(2) [OF assms azure_line_clean, of source v a b]
    read_github_line [of source v] read_azure_line [of source v]
  unfolding set_map by (metis image_eqI)

theorem comment_line_injects_witness:
  "Some (github_annotation (ascii ''a.xml'') sample_record) \<in> set (map read_github (output_lines
      (build_github ((sample_report [] [])\<lparr> rp_source :=
        [120] @ 10 # github_line (ascii ''a.xml'') sample_record @ 10 # [] \<rparr>))))"
  using comment_line_injects [of "sample_report [] []" "ascii ''a.xml''" sample_record "[120]" "[]"]
  by (simp add: sample_report_def)

section \<open>JUnit\<close>

text \<open>A start tag is read attribute by attribute: the value between quotes, with its entities.\<close>

definition read_attribute :: "pystr \<Rightarrow> pystr \<times> pystr" where
  "read_attribute s = (let q = hd s; body = takeWhile (\<lambda>c. c \<noteq> q) (tl s) in
     (unentity body, drop (length body + 2) s))"

lemma attr_codes:
  "replace_char 9 (ascii ''&#9;'') (replace_char 13 (ascii ''&#13;'') (replace_char 10 (ascii ''&#10;'') (xml_escape s)))
     = concat (map attr_char s)"
  "replace_char 34 (ascii ''&quot;'') (concat (map attr_char s)) = concat (map quot_char s)"
  unfolding replace_defs by (rule concat_map_eqI, simp add: char_defs)+

lemma read_quoted: "q \<notin> set body \<Longrightarrow> read_attribute ((q # body @ [q]) @ rest) = (unentity body, rest)"
proof -
  assume "q \<notin> set body"
  then have "takeWhile (\<lambda>c. c \<noteq> q) (body @ q # rest) = body"
    by (induction body) auto
  then show ?thesis by (simp add: read_attribute_def)
qed

text \<open>An attribute value of the JUnit document, which the code puts between the quotes that the
  value leaves free, is read back as the value, and what follows it is left; its text has no
  character that XML would normalise or reject there, and element text is read back too.\<close>
theorem junit_values_read_back:
  "read_attribute (quoteattr s @ rest) = (s, rest) \<and> set (quoteattr s) \<inter> {9, 10, 13, 60} = {} \<and>
   unentity (xml_escape s) = s \<and> 60 \<notin> set (xml_escape s)"
proof (intro conjI)
  let ?d = "concat (map attr_char s)" and ?q = "concat (map quot_char s)"
  have q: "quoteattr s = (if 34 \<in> set ?d then if 39 \<in> set ?d then 34 # ?q @ [34] else 39 # ?d @ [39] else 34 # ?d @ [34])"
    unfolding quoteattr_def attr_codes Let_def ..
  have "34 \<notin> set ?q" by (rule xml_quot.encode_clean) simp
  then show "read_attribute (quoteattr s @ rest) = (s, rest)"
    unfolding q using read_quoted [of 34 ?q rest] read_quoted [of 39 ?d rest] read_quoted [of 34 ?d rest]
    by (simp only: xml_attr.decode_encode xml_quot.decode_encode split: if_split) blast
  have "x \<notin> set ?q" "x \<notin> set ?d" if "x \<in> {9, 10, 13, 60}" for x
    using xml_quot.encode_clean [of x s] xml_attr.encode_clean [of x s] that by auto
  then show "set (quoteattr s) \<inter> {9, 10, 13, 60} = {}"
    unfolding q by (auto simp del: set_concat)
  show "unentity (xml_escape s) = s" "60 \<notin> set (xml_escape s)"
    unfolding escape_codes by (rule xml_text.decode_encode, rule xml_text.encode_clean, simp)
qed

section \<open>SARIF\<close>

fun percent_decode :: "pystr \<Rightarrow> bytes" where
  "percent_decode [] = []"
| "percent_decode (c # s) = (if c \<noteq> 37 then octet c # percent_decode s
     else case s of a # b # r \<Rightarrow> octet (hex_pair a b) # percent_decode r | _ \<Rightarrow> [])"

lemma upper_hexval: "n < 16 \<Longrightarrow> hexval (upper_hexdigit n) = Some n"
  by (auto simp: upper_hexdigit_def hexval_def)

lemma decode_percent_byte: "percent_decode (percent_byte b @ s) = b # percent_decode s"
proof -
  have "unat b < 256" using unsigned_less [of b] by simp
  then have "unat b div 16 < 16" by (simp add: less_mult_imp_div_less)
  moreover have "16 * (unat b div 16) + unat b mod 16 = unat b" by simp
  ultimately show ?thesis
    by (simp add: percent_byte_def hex_pair_def upper_hexval)
qed

lemma decode_percent_bytes: "percent_decode (concat (map percent_byte bs) @ s) = bs @ percent_decode s"
  by (induction bs) (simp_all add: decode_percent_byte)

lemma safe_ascii: "c \<in> set URI_PATH_SAFE \<Longrightarrow> c < 128 \<and> c \<noteq> 37"
  by (auto simp: URI_PATH_SAFE_def ascii_def)

lemma artifact_uri_Cons:
  "sarif_artifact_uri (c # s) = bindE (uri_char c) (\<lambda>u. bindE (sarif_artifact_uri s) (\<lambda>r. Inr (u @ r)))"
  by (auto simp: sarif_artifact_uri_def bindE_def split: sum.splits)

lemma uri_char_decodes:
  "case uri_char c of Inl e \<Rightarrow> utf8_char c = None
   | Inr u \<Rightarrow> (\<exists>bs. utf8_char c = Some bs \<and> (\<forall>r. percent_decode (u @ r) = bs @ percent_decode r)) \<and>
       set u \<subseteq> insert 37 (set URI_PATH_SAFE)"
proof (cases "c \<in> set URI_PATH_SAFE")
  case True
  with safe_ascii [OF True] show ?thesis by (simp add: uri_char_def utf8_char_def)
next
  case False
  have digit: "n < 16 \<Longrightarrow> upper_hexdigit n \<in> set URI_PATH_SAFE" for n
  proof -
    assume "n < 16"
    then have "n \<in> set [0..<16]" by simp
    then show ?thesis by (simp add: upt_rec upper_hexdigit_def URI_PATH_SAFE_def ascii_def) (elim disjE; simp)
  qed
  have "set (percent_byte b) \<subseteq> insert 37 (set URI_PATH_SAFE)" for b
  proof -
    have "unat b < 256" using unsigned_less [of b] by simp
    then have "unat b div 16 < 16" by (simp add: less_mult_imp_div_less)
    then show ?thesis by (simp add: percent_byte_def digit)
  qed
  then have "set (concat (map percent_byte bs)) \<subseteq> insert 37 (set URI_PATH_SAFE)" for bs
    by auto
  then show ?thesis
    by (cases "utf8_char c") (use False in \<open>simp_all add: uri_char_def encode_utf8_def decode_percent_bytes\<close>)
qed

lemma artifact_uri_cases:
  "case sarif_artifact_uri source of Inl e \<Rightarrow> utf8_encode source = None
   | Inr u \<Rightarrow> utf8_encode source = Some (percent_decode u) \<and> set u \<subseteq> insert 37 (set URI_PATH_SAFE)"
proof (induction source)
  case Nil
  then show ?case by (simp add: sarif_artifact_uri_def)
next
  case (Cons c s)
  then show ?case
    using uri_char_decodes [of c] by (auto simp: artifact_uri_Cons split: sum.splits)
qed

text \<open>C17: The path in a SARIF document stands for the octets of the file name: percent-decoding
  gives its UTF-8 encoding, every character is legal in the path of a URI, and the conversion
  raises exactly for names that have no UTF-8 encoding.\<close>
theorem artifact_uri_decodes:
  "case sarif_artifact_uri source of Inl e \<Rightarrow> utf8_encode source = None
   | Inr u \<Rightarrow> utf8_encode source = Some (percent_decode u) \<and> set u \<subseteq> insert 37 (set URI_PATH_SAFE)"
  by (rule artifact_uri_cases)

text \<open>Such a name makes the whole SARIF document, and the GitLab document of a file that does not
  parse, raise instead of being written.\<close>
lemma undecodable_name_raises:
  assumes "utf8_encode (rp_source rp) = None"
  shows "(\<exists>e. build_sarif sha256 catalog_ids rp = Inl e) \<and>
    (rp_error rp \<noteq> None \<longrightarrow> (\<exists>e. build_gitlab sha256 rp = Inl e))"
proof
  show "\<exists>e. build_sarif sha256 catalog_ids rp = Inl e"
    using artifact_uri_cases [of "rp_source rp"] assms by (auto simp: build_sarif_def split: sum.splits)
  have app: "utf8_encode (a @ b) = None" if "utf8_encode a = None \<or> utf8_encode b = None" for a b
    using that by (induction a) (auto split: option.splits)
  show "rp_error rp \<noteq> None \<longrightarrow> (\<exists>e. build_gitlab sha256 rp = Inl e)"
    by (auto simp: build_gitlab_def gitlab_error_def gitlab_fingerprint_def encode_utf8_def app assms
        split: option.splits)
qed

end
