(* ===== verification/EI_Gate.thy ===== *)
theory EI_Gate
  imports EI_Sarif
begin

text \<open>
  The baseline gate of \<open>report.py\<close> and its command line: loading a baseline, the check of its
  profile, the multiset difference of two reports, and \<open>main\<close> with its options, refusals and exit
  codes.  The files of the system and \<open>json.load\<close> are the fields of \<open>report_env\<close>; a number of a
  baseline that is a float is compared by its text.
\<close>

section \<open>Reports as JSON\<close>

type_synonym items = "(pystr \<times> json) list"

definition text_json :: "text_opt \<Rightarrow> json" where
  "text_json t = (case t of None \<Rightarrow> JNull | Some s \<Rightarrow> JStr s)"

definition line_item :: "string \<Rightarrow> nat option \<Rightarrow> (string \<times> json) list" where
  "line_item key l = (case l of None \<Rightarrow> [] | Some n \<Rightarrow> [(key, JInt (int n))])"

definition record_items :: "finding_record \<Rightarrow> items" where
  "record_items v = map (\<lambda>(k, j). (ascii k, j))
     ([(''rule'', JStr (r_rule v)), (''severity'', JStr (r_severity v)), (''message'', JStr (r_message v)),
       (''field'', JStr (r_field v)), (''title'', text_json (r_title v)),
       (''fix_hint'', text_json (r_fix_hint v)), (''terms'', JArr (map JStr (r_terms v))),
       (''location'', text_json (r_location v)), (''element'', JStr (r_element v))] @
      line_item ''source_line'' (r_source_line v) @
      line_item ''insertion_point_line'' (r_insertion_point_line v))"

definition binding_json :: "sb_finding \<Rightarrow> json" where
  "binding_json f = obj [(''id'', JStr (f_id f)), (''category'', JStr (ascii ''syntax-binding'')),
     (''severity'', JStr (severity_text (f_severity f))), (''flag'', JStr (f_flag f)),
     (''message'', JStr (f_message f)), (''element'', JStr (f_element f))]"

definition report_json :: "report \<Rightarrow> json" where
  "report_json rp = obj
     ([(''report_version'', JInt 1), (''schema'', JStr (ascii ''einvoice-conformance-report/v1'')),
       (''source'', JStr (rp_source rp)), (''profile'', JStr (ascii (rp_profile rp))),
       (''valid'', JBool (rp_valid rp))] @
      (case rp_error rp of None \<Rightarrow> [] | Some (code, m) \<Rightarrow> [(''error'', JStr code), (''message'', JStr m)]) @
      [(''fatal_count'', JInt (int (rp_fatal_count rp))), (''warning_count'', JInt (int (rp_warning_count rp))),
       (''violation_count'', JInt (int (length (rp_violations rp)))),
       (''violations'', JArr (map (\<lambda>v. JObj (record_items v)) (rp_violations rp)))] @
      (case rp_bindings rp of None \<Rightarrow> [] | Some sb \<Rightarrow>
        [(''syntax_bindings'', JArr (map binding_json (sb_bindings sb))),
         (''syntax_binding_fatal_count'', JInt (int (sb_fatal_count sb))),
         (''syntax_binding_warning_count'', JInt (int (sb_warning_count sb)))]))"

definition badge_json :: "badge \<Rightarrow> json" where
  "badge_json b = obj [(''schemaVersion'', JInt (int (badge_schema b))), (''label'', JStr (badge_label b)),
     (''message'', JStr (badge_message b)), (''color'', JStr (badge_color b))]"

section \<open>The difference\<close>

definition DIFF_KEY :: "string list" where
  "DIFF_KEY = [''rule'', ''field'', ''message'', ''severity'']"

definition diff_key :: "items \<Rightarrow> json list" where
  "diff_key rec = map (obj_get rec) DIFF_KEY"

text \<open>A tuple is hashable when its components are, and \<open>True\<close> and \<open>1\<close> are the same key.\<close>

fun hashable :: "json \<Rightarrow> bool" where
  "hashable (JArr js) = False"
| "hashable (JObj kvs) = False"
| "hashable j = True"

fun norm_key :: "json \<Rightarrow> json" where
  "norm_key (JBool b) = JInt (of_bool b)"
| "norm_key j = j"

definition counter_key :: "items \<Rightarrow> py_exc + json list" where
  "counter_key rec = (let k = diff_key rec in
     if list_all hashable k then Inr (map norm_key k) else Inl TypeError)"

text \<open>\<open>Counter\<close> of the keys, and the loop that takes matches out of it.\<close>

definition counter :: "items list \<Rightarrow> py_exc + (json list \<Rightarrow> nat)" where
  "counter recs = bindE (mapE counter_key recs) (\<lambda>ks. Inr (count_list ks))"

fun match_loop :: "(json list \<Rightarrow> nat) \<Rightarrow> items list \<Rightarrow> py_exc + items list \<times> nat" where
  "match_loop pool [] = Inr ([], 0)"
| "match_loop pool (rec # recs) = bindE (counter_key rec) (\<lambda>k.
     if 0 < pool k
     then bindE (match_loop (pool(k := pool k - 1)) recs) (\<lambda>(unmatched, n). Inr (unmatched, Suc n))
     else bindE (match_loop pool recs) (\<lambda>(unmatched, n). Inr (rec # unmatched, n)))"

definition multiset_diff :: "items list \<Rightarrow> items list \<Rightarrow> py_exc + items list \<times> items list \<times> nat" where
  "multiset_diff current baseline =
     bindE (counter baseline) (\<lambda>baseline_pool.
     bindE (match_loop baseline_pool current) (\<lambda>(new, unchanged).
     bindE (counter current) (\<lambda>current_pool.
     bindE (match_loop current_pool baseline) (\<lambda>(resolved, n).
     Inr (new, resolved, unchanged)))))"

section \<open>Baselines\<close>

datatype baseline_error = CannotRead | NotJson | NotAnObject | NoViolations | MalformedRecord
  | OtherProfile pystr string

definition is_object :: "json \<Rightarrow> bool" where
  "is_object j = (case j of JObj kvs \<Rightarrow> True | _ \<Rightarrow> False)"

definition items_of :: "json \<Rightarrow> items" where
  "items_of j = (case j of JObj kvs \<Rightarrow> kvs | _ \<Rightarrow> [])"

text \<open>\<open>load_baseline\<close>; the file is \<open>None\<close> when it can not be read, and \<open>Some None\<close> when it is not
  JSON.\<close>

definition load_baseline :: "json option option \<Rightarrow> baseline_error + items" where
  "load_baseline file = (case file of
     None \<Rightarrow> Inl CannotRead
   | Some None \<Rightarrow> Inl NotJson
   | Some (Some (JObj data)) \<Rightarrow> (case obj_get data ''violations'' of
       JArr vs \<Rightarrow> if list_all is_object vs then Inr data else Inl MalformedRecord
     | _ \<Rightarrow> Inl NoViolations)
   | Some (Some j) \<Rightarrow> Inl NotAnObject)"

definition declared_baseline_profile :: "items \<Rightarrow> pystr option" where
  "declared_baseline_profile data = (case obj_get data ''profile'' of
     JStr p \<Rightarrow> if p = [] then None else Some p | _ \<Rightarrow> None)"

definition check_baseline_profile :: "items \<Rightarrow> string \<Rightarrow> baseline_error + pystr option" where
  "check_baseline_profile data profile = (case declared_baseline_profile data of
     None \<Rightarrow> Inr None
   | Some p \<Rightarrow> if p \<noteq> ascii profile then Inl (OtherProfile p profile) else Inr (Some p))"

definition baseline_violations :: "items \<Rightarrow> items list" where
  "baseline_violations data = (case obj_get data ''violations'' of
     JArr vs \<Rightarrow> map items_of vs | _ \<Rightarrow> [])"

definition is_fatal_item :: "items \<Rightarrow> bool" where
  "is_fatal_item rec \<longleftrightarrow> obj_get rec ''severity'' = JStr (ascii ''fatal'')"

definition count_fatal :: "items list \<Rightarrow> nat" where
  "count_fatal recs = length (filter is_fatal_item recs)"

record diff_doc =
  df_source :: pystr
  df_baseline :: pystr
  df_baseline_source :: json
  df_profile :: string
  df_baseline_profile :: "pystr option"
  df_error :: "(pystr \<times> pystr) option"
  df_new :: "items list"
  df_resolved :: "items list"
  df_unchanged_count :: nat
  df_new_fatal_count :: nat
  df_baseline_fatal_count :: nat
  df_current_fatal_count :: nat

text \<open>\<open>build_diff\<close> from the report of the current file.\<close>

definition build_diff :: "report \<Rightarrow> items \<Rightarrow> string \<Rightarrow> pystr \<Rightarrow> py_exc + diff_doc" where
  "build_diff current data profile baseline_path =
     (let old = baseline_violations data;
          head = \<lparr> df_source = rp_source current, df_baseline = baseline_path,
            df_baseline_source = obj_get data ''source'', df_profile = profile,
            df_baseline_profile = declared_baseline_profile data, df_error = rp_error current,
            df_new = [], df_resolved = [], df_unchanged_count = 0, df_new_fatal_count = 0,
            df_baseline_fatal_count = count_fatal old, df_current_fatal_count = 0 \<rparr>
      in if rp_error current \<noteq> None then Inr head
      else bindE (multiset_diff (map record_items (rp_violations current)) old)
        (\<lambda>(new, resolved, unchanged). Inr (head\<lparr> df_new := new, df_resolved := resolved,
           df_unchanged_count := unchanged, df_new_fatal_count := count_fatal new,
           df_current_fatal_count := rp_fatal_count current \<rparr>)))"

definition diff_exit_code :: "diff_doc \<Rightarrow> nat" where
  "diff_exit_code d = (if df_error d \<noteq> None then EXIT_PARSE
     else if df_new_fatal_count d = 0 then EXIT_OK else EXIT_FAIL)"

section \<open>The command line\<close>

definition REPORT_FORMATS :: "string list" where
  "REPORT_FORMATS = [''json'', ''junit'', ''sarif'', ''gitlab'', ''github'', ''azure'', ''html'', ''badge'', ''text'']"

definition BATCH_FORMATS :: "string list" where
  "BATCH_FORMATS = [''json'', ''junit'', ''text'']"

definition LANGUAGE_NEUTRAL_FORMATS :: "string list" where
  "LANGUAGE_NEUTRAL_FORMATS = [''json'', ''junit'', ''sarif'', ''gitlab'', ''github'', ''azure'', ''badge'']"

definition SUPPORTED_LANGS :: "string list" where
  "SUPPORTED_LANGS = [''en'', ''de'']"

text \<open>What is written: a text, or a value for \<open>json.dumps\<close> (pretty or not), or the HTML page, which
  is not modelled.\<close>

datatype rendered = Text pystr | Dumped json bool | Page report string

definition render_report ::
    "(bytes \<Rightarrow> pystr) \<Rightarrow> (pystr \<times> explain_entry) list \<Rightarrow> report \<Rightarrow> string \<Rightarrow> bool \<Rightarrow> string \<Rightarrow> py_exc + rendered" where
  "render_report sha256 catalog rp fmt pretty lang =
     (let lang = (if fmt \<in> set LANGUAGE_NEUTRAL_FORMATS then ''en'' else lang) in
      if fmt = ''junit'' then Inr (Text (build_junit rp))
      else if fmt = ''sarif'' then bindE (build_sarif sha256 (\<lambda>rid. rid \<in> fst ` set catalog) rp) (\<lambda>j. Inr (Dumped j True))
      else if fmt = ''gitlab'' then bindE (build_gitlab sha256 rp) (\<lambda>js. Inr (Dumped (JArr js) True))
      else if fmt = ''github'' then Inr (Text (build_github rp))
      else if fmt = ''azure'' then Inr (Text (build_azure rp))
      else if fmt = ''html'' then Inr (Page rp lang)
      else if fmt = ''badge'' then Inr (Dumped (badge_json (build_badge rp)) True)
      else if fmt = ''text'' then Inr (Text (build_text (entry_message_de catalog) lang rp))
      else Inr (Dumped (report_json rp) pretty))"

definition batch_json :: "batch \<Rightarrow> json" where
  "batch_json b = obj
     ([(''report_version'', JInt 1), (''schema'', JStr (ascii ''einvoice-conformance-batch/v1'')),
       (''root'', JStr (b_root b)), (''profile'', JStr (ascii (b_profile b))),
       (''file_count'', JInt (int (b_file_count b))), (''fatal_count'', JInt (int (b_fatal_count b))),
       (''warning_count'', JInt (int (b_warning_count b))),
       (''violation_count'', JInt (int (b_violation_count b))),
       (''failed_file_count'', JInt (int (b_failed_file_count b))),
       (''files'', JArr (map report_json (b_files b)))] @
      (if b_note b then [(''note'', JStr (ascii ''no invoice files found''))] else []))"

definition render_batch :: "batch \<Rightarrow> string \<Rightarrow> bool \<Rightarrow> rendered" where
  "render_batch b fmt pretty =
     (if fmt = ''junit'' then Text (build_junit_batch b)
      else if fmt = ''text'' then Text (build_batch_text b)
      else Dumped (batch_json b) pretty)"

text \<open>The options in the order the loop reads them.\<close>

record options =
  o_profile :: pystr
  o_fmt :: pystr
  o_saw_format :: bool
  o_baseline :: "pystr option"
  o_explain :: "pystr option"
  o_lang :: pystr
  o_saw_lang :: bool
  o_rest :: "pystr list"

definition default_options :: options where
  "default_options = \<lparr> o_profile = ascii ''xrechnung'', o_fmt = ascii ''json'', o_saw_format = False,
     o_baseline = None, o_explain = None, o_lang = ascii ''en'', o_saw_lang = False, o_rest = [] \<rparr>"

text \<open>The flags that take a value.\<close>

definition set_option :: "string \<Rightarrow> pystr \<Rightarrow> options \<Rightarrow> options" where
  "set_option flag value opts =
     (if flag = ''--explain'' then opts\<lparr> o_explain := Some value \<rparr>
      else if flag = ''--lang'' then opts\<lparr> o_lang := value, o_saw_lang := True \<rparr>
      else if flag = ''--profile'' then opts\<lparr> o_profile := value \<rparr>
      else if flag = ''--baseline'' then opts\<lparr> o_baseline := Some value \<rparr>
      else opts\<lparr> o_fmt := value, o_saw_format := True \<rparr>)"

definition VALUE_FLAGS :: "string list" where
  "VALUE_FLAGS = [''--explain'', ''--lang'', ''--profile'', ''--baseline'', ''--format'']"

text \<open>The flag an argument names, and the value after an equals sign.\<close>

definition flag_named :: "pystr \<Rightarrow> string option" where
  "flag_named a = find (\<lambda>f. ascii f = a) VALUE_FLAGS"

definition flag_assigned :: "pystr \<Rightarrow> (string \<times> pystr) option" where
  "flag_assigned a = map_option (\<lambda>f. (f, drop (length f + 1) a))
     (find (\<lambda>f. startswith a (ascii f @ [61])) VALUE_FLAGS)"

text \<open>The result of the loop: help was asked for, a value is missing, or the options.\<close>

datatype parsed_args = Help | MissingValue string | Options options

fun parse_args :: "pystr list \<Rightarrow> options \<Rightarrow> parsed_args" where
  "parse_args [] opts = Options opts"
| "parse_args (a # as) opts =
     (if a = ascii ''--help'' \<or> a = ascii ''-h'' then Help
      else case flag_named a of
        Some f \<Rightarrow> (case as of [] \<Rightarrow> MissingValue f | value # rest \<Rightarrow> parse_args rest (set_option f value opts))
      | None \<Rightarrow> (case flag_assigned a of
          Some (f, value) \<Rightarrow> parse_args as (set_option f value opts)
        | None \<Rightarrow> parse_args as (opts\<lparr> o_rest := o_rest opts @ [a] \<rparr>)))"

text \<open>What the command reads, and how it ends: with an exit code and what it wrote to the standard
  output, or with an exception that nothing catches.\<close>

record 'b report_env =
  en_world :: "'b world"
  en_explain :: "(pystr \<times> explain_entry) list"
  en_repr :: "pystr \<Rightarrow> pystr"
  en_sha256 :: "bytes \<Rightarrow> pystr"
  en_isdir :: "pystr \<Rightarrow> bool"
  en_isfile :: "pystr \<Rightarrow> bool"
  en_read :: "pystr \<Rightarrow> 'b list option"
  en_walk :: "pystr \<Rightarrow> walk_tree"
  en_json :: "pystr \<Rightarrow> json option option"

datatype uncaught = OsFailure | RunFailure run_error | PyFailure py_exc

datatype written = Nothing | Usage | Explanation pystr | Document rendered | Difference diff_doc bool

datatype outcome = Exit nat written | Traceback uncaught

definition lift_py :: "py_exc + 'a \<Rightarrow> uncaught + 'a" where
  "lift_py m = (case m of Inl e \<Rightarrow> Inl (PyFailure e) | Inr x \<Rightarrow> Inr x)"

definition report_at :: "'b report_env \<Rightarrow> string \<Rightarrow> pystr \<Rightarrow> uncaught + report" where
  "report_at env profile path = (case en_read env path of
     None \<Rightarrow> Inl OsFailure
   | Some file \<Rightarrow> (case build_report (en_world env) profile path file of
       Inl e \<Rightarrow> Inl (RunFailure e) | Inr rp \<Rightarrow> Inr rp))"

definition finish :: "uncaught + outcome \<Rightarrow> outcome" where
  "finish m = (case m of Inl e \<Rightarrow> Traceback e | Inr r \<Rightarrow> r)"

definition explain_mode :: "'b report_env \<Rightarrow> options \<Rightarrow> pystr \<Rightarrow> outcome" where
  "explain_mode env opts rid =
     (if o_rest opts \<noteq> [] then Exit EXIT_FAIL Nothing
      else if o_saw_format opts \<or> o_baseline opts \<noteq> None then Exit EXIT_FAIL Nothing
      else case find (\<lambda>l. ascii l = o_lang opts) SUPPORTED_LANGS of
        None \<Rightarrow> Exit EXIT_FAIL Nothing
      | Some lang \<Rightarrow>
          if en_explain env = [] then Exit EXIT_FAIL Nothing
          else (case format_explain (en_repr env) (en_explain env) lang rid of
            None \<Rightarrow> Exit EXIT_FAIL Nothing | Some block \<Rightarrow> Exit EXIT_OK (Explanation block)))"

definition batch_mode :: "'b report_env \<Rightarrow> options \<Rightarrow> bool \<Rightarrow> string \<Rightarrow> string \<Rightarrow> pystr \<Rightarrow> outcome" where
  "batch_mode env opts pretty fmt profile path =
     (if \<not> en_isdir env path then Exit EXIT_FAIL Nothing
      else if o_baseline opts \<noteq> None then Exit EXIT_FAIL Nothing
      else if fmt \<notin> set BATCH_FORMATS then Exit EXIT_FAIL Nothing
      else finish (bindE (build_batch_report (report_at env profile) profile path (en_walk env path))
        (\<lambda>b. Inr (Exit (batch_exit_code b) (Document (render_batch b fmt pretty))))))"

definition diff_mode :: "'b report_env \<Rightarrow> bool \<Rightarrow> string \<Rightarrow> pystr \<Rightarrow> pystr \<Rightarrow> outcome" where
  "diff_mode env pretty profile path baseline_path =
     (case bindE (load_baseline (en_json env baseline_path))
         (\<lambda>data. bindE (check_baseline_profile data profile) (\<lambda>declared. Inr data)) of
        Inl e \<Rightarrow> Exit EXIT_FAIL Nothing
      | Inr data \<Rightarrow> finish (bindE (report_at env profile path) (\<lambda>current.
          bindE (lift_py (build_diff current data profile baseline_path)) (\<lambda>d.
          Inr (Exit (diff_exit_code d) (Difference d pretty))))))"

definition single_mode :: "'b report_env \<Rightarrow> bool \<Rightarrow> string \<Rightarrow> string \<Rightarrow> pystr \<Rightarrow> outcome" where
  "single_mode env pretty fmt profile path = (case report_at env profile path of
     Inl OsFailure \<Rightarrow> Exit EXIT_FAIL Nothing
   | Inl e \<Rightarrow> Traceback e
   | Inr rp \<Rightarrow> finish (bindE (lift_py (render_report (en_sha256 env) (en_explain env) rp fmt pretty ''en''))
       (\<lambda>d. Inr (Exit (single_exit_code rp) (Document d)))))"

definition report_mode :: "'b report_env \<Rightarrow> options \<Rightarrow> bool \<Rightarrow> bool \<Rightarrow> outcome" where
  "report_mode env opts pretty recurse =
     (if o_saw_lang opts then Exit EXIT_FAIL Nothing
      else case find (\<lambda>f. ascii f = o_fmt opts) REPORT_FORMATS of
        None \<Rightarrow> Exit EXIT_FAIL Nothing
      | Some fmt \<Rightarrow> (case find (\<lambda>p. ascii p = o_profile opts) PROFILES of
          None \<Rightarrow> Exit EXIT_FAIL Nothing
        | Some profile \<Rightarrow>
            if o_baseline opts \<noteq> None \<and> fmt \<noteq> ''json'' then Exit EXIT_FAIL Nothing
            else (case o_rest opts of
              [path] \<Rightarrow>
                if recurse \<or> en_isdir env path then batch_mode env opts pretty fmt profile path
                else if \<not> en_isfile env path then Exit EXIT_FAIL Nothing
                else (case o_baseline opts of
                    Some baseline_path \<Rightarrow> diff_mode env pretty profile path baseline_path
                  | None \<Rightarrow> single_mode env pretty fmt profile path)
            | _ \<Rightarrow> Exit EXIT_FAIL Nothing)))"

definition report_main :: "'b report_env \<Rightarrow> pystr list \<Rightarrow> outcome" where
  "report_main env argv =
     (let pretty = (ascii ''--pretty'' \<in> set argv);
          recurse = (ascii ''--recurse'' \<in> set argv);
          args = filter (\<lambda>a. a \<noteq> ascii ''--pretty'' \<and> a \<noteq> ascii ''--recurse'') argv
      in case parse_args args default_options of
           Help \<Rightarrow> Exit EXIT_OK Usage
         | MissingValue f \<Rightarrow> Exit EXIT_FAIL Nothing
         | Options opts \<Rightarrow> (case o_explain opts of
             Some rid \<Rightarrow> explain_mode env opts rid
           | None \<Rightarrow> report_mode env opts pretty recurse))"

end
