(* ===== verification/EI_Report_Props.thy ===== *)
theory EI_Report_Props
  imports EI_Annotations EI_Gate EI_Sb_Props
begin

text \<open>
  The reports of files and directories: what a report says of its findings, the formats agree on
  the number of errors, the exit codes, which files of a directory are graded, and the ranking of
  the rules of a directory.
\<close>

section \<open>The report of a file\<close>

text \<open>What the fields of a report owe each other.\<close>

definition consistent :: "report \<Rightarrow> bool" where
  "consistent rp \<longleftrightarrow>
     rp_fatal_count rp = count_severity ''fatal'' (rp_violations rp) \<and>
     rp_warning_count rp = count_severity ''warning'' (rp_violations rp) \<and>
     (rp_error rp \<noteq> None \<longrightarrow> rp_violations rp = [] \<and> \<not> rp_valid rp) \<and>
     (rp_error rp = None \<longrightarrow> rp_valid rp = (total_fatal rp = 0)) \<and>
     (\<forall>v\<in>set (rp_violations rp). r_element v = r_field v \<and> r_severity v \<in> range severity_text)"

text \<open>The counts of a report are those of the records and of the bindings it lists.\<close>

definition bindings_counted :: "binding_section \<Rightarrow> bool" where
  "bindings_counted sb \<longleftrightarrow>
     sb_fatal_count sb = count_list (map f_severity (sb_bindings sb)) Fatal \<and>
     sb_warning_count sb = count_list (map f_severity (sb_bindings sb)) Warning"

definition counted :: "report \<Rightarrow> bool" where
  "counted rp \<longleftrightarrow>
     rp_fatal_count rp = count_list (map r_severity (rp_violations rp)) (ascii ''fatal'') \<and>
     rp_warning_count rp = count_list (map r_severity (rp_violations rp)) (ascii ''warning'') \<and>
     (case rp_bindings rp of None \<Rightarrow> True | Some sb \<Rightarrow> bindings_counted sb)"

lemma severity_text_inject: "severity_text s = severity_text t \<longleftrightarrow> s = t"
  by (cases s; cases t) (simp_all add: severity_text_def ascii_def)

lemma record_simps [simp]:
  "r_severity (record_of txt catalog v) = severity_text (v_severity v)"
  "r_element (record_of txt catalog v) = r_field (record_of txt catalog v)"
  by (simp_all add: record_of_def Let_def)

lemma count_severity_list: "count_severity s recs = count_list (map r_severity recs) (ascii s)"
  by (induction recs) (simp_all add: count_severity_def has_severity_def)

lemma severity_text_fatal: "severity_text s = ascii ''fatal'' \<longleftrightarrow> s = Fatal"
  by (cases s) (simp_all add: severity_text_def ascii_def)

text \<open>A violation of a rule that is fatal, and a fatal assert of the catalog that fires at some node
  that the context of its rule matches.\<close>

definition fatal_rule :: "violation list \<Rightarrow> bool" where
  "fatal_rule vs \<longleftrightarrow> (\<exists>v\<in>set vs. v_severity v = Fatal)"

definition fatal_binding :: "catalog_item list option \<Rightarrow> xml \<Rightarrow> bool" where
  "fatal_binding catalog r \<longleftrightarrow> xtag r \<in> set ROOT_TAGS \<and>
     (\<exists>e\<in>set (implemented_entries catalog). severity_from_flag (e_flag e) = Fatal \<and>
       (\<exists>ctx\<in>set (context_match (e_ctx e) r). fst (eval_compiled (e_compiled e) ctx r)))"

lemma fatal_records:
  "count_severity ''fatal'' (map (record_of txt catalog) vs) = 0 \<longleftrightarrow> \<not> fatal_rule vs"
  by (auto simp: count_severity_def has_severity_def severity_text_fatal fatal_rule_def filter_empty_conv)

lemma root_context_concrete: "list_all concrete (branches root_context)"
proof -
  have "compile_context NSMAP (Some SUPPORTED_CONTEXT) \<noteq> None"
    by (simp add: compile_context_def SUPPORTED_CONTEXT_def NSMAP_def context_eval Let_def ascii_def)
  then show ?thesis using compile_context_concrete by (auto simp: root_context_def)
qed

lemma compile_context_branches: "compile_context ns e = Some k \<Longrightarrow> list_all concrete (branches k)"
  using compile_context_concrete [of ns e] by simp

lemma implemented_concrete:
  assumes "e \<in> set (implemented_entries catalog)"
  shows "list_all concrete (branches (e_ctx e))"
proof -
  have "list_all concrete (branches (e_ctx e))" if "Inl e = partition_entry i" for i
    using that root_context_concrete
    by (auto simp: partition_entry_def make_entry_def split: option.splits if_splits)
  moreover have "list_all concrete (branches (e_ctx e))" if "Inl e = class_entry shape i" for shape i
    using that by (auto simp: class_entry_def make_entry_def compile_context_branches split: option.splits)
  ultimately show ?thesis
    using assms
    by (auto simp: implemented_entries_def implemented_def partition_abs_def partition_class_def)
qed

lemma entry_findings_in:
  "f \<in> set (entry_findings r e) \<longleftrightarrow> (\<exists>ctx\<in>set (match_context_indexed (e_ctx e) r). \<exists>n.
     eval_compiled (e_compiled e) ctx r = (True, n) \<and>
     f = sb_finding_of e r (case n of Some m \<Rightarrow> m | None \<Rightarrow> ElemNode ctx))"
  unfolding entry_findings_def by (auto split: bool.splits) (metis, metis)

lemma fatal_binding_reported:
  "fatal_binding catalog r \<longleftrightarrow> Fatal \<in> f_severity ` set (sb_evaluate catalog r)"
proof -
  have one: "Fatal \<in> f_severity ` set (entry_findings r e) \<longleftrightarrow> severity_from_flag (e_flag e) = Fatal \<and>
      (\<exists>ctx\<in>set (context_match (e_ctx e) r). fst (eval_compiled (e_compiled e) ctx r))"
    if "e \<in> set (implemented_entries catalog)" for e
  proof -
    have *: "match_context_indexed (e_ctx e) r = context_match (e_ctx e) r"
      by (rule match_indexed_eq) (rule implemented_concrete [OF that])
    have sev: "f_severity (sb_finding_of e r n) = severity_from_flag (e_flag e)" for n
      by (simp add: sb_finding_of_def Let_def)
    have "Fatal \<in> f_severity ` set (entry_findings r e) \<longleftrightarrow>
        (\<exists>f. f \<in> set (entry_findings r e) \<and> f_severity f = Fatal)" by (force simp: image_iff)
    also have "\<dots> \<longleftrightarrow> severity_from_flag (e_flag e) = Fatal \<and>
        (\<exists>ctx\<in>set (context_match (e_ctx e) r). fst (eval_compiled (e_compiled e) ctx r))"
      unfolding entry_findings_in * using sev by (metis (full_types) fst_conv prod.collapse)
    finally show ?thesis .
  qed
  show ?thesis
    using one by (auto simp: fatal_binding_def sb_evaluate_def evaluate_entries_def image_Union)
qed

lemma binding_severity: "f \<in> set (sb_evaluate catalog r) \<Longrightarrow> f_severity f = Fatal \<or> f_severity f = Warning"
  by (auto simp: sb_evaluate_def evaluate_entries_def entry_findings_def sb_finding_of_def Let_def
      severity_from_flag_def split: if_splits prod.splits bool.splits)

lemma section_counted: "bindings_counted (syntax_binding_section catalog r)"
proof -
  have "length (filter is_fatal_binding fs) = count_list (map f_severity fs) Fatal \<and>
      length fs = length (filter is_fatal_binding fs) + count_list (map f_severity fs) Warning"
    if "\<forall>f\<in>set fs. f_severity f = Fatal \<or> f_severity f = Warning" for fs
    using that by (induction fs) (auto simp: is_fatal_binding_def)
  from this [of "sb_evaluate catalog r"] binding_severity
  show ?thesis by (simp add: bindings_counted_def syntax_binding_section_def Let_def)
qed

lemma section_fatal: "sb_fatal_count (syntax_binding_section catalog r) = 0 \<longleftrightarrow> \<not> fatal_binding catalog r"
proof -
  have "Fatal \<in> f_severity ` set fs \<longleftrightarrow> (\<exists>f\<in>set fs. f_severity f = Fatal)" for fs by force
  then show ?thesis
    by (auto simp: fatal_binding_reported syntax_binding_section_def Let_def filter_empty_conv is_fatal_binding_def)
qed

lemma consistent_error [simp]:
  "consistent (error_report source profile code m) \<and> counted (error_report source profile code m)"
  by (simp add: consistent_def counted_def error_report_def count_severity_def)

lemma consistent_from_violations [simp]:
  "consistent (report_from_violations w vs source profile) \<and>
   counted (report_from_violations w vs source profile)"
  by (simp add: consistent_def counted_def report_from_violations_def Let_def total_fatal_def count_severity_list)

lemma result_ok_fatal: "result_ok vs \<longleftrightarrow> \<not> fatal_rule vs"
  by (auto simp: result_ok_def fatal_rule_def filter_empty_conv)

lemma xml_report_consistent:
  fixes path fm profile catalog vs c r
  defines "rp \<equiv> \<lparr> rp_source = path, rp_profile = profile,
     rp_valid = (result_ok vs \<and> sb_fatal_count (syntax_binding_section c r) = 0), rp_error = None,
     rp_fatal_count = count_severity ''fatal'' (map (record_of fm catalog) vs),
     rp_warning_count = count_severity ''warning'' (map (record_of fm catalog) vs),
     rp_violations = map (record_of fm catalog) vs, rp_bindings = Some (syntax_binding_section c r) \<rparr>"
  shows "consistent rp \<and> counted rp"
proof
  show "consistent rp"
    using fatal_records [of fm catalog vs]
    by (auto simp: rp_def consistent_def result_ok_fatal total_fatal_def)
  show "counted rp"
    by (simp add: rp_def counted_def section_counted count_severity_list)
qed

lemma build_report_consistent:
  assumes "build_report w profile path file = Inr rp"
  shows "consistent rp \<and> counted rp"
proof (cases "w_container w file")
  case NoPdf
  with assms show ?thesis
    by (auto simp: build_report_def bindE_eq_Inr Let_def xml_report_consistent split: sum.splits)
next
  case (Unsupported d)
  with assms show ?thesis by (auto simp: build_report_def)
next
  case (Embedded bs vs)
  with assms show ?thesis
    by (auto simp: build_report_def report_from_invoice_bytes_def bindE_eq_Inr split: sum.splits)
qed

lemmas exit_codes = single_exit_code_def total_fatal_def EXIT_OK_def EXIT_FAIL_def EXIT_PARSE_def

lemma error_exit [simp]: "single_exit_code (error_report source profile code m) = 3"
  by (simp add: exit_codes error_report_def)

lemma violations_exit [simp]:
  "single_exit_code (report_from_violations w vs source profile) = (if fatal_rule vs then 1 else 0)"
  using fatal_records [of "w_text w" "w_catalog w" vs]
  by (simp add: exit_codes report_from_violations_def Let_def)

text \<open>The verdict on a file, as a code: none when the validation raises.\<close>

definition rules_code :: "run_error + violation list \<Rightarrow> (violation list \<Rightarrow> bool) \<Rightarrow> nat option" where
  "rules_code result fails = (case result of Inl e \<Rightarrow> None | Inr vs \<Rightarrow> Some (if fails vs then 1 else 0))"

definition file_verdict :: "'b world \<Rightarrow> string \<Rightarrow> 'b list \<Rightarrow> nat option" where
  "file_verdict w profile file = (let validate = validate_root (w_py311 w) (w_catalog w) profile in
     case w_container w file of
       Unsupported d \<Rightarrow> Some 3
     | NoPdf \<Rightarrow> (case parse_file (w_expat w) file of
         Inl e \<Rightarrow> Some 3
       | Inr r \<Rightarrow> rules_code (validate r) (\<lambda>vs. fatal_rule vs \<or> fatal_binding (w_syntax w) r))
     | Embedded bytes found \<Rightarrow> (case safe_fromstring (w_expat w) bytes of
         Inl e \<Rightarrow> Some 3
       | Inr r \<Rightarrow> rules_code (validate r) (\<lambda>vs. fatal_rule (vs @ found))))"

lemma verdict_is_exit_code:
  "file_verdict w profile file =
    (case build_report w profile path file of Inl e \<Rightarrow> None | Inr rp \<Rightarrow> Some (single_exit_code rp))"
proof (cases "w_container w file")
  case NoPdf
  show ?thesis
  proof (cases "parse_file (w_expat w) file")
    case (Inr r)
    with NoPdf show ?thesis
      using section_fatal [of "w_syntax w" r] fatal_records [of "w_text w" "w_catalog w"]
      by (cases "validate_root (w_py311 w) (w_catalog w) profile r")
         (auto simp: file_verdict_def rules_code_def build_report_def Let_def exit_codes)
  qed (simp add: NoPdf file_verdict_def build_report_def)
next
  case (Embedded bytes found)
  show ?thesis
  proof (cases "safe_fromstring (w_expat w) bytes")
    case (Inr r)
    with Embedded show ?thesis
      by (cases "validate_root (w_py311 w) (w_catalog w) profile r")
         (simp_all add: file_verdict_def rules_code_def build_report_def report_from_invoice_bytes_def)
  qed (simp add: Embedded file_verdict_def build_report_def report_from_invoice_bytes_def)
qed (simp add: file_verdict_def build_report_def)

text \<open>C7: The exit code of a file is the verdict on it.  A file that can not be parsed or opened gives
  3; a plain XML file gives 1 exactly when some rule of the profile reports a fatal violation or some
  fatal assert of the syntax binding fires at a node that the context of its rule matches, and 0
  otherwise; the XML inside a PDF is judged by the rules and the findings of the container alone.
  The report is valid exactly for the code 0, its counts are the numbers of fatal and of warning
  records and bindings it lists, and it is returned whenever the validation does not raise.\<close>
theorem exit_code_is_verdict:
  "case build_report w profile path file of Inl e \<Rightarrow> file_verdict w profile file = None
   | Inr rp \<Rightarrow> file_verdict w profile file = Some (single_exit_code rp) \<and>
       (rp_valid rp \<longleftrightarrow> single_exit_code rp = 0) \<and> consistent rp \<and> counted rp"
proof (cases "build_report w profile path file")
  case (Inr rp)
  have ok: "consistent rp" "counted rp" using build_report_consistent [OF Inr] by simp_all
  moreover from ok(1) have "rp_valid rp \<longleftrightarrow> single_exit_code rp = 0"
    by (auto simp: consistent_def exit_codes split: option.splits if_splits)
  ultimately show ?thesis by (simp add: verdict_is_exit_code [where path = path] Inr)
qed (simp add: verdict_is_exit_code [where path = path])

section \<open>The formats agree\<close>

definition has_field :: "string \<Rightarrow> string \<Rightarrow> json \<Rightarrow> bool" where
  "has_field key t j \<longleftrightarrow> (case j of JObj kvs \<Rightarrow> obj_get kvs key = JStr (ascii t) | _ \<Rightarrow> False)"

lemma severity_cases: "r_severity v \<in> range severity_text \<Longrightarrow>
    r_severity v = ascii ''fatal'' \<or> r_severity v = ascii ''warning'' \<or> r_severity v = ascii ''information''"
  by (auto simp: severity_text_def split: severity.splits)

lemma level_of_fatal: "r_severity v \<in> range severity_text \<Longrightarrow> level_of v = ascii ''error'' \<longleftrightarrow> has_severity ''fatal'' v"
  by (drule severity_cases) (auto simp: level_of_def has_severity_def or_else_def ascii_def)

lemma obj_get_obj: "obj_get (map (\<lambda>(k, v). (ascii k, v)) kvs) key = (case map_of kvs key of None \<Rightarrow> JNull | Some j \<Rightarrow> j)"
proof -
  have "ascii k = ascii key \<longleftrightarrow> k = key" for k by (simp add: ascii_eq_iff)
  then have "map_of (map (\<lambda>(k, v). (ascii k, v)) kvs) (ascii key) = map_of kvs key"
    by (induction kvs) auto
  then show ?thesis by (simp add: obj_get_def)
qed

lemma has_field_obj: "has_field key t (obj kvs) \<longleftrightarrow> map_of kvs key = Some (JStr (ascii t))"
  by (simp add: has_field_def obj_def obj_get_obj split: option.splits)

lemma sarif_result_level:
  assumes "sarif_result sha256 uri v = Inr j" and "r_severity v \<in> range severity_text"
  shows "has_field ''level'' ''error'' j \<longleftrightarrow> has_severity ''fatal'' v"
  using assms(1) severity_cases [OF assms(2)]
  by (auto simp: sarif_result_def Let_def bindE_eq_Inr has_field_obj sarif_level_def has_severity_def or_else_def
      ascii_def)

lemma gitlab_issue_severity:
  assumes "gitlab_issue sha256 source v = Inr j" and "r_severity v \<in> range severity_text"
  shows "has_field ''severity'' ''major'' j \<longleftrightarrow> has_severity ''fatal'' v"
    and "has_field ''severity'' ''minor'' j \<longleftrightarrow> has_severity ''warning'' v"
  using assms(1) severity_cases [OF assms(2)]
  by (auto simp: gitlab_issue_def Let_def bindE_eq_Inr has_field_obj gitlab_severity_def has_severity_def or_else_def
      ascii_def)

lemma mapE_filter_length:
  assumes "mapE f xs = Inr ys" and "\<And>x y. x \<in> set xs \<Longrightarrow> f x = Inr y \<Longrightarrow> P y \<longleftrightarrow> Q x"
  shows "length (filter P ys) = length (filter Q xs)"
  using assms
proof (induction xs arbitrary: ys)
  case (Cons x xs)
  then obtain z zs where z: "f x = Inr z" "mapE f xs = Inr zs" "ys = z # zs"
    by (auto simp: bindE_eq_Inr)
  have "length (filter P zs) = length (filter Q xs)"
    by (rule Cons.IH [OF z(2)]) (use Cons.prems(2) in auto)
  with Cons.prems(2) [OF _ z(1)] z(3) show ?case by auto
qed simp

section \<open>What the readers of a report count\<close>

text \<open>The annotations of level error that a GitHub runner and an Azure runner read from the output.\<close>

definition github_errors :: "pystr \<Rightarrow> nat" where
  "github_errors out = length (filter (\<lambda>a. case a of None \<Rightarrow> False | Some (level, ps, m) \<Rightarrow> level = ascii ''error'')
     (map read_github (output_lines out)))"

definition azure_errors :: "pystr \<Rightarrow> nat" where
  "azure_errors out = length (filter (\<lambda>a. case a of None \<Rightarrow> False
     | Some (ps, m) \<Rightarrow> map_of ps (ascii ''type'') = Some (ascii ''error'')) (map read_azure (output_lines out)))"

text \<open>The names of the tags of an XML document, and the value of the first attribute of a name.\<close>

fun tags_of :: "pystr \<Rightarrow> pystr list" where
  "tags_of [] = []"
| "tags_of (c # s) = (if c = 60 then takeWhile (\<lambda>x. x \<noteq> 32 \<and> x \<noteq> 62) s # tags_of s else tags_of s)"

fun find_attribute :: "pystr \<Rightarrow> pystr \<Rightarrow> pystr option" where
  "find_attribute key [] = None"
| "find_attribute key (c # s) = (if starts_with key (c # s)
     then Some (fst (read_attribute (drop (length key) (c # s)))) else find_attribute key s)"

lemma tags_of_clean: "60 \<notin> set a \<Longrightarrow> tags_of (a @ b) = tags_of b"
  by (induction a) auto

lemma tags_of_quoted [simp]: "tags_of (quoteattr s @ b) = tags_of b" "tags_of (xml_escape s @ b) = tags_of b"
  using junit_values_read_back [of s "[]"] by (auto intro!: tags_of_clean)

text \<open>Every line of the document ends its last tag.\<close>

definition line_tags :: "pystr \<Rightarrow> pystr list \<Rightarrow> bool" where
  "line_tags l ts \<longleftrightarrow> (\<forall>b. tags_of (l @ b) = ts @ tags_of b)"

lemma line_tagsD: "line_tags l ts \<Longrightarrow> tags_of (l @ b) = ts @ tags_of b"
  by (simp add: line_tags_def)

lemma joined_tags:
  "list_all2 line_tags ls tss \<Longrightarrow> ls \<noteq> [] \<Longrightarrow> tags_of (py_join [10] ls @ b) = concat tss @ tags_of b"
proof (induction arbitrary: b rule: list_all2_induct)
  case (Cons l ls ts tss)
  show ?case
  proof (cases ls)
    case Nil
    with Cons show ?thesis by (auto dest: line_tagsD)
  next
    case (Cons k ks)
    with Cons.IH [of b] Cons.hyps(1) show ?thesis by (simp add: line_tagsD [OF Cons.hyps(1)])
  qed
qed simp

definition case_tags :: "finding_record \<Rightarrow> pystr list" where
  "case_tags v = (let t = (if or_else (r_severity v) (ascii ''fatal'') = ascii ''fatal'' then ''failure'' else ''system-out'') in
     [ascii ''testcase'', ascii t, 47 # ascii t, ascii ''/testcase''])"

lemma testcase_tags:
  assumes "60 \<notin> set classname"
  shows "\<exists>tss. list_all2 line_tags (junit_testcase source classname v) tss \<and> concat tss = case_tags v"
proof -
  have name: "line_tags (ascii ''    <testcase name='' @ quoteattr n @ ascii '' classname='' @ classname @ ascii ''>'')
      [ascii ''testcase'']" for n
    using assms by (simp add: line_tags_def ascii_def tags_of_clean)
  have failure: "line_tags (ascii ''      <failure message='' @ quoteattr m @ ascii ''>'' @ xml_escape x @ ascii ''</failure>'')
      [ascii ''failure'', ascii ''/failure'']" for m x
    by (simp add: line_tags_def ascii_def)
  have out: "line_tags (ascii ''      <system-out>'' @ xml_escape x @ ascii ''</system-out>'')
      [ascii ''system-out'', ascii ''/system-out'']" for x
    by (simp add: line_tags_def ascii_def)
  have close: "line_tags (ascii ''    </testcase>'') [ascii ''/testcase'']"
    by (simp add: line_tags_def ascii_def)
  show ?thesis
  proof (cases "or_else (r_severity v) (ascii ''fatal'') = ascii ''fatal''")
    case True
    then show ?thesis using name failure close
      by (intro exI [of _ "[[ascii ''testcase''], [ascii ''failure'', ascii ''/failure''], [ascii ''/testcase'']]"])
         (simp add: junit_testcase_def case_tags_def Let_def ascii_def)
  next
    case False
    then show ?thesis using name out close
      by (intro exI [of _ "[[ascii ''testcase''], [ascii ''system-out'', ascii ''/system-out''], [ascii ''/testcase'']]"])
         (simp add: junit_testcase_def case_tags_def Let_def ascii_def)
  qed
qed

lemma testcases_tags:
  assumes "60 \<notin> set classname"
  shows "\<exists>tss. list_all2 line_tags (concat (map (junit_testcase source classname) vs)) tss \<and>
    concat tss = concat (map case_tags vs)"
proof (induction vs)
  case (Cons v vs)
  obtain a b where "list_all2 line_tags (junit_testcase source classname v) a" "concat a = case_tags v"
      "list_all2 line_tags (concat (map (junit_testcase source classname) vs)) b"
      "concat b = concat (map case_tags vs)"
    using testcase_tags [OF assms] Cons by blast
  then show ?case by (intro exI [of _ "a @ b"]) (simp add: list_all2_appendI)
qed simp

lemma replace_char_id: "c \<notin> set s \<Longrightarrow> replace_char c w s = s"
  by (induction s) (auto simp: replace_char_def)

lemma quoted_number: "quoteattr (decimal_text n) = 34 # decimal_text n @ [34]"
  by (simp add: quoteattr_def xml_escape_def replace_char_id decimal_clean Let_def)

lemma suites_line_tags:
  "line_tags (ascii ''<testsuites '' @ count_attrs name c @ ascii ''>'') [ascii ''testsuites'']"
  "line_tags (ascii ''  <testsuite '' @ count_attrs name c @ ascii ''>'') [ascii ''testsuite'']"
  by (cases c; simp add: line_tags_def count_attrs_def ascii_def)+

lemma junit_tags:
  assumes "rp_error rp = None"
  shows "tags_of (build_junit rp) = [ascii ''?xml'', ascii ''testsuites'', ascii ''testsuite''] @
    concat (map case_tags (rp_violations rp)) @ [ascii ''/testsuite'', ascii ''/testsuites'']"
proof -
  have "60 \<notin> set (quoteattr (ascii (rp_profile rp)))"
    using junit_values_read_back [of "ascii (rp_profile rp)" "[]"] by auto
  from testcases_tags [OF this] obtain tss where
    cases: "list_all2 line_tags (concat (map (junit_testcase (rp_source rp) (quoteattr (ascii (rp_profile rp))))
      (rp_violations rp))) tss" "concat tss = concat (map case_tags (rp_violations rp))" by blast
  have heads: "line_tags (ascii ''<?xml version=\"1.0\" encoding=\"UTF-8\"?>'') [ascii ''?xml'']"
      "line_tags (ascii ''  </testsuite>'') [ascii ''/testsuite'']" "line_tags (ascii ''</testsuites>'') [ascii ''/testsuites'']"
    by (simp_all add: line_tags_def ascii_def)
  let ?body = "junit_suite_block rp None"
  let ?ls = "[ascii ''<?xml version=\"1.0\" encoding=\"UTF-8\"?>'',
       ascii ''<testsuites '' @ count_attrs JUNIT_SUITES_NAME (junit_counts rp) @ ascii ''>''] @ ?body @ [ascii ''</testsuites>'']"
  have "list_all2 line_tags ?ls
      ([[ascii ''?xml''], [ascii ''testsuites''], [ascii ''testsuite'']] @ tss @ [[ascii ''/testsuite''], [ascii ''/testsuites'']])"
    using cases(1) heads suites_line_tags assms
    by (simp add: junit_suite_block_def Let_def list_all2_appendI)
  from joined_tags [OF this, of "[10]"] show ?thesis
    by (simp add: build_junit_def junit_document_def cases(2))
qed

lemma find_attribute_skip: "k \<notin> set a \<Longrightarrow> find_attribute (k # key) (a @ s) = find_attribute (k # key) s"
  by (induction a) (auto simp: starts_with_iff)

lemma junit_declared:
  "find_attribute (ascii '' failures='') (build_junit rp) = Some (decimal_text (fst (snd (junit_counts rp))))"
proof -
  obtain t f e where c: "junit_counts rp = (t, f, e)" by (cases "junit_counts rp") auto
  obtain rest where doc: "build_junit rp = (ascii ''<?xml version=\"1.0\" encoding=\"UTF-8\"?>'' @ 10 #
      ascii ''<testsuites name='' @ quoteattr JUNIT_SUITES_NAME @ ascii '' tests='') @ quoteattr (decimal_text t) @
      ascii '' failures='' @ quoteattr (decimal_text f) @ rest"
    by (cases "junit_suite_block rp None @ [ascii ''</testsuites>'']")
       (auto simp: build_junit_def junit_document_def count_attrs_def c ascii_def)
  have quoted: "quoteattr JUNIT_SUITES_NAME = 34 # JUNIT_SUITES_NAME @ [34]"
    by (simp add: quoteattr_def xml_escape_def JUNIT_SUITES_NAME_def ascii_def replace_char_def Let_def)
  have key: "ascii '' failures='' = 32 # ascii ''failures=''" by (simp add: ascii_def)
  have "find_attribute (ascii '' failures='') (build_junit rp) =
      find_attribute (ascii '' failures='') (quoteattr (decimal_text t) @ ascii '' failures='' @ quoteattr (decimal_text f) @ rest)"
    unfolding doc quoted by (simp add: JUNIT_SUITES_NAME_def ascii_def)
  also have "\<dots> = find_attribute (ascii '' failures='') (ascii '' failures='' @ quoteattr (decimal_text f) @ rest)"
    unfolding key by (rule find_attribute_skip) (simp add: quoted_number decimal_clean)
  also have "\<dots> = Some (fst (read_attribute (quoteattr (decimal_text f) @ rest)))"
    by (simp add: ascii_def)
  also have "\<dots> = Some (decimal_text f)"
    using junit_values_read_back [of "decimal_text f" rest] by simp
  finally show ?thesis by (simp add: c)
qed

lemma case_tags_count:
  "count_list (case_tags v) (ascii ''testcase'') = 1"
  "r_severity v \<in> range severity_text \<Longrightarrow>
     count_list (case_tags v) (ascii ''failure'') = (if has_severity ''fatal'' v then 1 else 0)"
  by (auto simp: case_tags_def Let_def ascii_def has_severity_def or_else_def dest!: severity_cases)

lemma junit_failures:
  assumes "consistent rp" and "rp_error rp = None"
  shows "count_list (tags_of (build_junit rp)) (ascii ''testcase'') = length (rp_violations rp) \<and>
    count_list (tags_of (build_junit rp)) (ascii ''failure'') = rp_fatal_count rp"
proof -
  have "count_list (concat (map case_tags vs)) (ascii ''testcase'') = length vs" for vs
    by (induction vs) (simp_all add: case_tags_count)
  moreover have "(\<forall>v\<in>set vs. r_severity v \<in> range severity_text) \<Longrightarrow>
      count_list (concat (map case_tags vs)) (ascii ''failure'') = length (filter (has_severity ''fatal'') vs)" for vs
    by (induction vs) (simp_all add: case_tags_count)
  moreover have "count_list (tags_of (build_junit rp)) (ascii t) =
      count_list (concat (map case_tags (rp_violations rp))) (ascii t)"
    if "t = ''testcase'' \<or> t = ''failure''" for t
    using that by (auto simp: junit_tags [OF assms(2)] ascii_eq_iff)
  ultimately show ?thesis
    using assms(1) by (simp add: consistent_def count_severity_def)
qed

lemma github_output:
  assumes "rp_error rp = None" and "rp_violations rp \<noteq> [] \<or> 10 \<notin> set (rp_source rp)"
  shows "map read_github (output_lines (build_github rp)) =
    (if rp_violations rp = [] then [None] else map Some (github_annotations rp))"
proof (cases "rp_violations rp = []")
  case True
  then have ls: "github_lines rp = [ascii ''# einvoice: '' @ or_else (rp_source rp) (ascii ''input'') @
      ascii '' is conformant with EN 16931 '' @ 8212 # ascii '' no annotations'']"
    using assms(1) by (simp add: github_lines_def)
  have "output_lines (build_github rp) = github_lines rp"
    unfolding build_github_def
    by (rule output_lines_eq) (use assms True in \<open>auto simp: ls or_else_def ascii_def\<close>)
  with True show ?thesis by (simp add: ls read_github_def ascii_def)
next
  case False
  have "output_lines (build_github rp) = github_lines rp"
    unfolding build_github_def by (rule output_lines_eq) (rule github_lines_clean, use False in auto)
  with False show ?thesis by (simp add: read_github_lines)
qed

lemma azure_output:
  assumes "rp_error rp = None" and "rp_violations rp \<noteq> [] \<or> 10 \<notin> set (rp_source rp)"
  shows "map read_azure (output_lines (build_azure rp)) =
    (if rp_violations rp = [] then [None] else map Some (azure_annotations rp))"
proof (cases "rp_violations rp = []")
  case True
  then have ls: "azure_lines rp = [ascii ''# einvoice: '' @ or_else (rp_source rp) (ascii ''input'') @
      ascii '' is conformant with EN 16931 '' @ 8212 # ascii '' no issues'']"
    using assms(1) by (simp add: azure_lines_def)
  have "output_lines (build_azure rp) = azure_lines rp"
    unfolding build_azure_def
    by (rule output_lines_eq) (use assms True in \<open>auto simp: ls or_else_def ascii_def\<close>)
  with True show ?thesis by (simp add: ls read_azure_def ascii_def)
next
  case False
  have "output_lines (build_azure rp) = azure_lines rp"
    unfolding build_azure_def by (rule output_lines_eq) (rule azure_lines_clean, use False in auto)
  with False show ?thesis by (simp add: read_azure_lines)
qed

lemma runner_errors:
  assumes "consistent rp" and "rp_error rp = None"
    and "rp_violations rp \<noteq> [] \<or> 10 \<notin> set (rp_source rp)"
  shows "github_errors (build_github rp) = rp_fatal_count rp"
    and "azure_errors (build_azure rp) = rp_fatal_count rp"
proof -
  let ?vs = "rp_violations rp"
  have fatal: "rp_fatal_count rp = length (filter (has_severity ''fatal'') ?vs)"
    using assms(1) by (simp add: consistent_def count_severity_def)
  have level: "filter (\<lambda>v. level_of v = ascii ''error'') ?vs = filter (has_severity ''fatal'') ?vs"
    by (rule filter_cong [OF refl]) (use assms(1) in \<open>simp add: level_of_fatal consistent_def\<close>)
  show "github_errors (build_github rp) = rp_fatal_count rp"
    unfolding github_errors_def github_output [OF assms(2,3)]
    by (simp add: fatal level github_annotations_def github_annotation_def filter_map comp_def assms(2))
  have "map_of (fst (azure_annotation s v)) (ascii ''type'') = Some (level_of v)" for s v
    by (simp add: azure_annotation_def)
  then show "azure_errors (build_azure rp) = rp_fatal_count rp"
    unfolding azure_errors_def azure_output [OF assms(2,3)]
    by (simp add: fatal level azure_annotations_def filter_map comp_def assms(2) case_prod_beta)
qed

lemma sarif_errors:
  assumes "consistent rp" and "rp_error rp = None" and "sarif_results sha256 uri rp = Inr js"
  shows "length (filter (has_field ''level'' ''error'') js) = rp_fatal_count rp"
  using assms
  by (auto simp: sarif_results_def consistent_def count_severity_def intro!: mapE_filter_length sarif_result_level)

lemma gitlab_counts:
  assumes "consistent rp" and "rp_error rp = None" and "build_gitlab sha256 rp = Inr js"
  shows "length (filter (has_field ''severity'' ''major'') js) = rp_fatal_count rp"
    and "length (filter (has_field ''severity'' ''minor'') js) = rp_warning_count rp"
proof -
  let ?vs = "rp_violations rp"
  have js: "mapE (gitlab_issue sha256 (rp_source rp)) (filter is_conformance_issue ?vs) = Inr js"
    using assms(2,3) by (simp add: build_gitlab_def)
  have sev: "v \<in> set ?vs \<Longrightarrow> r_severity v \<in> range severity_text" for v
    using assms(1) by (simp add: consistent_def)
  have kept: "length (filter (has_severity s) (filter is_conformance_issue ?vs)) = count_severity s ?vs"
    if "s = ''fatal'' \<or> s = ''warning''" for s
    using that by (auto simp: count_severity_def has_severity_def is_conformance_issue_def or_else_def ascii_def
        intro!: arg_cong [where f = length] filter_cong)
  show "length (filter (has_field ''severity'' ''major'') js) = rp_fatal_count rp"
    using mapE_filter_length [OF js, where Q = "has_severity ''fatal''" and P = "has_field ''severity'' ''major''"]
      gitlab_issue_severity(1) sev kept assms(1) by (simp add: consistent_def)
  show "length (filter (has_field ''severity'' ''minor'') js) = rp_warning_count rp"
    using mapE_filter_length [OF js, where Q = "has_severity ''warning''" and P = "has_field ''severity'' ''minor''"]
      gitlab_issue_severity(2) sev kept assms(1) by (simp add: consistent_def)
qed

text \<open>C8: All formats tell their readers the same number of errors, the fatal findings of the
  report.  It is the number of error commands that a GitHub runner and an Azure runner read from the
  output (unless there are no findings and the name of the file has a line feed, see the comment
  line), the number of failure elements in the JUnit document and the number its root declares, the
  number of SARIF results of level error and the number of major GitLab issues; and JUnit has a
  test case for each finding, and the minor issues are the warnings.\<close>
theorem formats_agree:
  assumes "consistent rp" and "rp_error rp = None"
    and "rp_violations rp \<noteq> [] \<or> 10 \<notin> set (rp_source rp)"
  shows "github_errors (build_github rp) = rp_fatal_count rp \<and>
    azure_errors (build_azure rp) = rp_fatal_count rp \<and>
    count_list (tags_of (build_junit rp)) (ascii ''failure'') = rp_fatal_count rp \<and>
    count_list (tags_of (build_junit rp)) (ascii ''testcase'') = length (rp_violations rp) \<and>
    find_attribute (ascii '' failures='') (build_junit rp) = Some (decimal_text (rp_fatal_count rp)) \<and>
    (case sarif_results sha256 uri rp of Inl e \<Rightarrow> True
     | Inr js \<Rightarrow> length (filter (has_field ''level'' ''error'') js) = rp_fatal_count rp) \<and>
    (case build_gitlab sha256 rp of Inl e \<Rightarrow> True
     | Inr js \<Rightarrow> length (filter (has_field ''severity'' ''major'') js) = rp_fatal_count rp \<and>
         length (filter (has_field ''severity'' ''minor'') js) = rp_warning_count rp)"
  using assms runner_errors [OF assms] junit_failures [OF assms(1,2)] junit_declared [of rp]
    sarif_errors [OF assms(1,2), of sha256 uri] gitlab_counts [OF assms(1,2), of sha256]
  by (simp add: junit_counts_def split: sum.split)

lemma sample_consistent: "consistent (sample_report [sample_record] (ascii ''a.xml''))"
  by (simp add: consistent_def sample_report_def sample_record_def count_severity_def has_severity_def total_fatal_def
      severity_text_def image_iff) (rule exI [of _ Fatal], simp)

theorem formats_agree_witness:
  "github_errors (build_github (sample_report [sample_record] (ascii ''a.xml''))) = 1 \<and>
   count_list (tags_of (build_junit (sample_report [sample_record] (ascii ''a.xml'')))) (ascii ''failure'') = 1"
  using formats_agree [OF sample_consistent, of undefined undefined] by (simp add: sample_report_def)

end
