(* ===== verification/EI_Batch_Props.thy ===== *)
theory EI_Batch_Props
  imports EI_Report_Props
begin

text \<open>
  Directories: the files that are graded, the exit code of a directory against those of its files,
  and the ranking of the rules.
\<close>

section \<open>The files of a directory\<close>

text \<open>A file is graded when its own name and the names of the directories on the way do not start
  with a dot, it has one of the two extensions, and no link to a directory is on the way.\<close>

inductive invoice_in :: "pystr \<Rightarrow> walk_tree \<Rightarrow> pystr \<Rightarrow> bool" where
  here: "(n, AFile) \<in> set es \<Longrightarrow> \<not> is_dotted n \<Longrightarrow> has_extension n \<Longrightarrow> invoice_in d (Walk es) (path_join d n)"
| below: "(n, ADir t) \<in> set es \<Longrightarrow> \<not> is_dotted n \<Longrightarrow> invoice_in (path_join d n) t p \<Longrightarrow> invoice_in d (Walk es) p"

inductive_simps invoice_in_Walk: "invoice_in d (Walk es) p"

lemma set_walk_dirs: "p \<in> set (walk_dirs d es) \<longleftrightarrow>
    (\<exists>n t. (n, ADir t) \<in> set es \<and> \<not> is_dotted n \<and> p \<in> set (walk_files (path_join d n) t))"
proof (induction es)
  case (Cons e es)
  obtain n k where e: "e = (n, k)" by fastforce
  show ?case using Cons by (cases k) (auto simp: e)
qed simp

lemma set_invoice_names: "n \<in> set (invoice_names es) \<longleftrightarrow> (n, AFile) \<in> set es \<and> \<not> is_dotted n \<and> has_extension n"
  by (force simp: invoice_names_def)

lemma walk_files_complete: "invoice_in d t p \<Longrightarrow> p \<in> set (walk_files d t)"
  by (induction rule: invoice_in.induct) (auto simp: set_walk_dirs set_invoice_names)

lemma walk_files_sound: "p \<in> set (walk_files d t) \<Longrightarrow> invoice_in d t p"
proof (induction t arbitrary: d rule: measure_induct_rule [of size])
  case (less t)
  obtain es where t: "t = Walk es" by (cases t)
  from less.prems consider n where "n \<in> set (invoice_names es)" "p = path_join d n"
    | "p \<in> set (walk_dirs d es)" by (auto simp: t)
  then show ?case
  proof cases
    case 1
    then show ?thesis by (auto simp: t set_invoice_names intro: here)
  next
    case 2
    then obtain n u where u: "(n, ADir u) \<in> set es" "\<not> is_dotted n" "p \<in> set (walk_files (path_join d n) u)"
      by (auto simp: set_walk_dirs)
    have "size u < size t" using u(1) by (simp add: t) (induction es; auto)
    from less.IH [OF this u(3)] show ?thesis unfolding t by (rule below [OF u(1,2)])
  qed
qed

text \<open>C21: The files of a directory that are graded are exactly those that the walk reaches without
  entering a dotted directory or following a link, and they are graded in the order of their paths.\<close>
theorem graded_files:
  "sorted (collect_invoice_files d t) \<and> (p \<in> set (collect_invoice_files d t) \<longleftrightarrow> invoice_in d t p)"
  by (auto simp: collect_invoice_files_def walk_files_complete walk_files_sound)

section \<open>The exit code of a directory\<close>

lemma failed_count: "b_failed_file_count (batch_of rt profile rps) = 0 \<longleftrightarrow> (\<forall>rp\<in>set rps. \<not> report_failed rp)"
  by (simp add: batch_of_def filter_empty_conv)

lemma batch_exit_0: "batch_exit_code (batch_of rt profile rps) = 0 \<longleftrightarrow> (\<forall>rp\<in>set rps. \<not> report_failed rp)"
  by (auto simp: batch_exit_code_def batch_of_def report_failed_def list_ex_iff EXIT_OK_def EXIT_FAIL_def EXIT_PARSE_def)

text \<open>C9: A directory whose files are all valid exits with 0, and the exit code is 0 exactly when the
  count of failed files is 0.  The converse fails: a file that is graded alone exits with 1 for a
  fatal finding of the syntax binding passes in a directory, although its report says that it is
  not valid, and its badge calls it conformant.\<close>
theorem directory_exit_code:
  assumes "list_all consistent rps" and "rp \<in> set rps"
  shows "(list_all rp_valid rps \<longrightarrow> batch_exit_code (batch_of rt profile rps) = 0) \<and>
    (batch_exit_code (batch_of rt profile rps) = 0 \<longleftrightarrow> b_failed_file_count (batch_of rt profile rps) = 0) \<and>
    (batch_exit_code (batch_of rt profile rps) = 0 \<and> \<not> rp_valid rp \<longrightarrow>
       single_exit_code rp = 1 \<and> rp_fatal_count rp = 0 \<and> badge_color (build_badge rp) \<noteq> ascii ''red'')"
proof -
  have ok: "consistent q" if "q \<in> set rps" for q using assms(1) that by (simp add: list_all_iff)
  have "\<not> report_failed q" if "rp_valid q" "q \<in> set rps" for q
    using ok [OF that(2)] that(1) by (auto simp: consistent_def report_failed_def total_fatal_def)
  moreover have "single_exit_code rp = 1 \<and> rp_fatal_count rp = 0 \<and> badge_color (build_badge rp) \<noteq> ascii ''red''"
    if "\<not> report_failed rp" "\<not> rp_valid rp"
    using ok [OF assms(2)] that
    by (auto simp: consistent_def report_failed_def single_exit_code_def EXIT_FAIL_def build_badge_def Let_def
        ascii_def)
  ultimately show ?thesis
    using assms(2) by (auto simp: batch_exit_0 failed_count list_all_iff)
qed

definition bound_report :: report where
  "bound_report = \<lparr> rp_source = ascii ''a.xml'', rp_profile = ''en16931'', rp_valid = False, rp_error = None,
     rp_fatal_count = 0, rp_warning_count = 0, rp_violations = [],
     rp_bindings = Some \<lparr> sb_bindings = [\<lparr> f_id = ascii ''UBL-SR-01'', f_severity = Fatal, f_flag = ascii ''fatal'',
       f_message = [], f_element = [] \<rparr>], sb_fatal_count = 1, sb_warning_count = 0 \<rparr> \<rparr>"

theorem directory_exit_code_witness:
  "batch_exit_code (batch_of [] ''en16931'' [bound_report]) = 0 \<and> single_exit_code bound_report = 1"
proof -
  have "list_all consistent [bound_report]"
    by (simp add: consistent_def bound_report_def count_severity_def total_fatal_def)
  from directory_exit_code [OF this, of bound_report "[]" "''en16931''"]
  show ?thesis
    by (simp add: batch_exit_0 report_failed_def) (simp add: bound_report_def)
qed

section \<open>The ranking of the rules\<close>

definition rules_of :: "report \<Rightarrow> pystr set" where
  "rules_of rp = r_rule ` set (rp_violations rp)"

text \<open>The number of files a rule occurs in, and its best severity.\<close>

definition files_with :: "report list \<Rightarrow> pystr \<Rightarrow> nat" where
  "files_with rps rid = length (filter (\<lambda>rp. rid \<in> rules_of rp) rps)"

definition ranks_in :: "finding_record list \<Rightarrow> pystr \<Rightarrow> nat set" where
  "ranks_in vs rid = {severity_rank (r_severity v) | v. v \<in> set vs \<and> r_rule v = rid}"

definition min_opt :: "nat set \<Rightarrow> nat option" where
  "min_opt A = (if A = {} then None else Some (Min A))"

lemma ranks_in_simps [simp]:
  "ranks_in [] rid = {}"
  "ranks_in (v # vs) rid = (if r_rule v = rid then insert (severity_rank (r_severity v)) (ranks_in vs rid) else ranks_in vs rid)"
  by (auto simp: ranks_in_def)

lemma ranks_in_append [simp]: "ranks_in (xs @ ys) rid = ranks_in xs rid \<union> ranks_in ys rid"
  by (auto simp: ranks_in_def)

lemma finite_ranks_in [simp]: "finite (ranks_in vs rid)"
  by (simp add: ranks_in_def)

lemma Min_insert_if: "finite A \<Longrightarrow> Min (insert k A) = (if A = {} then k else min k (Min A :: nat))"
  by simp

lemma Min_Un_if: "finite A \<Longrightarrow> finite B \<Longrightarrow> A \<noteq> {} \<Longrightarrow>
    Min (A \<union> B) = (if B = {} then Min A else min (Min A) (Min B :: nat))"
  by (simp add: Min_Un)

lemma bump_map: "map_of (bump k m) = (map_of m)(k := Some (case map_of m k of None \<Rightarrow> 1 | Some n \<Rightarrow> n + 1))"
  by (auto simp: bump_def map_of_append map_add_def update_conv' fun_eq_iff split: option.splits)

lemma bump_keys: "distinct (map fst m) \<Longrightarrow> distinct (map fst (bump k m))"
  by (auto simp: bump_def map_of_eq_None_iff distinct_update split: option.splits)

lemma count_file_spec:
  assumes "count_file vs seen (files, ranks) = (files', ranks')" and "distinct (map fst files)"
  shows "distinct (map fst files') \<and>
    (\<forall>rid. map_of files' rid = (if rid \<in> r_rule ` set vs - seen
       then Some (case map_of files rid of None \<Rightarrow> 1 | Some n \<Rightarrow> n + 1) else map_of files rid)) \<and>
    (\<forall>rid. ranks' rid = (case ranks rid of None \<Rightarrow> min_opt (ranks_in vs rid)
       | Some k \<Rightarrow> Some (Min (insert k (ranks_in vs rid)))))"
  using assms
proof (induction vs seen "(files, ranks)" arbitrary: files ranks rule: count_file.induct)
  case (1 seen files ranks)
  then show ?case by (auto simp: min_opt_def split: option.splits)
next
  case (2 v vs seen files ranks)
  let ?r = "lower_rank (r_rule v) (severity_rank (r_severity v)) ranks"
  have rank: "(case ?r rid of None \<Rightarrow> min_opt (ranks_in vs rid)
       | Some k \<Rightarrow> Some (Min (insert k (ranks_in vs rid)))) =
     (case ranks rid of None \<Rightarrow> min_opt (ranks_in (v # vs) rid)
       | Some k \<Rightarrow> Some (Min (insert k (ranks_in (v # vs) rid))))" for rid
    by (cases "ranks_in vs rid = {}"; cases "ranks rid")
      (simp_all add: lower_rank_def min_opt_def min.assoc Min_insert_if del: Min_insert)
  show ?case
  proof (cases "r_rule v \<in> seen")
    case True
    then have "count_file vs seen (files, ?r) = (files', ranks')" using "2.prems"(1) by (simp add: Let_def)
    from "2.hyps"(1) [OF refl refl True this "2.prems"(2)] True
    show ?thesis by (auto simp: rank)
  next
    case False
    then have "count_file vs (insert (r_rule v) seen) (bump (r_rule v) files, ?r) = (files', ranks')"
      using "2.prems"(1) by (simp add: Let_def)
    from "2.hyps"(2) [OF refl refl False this bump_keys [OF "2.prems"(2)]] False
    show ?thesis by (auto simp: rank bump_map)
  qed
qed

lemma rule_counts_snoc: "rule_counts (rps @ [rp]) = count_file (rp_violations rp) {} (rule_counts rps)"
  by (simp add: rule_counts_def)

lemma rule_counts_spec:
  "rule_counts rps = (files, ranks) \<Longrightarrow> distinct (map fst files) \<and>
    (\<forall>rid. map_of files rid = (if files_with rps rid = 0 then None else Some (files_with rps rid))) \<and>
    (\<forall>rid. ranks rid = min_opt (ranks_in (concat (map rp_violations rps)) rid))"
proof (induction rps arbitrary: files ranks rule: rev_induct)
  case Nil
  then show ?case by (auto simp: rule_counts_def files_with_def min_opt_def)
next
  case (snoc rp rps)
  obtain fs rs where st: "rule_counts rps = (fs, rs)" by fastforce
  note old = snoc.IH [OF st]
  have step: "count_file (rp_violations rp) {} (fs, rs) = (files, ranks)"
    using snoc.prems by (simp add: rule_counts_snoc st)
  have "ranks rid = min_opt (ranks_in (concat (map rp_violations (rps @ [rp]))) rid)" for rid
    using count_file_spec [OF step] old
    by (cases "ranks_in (concat (map rp_violations rps)) rid = {}")
      (simp_all add: min_opt_def Min_insert_if Min_Un_if del: Min_insert)
  moreover have "map_of files rid = (if files_with (rps @ [rp]) rid = 0 then None else Some (files_with (rps @ [rp]) rid))" for rid
    using count_file_spec [OF step] old by (simp add: files_with_def rules_of_def)
  ultimately show ?case using count_file_spec [OF step] old by blast
qed

text \<open>C20: The ranking of a directory counts for each rule the files it occurs in, not its findings;
  it lists every rule that occurs once, first by the number of files, then fatal before warning
  before information, then in the natural order of the identifiers.\<close>
theorem rule_ranking:
  "case batch_rule_frequency rps of (ordered, files) \<Rightarrow>
     distinct ordered \<and> set ordered = \<Union> (rules_of ` set rps) \<and>
     sorted (map (\<lambda>rid. (- int (files_with rps rid),
       the (min_opt (ranks_in (concat (map rp_violations rps)) rid)), rule_sort_key rid, rid)) ordered) \<and>
     (\<forall>rid. map_of files rid = (if files_with rps rid = 0 then None else Some (files_with rps rid)))"
proof -
  obtain files ranks where st: "rule_counts rps = (files, ranks)" by fastforce
  note spec = rule_counts_spec [OF st]
  let ?key = "\<lambda>rid. (- int (files_with rps rid), the (min_opt (ranks_in (concat (map rp_violations rps)) rid)),
    rule_sort_key rid, rid)"
  have keys: "rid \<in> fst ` set files \<longleftrightarrow> files_with rps rid \<noteq> 0" for rid
    using spec by (metis map_of_eq_None_iff option.distinct(1))
  have "rule_frequency_key files ranks rid = ?key rid" if "rid \<in> fst ` set files" for rid
    using spec keys that by (simp add: rule_frequency_key_def)
  then have "map (rule_frequency_key files ranks) (sort_key (rule_frequency_key files ranks) (map fst files)) =
      map ?key (sort_key (rule_frequency_key files ranks) (map fst files))"
    by auto
  then have "sorted (map ?key (sort_key (rule_frequency_key files ranks) (map fst files)))"
    by (metis sorted_sort_key)
  moreover have "fst ` set files = \<Union> (rules_of ` set rps)"
    by (auto simp: keys files_with_def filter_empty_conv set_eq_iff simp del: image_iff)
  ultimately show ?thesis
    using spec by (simp add: batch_rule_frequency_def st)
qed

end
