(* ===== verification/EI_Gate_Props.thy ===== *)
theory EI_Gate_Props
  imports EI_Batch_Props "HOL-Library.Multiset"
begin

text \<open>
  The baseline gate: the difference of two reports is the difference of multisets, the gate stops
  exactly the regressions, a report passes against itself; and the ends of the command.
\<close>

section \<open>The difference\<close>

definition key_of :: "items \<Rightarrow> json list" where
  "key_of rec = map norm_key (diff_key rec)"

definition keyed :: "items \<Rightarrow> bool" where
  "keyed rec \<longleftrightarrow> list_all hashable (diff_key rec)"

definition keys :: "items list \<Rightarrow> json list multiset" where
  "keys recs = mset (map key_of recs)"

lemma keys_simps [simp]: "keys [] = {#}" "keys (rec # recs) = add_mset (key_of rec) (keys recs)"
  by (simp_all add: keys_def)

lemma counter_key_eq: "counter_key rec = (if keyed rec then Inr (key_of rec) else Inl TypeError)"
  by (simp add: counter_key_def keyed_def key_of_def Let_def)

lemma mapE_counter_key:
  "mapE counter_key recs = (if list_all keyed recs then Inr (map key_of recs) else Inl TypeError)"
  by (induction recs) (simp_all add: counter_key_eq)

lemma counter_eq: "counter recs = (if list_all keyed recs then Inr (count (keys recs)) else Inl TypeError)"
  by (simp add: counter_def mapE_counter_key keys_def fun_eq_iff count_mset del: mset_map)

lemma match_loop_raises: "match_loop pool recs = Inl e \<Longrightarrow> e = TypeError \<and> \<not> list_all keyed recs"
  by (induction recs arbitrary: pool) (auto simp: counter_key_eq bindE_eq_Inl split: if_splits prod.splits)

lemma count_remove: "(count M)(k := count M k - Suc 0) = count (M - {#k#})"
  by (simp add: fun_eq_iff)

lemma match_loop_spec:
  "match_loop (count M) recs = Inr (unmatched, n) \<Longrightarrow> list_all keyed recs \<and> subseq unmatched recs \<and>
     keys unmatched = keys recs - M \<and> n = size (keys recs \<inter># M)"
proof (induction recs arbitrary: M unmatched n)
  case (Cons rec recs)
  then have rec: "keyed rec" by (auto simp: counter_key_eq split: if_splits)
  show ?case
  proof (cases "key_of rec \<in># M")
    case True
    then obtain m where m: "match_loop (count (M - {#key_of rec#})) recs = Inr (unmatched, m)" "n = Suc m"
      using Cons.prems rec by (auto simp: counter_key_eq count_remove bindE_eq_Inr)
    from True obtain N where "M = add_mset (key_of rec) N" by (auto dest: multi_member_split)
    with Cons.IH [OF m(1)] m(2) rec show ?thesis by auto
  next
    case False
    then obtain us where m: "match_loop (count M) recs = Inr (us, n)" "unmatched = rec # us"
      using Cons.prems rec by (auto simp: counter_key_eq bindE_eq_Inr)
    from Cons.IH [OF m(1)] m(2) rec False show ?thesis
      by (auto simp: diff_add_mset_swap inter_add_left1)
  qed
qed simp


lemma multiset_diff_spec:
  "case multiset_diff current baseline of
     Inl e \<Rightarrow> e = TypeError \<and> \<not> list_all keyed (current @ baseline)
   | Inr (new, resolved, n) \<Rightarrow> list_all keyed (current @ baseline) \<and>
       keys new = keys current - keys baseline \<and> keys resolved = keys baseline - keys current \<and>
       n = size (keys current \<inter># keys baseline) \<and> subseq new current \<and> subseq resolved baseline"
proof (cases "multiset_diff current baseline")
  case (Inl e)
  then have "e = TypeError \<and> \<not> list_all keyed (current @ baseline)"
    by (auto simp: multiset_diff_def bindE_eq_Inl counter_eq split: if_splits prod.splits dest!: match_loop_raises)
  then show ?thesis by (simp add: Inl)
next
  case (Inr r)
  obtain new resolved n where r: "r = (new, resolved, n)" by (cases r) auto
  from Inr obtain m where "match_loop (count (keys baseline)) current = Inr (new, n)"
      "match_loop (count (keys current)) baseline = Inr (resolved, m)"
    by (auto simp: multiset_diff_def bindE_eq_Inr counter_eq r split: if_splits prod.splits)
  from this [THEN match_loop_spec] show ?thesis by (simp add: Inr r)
qed

lemma map_subseq_mset_empty: "keys xs = {#} \<longleftrightarrow> xs = []"
  by (simp add: keys_def)

text \<open>Whether a record is fatal can be read off its key.\<close>

definition fatal_key :: "json list \<Rightarrow> bool" where
  "fatal_key k \<longleftrightarrow> k ! 3 = JStr (ascii ''fatal'')"

lemma norm_key_JStr [simp]: "norm_key j = JStr s \<longleftrightarrow> j = JStr s"
  by (cases j) auto

lemma fatal_key_of: "fatal_key (key_of rec) \<longleftrightarrow> is_fatal_item rec"
  by (simp add: fatal_key_def key_of_def diff_key_def DIFF_KEY_def is_fatal_item_def numeral_3_eq_3)

lemma no_fatal_iff: "count_fatal recs = 0 \<longleftrightarrow> (\<forall>k. fatal_key k \<longrightarrow> count (keys recs) k = 0)"
proof -
  have "count_fatal recs = 0 \<longleftrightarrow> (\<forall>k\<in>#keys recs. \<not> fatal_key k)"
    by (simp add: count_fatal_def filter_empty_conv keys_def fatal_key_of)
  also have "\<dots> \<longleftrightarrow> (\<forall>k. fatal_key k \<longrightarrow> count (keys recs) k = 0)"
    by (metis not_in_iff)
  finally show ?thesis .
qed

text \<open>C4: The difference of two lists of records, by rule, field, message and severity, is the
  difference of multisets: the new records are those of the current report beyond their number in
  the baseline, the resolved ones those of the baseline beyond their number in the current report,
  both in the order of their report, and the rest is unchanged.  It raises \<open>TypeError\<close> exactly
  when a field of some key is a list or an object.\<close>
theorem difference_of_multisets:
  "case multiset_diff current baseline of
     Inl e \<Rightarrow> e = TypeError \<and> \<not> list_all keyed (current @ baseline)
   | Inr (new, resolved, n) \<Rightarrow> list_all keyed (current @ baseline) \<and>
       keys new = keys current - keys baseline \<and> keys resolved = keys baseline - keys current \<and>
       n = size (keys current \<inter># keys baseline) \<and> subseq new current \<and> subseq resolved baseline"
  by (rule multiset_diff_spec)

section \<open>The gate\<close>

text \<open>Only the records of the rules are compared.\<close>

lemma bindings_not_compared:
  "build_diff (current\<lparr> rp_bindings := sb, rp_valid := ok \<rparr>) data profile path =
    build_diff current data profile path"
  by (simp add: build_diff_def Let_def)

lemma gate_counts_rules:
  "case build_diff current data profile path of Inl e \<Rightarrow> True
   | Inr d \<Rightarrow> (diff_exit_code d = 3 \<longleftrightarrow> rp_error current \<noteq> None) \<and>
       (if rp_error current = None then diff_exit_code d = 0 \<longleftrightarrow>
          \<not> (\<exists>k. fatal_key k \<and> count (keys (baseline_violations data)) k
             < count (keys (map record_items (rp_violations current))) k) else True)"
proof (cases "build_diff current data profile path")
  case (Inr d)
  show ?thesis
  proof (cases "rp_error current")
    case None
    let ?cur = "map record_items (rp_violations current)" and ?old = "baseline_violations data"
    from Inr None obtain new resolved n where m: "multiset_diff ?cur ?old = Inr (new, resolved, n)"
        "df_error d = None" "df_new_fatal_count d = count_fatal new"
      by (auto simp: build_diff_def Let_def bindE_eq_Inr)
    have "count_fatal new = 0 \<longleftrightarrow> (\<forall>k. fatal_key k \<longrightarrow> count (keys new) k = 0)"
      by (rule no_fatal_iff)
    also have "keys new = keys ?cur - keys ?old"
      using multiset_diff_spec [of ?cur ?old] m(1) by simp
    finally show ?thesis
      using m by (auto simp: Inr None diff_exit_code_def EXIT_OK_def EXIT_FAIL_def EXIT_PARSE_def not_less)
  next
    case (Some e)
    with Inr have "df_error d = Some e" by (auto simp: build_diff_def Let_def)
    then show ?thesis by (simp add: Inr Some diff_exit_code_def EXIT_PARSE_def)
  qed
qed simp

text \<open>C5: The gate passes exactly when no fatal finding of the rules occurs more often in the current
  report than in the baseline, whatever else has changed, and it fails with 3 exactly when the
  current file can not be graded.  The findings of the syntax binding do not count: the result is
  the same whatever they are, so a new fatal one passes.\<close>
theorem gate_stops_regressions:
  "case build_diff current data profile path of Inl e \<Rightarrow> True
   | Inr d \<Rightarrow> (diff_exit_code d = 3 \<longleftrightarrow> rp_error current \<noteq> None) \<and>
       (if rp_error current = None then diff_exit_code d = 0 \<longleftrightarrow>
          \<not> (\<exists>k. fatal_key k \<and> count (keys (baseline_violations data)) k
             < count (keys (map record_items (rp_violations current))) k) else True) \<and>
       build_diff (current\<lparr> rp_bindings := sb, rp_valid := ok \<rparr>) data profile path = Inr d"
  using gate_counts_rules [of current data profile path]
    bindings_not_compared [where current = current and sb = sb and ok = ok]
  by (cases "build_diff current data profile path") simp_all

lemma keyed_record: "keyed (record_items v)"
proof -
  have "obj_get (record_items v) key = (case map_of
     ([(''rule'', JStr (r_rule v)), (''severity'', JStr (r_severity v)), (''message'', JStr (r_message v)),
       (''field'', JStr (r_field v)), (''title'', text_json (r_title v)),
       (''fix_hint'', text_json (r_fix_hint v)), (''terms'', JArr (map JStr (r_terms v))),
       (''location'', text_json (r_location v)), (''element'', JStr (r_element v))] @
      line_item ''source_line'' (r_source_line v) @
      line_item ''insertion_point_line'' (r_insertion_point_line v)) key of None \<Rightarrow> JNull | Some j \<Rightarrow> j)" for key
    unfolding record_items_def by (rule obj_get_obj)
  then show ?thesis by (simp add: keyed_def diff_key_def DIFF_KEY_def)
qed

text \<open>C19: A report passes the gate against itself: the JSON document of a report is accepted as a
  baseline, under its own profile, and nothing is new, nothing is resolved, everything unchanged.\<close>
theorem report_passes_against_itself:
  "case load_baseline (Some (Some (report_json rp))) of Inl e \<Rightarrow> False
   | Inr data \<Rightarrow> (case check_baseline_profile data (rp_profile rp) of Inl e \<Rightarrow> False | Inr p \<Rightarrow> True) \<and>
       (case build_diff rp data (rp_profile rp) path of Inl e \<Rightarrow> False
        | Inr d \<Rightarrow> df_new d = [] \<and> df_resolved d = [] \<and>
            df_unchanged_count d = (if rp_error rp = None then length (rp_violations rp) else 0) \<and>
            diff_exit_code d = (if rp_error rp = None then 0 else 3))"
proof -
  let ?recs = "map record_items (rp_violations rp)"
  obtain kvs where obj: "report_json rp = obj kvs" and kvs: "map_of kvs ''violations'' =
      Some (JArr (map (\<lambda>v. JObj (record_items v)) (rp_violations rp)))"
      "map_of kvs ''profile'' = Some (JStr (ascii (rp_profile rp)))"
    by (cases "rp_error rp") (auto simp: report_json_def)
  let ?data = "map (\<lambda>(k, v). (ascii k, v)) kvs"
  have get: "obj_get ?data ''violations'' = JArr (map (\<lambda>v. JObj (record_items v)) (rp_violations rp))"
      "obj_get ?data ''profile'' = JStr (ascii (rp_profile rp))"
    by (simp_all add: obj_get_obj kvs)
  have load: "load_baseline (Some (Some (report_json rp))) = Inr ?data"
    by (simp add: load_baseline_def obj obj_def get list_all_iff is_object_def)
  have old: "baseline_violations ?data = ?recs"
    by (simp add: baseline_violations_def get items_of_def)
  have "list_all keyed ?recs"
    by (simp add: list_all_iff keyed_record)
  then obtain r where r: "multiset_diff ?recs ?recs = Inr r"
    using multiset_diff_spec [of ?recs ?recs] by (cases "multiset_diff ?recs ?recs") auto
  obtain new resolved n where "r = (new, resolved, n)" by (cases r) auto
  with multiset_diff_spec [of ?recs ?recs] r
  have "multiset_diff ?recs ?recs = Inr ([], [], length ?recs)" by (simp add: keys_def)
  then show ?thesis
    by (cases "rp_error rp") (auto simp: load check_baseline_profile_def declared_baseline_profile_def get
        build_diff_def Let_def old diff_exit_code_def count_fatal_def EXIT_OK_def EXIT_PARSE_def)
qed

section \<open>The ends of the command\<close>

text \<open>An argument that does not start with a hyphen is a path.\<close>

lemma path_argument:
  assumes "c \<noteq> 45"
  shows "parse_args [c # p] opts = Options (opts\<lparr> o_rest := o_rest opts @ [c # p] \<rparr>)"
    and "filter (\<lambda>a. a \<noteq> ascii ''--pretty'' \<and> a \<noteq> ascii ''--recurse'') [c # p] = [c # p]"
    and "ascii ''--pretty'' \<notin> set [c # p]" "ascii ''--recurse'' \<notin> set [c # p]"
  using assms by (simp_all add: flag_named_def flag_assigned_def VALUE_FLAGS_def ascii_def startswith_def)

lemma default_lookups:
  "find (\<lambda>f. ascii f = ascii ''json'') REPORT_FORMATS = Some ''json''"
  "find (\<lambda>p. ascii p = ascii ''xrechnung'') PROFILES = Some ''xrechnung''"
  "find (\<lambda>f. f = ''json'') REPORT_FORMATS = Some ''json''"
  "find (\<lambda>p. p = ''xrechnung'') PROFILES = Some ''xrechnung''"
  by (simp_all add: REPORT_FORMATS_def PROFILES_def ascii_def)

lemma report_main_path:
  assumes "c \<noteq> 45"
  shows "report_main env [c # p] =
    (if en_isdir env (c # p)
     then finish (bindE (build_batch_report (report_at env ''xrechnung'') ''xrechnung'' (c # p) (en_walk env (c # p)))
        (\<lambda>b. Inr (Exit (batch_exit_code b) (Document (render_batch b ''json'' False)))))
     else if \<not> en_isfile env (c # p) then Exit EXIT_FAIL Nothing
     else single_mode env False ''json'' ''xrechnung'' (c # p))"
  using path_argument [OF assms, of p]
  by (simp add: report_main_def report_mode_def batch_mode_def default_options_def default_lookups BATCH_FORMATS_def
      del: parse_args.simps)

text \<open>A file of a directory that can not be read ends the command with an exception that
  nothing catches, while the same file alone is refused with exit code 1 and nothing written.\<close>
theorem unreadable_file_ends:
  assumes "c \<noteq> 45" and "c' \<noteq> 45" and "en_isdir env (c # p)" and "en_walk env (c # p) = Walk [(n, AFile)]"
    and "\<not> is_dotted n" and "has_extension n" and "path_join (c # p) n = c' # q"
    and "\<not> en_isdir env (c' # q)" and "en_isfile env (c' # q)" and "en_read env (c' # q) = None"
  shows "report_main env [c # p] = Traceback OsFailure \<and> report_main env [c' # q] = Exit 1 Nothing"
proof
  have "collect_invoice_files (c # p) (Walk [(n, AFile)]) = [c' # q]"
    by (simp add: collect_invoice_files_def invoice_names_def assms(5-7))
  then show "report_main env [c # p] = Traceback OsFailure"
    by (simp add: report_main_path [OF assms(1)] assms(3,4,10) build_batch_report_def build_batch_report_from_files_def
        report_at_def finish_def)
  show "report_main env [c' # q] = Exit 1 Nothing"
    by (simp add: report_main_path [OF assms(2)] assms(8-10) single_mode_def report_at_def EXIT_FAIL_def)
qed

definition sample_env :: "nat report_env" where
  "sample_env = \<lparr> en_world = \<lparr> w_expat = (\<lambda>f. []), w_py311 = True, w_catalog = (\<lambda>rid. None), w_syntax = None,
       w_text = path_text, w_parse_error = (\<lambda>f. []), w_container = (\<lambda>f. NoPdf) \<rparr>,
     en_explain = [], en_repr = id, en_sha256 = (\<lambda>b. []), en_isdir = (\<lambda>f. f = ascii ''d''),
     en_isfile = (\<lambda>f. f = ascii ''d/a.XML''), en_read = (\<lambda>f. None),
     en_walk = (\<lambda>d. Walk [(ascii ''a.XML'', AFile)]), en_json = (\<lambda>f. None) \<rparr>"

theorem unreadable_file_ends_witness:
  "report_main sample_env [ascii ''d''] = Traceback OsFailure \<and> report_main sample_env [ascii ''d/a.XML''] = Exit 1 Nothing"
proof -
  have "path_join (ascii ''d'') (ascii ''a.XML'') = ascii ''d/a.XML''"
    by (simp add: path_join_def isabs_def startswith_def endswith_sep_def sep_def ascii_def)
  moreover have "\<not> is_dotted (ascii ''a.XML'')" "has_extension (ascii ''a.XML'')"
    by (simp_all add: is_dotted_def startswith_def dot_def has_extension_def BATCH_INVOICE_EXTS_def lower_def
        lower_char_def ascii_def)
  ultimately show ?thesis
    using unreadable_file_ends [of 100 100 sample_env "[]" "ascii ''a.XML''" "ascii ''/a.XML''"]
    by (simp add: sample_env_def ascii_def)
qed

text \<open>A baseline whose shape is accepted, a record of which has a list for its rule, raises
  \<open>TypeError\<close> in the comparison, for every report of a file that can be graded.\<close>
theorem unhashable_baseline_raises:
  "case load_baseline (Some (Some (obj [(''violations'', JArr [obj [(''rule'', JArr [])]])]))) of Inl e \<Rightarrow> False
   | Inr data \<Rightarrow> check_baseline_profile data profile = Inr None \<and>
       (if rp_error current = None then build_diff current data profile path = Inl TypeError else True)"
proof -
  let ?data = "[(ascii ''violations'', JArr [obj [(''rule'', JArr [])]])]"
  have rec: "obj_get ?data ''violations'' = JArr [obj [(''rule'', JArr [])]]" "obj_get ?data ''profile'' = JNull"
    by (simp_all add: obj_get_def ascii_def)
  have "counter [[(ascii ''rule'', JArr [])]] = Inl TypeError"
    by (simp add: counter_eq keyed_def diff_key_def DIFF_KEY_def obj_get_def)
  then show ?thesis
    by (simp add: load_baseline_def obj_def rec [unfolded obj_def, simplified] is_object_def check_baseline_profile_def
        declared_baseline_profile_def build_diff_def Let_def baseline_violations_def items_of_def multiset_diff_def)
qed

end
