(* ===== verification/Spec2Isabelle.thy ===== *)
theory Spec2Isabelle
  imports VH_Witness VH_Keccak_Test EI_Run EI_Dates EI_Codes_Spec EI_Official EI_Facade
    EI_Xr_Props EI_Parser_Props EI_Sb_Props EI_Gate_Props
begin

text \<open>
  A verification development for two programs of the repository: the offline verifier
  \<open>verifier-py/verify_vh.py\<close> (theories \<open>VH_*\<close>) and the invoice validator
  \<open>einvoice/einvoice/\<close> (theories \<open>EI_*\<close>).

  Conventions.  A Python \<open>str\<close> is the list of its code points (\<open>pystr\<close>), \<open>None\<close> is the
  constructor of an option, \<open>bytes\<close> is a list of 8-bit words, \<open>int\<close> is \<open>int\<close> or, where no
  negative value arises, \<open>nat\<close>.  A call that can raise returns \<open>Inl\<close> of the exception or
  \<open>Inr\<close> of the value, combined by \<open>bindE\<close>.  Assignments to the attributes of an object under
  construction are updates of a record, in the order of the code.  A message with arguments is
  the list of its literal parts and arguments (\<open>fmt\<close>); no rule reads a message back, and the
  element path of a finding is turned into text where the facade reads it (\<open>path_text\<close>).

  The verifier (\<open>verify_vh.py\<close>).
  \<open>VH_Prelude\<close>, \<open>VH_Text\<close>: octets, strings, hexadecimal, the patterns of the seal's fields.
  \<open>VH_Keccak\<close>: the permutation, padding and sponge over Python integers (\<open>keccak256\<close>), refined to
  Keccak-f[1600] over 64-bit words with generated constants; \<open>VH_Keccak_Test\<close> evaluates a known
  answer.
  \<open>VH_Merkle\<close>: leaves, nodes, layers and \<open>root_from_flat\<close>; the locale \<open>digest32\<close> is the interface
  to the hash (32 octets), its interpretation \<open>kc\<close> the one of the code.  Equal roots bind the
  files or exhibit a collision.
  \<open>VH_Secp\<close>: modular inverse, the affine group operations, lifting, and the recovery of the signer.
  \<open>VH_Paths\<close>: \<open>posixpath\<close> and the reader confined to the base directory; \<open>realpath\<close> and reads
  are a parameter (\<open>fs\<close>-style environment), the operating system.
  \<open>VH_Engine\<close>: classification of the sealed files, the recomputed root, signature facts, the
  verdict, \<open>--exact-dir\<close>, the dispatch on the parsed artifact, argument parsing and exit codes.
  \<open>VH_Verdict\<close>, \<open>VH_Witness\<close>: soundness of ACCEPT, accepted runs with one sealed root agree
  on the files they read, the reason of a result from the entries of the seal, the exit-code
  contract.

  The validator (\<open>einvoice/einvoice/\<close>), from the file to the verdict.
  \<open>EI_XmlSec\<close> (\<open>_xmlsec.py\<close>): the hardened parser as a machine over the events of expat, with the
  limits on octets, levels and elements.  expat, a C library, is a parameter: the function from
  octets to events.  The theorems hold for every such function: the limits of accepted documents,
  and that a tree comes back from its own events.
  \<open>EI_Xml\<close>: element trees and the searches of \<open>xml.etree\<close> that the code uses.
  \<open>EI_Parser\<close> (\<open>parser.py\<close>, \<open>build_model\<close>) and \<open>EI_Parser_Cii\<close> (\<open>parser_cii.py\<close>): the normalised
  invoice of \<open>EI_Model\<close> from a UBL or CII tree, one definition for each block of the functions,
  composed in their order; \<open>cii_invoice\<close> extends \<open>invoice\<close> by the fields only the CII rules read,
  and \<open>core_invoice\<close> is the part the shared rules read.  \<open>EI_Parser_Props\<close>: lines and charges.
  \<open>EI_Decimal\<close> and \<open>EI_Float\<close>: \<open>decimal.Decimal\<close> under the default context (28 digits, halves to
  even, exponents to 999999), the helpers \<open>_dec\<close>, \<open>_q\<close>, \<open>_xr2\<close>, and the binary doubles of one CII
  test.  \<open>EI_Upper\<close>, \<open>EI_Word_Chars\<close>: \<open>str.upper\<close> and the class \<open>\w\<close>.
  \<open>EI_Rules_Core\<close>, \<open>EI_Rules_Codes\<close>, \<open>EI_Rules_Sums\<close>, \<open>EI_Rules_Vat\<close>, \<open>EI_Rules_Doc\<close>, \<open>EI_Rules\<close>
  (\<open>rules.py\<close>): every rule function and the table \<open>ALL_RULES\<close> in evaluation order;
  \<open>EI_Codelists\<close> (\<open>codelists.py\<close>): the pinned code lists.
  \<open>EI_Xr_Base\<close>, \<open>EI_Xr_Ubl\<close>, \<open>EI_Xr_Cii\<close> (\<open>rules_xrechnung.py\<close>) and \<open>EI_Peppol\<close>
  (\<open>rules_peppol.py\<close>): the national and Peppol rules of both syntaxes and their tables.
  \<open>EI_Validate\<close> (\<open>validate.py\<close>): dispatch on profile and root, the layers, the insertion points
  of absence findings and the result records; the remediation catalog, a data file, is a
  parameter (a lookup by rule identifier).  \<open>EI_Facade\<close>: \<open>validate_file\<close> and the theorems on it.
  \<open>EI_Sb\<close> (\<open>syntax_binding_eval.py\<close>): the compilation of the tests and contexts of the official
  catalog, the partition of the catalog into implemented and open entries, the two analyses of
  rules that an earlier rule of their pattern silences, and the evaluation over a document.  The
  catalog and the official Schematron file are parameters.  \<open>EI_Sb_Props\<close>: a model of the
  nodes of XPath (the document node, elements, attributes, the axes as a relation) and the
  compiled tests against their truth in it, the per-document index against the walk, the
  three-way exclusion, the shadow analysis, the partition.  The evaluator departs from XPath in
  one search, \<open>//\<close> with the name of the root (\<open>root_not_found\<close>).
  \<open>EI_Report\<close> (\<open>report.py\<close>): the records of findings, the report of a file (\<open>build_report\<close>) and of a
  directory, the exit codes.  \<open>EI_Render\<close> and \<open>EI_Sarif\<close>: the text, JUnit, GitHub, Azure, badge,
  SARIF and GitLab formats and the explanation of a rule.  \<open>EI_Gate\<close>: the baseline gate and the
  command line (\<open>report_main\<close>), with an exception that nothing catches as an outcome of its own.
  What these read from outside are the fields of \<open>world\<close> and \<open>report_env\<close>: expat, the catalogs, the
  text of a message, the container of a PDF, files, directories, \<open>json.load\<close>, SHA-256.
  \<open>EI_Escape\<close>: the escapes as codes of characters; the locale \<open>escaping\<close> is what a code owes its
  reader, interpreted on the escapes of GitHub, Azure and XML.  \<open>EI_Annotations\<close>: what a runner
  reads back from the output, the injection through the comment line, and the path in SARIF.
  \<open>EI_Report_Props\<close>, \<open>EI_Batch_Props\<close>, \<open>EI_Gate_Props\<close>: the exit code of a file is the verdict of
  the rules and of the syntax binding on it, and the outputs of all formats tell the number of
  fatal findings; directories, their exit code and the ranking of rules; the multiset difference
  and the gate, which compares the findings of the rules only.
  \<open>EI_Tame\<close>, \<open>EI_Total\<close>, \<open>EI_Run\<close>, \<open>EI_Xr_Run\<close>: which findings a run reports and in which order,
  when it returns and when it raises.  \<open>EI_Official\<close>, \<open>EI_Codes_Spec\<close>, \<open>EI_Dates\<close>,
  \<open>EI_Xr_Props\<close>: single rules against the official tests over the rationals (of the UBL artifact
  and of the CII artifact, where the two differ), against
  membership in the lists (the locale \<open>code_list\<close>, interpreted on every pinned list), on calendar
  dates, and the IBAN, attachment and payment rules.

  Bounds.  \<open>ruleset_returns\<close> asks for amounts of at most \<open>10 ^ 12\<close> with exponents of at most 60,
  which keeps every intermediate result within the 28 digits where it is quantized; the theorems
  of \<open>EI_Official\<close> take amounts below \<open>10 ^ 11\<close> with at most eight decimals.  No definition uses
  fuel: loops are structural recursions, or functions with a measure (\<open>pow_mod\<close>, \<open>xgcd\<close>,
  \<open>scalar_loop\<close>, \<open>fold_layers\<close>, \<open>to_ideal\<close>).

  Not modelled.  The HTML page of a report (\<open>build_html\<close>; a constructor stands for it), the console
  script (\<open>cli.py\<close>, \<open>config.py\<close>) and receipts (\<open>receipt.py\<close>), the PDF container
  (\<open>pdf_container.py\<close>, on zlib), coverage tables and the extraction of the syntax-binding catalog,
  the browser copies of the engine (byte-identical files under \<open>www/\<close>), the site generators, the
  differential and conformance harnesses.  Writing the output is taken to succeed (a name with
  lone surrogates can not be printed); the errors of expat are one event, whatever exception they
  raise; exceptions other than those of \<open>decimal\<close> do not occur in the national rules
  (\<open>total_rule\<close>), by the guards of the code and not by a theorem.  Python's limit of 4300 digits for
  \<open>int(str)\<close> and running out of memory or stack are left aside.
\<close>

end
